(* ===== verification/Prelude.thy ===== *)
theory Prelude
  imports
    Complex_Main
    "HOL-Library.Char_ord"
    "HOL-Library.List_Lexorder"
    "HOL-Library.Sublist"
    "HOL-Library.Word"
    "HOL-Library.AList"
begin

text \<open>
  What every component shares: the Go string functions the program calls, read over
  byte strings (a HOL \<^typ>\<open>string\<close> is a list of bytes, as a Go string is), decimal
  printing and parsing of integers, UTF-8 decoding of one rune, sorting and first-occurrence
  deduplication of names, Go maps read as association lists, Kubernetes conditions and the
  state-and-error passing in which the controllers are written.

  Bounds: the case folding of strings.EqualFold and strings.ToLower is the one of ASCII
  (with the two non-ASCII runes that fold to ASCII letters, U+212A and U+017F, for
  EqualFold); strings.TrimSpace removes the ASCII white space.
\<close>

named_theorems go_string "characterisations of the Go string functions"
named_theorems go_list "facts on deduplication, sorting and membership"
named_theorems keeps_rules "invariant preservation through the state-and-error combinators"

section \<open>Go strings\<close>

definition HasPrefix :: "string \<Rightarrow> string \<Rightarrow> bool" where
  "HasPrefix s p = (take (length p) s = p)"

definition HasSuffix :: "string \<Rightarrow> string \<Rightarrow> bool" where
  "HasSuffix s p = (length p \<le> length s \<and> drop (length s - length p) s = p)"

fun Index :: "string \<Rightarrow> string \<Rightarrow> nat option" where
  "Index s sub =
     (if HasPrefix s sub then Some 0
      else (case s of [] \<Rightarrow> None | _ # s' \<Rightarrow> map_option Suc (Index s' sub)))"

declare Index.simps [simp del]

definition Contains :: "string \<Rightarrow> string \<Rightarrow> bool" where
  "Contains s sub = (Index s sub \<noteq> None)"

fun SplitOn :: "char \<Rightarrow> string \<Rightarrow> string list" where
  "SplitOn c [] = [[]]"
| "SplitOn c (x # s) =
     (if x = c then [] # SplitOn c s
      else (case SplitOn c s of [] \<Rightarrow> [[x]] | p # ps \<Rightarrow> (x # p) # ps))"

fun Join :: "string list \<Rightarrow> string \<Rightarrow> string" where
  "Join [] sep = []"
| "Join [s] sep = s"
| "Join (s # t # ss) sep = s @ sep @ Join (t # ss) sep"

text \<open>strings.Cut on a one-byte separator: the parts around its first occurrence.\<close>

fun Cut :: "string \<Rightarrow> char \<Rightarrow> string \<times> string \<times> bool" where
  "Cut [] c = ([], [], False)"
| "Cut (x # s) c =
     (if x = c then ([], s, True)
      else (case Cut s c of (a, b, f) \<Rightarrow> (x # a, b, f)))"

definition is_space :: "char \<Rightarrow> bool" where
  "is_space c = (c \<in> {CHR 0x09, CHR 0x0A, CHR 0x0B, CHR 0x0C, CHR 0x0D, CHR 0x20})"

definition TrimSpace :: "string \<Rightarrow> string" where
  "TrimSpace s = rev (dropWhile is_space (rev (dropWhile is_space s)))"

definition TrimRight :: "char \<Rightarrow> string \<Rightarrow> string" where
  "TrimRight c s = rev (dropWhile (\<lambda>x. x = c) (rev s))"

text \<open>strings.ReplaceAll with a non-empty old string: left to right, not overlapping.\<close>

fun ReplaceAll :: "string \<Rightarrow> string \<Rightarrow> string \<Rightarrow> string" where
  "ReplaceAll [] old new = []"
| "ReplaceAll (x # s) old new =
     (if old \<noteq> [] \<and> HasPrefix (x # s) old
      then new @ ReplaceAll (drop (length old - 1) s) old new
      else x # ReplaceAll s old new)"

definition to_lower_char :: "char \<Rightarrow> char" where
  "to_lower_char c =
     (let n = of_char c :: nat in if 65 \<le> n \<and> n \<le> 90 then char_of (n + 32) else c)"

definition ToLower :: "string \<Rightarrow> string" where
  "ToLower s = map to_lower_char s"

text \<open>
  Case folding for strings.EqualFold. Of the runes outside ASCII only the Kelvin sign
  (E2 84 AA) and the long s (C5 BF) fold to ASCII letters, so that on a pair of strings of
  which one is ASCII the comparison of the folded byte strings is the comparison of Go.
\<close>

fun fold_case :: "string \<Rightarrow> string" where
  "fold_case [] = []"
| "fold_case (c # s) =
     (if c = CHR 0xE2 \<and> take 2 s = [CHR 0x84, CHR 0xAA] then CHR ''k'' # fold_case (drop 2 s)
      else if c = CHR 0xC5 \<and> take 1 s = [CHR 0xBF] then CHR ''s'' # fold_case (drop 1 s)
      else to_lower_char c # fold_case s)"

definition EqualFold :: "string \<Rightarrow> string \<Rightarrow> bool" where
  "EqualFold s t = (fold_case s = fold_case t)"

lemma HasPrefix_append [go_string]: "HasPrefix s p \<longleftrightarrow> (\<exists>r. s = p @ r)"
  by (auto simp: HasPrefix_def) (metis append_take_drop_id)

lemma HasPrefix_drop: "HasPrefix s p \<Longrightarrow> s = p @ drop (length p) s"
  by (auto simp: HasPrefix_def) (metis append_take_drop_id)

lemma HasPrefix_simps [simp]:
  "HasPrefix s []"
  "HasPrefix (p @ r) p"
  "HasPrefix [] (x # p) = False"
  "HasPrefix (y # s) (x # p) = (y = x \<and> HasPrefix s p)"
  by (auto simp: HasPrefix_def)

lemma HasSuffix_append [go_string]: "HasSuffix s p \<longleftrightarrow> (\<exists>r. s = r @ p)"
  by (auto simp: HasSuffix_def) (metis append_take_drop_id)

lemma Index_Some_split:
  "Index s sub = Some i \<Longrightarrow> s = take i s @ sub @ drop (i + length sub) s"
proof (induction s sub arbitrary: i rule: Index.induct)
  case (1 s sub)
  show ?case
  proof (cases "HasPrefix s sub")
    case True
    then show ?thesis using 1(2) HasPrefix_drop [OF True] by (simp add: Index.simps [of s])
  next
    case False
    then obtain x s' j where s: "s = x # s'" and j: "Index s' sub = Some j" "i = Suc j"
      using 1(2) by (auto simp: Index.simps [of s] split: list.splits)
    show ?thesis using 1(1) [OF False s j(1)] j(2) s by simp
  qed
qed

lemma Index_leftmost: "s = a @ sub @ b \<Longrightarrow> \<exists>i. Index s sub = Some i \<and> i \<le> length a"
proof (induction a arbitrary: s)
  case Nil
  then show ?case by (simp add: Index.simps [of "sub @ b"])
next
  case (Cons x a)
  from Cons.IH [OF refl] obtain i where "Index (a @ sub @ b) sub = Some i" "i \<le> length a" by blast
  with Cons.prems show ?case by (auto simp: Index.simps [of "x # a @ sub @ b"])
qed

lemma Index_None: "Index s sub = None \<longleftrightarrow> (\<nexists>a b. s = a @ sub @ b)"
  using Index_Some_split Index_leftmost by (metis not_Some_eq)

lemma Contains_iff [go_string]: "Contains s sub \<longleftrightarrow> (\<exists>a b. s = a @ sub @ b)"
  using Index_None [of s sub] by (auto simp: Contains_def)

lemma SplitOn_nonempty [simp]: "SplitOn c s \<noteq> []"
  by (cases s) (auto split: list.splits)

lemma Join_SplitOn [simp]: "Join (SplitOn c s) [c] = s"
proof (induction s)
  case (Cons x s)
  obtain p ps where p: "SplitOn c s = p # ps" by (cases "SplitOn c s") auto
  show ?case using Cons p by (cases ps) auto
qed simp

lemma SplitOn_parts: "p \<in> set (SplitOn c s) \<Longrightarrow> c \<notin> set p"
  by (induction s arbitrary: p) (auto split: if_splits list.splits)

lemma SplitOn_no_sep: "c \<notin> set s \<Longrightarrow> SplitOn c s = [s]"
  by (induction s) auto

lemma SplitOn_append_sep: "c \<notin> set p \<Longrightarrow> SplitOn c (p @ c # s) = p # SplitOn c s"
  by (induction p) auto

lemma SplitOn_Join:
  "ps \<noteq> [] \<Longrightarrow> (\<And>p. p \<in> set ps \<Longrightarrow> c \<notin> set p) \<Longrightarrow> SplitOn c (Join ps [c]) = ps"
  by (induction ps "[c]" rule: Join.induct) (auto simp: SplitOn_no_sep SplitOn_append_sep)

lemma Cut_found: "c \<notin> set a \<Longrightarrow> Cut (a @ c # b) c = (a, b, True)"
  by (induction a) auto

lemma Cut_absent: "c \<notin> set s \<Longrightarrow> Cut s c = (s, [], False)"
  by (induction s) auto

lemma EqualFold_refl [simp]: "EqualFold s s" by (simp add: EqualFold_def)

lemma EqualFold_sym: "EqualFold s t \<Longrightarrow> EqualFold t s" by (simp add: EqualFold_def)

lemma EqualFold_trans: "EqualFold s t \<Longrightarrow> EqualFold t u \<Longrightarrow> EqualFold s u"
  by (simp add: EqualFold_def)

section \<open>Integers as text\<close>

definition digit_char :: "nat \<Rightarrow> char" where
  "digit_char d = char_of (48 + d)"

definition digit_val :: "char \<Rightarrow> nat option" where
  "digit_val c = (let n = of_char c :: nat in if 48 \<le> n \<and> n \<le> 57 then Some (n - 48) else None)"

fun nat_digits :: "nat \<Rightarrow> string" where
  "nat_digits n = (if n < 10 then [digit_char n] else nat_digits (n div 10) @ [digit_char (n mod 10)])"

declare nat_digits.simps [simp del]

definition Itoa :: "int \<Rightarrow> string" where
  "Itoa i = (if i < 0 then CHR ''-'' # nat_digits (nat (- i)) else nat_digits (nat i))"

fun digits_val :: "nat \<Rightarrow> string \<Rightarrow> nat option" where
  "digits_val acc [] = Some acc"
| "digits_val acc (c # s) =
     (case digit_val c of None \<Rightarrow> None | Some d \<Rightarrow> digits_val (acc * 10 + d) s)"

definition min_int64 :: int where "min_int64 = - (2 ^ 63)"
definition max_int64 :: int where "max_int64 = 2 ^ 63 - 1"

text \<open>
  strconv.ParseInt (s, 10, 64): an optional sign, at least one decimal digit, the value in
  the range of int64; None for the syntax and the range error (underscores are only
  accepted for base 0).
\<close>

definition ParseInt64 :: "string \<Rightarrow> int option" where
  "ParseInt64 s =
     (let (neg, ds) = (case s of c # t \<Rightarrow>
                         if c = CHR ''-'' then (True, t)
                         else if c = CHR ''+'' then (False, t) else (False, s)
                       | [] \<Rightarrow> (False, []))
      in if ds = [] then None
         else (case digits_val 0 ds of
                 None \<Rightarrow> None
               | Some n \<Rightarrow>
                   (let i = (if neg then - int n else int n)
                    in if min_int64 \<le> i \<and> i \<le> max_int64 then Some i else None)))"

text \<open>The value strconv.Atoi returns beside its error: 0 for bad syntax, the nearest int64 for a
  number out of range.\<close>

definition AtoiValue :: "string \<Rightarrow> int" where
  "AtoiValue s =
     (case ParseInt64 s of
        Some i \<Rightarrow> i
      | None \<Rightarrow>
         (let (neg, ds) = (case s of c # t \<Rightarrow>
                             if c = CHR ''-'' then (True, t)
                             else if c = CHR ''+'' then (False, t) else (False, s)
                           | [] \<Rightarrow> (False, []))
          in if ds = [] \<or> digits_val 0 ds = None then 0
             else if neg then min_int64 else max_int64))"

text \<open>
  The %q verb (strconv.Quote) on bytes: the escapes of Go, hexadecimal ones for the other control
  characters; a byte outside ASCII stays as it is, which is what Quote does with printable UTF-8.
\<close>

definition escapes :: "(char \<times> char) list" where
  "escapes = [(CHR 0x22, CHR 0x22), (CHR 0x5C, CHR 0x5C), (CHR 0x07, CHR ''a''), (CHR 0x08, CHR ''b''),
     (CHR 0x0C, CHR ''f''), (CHR 0x0A, CHR ''n''), (CHR 0x0D, CHR ''r''), (CHR 0x09, CHR ''t''),
     (CHR 0x0B, CHR ''v'')]"

definition hex_digit :: "nat \<Rightarrow> char" where
  "hex_digit d = (if d < 10 then char_of (48 + d) else char_of (87 + d))"

definition quote_char :: "char \<Rightarrow> string" where
  "quote_char c =
     (case map_of escapes c of
        Some e \<Rightarrow> [CHR 0x5C, e]
      | None \<Rightarrow>
         (let n = of_char c :: nat in
          if n < 32 \<or> n = 127 then [CHR 0x5C, CHR ''x'', hex_digit (n div 16), hex_digit (n mod 16)]
          else [c]))"

definition quote_body :: "string \<Rightarrow> string" where
  "quote_body s = concat (map quote_char s)"

definition Quote :: "string \<Rightarrow> string" where
  "Quote s = [CHR 0x22] @ quote_body s @ [CHR 0x22]"

text \<open>Reading one character of a quoted text back.\<close>

definition hex_val :: "char \<Rightarrow> nat" where
  "hex_val c = (let n = of_char c :: nat in if n < 58 then n - 48 else n - 87)"

fun unquote_char :: "string \<Rightarrow> (char \<times> string) option" where
  "unquote_char [] = None"
| "unquote_char (c # r) =
     (if c = CHR 0x22 then None
      else if c \<noteq> CHR 0x5C then Some (c, r)
      else (case r of
              [] \<Rightarrow> None
            | e # r' \<Rightarrow>
               (case map_of (map (\<lambda>(a, b). (b, a)) escapes) e of
                  Some a \<Rightarrow> Some (a, r')
                | None \<Rightarrow> Some (char_of (16 * hex_val (hd (tl r)) + hex_val (hd (tl (tl r)))), drop 3 r))))"

lemma hex_val_digit: "d < 16 \<Longrightarrow> hex_val (hex_digit d) = d"
  by (auto simp: hex_val_def hex_digit_def)

lemma escapes_inverse:
  "map_of escapes c = Some e \<Longrightarrow> map_of (map (\<lambda>(a, b). (b, a)) escapes) e = Some c"
  by (auto simp: escapes_def split: if_splits)

lemma unquote_quote_char: "unquote_char (quote_char c @ r) = Some (c, r)"
proof (cases "map_of escapes c")
  case (Some e)
  then show ?thesis by (simp add: quote_char_def escapes_inverse)
next
  case None
  then have plain: "c \<noteq> CHR 0x22" "c \<noteq> CHR 0x5C" by (auto simp: escapes_def)
  have x: "map_of (map (\<lambda>(a, b). (b, a)) escapes) (CHR ''x'') = None" by (simp add: escapes_def)
  have "(of_char c :: nat) < 256" by (metis of_char_eq_iff of_char_mod_256 mod_less_divisor zero_less_numeral)
  then have "(of_char c :: nat) div 16 < 16" "(of_char c :: nat) mod 16 < 16"
    by (simp_all add: less_mult_imp_div_less)
  then have "char_of (16 * hex_val (hex_digit (of_char c div 16)) + hex_val (hex_digit (of_char c mod 16))) = c"
    by (simp add: hex_val_digit)
  then show ?thesis using None plain x by (simp add: quote_char_def Let_def)
qed

lemma quote_char_nonempty [simp]: "quote_char c \<noteq> []"
  by (auto simp: quote_char_def Let_def split: option.splits)

lemma quote_body_simps [simp]: "quote_body [] = []" "quote_body (c # s) = quote_char c @ quote_body s"
  by (simp_all add: quote_body_def)

lemma quote_body_inject:
  "quote_body s @ CHR 0x22 # r = quote_body s' @ CHR 0x22 # r' \<Longrightarrow> s = s' \<and> r = r'"
proof (induction s arbitrary: s')
  case Nil
  then show ?case
  proof (cases s')
    case (Cons c t)
    have "unquote_char (CHR 0x22 # r) = Some (c, quote_body t @ CHR 0x22 # r')"
      using Nil Cons by (simp add: unquote_quote_char)
    then show ?thesis by simp
  qed simp
next
  case (Cons c s)
  show ?case
  proof (cases s')
    case Nil
    have "unquote_char (quote_char c @ quote_body s @ CHR 0x22 # r) = unquote_char (CHR 0x22 # r')"
      using Cons.prems Nil by simp
    then show ?thesis by (simp add: unquote_quote_char)
  next
    case (Cons d t)
    have "unquote_char (quote_char c @ quote_body s @ CHR 0x22 # r) =
          unquote_char (quote_char d @ quote_body t @ CHR 0x22 # r')"
      using Cons.prems \<open>s' = d # t\<close> by simp
    then have "c = d \<and> quote_body s @ CHR 0x22 # r = quote_body t @ CHR 0x22 # r'"
      by (simp only: unquote_quote_char option.inject prod.inject)
    then show ?thesis using Cons.IH \<open>s' = d # t\<close> by blast
  qed
qed

text \<open>The quoted text ends at its closing quote whatever follows it, and determines the text.\<close>

lemma Quote_append_inject: "Quote s @ r = Quote s' @ r' \<longleftrightarrow> s = s' \<and> r = r'"
  using quote_body_inject [of s r s' r'] by (auto simp: Quote_def)

lemma hex_digit_no_newline: "d < 16 \<Longrightarrow> hex_digit d \<noteq> CHR 0x0A"
  by (auto simp: hex_digit_def dest!: arg_cong [of _ _ "of_char :: char \<Rightarrow> nat"] split: if_splits)

lemma quote_char_no_newline: "CHR 0x0A \<notin> set (quote_char c)"
proof (cases "map_of escapes c")
  case (Some e)
  then have "e \<in> snd ` set escapes" by (metis map_of_SomeD image_iff snd_conv)
  then show ?thesis using Some by (auto simp: quote_char_def escapes_def)
next
  case None
  then have "c \<noteq> CHR 0x0A" by (auto simp: escapes_def)
  moreover have "(of_char c :: nat) < 256"
    by (metis of_char_eq_iff of_char_mod_256 mod_less_divisor zero_less_numeral)
  then have "(of_char c :: nat) div 16 < 16" "(of_char c :: nat) mod 16 < 16"
    by (simp_all add: less_mult_imp_div_less)
  note this [THEN hex_digit_no_newline]
  ultimately show ?thesis using None by (auto simp: quote_char_def Let_def)
qed

lemma Quote_no_newline: "CHR 0x0A \<notin> set (Quote s)"
  by (induction s) (auto simp: Quote_def quote_char_no_newline)

lemma digit_val_char [simp]: "d < 10 \<Longrightarrow> digit_val (digit_char d) = Some d"
  by (simp add: digit_val_def digit_char_def)

lemma digits_val_append:
  "digits_val acc (s @ t) = (case digits_val acc s of None \<Rightarrow> None | Some a \<Rightarrow> digits_val a t)"
  by (induction acc s rule: digits_val.induct) (auto split: option.splits)

lemma digits_val_nat_digits [simp]: "digits_val 0 (nat_digits n) = Some n"
proof (induction n rule: nat_digits.induct)
  case (1 n)
  then show ?case by (cases "n < 10") (auto simp: nat_digits.simps [of n] digits_val_append)
qed

lemma nat_digits_nonempty [simp]: "nat_digits n \<noteq> []"
  by (subst nat_digits.simps) simp

lemma digit_char_code: "d < 10 \<Longrightarrow> of_char (digit_char d) = (48 + d :: nat)"
  by (simp add: digit_char_def)

lemma nat_digits_chars: "c \<in> set (nat_digits n) \<Longrightarrow> 48 \<le> (of_char c :: nat) \<and> (of_char c :: nat) \<le> 57"
proof (induction n rule: nat_digits.induct)
  case (1 n)
  show ?case
  proof (cases "n < 10")
    case True
    then show ?thesis using 1 by (auto simp: nat_digits.simps [of n] digit_char_code)
  next
    case False
    have "(48::nat) \<le> of_char (digit_char (n mod 10)) \<and> of_char (digit_char (n mod 10)) \<le> (57::nat)"
      using digit_char_code [of "n mod 10"] by simp
    then show ?thesis using 1 False by (auto simp: nat_digits.simps [of n])
  qed
qed

lemma ParseInt64_Itoa:
  assumes "min_int64 \<le> i" "i \<le> max_int64"
  shows "ParseInt64 (Itoa i) = Some i"
proof (cases "i < 0")
  case True
  then show ?thesis using assms by (simp add: ParseInt64_def Itoa_def)
next
  case False
  obtain c t where ct: "nat_digits (nat i) = c # t" by (cases "nat_digits (nat i)") auto
  then have "c \<in> set (nat_digits (nat i))" by simp
  then have "c \<noteq> CHR ''-''" "c \<noteq> CHR ''+''" using nat_digits_chars by fastforce+
  moreover have "digits_val 0 (c # t) = Some (nat i)" using digits_val_nat_digits ct by metis
  ultimately show ?thesis using assms False ct
    by (simp add: ParseInt64_def Itoa_def)
qed

section \<open>Options\<close>

lemma case_option_ex:
  "(case x of None \<Rightarrow> False | Some v \<Rightarrow> P v) \<longleftrightarrow> (\<exists>v. x = Some v \<and> P v)"
  by (cases x) auto

lemma case_option_all:
  "(case x of None \<Rightarrow> True | Some v \<Rightarrow> P v) \<longleftrightarrow> (\<forall>v. x = Some v \<longrightarrow> P v)"
  by (cases x) auto

section \<open>Names: sorting and first occurrences\<close>

text \<open>slices.Compact: runs of equal neighbours become one element.\<close>

fun Compact :: "'a list \<Rightarrow> 'a list" where
  "Compact [] = []"
| "Compact [x] = [x]"
| "Compact (x # y # xs) = (if x = y then Compact (y # xs) else x # Compact (y # xs))"

lemma set_Compact [simp, go_list]: "set (Compact xs) = set xs"
  by (induction xs rule: Compact.induct) auto

lemma Compact_sorted: "sorted xs \<Longrightarrow> sorted (Compact xs) \<and> distinct (Compact xs)"
proof (induction xs rule: Compact.induct)
  case (3 x y xs)
  then have IH: "sorted (Compact (y # xs))" "distinct (Compact (y # xs))"
    by (cases "x = y"; simp)+
  show ?case
  proof (cases "x = y")
    case False
    have "\<forall>z \<in> set (y # xs). x \<le> z" using 3(3) by auto
    moreover have "x \<notin> set (y # xs)"
      using False 3(3) by (auto dest: order_antisym)
    ultimately show ?thesis using IH False by simp
  qed (use IH in simp)
qed simp_all

definition sort_compact :: "'a :: linorder list \<Rightarrow> 'a list" where
  "sort_compact xs = Compact (sort xs)"

lemma sort_compact_props [go_list]:
  "set (sort_compact xs) = set xs" "sorted (sort_compact xs)" "distinct (sort_compact xs)"
  using Compact_sorted [OF sorted_sort [of xs]] by (simp_all add: sort_compact_def)

lemma sort_compact_cong: "set xs = set ys \<Longrightarrow> sort_compact xs = sort_compact ys"
  by (rule sorted_distinct_set_unique) (simp_all add: sort_compact_props)

text \<open>Keeping the first occurrence of each element, as a loop over a seen map does.\<close>

fun keep_first :: "'a list \<Rightarrow> 'a list \<Rightarrow> 'a list" where
  "keep_first seen [] = []"
| "keep_first seen (x # xs) =
     (if x \<in> set seen then keep_first seen xs else x # keep_first (x # seen) xs)"

lemma keep_first_set: "set (keep_first seen xs) = set xs - set seen"
  by (induction seen xs rule: keep_first.induct) auto

lemma keep_first_distinct: "distinct (keep_first seen xs)"
  by (induction seen xs rule: keep_first.induct) (auto simp: keep_first_set)

section \<open>Go maps with string keys\<close>

type_synonym 'v smap = "(string \<times> 'v) list"

abbreviation sget :: "'v smap \<Rightarrow> string \<Rightarrow> 'v option" where
  "sget m k \<equiv> map_of m k"

definition sput :: "string \<Rightarrow> 'v \<Rightarrow> 'v smap \<Rightarrow> 'v smap" where
  "sput k v m = AList.update k v m"

definition sdel :: "string \<Rightarrow> 'v smap \<Rightarrow> 'v smap" where
  "sdel k m = AList.delete k m"

text \<open>Reading a string map without the presence flag: the zero value when absent.\<close>

definition sval :: "string smap \<Rightarrow> string \<Rightarrow> string" where
  "sval m k = (case sget m k of None \<Rightarrow> [] | Some v \<Rightarrow> v)"

lemma sget_sput [simp]: "sget (sput k v m) k' = (if k = k' then Some v else sget m k')"
  by (simp add: sput_def update_conv')

lemma sget_sdel [simp]: "sget (sdel k m) k' = (if k = k' then None else sget m k')"
  by (simp add: sdel_def delete_conv')

lemma sval_sput [simp]: "sval (sput k v m) k' = (if k = k' then v else sval m k')"
  by (simp add: sval_def)

lemma sval_sdel [simp]: "sval (sdel k m) k' = (if k = k' then [] else sval m k')"
  by (simp add: sval_def)

section \<open>64-bit signed arithmetic\<close>

text \<open>An int64 is an integer in the range of the type; an operation wraps around.\<close>

definition wrap64 :: "int \<Rightarrow> int" where
  "wrap64 i = (i + 2 ^ 63) mod 2 ^ 64 - 2 ^ 63"

definition in_int64 :: "int \<Rightarrow> bool" where
  "in_int64 i = (min_int64 \<le> i \<and> i \<le> max_int64)"

lemma wrap64_in [simp]: "in_int64 (wrap64 i)"
proof -
  have "0 \<le> (i + 2 ^ 63) mod 2 ^ 64" "(i + 2 ^ 63) mod 2 ^ 64 < (2 ^ 64 :: int)" by simp_all
  then show ?thesis unfolding in_int64_def wrap64_def min_int64_def max_int64_def by auto
qed

lemma wrap64_id: "in_int64 i \<Longrightarrow> wrap64 i = i"
  by (simp add: wrap64_def in_int64_def min_int64_def max_int64_def)

lemma wrap64_sint: "wrap64 i = sint (word_of_int i :: 64 word)"
  by (simp add: wrap64_def sint_sbintrunc' signed_take_bit_eq_take_bit_shift take_bit_eq_mod)

text \<open>time.Time.Sub: the difference in nanoseconds, saturated to the range of a Duration.\<close>

definition time_sub :: "int \<Rightarrow> int \<Rightarrow> int" where
  "time_sub a b = max min_int64 (min max_int64 (a - b))"

section \<open>Operations with state and errors\<close>

text \<open>
  A Go function that reads and changes the state and may return an error: from a state to the
  error or the result, and the new state (which is kept on an error, as in Go).
\<close>

type_synonym ('s, 'e, 'a) op = "'s \<Rightarrow> ('e + 'a) \<times> 's"

definition ret :: "'a \<Rightarrow> ('s, 'e, 'a) op" where
  "ret x = (\<lambda>s. (Inr x, s))"

definition throw :: "'e \<Rightarrow> ('s, 'e, 'a) op" where
  "throw e = (\<lambda>s. (Inl e, s))"

definition bnd :: "('s, 'e, 'a) op \<Rightarrow> ('a \<Rightarrow> ('s, 'e, 'b) op) \<Rightarrow> ('s, 'e, 'b) op" where
  "bnd m f = (\<lambda>s. case m s of (Inl e, s') \<Rightarrow> (Inl e, s') | (Inr x, s') \<Rightarrow> f x s')"

definition thn :: "('s, 'e, 'a) op \<Rightarrow> ('s, 'e, 'b) op \<Rightarrow> ('s, 'e, 'b) op" where
  "thn m n = bnd m (\<lambda>_. n)"

text \<open>Inspecting an error instead of returning it: both outcomes as a value.\<close>

definition outcome :: "('s, 'e, 'a) op \<Rightarrow> ('s, 'f, 'e + 'a) op" where
  "outcome m = (\<lambda>s. case m s of (r, s') \<Rightarrow> (Inr r, s'))"

definition reads :: "('s \<Rightarrow> 'a) \<Rightarrow> ('s, 'e, 'a) op" where
  "reads f = (\<lambda>s. (Inr (f s), s))"

definition modify :: "('s \<Rightarrow> 's) \<Rightarrow> ('s, 'e, unit) op" where
  "modify f = (\<lambda>s. (Inr (), f s))"

text \<open>Every final state of the operation satisfies the invariant if the initial one does.\<close>

definition keeps :: "('s \<Rightarrow> bool) \<Rightarrow> ('s, 'e, 'a) op \<Rightarrow> bool" where
  "keeps I m = (\<forall>s. I s \<longrightarrow> I (snd (m s)))"

lemma keepsD: "keeps I m \<Longrightarrow> I s \<Longrightarrow> m s = (r, s') \<Longrightarrow> I s'"
  by (auto simp: keeps_def dest: spec [of _ s])

lemma keeps_ret [keeps_rules, intro!]: "keeps I (ret x)"
  by (simp add: keeps_def ret_def)

lemma keeps_throw [keeps_rules, intro!]: "keeps I (throw e)"
  by (simp add: keeps_def throw_def)

lemma keeps_reads [keeps_rules, intro!]: "keeps I (reads f)"
  by (simp add: keeps_def reads_def)

lemma keeps_modify: "(\<And>s. I s \<Longrightarrow> I (f s)) \<Longrightarrow> keeps I (modify f)"
  by (simp add: keeps_def modify_def)

lemma keeps_bnd [keeps_rules]:
  "keeps I m \<Longrightarrow> (\<And>x. keeps I (f x)) \<Longrightarrow> keeps I (bnd m f)"
  by (auto simp: keeps_def bnd_def split: prod.splits sum.splits)

lemma keeps_thn [keeps_rules]: "keeps I m \<Longrightarrow> keeps I n \<Longrightarrow> keeps I (thn m n)"
  unfolding thn_def by (rule keeps_bnd)

lemma keeps_outcome [keeps_rules]: "keeps I m \<Longrightarrow> keeps I (outcome m)"
  by (auto simp: keeps_def outcome_def split: prod.splits)

lemma keeps_if [keeps_rules]:
  "(c \<Longrightarrow> keeps I m) \<Longrightarrow> (\<not> c \<Longrightarrow> keeps I n) \<Longrightarrow> keeps I (if c then m else n)"
  by simp

lemma keeps_case_option [keeps_rules]:
  "(x = None \<Longrightarrow> keeps I m) \<Longrightarrow> (\<And>v. x = Some v \<Longrightarrow> keeps I (f v)) \<Longrightarrow>
   keeps I (case x of None \<Rightarrow> m | Some v \<Rightarrow> f v)"
  by (cases x) auto

lemma keeps_case_sum [keeps_rules]:
  "(\<And>e. x = Inl e \<Longrightarrow> keeps I (g e)) \<Longrightarrow> (\<And>v. x = Inr v \<Longrightarrow> keeps I (f v)) \<Longrightarrow>
   keeps I (case x of Inl e \<Rightarrow> g e | Inr v \<Rightarrow> f v)"
  by (cases x) auto

lemma keeps_case_prod [keeps_rules]:
  "(\<And>a b. x = (a, b) \<Longrightarrow> keeps I (f a b)) \<Longrightarrow> keeps I (case x of (a, b) \<Rightarrow> f a b)"
  by (cases x) auto

lemma bnd_Inr: "m s = (Inr x, s') \<Longrightarrow> bnd m f s = f x s'"
  by (simp add: bnd_def)

lemma bnd_Inl: "m s = (Inl e, s') \<Longrightarrow> bnd m f s = (Inl e, s')"
  by (simp add: bnd_def)

lemma thn_Inr: "m s = (Inr x, s') \<Longrightarrow> thn m n s = n s'"
  by (simp add: thn_def bnd_def)

lemma thn_Inl: "m s = (Inl e, s') \<Longrightarrow> thn m n s = (Inl e, s')"
  by (simp add: thn_def bnd_def)

lemma op_simps:
  "ret x s = (Inr x, s)" "throw e s = (Inl e, s)" "reads g s = (Inr (g s), s)"
  "modify h s = (Inr (), h s)" "outcome m s = (Inr (fst (m s)), snd (m s))"
  by (simp_all add: ret_def throw_def reads_def modify_def outcome_def split: prod.split)

lemmas op_steps = op_simps bnd_Inr bnd_Inl thn_Inr thn_Inl

section \<open>What an operation calls\<close>

named_theorems only_rules "which calls an operation can make"

text \<open>The operation extends the history (read by \<open>hs\<close>) by calls satisfying \<open>P\<close> only.\<close>

definition only :: "('s \<Rightarrow> 'c list) \<Rightarrow> ('c \<Rightarrow> bool) \<Rightarrow> ('s, 'e, 'a) op \<Rightarrow> bool" where
  "only hs P m = (\<forall>s. \<exists>cs. hs (snd (m s)) = hs s @ cs \<and> list_all P cs)"

lemma onlyD:
  "only hs P m \<Longrightarrow> m s = (r, s') \<Longrightarrow> \<exists>cs. hs s' = hs s @ cs \<and> list_all P cs"
  unfolding only_def by (metis snd_conv)

lemma onlyI:
  "(\<And>s r s'. m s = (r, s') \<Longrightarrow> \<exists>cs. hs s' = hs s @ cs \<and> list_all P cs) \<Longrightarrow> only hs P m"
  unfolding only_def by (metis prod.collapse)

lemma only_weaken: "only hs P m \<Longrightarrow> (\<And>c. P c \<Longrightarrow> Q c) \<Longrightarrow> only hs Q m"
  unfolding only_def list_all_iff by blast

lemma only_ret [only_rules]: "only hs P (ret x)"
  by (simp add: only_def ret_def)

lemma only_throw [only_rules]: "only hs P (throw e)"
  by (simp add: only_def throw_def)

lemma only_reads [only_rules]: "only hs P (reads f)"
  by (simp add: only_def reads_def)

lemma only_modify: "(\<And>s. hs (f s) = hs s) \<Longrightarrow> only hs P (modify f)"
  by (simp add: only_def modify_def)

lemma only_bnd [only_rules]:
  assumes "only hs P m" "\<And>x. only hs P (f x)"
  shows "only hs P (bnd m f)"
  unfolding only_def
proof
  fix s
  obtain r s' where ms: "m s = (r, s')" by (cases "m s")
  obtain cs where cs: "hs s' = hs s @ cs" "list_all P cs" using onlyD [OF assms(1) ms] by blast
  show "\<exists>cs. hs (snd (bnd m f s)) = hs s @ cs \<and> list_all P cs"
  proof (cases r)
    case (Inl e)
    then show ?thesis using cs ms by (auto simp: bnd_def)
  next
    case (Inr x)
    obtain ds where "hs (snd (f x s')) = hs s' @ ds" "list_all P ds"
      using assms(2) unfolding only_def by blast
    then have "hs (snd (bnd m f s)) = hs s @ (cs @ ds) \<and> list_all P (cs @ ds)"
      using cs ms Inr by (simp add: bnd_def)
    then show ?thesis by blast
  qed
qed

lemma only_thn [only_rules]: "only hs P m \<Longrightarrow> only hs P n \<Longrightarrow> only hs P (thn m n)"
  unfolding thn_def by (rule only_bnd)

lemma only_outcome [only_rules]: "only hs P m \<Longrightarrow> only hs P (outcome m)"
  by (rule onlyI) (auto simp: outcome_def split: prod.splits dest: onlyD)

lemma only_if [only_rules]:
  "(c \<Longrightarrow> only hs P m) \<Longrightarrow> (\<not> c \<Longrightarrow> only hs P n) \<Longrightarrow> only hs P (if c then m else n)"
  by simp

lemma only_case_option [only_rules]:
  "(x = None \<Longrightarrow> only hs P m) \<Longrightarrow> (\<And>v. x = Some v \<Longrightarrow> only hs P (f v)) \<Longrightarrow>
   only hs P (case x of None \<Rightarrow> m | Some v \<Rightarrow> f v)"
  by (cases x) auto

lemma only_case_sum [only_rules]:
  "(\<And>e. x = Inl e \<Longrightarrow> only hs P (g e)) \<Longrightarrow> (\<And>v. x = Inr v \<Longrightarrow> only hs P (f v)) \<Longrightarrow>
   only hs P (case x of Inl e \<Rightarrow> g e | Inr v \<Rightarrow> f v)"
  by (cases x) auto

lemma only_case_prod [only_rules]:
  "(\<And>a b. x = (a, b) \<Longrightarrow> only hs P (f a b)) \<Longrightarrow> only hs P (case x of (a, b) \<Rightarrow> f a b)"
  by (cases x) auto

lemma only_let [only_rules]: "only hs P (f x) \<Longrightarrow> only hs P (Let x f)"
  by (simp add: Let_def)

lemma only_foldr [only_rules]:
  "(\<And>x. only hs P (f x)) \<Longrightarrow> only hs P n \<Longrightarrow> only hs P (foldr (\<lambda>x rest. thn (f x) rest) xs n)"
  by (induction xs) (auto intro: only_thn)

lemma keeps_let [keeps_rules]: "keeps I (f x) \<Longrightarrow> keeps I (Let x f)"
  by (simp add: Let_def)

text \<open>A loop over a list that collects one result per element and stops at the first error.\<close>

fun each :: "('a \<Rightarrow> ('s, 'e, 'b) op) \<Rightarrow> 'a list \<Rightarrow> ('s, 'e, 'b list) op" where
  "each f [] = ret []"
| "each f (x # xs) = bnd (f x) (\<lambda>y. bnd (each f xs) (\<lambda>ys. ret (y # ys)))"

lemma keeps_each [keeps_rules]: "(\<And>x. keeps I (f x)) \<Longrightarrow> keeps I (each f xs)"
  by (induction xs) (auto intro!: keeps_rules)

lemma only_each [only_rules]: "(\<And>x. only hs P (f x)) \<Longrightarrow> only hs P (each f xs)"
  by (induction xs) (auto intro!: only_rules)

section \<open>Inverting a successful run\<close>

lemma bnd_InrE:
  assumes "bnd m f s = (Inr y, s')"
  obtains x s1 where "m s = (Inr x, s1)" "f x s1 = (Inr y, s')"
  using assms by (auto simp: bnd_def split: prod.splits sum.splits)

lemma thn_InrE:
  assumes "thn m n s = (Inr y, s')"
  obtains x s1 where "m s = (Inr x, s1)" "n s1 = (Inr y, s')"
  using assms unfolding thn_def by (rule bnd_InrE)

lemma reads_InrE: "reads f s = (Inr x, s') \<Longrightarrow> x = f s \<and> s' = s"
  by (auto simp: reads_def)

lemma ret_InrE: "ret x s = (Inr y, s') \<Longrightarrow> y = x \<and> s' = s"
  by (auto simp: ret_def)

lemma throw_InrE: "throw e s = (Inr y, s') \<Longrightarrow> False"
  by (simp add: throw_def)

lemma outcome_InrE:
  assumes "outcome m s = (Inr r, s')"
  shows "m s = (r, s')"
  using assms by (auto simp: outcome_def split: prod.splits)

lemma keeps_conj: "keeps I m \<Longrightarrow> keeps J m \<Longrightarrow> keeps (\<lambda>s. I s \<and> J s) m"
  by (simp add: keeps_def)

lemma only_keeps:
  assumes "only hs P m"
  shows "keeps (\<lambda>t. \<exists>cs. hs t = h0 @ cs \<and> list_all P cs) m"
  unfolding keeps_def
proof (intro allI impI)
  fix s assume "\<exists>cs. hs s = h0 @ cs \<and> list_all P cs"
  then obtain cs where cs: "hs s = h0 @ cs" "list_all P cs" by blast
  obtain ds where ds: "hs (snd (m s)) = hs s @ ds" "list_all P ds"
    using assms unfolding only_def by blast
  then show "\<exists>cs. hs (snd (m s)) = h0 @ cs \<and> list_all P cs"
    using cs by (intro exI [of _ "cs @ ds"]) simp
qed

section \<open>What holds after a successful run\<close>

named_theorems ends_rules "what holds after a successful run of an operation"

definition ends :: "('s \<Rightarrow> bool) \<Rightarrow> ('s, 'e, 'a) op \<Rightarrow> ('a \<Rightarrow> 's \<Rightarrow> bool) \<Rightarrow> bool" where
  "ends I m Q = (\<forall>s x s'. I s \<longrightarrow> m s = (Inr x, s') \<longrightarrow> Q x s')"

lemma endsD: "ends I m Q \<Longrightarrow> I s \<Longrightarrow> m s = (Inr x, s') \<Longrightarrow> Q x s'"
  by (auto simp: ends_def)

lemma endsI: "(\<And>s x s'. I s \<Longrightarrow> m s = (Inr x, s') \<Longrightarrow> Q x s') \<Longrightarrow> ends I m Q"
  by (auto simp: ends_def)

lemma ends_keeps: "keeps I m \<Longrightarrow> ends I m (\<lambda>_. I)"
  by (auto simp: ends_def dest: keepsD)

lemma ends_weaken: "ends I m Q \<Longrightarrow> (\<And>s. J s \<Longrightarrow> I s) \<Longrightarrow> (\<And>x s. Q x s \<Longrightarrow> R x s) \<Longrightarrow> ends J m R"
  unfolding ends_def by blast

lemma ends_bnd: "ends I m R \<Longrightarrow> (\<And>x. ends (R x) (f x) Q) \<Longrightarrow> ends I (bnd m f) Q"
  unfolding ends_def by (blast elim: bnd_InrE)

lemma ends_thn: "ends I m (\<lambda>_. R) \<Longrightarrow> ends R n Q \<Longrightarrow> ends I (thn m n) Q"
  unfolding thn_def by (erule ends_bnd)

lemma ends_thn_keeps: "keeps I m \<Longrightarrow> ends I n Q \<Longrightarrow> ends I (thn m n) Q"
  by (rule ends_thn [OF ends_keeps])

lemma ends_bnd_keeps: "keeps I m \<Longrightarrow> (\<And>x. ends I (f x) Q) \<Longrightarrow> ends I (bnd m f) Q"
  by (rule ends_bnd [OF ends_keeps])

lemma ends_reads: "(\<And>t. ends (\<lambda>s. I s \<and> f s = t) (g t) Q) \<Longrightarrow> ends I (bnd (reads f) g) Q"
  by (auto simp: ends_def bnd_def reads_def)

lemma ends_ret: "(\<And>s. I s \<Longrightarrow> Q x s) \<Longrightarrow> ends I (ret x) Q"
  by (auto simp: ends_def ret_def)

lemma ends_throw [ends_rules]: "ends I (throw e) Q"
  by (simp add: ends_def throw_def)

lemma ends_if: "(c \<Longrightarrow> ends I m Q) \<Longrightarrow> (\<not> c \<Longrightarrow> ends I n Q) \<Longrightarrow> ends I (if c then m else n) Q"
  by simp

lemma ends_pure: "(p \<Longrightarrow> ends I m Q) \<Longrightarrow> ends (\<lambda>s. p \<and> I s) m Q"
  by (auto simp: ends_def)

section \<open>Runs that succeed\<close>

text \<open>A run that starts with the invariant succeeds, and what then holds.\<close>

definition yields :: "('s \<Rightarrow> bool) \<Rightarrow> ('s, 'e, 'a) op \<Rightarrow> ('a \<Rightarrow> 's \<Rightarrow> bool) \<Rightarrow> bool" where
  "yields I m Q = (\<forall>s. I s \<longrightarrow> (\<exists>x s'. m s = (Inr x, s') \<and> Q x s'))"

lemma yieldsD: "yields I m Q \<Longrightarrow> I s \<Longrightarrow> \<exists>x s'. m s = (Inr x, s') \<and> Q x s'"
  by (simp add: yields_def)

lemma yields_run: "yields I m Q \<Longrightarrow> I s \<Longrightarrow> \<exists>r. m s = (Inr (fst r), snd r) \<and> Q (fst r) (snd r)"
  by (auto simp: yields_def)

lemma yields_bnd: "yields I m R \<Longrightarrow> (\<And>x. yields (R x) (f x) Q) \<Longrightarrow> yields I (bnd m f) Q"
  unfolding yields_def bnd_def by fastforce

lemma yields_thn: "yields I m (\<lambda>_. R) \<Longrightarrow> yields R n Q \<Longrightarrow> yields I (thn m n) Q"
  unfolding thn_def by (erule yields_bnd)

lemma yields_reads: "(\<And>t. yields (\<lambda>s. I s \<and> f s = t) (g t) Q) \<Longrightarrow> yields I (bnd (reads f) g) Q"
  by (simp add: yields_def bnd_def reads_def)

lemma yields_ret: "(\<And>s. I s \<Longrightarrow> Q x s) \<Longrightarrow> yields I (ret x) Q"
  by (simp add: yields_def ret_def)

lemma yields_pure: "(p \<Longrightarrow> yields I m Q) \<Longrightarrow> yields (\<lambda>s. p \<and> I s) m Q"
  by (auto simp: yields_def)

lemma yields_if: "(c \<Longrightarrow> yields I m Q) \<Longrightarrow> (\<not> c \<Longrightarrow> yields I n Q) \<Longrightarrow> yields I (if c then m else n) Q"
  by simp

lemma yields_weaken: "yields I m Q \<Longrightarrow> (\<And>s. J s \<Longrightarrow> I s) \<Longrightarrow> (\<And>x s. Q x s \<Longrightarrow> R x s) \<Longrightarrow> yields J m R"
  unfolding yields_def by blast

section \<open>Operations that never fail\<close>

named_theorems succeeds_rules "operations that return no error"

definition succeeds :: "('s, 'e, 'a) op \<Rightarrow> bool" where
  "succeeds m = (\<forall>s. \<exists>x s'. m s = (Inr x, s'))"

lemma succeeds_basic [succeeds_rules]:
  "succeeds (ret x)" "succeeds (reads f)" "succeeds (modify g)" "succeeds (outcome m)"
  by (simp_all add: succeeds_def op_simps)

lemma succeeds_bnd [succeeds_rules]:
  assumes "succeeds m" "\<And>x. succeeds (f x)"
  shows "succeeds (bnd m f)"
  unfolding succeeds_def
proof
  fix s
  obtain x s' where "m s = (Inr x, s')" using assms(1) unfolding succeeds_def by blast
  moreover obtain y s'' where "f x s' = (Inr y, s'')" using assms(2) unfolding succeeds_def by blast
  ultimately show "\<exists>y s'. bnd m f s = (Inr y, s')" by (simp add: bnd_def)
qed

lemma succeeds_thn [succeeds_rules]: "succeeds m \<Longrightarrow> succeeds n \<Longrightarrow> succeeds (thn m n)"
  unfolding thn_def by (rule succeeds_bnd)

lemma succeeds_if [succeeds_rules]: "succeeds m \<Longrightarrow> succeeds n \<Longrightarrow> succeeds (if c then m else n)"
  by simp

lemma succeeds_foldr [succeeds_rules]:
  "(\<And>x. succeeds (f x)) \<Longrightarrow> succeeds n \<Longrightarrow> succeeds (foldr (\<lambda>x rest. thn (f x) rest) xs n)"
  by (induction xs) (auto intro: succeeds_thn)

lemma succeeds_then_ret: "succeeds m \<Longrightarrow> fst (thn m (ret x) s) = Inr x"
  unfolding succeeds_def thn_def bnd_def ret_def by (auto split: prod.split sum.split) (metis Inr_not_Inl prod.inject)

end
