(* ===== verification/PuppetOIDs.thy ===== *)
theory PuppetOIDs
  imports Prelude
begin

text \<open>
  The Puppet certificate extension names and their ASN.1 object identifiers
  (internal/puppet/oids.go). The Go map is read as an association list with distinct keys;
  the look-up by identifier walks it, and the facts below show that the walk does not
  depend on the order in which Go iterates over the map.
\<close>

type_synonym oid = "nat list"

definition PuppetOIDs :: "(string \<times> oid) list" where
  "PuppetOIDs =
    [
     (''pp_uuid'', [1, 3, 6, 1, 4, 1, 34380, 1, 1, 1]),
     (''pp_instance_id'', [1, 3, 6, 1, 4, 1, 34380, 1, 1, 2]),
     (''pp_image_name'', [1, 3, 6, 1, 4, 1, 34380, 1, 1, 3]),
     (''pp_preshared_key'', [1, 3, 6, 1, 4, 1, 34380, 1, 1, 4]),
     (''pp_cost_center'', [1, 3, 6, 1, 4, 1, 34380, 1, 1, 5]),
     (''pp_product'', [1, 3, 6, 1, 4, 1, 34380, 1, 1, 6]),
     (''pp_project'', [1, 3, 6, 1, 4, 1, 34380, 1, 1, 7]),
     (''pp_application'', [1, 3, 6, 1, 4, 1, 34380, 1, 1, 8]),
     (''pp_service'', [1, 3, 6, 1, 4, 1, 34380, 1, 1, 9]),
     (''pp_employee'', [1, 3, 6, 1, 4, 1, 34380, 1, 1, 10]),
     (''pp_created_by'', [1, 3, 6, 1, 4, 1, 34380, 1, 1, 11]),
     (''pp_environment'', [1, 3, 6, 1, 4, 1, 34380, 1, 1, 12]),
     (''pp_role'', [1, 3, 6, 1, 4, 1, 34380, 1, 1, 13]),
     (''pp_software_version'', [1, 3, 6, 1, 4, 1, 34380, 1, 1, 14]),
     (''pp_department'', [1, 3, 6, 1, 4, 1, 34380, 1, 1, 15]),
     (''pp_cluster'', [1, 3, 6, 1, 4, 1, 34380, 1, 1, 16]),
     (''pp_provisioner'', [1, 3, 6, 1, 4, 1, 34380, 1, 1, 17]),
     (''pp_region'', [1, 3, 6, 1, 4, 1, 34380, 1, 1, 18]),
     (''pp_datacenter'', [1, 3, 6, 1, 4, 1, 34380, 1, 1, 19]),
     (''pp_zone'', [1, 3, 6, 1, 4, 1, 34380, 1, 1, 20]),
     (''pp_network'', [1, 3, 6, 1, 4, 1, 34380, 1, 1, 21]),
     (''pp_securitypolicy'', [1, 3, 6, 1, 4, 1, 34380, 1, 1, 22]),
     (''pp_cloudplatform'', [1, 3, 6, 1, 4, 1, 34380, 1, 1, 23]),
     (''pp_apptier'', [1, 3, 6, 1, 4, 1, 34380, 1, 1, 24]),
     (''pp_hostname'', [1, 3, 6, 1, 4, 1, 34380, 1, 1, 25]),
     (''pp_owner'', [1, 3, 6, 1, 4, 1, 34380, 1, 1, 26]),
     (''pp_authorization'', [1, 3, 6, 1, 4, 1, 34380, 1, 3, 1]),
     (''pp_auth_token'', [1, 3, 6, 1, 4, 1, 34380, 1, 3, 2]),
     (''pp_cli_auth'', [1, 3, 6, 1, 4, 1, 34380, 1, 3, 39]),
     (''challengePassword'', [1, 2, 840, 113549, 1, 9, 7])
    ]"

definition AuthorizationArc :: oid where
  "AuthorizationArc = [1, 3, 6, 1, 4, 1, 34380, 1, 3]"

definition OIDByName :: "string \<Rightarrow> oid option" where
  "OIDByName name = map_of PuppetOIDs name"

text \<open>The range loop over the map, over an arbitrary iteration order of its entries.\<close>

fun name_in_order :: "(string \<times> oid) list \<Rightarrow> oid \<Rightarrow> string option" where
  "name_in_order [] oid = None"
| "name_in_order ((name, candidate) # rest) oid =
     (if candidate = oid then Some name else name_in_order rest oid)"

definition NameByOID :: "oid \<Rightarrow> string option" where
  "NameByOID oid = name_in_order PuppetOIDs oid"

definition IsKnownOID :: "string \<Rightarrow> bool" where
  "IsKnownOID name = (map_of PuppetOIDs name \<noteq> None)"

text \<open>The loop over the arc: an index that is out of range for oid is never read.\<close>

definition IsAuthorizationOID :: "oid \<Rightarrow> bool" where
  "IsAuthorizationOID oid =
     (if length oid < length AuthorizationArc then False
      else list_all (\<lambda>i. oid ! i = AuthorizationArc ! i) [0..<length AuthorizationArc])"

definition AutosignPolicyPath :: string where
  "AutosignPolicyPath = ''/etc/puppetlabs/puppet/autosign-policy/autosign-policy.yaml''"

lemma PuppetOIDs_names_distinct [simp]: "distinct (map fst PuppetOIDs)"
  by (simp add: PuppetOIDs_def)

lemma PuppetOIDs_oids_distinct [simp]: "distinct (map snd PuppetOIDs)"
  by (simp add: PuppetOIDs_def)

lemma name_in_order_Some: "name_in_order es oid = Some n \<Longrightarrow> (n, oid) \<in> set es"
  by (induction es oid rule: name_in_order.induct) (auto split: if_splits)

lemma name_in_order_unique:
  "distinct (map snd es) \<Longrightarrow> (n, oid) \<in> set es \<Longrightarrow> name_in_order es oid = Some n"
proof (induction es oid rule: name_in_order.induct)
  case (2 m c es oid)
  then show ?case by (cases "c = oid") (auto simp: image_iff)
qed simp

lemma name_in_order_None: "name_in_order es oid = None \<longleftrightarrow> oid \<notin> snd ` set es"
  by (induction es oid rule: name_in_order.induct) auto

lemma NameByOID_iff: "NameByOID oid = Some n \<longleftrightarrow> (n, oid) \<in> set PuppetOIDs"
  unfolding NameByOID_def
  by (blast intro: name_in_order_unique [OF PuppetOIDs_oids_distinct] dest: name_in_order_Some)

lemma OIDByName_iff: "OIDByName n = Some oid \<longleftrightarrow> (n, oid) \<in> set PuppetOIDs"
  by (simp add: OIDByName_def)

lemma NameByOID_OIDByName: "NameByOID oid = Some n \<longleftrightarrow> OIDByName n = Some oid"
  by (simp add: NameByOID_iff OIDByName_iff)

text \<open>Whatever order Go's randomised map iteration takes, the result is the same.\<close>

lemma NameByOID_any_order:
  assumes "set es = set PuppetOIDs" "distinct es"
  shows "name_in_order es oid = NameByOID oid"
proof (cases "NameByOID oid")
  case None
  then have "oid \<notin> snd ` set es" using assms by (simp add: NameByOID_def name_in_order_None)
  then have "name_in_order es oid = None" by (simp add: name_in_order_None)
  then show ?thesis using None by simp
next
  case (Some n)
  have "inj_on snd (set PuppetOIDs)" using PuppetOIDs_oids_distinct by (simp add: distinct_map)
  then have "distinct (map snd es)" using assms by (simp add: distinct_map)
  moreover have "(n, oid) \<in> set es" using Some assms by (simp add: NameByOID_iff)
  ultimately show ?thesis using Some by (simp add: name_in_order_unique)
qed

lemma IsAuthorizationOID_prefix: "IsAuthorizationOID oid \<longleftrightarrow> (\<exists>r. oid = AuthorizationArc @ r)"
proof -
  have "IsAuthorizationOID oid \<longleftrightarrow>
    length AuthorizationArc \<le> length oid \<and> take (length AuthorizationArc) oid = AuthorizationArc"
    unfolding IsAuthorizationOID_def list_all_iff
    by (auto intro!: nth_equalityI) (metis nth_take)
  also have "\<dots> \<longleftrightarrow> (\<exists>r. oid = AuthorizationArc @ r)"
    by (auto) (metis append_take_drop_id)
  finally show ?thesis .
qed

text \<open>The privileged names are exactly the three of the authorization arc.\<close>

lemma authorization_names:
  "{n. \<exists>oid. OIDByName n = Some oid \<and> IsAuthorizationOID oid} =
   {''pp_authorization'', ''pp_auth_token'', ''pp_cli_auth''}"
proof -
  have "{n. \<exists>oid. OIDByName n = Some oid \<and> IsAuthorizationOID oid} =
        set (map fst (filter (\<lambda>(n, oid). IsAuthorizationOID oid) PuppetOIDs))"
    unfolding OIDByName_iff by (auto simp: image_iff)
  also have "filter (\<lambda>(n, oid). IsAuthorizationOID oid) PuppetOIDs =
    [(''pp_authorization'', [1, 3, 6, 1, 4, 1, 34380, 1, 3, 1]),
     (''pp_auth_token'', [1, 3, 6, 1, 4, 1, 34380, 1, 3, 2]),
     (''pp_cli_auth'', [1, 3, 6, 1, 4, 1, 34380, 1, 3, 39])]"
    by (simp add: PuppetOIDs_def IsAuthorizationOID_def AuthorizationArc_def upt_rec)
  finally show ?thesis by simp
qed

end
