(* ===== verification/Glob.thy ===== *)
theory Glob
  imports Prelude
begin

text \<open>
  Go's filepath.Match on Unix, the matcher behind globMatch of cmd/autosign/policy.go, with
  its chunk scanner, its character classes and its bad-pattern error (None), and the
  leftmost-chunk search for a star. For the patterns the source speaks of, made of ordinary
  characters, star and question mark, it is shown equal to the declarative reading.
\<close>

section \<open>One rune of UTF-8\<close>

definition RuneError :: nat where "RuneError = 0xFFFD"

definition is_cont :: "nat \<Rightarrow> nat \<Rightarrow> char \<Rightarrow> bool" where
  "is_cont lo hi c = (lo \<le> (of_char c :: nat) \<and> (of_char c :: nat) \<le> hi)"

definition cont_bits :: "char \<Rightarrow> nat" where
  "cont_bits c = (of_char c :: nat) mod 64"

text \<open>utf8.DecodeRuneInString: the rune and its width, (RuneError, 1) for a bad encoding.\<close>

definition decode_rune :: "string \<Rightarrow> nat \<times> nat" where
  "decode_rune s =
    (case s of
       [] \<Rightarrow> (RuneError, 0)
     | c # t \<Rightarrow>
        (let b = (of_char c :: nat);
             lo = (if b = 0xE0 then 0xA0 else if b = 0xF0 then 0x90 else 0x80);
             hi = (if b = 0xED then 0x9F else if b = 0xF4 then 0x8F else 0xBF)
         in if b < 0x80 then (b, 1)
            else (case t of
              [] \<Rightarrow> (RuneError, 1)
            | c1 # t1 \<Rightarrow>
               if b < 0xC2 \<or> b > 0xF4 \<or> \<not> is_cont lo hi c1 then (RuneError, 1)
               else if b \<le> 0xDF then ((b mod 32) * 64 + cont_bits c1, 2)
               else (case t1 of
                 [] \<Rightarrow> (RuneError, 1)
               | c2 # t2 \<Rightarrow>
                  if \<not> is_cont 0x80 0xBF c2 then (RuneError, 1)
                  else if b \<le> 0xEF then ((b mod 16) * 4096 + cont_bits c1 * 64 + cont_bits c2, 3)
                  else (case t2 of
                    [] \<Rightarrow> (RuneError, 1)
                  | c3 # _ \<Rightarrow>
                     if \<not> is_cont 0x80 0xBF c3 then (RuneError, 1)
                     else ((b mod 8) * 262144 + cont_bits c1 * 4096 + cont_bits c2 * 64
                             + cont_bits c3, 4))))))"

lemma decode_rune_ascii [simp]: "(of_char c :: nat) < 128 \<Longrightarrow> decode_rune (c # t) = (of_char c, 1)"
  by (simp add: decode_rune_def)

lemma decode_rune_width: "s \<noteq> [] \<Longrightarrow> 0 < snd (decode_rune s)"
  by (auto simp: decode_rune_def Let_def split: list.splits)

section \<open>filepath.Match\<close>

fun scan_body :: "bool \<Rightarrow> string \<Rightarrow> string \<times> string" where
  "scan_body inrange [] = ([], [])"
| "scan_body inrange (c # p) =
     (if c = CHR 0x5C then
        (case p of [] \<Rightarrow> ([c], [])
         | d # p' \<Rightarrow> (case scan_body inrange p' of (a, b) \<Rightarrow> (c # d # a, b)))
      else if c = CHR ''*'' \<and> \<not> inrange then ([], c # p)
      else (case scan_body (if c = CHR ''['' then True else if c = CHR '']'' then False else inrange) p
              of (a, b) \<Rightarrow> (c # a, b)))"

text \<open>Whether the pattern begins with a star, its first chunk without stars, and the rest.\<close>

definition scanChunk :: "string \<Rightarrow> bool \<times> string \<times> string" where
  "scanChunk pattern =
     (case scan_body False (dropWhile (\<lambda>c. c = CHR ''*'') pattern) of
        (chunk, rest) \<Rightarrow> (pattern \<noteq> [] \<and> hd pattern = CHR ''*'', chunk, rest))"

definition getEsc :: "string \<Rightarrow> (nat \<times> string) option" where
  "getEsc chunk =
     (case chunk of
        [] \<Rightarrow> None
      | c # t \<Rightarrow>
         if c = CHR ''-'' \<or> c = CHR '']'' then None
         else
          (let body = (if c = CHR 0x5C then t else chunk)
           in if body = [] then None
              else (case decode_rune body of (r, n) \<Rightarrow>
                if r = RuneError \<and> n = 1 then None
                else if drop n body = [] then None
                else Some (r, drop n body))))"

lemma getEsc_shorter: "getEsc chunk = Some (r, t) \<Longrightarrow> length t < length chunk \<and> t \<noteq> []"
  using decode_rune_width [of chunk] decode_rune_width [of "tl chunk"]
  by (auto simp: getEsc_def Let_def split: list.splits if_splits prod.splits)

text \<open>The ranges of a character class up to its closing bracket.\<close>

function class_ranges :: "nat \<Rightarrow> bool \<Rightarrow> bool \<Rightarrow> string \<Rightarrow> (bool \<times> string) option" where
  "class_ranges r some_range matched chunk =
     (if chunk \<noteq> [] \<and> hd chunk = CHR '']'' \<and> some_range then Some (matched, tl chunk)
      else (case getEsc chunk of
         None \<Rightarrow> None
       | Some (lo, chunk1) \<Rightarrow>
          if hd chunk1 = CHR ''-'' then
            (case getEsc (tl chunk1) of
               None \<Rightarrow> None
             | Some (hi, chunk2) \<Rightarrow>
                 class_ranges r True (matched \<or> (lo \<le> r \<and> r \<le> hi)) chunk2)
          else class_ranges r True (matched \<or> (lo \<le> r \<and> r \<le> lo)) chunk1))"
  by pat_completeness auto
termination
proof (relation "measure (\<lambda>(r, sr, m, chunk). length chunk)", goal_cases)
  case (2 r sr m chunk x lo c1 y hi c2)
  then show ?case using getEsc_shorter [of chunk lo c1] getEsc_shorter [of "tl c1" hi c2] by auto
next
  case (3 r sr m chunk x lo c1)
  then show ?case using getEsc_shorter [of chunk lo c1] by auto
qed simp

declare class_ranges.simps [simp del]

lemma class_ranges_shorter:
  "class_ranges r sr m chunk = Some (b, rest) \<Longrightarrow> length rest < length chunk"
proof (induction r sr m chunk rule: class_ranges.induct)
  case (1 r sr m chunk)
  show ?case
  proof (cases "chunk \<noteq> [] \<and> hd chunk = CHR '']'' \<and> sr")
    case True
    then have "class_ranges r sr m chunk = Some (m, tl chunk)"
      by (subst class_ranges.simps) simp
    then show ?thesis using 1(3) True by (cases chunk) auto
  next
    case False
    then obtain lo c1 where e: "getEsc chunk = Some (lo, c1)"
      using 1(3) by (auto simp: class_ranges.simps [of r sr m chunk] split: option.splits if_splits)
    have l: "length c1 < length chunk" "c1 \<noteq> []" using getEsc_shorter [OF e] by auto
    show ?thesis
    proof (cases "hd c1 = CHR ''-''")
      case True
      then obtain hi c2 where e2: "getEsc (tl c1) = Some (hi, c2)"
        using 1(3) e False
        by (auto simp: class_ranges.simps [of r sr m chunk] split: option.splits if_splits)
      have "length rest < length c2"
        using 1(1) [OF False e refl True e2 refl] 1(3) e e2 True False
        by (auto simp: class_ranges.simps [of r sr m chunk] split: if_splits)
      then show ?thesis using getEsc_shorter [OF e2] l by auto
    next
      case nodash: False
      have "length rest < length c1"
        using 1(2) [OF False e refl nodash] 1(3) e nodash False
        by (auto simp: class_ranges.simps [of r sr m chunk] split: if_splits)
      then show ?thesis using l by auto
    qed
  qed
qed

text \<open>
  matchChunk: None is ErrBadPattern, Some None a failed match, Some (Some rest) the part of
  the name that is left. After a failure the chunk is still checked, without reading the name.
\<close>

function matchChunk :: "bool \<Rightarrow> string \<Rightarrow> string \<Rightarrow> string option option" where
  "matchChunk failed0 chunk s =
     (case chunk of
        [] \<Rightarrow> (if failed0 then Some None else Some (Some s))
      | c # chunk1 \<Rightarrow>
         (let failed = (failed0 \<or> s = [])
          in if c = CHR ''['' then
               (let (r, n) = (if failed then (0, 0) else decode_rune s);
                    negated = (chunk1 \<noteq> [] \<and> hd chunk1 = CHR ''^'');
                    chunk2 = (if negated then tl chunk1 else chunk1)
                in (case class_ranges r False False chunk2 of
                      None \<Rightarrow> None
                    | Some (matched, chunk3) \<Rightarrow>
                        matchChunk (failed \<or> matched = negated) chunk3 (drop n s)))
             else if c = CHR ''?'' then
               (if failed then matchChunk True chunk1 s
                else matchChunk (hd s = CHR ''/'') chunk1 (drop (snd (decode_rune s)) s))
             else if c = CHR 0x5C then
               (case chunk1 of
                  [] \<Rightarrow> None
                | d # chunk2 \<Rightarrow>
                   if failed then matchChunk True chunk2 s
                   else matchChunk (d \<noteq> hd s) chunk2 (tl s))
             else
               (if failed then matchChunk True chunk1 s
                else matchChunk (c \<noteq> hd s) chunk1 (tl s))))"
  by pat_completeness auto
termination
  by (relation "measure (\<lambda>(f, chunk, s). length chunk)")
    (auto dest!: class_ranges_shorter split: if_splits)

declare matchChunk.simps [simp del]

text \<open>The search of a star: every start up to the first slash, leftmost first.\<close>

fun star_search :: "string \<Rightarrow> bool \<Rightarrow> string \<Rightarrow> string option option" where
  "star_search chunk last_chunk [] = Some None"
| "star_search chunk last_chunk (x # name) =
     (if x = CHR ''/'' then Some None
      else (case matchChunk False chunk name of
              None \<Rightarrow> None
            | Some None \<Rightarrow> star_search chunk last_chunk name
            | Some (Some t) \<Rightarrow>
                if last_chunk \<and> t \<noteq> [] then star_search chunk last_chunk name
                else Some (Some t)))"

lemma scan_body_append: "scan_body r p = (a, b) \<Longrightarrow> p = a @ b"
  by (induction r p arbitrary: a b rule: scan_body.induct)
    (auto split: if_splits list.splits prod.splits)

lemma scan_body_nonstar: "c \<noteq> CHR ''*'' \<Longrightarrow> fst (scan_body False (c # p)) \<noteq> []"
  by (cases p) (simp_all split: prod.splits)

lemma scanChunk_shorter:
  assumes "scanChunk p = (star, chunk, rest)" "p \<noteq> []"
  shows "length rest < length p"
proof -
  let ?q = "dropWhile (\<lambda>c. c = CHR ''*'') p"
  have q: "?q = chunk @ rest" and star: "star = (hd p = CHR ''*'')"
    using assms scan_body_append [of False ?q] by (auto simp: scanChunk_def split: prod.splits)
  show ?thesis
  proof (cases star)
    case True
    then have "length ?q < length p"
      using star assms(2) by (cases p) (auto simp: le_imp_less_Suc length_dropWhile_le)
    then show ?thesis using q by simp
  next
    case False
    then obtain c p' where p: "p = c # p'" "c \<noteq> CHR ''*''" using star assms(2) by (cases p) auto
    then have "chunk \<noteq> []"
      using assms(1) scan_body_nonstar [OF p(2), of p']
      by (cases "scan_body False (c # p')") (simp add: scanChunk_def)
    then show ?thesis using q p by auto
  qed
qed

function filepath_Match :: "string \<Rightarrow> string \<Rightarrow> bool option" where
  "filepath_Match pattern name =
     (if pattern = [] then Some (name = [])
      else (case scanChunk pattern of (star, chunk, rest) \<Rightarrow>
        if star \<and> chunk = [] then Some (CHR ''/'' \<notin> set name)
        else (case matchChunk False chunk name of
                None \<Rightarrow> None
              | Some here \<Rightarrow>
                 (if here \<noteq> None \<and> (the here = [] \<or> rest \<noteq> []) then filepath_Match rest (the here)
                  else if star then
                    (case star_search chunk (rest = []) name of
                       None \<Rightarrow> None
                     | Some None \<Rightarrow> Some False
                     | Some (Some t) \<Rightarrow> filepath_Match rest t)
                  else Some False))))"
  by pat_completeness auto
termination
  by (relation "measure (\<lambda>(pattern, name). length pattern)")
    (auto dest: scanChunk_shorter [OF sym])

declare filepath_Match.simps [simp del]

section \<open>The declarative reading for ordinary characters, star and question mark\<close>

definition tok :: "char \<Rightarrow> char \<Rightarrow> bool" where
  "tok c x = (if c = CHR ''?'' then x \<noteq> CHR ''/'' else c = x)"

fun glob_spec :: "string \<Rightarrow> string \<Rightarrow> bool" where
  "glob_spec [] n = (n = [])"
| "glob_spec (c # p) [] = (c = CHR ''*'' \<and> glob_spec p [])"
| "glob_spec (c # p) (x # n) =
     (if c = CHR ''*'' then glob_spec p (x # n) \<or> (x \<noteq> CHR ''/'' \<and> glob_spec (c # p) n)
      else tok c x \<and> glob_spec p n)"

definition simple_pattern :: "string \<Rightarrow> bool" where
  "simple_pattern p = (CHR ''['' \<notin> set p \<and> CHR 0x5C \<notin> set p)"

definition ascii :: "string \<Rightarrow> bool" where
  "ascii s = list_all (\<lambda>c. (of_char c :: nat) < 128) s"

fun chunk_ok :: "string \<Rightarrow> string \<Rightarrow> bool" where
  "chunk_ok [] s = True"
| "chunk_ok (c # ch) [] = False"
| "chunk_ok (c # ch) (x # s) = (tok c x \<and> chunk_ok ch s)"

lemma chunk_ok_nth:
  "chunk_ok ch s \<longleftrightarrow> length ch \<le> length s \<and> (\<forall>i<length ch. tok (ch ! i) (s ! i))"
  by (induction ch s rule: chunk_ok.induct) (auto simp: nth_Cons less_Suc_eq_0_disj split: nat.splits)

lemma glob_spec_star_append:
  "CHR ''/'' \<notin> set a \<Longrightarrow> glob_spec (CHR ''*'' # p) b \<Longrightarrow> glob_spec (CHR ''*'' # p) (a @ b)"
  by (induction a) auto

lemma glob_spec_star_split:
  "glob_spec (CHR ''*'' # p) n \<Longrightarrow> \<exists>a b. n = a @ b \<and> CHR ''/'' \<notin> set a \<and> glob_spec p b"
proof (induction n)
  case (Cons x n)
  show ?case
  proof (cases "glob_spec p (x # n)")
    case True
    then show ?thesis by (metis append_Nil empty_iff list.set(1))
  next
    case False
    with Cons.prems have x: "x \<noteq> CHR ''/''" and "glob_spec (CHR ''*'' # p) n" by auto
    with Cons.IH obtain a b where "n = a @ b" "CHR ''/'' \<notin> set a" "glob_spec p b" by blast
    then show ?thesis using x by (intro exI [of _ "x # a"] exI [of _ b]) auto
  qed
qed auto

lemma glob_spec_chunk:
  "CHR ''*'' \<notin> set ch \<Longrightarrow>
   glob_spec (ch @ p) n \<longleftrightarrow> chunk_ok ch n \<and> glob_spec p (drop (length ch) n)"
proof (induction ch arbitrary: n)
  case (Cons c ch)
  then show ?case by (cases n) auto
qed simp

lemma star_noslash:
  assumes "CHR ''/'' \<notin> set a" "a \<noteq> []" "chunk_ok ch (a @ b)" "chunk_ok ch b"
    "k < length a + length ch"
  shows "(a @ b) ! k \<noteq> CHR ''/''"
  using assms(5)
proof (induction k rule: less_induct)
  case (less k)
  show ?case
  proof (cases "k < length a")
    case True
    then show ?thesis using assms(1) by (auto simp: nth_append dest: nth_mem)
  next
    case False
    let ?j = "k - length a"
    have j: "?j < k" "?j < length ch" using False assms(2) less.prems by (cases a; auto)+
    then have "(a @ b) ! ?j \<noteq> CHR ''/''" using less.IH [of ?j] by simp
    moreover have "tok (ch ! ?j) ((a @ b) ! ?j)" "tok (ch ! ?j) (b ! ?j)"
      using assms(3,4) j(2) by (auto simp: chunk_ok_nth)
    ultimately have "b ! ?j \<noteq> CHR ''/''" by (auto simp: tok_def split: if_splits)
    then show ?thesis using False by (simp add: nth_append)
  qed
qed

lemma glob_greedy:
  assumes "glob_spec (CHR ''*'' # ch @ CHR ''*'' # r) n" "chunk_ok ch n" "CHR ''*'' \<notin> set ch"
  shows "glob_spec (CHR ''*'' # r) (drop (length ch) n)"
proof -
  obtain a b where n: "n = a @ b" and a: "CHR ''/'' \<notin> set a"
    and g: "glob_spec (ch @ CHR ''*'' # r) b"
    using glob_spec_star_split [OF assms(1)] by blast
  have ok: "chunk_ok ch b" and rest: "glob_spec (CHR ''*'' # r) (drop (length ch) b)"
    using g glob_spec_chunk [OF assms(3)] by blast+
  show ?thesis
  proof (cases "a = []")
    case True
    then show ?thesis using n rest by simp
  next
    case False
    let ?e = "take (length a) (drop (length ch) n)"
    have "drop (length ch) n = ?e @ drop (length ch) b"
      using n by (metis append_take_drop_id append_eq_conv_conj drop_drop add.commute)
    moreover have "CHR ''/'' \<notin> set ?e"
    proof
      assume "CHR ''/'' \<in> set ?e"
      then obtain i where "i < length ?e" "?e ! i = CHR ''/''" by (metis in_set_conv_nth)
      then have "n ! (length ch + i) = CHR ''/''" "length ch + i < length a + length ch"
        by auto
      then show False using star_noslash [OF a False] assms(2) ok n by auto
    qed
    ultimately show ?thesis using glob_spec_star_append rest by metis
  qed
qed

section \<open>filepath.Match agrees with it\<close>

lemma matchChunk_nil: "matchChunk f [] s = (if f then Some None else Some (Some s))"
  by (subst matchChunk.simps) simp

lemma matchChunk_char:
  "c \<noteq> CHR ''['' \<Longrightarrow> c \<noteq> CHR 0x5C \<Longrightarrow>
   matchChunk f (c # ch) s =
     (if f \<or> s = [] then matchChunk True ch s
      else if c = CHR ''?'' then matchChunk (hd s = CHR ''/'') ch (drop (snd (decode_rune s)) s)
      else matchChunk (c \<noteq> hd s) ch (tl s))"
  by (subst matchChunk.simps) (simp add: Let_def)

lemma simple_pattern_Cons:
  "simple_pattern (c # p) \<longleftrightarrow> c \<noteq> CHR ''['' \<and> c \<noteq> CHR 0x5C \<and> simple_pattern p"
  by (auto simp: simple_pattern_def)

lemma ascii_Cons: "ascii (c # s) \<longleftrightarrow> (of_char c :: nat) < 128 \<and> ascii s"
  by (simp add: ascii_def)

lemmas match_simps = matchChunk_nil matchChunk_char simple_pattern_Cons ascii_Cons

lemma matchChunk_failed: "simple_pattern ch \<Longrightarrow> matchChunk True ch s = Some None"
  by (induction ch) (simp_all add: match_simps)

lemma matchChunk_simple:
  "simple_pattern ch \<Longrightarrow> ascii s \<Longrightarrow>
   matchChunk False ch s = Some (if chunk_ok ch s then Some (drop (length ch) s) else None)"
proof (induction ch s rule: chunk_ok.induct)
  case (3 c ch x s)
  then have "tok c x \<or> matchChunk True ch s = Some None"
    using matchChunk_failed by (simp add: match_simps)
  then show ?case using 3 matchChunk_failed [of ch s]
    by (cases "tok c x"; cases "c = CHR ''?''") (simp_all add: match_simps tok_def)
qed (simp_all add: match_simps matchChunk_failed)

lemma scan_body_simple:
  "simple_pattern p \<Longrightarrow>
   scan_body False p = (takeWhile (\<lambda>c. c \<noteq> CHR ''*'') p, dropWhile (\<lambda>c. c \<noteq> CHR ''*'') p)"
  by (induction p) (auto simp: simple_pattern_def)

lemma glob_spec_stars:
  "glob_spec (CHR ''*'' # dropWhile (\<lambda>c. c = CHR ''*'') p) n = glob_spec (CHR ''*'' # p) n"
proof (induction p arbitrary: n)
  case (Cons c p)
  have "glob_spec (CHR ''*'' # CHR ''*'' # p) n = glob_spec (CHR ''*'' # p) n"
    by (induction n) auto
  then show ?case using Cons by (cases "c = CHR ''*''") simp_all
qed simp

lemma glob_spec_star_only: "glob_spec [CHR ''*''] n \<longleftrightarrow> CHR ''/'' \<notin> set n"
  by (induction n) auto

lemma star_search_simple:
  assumes "simple_pattern ch" "CHR ''*'' \<notin> set ch" "rest = [] \<or> hd rest = CHR ''*''"
  shows "ascii n \<Longrightarrow> \<exists>r. star_search ch (rest = []) n = Some r \<and>
    ((n \<noteq> [] \<and> hd n \<noteq> CHR ''/'' \<and> glob_spec (CHR ''*'' # ch @ rest) (tl n)) \<longleftrightarrow>
     (\<exists>t. r = Some t \<and> glob_spec rest t)) \<and> (\<forall>t. r = Some t \<longrightarrow> ascii t)"
proof (induction n)
  case (Cons x n)
  then have asc: "ascii n" by (simp add: ascii_def)
  obtain r where r: "star_search ch (rest = []) n = Some r"
    and IH: "(n \<noteq> [] \<and> hd n \<noteq> CHR ''/'' \<and> glob_spec (CHR ''*'' # ch @ rest) (tl n)) \<longleftrightarrow>
       (\<exists>t. r = Some t \<and> glob_spec rest t)" "\<forall>t. r = Some t \<longrightarrow> ascii t"
    using Cons.IH [OF asc] by blast
  have step: "glob_spec (CHR ''*'' # ch @ rest) n \<longleftrightarrow>
      glob_spec (ch @ rest) n \<or> (\<exists>t. r = Some t \<and> glob_spec rest t)"
    using IH by (cases n) auto
  note mc = matchChunk_simple [OF assms(1) asc] and gc = glob_spec_chunk [OF assms(2)]
  show ?case
  proof (cases "x = CHR ''/''")
    case False
    show ?thesis
    proof (cases "chunk_ok ch n \<and> (rest \<noteq> [] \<or> drop (length ch) n = [])")
      case True
      have "glob_spec (CHR ''*'' # ch @ rest) n \<longleftrightarrow> glob_spec rest (drop (length ch) n)"
      proof (cases rest)
        case Nil
        then show ?thesis using True step gc [of rest n] by simp
      next
        case (Cons y r')
        then have "rest = CHR ''*'' # r'" using assms(3) by simp
        then show ?thesis using True step gc [of rest n] glob_greedy [of ch r' n] assms(2) by blast
      qed
      moreover have "ascii (drop (length ch) n)"
        using asc by (auto simp: ascii_def list_all_iff dest: in_set_dropD)
      ultimately show ?thesis using True False mc by (auto split: if_splits)
    next
      case no: False
      then have "\<not> glob_spec (ch @ rest) n" using gc [of rest n] by auto
      then show ?thesis using no False mc r step IH(2) by (auto split: if_splits)
    qed
  qed simp
qed simp

lemma simple_pattern_cut:
  "simple_pattern p \<Longrightarrow> simple_pattern (takeWhile P p)"
  "simple_pattern p \<Longrightarrow> simple_pattern (dropWhile P p)"
  by (metis simple_pattern_def set_takeWhileD, metis simple_pattern_def set_dropWhileD)

lemma glob_spec_star_unfold:
  "glob_spec (CHR ''*'' # p) n \<longleftrightarrow>
   glob_spec p n \<or> (n \<noteq> [] \<and> hd n \<noteq> CHR ''/'' \<and> glob_spec (CHR ''*'' # p) (tl n))"
  by (cases n) auto

lemma glob_spec_commit:
  assumes "rest = [] \<or> hd rest = CHR ''*''" "CHR ''*'' \<notin> set ch" "chunk_ok ch n"
    "drop (length ch) n = [] \<or> rest \<noteq> []"
  shows "glob_spec (CHR ''*'' # ch @ rest) n \<longleftrightarrow> glob_spec rest (drop (length ch) n)"
proof (cases rest)
  case Nil
  then show ?thesis using assms glob_spec_chunk [OF assms(2), of rest n]
      glob_spec_star_unfold [of "ch @ rest" n] by simp
next
  case (Cons y r)
  then have "rest = CHR ''*'' # r" using assms(1) by simp
  then show ?thesis
    using assms glob_spec_chunk [OF assms(2), of rest n] glob_greedy [of ch r n]
      glob_spec_star_unfold [of "ch @ rest" n] by blast
qed

lemma scanChunk_simple:
  assumes "simple_pattern p" "p \<noteq> []"
  obtains star ch rest where "scanChunk p = (star, ch, rest)"
    "simple_pattern ch" "simple_pattern rest" "CHR ''*'' \<notin> set ch"
    "rest = [] \<or> hd rest = CHR ''*''" "star \<Longrightarrow> ch = [] \<Longrightarrow> rest = []"
    "\<And>n. glob_spec p n = (if star then glob_spec (CHR ''*'' # ch @ rest) n
                          else glob_spec (ch @ rest) n)"
proof -
  let ?q = "dropWhile (\<lambda>c. c = CHR ''*'') p"
  let ?ch = "takeWhile (\<lambda>c. c \<noteq> CHR ''*'') ?q" and ?rest = "dropWhile (\<lambda>c. c \<noteq> CHR ''*'') ?q"
  have sq: "simple_pattern ?q" using assms(1) simple_pattern_cut by blast
  have sc: "scanChunk p = (hd p = CHR ''*'', ?ch, ?rest)"
    using scan_body_simple [OF sq] assms(2) by (simp add: scanChunk_def)
  have sch: "simple_pattern ?ch" "simple_pattern ?rest"
    using simple_pattern_cut [OF sq] by blast+
  have nostar: "CHR ''*'' \<notin> set ?ch" by (metis (mono_tags, lifting) set_takeWhileD)
  have rst: "?rest = [] \<or> hd ?rest = CHR ''*''"
    using hd_dropWhile [of "\<lambda>c. c \<noteq> CHR ''*''" ?q] by blast
  have rn: "?rest = []" if "?ch = []"
  proof -
    have "?q = [] \<or> hd ?q = CHR ''*''" using that by (simp only: takeWhile_eq_Nil_iff) blast
    then have "?q = []" using hd_dropWhile [of "\<lambda>c. c = CHR ''*''" p] by blast
    then show ?thesis by (simp only: dropWhile.simps)
  qed
  have q: "?ch @ ?rest = ?q" by simp
  have spec: "glob_spec p n = (if hd p = CHR ''*'' then glob_spec (CHR ''*'' # ?ch @ ?rest) n
      else glob_spec (?ch @ ?rest) n)" for n
    unfolding q using assms(2) glob_spec_stars [of "tl p" n] by (cases p) simp_all
  show thesis using that [OF sc sch nostar rst rn spec] by blast
qed

theorem filepath_Match_simple:
  "simple_pattern p \<Longrightarrow> ascii n \<Longrightarrow> filepath_Match p n = Some (glob_spec p n)"
proof (induction p n rule: filepath_Match.induct)
  case (1 p n)
  show ?case
  proof (cases "p = []")
    case True
    then show ?thesis by (simp add: filepath_Match.simps)
  next
    case False
    obtain star ch rest where sc: "scanChunk p = (star, ch, rest)"
      and simp_parts: "simple_pattern ch" "simple_pattern rest" "CHR ''*'' \<notin> set ch"
      and rst: "rest = [] \<or> hd rest = CHR ''*''" and only: "star \<Longrightarrow> ch = [] \<Longrightarrow> rest = []"
      and spec: "\<And>n. glob_spec p n = (if star then glob_spec (CHR ''*'' # ch @ rest) n
                          else glob_spec (ch @ rest) n)"
      using scanChunk_simple [OF 1(3) False] by blast
    note mc = matchChunk_simple [OF simp_parts(1) 1(4)]
    have asc: "ascii (drop k n)" for k
      using 1(4) by (auto simp: ascii_def list_all_iff dest: in_set_dropD)
    consider (only) "star \<and> ch = []"
      | (here) "\<not> (star \<and> ch = [])" "chunk_ok ch n" "drop (length ch) n = [] \<or> rest \<noteq> []"
      | (search) "\<not> (star \<and> ch = [])" "\<not> (chunk_ok ch n \<and> (drop (length ch) n = [] \<or> rest \<noteq> []))" "star"
      | (no) "\<not> star" "\<not> (chunk_ok ch n \<and> (drop (length ch) n = [] \<or> rest \<noteq> []))"
      by blast
    then show ?thesis
    proof cases
      case only
      then have "filepath_Match p n = Some (CHR ''/'' \<notin> set n)"
        using False sc by (subst filepath_Match.simps) simp
      then show ?thesis using only spec [of n] \<open>star \<Longrightarrow> ch = [] \<Longrightarrow> rest = []\<close>
        by (simp add: glob_spec_star_only)
    next
      case here
      have "filepath_Match p n = filepath_Match rest (drop (length ch) n)"
        using False sc mc here by (subst filepath_Match.simps) auto
      also have "\<dots> = Some (glob_spec rest (drop (length ch) n))"
        using 1(1) [OF False sc [symmetric] refl here(1) mc] here simp_parts asc by auto
      also have "glob_spec rest (drop (length ch) n) = glob_spec p n"
        using here glob_spec_commit [OF rst simp_parts(3) here(2)] spec [of n]
          glob_spec_chunk [OF simp_parts(3), of rest n] by auto
      finally show ?thesis .
    next
      case search
      obtain r where r: "star_search ch (rest = []) n = Some r" "\<forall>t. r = Some t \<longrightarrow> ascii t"
        "(n \<noteq> [] \<and> hd n \<noteq> CHR ''/'' \<and> glob_spec (CHR ''*'' # ch @ rest) (tl n)) \<longleftrightarrow>
         (\<exists>t. r = Some t \<and> glob_spec rest t)"
        using star_search_simple [OF simp_parts(1,3) rst 1(4)] by blast
      have "\<not> glob_spec (ch @ rest) n"
        using search(2) glob_spec_chunk [OF simp_parts(3), of rest n] by auto
      then have g: "glob_spec p n \<longleftrightarrow> (\<exists>t. r = Some t \<and> glob_spec rest t)"
        using spec [of n] search(3) r(3) glob_spec_star_unfold [of "ch @ rest" n] by simp
      have "filepath_Match p n =
          (case r of None \<Rightarrow> Some False | Some t \<Rightarrow> filepath_Match rest t)"
        using False sc mc search r(1) by (subst filepath_Match.simps) (auto split: option.splits)
      also have "\<dots> = Some (\<exists>t. r = Some t \<and> glob_spec rest t)"
      proof (cases r)
        case (Some t)
        have "filepath_Match rest t = Some (glob_spec rest t)"
          using 1(2) [OF False sc [symmetric] refl search(1) mc] search r Some simp_parts(2)
          by (auto split: if_splits)
        then show ?thesis using Some by simp
      qed simp
      finally show ?thesis using g by simp
    next
      case no
      have "filepath_Match p n = Some False"
        using False sc mc no by (subst filepath_Match.simps) auto
      then show ?thesis
        using no spec [of n] glob_spec_chunk [OF simp_parts(3), of rest n] by auto
    qed
  qed
qed

end
