(* ===== verification/Autosign.thy ===== *)
theory Autosign
  imports PuppetOIDs Glob
begin

text \<open>
  The autosign executable (cmd/autosign): puppetserver runs it with a certname and a CSR on
  standard input, and signs when it exits with 0. The decoded CSR is a record; PEM, X.509,
  ASN.1, YAML and CIDR parsing are parameters (their code is not in the repository), the
  decision over their results is modelled in full: the guards on privileged extensions and
  alternative names, the reserved certnames, the pattern matchers and the exit code.
\<close>

section \<open>Data\<close>

record PatternConf =
  Allow :: "string list"

record CSRAttributeConf =
  attr_Name :: string
  attr_Value :: string

record Policy =
  pol_Name :: string
  pol_Any :: bool
  pol_Certnames :: "PatternConf option"
  pol_DNSAltNames :: "PatternConf option"
  pol_IPAltNames :: "PatternConf option"
  pol_URIAltNames :: "PatternConf option"
  pol_EmailAltNames :: "PatternConf option"
  pol_Extensions :: "PatternConf option"
  pol_CSRAttributes :: "CSRAttributeConf list"

record PolicyConfig =
  ReservedCertnames :: "string list"
  Policies :: "Policy list"

text \<open>The fields of x509.CertificateRequest the program reads.\<close>

record extension =
  ext_Id :: oid
  ext_Value :: string

type_synonym ip = "8 word list"

record ipnet =
  net_IP :: ip
  net_Mask :: "8 word list"

datatype url = URL (url_String: string)

record csr =
  CommonName :: string
  csr_Extensions :: "extension list"
  DNSNames :: "string list"
  IPAddresses :: "ip list"
  URIs :: "url list"
  EmailAddresses :: "string list"

text \<open>
  The parsers the program calls: net.ParseCIDR (its network, None for the error) and
  asn1.Unmarshal into a string (None for the error).
\<close>

record parsers =
  ParseCIDR :: "string \<Rightarrow> ipnet option"
  UnmarshalString :: "string \<Rightarrow> string option"

section \<open>Extensions\<close>

definition decodeExtensionValue :: "parsers \<Rightarrow> extension \<Rightarrow> string" where
  "decodeExtensionValue L ext =
     (case UnmarshalString L (ext_Value ext) of Some v \<Rightarrow> v | None \<Rightarrow> ext_Value ext)"

fun first_extension :: "parsers \<Rightarrow> extension list \<Rightarrow> oid \<Rightarrow> string option" where
  "first_extension L [] oid = None"
| "first_extension L (ext # exts) oid =
     (if ext_Id ext = oid then Some (decodeExtensionValue L ext) else first_extension L exts oid)"

definition extractCSRExtensionByOID :: "parsers \<Rightarrow> csr \<Rightarrow> oid \<Rightarrow> string option" where
  "extractCSRExtensionByOID L csr oid = first_extension L (csr_Extensions csr) oid"

definition extractCSRAttribute :: "parsers \<Rightarrow> csr \<Rightarrow> string \<Rightarrow> string option" where
  "extractCSRAttribute L csr attrName =
     (case OIDByName attrName of
        None \<Rightarrow> None
      | Some oid \<Rightarrow> extractCSRExtensionByOID L csr oid)"

section \<open>Matchers\<close>

definition globMatch :: "string \<Rightarrow> string \<Rightarrow> bool" where
  "globMatch pattern name =
     (case filepath_Match pattern name of None \<Rightarrow> False | Some matched \<Rightarrow> matched)"

text \<open>The loop of wildcardMatch over the middle segments and its final suffix test.\<close>

fun wildcard_segs :: "string list \<Rightarrow> string \<Rightarrow> string option" where
  "wildcard_segs [] name = Some name"
| "wildcard_segs (seg # segs) name =
     (case Index name seg of
        None \<Rightarrow> None
      | Some idx \<Rightarrow> wildcard_segs segs (drop (idx + length seg) name))"

definition wildcardMatch :: "string \<Rightarrow> string \<Rightarrow> bool" where
  "wildcardMatch pattern name =
     (let parts = SplitOn CHR ''*'' pattern
      in if length parts = 1 then pattern = name
         else if \<not> HasPrefix name (hd parts) then False
         else (case wildcard_segs (butlast (tl parts)) (drop (length (hd parts)) name) of
                 None \<Rightarrow> False
               | Some rest \<Rightarrow> HasSuffix rest (last parts)))"

definition allWildcardMatch :: "string list \<Rightarrow> string list \<Rightarrow> bool" where
  "allWildcardMatch patterns names =
     list_all (\<lambda>name. list_ex (\<lambda>p. wildcardMatch p name) patterns) names"

definition uriStrings :: "url list \<Rightarrow> string list" where
  "uriStrings uris = map url_String uris"

definition matchPattern :: "PatternConf \<Rightarrow> string \<Rightarrow> bool" where
  "matchPattern p certname = list_ex (\<lambda>pattern. globMatch pattern certname) (Allow p)"

definition matchCSRAttributes :: "parsers \<Rightarrow> CSRAttributeConf list \<Rightarrow> csr \<Rightarrow> bool" where
  "matchCSRAttributes L attrs csr =
     list_all (\<lambda>attr. case extractCSRAttribute L csr (attr_Name attr) of
                        None \<Rightarrow> False
                      | Some val \<Rightarrow> val = attr_Value attr) attrs"

definition matchDNSAltNames :: "PatternConf \<Rightarrow> string list \<Rightarrow> bool" where
  "matchDNSAltNames p dnsNames =
     list_all (\<lambda>san. list_ex (\<lambda>pattern. globMatch pattern san) (Allow p)) dnsNames"

text \<open>IP.To4, networkNumberAndMask and IPNet.Contains of package net.\<close>

definition To4 :: "ip \<Rightarrow> ip option" where
  "To4 i =
     (if length i = 4 then Some i
      else if length i = 16 \<and> take 12 i = replicate 10 0 @ [0xFF, 0xFF] then Some (drop 12 i)
      else None)"

definition networkNumberAndMask :: "ipnet \<Rightarrow> ip \<times> 8 word list" where
  "networkNumberAndMask n =
     (let nn = (case To4 (net_IP n) of Some x \<Rightarrow> x | None \<Rightarrow> net_IP n); m = net_Mask n
      in if To4 (net_IP n) = None \<and> length nn \<noteq> 16 then ([], [])
         else if length m = 4 then (if length nn \<noteq> 4 then ([], []) else (nn, m))
         else if length m = 16 then (nn, if length nn = 4 then drop 12 m else m)
         else ([], []))"

definition IPNet_Contains :: "ipnet \<Rightarrow> ip \<Rightarrow> bool" where
  "IPNet_Contains n i0 =
     (case networkNumberAndMask n of (nn, m) \<Rightarrow>
       let i = (case To4 i0 of Some x \<Rightarrow> x | None \<Rightarrow> i0)
       in if length i \<noteq> length nn then False
          else list_all (\<lambda>k. and (nn ! k) (m ! k) = and (i ! k) (m ! k)) [0..<length i])"

definition allIPInCIDRs :: "parsers \<Rightarrow> string list \<Rightarrow> ip list \<Rightarrow> bool" where
  "allIPInCIDRs L cidrs ips =
     (let nets = List.map_filter (ParseCIDR L) cidrs
      in list_all (\<lambda>i. list_ex (\<lambda>n. IPNet_Contains n i) nets) ips)"

section \<open>The guards and the policies\<close>

definition guardExtensions :: "Policy \<Rightarrow> csr \<Rightarrow> bool" where
  "guardExtensions policy csr =
     (let allowed = (case pol_Extensions policy of None \<Rightarrow> [] | Some p \<Rightarrow> Allow p)
      in list_all (\<lambda>ext. if \<not> IsAuthorizationOID (ext_Id ext) then True
                         else (case NameByOID (ext_Id ext) of
                                 None \<Rightarrow> False
                               | Some name \<Rightarrow> name \<in> set allowed)) (csr_Extensions csr))"

definition guardSANs :: "parsers \<Rightarrow> Policy \<Rightarrow> csr \<Rightarrow> bool" where
  "guardSANs L policy csr =
     (if DNSNames csr \<noteq> [] \<and>
         (case pol_DNSAltNames policy of None \<Rightarrow> True | Some p \<Rightarrow> \<not> matchDNSAltNames p (DNSNames csr))
      then False
      else if IPAddresses csr \<noteq> [] \<and>
         (case pol_IPAltNames policy of None \<Rightarrow> True
          | Some p \<Rightarrow> \<not> allIPInCIDRs L (Allow p) (IPAddresses csr))
      then False
      else if URIs csr \<noteq> [] \<and>
         (case pol_URIAltNames policy of None \<Rightarrow> True
          | Some p \<Rightarrow> \<not> allWildcardMatch (Allow p) (uriStrings (URIs csr)))
      then False
      else if EmailAddresses csr \<noteq> [] \<and>
         (case pol_EmailAltNames policy of None \<Rightarrow> True
          | Some p \<Rightarrow> \<not> allWildcardMatch (Allow p) (EmailAddresses csr))
      then False
      else True)"

definition evaluatePolicy :: "parsers \<Rightarrow> Policy \<Rightarrow> string \<Rightarrow> csr \<Rightarrow> bool" where
  "evaluatePolicy L policy certname csr =
     (if \<not> guardExtensions policy csr then False
      else if \<not> guardSANs L policy csr then False
      else if pol_Any policy then True
      else if (case pol_Certnames policy of None \<Rightarrow> False | Some p \<Rightarrow> \<not> matchPattern p certname)
      then False
      else if pol_CSRAttributes policy \<noteq> [] \<and> \<not> matchCSRAttributes L (pol_CSRAttributes policy) csr
      then False
      else pol_Certnames policy \<noteq> None \<or> pol_CSRAttributes policy \<noteq> [])"

definition isReservedCertname :: "PolicyConfig \<Rightarrow> string \<Rightarrow> bool" where
  "isReservedCertname cfg certname = list_ex (\<lambda>r. EqualFold r certname) (ReservedCertnames cfg)"

definition subjectMatchesCertname :: "string \<Rightarrow> csr \<Rightarrow> bool" where
  "subjectMatchesCertname certname csr = EqualFold (CommonName csr) certname"

definition evaluatePolicies :: "parsers \<Rightarrow> PolicyConfig \<Rightarrow> string \<Rightarrow> csr \<Rightarrow> bool" where
  "evaluatePolicies L cfg certname csr =
     (if isReservedCertname cfg certname then False
      else if \<not> subjectMatchesCertname certname csr then False
      else list_ex (\<lambda>policy. evaluatePolicy L policy certname csr) (Policies cfg))"

section \<open>The program\<close>

text \<open>
  What the process sees: the files it can read (os.ReadFile of filepath.Clean of the path),
  standard input (None for a read error), the
  YAML decoder of the policy, the PEM decoder (its first block) and the CSR parser.
\<close>

record autosign_env =
  lib :: parsers
  ReadFile :: "string \<Rightarrow> string option"
  Stdin :: "string option"
  UnmarshalPolicy :: "string \<Rightarrow> PolicyConfig option"
  PemDecode :: "string \<Rightarrow> string option"
  ParseCertificateRequest :: "string \<Rightarrow> csr option"

definition loadPolicyConfig :: "autosign_env \<Rightarrow> string \<Rightarrow> PolicyConfig option" where
  "loadPolicyConfig env path =
     (case ReadFile env path of None \<Rightarrow> None | Some data \<Rightarrow> UnmarshalPolicy env data)"

definition parseCSR :: "autosign_env \<Rightarrow> string \<Rightarrow> csr option" where
  "parseCSR env pemData =
     (case PemDecode env pemData of
        None \<Rightarrow> None
      | Some block \<Rightarrow> ParseCertificateRequest env block)"

text \<open>The exit code, from the --config flag (None when not given) and the other arguments.\<close>

definition autosign_main :: "autosign_env \<Rightarrow> string option \<Rightarrow> string list \<Rightarrow> nat" where
  "autosign_main env configFlag args =
     (case args of
        [] \<Rightarrow> 1
      | certname # _ \<Rightarrow>
         (case loadPolicyConfig env
                 (case configFlag of None \<Rightarrow> AutosignPolicyPath | Some p \<Rightarrow> p) of
            None \<Rightarrow> 1
          | Some cfg \<Rightarrow>
             (case Stdin env of
                None \<Rightarrow> 1
              | Some csrPEM \<Rightarrow>
                 (case parseCSR env csrPEM of
                    None \<Rightarrow> 1
                  | Some csr \<Rightarrow>
                     if evaluatePolicies (lib env) cfg certname csr then 0 else 1))))"

section \<open>The wildcard matcher and its declarative reading\<close>

text \<open>The pattern language of wildcardMatch: a star stands for any string.\<close>

fun wild_spec :: "string \<Rightarrow> string \<Rightarrow> bool" where
  "wild_spec [] n = (n = [])"
| "wild_spec (c # p) [] = (c = CHR ''*'' \<and> wild_spec p [])"
| "wild_spec (c # p) (x # n) =
     (if c = CHR ''*'' then wild_spec p (x # n) \<or> wild_spec (c # p) n
      else c = x \<and> wild_spec p n)"

lemma wild_spec_star: "wild_spec (CHR ''*'' # p) n \<longleftrightarrow> (\<exists>a b. n = a @ b \<and> wild_spec p b)"
proof (induction n)
  case (Cons x n)
  have "(\<exists>a b. x # n = a @ b \<and> wild_spec p b) \<longleftrightarrow>
        wild_spec p (x # n) \<or> (\<exists>a b. n = a @ b \<and> wild_spec p b)"
    by (auto simp: Cons_eq_append_conv)
  then show ?case using Cons by simp
qed simp

lemma wild_spec_literal:
  "CHR ''*'' \<notin> set l \<Longrightarrow> wild_spec (l @ p) n \<longleftrightarrow> (\<exists>b. n = l @ b \<and> wild_spec p b)"
proof (induction l arbitrary: n)
  case (Cons c l)
  then show ?case by (cases n) auto
qed simp

lemma wild_spec_no_star: "CHR ''*'' \<notin> set p \<Longrightarrow> wild_spec p n \<longleftrightarrow> p = n"
  using wild_spec_literal [of p "[]" n] by auto

text \<open>The tail of a pattern after its first part: every further part is preceded by a star.\<close>

definition star_tail :: "string list \<Rightarrow> string" where
  "star_tail parts = concat (map (\<lambda>p. CHR ''*'' # p) parts)"

lemma star_tail_simps [simp]:
  "star_tail [] = []" "star_tail (p # ps) = CHR ''*'' # p @ star_tail ps"
  by (simp_all add: star_tail_def)

lemma wild_spec_tail_prepend:
  "ps \<noteq> [] \<Longrightarrow> wild_spec (star_tail ps) n \<Longrightarrow> wild_spec (star_tail ps) (a @ n)"
  by (cases ps) (auto simp: wild_spec_star, metis append_assoc)

lemma wildcard_segs_spec:
  assumes "\<And>p. p \<in> set (segs @ [l]) \<Longrightarrow> CHR ''*'' \<notin> set p"
  shows "wild_spec (star_tail (segs @ [l])) n \<longleftrightarrow>
    (\<exists>r. wildcard_segs segs n = Some r \<and> HasSuffix r l)"
  using assms
proof (induction segs arbitrary: n)
  case Nil
  then show ?case by (auto simp: wild_spec_star wild_spec_no_star HasSuffix_append)
next
  case (Cons seg segs)
  have IH: "wild_spec (star_tail (segs @ [l])) m \<longleftrightarrow>
      (\<exists>r. wildcard_segs segs m = Some r \<and> HasSuffix r l)" for m
    using Cons by simp
  have lit: "CHR ''*'' \<notin> set seg" using Cons.prems by simp
  have spec: "wild_spec (star_tail ((seg # segs) @ [l])) n \<longleftrightarrow>
      (\<exists>a b. n = a @ seg @ b \<and> wild_spec (star_tail (segs @ [l])) b)"
    using lit by (auto simp: wild_spec_star wild_spec_literal)
  show ?case
  proof (cases "Index n seg")
    case None
    then show ?thesis using spec Index_None [of n seg] by auto
  next
    case (Some i)
    have n: "n = take i n @ seg @ drop (i + length seg) n" using Index_Some_split [OF Some] .
    have "wild_spec (star_tail (segs @ [l])) (drop (i + length seg) n)"
      if ab: "n = a @ seg @ b" "wild_spec (star_tail (segs @ [l])) b" for a b
    proof -
      have i: "i \<le> length a" using Index_leftmost [OF ab(1)] Some by simp
      let ?m = "drop (i + length seg) n"
      have "drop (length a - i) ?m = drop (length a + length seg) n" using i by simp
      also have "\<dots> = b" using ab(1) by simp
      finally have "?m = take (length a - i) ?m @ b" by (metis append_take_drop_id)
      moreover have "segs @ [l] \<noteq> []" by simp
      ultimately show ?thesis using wild_spec_tail_prepend ab(2) by metis
    qed
    then have "wild_spec (star_tail ((seg # segs) @ [l])) n \<longleftrightarrow>
        wild_spec (star_tail (segs @ [l])) (drop (i + length seg) n)"
      using spec n by metis
    then show ?thesis using IH Some by simp
  qed
qed

lemma Join_star: "Join (p # ps) ''*'' = p @ star_tail ps"
  by (induction ps arbitrary: p) auto

lemma wildcardMatch_spec: "wildcardMatch pattern name \<longleftrightarrow> wild_spec pattern name"
proof -
  obtain p ps where parts: "SplitOn CHR ''*'' pattern = p # ps"
    by (cases "SplitOn CHR ''*'' pattern") auto
  have nostar: "CHR ''*'' \<notin> set q" if "q \<in> set (p # ps)" for q
    using SplitOn_parts that parts by metis
  have pat: "pattern = p @ star_tail ps"
    using Join_SplitOn [of "CHR ''*''" pattern] parts Join_star by metis
  show ?thesis
  proof (cases ps rule: rev_cases)
    case Nil
    then show ?thesis using pat nostar parts by (simp add: wildcardMatch_def wild_spec_no_star)
  next
    case (snoc segs l)
    have "wild_spec pattern name \<longleftrightarrow> (\<exists>b. name = p @ b \<and> wild_spec (star_tail (segs @ [l])) b)"
      using pat snoc nostar [of p] by (simp add: wild_spec_literal)
    also have "\<dots> \<longleftrightarrow> HasPrefix name p \<and> wild_spec (star_tail (segs @ [l])) (drop (length p) name)"
      by (auto simp: HasPrefix_append)
    also have "\<dots> \<longleftrightarrow> wildcardMatch pattern name"
      using parts snoc nostar wildcard_segs_spec [of segs l "drop (length p) name"]
      by (auto simp: wildcardMatch_def split: option.splits)
    finally show ?thesis by simp
  qed
qed

section \<open>What a policy admits\<close>

text \<open>The declarative reading of the guard plane and the match plane of one policy.\<close>

definition allows :: "PatternConf option \<Rightarrow> (string \<Rightarrow> bool) \<Rightarrow> bool" where
  "allows conf matches = (\<exists>c. conf = Some c \<and> (\<exists>p \<in> set (Allow c). matches p))"

definition extensions_allowed :: "Policy \<Rightarrow> csr \<Rightarrow> bool" where
  "extensions_allowed policy csr =
     (\<forall>ext \<in> set (csr_Extensions csr). IsAuthorizationOID (ext_Id ext) \<longrightarrow>
        allows (pol_Extensions policy) (\<lambda>n. OIDByName n = Some (ext_Id ext)))"

definition sans_allowed :: "parsers \<Rightarrow> Policy \<Rightarrow> csr \<Rightarrow> bool" where
  "sans_allowed L policy csr \<longleftrightarrow>
     (\<forall>d \<in> set (DNSNames csr). allows (pol_DNSAltNames policy) (\<lambda>p. globMatch p d)) \<and>
     (\<forall>i \<in> set (IPAddresses csr). allows (pol_IPAltNames policy)
        (\<lambda>c. \<exists>n. ParseCIDR L c = Some n \<and> IPNet_Contains n i)) \<and>
     (\<forall>u \<in> set (URIs csr). allows (pol_URIAltNames policy) (\<lambda>p. wild_spec p (url_String u))) \<and>
     (\<forall>e \<in> set (EmailAddresses csr). allows (pol_EmailAltNames policy) (\<lambda>p. wild_spec p e))"

definition conditions_hold :: "parsers \<Rightarrow> Policy \<Rightarrow> string \<Rightarrow> csr \<Rightarrow> bool" where
  "conditions_hold L policy certname csr \<longleftrightarrow>
     (pol_Certnames policy \<noteq> None \<or> pol_CSRAttributes policy \<noteq> []) \<and>
     (pol_Certnames policy \<noteq> None \<longrightarrow> allows (pol_Certnames policy) (\<lambda>p. globMatch p certname)) \<and>
     (\<forall>a \<in> set (pol_CSRAttributes policy). \<exists>oid. OIDByName (attr_Name a) = Some oid \<and>
        extractCSRExtensionByOID L csr oid = Some (attr_Value a))"

definition policy_admits :: "parsers \<Rightarrow> Policy \<Rightarrow> string \<Rightarrow> csr \<Rightarrow> bool" where
  "policy_admits L policy certname csr \<longleftrightarrow>
     extensions_allowed policy csr \<and> sans_allowed L policy csr \<and>
     (pol_Any policy \<or> conditions_hold L policy certname csr)"

lemma guardExtensions_iff: "guardExtensions policy csr \<longleftrightarrow> extensions_allowed policy csr"
  by (cases "pol_Extensions policy")
    (auto simp: guardExtensions_def extensions_allowed_def allows_def list_all_iff
      case_option_ex NameByOID_OIDByName)

lemma allIPInCIDRs_iff:
  "allIPInCIDRs L cidrs ips \<longleftrightarrow>
   (\<forall>i \<in> set ips. \<exists>c \<in> set cidrs. \<exists>n. ParseCIDR L c = Some n \<and> IPNet_Contains n i)"
  by (auto simp: allIPInCIDRs_def list_all_iff list_ex_iff List.map_filter_def) force+

lemma guard_san:
  assumes "\<And>p. M p \<longleftrightarrow> (\<forall>x \<in> set xs. \<exists>a \<in> set (Allow p). m x a)"
  shows "xs \<noteq> [] \<and> (case conf of None \<Rightarrow> True | Some p \<Rightarrow> \<not> M p) \<longleftrightarrow>
    \<not> (\<forall>x \<in> set xs. allows conf (m x))"
  by (cases conf; cases xs) (auto simp: allows_def assms)

lemma guardSANs_iff: "guardSANs L policy csr \<longleftrightarrow> sans_allowed L policy csr"
proof -
  let ?ip = "\<lambda>i c. \<exists>n. ParseCIDR L c = Some n \<and> IPNet_Contains n i"
  have dns: "matchDNSAltNames p xs \<longleftrightarrow> (\<forall>x \<in> set xs. \<exists>a \<in> set (Allow p). globMatch a x)" for p xs
    by (simp add: matchDNSAltNames_def list_all_iff list_ex_iff)
  have ip: "allIPInCIDRs L (Allow p) xs \<longleftrightarrow> (\<forall>x \<in> set xs. \<exists>a \<in> set (Allow p). ?ip x a)" for p xs
    by (simp add: allIPInCIDRs_iff)
  have wild: "allWildcardMatch (Allow p) xs \<longleftrightarrow>
      (\<forall>x \<in> set xs. \<exists>a \<in> set (Allow p). wild_spec a x)" for p xs
    by (simp add: allWildcardMatch_def list_all_iff list_ex_iff wildcardMatch_spec)
  have uris: "uriStrings us = [] \<longleftrightarrow> us = []" for us by (simp add: uriStrings_def)
  show ?thesis
    unfolding guardSANs_def sans_allowed_def
    using guard_san [OF dns, of "DNSNames csr" "pol_DNSAltNames policy"]
      guard_san [OF ip, of "IPAddresses csr" "pol_IPAltNames policy"]
      guard_san [OF wild, of "uriStrings (URIs csr)" "pol_URIAltNames policy"]
      guard_san [OF wild, of "EmailAddresses csr" "pol_EmailAltNames policy"]
    unfolding uris by (simp only:) (auto simp: uriStrings_def)
qed

lemma matchCSRAttributes_iff:
  "matchCSRAttributes L attrs csr \<longleftrightarrow>
   (\<forall>a \<in> set attrs. \<exists>oid. OIDByName (attr_Name a) = Some oid \<and>
        extractCSRExtensionByOID L csr oid = Some (attr_Value a))"
  unfolding matchCSRAttributes_def list_all_iff extractCSRAttribute_def case_option_ex
  by (rule ball_cong [OF refl]) (auto split: option.splits)

lemma evaluatePolicy_iff:
  "evaluatePolicy L policy certname csr \<longleftrightarrow> policy_admits L policy certname csr"
  unfolding evaluatePolicy_def policy_admits_def guardExtensions_iff guardSANs_iff
    matchCSRAttributes_iff conditions_hold_def allows_def
  by (cases "pol_Certnames policy") (auto simp: matchPattern_def list_ex_iff)

lemma evaluatePolicies_iff:
  "evaluatePolicies L cfg certname csr \<longleftrightarrow>
   \<not> isReservedCertname cfg certname \<and> EqualFold (CommonName csr) certname \<and>
   (\<exists>policy \<in> set (Policies cfg). policy_admits L policy certname csr)"
  by (simp add: evaluatePolicies_def subjectMatchesCertname_def list_ex_iff evaluatePolicy_iff)

lemma autosign_main_zero:
  "autosign_main env f args = 0 \<longleftrightarrow>
   (\<exists>certname rest cfg pem csr. args = certname # rest \<and>
      loadPolicyConfig env (case f of None \<Rightarrow> AutosignPolicyPath | Some p \<Rightarrow> p) = Some cfg \<and>
      Stdin env = Some pem \<and> parseCSR env pem = Some csr \<and>
      evaluatePolicies (lib env) cfg certname csr)"
  by (auto simp: autosign_main_def split: list.splits option.splits)

section \<open>Properties\<close>

text \<open>C28: the autosign program exits with 0, so that puppetserver signs, exactly when it was
  given a certname, the policy file and the CSR could be read and parsed, the certname is not
  reserved under case folding, the CSR's subject carries the same name, and one of the
  policies admits the request in the declarative sense: every privileged extension and every
  alternative name of each of the four kinds is allow-listed by that same policy, and the
  policy is unconditional or has at least one condition and all of them hold. Every error
  path and every other outcome exits with 1.\<close>

theorem autosign_exit_code:
  "autosign_main env f args =
   (if \<exists>certname rest cfg pem csr. args = certname # rest \<and>
        loadPolicyConfig env (case f of None \<Rightarrow> AutosignPolicyPath | Some p \<Rightarrow> p) = Some cfg \<and>
        Stdin env = Some pem \<and> parseCSR env pem = Some csr \<and>
        (\<nexists>r. r \<in> set (ReservedCertnames cfg) \<and> EqualFold r certname) \<and>
        EqualFold (CommonName csr) certname \<and>
        (\<exists>policy \<in> set (Policies cfg). policy_admits (lib env) policy certname csr)
    then 0 else 1)"
proof -
  have "autosign_main env f args \<in> {0, 1}"
    by (auto simp: autosign_main_def split: list.splits option.splits)
  then show ?thesis
    using autosign_main_zero [of env f args]
    by (auto simp: evaluatePolicies_iff isReservedCertname_def list_ex_iff)
qed

text \<open>C1: no privilege escalation through autosigning. When the program exits with 0 for a CSR
  that carries an extension of Puppet's authorization arc, that extension is one of the three
  known ones and a policy of the configuration names it in its allow list; extensions of the
  arc that have no known name are refused under every configuration, also under any: true.\<close>

theorem autosign_no_escalation:
  assumes "autosign_main env f (certname # rest) = 0"
    and "Stdin env = Some pem" and "parseCSR env pem = Some csr"
    and "ext \<in> set (csr_Extensions csr)" and "IsAuthorizationOID (ext_Id ext)"
  shows "\<exists>n cfg policy conf. n \<in> {''pp_authorization'', ''pp_auth_token'', ''pp_cli_auth''} \<and>
     OIDByName n = Some (ext_Id ext) \<and>
     loadPolicyConfig env (case f of None \<Rightarrow> AutosignPolicyPath | Some p \<Rightarrow> p) = Some cfg \<and>
     policy \<in> set (Policies cfg) \<and> pol_Extensions policy = Some conf \<and> n \<in> set (Allow conf)"
proof -
  obtain cfg policy where cfg: "loadPolicyConfig env
        (case f of None \<Rightarrow> AutosignPolicyPath | Some p \<Rightarrow> p) = Some cfg"
    and pol: "policy \<in> set (Policies cfg)" "policy_admits (lib env) policy certname csr"
    using assms(1-3) by (auto simp: autosign_main_zero evaluatePolicies_iff)
  have "allows (pol_Extensions policy) (\<lambda>n. OIDByName n = Some (ext_Id ext))"
    using pol(2) assms(4,5) by (simp add: policy_admits_def extensions_allowed_def)
  then obtain conf n where c: "pol_Extensions policy = Some conf" "n \<in> set (Allow conf)"
    "OIDByName n = Some (ext_Id ext)"
    by (auto simp: allows_def)
  then have "n \<in> {''pp_authorization'', ''pp_auth_token'', ''pp_cli_auth''}"
    using authorization_names assms(5) by blast
  then show ?thesis using cfg pol(1) c by blast
qed

definition demo_csr :: csr where
  "demo_csr = \<lparr> CommonName = ''Node1'',
     csr_Extensions = [\<lparr> ext_Id = [1, 3, 6, 1, 4, 1, 34380, 1, 3, 39], ext_Value = ''true'' \<rparr>],
     DNSNames = [], IPAddresses = [], URIs = [], EmailAddresses = [] \<rparr>"

definition demo_policy :: Policy where
  "demo_policy = \<lparr> pol_Name = ''p'', pol_Any = True, pol_Certnames = None, pol_DNSAltNames = None,
     pol_IPAltNames = None, pol_URIAltNames = None, pol_EmailAltNames = None,
     pol_Extensions = Some \<lparr> Allow = [''pp_cli_auth''] \<rparr>, pol_CSRAttributes = [] \<rparr>"

definition demo_env :: autosign_env where
  "demo_env = \<lparr> lib = \<lparr> ParseCIDR = (\<lambda>_. None), UnmarshalString = (\<lambda>_. None) \<rparr>,
     ReadFile = (\<lambda>p. if p = AutosignPolicyPath then Some ''y'' else None), Stdin = Some ''pem'',
     UnmarshalPolicy = (\<lambda>_. Some \<lparr> ReservedCertnames = [''ca-operator''],
                                   Policies = [demo_policy] \<rparr>),
     PemDecode = (\<lambda>_. Some ''der''), ParseCertificateRequest = (\<lambda>_. Some demo_csr) \<rparr>"

lemma demo_signs: "autosign_main demo_env None [''node1''] = 0"
proof -
  have "EqualFold ''Node1'' ''node1''" "\<not> EqualFold ''ca-operator'' ''node1''" by code_simp+
  moreover have "NameByOID [1, 3, 6, 1, 4, 1, 34380, 1, 3, 39] = Some ''pp_cli_auth''"
    by (simp add: NameByOID_def PuppetOIDs_def)
  ultimately show ?thesis
    by (simp add: autosign_main_def loadPolicyConfig_def parseCSR_def demo_env_def demo_csr_def
        demo_policy_def evaluatePolicies_def isReservedCertname_def subjectMatchesCertname_def
        evaluatePolicy_def guardExtensions_def guardSANs_def)
qed

theorem autosign_no_escalation_witness:
  "\<exists>n cfg policy conf. n \<in> {''pp_authorization'', ''pp_auth_token'', ''pp_cli_auth''} \<and>
     OIDByName n = Some [1, 3, 6, 1, 4, 1, 34380, 1, 3, 39] \<and>
     loadPolicyConfig demo_env AutosignPolicyPath = Some cfg \<and>
     policy \<in> set (Policies cfg) \<and> pol_Extensions policy = Some conf \<and> n \<in> set (Allow conf)"
  using autosign_no_escalation [of demo_env None "''node1''" "[]" "''pem''" demo_csr
      "\<lparr> ext_Id = [1, 3, 6, 1, 4, 1, 34380, 1, 3, 39], ext_Value = ''true'' \<rparr>"] demo_signs
  by (simp add: demo_env_def parseCSR_def demo_csr_def IsAuthorizationOID_prefix AuthorizationArc_def)

text \<open>C34: the greedy wildcard matcher used for URI and e-mail alternative names (split at the
  stars, leftmost search of each segment) decides exactly the pattern language in which a star
  stands for any string and every other character for itself.\<close>

theorem wildcardMatch_iff: "wildcardMatch pattern name = wild_spec pattern name"
  by (rule wildcardMatch_spec)

text \<open>C33: globMatch, the matcher of certnames and DNS alternative names, decides on patterns of
  ordinary characters, star and question mark and on ASCII names exactly the language in which
  a question mark is one character and a star any string, neither crossing a slash; the chunk
  search of filepath.Match, which never backtracks over an earlier star, loses no match.\<close>

theorem globMatch_iff:
  assumes "simple_pattern pattern" and "ascii name"
  shows "globMatch pattern name = glob_spec pattern name"
  by (simp add: globMatch_def filepath_Match_simple [OF assms])

theorem globMatch_iff_witness:
  "globMatch ''web*.pr?d'' ''web01.prod'' = True \<and> globMatch ''web*'' ''web/x'' = False"
proof -
  have "simple_pattern ''web*.pr?d'' \<and> simple_pattern ''web*'' \<and> ascii ''web01.prod'' \<and> ascii ''web/x''"
    by code_simp
  moreover have "glob_spec ''web*.pr?d'' ''web01.prod''" "\<not> glob_spec ''web*'' ''web/x''"
    by code_simp+
  ultimately show ?thesis
    using globMatch_iff [of "''web*.pr?d''" "''web01.prod''"] globMatch_iff [of "''web*''" "''web/x''"]
    by simp
qed

text \<open>the look-up of an extension name by object identifier inverts the look-up by name,
  whichever order the iteration over the Go map takes.\<close>

theorem extension_names_roundtrip:
  assumes "set es = set PuppetOIDs" and "distinct es"
  shows "name_in_order es oid = Some n \<longleftrightarrow> OIDByName n = Some oid"
  using NameByOID_any_order [OF assms] by (simp add: NameByOID_OIDByName)

theorem extension_names_roundtrip_witness:
  "name_in_order (rev PuppetOIDs) [1, 3, 6, 1, 4, 1, 34380, 1, 1, 13] = Some ''pp_role''"
proof -
  have "distinct PuppetOIDs" using PuppetOIDs_names_distinct by (simp add: distinct_map)
  then show ?thesis
    using extension_names_roundtrip [of "rev PuppetOIDs" "[1, 3, 6, 1, 4, 1, 34380, 1, 1, 13]" "''pp_role''"]
    by (simp add: OIDByName_def PuppetOIDs_def)
qed

end
