(* ===== verification/Kube.thy ===== *)
theory Kube
  imports Prelude
begin

text \<open>
  The Kubernetes vocabulary the controllers share: object metadata, owner references,
  conditions, Secrets, errors with the reason the code asks for (IsNotFound and so on survive
  wrapping), reconcile results and the requeue intervals of internal/controller/constants.go.

  The library functions the code calls (apimachinery's condition helpers, controllerutil's
  finalizers and owner references, SHA-256) are not in the repository: they are the fields of
  the parameter \<open>kube_lib\<close>, and the locale \<open>kube_laws\<close> states the documented laws
  the code relies on. The instance \<open>reference_lib\<close> satisfies them.
\<close>

section \<open>Objects\<close>

record OwnerRef =
  or_Kind :: string
  or_Name :: string
  or_UID :: string
  or_Controller :: bool

record ObjectMeta =
  m_Name :: string
  m_Namespace :: string
  m_UID :: string
  m_ResourceVersion :: string
  m_Generation :: int
  m_CreationTimestamp :: "int option"
  m_DeletionTimestamp :: "int option"
  m_Finalizers :: "string list"
  m_Labels :: "string smap"
  m_Annotations :: "string smap"
  m_OwnerReferences :: "OwnerRef list"

record Condition =
  cond_Type :: string
  cond_Status :: string
  cond_Reason :: string
  cond_Message :: string
  cond_ObservedGeneration :: int

record Secret =
  s_Meta :: ObjectMeta
  s_Data :: "string smap"

definition new_meta :: "string \<Rightarrow> string \<Rightarrow> ObjectMeta" where
  "new_meta name namespace =
     \<lparr> m_Name = name, m_Namespace = namespace, m_UID = [], m_ResourceVersion = [],
       m_Generation = 0, m_CreationTimestamp = None, m_DeletionTimestamp = None,
       m_Finalizers = [], m_Labels = [], m_Annotations = [], m_OwnerReferences = [] \<rparr>"

section \<open>Errors and results\<close>

datatype reason = NotFound | AlreadyExists | Conflict | Plain

datatype err = Err (err_reason: reason) (err_text: string)

text \<open>fmt.Errorf with a new text, and with a prefix around a wrapped error.\<close>

definition Errorf :: "string \<Rightarrow> err" where
  "Errorf msg = Err Plain msg"

definition wrapf :: "string \<Rightarrow> err \<Rightarrow> err" where
  "wrapf msg e = Err (err_reason e) (msg @ '': '' @ err_text e)"

definition IsNotFound :: "err \<Rightarrow> bool" where
  "IsNotFound e = (err_reason e = NotFound)"

definition IsAlreadyExists :: "err \<Rightarrow> bool" where
  "IsAlreadyExists e = (err_reason e = AlreadyExists)"

text \<open>An operation whose error is wrapped on the way up.\<close>

definition wrapping :: "string \<Rightarrow> ('s, err, 'a) op \<Rightarrow> ('s, err, 'a) op" where
  "wrapping msg m = (\<lambda>s. case m s of (Inl e, s') \<Rightarrow> (Inl (wrapf msg e), s') | (Inr x, s') \<Rightarrow> (Inr x, s'))"

lemma keeps_wrapping [keeps_rules]: "keeps I m \<Longrightarrow> keeps I (wrapping msg m)"
  by (auto simp: keeps_def wrapping_def split: prod.splits sum.splits)

lemma wrapping_steps:
  "m s = (Inr x, s') \<Longrightarrow> wrapping msg m s = (Inr x, s')"
  "m s = (Inl e, s') \<Longrightarrow> wrapping msg m s = (Inl (wrapf msg e), s')"
  by (simp_all add: wrapping_def)

text \<open>Returning a requeue delay together with the error, and a value that may be an error.\<close>

definition failing :: "int \<Rightarrow> ('s, err, 'a) op \<Rightarrow> ('s, int \<times> err, 'a) op" where
  "failing delay m = (\<lambda>s. case m s of (Inl e, s') \<Rightarrow> (Inl (delay, e), s') | (Inr x, s') \<Rightarrow> (Inr x, s'))"

definition lift :: "'e + 'a \<Rightarrow> ('s, 'e, 'a) op" where
  "lift r = (\<lambda>s. (r, s))"

lemma keeps_failing [keeps_rules]: "keeps I m \<Longrightarrow> keeps I (failing d m)"
  by (auto simp: keeps_def failing_def split: prod.splits sum.splits)

lemma keeps_lift [keeps_rules, intro!]: "keeps I (lift r)"
  by (simp add: keeps_def lift_def)

lemma failing_steps:
  "m s = (Inr x, s') \<Longrightarrow> failing d m s = (Inr x, s')"
  "m s = (Inl e, s') \<Longrightarrow> failing d m s = (Inl (d, e), s')"
  by (simp_all add: failing_def)

section \<open>Calls\<close>

text \<open>
  A controller's run: the calls made so far, newest last, and the object it reconciles, in
  memory. One call is answered by a function of the history before it and is recorded.
\<close>

record ('c, 'o) world =
  hist :: "'c list"
  obj :: 'o

definition call :: "'c \<Rightarrow> ('c list \<Rightarrow> 'e + 'a) \<Rightarrow> (('c, 'o) world, 'e, 'a) op" where
  "call c answer = (\<lambda>s. (answer (hist s), s \<lparr> hist := hist s @ [c] \<rparr>))"

definition mutate_obj :: "('o \<Rightarrow> 'o) \<Rightarrow> (('c, 'o) world, 'e, unit) op" where
  "mutate_obj f = modify (\<lambda>s. s \<lparr> obj := f (obj s) \<rparr>)"

text \<open>A call whose failure is only logged.\<close>

definition logged :: "('s, 'f, 'a) op \<Rightarrow> ('s, 'e, unit) op" where
  "logged m = (\<lambda>s. case m s of (_, s') \<Rightarrow> (Inr (), s'))"

text \<open>
  controllerutil.CreateOrUpdate with the read, the callback and the write as parameters: an
  object that does not exist is built from the empty one and created; one that the callback
  leaves as it is is not written.
\<close>

datatype operation_result = Created | Updated | NoChange

definition create_or_update :: "('s, err, 'o) op \<Rightarrow> 'o \<Rightarrow> ('o \<Rightarrow> err + 'o) \<Rightarrow>
    ('o \<Rightarrow> ('s, err, unit) op) \<Rightarrow> ('o \<Rightarrow> ('s, err, unit) op) \<Rightarrow> ('s, err, operation_result) op" where
  "create_or_update get blank mutate create update =
     bnd (outcome get) (\<lambda>r. case r of
       Inl e \<Rightarrow>
         if IsNotFound e then
           (case mutate blank of Inl e' \<Rightarrow> throw e' | Inr new \<Rightarrow> thn (create new) (ret Created))
         else throw e
     | Inr found \<Rightarrow>
         (case mutate found of
            Inl e' \<Rightarrow> throw e'
          | Inr new \<Rightarrow> if new = found then ret NoChange else thn (update new) (ret Updated)))"

text \<open>retry.RetryOnConflict with the number of attempts after the first one.\<close>

fun retry_on_conflict :: "nat \<Rightarrow> ('s, err, 'a) op \<Rightarrow> ('s, err, 'a) op" where
  "retry_on_conflict 0 m = m"
| "retry_on_conflict (Suc n) m =
     (\<lambda>s. case m s of
            (Inl e, s') \<Rightarrow> if err_reason e = Conflict then retry_on_conflict n m s' else (Inl e, s')
          | (Inr x, s') \<Rightarrow> (Inr x, s'))"

text \<open>updateStatusWithRetry of internal/controller/helpers.go: read again, change, send the status.\<close>

definition status_with_retry :: "nat \<Rightarrow> (('c, 'o) world, err, unit) op \<Rightarrow> ('o \<Rightarrow> 'o) \<Rightarrow>
    (('c, 'o) world, err, unit) op \<Rightarrow> (('c, 'o) world, err, unit) op" where
  "status_with_retry retries read change send =
     retry_on_conflict retries (thn read (thn (mutate_obj change) send))"

lemma keeps_retry [keeps_rules]: "keeps I m \<Longrightarrow> keeps I (retry_on_conflict n m)"
proof (induction n)
  case (Suc n)
  then have IH: "keeps I (retry_on_conflict n m)" by simp
  show ?case unfolding keeps_def
  proof (intro allI impI)
    fix s assume "I s"
    obtain r s' where ms: "m s = (r, s')" by (cases "m s")
    then have "I s'" using Suc.prems \<open>I s\<close> keepsD by metis
    then show "I (snd (retry_on_conflict (Suc n) m s))"
      using IH ms by (cases r) (auto simp: keeps_def)
  qed
qed simp

lemma retry_ok: "m s = (Inr x, s') \<Longrightarrow> retry_on_conflict n m s = (Inr x, s')"
  by (cases n) simp_all

lemma only_wrapping [only_rules]: "only hs P m \<Longrightarrow> only hs P (wrapping msg m)"
  by (rule onlyI) (auto simp: wrapping_def split: prod.splits sum.splits dest: onlyD)

lemma only_failing [only_rules]: "only hs P m \<Longrightarrow> only hs P (failing d m)"
  by (rule onlyI) (auto simp: failing_def split: prod.splits sum.splits dest: onlyD)

lemma only_lift [only_rules]: "only hs P (lift r)"
  by (simp add: only_def lift_def)

lemma only_retry [only_rules]:
  assumes "only hs P m"
  shows "only hs P (retry_on_conflict n m)"
proof (induction n)
  case (Suc n)
  show ?case unfolding only_def
  proof
    fix s
    obtain r s' where ms: "m s = (r, s')" by (cases "m s")
    obtain cs where cs: "hs s' = hs s @ cs" "list_all P cs" using onlyD [OF assms ms] by blast
    obtain ds where ds: "hs (snd (retry_on_conflict n m s')) = hs s' @ ds" "list_all P ds"
      using Suc unfolding only_def by blast
    have "list_all P (cs @ ds)" using cs ds by simp
    then show "\<exists>cs. hs (snd (retry_on_conflict (Suc n) m s)) = hs s @ cs \<and> list_all P cs"
      using ms cs ds by (cases r) (auto intro: exI [of _ "cs @ ds"] split: if_splits)
  qed
qed (simp add: assms)

lemma only_call: "P c \<Longrightarrow> only hist P (call c a)"
  by (simp add: only_def call_def)

lemma only_mutate: "only hist P (mutate_obj f)"
  unfolding mutate_obj_def by (rule only_modify) simp

lemma only_logged [only_rules]: "only hs P m \<Longrightarrow> only hs P (logged m)"
  by (rule onlyI) (auto simp: logged_def split: prod.splits dest: onlyD)

lemma only_create_or_update [only_rules]:
  assumes "only hs P get" and "\<And>x. only hs P (create x)" and "\<And>x. only hs P (update x)"
  shows "only hs P (create_or_update get blank mutate create update)"
  unfolding create_or_update_def by (intro only_rules assms)

lemma only_status_with_retry [only_rules]:
  "only hist P read \<Longrightarrow> only hist P send \<Longrightarrow> only hist P (status_with_retry n read f send)"
  unfolding status_with_retry_def by (intro only_rules only_mutate only_retry)

lemma keeps_obj_call: "keeps (\<lambda>s. Q (obj s)) (call c a)"
  by (simp add: keeps_def call_def)

lemma wrapping_InrE: "wrapping msg m s = (Inr x, s') \<Longrightarrow> m s = (Inr x, s')"
  by (auto simp: wrapping_def split: prod.splits sum.splits)

lemma yields_wrapping: "yields I m Q \<Longrightarrow> yields I (wrapping msg m) Q"
  unfolding yields_def wrapping_def by fastforce

lemma ends_wrapping [ends_rules]: "ends I m Q \<Longrightarrow> ends I (wrapping msg m) Q"
  by (auto simp: ends_def dest: wrapping_InrE)

lemma lift_InrE: "lift r s = (Inr x, s') \<Longrightarrow> r = Inr x \<and> s' = s"
  by (auto simp: lift_def)

lemma retry_InrE:
  "retry_on_conflict n m s = (Inr x, s') \<Longrightarrow> keeps I m \<Longrightarrow> I s \<Longrightarrow>
   \<exists>s1. I s1 \<and> m s1 = (Inr x, s')"
proof (induction n arbitrary: s)
  case (Suc n)
  obtain r s1 where ms: "m s = (r, s1)" by (cases "m s")
  then have "I s1" using Suc.prems keepsD by metis
  then show ?case
    using Suc ms by (cases r) (auto split: if_splits)
qed auto

text \<open>ctrl.Result: the requeue delay in nanoseconds, 0 for none.\<close>

datatype result = Result (RequeueAfter: int)

definition seconds :: "int \<Rightarrow> int" where "seconds n = n * 1000000000"
definition minutes :: "int \<Rightarrow> int" where "minutes n = seconds (n * 60)"
definition hours :: "int \<Rightarrow> int" where "hours n = seconds (n * 3600)"

definition RequeueIntervalShort :: int where "RequeueIntervalShort = seconds 5"
definition RequeueIntervalMedium :: int where "RequeueIntervalMedium = seconds 10"
definition RequeueIntervalLong :: int where "RequeueIntervalLong = seconds 15"
definition RequeueIntervalCRL :: int where "RequeueIntervalCRL = seconds 30"
definition DefaultCRLRefreshInterval :: int where "DefaultCRLRefreshInterval = minutes 5"
definition CAServerWaitGrace :: int where "CAServerWaitGrace = minutes 2"

lemmas durations = seconds_def minutes_def hours_def RequeueIntervalShort_def
  RequeueIntervalMedium_def RequeueIntervalLong_def RequeueIntervalCRL_def
  DefaultCRLRefreshInterval_def CAServerWaitGrace_def

section \<open>The library the controllers call\<close>

record kube_lib =
  SetStatusCondition :: "Condition list \<Rightarrow> Condition \<Rightarrow> Condition list"
  FindStatusCondition :: "Condition list \<Rightarrow> string \<Rightarrow> Condition option"
  RemoveStatusCondition :: "Condition list \<Rightarrow> string \<Rightarrow> Condition list"
  IsControlledBy :: "ObjectMeta \<Rightarrow> ObjectMeta \<Rightarrow> bool"
  SetControllerReference :: "string \<Rightarrow> ObjectMeta \<Rightarrow> ObjectMeta \<Rightarrow> err + ObjectMeta"
  ContainsFinalizer :: "ObjectMeta \<Rightarrow> string \<Rightarrow> bool"
  AddFinalizer :: "ObjectMeta \<Rightarrow> string \<Rightarrow> ObjectMeta"
  RemoveFinalizer :: "ObjectMeta \<Rightarrow> string \<Rightarrow> ObjectMeta"
  Sha256Hex :: "string \<Rightarrow> string"

text \<open>meta.IsStatusConditionTrue: the condition is present with status True.\<close>

definition IsStatusConditionTrue :: "kube_lib \<Rightarrow> Condition list \<Rightarrow> string \<Rightarrow> bool" where
  "IsStatusConditionTrue L cs t =
     (case FindStatusCondition L cs t of None \<Rightarrow> False | Some c \<Rightarrow> cond_Status c = ''True'')"

locale kube_laws =
  fixes L :: kube_lib
  assumes find_set: "FindStatusCondition L (SetStatusCondition L cs c) t =
      (if t = cond_Type c then Some c else FindStatusCondition L cs t)"
    and find_remove: "FindStatusCondition L (RemoveStatusCondition L cs t') t =
      (if t = t' then None else FindStatusCondition L cs t)"
    and set_controller: "SetControllerReference L kind owner object = Inr object' \<Longrightarrow>
      IsControlledBy L object' owner \<and> (\<exists>refs. object' = object \<lparr> m_OwnerReferences := refs \<rparr>)"
    and controller_refs: "m_OwnerReferences object = m_OwnerReferences object2 \<Longrightarrow>
      m_UID owner = m_UID owner2 \<Longrightarrow> IsControlledBy L object owner = IsControlledBy L object2 owner2"
    and finalizer_added: "ContainsFinalizer L (AddFinalizer L m f) f"
    and finalizer_removed: "\<not> ContainsFinalizer L (RemoveFinalizer L m f) f"
    and finalizer_only: "\<exists>fs. AddFinalizer L m f = m \<lparr> m_Finalizers := fs \<rparr>"
      "\<exists>fs. RemoveFinalizer L m f = m \<lparr> m_Finalizers := fs \<rparr>"
begin

lemma condition_set_true:
  "IsStatusConditionTrue L (SetStatusCondition L cs c) t =
   (if t = cond_Type c then cond_Status c = ''True'' else IsStatusConditionTrue L cs t)"
  by (simp add: IsStatusConditionTrue_def find_set)

lemma condition_removed:
  "IsStatusConditionTrue L (RemoveStatusCondition L cs t') t =
   (t \<noteq> t' \<and> IsStatusConditionTrue L cs t)"
  by (simp add: IsStatusConditionTrue_def find_remove)

end

section \<open>An instance of the library\<close>

fun set_condition :: "Condition list \<Rightarrow> Condition \<Rightarrow> Condition list" where
  "set_condition [] c = [c]"
| "set_condition (d # cs) c =
     (if cond_Type d = cond_Type c then c # cs else d # set_condition cs c)"

definition set_controller_reference :: "string \<Rightarrow> ObjectMeta \<Rightarrow> ObjectMeta \<Rightarrow> err + ObjectMeta" where
  "set_controller_reference kind owner object =
     (if list_ex (\<lambda>r. or_Controller r \<and> or_UID r \<noteq> m_UID owner) (m_OwnerReferences object)
      then Inl (Errorf ''already owned'')
      else Inr (object \<lparr> m_OwnerReferences := \<lparr> or_Kind = kind, or_Name = m_Name owner,
             or_UID = m_UID owner, or_Controller = True \<rparr>
             # filter (\<lambda>r. or_UID r \<noteq> m_UID owner) (m_OwnerReferences object) \<rparr>))"

definition reference_lib :: kube_lib where
  "reference_lib = \<lparr>
     SetStatusCondition = set_condition,
     FindStatusCondition = (\<lambda>cs t. find (\<lambda>c. cond_Type c = t) cs),
     RemoveStatusCondition = (\<lambda>cs t. filter (\<lambda>c. cond_Type c \<noteq> t) cs),
     IsControlledBy = (\<lambda>object owner. case find or_Controller (m_OwnerReferences object) of
                         None \<Rightarrow> False | Some r \<Rightarrow> or_UID r = m_UID owner),
     SetControllerReference = set_controller_reference,
     ContainsFinalizer = (\<lambda>m f. f \<in> set (m_Finalizers m)),
     AddFinalizer = (\<lambda>m f. if f \<in> set (m_Finalizers m) then m
                            else m \<lparr> m_Finalizers := m_Finalizers m @ [f] \<rparr>),
     RemoveFinalizer = (\<lambda>m f. m \<lparr> m_Finalizers := filter (\<lambda>g. g \<noteq> f) (m_Finalizers m) \<rparr>),
     Sha256Hex = (\<lambda>s. s) \<rparr>"

lemma find_set_condition:
  "find (\<lambda>d. cond_Type d = t) (set_condition cs c) =
   (if t = cond_Type c then Some c else find (\<lambda>d. cond_Type d = t) cs)"
  by (induction cs c rule: set_condition.induct) auto

lemma find_filter_type:
  "find (\<lambda>d. cond_Type d = t) (filter (\<lambda>d. cond_Type d \<noteq> t') cs) =
   (if t = t' then None else find (\<lambda>d. cond_Type d = t) cs)"
  by (induction cs) auto

lemma meta_finalizers_id: "m \<lparr> m_Finalizers := m_Finalizers m \<rparr> = m"
  by (cases m) simp

interpretation reference: kube_laws reference_lib
proof unfold_locales
  fix kind owner object object'
  assume "SetControllerReference reference_lib kind owner object = Inr object'"
  then show "IsControlledBy reference_lib object' owner \<and>
      (\<exists>refs. object' = object \<lparr> m_OwnerReferences := refs \<rparr>)"
    by (auto simp: reference_lib_def set_controller_reference_def split: if_splits)
next
  fix m f
  show "\<exists>fs. AddFinalizer reference_lib m f = m \<lparr> m_Finalizers := fs \<rparr>"
    by (auto simp: reference_lib_def intro: meta_finalizers_id [symmetric])
  show "\<exists>fs. RemoveFinalizer reference_lib m f = m \<lparr> m_Finalizers := fs \<rparr>"
    by (auto simp: reference_lib_def)
qed (auto simp: reference_lib_def find_set_condition find_filter_type split: option.splits)

section \<open>Names of labels\<close>

definition LabelConfig :: string where "LabelConfig = ''openvox.voxpupuli.org/config''"
definition LabelCertificateAuthority :: string where
  "LabelCertificateAuthority = ''openvox.voxpupuli.org/certificateauthority''"
definition LabelPoolPrefix :: string where "LabelPoolPrefix = ''openvox.voxpupuli.org/pool-''"
definition LabelServer :: string where "LabelServer = ''openvox.voxpupuli.org/server''"
definition LabelDatabase :: string where "LabelDatabase = ''openvox.voxpupuli.org/database''"
definition LabelRole :: string where "LabelRole = ''openvox.voxpupuli.org/role''"
definition LabelCA :: string where "LabelCA = ''openvox.voxpupuli.org/ca''"
definition RoleCA :: string where "RoleCA = ''ca''"
definition RoleServer :: string where "RoleServer = ''server''"

definition managed_labels :: "string smap" where
  "managed_labels = [(''app.kubernetes.io/name'', ''openvox''),
                     (''app.kubernetes.io/managed-by'', ''openvox-operator'')]"

definition configLabels :: "string \<Rightarrow> string smap" where
  "configLabels cfgName = managed_labels @ [(LabelConfig, cfgName)]"

definition caLabels :: "string \<Rightarrow> string smap" where
  "caLabels caName = managed_labels @ [(LabelCertificateAuthority, caName)]"

definition serverLabels :: "string \<Rightarrow> string \<Rightarrow> string \<Rightarrow> string smap" where
  "serverLabels cfgName serverName role =
     managed_labels @ [(LabelConfig, cfgName), (LabelServer, serverName), (LabelRole, role)]"

definition poolLabel :: "string \<Rightarrow> string" where
  "poolLabel poolName = LabelPoolPrefix @ poolName"

definition databaseLabels :: "string \<Rightarrow> string smap" where
  "databaseLabels dbName = managed_labels @ [(LabelDatabase, dbName)]"

end
