(* ===== verification/Core.thy ===== *)
theory Core
  imports Kube
begin

text \<open>
  The part of the core/v1, batch/v1, apps/v1 and rbac/v1 vocabulary that the operator fills in:
  containers, volumes, security contexts, pod templates and the objects around them. Quantities
  are the text they are parsed from. What the operator only passes on from a resource to a pod
  (affinity, topology spread constraints, sources of environment variables, volumes of the user)
  is the text of that part.

  Below: the pod security context of securitycontext.go, and the volumes of helpers.go.
\<close>

section \<open>Containers and pods\<close>

record ResourceRequirements =
  rq_Requests :: "string smap"
  rq_Limits :: "string smap"
  rq_Claims :: "string list"

record EnvVar =
  env_Name :: string
  env_Value :: string
  env_ValueFrom :: "string option"

record VolumeMount =
  vm_Name :: string
  vm_MountPath :: string
  vm_SubPath :: string
  vm_ReadOnly :: bool

datatype VolumeSource =
    EmptyDir
  | ClaimSource string bool
  | ConfigMapSource string "(string \<times> string) list"
  | SecretSource string "int option" "bool option"
  | ImageSource string string
  | OtherSource string

record Volume =
  vol_Name :: string
  vol_Source :: VolumeSource

record SecurityContext =
  sec_AllowPrivilegeEscalation :: "bool option"
  sec_ReadOnlyRootFilesystem :: "bool option"
  sec_DropCapabilities :: "string list"

record PodSecurityContext =
  psc_RunAsUser :: "int option"
  psc_RunAsGroup :: "int option"
  psc_RunAsNonRoot :: "bool option"
  psc_FSGroup :: "int option"
  psc_FSGroupChangePolicy :: "string option"
  psc_SeccompProfile :: "string option"

text \<open>The override of a resource; the seccomp profile cannot be overridden.\<close>

record PodSecurityContextSpec =
  pso_RunAsUser :: "int option"
  pso_RunAsGroup :: "int option"
  pso_RunAsNonRoot :: "bool option"
  pso_FSGroup :: "int option"
  pso_FSGroupChangePolicy :: "string option"

record ContainerPort =
  cp_Name :: string
  cp_Port :: int
  cp_Protocol :: string

datatype ProbeHandler = HTTPGet string int string | ExecCommand "string list"

record Probe =
  pr_Handler :: ProbeHandler
  pr_PeriodSeconds :: int
  pr_FailureThreshold :: int

record Container =
  con_Name :: string
  con_Image :: string
  con_ImagePullPolicy :: string
  con_Command :: "string list"
  con_Env :: "EnvVar list"
  con_EnvFrom :: "string list"
  con_Ports :: "ContainerPort list"
  con_Resources :: ResourceRequirements
  con_VolumeMounts :: "VolumeMount list"
  con_StartupProbe :: "Probe option"
  con_ReadinessProbe :: "Probe option"
  con_LivenessProbe :: "Probe option"
  con_SecurityContext :: "SecurityContext option"

record PodSpec =
  pod_ServiceAccountName :: string
  pod_AutomountServiceAccountToken :: "bool option"
  pod_RestartPolicy :: string
  pod_SecurityContext :: PodSecurityContext
  pod_ImagePullSecrets :: "string list"
  pod_InitContainers :: "Container list"
  pod_Containers :: "Container list"
  pod_Volumes :: "Volume list"
  pod_TopologySpreadConstraints :: "string list"
  pod_Affinity :: "string option"
  pod_PriorityClassName :: string

section \<open>Objects around pods\<close>

datatype IntOrString = IntVal int | StrVal string

record JobCondition =
  jc_Type :: string
  jc_Status :: string
  jc_Reason :: string
  jc_Message :: string

record Job =
  job_Meta :: ObjectMeta
  job_BackoffLimit :: "int option"
  job_TemplateLabels :: "string smap"
  job_Pod :: PodSpec
  job_Succeeded :: int
  job_Conditions :: "JobCondition list"

record PersistentVolumeClaim =
  pvc_Meta :: ObjectMeta
  pvc_AccessModes :: "string list"
  pvc_Requests :: "string smap"
  pvc_StorageClassName :: "string option"

record ServicePort =
  sp_Name :: string
  sp_Port :: int
  sp_TargetPort :: int
  sp_Protocol :: string
  sp_NodePort :: int

record Service =
  svc_Meta :: ObjectMeta
  svc_Type :: string
  svc_ClusterIP :: string
  svc_Selector :: "string smap"
  svc_Ports :: "ServicePort list"
  svc_ExternalIPs :: "string list"

record ConfigMap =
  cm_Meta :: ObjectMeta
  cm_Data :: "string smap"

record ServiceAccount =
  sa_Meta :: ObjectMeta
  sa_Automount :: "bool option"

record PolicyRule =
  pr_APIGroups :: "string list"
  pr_Resources :: "string list"
  pr_ResourceNames :: "string list"
  pr_Verbs :: "string list"

record Role =
  role_Meta :: ObjectMeta
  role_Rules :: "PolicyRule list"

record Subject =
  sub_Kind :: string
  sub_Name :: string
  sub_Namespace :: string

record RoleBinding =
  rb_Meta :: ObjectMeta
  rb_RoleKind :: string
  rb_RoleName :: string
  rb_Subjects :: "Subject list"

section \<open>Blank values\<close>

definition no_resources :: ResourceRequirements where
  "no_resources = \<lparr> rq_Requests = [], rq_Limits = [], rq_Claims = [] \<rparr>"

definition blank_container :: "string \<Rightarrow> string \<Rightarrow> string \<Rightarrow> Container" where
  "blank_container name img policy = \<lparr> con_Name = name, con_Image = img, con_ImagePullPolicy = policy,
     con_Command = [], con_Env = [], con_EnvFrom = [], con_Ports = [], con_Resources = no_resources,
     con_VolumeMounts = [], con_StartupProbe = None, con_ReadinessProbe = None,
     con_LivenessProbe = None, con_SecurityContext = None \<rparr>"

definition env_var :: "string \<Rightarrow> string \<Rightarrow> EnvVar" where
  "env_var name val = \<lparr> env_Name = name, env_Value = val, env_ValueFrom = None \<rparr>"

definition mount :: "string \<Rightarrow> string \<Rightarrow> VolumeMount" where
  "mount name path = \<lparr> vm_Name = name, vm_MountPath = path, vm_SubPath = [], vm_ReadOnly = False \<rparr>"

definition mount_file :: "string \<Rightarrow> string \<Rightarrow> string \<Rightarrow> VolumeMount" where
  "mount_file name path sub =
     \<lparr> vm_Name = name, vm_MountPath = path, vm_SubPath = sub, vm_ReadOnly = True \<rparr>"

definition volume :: "string \<Rightarrow> VolumeSource \<Rightarrow> Volume" where
  "volume name source = \<lparr> vol_Name = name, vol_Source = source \<rparr>"

definition blank_service :: "string \<Rightarrow> string \<Rightarrow> Service" where
  "blank_service name ns = \<lparr> svc_Meta = new_meta name ns, svc_Type = [], svc_ClusterIP = [],
     svc_Selector = [], svc_Ports = [], svc_ExternalIPs = [] \<rparr>"

definition blank_port :: ServicePort where
  "blank_port = \<lparr> sp_Name = [], sp_Port = 0, sp_TargetPort = 0, sp_Protocol = [], sp_NodePort = 0 \<rparr>"

section \<open>Volumes of helpers.go\<close>

definition configMapVolume :: "string \<Rightarrow> string \<Rightarrow> string \<Rightarrow> Volume" where
  "configMapVolume volumeName cmName key = volume volumeName (ConfigMapSource cmName [(key, key)])"

definition configMapVolumeWithKey :: "string \<Rightarrow> string \<Rightarrow> string \<Rightarrow> string \<Rightarrow> Volume" where
  "configMapVolumeWithKey volumeName cmName key path =
     volume volumeName (ConfigMapSource cmName [(key, path)])"

section \<open>The pod security context\<close>

definition override :: "'a option \<Rightarrow> 'a option \<Rightarrow> 'a option" where
  "override given seeded = (case given of None \<Rightarrow> seeded | Some v \<Rightarrow> Some v)"

definition buildPodSecurityContext :: "int \<Rightarrow> int \<Rightarrow> int \<Rightarrow> PodSecurityContextSpec option \<Rightarrow> PodSecurityContext" where
  "buildPodSecurityContext defaultUser defaultGroup defaultFSGroup over =
     (let psc = \<lparr> psc_RunAsUser = Some defaultUser, psc_RunAsGroup = Some defaultGroup,
                  psc_RunAsNonRoot = Some True, psc_FSGroup = Some defaultFSGroup,
                  psc_FSGroupChangePolicy = Some ''OnRootMismatch'',
                  psc_SeccompProfile = Some ''RuntimeDefault'' \<rparr>
      in case over of
           None \<Rightarrow> psc
         | Some ov \<Rightarrow> psc \<lparr> psc_RunAsUser := override (pso_RunAsUser ov) (psc_RunAsUser psc),
               psc_RunAsGroup := override (pso_RunAsGroup ov) (psc_RunAsGroup psc),
               psc_RunAsNonRoot := override (pso_RunAsNonRoot ov) (psc_RunAsNonRoot psc),
               psc_FSGroup := override (pso_FSGroup ov) (psc_FSGroup psc),
               psc_FSGroupChangePolicy := override (pso_FSGroupChangePolicy ov) (psc_FSGroupChangePolicy psc) \<rparr>)"

definition restricted_context :: "bool \<Rightarrow> SecurityContext" where
  "restricted_context readOnly = \<lparr> sec_AllowPrivilegeEscalation = Some False,
     sec_ReadOnlyRootFilesystem = Some readOnly, sec_DropCapabilities = [''ALL''] \<rparr>"

end
