(* ===== verification/Duration.thy ===== *)
theory Duration
  imports Prelude
begin

text \<open>
  The duration strings of the custom resources (api/v1alpha1/duration.go) and the optional
  booleans of api/v1alpha1/helpers.go. The result is an int64: the multiplication by the unit
  wraps around, as it does in Go, and the theorems say for which numbers it does not.
\<close>

datatype duration_error = InvalidDuration string | UnknownUnit char string

definition ParseDurationToSeconds :: "string \<Rightarrow> duration_error + int" where
  "ParseDurationToSeconds s0 =
     (let s = TrimSpace s0
      in if s = [] then Inr 0
         else (case ParseInt64 s of
           Some v \<Rightarrow> Inr v
         | None \<Rightarrow>
            if length s < 2 then Inl (InvalidDuration s)
            else
             (let unit = last s; numStr = butlast s
              in (case ParseInt64 numStr of
                    None \<Rightarrow> Inl (InvalidDuration s)
                  | Some num \<Rightarrow>
                      if unit = CHR ''s'' then Inr num
                      else if unit = CHR ''m'' then Inr (wrap64 (num * 60))
                      else if unit = CHR ''h'' then Inr (wrap64 (num * 3600))
                      else if unit = CHR ''d'' then Inr (wrap64 (num * 86400))
                      else if unit = CHR ''y'' then Inr (wrap64 (wrap64 (num * 365) * 86400))
                      else Inl (UnknownUnit unit s)))))"

definition BoolValue :: "bool option \<Rightarrow> bool \<Rightarrow> bool" where
  "BoolValue p def = (case p of None \<Rightarrow> def | Some b \<Rightarrow> b)"

text \<open>The seconds of one unit.\<close>

definition unit_seconds :: "char \<Rightarrow> int option" where
  "unit_seconds c =
     (if c = CHR ''s'' then Some 1 else if c = CHR ''m'' then Some 60
      else if c = CHR ''h'' then Some 3600 else if c = CHR ''d'' then Some 86400
      else if c = CHR ''y'' then Some 31536000 else None)"

lemma wrap64_mult: "wrap64 (wrap64 a * b) = wrap64 (a * b)"
proof -
  have "(wrap64 a * b + 2 ^ 63) mod 2 ^ 64 = (a * b + 2 ^ 63) mod (2 ^ 64 :: int)"
  proof -
    have "wrap64 a mod 2 ^ 64 = a mod (2 ^ 64 :: int)"
      by (simp add: wrap64_def mod_diff_left_eq)
    then have "wrap64 a * b mod 2 ^ 64 = a * b mod (2 ^ 64 :: int)"
      by (metis mod_mult_left_eq)
    then show ?thesis by (metis mod_add_left_eq)
  qed
  then show ?thesis by (simp add: wrap64_def)
qed

lemma ParseInt64_last_not_digit:
  "digit_val (last s) = None \<Longrightarrow> s \<noteq> [] \<Longrightarrow> ParseInt64 s = None"
proof -
  have digits: "digits_val acc t = None" if "t \<noteq> []" "digit_val (last t) = None" for acc t
  proof -
    have "digits_val acc (butlast t @ [last t]) = None"
      using that by (simp only: digits_val_append) (simp split: option.split)
    then show ?thesis using that by simp
  qed
  assume "digit_val (last s) = None" "s \<noteq> []"
  then show ?thesis
    using digits [of s 0] digits [of "tl s" 0]
    by (cases s) (auto simp: ParseInt64_def split: if_splits)
qed

lemma nat_digits_no_space: "c \<in> set (nat_digits n) \<Longrightarrow> \<not> is_space c"
  using nat_digits_chars [of c n] by (auto simp: is_space_def)

lemma TrimSpace_id:
  "s \<noteq> [] \<Longrightarrow> \<not> is_space (hd s) \<Longrightarrow> \<not> is_space (last s) \<Longrightarrow> TrimSpace s = s"
  using dropWhile_eq_self_iff [of is_space s] dropWhile_eq_self_iff [of is_space "rev s"]
  by (simp add: TrimSpace_def hd_rev)

lemma Itoa_shape: "Itoa i \<noteq> []" "\<not> is_space (hd (Itoa i))"
proof -
  show "Itoa i \<noteq> []" by (simp add: Itoa_def)
  have "hd (nat_digits n) \<in> set (nat_digits n)" for n by simp
  then have "\<not> is_space (hd (nat_digits n))" for n using nat_digits_no_space by blast
  then show "\<not> is_space (hd (Itoa i))" by (auto simp: Itoa_def is_space_def)
qed

text \<open>C35: a number of any int64 value followed by a unit letter parses to the product of the
  two as an int64, wrapped around; when the product fits in an int64 it is exact. The
  multiplication in Go is unchecked, so a number beyond the bound silently becomes another
  duration, possibly a negative one.\<close>

theorem duration_with_unit:
  assumes "in_int64 n" and "unit_seconds u = Some m"
  shows "ParseDurationToSeconds (Itoa n @ [u]) = Inr (wrap64 (n * m)) \<and>
    (in_int64 (n * m) \<longrightarrow> ParseDurationToSeconds (Itoa n @ [u]) = Inr (n * m))"
proof -
  let ?s = "Itoa n @ [u]"
  have u: "\<not> is_space u" "digit_val u = None"
    using assms(2) by (auto simp: unit_seconds_def is_space_def digit_val_def split: if_splits)
  have "TrimSpace ?s = ?s"
    using u Itoa_shape [of n] by (intro TrimSpace_id) (simp_all add: hd_append)
  moreover have "ParseInt64 ?s = None" using u by (intro ParseInt64_last_not_digit) simp_all
  moreover have "ParseInt64 (Itoa n) = Some n"
    using assms(1) by (simp add: ParseInt64_Itoa in_int64_def)
  moreover have "\<not> length ?s < 2" using Itoa_shape(1) [of n] by (cases "Itoa n") auto
  ultimately have "ParseDurationToSeconds ?s = Inr (wrap64 (n * m))"
    using assms wrap64_mult [of "n * 365" 86400] wrap64_id [of n]
    by (auto simp: ParseDurationToSeconds_def unit_seconds_def mult.assoc split: if_splits)
  then show ?thesis by (simp add: wrap64_id)
qed

theorem duration_with_unit_witness:
  "ParseDurationToSeconds (Itoa 60 @ ''d'') = Inr 5184000 \<and>
   ParseDurationToSeconds (Itoa 106751991167301 @ ''d'') = Inr (- 9223372036854745216)"
proof -
  have "in_int64 60" "in_int64 106751991167301" "in_int64 (60 * 86400)"
    "wrap64 (106751991167301 * 86400) = - 9223372036854745216"
    by (simp_all add: in_int64_def min_int64_def max_int64_def wrap64_def)
  then show ?thesis
    using duration_with_unit [of 60 "CHR ''d''" 86400] duration_with_unit [of 106751991167301 "CHR ''d''" 86400]
    by (simp add: unit_seconds_def wrap64_id)
qed

end
