(* ===== verification/Api.thy ===== *)
theory Api
  imports Core Duration
begin

text \<open>
  The custom resources of api/v1alpha1: the spec and status fields the modelled controllers
  read and write, with Go's pointers as options and its string-typed phases as datatypes whose
  first constructor is the empty string of an object that has no status yet.
\<close>

text \<open>The error of a duration that does not parse.\<close>

definition duration_err :: "duration_error \<Rightarrow> err" where
  \<open>duration_err e = Errorf
     (case e of
        InvalidDuration s \<Rightarrow> ''invalid duration: '' @ Quote s
      | UnknownUnit u s \<Rightarrow> ''unknown duration unit '' @ Quote [u] @ '' in '' @ Quote s @
                           '' (supported: s, m, h, d, y)'')\<close>

section \<open>Shared parts\<close>

record ImageSpec =
  im_Repository :: string
  im_Tag :: string
  im_PullPolicy :: string
  im_PullSecrets :: "string list"

record CodeSpec =
  co_ClaimName :: string
  co_Image :: string
  co_ImagePullPolicy :: string
  co_ImagePullSecret :: string
  co_Environment :: string
  co_MountPath :: string

record StorageSpec =
  st_Size :: "string option"
  st_StorageClass :: string

record PDBSpec =
  pdb_Enabled :: bool
  pdb_MinAvailable :: "IntOrString option"
  pdb_MaxUnavailable :: "IntOrString option"

text \<open>The additional ingress rules are passed through as they are: their text stands for them.\<close>

record NetworkPolicySpec =
  np_Enabled :: bool
  np_AdditionalIngress :: "string list"

section \<open>Certificate\<close>

record CSRExtensionsSpec =
  PpCliAuth :: bool
  PpRole :: string
  PpEnvironment :: string
  CustomExtensions :: "string smap"

record CertificateSpec =
  cs_AuthorityRef :: string
  cs_Certname :: string
  cs_DNSAltNames :: "string list"
  cs_CSRExtensions :: "CSRExtensionsSpec option"
  cs_RenewBefore :: string

datatype CertificatePhase = CertNoPhase | CertPending | CertRequesting | CertWaitingForSigning
  | CertSignedPhase | CertRenewing | CertError

record CertificateStatus =
  ct_ObservedGeneration :: int
  ct_Phase :: CertificatePhase
  ct_SecretName :: string
  ct_SignedSpecHash :: string
  ct_EffectiveDNSAltNames :: "string list"
  ct_NotAfter :: "int option"
  ct_Conditions :: "Condition list"

record Certificate =
  c_Meta :: ObjectMeta
  c_Spec :: CertificateSpec
  c_Status :: CertificateStatus

definition ConditionCertSigned :: string where "ConditionCertSigned = ''CertSigned''"
definition ConditionCertnameConflict :: string where
  "ConditionCertnameConflict = ''CertnameConflict''"
definition ConditionPaused :: string where "ConditionPaused = ''Paused''"
definition AnnotationPaused :: string where "AnnotationPaused = ''openvox.voxpupuli.org/paused''"

section \<open>CertificateAuthority\<close>

record ExternalCASpec =
  x_URL :: string
  x_CASecretRef :: string
  x_TLSSecretRef :: string
  x_InsecureSkipVerify :: bool

datatype CertificateAuthorityPhase = CANoPhase | CAPending | CAInitializing | CAReadyPhase
  | CAExternal | CAError

record CertificateAuthoritySpec =
  as_TTL :: string
  as_AllowSubjectAltNames :: "bool option"
  as_AllowAuthorizationExtensions :: "bool option"
  as_EnableInfraCRL :: "bool option"
  as_AllowAutoRenewal :: "bool option"
  as_AutoRenewalCertTTL :: string
  as_CRLRefreshInterval :: string
  as_IntermediateEnabled :: bool
  as_IntermediateSecretName :: string
  as_External :: "ExternalCASpec option"
  as_Storage :: "StorageSpec option"
  as_Resources :: ResourceRequirements
  as_SecurityContext :: "PodSecurityContextSpec option"

record CertificateAuthorityStatus =
  at_ObservedGeneration :: int
  at_Phase :: CertificateAuthorityPhase
  at_CASecretName :: string
  at_ServiceName :: string
  at_SigningSecretName :: string
  at_NotAfter :: "int option"
  at_Conditions :: "Condition list"

record CertificateAuthority =
  ca_Meta :: ObjectMeta
  ca_Spec :: CertificateAuthoritySpec
  ca_Status :: CertificateAuthorityStatus

definition ConditionCAReady :: string where "ConditionCAReady = ''CAReady''"
definition ConditionCADeletionBlocked :: string where
  "ConditionCADeletionBlocked = ''DeletionBlocked''"
definition ConditionOperatorSigningReady :: string where
  "ConditionOperatorSigningReady = ''OperatorSigningReady''"

section \<open>Pool\<close>

record PoolRouteSpec =
  r_Enabled :: bool
  r_Hostname :: string
  r_GatewayName :: string
  r_GatewaySection :: string
  r_InjectDNSAltName :: bool

record PoolServiceSpec =
  ps_Type :: string
  ps_Port :: int
  ps_NodePort :: int
  ps_Annotations :: "string smap"
  ps_Labels :: "string smap"
  ps_ExternalIPs :: "string list"

record PoolStatus =
  pt_ObservedGeneration :: int
  pt_ServiceName :: string
  pt_Endpoints :: int
  pt_Conditions :: "Condition list"

record Pool =
  p_Meta :: ObjectMeta
  p_Service :: PoolServiceSpec
  p_Route :: "PoolRouteSpec option"
  p_Status :: PoolStatus

section \<open>Server\<close>

record AutoscalingSpec =
  au_Enabled :: bool
  au_MinReplicas :: "int option"
  au_MaxReplicas :: int
  au_TargetCPU :: int

datatype ServerPhase = ServerNoPhase | ServerPending | ServerWaitingForCert | ServerRunning | ServerError

record ServerStatus =
  vt_ObservedGeneration :: int
  vt_Phase :: ServerPhase
  vt_Ready :: int
  vt_Desired :: int
  vt_Conditions :: "Condition list"

record Server =
  sv_Meta :: ObjectMeta
  sv_ConfigRef :: string
  sv_CertificateRef :: string
  sv_PoolRefs :: "string list"
  sv_CA :: bool
  sv_Server :: "bool option"
  sv_Image :: ImageSpec
  sv_Replicas :: "int option"
  sv_Autoscaling :: AutoscalingSpec
  sv_Resources :: ResourceRequirements
  sv_JavaArgs :: string
  sv_MaxActiveInstances :: int
  sv_Code :: "CodeSpec list"
  sv_TopologySpreadConstraints :: "string list"
  sv_Affinity :: "string option"
  sv_PriorityClassName :: string
  sv_PDB :: "PDBSpec option"
  sv_NetworkPolicy :: "NetworkPolicySpec option"
  sv_ExtraEnv :: "EnvVar list"
  sv_EnvFrom :: "string list"
  sv_ExtraVolumes :: "Volume list"
  sv_ExtraVolumeMounts :: "VolumeMount list"
  sv_SecurityContext :: "PodSecurityContextSpec option"
  sv_ReadOnlyRootFilesystem :: "bool option"
  sv_Status :: ServerStatus

definition ConditionSSLBootstrapped :: string where "ConditionSSLBootstrapped = ''SSLBootstrapped''"
definition ConditionServerReady :: string where "ConditionServerReady = ''Ready''"

text \<open>Objects without any field set, for building concrete ones.\<close>

definition blank_cert :: "string \<Rightarrow> string \<Rightarrow> Certificate" where
  "blank_cert name ns = \<lparr> c_Meta = new_meta name ns,
     c_Spec = \<lparr> cs_AuthorityRef = [], cs_Certname = [], cs_DNSAltNames = [],
                cs_CSRExtensions = None, cs_RenewBefore = [] \<rparr>,
     c_Status = \<lparr> ct_ObservedGeneration = 0, ct_Phase = CertNoPhase, ct_SecretName = [],
                  ct_SignedSpecHash = [], ct_EffectiveDNSAltNames = [], ct_NotAfter = None,
                  ct_Conditions = [] \<rparr> \<rparr>"

definition blank_ca :: "string \<Rightarrow> string \<Rightarrow> CertificateAuthority" where
  "blank_ca name ns = \<lparr> ca_Meta = new_meta name ns,
     ca_Spec = \<lparr> as_TTL = [], as_AllowSubjectAltNames = None,
       as_AllowAuthorizationExtensions = None, as_EnableInfraCRL = None,
       as_AllowAutoRenewal = None, as_AutoRenewalCertTTL = [], as_CRLRefreshInterval = [],
       as_IntermediateEnabled = False, as_IntermediateSecretName = [], as_External = None,
       as_Storage = None, as_Resources = no_resources, as_SecurityContext = None \<rparr>,
     ca_Status = \<lparr> at_ObservedGeneration = 0, at_Phase = CANoPhase, at_CASecretName = [],
       at_ServiceName = [], at_SigningSecretName = [], at_NotAfter = None, at_Conditions = [] \<rparr> \<rparr>"

definition blank_server :: "string \<Rightarrow> string \<Rightarrow> Server" where
  "blank_server name ns = \<lparr> sv_Meta = new_meta name ns, sv_ConfigRef = [], sv_CertificateRef = [],
     sv_PoolRefs = [], sv_CA = False, sv_Server = None,
     sv_Image = \<lparr> im_Repository = [], im_Tag = [], im_PullPolicy = [], im_PullSecrets = [] \<rparr>,
     sv_Replicas = None,
     sv_Autoscaling = \<lparr> au_Enabled = False, au_MinReplicas = None, au_MaxReplicas = 0, au_TargetCPU = 0 \<rparr>,
     sv_Resources = no_resources, sv_JavaArgs = [], sv_MaxActiveInstances = 0, sv_Code = [],
     sv_TopologySpreadConstraints = [], sv_Affinity = None, sv_PriorityClassName = [], sv_PDB = None,
     sv_NetworkPolicy = None, sv_ExtraEnv = [], sv_EnvFrom = [], sv_ExtraVolumes = [], sv_ExtraVolumeMounts = [],
     sv_SecurityContext = None, sv_ReadOnlyRootFilesystem = None,
     sv_Status = \<lparr> vt_ObservedGeneration = 0, vt_Phase = ServerNoPhase, vt_Ready = 0, vt_Desired = 0,
       vt_Conditions = [] \<rparr> \<rparr>"

section \<open>Functions of helpers.go on one object\<close>

definition certnameOf :: "Certificate \<Rightarrow> string" where
  "certnameOf cert =
     (if cs_Certname (c_Spec cert) \<noteq> [] then cs_Certname (c_Spec cert) else ''puppet'')"

definition caInternalServiceName :: "string \<Rightarrow> string" where
  "caInternalServiceName caName = caName @ ''-internal''"

definition operatorSigningCertname :: "string \<Rightarrow> string" where
  "operatorSigningCertname caName = caName @ ''-operator''"

definition serverRoleEnabled :: "Server \<Rightarrow> bool" where
  "serverRoleEnabled server = BoolValue (sv_Server server) True"

definition isPaused :: "ObjectMeta \<Rightarrow> bool" where
  "isPaused object = (sval (m_Annotations object) AnnotationPaused = ''true'')"

definition certificateUsable :: "kube_lib \<Rightarrow> Certificate \<Rightarrow> bool" where
  "certificateUsable L cert =
     (IsStatusConditionTrue L (ct_Conditions (c_Status cert)) ConditionCertSigned \<and>
      ct_SecretName (c_Status cert) \<noteq> [])"

text \<open>
  assertControlledBy: an object that the API server has (its resourceVersion is set) must be
  controlled by the expected owner.
\<close>

definition assertControlledBy :: "kube_lib \<Rightarrow> ObjectMeta \<Rightarrow> ObjectMeta \<Rightarrow> string \<Rightarrow> string \<Rightarrow> err option" where
  "assertControlledBy L object owner kind ownerKind =
     (if m_ResourceVersion object = [] then None
      else if \<not> IsControlledBy L object owner then
        Some (Errorf (kind @ '' '' @ m_Name object @ '' already exists and is not controlled by ''
                      @ ownerKind @ '' '' @ m_Name owner))
      else None)"

text \<open>hashStringMap: the keys in order, each followed by its value, without any separator.\<close>

definition hash_input :: "string smap \<Rightarrow> string" where
  "hash_input data = concat (map (\<lambda>k. k @ sval data k) (sort_compact (map fst data)))"

definition hashStringMap :: "kube_lib \<Rightarrow> string smap \<Rightarrow> string" where
  "hashStringMap L data = Sha256Hex L (hash_input data)"

lemma hash_input_cong:
  assumes "map_of m = map_of m'"
  shows "hash_input m = hash_input m'"
proof -
  have "dom (map_of m) = dom (map_of m')" using assms by simp
  then have "set (map fst m) = set (map fst m')" by (simp add: dom_map_of_conv_image_fst)
  then have keys: "sort_compact (map fst m) = sort_compact (map fst m')" by (rule sort_compact_cong)
  have "sval m = sval m'" using assms by (simp add: sval_def fun_eq_iff)
  then show ?thesis unfolding hash_input_def keys by simp
qed

text \<open>The digest does not depend on the order in which Go iterates over the map.\<close>

lemma hashStringMap_cong: "map_of m = map_of m' \<Longrightarrow> hashStringMap L m = hashStringMap L m'"
  unfolding hashStringMap_def by (metis hash_input_cong)

text \<open>
  The callback of createOrUpdateSecret on the Secret it was given: the ownership check, the
  entries of other writers carried over, the labels and data replaced, the owner reference.
\<close>

definition carry_over :: "string list \<Rightarrow> string smap \<Rightarrow> string smap \<Rightarrow> string smap" where
  "carry_over preserveKeys old data =
     foldl (\<lambda>d k. case sget old k of
                    None \<Rightarrow> d
                  | Some v \<Rightarrow> if sget d k = None then sput k v d else d) data preserveKeys"

definition secret_mutation :: "kube_lib \<Rightarrow> ObjectMeta \<Rightarrow> string \<Rightarrow> string smap \<Rightarrow> string smap \<Rightarrow>
    string list \<Rightarrow> Secret \<Rightarrow> err + Secret" where
  "secret_mutation L owner ownerKind labels data preserveKeys secret =
     (case assertControlledBy L (s_Meta secret) owner ''Secret'' ownerKind of
        Some e \<Rightarrow> Inl e
      | None \<Rightarrow>
         (case SetControllerReference L ownerKind owner (s_Meta secret \<lparr> m_Labels := labels \<rparr>) of
            Inl e \<Rightarrow> Inl e
          | Inr meta \<Rightarrow>
              Inr \<lparr> s_Meta = meta, s_Data = carry_over preserveKeys (s_Data secret) data \<rparr>))"

lemma carry_over_get:
  "sget (carry_over keys old data) k =
   (if sget data k \<noteq> None then sget data k else if k \<in> set keys then sget old k else None)"
  unfolding carry_over_def
proof (induction keys arbitrary: data)
  case (Cons j keys)
  show ?case by (cases "sget old j") (auto simp: Cons.IH)
qed simp

lemma secret_mutation_data:
  "secret_mutation L owner kind labels data keys secret = Inr secret' \<Longrightarrow>
   sget (s_Data secret') k =
   (if sget data k \<noteq> None then sget data k
    else if k \<in> set keys then sget (s_Data secret) k else None)"
  by (auto simp: secret_mutation_def carry_over_get split: option.splits sum.splits)

section \<open>Pausing\<close>

text \<open>
  reconcilePauseState for any resource: \<open>update\<close> is updateStatusWithRetry applied to a change
  of the resource's conditions. The generation is the one read before the update.
\<close>

definition reconcilePauseState :: "kube_lib \<Rightarrow> ObjectMeta \<Rightarrow> Condition list \<Rightarrow>
    ((Condition list \<Rightarrow> Condition list) \<Rightarrow> ('s, err, unit) op) \<Rightarrow> ('s, err, bool) op" where
  "reconcilePauseState L meta conditions update =
     (if isPaused meta then
        (if IsStatusConditionTrue L conditions ConditionPaused then ret True
         else
          (\<lambda>s. case update (\<lambda>cs. SetStatusCondition L cs
                 \<lparr> cond_Type = ConditionPaused, cond_Status = ''True'', cond_Reason = ''Paused'',
                   cond_Message = ''Reconciliation is suspended by the '' @ AnnotationPaused
                                  @ '' annotation'',
                   cond_ObservedGeneration = m_Generation meta \<rparr>) s of
             (Inl e, s') \<Rightarrow> (Inl (wrapf ''recording the paused condition'' e), s')
           | (Inr _, s') \<Rightarrow> (Inr True, s')))
      else if FindStatusCondition L conditions ConditionPaused = None then ret False
      else
        (\<lambda>s. case update (\<lambda>cs. RemoveStatusCondition L cs ConditionPaused) s of
           (Inl e, s') \<Rightarrow> (Inl (wrapf ''clearing the paused condition'' e), s')
         | (Inr _, s') \<Rightarrow> (Inr False, s')))"

lemma only_pauseState [only_rules]:
  assumes "\<And>f. only hs P (update f)"
  shows "only hs P (reconcilePauseState L m cs update)"
proof -
  have "only hs P (\<lambda>s. case update f s of (Inl e, s') \<Rightarrow> (Inl (g e), s') | (Inr _, s') \<Rightarrow> (Inr b, s'))"
    for f g b
    by (rule onlyI) (use assms in \<open>auto split: prod.splits sum.splits dest: onlyD\<close>)
  then show ?thesis
    unfolding reconcilePauseState_def by (intro only_rules)
qed

end
