(* ===== verification/CertDerived.thy ===== *)
theory CertDerived
  imports Api
begin

text \<open>
  What the Certificate controller computes from observed state: the alternative names a
  certificate is issued for (certificate_derived.go), the digest over the signing-relevant
  spec, the renewal window, its cooldown and the schedule of the next check
  (certificate_controller.go), and the poll backoff (certificate_signing.go). Times are
  nanoseconds since the epoch, durations int64 nanoseconds.
\<close>

section \<open>Field indexes (indexers.go)\<close>

definition nonEmpty :: "string \<Rightarrow> string list" where
  "nonEmpty v = (if v = [] then [] else [v])"

definition index_certificateRef :: "Server \<Rightarrow> string list" where
  "index_certificateRef s = nonEmpty (sv_CertificateRef s)"

definition index_configRef :: "Server \<Rightarrow> string list" where
  "index_configRef s = nonEmpty (sv_ConfigRef s)"

definition index_certname :: "Certificate \<Rightarrow> string list" where
  "index_certname c = nonEmpty (certnameOf c)"

definition index_authorityRef :: "Certificate \<Rightarrow> string list" where
  "index_authorityRef c = nonEmpty (cs_AuthorityRef (c_Spec c))"

section \<open>Effective alternative names\<close>

definition dedupeSorted :: "string list \<Rightarrow> string list" where
  "dedupeSorted names = sort_compact names"

text \<open>The pool references of the Servers that use the Certificate.\<close>

definition wanted_pools :: "Server list \<Rightarrow> string list" where
  "wanted_pools servers = concat (map sv_PoolRefs servers)"

definition pool_contributes :: "string list \<Rightarrow> Pool \<Rightarrow> bool" where
  "pool_contributes wanted pool =
     (if m_Name (p_Meta pool) \<notin> set wanted \<or> m_DeletionTimestamp (p_Meta pool) \<noteq> None then False
      else (case p_Route pool of
              None \<Rightarrow> False
            | Some route \<Rightarrow>
                r_Enabled route \<and> r_InjectDNSAltName route \<and> r_Hostname route \<noteq> []))"

definition pool_hostname :: "Pool \<Rightarrow> string" where
  "pool_hostname pool = (case p_Route pool of None \<Rightarrow> [] | Some route \<Rightarrow> r_Hostname route)"

definition effective_names :: "string list \<Rightarrow> string list \<Rightarrow> Pool list \<Rightarrow> string list" where
  "effective_names names wanted pools =
     dedupeSorted (names @ map pool_hostname (filter (pool_contributes wanted) pools))"

section \<open>The signing digest\<close>

definition FormatBool :: "bool \<Rightarrow> string" where
  "FormatBool b = (if b then ''true'' else ''false'')"

definition signing_fields :: "Certificate \<Rightarrow> string list \<Rightarrow> string smap" where
  "signing_fields cert effectiveNames =
     [(''certname'', cs_Certname (c_Spec cert)),
      (''dnsAltNames'', Join (sort effectiveNames) '','')] @
     (case cs_CSRExtensions (c_Spec cert) of
        None \<Rightarrow> []
      | Some e \<Rightarrow>
          [(''ppCliAuth'', FormatBool (PpCliAuth e)), (''ppRole'', PpRole e),
           (''ppEnvironment'', PpEnvironment e)] @
          map (\<lambda>(k, v). (''custom/'' @ k, v)) (CustomExtensions e))"

definition signingSpecHash :: "kube_lib \<Rightarrow> Certificate \<Rightarrow> string list \<Rightarrow> string" where
  "signingSpecHash L cert effectiveNames = hashStringMap L (signing_fields cert effectiveNames)"

section \<open>Renewal\<close>

definition defaultRenewBeforeSeconds :: int where "defaultRenewBeforeSeconds = 60 * 24 * 3600"
definition minRenewalCooldown :: int where "minRenewalCooldown = hours 1"
definition maxRenewalCheckInterval :: int where "maxRenewalCheckInterval = hours 12"
definition maxCleanupAttempts :: int where "maxCleanupAttempts = 5"

definition AnnotationLastRenewalTime :: string where
  "AnnotationLastRenewalTime = ''openvox.voxpupuli.org/last-renewal-time''"
definition AnnotationExpiryWarned :: string where
  "AnnotationExpiryWarned = ''openvox.voxpupuli.org/expiry-warned''"
definition AnnotationCleanupAttempts :: string where
  "AnnotationCleanupAttempts = ''openvox.voxpupuli.org/cleanup-attempts''"
definition AnnotationCSRPollAttempts :: string where
  "AnnotationCSRPollAttempts = ''openvox.voxpupuli.org/csr-poll-attempts''"
definition certificateFinalizer :: string where
  "certificateFinalizer = ''openvox.voxpupuli.org/certificate-cleanup''"

definition parseCertRenewBefore :: "Certificate \<Rightarrow> int" where
  "parseCertRenewBefore cert =
     (if cs_RenewBefore (c_Spec cert) = [] then wrap64 (seconds defaultRenewBeforeSeconds)
      else (case ParseDurationToSeconds (cs_RenewBefore (c_Spec cert)) of
              Inl _ \<Rightarrow> wrap64 (seconds defaultRenewBeforeSeconds)
            | Inr secs \<Rightarrow>
                if secs \<le> 0 then wrap64 (seconds defaultRenewBeforeSeconds)
                else wrap64 (seconds secs)))"

text \<open>time.Parse (RFC3339, _) is the parameter; the clock reading is an argument.\<close>

definition isWithinRenewalCooldown :: "(string \<Rightarrow> int option) \<Rightarrow> int \<Rightarrow> Certificate \<Rightarrow> bool" where
  "isWithinRenewalCooldown parseTime now cert =
     (case sget (m_Annotations (c_Meta cert)) AnnotationLastRenewalTime of
        None \<Rightarrow> False
      | Some lastRenewal \<Rightarrow>
         (case parseTime lastRenewal of
            None \<Rightarrow> False
          | Some t \<Rightarrow> time_sub now t < minRenewalCooldown))"

definition renewalDue :: "(string \<Rightarrow> int option) \<Rightarrow> int \<Rightarrow> int \<Rightarrow> Certificate \<Rightarrow> bool" where
  "renewalDue parseTime now later cert =
     (case ct_NotAfter (c_Status cert) of
        None \<Rightarrow> False
      | Some notAfter \<Rightarrow>
          if now < notAfter + wrap64 (- parseCertRenewBefore cert) then False
          else \<not> isWithinRenewalCooldown parseTime later cert)"

text \<open>emitExpiryWarnings: the thresholds crossed and not yet recorded, and the new record.\<close>

definition expiryThresholds :: "(int \<times> string) list" where
  "expiryThresholds = [(hours (30 * 24), ''30d''), (hours (7 * 24), ''7d''), (hours 24, ''1d'')]"

definition new_warnings :: "string \<Rightarrow> int \<Rightarrow> string list" where
  "new_warnings warned timeUntilExpiry =
     map snd (filter (\<lambda>(dur, label). timeUntilExpiry \<le> dur \<and> \<not> Contains warned label)
                expiryThresholds)"

definition record_warnings :: "string \<Rightarrow> string list \<Rightarrow> string" where
  "record_warnings warned labels =
     foldl (\<lambda>acc w. if acc \<noteq> [] then acc @ '','' @ w else w) warned labels"

text \<open>scheduleRenewalCheck as a decision: the delay, and whether warnings are due.\<close>

datatype schedule = NoExpiry | CoolingDown | RenewNow | CheckLater (check_delay: int) (until_expiry: int)

definition schedule_renewal :: "(string \<Rightarrow> int option) \<Rightarrow> int \<Rightarrow> int \<Rightarrow> Certificate \<Rightarrow> schedule" where
  "schedule_renewal parseTime now later cert =
     (case ct_NotAfter (c_Status cert) of
        None \<Rightarrow> NoExpiry
      | Some notAfter \<Rightarrow>
         (let timeUntilExpiry = time_sub notAfter now;
              renewBefore = parseCertRenewBefore cert;
              renewalTime = notAfter + wrap64 (- renewBefore);
              timeUntilRenewal = time_sub renewalTime now
          in if timeUntilRenewal \<le> 0 then
               (if isWithinRenewalCooldown parseTime later cert then CoolingDown else RenewNow)
             else CheckLater (min (timeUntilRenewal div 2) maxRenewalCheckInterval) timeUntilExpiry))"

definition schedule_delay :: "schedule \<Rightarrow> int" where
  "schedule_delay s =
     (case s of NoExpiry \<Rightarrow> RequeueIntervalShort | CoolingDown \<Rightarrow> minRenewalCooldown
      | RenewNow \<Rightarrow> RequeueIntervalShort | CheckLater d _ \<Rightarrow> d)"

section \<open>Poll backoff\<close>

definition csrPollBackoff :: "int \<Rightarrow> int" where
  "csrPollBackoff attempts =
     (if attempts < 3 then seconds 5 else if attempts < 6 then seconds 30
      else if attempts < 10 then minutes 2 else minutes 5)"

definition CSRPollWaitingThreshold :: int where "CSRPollWaitingThreshold = 10"
definition CSRPollAbsoluteTimeout :: int where "CSRPollAbsoluteTimeout = hours 24"

section \<open>Facts\<close>

lemma dedupeSorted_props:
  "set (dedupeSorted ns) = set ns" "sorted (dedupeSorted ns)" "distinct (dedupeSorted ns)"
  by (simp_all add: dedupeSorted_def sort_compact_props)

lemma time_sub_pos: "0 < time_sub a b \<longleftrightarrow> b < a"
  by (auto simp: time_sub_def min_int64_def max_int64_def)

lemma parseCertRenewBefore_bounds: "in_int64 (parseCertRenewBefore cert)"
  by (simp add: parseCertRenewBefore_def split: sum.split)

lemma pool_contributes_iff:
  "pool_contributes wanted pool \<longleftrightarrow>
   m_Name (p_Meta pool) \<in> set wanted \<and> m_DeletionTimestamp (p_Meta pool) = None \<and>
   (\<exists>route. p_Route pool = Some route \<and> r_Enabled route \<and> r_InjectDNSAltName route \<and>
            r_Hostname route = pool_hostname pool \<and> pool_hostname pool \<noteq> [])"
  by (cases "p_Route pool") (auto simp: pool_contributes_def pool_hostname_def)

lemma contributing_hostnames:
  "pool_hostname ` {pool \<in> set pools. pool_contributes wanted pool} =
   {h. \<exists>pool route. pool \<in> set pools \<and> m_Name (p_Meta pool) \<in> set wanted \<and>
        m_DeletionTimestamp (p_Meta pool) = None \<and> p_Route pool = Some route \<and>
        r_Enabled route \<and> r_InjectDNSAltName route \<and> r_Hostname route = h \<and> h \<noteq> []}"
  unfolding pool_contributes_iff by (force simp: pool_hostname_def)

text \<open>the names a certificate is issued for are sorted and without duplicates, and they are
  exactly the names of its spec and the route hostnames of the Pools that are not being
  deleted, ask for injection and are joined by a Server using the Certificate.\<close>

theorem effective_names_exact:
  "sorted (effective_names names wanted pools) \<and> distinct (effective_names names wanted pools) \<and>
   set (effective_names names wanted pools) =
     set names \<union> {h. \<exists>pool route. pool \<in> set pools \<and> m_Name (p_Meta pool) \<in> set wanted \<and>
        m_DeletionTimestamp (p_Meta pool) = None \<and> p_Route pool = Some route \<and>
        r_Enabled route \<and> r_InjectDNSAltName route \<and> r_Hostname route = h \<and> h \<noteq> []}"
  using contributing_hostnames [of pools wanted]
  by (simp add: effective_names_def dedupeSorted_props)

text \<open>neither the order in which the API lists Servers and Pools, nor the order or the
  repetition of names, changes what a certificate is issued for or the digest that decides on
  re-signing, so a listing order alone never triggers a re-sign.\<close>

theorem signing_hash_stable:
  assumes "set names = set names'" and "set wanted = set wanted'" and "set pools = set pools'"
  shows "effective_names names wanted pools = effective_names names' wanted' pools' \<and>
    signingSpecHash L cert (effective_names names wanted pools) =
    signingSpecHash L cert (effective_names names' wanted' pools')"
proof -
  have "pool_contributes wanted = pool_contributes wanted'"
    using assms(2) by (simp add: pool_contributes_def fun_eq_iff)
  then have "effective_names names wanted pools = effective_names names' wanted' pools'"
    using assms unfolding effective_names_def dedupeSorted_def by (intro sort_compact_cong) simp
  then show ?thesis by simp
qed

theorem signing_hash_stable_witness:
  "signingSpecHash reference_lib (blank_cert ''c'' ''n'') (effective_names [''b'', ''a'', ''b''] [] []) =
   signingSpecHash reference_lib (blank_cert ''c'' ''n'') (effective_names [''a'', ''b''] [] [])"
  using signing_hash_stable [of "[''b'', ''a'', ''b'']" "[''a'', ''b'']" "[]" "[]" "[]" "[]"] by auto

text \<open>C32: the reconcile and the schedule agree on the renewal window: with the same readings of the
  clock (one for the window, a later one for the cooldown) a renewal is started exactly in the
  states for which the schedule asks for an immediate reconcile. The delay until the
  next check is at most 12 hours, a later check always falls before the window opens, and the
  delay is never negative; it is 0, which asks for no requeue at all, exactly when one
  nanosecond is left until the window.\<close>

theorem renewal_schedule:
  "(renewalDue parseTime now later cert \<longleftrightarrow> schedule_renewal parseTime now later cert = RenewNow) \<and>
   0 \<le> schedule_delay (schedule_renewal parseTime now later cert) \<and>
   schedule_delay (schedule_renewal parseTime now later cert) \<le> hours 12 \<and>
   (schedule_delay (schedule_renewal parseTime now later cert) = 0 \<longleftrightarrow>
      (\<exists>notAfter. ct_NotAfter (c_Status cert) = Some notAfter \<and>
         notAfter + wrap64 (- parseCertRenewBefore cert) = now + 1)) \<and>
   (case schedule_renewal parseTime now later cert of
      CheckLater d _ \<Rightarrow> \<exists>notAfter. ct_NotAfter (c_Status cert) = Some notAfter \<and>
         now + d < notAfter + wrap64 (- parseCertRenewBefore cert)
    | _ \<Rightarrow> True)"
proof (cases "ct_NotAfter (c_Status cert)")
  case None
  then show ?thesis
    by (simp add: renewalDue_def schedule_renewal_def schedule_delay_def durations)
next
  case (Some notAfter)
  define left where "left = notAfter + wrap64 (- parseCertRenewBefore cert) - now"
  have sub: "time_sub (notAfter + wrap64 (- parseCertRenewBefore cert)) now = max min_int64 (min max_int64 left)"
    by (simp add: time_sub_def left_def)
  show ?thesis
  proof (cases "left \<le> 0")
    case True
    then show ?thesis using Some sub
      by (auto simp: renewalDue_def schedule_renewal_def schedule_delay_def durations
          minRenewalCooldown_def Let_def left_def max_int64_def min_int64_def)
  next
    case False
    define d where "d = min (min max_int64 left div 2) maxRenewalCheckInterval"
    have s: "schedule_renewal parseTime now later cert = CheckLater d (time_sub notAfter now)"
      using Some sub False
      by (simp add: schedule_renewal_def Let_def d_def max_int64_def min_int64_def)
    have "0 \<le> d" "d \<le> hours 12" "d = 0 \<longleftrightarrow> left = 1" "d < left"
      using False by (auto simp: d_def maxRenewalCheckInterval_def durations max_int64_def)
    moreover have "\<not> renewalDue parseTime now later cert"
      using Some False by (simp add: renewalDue_def left_def)
    ultimately show ?thesis using s Some by (auto simp: schedule_delay_def left_def)
  qed
qed

lemma csrPollBackoff_bounds: "seconds 5 \<le> csrPollBackoff n" "csrPollBackoff n \<le> minutes 5"
  by (simp_all add: csrPollBackoff_def durations)

lemma csrPollBackoff_mono: "m \<le> n \<Longrightarrow> csrPollBackoff m \<le> csrPollBackoff n"
  by (simp add: csrPollBackoff_def durations)

end
