(* ===== verification/CertSigning.thy ===== *)
theory CertSigning
  imports CertDerived PuppetOIDs
begin

text \<open>
  The signing half of the Certificate controller (certificate_signing.go): the pending key,
  the CSR, the conversation with the CA over HTTP, and the TLS Secret.

  The API server, the CA and the clock are the environment: every call is appended to a
  history, and the answer of the environment is an arbitrary function of the history so far
  and of the call. All theorems hold for every environment, so for every interleaving of other
  writers with the calls, every failure and every answer of the CA. The Certificate the
  reconciler holds in memory (the object behind the Go pointer) is part of the state.
\<close>

section \<open>Parsers, keys and HTTP\<close>

datatype pem = Pem (pem_Type: string) (pem_Bytes: string)

datatype public_key = RSAPublic string | OtherPublic string

datatype private_key = RSAPrivate string | OtherPrivate string

record x509_certificate =
  xc_PublicKey :: public_key
  xc_NotAfter :: int

record csr_template =
  tmpl_CommonName :: string
  tmpl_DNSNames :: "string list"
  tmpl_ExtraExtensions :: "(oid \<times> string) list"

text \<open>The functions of package crypto and encoding the code calls; an RSA key is its DER form.\<close>

record crypto =
  PemDecode :: "string \<Rightarrow> pem option"
  PemEncode :: "pem \<Rightarrow> string"
  ParseCertificate :: "string \<Rightarrow> err + x509_certificate"
  ParsePKCS1PrivateKey :: "string \<Rightarrow> err + string"
  ParsePKCS8PrivateKey :: "string \<Rightarrow> err + private_key"
  PublicKeyOf :: "string \<Rightarrow> string"
  X509KeyPair :: "string \<Rightarrow> string \<Rightarrow> err option"
  AppendCertsFromPEM :: "string \<Rightarrow> bool"
  MarshalString :: "string \<Rightarrow> err + string"
  CreateCertificateRequest :: "csr_template \<Rightarrow> string \<Rightarrow> err + string"

record http_client =
  hc_RootCAs :: "string option"
  hc_Certificate :: "(string \<times> string) option"
  hc_InsecureSkipVerify :: bool

record http_request =
  req_Method :: string
  req_URL :: string
  req_Header :: "string smap"
  req_Body :: string

text \<open>The status and the body as far as it was read (at most HTTPBodyLimit bytes).\<close>

record http_response =
  resp_Status :: nat
  resp_Body :: string

section \<open>The environment and the state\<close>

datatype cert_call =
    GetCertificate string | GetCA string | GetSecret string
  | ListServers | ListPools | ListCertificates
  | PatchCertificate Certificate | StatusUpdate Certificate
  | CreateSecret Secret | UpdateSecret Secret | WriteSecret Secret | DeleteSecret string
  | GenerateKey | NewRequest http_request | Http http_client http_request
  | Event string string string

type_synonym hist = "cert_call list"

record cert_env =
  e_lib :: kube_lib
  e_crypto :: crypto
  e_parseTime :: "string \<Rightarrow> int option"
  e_formatTime :: "int \<Rightarrow> string"
  e_showDuration :: "int \<Rightarrow> string"
  e_jsonString :: "string \<Rightarrow> string"
  e_retries :: nat
  e_now :: "hist \<Rightarrow> int"
  e_later :: "hist \<Rightarrow> int"
  e_wallclock :: "hist \<Rightarrow> int"
  e_getCertificate :: "hist \<Rightarrow> string \<Rightarrow> err + Certificate"
  e_getCA :: "hist \<Rightarrow> string \<Rightarrow> err + CertificateAuthority"
  e_getSecret :: "hist \<Rightarrow> string \<Rightarrow> err + Secret"
  e_listServers :: "hist \<Rightarrow> err + Server list"
  e_listPools :: "hist \<Rightarrow> err + Pool list"
  e_listCertificates :: "hist \<Rightarrow> err + Certificate list"
  e_patchCertificate :: "hist \<Rightarrow> Certificate \<Rightarrow> err + unit"
  e_updateStatus :: "hist \<Rightarrow> Certificate \<Rightarrow> err + unit"
  e_createSecret :: "hist \<Rightarrow> Secret \<Rightarrow> err + unit"
  e_updateSecret :: "hist \<Rightarrow> Secret \<Rightarrow> err + unit"
  e_writeSecret :: "hist \<Rightarrow> Secret \<Rightarrow> err + unit"
  e_deleteSecret :: "hist \<Rightarrow> string \<Rightarrow> err + unit"
  e_generateKey :: "hist \<Rightarrow> err + string"
  e_newRequest :: "hist \<Rightarrow> http_request \<Rightarrow> err + unit"
  e_http :: "hist \<Rightarrow> http_client \<Rightarrow> http_request \<Rightarrow> err + http_response"

type_synonym cst = "(cert_call, Certificate) world"

type_synonym 'a cop = "(cst, err, 'a) op"

definition event :: "string \<Rightarrow> string \<Rightarrow> string \<Rightarrow> (cst, 'e, unit) op" where
  "event kind reason note = call (Event kind reason note) (\<lambda>_. Inr ())"

text \<open>An object read under a key carries that key.\<close>

definition getCA :: "cert_env \<Rightarrow> string \<Rightarrow> CertificateAuthority cop" where
  "getCA E name = call (GetCA name) (\<lambda>h. case e_getCA E h name of Inl e \<Rightarrow> Inl e
     | Inr ca \<Rightarrow> Inr (ca \<lparr> ca_Meta := (ca_Meta ca) \<lparr> m_Name := name \<rparr> \<rparr>))"

definition getSecret :: "cert_env \<Rightarrow> string \<Rightarrow> Secret cop" where
  "getSecret E name = call (GetSecret name) (\<lambda>h. case e_getSecret E h name of Inl e \<Rightarrow> Inl e
     | Inr secret \<Rightarrow> Inr (secret \<lparr> s_Meta := (s_Meta secret) \<lparr> m_Name := name \<rparr> \<rparr>))"

text \<open>Get into the object in memory: what is read under a key carries that key.\<close>

definition refetch :: "cert_env \<Rightarrow> unit cop" where
  "refetch E = (\<lambda>s. let name = m_Name (c_Meta (obj s)); ns = m_Namespace (c_Meta (obj s)) in
     case call (GetCertificate name) (\<lambda>h. e_getCertificate E h name) s of
       (Inl e, s') \<Rightarrow> (Inl e, s')
     | (Inr c, s') \<Rightarrow>
         (Inr (), s' \<lparr> obj := c \<lparr> c_Meta := c_Meta c \<lparr> m_Name := name, m_Namespace := ns \<rparr> \<rparr> \<rparr>))"

text \<open>
  Status().Update and Patch send the object in memory, and the model leaves it as it was sent.
  Go reads the answer of the API server back into it. A status update carries the resource
  version of the refetch before it, so that its answer differs in that version only; a merge
  patch carries none, and its answer may also hold a change another writer made meanwhile to
  fields the patch leaves alone. That refresh is not modelled: such a change is seen at the next
  refetch, as if it had been made just after the patch.
\<close>

definition send_status :: "cert_env \<Rightarrow> unit cop" where
  "send_status E = (\<lambda>s. call (StatusUpdate (obj s)) (\<lambda>h. e_updateStatus E h (obj s)) s)"

definition send_patch :: "cert_env \<Rightarrow> unit cop" where
  "send_patch E = (\<lambda>s. call (PatchCertificate (obj s)) (\<lambda>h. e_patchCertificate E h (obj s)) s)"

definition updateStatusWithRetry :: "cert_env \<Rightarrow> (Certificate \<Rightarrow> Certificate) \<Rightarrow> unit cop" where
  "updateStatusWithRetry E mutate =
     retry_on_conflict (e_retries E) (thn (refetch E) (thn (mutate_obj mutate) (send_status E)))"

section \<open>Status changes\<close>

definition with_status :: "(CertificateStatus \<Rightarrow> CertificateStatus) \<Rightarrow> Certificate \<Rightarrow> Certificate" where
  "with_status f c = c \<lparr> c_Status := f (c_Status c) \<rparr>"

definition set_phase :: "CertificatePhase \<Rightarrow> Certificate \<Rightarrow> Certificate" where
  "set_phase p = with_status (\<lambda>st. st \<lparr> ct_Phase := p \<rparr>)"

definition set_cond :: "kube_lib \<Rightarrow> string \<Rightarrow> string \<Rightarrow> string \<Rightarrow> string \<Rightarrow> Certificate \<Rightarrow> Certificate" where
  "set_cond L typ status reason msg c =
     with_status (\<lambda>st. st \<lparr> ct_Conditions := SetStatusCondition L (ct_Conditions st)
       \<lparr> cond_Type = typ, cond_Status = status, cond_Reason = reason, cond_Message = msg,
         cond_ObservedGeneration = m_Generation (c_Meta c) \<rparr> \<rparr>) c"

definition set_failed :: "kube_lib \<Rightarrow> CertificatePhase \<Rightarrow> string \<Rightarrow> string \<Rightarrow> Certificate \<Rightarrow> Certificate" where
  "set_failed L p reason msg c =
     set_cond L ConditionCertSigned ''False'' reason msg (set_phase p c)"

text \<open>The status written when a certificate was signed, adopted or renewed.\<close>

definition set_signed :: "kube_lib \<Rightarrow> string \<Rightarrow> string \<Rightarrow> string \<Rightarrow> string list \<Rightarrow> string \<Rightarrow>
    int option \<Rightarrow> Certificate \<Rightarrow> Certificate" where
  "set_signed L reason msg hash effective secretName notAfter c =
     set_cond L ConditionCertSigned ''True'' reason msg
       (with_status (\<lambda>st. st \<lparr> ct_ObservedGeneration := m_Generation (c_Meta c),
          ct_SignedSpecHash := hash, ct_EffectiveDNSAltNames := effective,
          ct_Phase := CertSignedPhase, ct_SecretName := secretName, ct_NotAfter := notAfter \<rparr>) c)"

section \<open>Names\<close>

definition tls_name :: "Certificate \<Rightarrow> string" where
  "tls_name cert = m_Name (c_Meta cert) @ ''-tls''"

definition pending_name :: "Certificate \<Rightarrow> string" where
  "pending_name cert = m_Name (c_Meta cert) @ ''-tls-pending''"

definition ca_base_url :: "CertificateAuthority \<Rightarrow> string \<Rightarrow> string" where
  "ca_base_url ca namespace =
     (case as_External (ca_Spec ca) of
        Some ext \<Rightarrow> x_URL ext
      | None \<Rightarrow> ''https://'' @ caInternalServiceName (m_Name (ca_Meta ca)) @ ''.'' @ namespace
                 @ ''.svc:8140'')"

section \<open>HTTP clients\<close>

text \<open>The helpers take the client that reads Secrets as an argument: other controllers use them too.\<close>

type_synonym 's reader = "string \<Rightarrow> ('s, err, Secret) op"

text \<open>isSecretReady of helpers.go; any failure to read counts as not ready.\<close>

definition isSecretReady :: "'s reader \<Rightarrow> string \<Rightarrow> string \<Rightarrow> ('s, 'e, bool) op" where
  "isSecretReady get name requiredKey =
     bnd (outcome (get name)) (\<lambda>r.
     ret (case r of Inl _ \<Rightarrow> False
          | Inr secret \<Rightarrow> if requiredKey \<noteq> [] then sget (s_Data secret) requiredKey \<noteq> None else True))"

lemma only_isSecretReady [only_rules]: "only hs P (get n) \<Longrightarrow> only hs P (isSecretReady get n k)"
  unfolding isSecretReady_def by (intro only_rules)

definition getCAPublicCert :: "'s reader \<Rightarrow> CertificateAuthority \<Rightarrow> ('s, err, string) op" where
  "getCAPublicCert get ca =
     (let caSecretName = m_Name (ca_Meta ca) @ ''-ca'' in
      bnd (wrapping (''getting CA Secret '' @ caSecretName) (get caSecretName))
       (\<lambda>secret. let certPEM = sval (s_Data secret) ''ca_crt.pem'' in
          if certPEM = [] then throw (Errorf (''CA Secret '' @ caSecretName @ '' has no ca_crt.pem data''))
          else ret certPEM))"

definition caHTTPClient :: "crypto \<Rightarrow> string \<Rightarrow> err + http_client" where
  "caHTTPClient C caCertPEM =
     (if \<not> AppendCertsFromPEM C caCertPEM then Inl (Errorf ''failed to parse CA certificate PEM'')
      else Inr \<lparr> hc_RootCAs = Some caCertPEM, hc_Certificate = None, hc_InsecureSkipVerify = False \<rparr>)"

definition mTLSHTTPClient :: "crypto \<Rightarrow> string \<Rightarrow> string \<Rightarrow> string \<Rightarrow> err + http_client" where
  "mTLSHTTPClient C caCertPEM clientCertPEM clientKeyPEM =
     (if \<not> AppendCertsFromPEM C caCertPEM then Inl (Errorf ''failed to parse CA certificate PEM'')
      else (case X509KeyPair C clientCertPEM clientKeyPEM of
              Some e \<Rightarrow> Inl (wrapf ''parsing client certificate for mTLS'' e)
            | None \<Rightarrow> Inr \<lparr> hc_RootCAs = Some caCertPEM,
                 hc_Certificate = Some (clientCertPEM, clientKeyPEM), hc_InsecureSkipVerify = False \<rparr>))"

definition buildExternalCAHTTPClient :: "crypto \<Rightarrow> 's reader \<Rightarrow> ExternalCASpec \<Rightarrow> ('s, err, http_client) op" where
  "buildExternalCAHTTPClient C get ext =
     bnd (if x_CASecretRef ext \<noteq> [] then
            bnd (wrapping (''getting CA Secret '' @ x_CASecretRef ext) (get (x_CASecretRef ext)))
             (\<lambda>secret. let caCertPEM = sval (s_Data secret) ''ca_crt.pem'' in
                if caCertPEM = [] then ret None
                else if \<not> AppendCertsFromPEM C caCertPEM then
                  throw (Errorf (''failed to parse CA certificate from Secret '' @ x_CASecretRef ext))
                else ret (Some caCertPEM))
          else ret None)
      (\<lambda>roots.
       bnd (if x_TLSSecretRef ext \<noteq> [] then
              bnd (wrapping (''getting TLS Secret '' @ x_TLSSecretRef ext) (get (x_TLSSecretRef ext)))
               (\<lambda>secret. let certPEM = sval (s_Data secret) ''tls.crt'';
                             keyPEM = sval (s_Data secret) ''tls.key'' in
                  if certPEM = [] \<or> keyPEM = [] then
                    throw (Errorf (''TLS Secret '' @ x_TLSSecretRef ext @ '' missing tls.crt or tls.key''))
                  else (case X509KeyPair C certPEM keyPEM of
                          Some e \<Rightarrow> throw (wrapf (''parsing client certificate from Secret ''
                                                    @ x_TLSSecretRef ext) e)
                        | None \<Rightarrow> ret (Some (certPEM, keyPEM))))
            else ret None)
        (\<lambda>client. ret \<lparr> hc_RootCAs = roots, hc_Certificate = client,
                         hc_InsecureSkipVerify = x_InsecureSkipVerify ext \<rparr>))"

definition caHTTPClientForCA :: "crypto \<Rightarrow> 's reader \<Rightarrow> CertificateAuthority \<Rightarrow> ('s, err, http_client) op" where
  "caHTTPClientForCA C get ca =
     (case as_External (ca_Spec ca) of
        Some ext \<Rightarrow> buildExternalCAHTTPClient C get ext
      | None \<Rightarrow> bnd (wrapping ''loading CA certificate'' (getCAPublicCert get ca))
                 (\<lambda>caCertPEM. lift (caHTTPClient C caCertPEM)))"

text \<open>http.NewRequestWithContext and Client.Do.\<close>

definition do_request :: "cert_env \<Rightarrow> string \<Rightarrow> string \<Rightarrow> http_client \<Rightarrow> http_request \<Rightarrow> http_response cop" where
  "do_request E building doing client req =
     thn (wrapping building (call (NewRequest req) (\<lambda>h. e_newRequest E h req)))
         (wrapping doing (call (Http client req) (\<lambda>h. e_http E h client req)))"

section \<open>The CSR\<close>

fun add_exts :: "crypto \<Rightarrow> (string \<times> string) list \<Rightarrow> err + (oid \<times> string) list" where
  "add_exts C [] = Inr []"
| "add_exts C ((name, v) # rest) =
     (case OIDByName name of
        None \<Rightarrow> Inl (Errorf (''unknown Puppet extension: '' @ name))
      | Some oid \<Rightarrow>
         (case MarshalString C v of
            Inl e \<Rightarrow> Inl (wrapf (''encoding extension '' @ name) e)
          | Inr encoded \<Rightarrow>
             (case add_exts C rest of
                Inl e \<Rightarrow> Inl e
              | Inr exts \<Rightarrow> Inr ((oid, encoded) # exts))))"

definition requested_exts :: "CSRExtensionsSpec \<Rightarrow> (string \<times> string) list" where
  "requested_exts spec =
     (if PpCliAuth spec then [(''pp_cli_auth'', ''true'')] else []) @
     (if PpRole spec \<noteq> [] then [(''pp_role'', PpRole spec)] else []) @
     (if PpEnvironment spec \<noteq> [] then [(''pp_environment'', PpEnvironment spec)] else []) @
     map (\<lambda>k. (k, sval (CustomExtensions spec) k)) (sort_compact (map fst (CustomExtensions spec)))"

definition buildCSRExtensions :: "crypto \<Rightarrow> CSRExtensionsSpec option \<Rightarrow> err + (oid \<times> string) list" where
  "buildCSRExtensions C spec =
     (case spec of None \<Rightarrow> Inr [] | Some s \<Rightarrow> add_exts C (requested_exts s))"

definition buildCSR :: "crypto \<Rightarrow> string \<Rightarrow> string list \<Rightarrow> CSRExtensionsSpec option \<Rightarrow> string \<Rightarrow> err + string" where
  "buildCSR C certname dnsAltNames extensions privateKey =
     (case buildCSRExtensions C extensions of
        Inl e \<Rightarrow> Inl (wrapf ''building CSR extensions'' e)
      | Inr extraExts \<Rightarrow>
         (case CreateCertificateRequest C \<lparr> tmpl_CommonName = certname,
                 tmpl_DNSNames = dnsAltNames, tmpl_ExtraExtensions = extraExts \<rparr> privateKey of
            Inl e \<Rightarrow> Inl (wrapf ''creating CSR'' e)
          | Inr csrDER \<Rightarrow> Inr (PemEncode C (Pem ''CERTIFICATE REQUEST'' csrDER))))"

definition effectiveDNSAltNames :: "cert_env \<Rightarrow> string list cop" where
  "effectiveDNSAltNames E =
     bnd (reads obj) (\<lambda>cert.
     bnd (wrapping (''listing Servers for Certificate '' @ m_Name (c_Meta cert))
           (call ListServers (e_listServers E))) (\<lambda>servers.
     let wanted = wanted_pools
           (filter (\<lambda>sv. m_Name (c_Meta cert) \<in> set (index_certificateRef sv)) servers)
     in if wanted = [] then ret (dedupeSorted (cs_DNSAltNames (c_Spec cert)))
        else
          bnd (wrapping (''listing Pools for Certificate '' @ m_Name (c_Meta cert))
                (call ListPools (e_listPools E))) (\<lambda>pools.
          ret (effective_names (cs_DNSAltNames (c_Spec cert)) wanted pools))))"

definition signingSpecHashFor :: "cert_env \<Rightarrow> (string \<times> string list) cop" where
  "signingSpecHashFor E =
     bnd (effectiveDNSAltNames E) (\<lambda>names.
     bnd (reads obj) (\<lambda>cert.
     ret (signingSpecHash (e_lib E) cert names, names)))"

section \<open>The pending key\<close>

definition ensurePendingKey :: "cert_env \<Rightarrow> string \<Rightarrow> string cop" where
  "ensurePendingKey E pendingSecretName =
     bnd (outcome (getSecret E pendingSecretName)) (\<lambda>r.
     let generate =
       bnd (wrapping ''generating RSA key'' (call GenerateKey (e_generateKey E))) (\<lambda>der.
       bnd (reads obj) (\<lambda>cert.
       let keyPEM = PemEncode (e_crypto E) (Pem ''RSA PRIVATE KEY'' der);
           meta = (new_meta pendingSecretName (m_Namespace (c_Meta cert)))
                    \<lparr> m_Labels := [(''openvox.voxpupuli.org/certificate'', m_Name (c_Meta cert))] \<rparr>
       in case SetControllerReference (e_lib E) ''Certificate'' (c_Meta cert) meta of
            Inl e \<Rightarrow> throw (wrapf (''setting owner reference on pending Secret '' @ pendingSecretName) e)
          | Inr meta' \<Rightarrow>
             (let secret = \<lparr> s_Meta = meta', s_Data = [(''key.pem'', keyPEM)] \<rparr> in
              bnd (outcome (call (CreateSecret secret) (\<lambda>h. e_createSecret E h secret))) (\<lambda>created.
              case created of
                Inl e \<Rightarrow> if \<not> IsAlreadyExists e then throw (wrapf ''creating pending Secret'' e)
                          else ret keyPEM
              | Inr _ \<Rightarrow> ret keyPEM))))
     in case r of
          Inr secret \<Rightarrow> if sval (s_Data secret) ''key.pem'' \<noteq> [] then ret (sval (s_Data secret) ''key.pem'')
                        else generate
        | Inl e \<Rightarrow> if \<not> IsNotFound e then throw (wrapf ''checking pending Secret'' e) else generate)"

section \<open>Submitting, fetching, signing\<close>

definition submitCSR :: "cert_env \<Rightarrow> CertificateAuthority \<Rightarrow> string \<Rightarrow> (cst, int \<times> err, unit) op" where
  "submitCSR E ca caBaseURL =
     bnd (reads obj) (\<lambda>cert.
     bnd (failing 0 (ensurePendingKey E (pending_name cert))) (\<lambda>keyPEM.
     case PemDecode (e_crypto E) keyPEM of
       None \<Rightarrow> throw (0, Errorf ''invalid PEM in pending key'')
     | Some block \<Rightarrow>
     bnd (failing 0 (wrapping ''parsing pending key''
           (lift (ParsePKCS1PrivateKey (e_crypto E) (pem_Bytes block))))) (\<lambda>privateKey.
     bnd (failing 0 (effectiveDNSAltNames E)) (\<lambda>altNames.
     bnd (failing 0 (lift (buildCSR (e_crypto E) (certnameOf cert) altNames
           (cs_CSRExtensions (c_Spec cert)) privateKey))) (\<lambda>csrPEM.
     bnd (failing RequeueIntervalShort (wrapping ''creating CA HTTP client''
           (caHTTPClientForCA (e_crypto E) (getSecret E) ca))) (\<lambda>client.
     let req = \<lparr> req_Method = ''PUT'', req_URL = caBaseURL @ ''/puppet-ca/v1/certificate_request/''
                   @ certnameOf cert @ ''?environment=production'',
                 req_Header = [(''Content-Type'', ''text/plain'')], req_Body = csrPEM \<rparr> in
     thn (failing 0 (wrapping ''building CSR request''
           (call (NewRequest req) (\<lambda>h. e_newRequest E h req))))
     (bnd (failing RequeueIntervalLong (wrapping ''submitting CSR''
           (call (Http client req) (\<lambda>h. e_http E h client req)))) (\<lambda>resp.
     if resp_Status resp = 200 then ret ()
     else if resp_Status resp = 400 \<and>
             Contains (resp_Body resp) ''already has a requested certificate'' then ret ()
     else throw (RequeueIntervalCRL, Errorf (''CA rejected CSR (HTTP '' @ Itoa (int (resp_Status resp))
                   @ ''): '' @ resp_Body resp))))))))))"

definition parsePrivateKey :: "crypto \<Rightarrow> string \<Rightarrow> err + string" where
  "parsePrivateKey C der =
     (case ParsePKCS1PrivateKey C der of
        Inr key \<Rightarrow> Inr key
      | Inl _ \<Rightarrow>
         (case ParsePKCS8PrivateKey C der of
            Inl e \<Rightarrow> Inl (wrapf ''parsing private key'' e)
          | Inr (RSAPrivate key) \<Rightarrow> Inr key
          | Inr (OtherPrivate t) \<Rightarrow> Inl (Errorf (''unsupported private key type '' @ t))))"

definition certMatchesKey :: "crypto \<Rightarrow> string \<Rightarrow> string \<Rightarrow> err + bool" where
  "certMatchesKey C certPEM keyPEM =
     (case PemDecode C certPEM of
        None \<Rightarrow> Inl (Errorf ''decoding certificate PEM'')
      | Some certBlock \<Rightarrow>
     (case ParseCertificate C (pem_Bytes certBlock) of
        Inl e \<Rightarrow> Inl (wrapf ''parsing certificate'' e)
      | Inr parsed \<Rightarrow>
     (case PemDecode C keyPEM of
        None \<Rightarrow> Inl (Errorf ''decoding private key PEM'')
      | Some keyBlock \<Rightarrow>
     (case parsePrivateKey C (pem_Bytes keyBlock) of
        Inl e \<Rightarrow> Inl e
      | Inr key \<Rightarrow>
     (case xc_PublicKey parsed of
        OtherPublic t \<Rightarrow> Inl (Errorf (''unsupported certificate public key type '' @ t))
      | RSAPublic pub \<Rightarrow> Inr (pub = PublicKeyOf C key))))))"

definition parseCertNotAfter :: "crypto \<Rightarrow> string \<Rightarrow> int option" where
  "parseCertNotAfter C certPEM =
     (case PemDecode C certPEM of
        None \<Rightarrow> None
      | Some block \<Rightarrow>
          if pem_Type block \<noteq> ''CERTIFICATE'' then None
          else (case ParseCertificate C (pem_Bytes block) of
                  Inl _ \<Rightarrow> None
                | Inr cert \<Rightarrow> Some (xc_NotAfter cert div seconds 1 * seconds 1)))"

text \<open>Some the PEM certificate, None when it is not yet signed.\<close>

definition fetchSignedCert :: "cert_env \<Rightarrow> CertificateAuthority \<Rightarrow> string \<Rightarrow> string option cop" where
  "fetchSignedCert E ca caBaseURL =
     bnd (reads obj) (\<lambda>cert.
     bnd (wrapping ''creating CA HTTP client'' (caHTTPClientForCA (e_crypto E) (getSecret E) ca)) (\<lambda>client.
     bnd (do_request E ''building cert request'' ''fetching cert'' client
           \<lparr> req_Method = ''GET'', req_URL = caBaseURL @ ''/puppet-ca/v1/certificate/''
               @ certnameOf cert @ ''?environment=production'',
             req_Header = [(''Accept'', ''text/plain'')], req_Body = [] \<rparr>) (\<lambda>resp.
     if resp_Status resp = 200 \<and> resp_Body resp \<noteq> [] then
       (case PemDecode (e_crypto E) (resp_Body resp) of
          Some block \<Rightarrow> if pem_Type block = ''CERTIFICATE'' then ret (Some (resp_Body resp)) else ret None
        | None \<Rightarrow> ret None)
     else ret None)))"

text \<open>The mTLS client of the operator: the CA certificate and the signing Secret.\<close>

definition signing_client :: "cert_env \<Rightarrow> CertificateAuthority \<Rightarrow> string \<Rightarrow> http_client cop" where
  "signing_client E ca building =
     bnd (wrapping ''loading CA certificate'' (getCAPublicCert (getSecret E) ca)) (\<lambda>caCertPEM.
     let name = at_SigningSecretName (ca_Status ca) in
     bnd (wrapping (''getting signing Secret '' @ name) (getSecret E name)) (\<lambda>signingSecret.
     let clientCertPEM = sval (s_Data signingSecret) ''cert.pem'';
         clientKeyPEM = sval (s_Data signingSecret) ''key.pem'' in
     if clientCertPEM = [] \<or> clientKeyPEM = [] then
       throw (Errorf (''signing Secret '' @ name @ '' missing cert.pem or key.pem''))
     else wrapping building (lift (mTLSHTTPClient (e_crypto E) caCertPEM clientCertPEM clientKeyPEM))))"

definition signCSRViaAPI :: "cert_env \<Rightarrow> CertificateAuthority \<Rightarrow> string \<Rightarrow> unit cop" where
  "signCSRViaAPI E ca caBaseURL =
     bnd (reads obj) (\<lambda>cert. let certname = certnameOf cert in
     bnd (signing_client E ca (''building mTLS client for signing '' @ certname)) (\<lambda>client.
     bnd (do_request E ''building sign request'' ''signing CSR via API'' client
           \<lparr> req_Method = ''PUT'', req_URL = caBaseURL @ ''/puppet-ca/v1/certificate_status/''
               @ certname @ ''?environment=production'',
             req_Header = [(''Content-Type'', ''application/json'')],
             req_Body = [CHR ''{'', CHR 0x22] @ ''desired_state'' @ [CHR 0x22, CHR '':'', CHR '' '', CHR 0x22]
               @ ''signed'' @ [CHR 0x22, CHR ''}''] \<rparr>) (\<lambda>resp.
     if resp_Status resp \<noteq> 204 \<and> resp_Status resp \<noteq> 200 then
       throw (Errorf (''CA rejected sign request (HTTP '' @ Itoa (int (resp_Status resp)) @ ''): ''
                @ resp_Body resp))
     else ret ())))"

definition cleanCertViaAPI :: "cert_env \<Rightarrow> CertificateAuthority \<Rightarrow> string \<Rightarrow> unit cop" where
  "cleanCertViaAPI E ca caBaseURL =
     bnd (reads obj) (\<lambda>cert. let certname = cs_Certname (c_Spec cert) in
     if certname = [] then
       throw (Errorf (''certname is empty, cannot clean certificate '' @ m_Name (c_Meta cert)))
     else
     bnd (signing_client E ca (''building mTLS client for clean of '' @ certname)) (\<lambda>client.
     bnd (do_request E ''building clean request'' ''calling clean API'' client
           \<lparr> req_Method = ''PUT'', req_URL = caBaseURL @ ''/puppet-ca/v1/clean?environment=production'',
             req_Header = [(''Content-Type'', ''application/json'')],
             req_Body = [CHR ''{''] @ e_jsonString E ''certnames'' @ '':['' @ e_jsonString E certname
               @ '']}'' \<rparr>) (\<lambda>resp.
     if resp_Status resp \<noteq> 200 \<and> resp_Status resp \<noteq> 204 then
       throw (Errorf (''CA rejected clean request (HTTP '' @ Itoa (int (resp_Status resp)) @ ''): ''
                @ resp_Body resp))
     else ret ())))"

section \<open>The TLS Secret\<close>

definition createOrUpdateSecret :: "cert_env \<Rightarrow> ObjectMeta \<Rightarrow> string \<Rightarrow> string \<Rightarrow> string smap \<Rightarrow>
    string smap \<Rightarrow> string list \<Rightarrow> unit cop" where
  "createOrUpdateSecret E owner ownerKind name labels data preserveKeys =
     thn (wrapping (''reconciling Secret '' @ name)
           (create_or_update (getSecret E name)
             \<lparr> s_Meta = new_meta name (m_Namespace owner), s_Data = [] \<rparr>
             (secret_mutation (e_lib E) owner ownerKind labels data preserveKeys)
             (\<lambda>secret. call (WriteSecret secret) (\<lambda>h. e_writeSecret E h secret))
             (\<lambda>secret. call (WriteSecret secret) (\<lambda>h. e_writeSecret E h secret))))
         (ret ())"

definition createOrUpdateTLSSecret :: "cert_env \<Rightarrow> CertificateAuthority \<Rightarrow> string \<Rightarrow> string \<Rightarrow> string \<Rightarrow> unit cop" where
  "createOrUpdateTLSSecret E ca name certPEM keyPEM =
     bnd (reads obj) (\<lambda>cert.
     createOrUpdateSecret E (c_Meta cert) ''Certificate'' name
       (sput ''openvox.voxpupuli.org/certificate'' (m_Name (c_Meta cert)) (caLabels (m_Name (ca_Meta ca))))
       [(''cert.pem'', certPEM), (''key.pem'', keyPEM)] [])"

end
