(* ===== verification/CertReconcile.thy ===== *)
theory CertReconcile
  imports CertSigning
begin

text \<open>
  The reconcile loop of the Certificate controller (certificate_controller.go) with signing
  and renewal (certificate_signing.go), over the environment of the signing theory. A
  reconcile starts with the key of the request and returns the requeue delay; what it did is
  the history it leaves.
\<close>

section \<open>Signing\<close>

definition mismatch_message :: "Certificate \<Rightarrow> string" where
  "mismatch_message cert =
     ''the CA returned a certificate for certname '' @ Quote (certnameOf cert)
     @ '' that was issued for a different key; another Certificate is most likely using the same certname''"

text \<open>The signed certificate, asked for directly and after signing as the operator.\<close>

definition fetch_or_sign :: "cert_env \<Rightarrow> CertificateAuthority \<Rightarrow> string \<Rightarrow> string option \<Rightarrow>
    (cst, int \<times> err, string option) op" where
  "fetch_or_sign E ca caBaseURL fetched =
     (if fetched = None \<and> as_External (ca_Spec ca) = None \<and> at_SigningSecretName (ca_Status ca) \<noteq> []
      then
        bnd (outcome (signCSRViaAPI E ca caBaseURL)) (\<lambda>signed.
        case signed of
          Inl _ \<Rightarrow> ret None
        | Inr _ \<Rightarrow>
            bnd (outcome (fetchSignedCert E ca caBaseURL)) (\<lambda>again.
            case again of Inl _ \<Rightarrow> ret None | Inr c \<Rightarrow> ret c))
      else ret fetched)"

text \<open>The certificate is not there yet: timeout, attempt counter, backoff.\<close>

definition poll_again :: "cert_env \<Rightarrow> (cst, int \<times> err, int) op" where
  "poll_again E =
     bnd (reads obj) (\<lambda>cert0.
     bnd (failing 0 (wrapping ''reading pending Secret for poll tracking''
           (getSecret E (pending_name cert0)))) (\<lambda>pendingSecret.
     bnd (reads (\<lambda>s. e_wallclock E (hist s))) (\<lambda>wall.
     let created = m_CreationTimestamp (s_Meta pendingSecret);
         elapsed = (case created of None \<Rightarrow> 0 | Some t \<Rightarrow> time_sub wall t) in
     if created \<noteq> None \<and> CSRPollAbsoluteTimeout \<le> elapsed then
       (let shown = e_showDuration E (elapsed div minutes 1 * minutes 1) in
        thn (logged (updateStatusWithRetry E (set_failed (e_lib E) CertError ''CSRPollingTimeout''
               (''CSR polling timed out after '' @ shown))))
        (thn (event ''Warning'' ''CSRWaitingForSigning''
               (''CSR polling timed out after '' @ shown
                @ ''. Check the CA and sign manually: puppetserver ca sign --certname ''
                @ certnameOf cert0))
         (ret 0)))
     else
       (let attempts = wrap64 ((case sget (m_Annotations (s_Meta pendingSecret)) AnnotationCSRPollAttempts of
                                  None \<Rightarrow> 0 | Some v \<Rightarrow> AtoiValue v) + 1);
            pendingSecret' = pendingSecret \<lparr> s_Meta := (s_Meta pendingSecret)
              \<lparr> m_Annotations := sput AnnotationCSRPollAttempts (Itoa attempts)
                  (m_Annotations (s_Meta pendingSecret)) \<rparr> \<rparr> in
        thn (failing 0 (wrapping ''updating poll attempt annotation''
              (call (UpdateSecret pendingSecret') (\<lambda>h. e_updateSecret E h pendingSecret'))))
        (thn (if CSRPollWaitingThreshold \<le> attempts then
                bnd (reads obj) (\<lambda>cert.
                thn (logged (updateStatusWithRetry E (set_failed (e_lib E) CertWaitingForSigning
                       ''WaitingForManualSigning'' (''CSR submitted but not yet signed after ''
                         @ Itoa attempts @ '' attempts''))))
                    (event ''Warning'' ''CSRWaitingForSigning''
                      (''CSR submitted but not yet signed after '' @ Itoa attempts
                       @ '' attempts. To sign manually: puppetserver ca sign --certname '' @ certnameOf cert)))
              else ret ())
         (ret (csrPollBackoff attempts)))))))"

text \<open>The certificate is there: compare it with the pending key and store the pair.\<close>

definition store_signed :: "cert_env \<Rightarrow> CertificateAuthority \<Rightarrow> string \<Rightarrow> (cst, int \<times> err, int) op" where
  "store_signed E ca signedCertPEM =
     bnd (reads obj) (\<lambda>cert.
     bnd (failing 0 (wrapping ''reading pending key Secret''
           (getSecret E (pending_name cert)))) (\<lambda>pendingSecret.
     let keyPEM = sval (s_Data pendingSecret) ''key.pem'' in
     case certMatchesKey (e_crypto E) signedCertPEM keyPEM of
       Inl e \<Rightarrow> throw (0, wrapf ''verifying the signed certificate against the pending key'' e)
     | Inr matches \<Rightarrow>
        if \<not> matches then
          (let msg = mismatch_message cert in
           thn (logged (updateStatusWithRetry E
                  (set_failed (e_lib E) CertError ''CertnameConflict'' msg)))
           (thn (event ''Warning'' ''CertnameConflict'' msg) (ret 0)))
        else
          thn (failing 0 (wrapping ''creating TLS Secret''
                (createOrUpdateTLSSecret E ca (tls_name cert) signedCertPEM keyPEM)))
          (thn (logged (call (DeleteSecret (pending_name cert))
                  (\<lambda>h. e_deleteSecret E h (pending_name cert))))
           (ret 0))))"

definition signCertificate :: "cert_env \<Rightarrow> CertificateAuthority \<Rightarrow> string \<Rightarrow> (cst, int \<times> err, int) op" where
  "signCertificate E ca caBaseURL =
     thn (submitCSR E ca caBaseURL)
     (bnd (outcome (fetchSignedCert E ca caBaseURL)) (\<lambda>fetched.
      case fetched of
        Inl _ \<Rightarrow> ret RequeueIntervalMedium
      | Inr first \<Rightarrow>
         bnd (fetch_or_sign E ca caBaseURL first) (\<lambda>signed.
         case signed of
           None \<Rightarrow> poll_again E
         | Some signedCertPEM \<Rightarrow> store_signed E ca signedCertPEM)))"

section \<open>Schedule and warnings\<close>

definition emitExpiryWarnings :: "cert_env \<Rightarrow> int \<Rightarrow> (cst, err, unit) op" where
  "emitExpiryWarnings E timeUntilExpiry =
     bnd (reads obj) (\<lambda>cert.
     let warned = sval (m_Annotations (c_Meta cert)) AnnotationExpiryWarned;
         labels = new_warnings warned timeUntilExpiry in
     if labels = [] then ret ()
     else
       thn (foldr (\<lambda>label rest. thn (event ''Warning'' ''CertificateExpiringSoon''
               (''Certificate expires in less than '' @ label)) rest) labels (ret ()))
       (thn (mutate_obj (\<lambda>c. c \<lparr> c_Meta := (c_Meta c) \<lparr> m_Annotations :=
               sput AnnotationExpiryWarned (record_warnings warned labels)
                 (m_Annotations (c_Meta c)) \<rparr> \<rparr>))
        (logged (send_patch E))))"

definition scheduleRenewalCheck :: "cert_env \<Rightarrow> (cst, err, result) op" where
  "scheduleRenewalCheck E =
     bnd (reads (\<lambda>s. (obj s, e_now E (hist s), e_later E (hist s)))) (\<lambda>(cert, now, later).
     let s = schedule_renewal (e_parseTime E) now later cert in
     thn (case s of
            CoolingDown \<Rightarrow> event ''Warning'' ''CertificateExpiringSoon''
              (''Certificate renewBefore ('' @ e_showDuration E (parseCertRenewBefore cert)
               @ '') exceeds remaining lifetime; renewal skipped to avoid loop'')
          | CheckLater _ untilExpiry \<Rightarrow> emitExpiryWarnings E untilExpiry
          | _ \<Rightarrow> ret ())
     (ret (Result (schedule_delay s))))"

section \<open>Certname conflicts\<close>

definition claimants :: "Certificate \<Rightarrow> Certificate list \<Rightarrow> string list" where
  "claimants cert certs =
     map (\<lambda>c. m_Name (c_Meta c))
       (filter (\<lambda>other. m_Name (c_Meta other) \<noteq> m_Name (c_Meta cert) \<and>
                  m_DeletionTimestamp (c_Meta other) = None \<and>
                  cs_AuthorityRef (c_Spec other) = cs_AuthorityRef (c_Spec cert))
         (filter (\<lambda>c. certnameOf cert \<in> set (index_certname c)) certs))"

definition first_claimant :: "Certificate \<Rightarrow> Certificate list \<Rightarrow> string" where
  "first_claimant cert certs =
     (case sort (claimants cert certs) of [] \<Rightarrow> [] | n # _ \<Rightarrow> n)"

definition otherCertificateUsingCertname :: "cert_env \<Rightarrow> string cop" where
  "otherCertificateUsingCertname E =
     bnd (reads obj) (\<lambda>cert.
     bnd (wrapping (''listing Certificates by certname in namespace '' @ m_Namespace (c_Meta cert))
           (call ListCertificates (e_listCertificates E))) (\<lambda>certs.
     ret (first_claimant cert certs)))"

definition reportCertnameConflict :: "cert_env \<Rightarrow> string \<Rightarrow> (cst, err, result) op" where
  "reportCertnameConflict E other =
     bnd (reads obj) (\<lambda>cert.
     let msg = ''certname '' @ Quote (certnameOf cert) @ '' is already claimed by Certificate '' @ other
               @ '' against CertificateAuthority '' @ cs_AuthorityRef (c_Spec cert);
         alreadyReported =
           (case FindStatusCondition (e_lib E) (ct_Conditions (c_Status cert)) ConditionCertnameConflict of
              None \<Rightarrow> False
            | Some c \<Rightarrow> cond_Status c = ''True'' \<and> cond_Message c = msg) in
     thn (wrapping (''reporting the certname conflict for '' @ m_Name (c_Meta cert))
           (updateStatusWithRetry E (\<lambda>c.
              set_cond (e_lib E) ConditionCertSigned ''False'' ''CertnameConflict'' msg
                (set_cond (e_lib E) ConditionCertnameConflict ''True'' ''DuplicateCertname'' msg
                  (set_phase CertError c)))))
     (thn (if alreadyReported then ret () else event ''Warning'' ''CertnameConflict'' msg)
      (ret (Result 0))))"

section \<open>Reconciling the signing\<close>

definition extractNotAfter :: "cert_env \<Rightarrow> string \<Rightarrow> (cst, 'e, int option) op" where
  "extractNotAfter E secretName =
     bnd (outcome (getSecret E secretName)) (\<lambda>r.
     ret (case r of Inl _ \<Rightarrow> None
          | Inr secret \<Rightarrow> parseCertNotAfter (e_crypto E) (sval (s_Data secret) ''cert.pem'')))"

text \<open>The common end of signing and adoption: the hash, the expiry and the Signed status.\<close>

definition mark_signed :: "cert_env \<Rightarrow> string \<Rightarrow> (cst, err, int option) op" where
  "mark_signed E tlsSecretName =
     bnd (signingSpecHashFor E) (\<lambda>(hash, effective).
     bnd (extractNotAfter E tlsSecretName) (\<lambda>notAfter.
     thn (updateStatusWithRetry E (set_signed (e_lib E) ''CertificateSigned''
            ''Certificate is signed and available'' hash effective tlsSecretName notAfter))
     (ret notAfter)))"

definition after_signed :: "cert_env \<Rightarrow> (cst, err, result) op" where
  "after_signed E =
     bnd (reads obj) (\<lambda>cert.
     if ct_NotAfter (c_Status cert) = None then ret (Result RequeueIntervalShort)
     else scheduleRenewalCheck E)"

definition reconcileCertSigning :: "cert_env \<Rightarrow> CertificateAuthority \<Rightarrow> (cst, err, result) op" where
  "reconcileCertSigning E ca =
     bnd (otherCertificateUsingCertname E) (\<lambda>other.
     if other \<noteq> [] then reportCertnameConflict E other
     else
     bnd (reads obj) (\<lambda>cert0.
     let caBaseURL = ca_base_url ca (m_Namespace (c_Meta cert0)) in
     thn (logged (updateStatusWithRetry E (set_phase CertRequesting)))
     (bnd (outcome (signCertificate E ca caBaseURL)) (\<lambda>r.
      case r of
        Inl (delay, e) \<Rightarrow>
          thn (logged (updateStatusWithRetry E
                 (set_failed (e_lib E) CertError ''SigningFailed'' (err_text e))))
          (ret (Result (if delay > 0 then delay else RequeueIntervalLong)))
      | Inr delay \<Rightarrow>
          if delay > 0 then ret (Result delay)
          else
            bnd (reads obj) (\<lambda>cert.
            thn (mark_signed E (tls_name cert)) (after_signed E))))))"

section \<open>Renewal\<close>

text \<open>The request: the existing pair, the CSR for its key, the answer of the CA. The result is the
  body, a PEM certificate, and the existing key.\<close>

definition renew_request :: "cert_env \<Rightarrow> CertificateAuthority \<Rightarrow> string \<Rightarrow> Certificate \<Rightarrow> (string \<times> string) cop" where
  "renew_request E ca caBaseURL cert0 =
     (let certname = cs_Certname (c_Spec cert0); tlsSecretName = tls_name cert0 in
     if certname = [] then
       throw (Errorf (''certname is empty, cannot renew certificate '' @ m_Name (c_Meta cert0)))
     else
     bnd (wrapping (''reading existing TLS Secret '' @ tlsSecretName) (getSecret E tlsSecretName))
       (\<lambda>existingSecret.
     let existingCertPEM = sval (s_Data existingSecret) ''cert.pem'';
         existingKeyPEM = sval (s_Data existingSecret) ''key.pem'' in
     if existingCertPEM = [] \<or> existingKeyPEM = [] then
       throw (Errorf (''TLS Secret '' @ tlsSecretName @ '' missing cert.pem or key.pem''))
     else
     (case PemDecode (e_crypto E) existingKeyPEM of
       None \<Rightarrow> throw (Errorf ''invalid PEM in existing key'')
     | Some block \<Rightarrow>
     bnd (wrapping ''parsing existing key''
           (lift (ParsePKCS1PrivateKey (e_crypto E) (pem_Bytes block)))) (\<lambda>privateKey.
     bnd (effectiveDNSAltNames E) (\<lambda>altNames.
     bnd (wrapping (''building CSR for '' @ certname)
           (lift (buildCSR (e_crypto E) certname altNames (cs_CSRExtensions (c_Spec cert0)) privateKey)))
       (\<lambda>csrPEM.
     bnd (wrapping ''loading CA certificate'' (getCAPublicCert (getSecret E) ca)) (\<lambda>caCertPEM.
     bnd (wrapping (''building mTLS client for renewal of '' @ certname)
           (lift (mTLSHTTPClient (e_crypto E) caCertPEM existingCertPEM existingKeyPEM))) (\<lambda>client.
     bnd (do_request E ''building renewal request'' ''submitting renewal request'' client
           \<lparr> req_Method = ''POST'',
             req_URL = caBaseURL @ ''/puppet-ca/v1/certificate_renewal?environment=production'',
             req_Header = [(''Content-Type'', ''text/plain'')], req_Body = csrPEM \<rparr>) (\<lambda>resp.
     if resp_Status resp \<noteq> 200 then
       throw (Errorf (''CA rejected renewal request (HTTP '' @ Itoa (int (resp_Status resp)) @ ''): ''
                @ resp_Body resp))
     else if (case PemDecode (e_crypto E) (resp_Body resp) of
                None \<Rightarrow> True | Some b \<Rightarrow> pem_Type b \<noteq> ''CERTIFICATE'') then
       throw (Errorf ''renewal response is not a valid PEM certificate'')
     else ret (resp_Body resp, existingKeyPEM))))))))))"

text \<open>The commit: the cooldown annotation, then the status, then the Secret.\<close>

definition set_renewed_annotations :: "string \<Rightarrow> Certificate \<Rightarrow> Certificate" where
  "set_renewed_annotations stamp c = c \<lparr> c_Meta := (c_Meta c) \<lparr> m_Annotations :=
     sdel AnnotationExpiryWarned (sput AnnotationLastRenewalTime stamp (m_Annotations (c_Meta c))) \<rparr> \<rparr>"

definition renew_commit :: "cert_env \<Rightarrow> CertificateAuthority \<Rightarrow> string \<Rightarrow> string \<Rightarrow> string \<Rightarrow> unit cop" where
  "renew_commit E ca tlsSecretName body existingKeyPEM =
     bnd (reads (\<lambda>s. e_now E (hist s))) (\<lambda>now.
     thn (mutate_obj (set_renewed_annotations (e_formatTime E now)))
     (thn (wrapping ''setting renewal cooldown annotation'' (send_patch E))
     (bnd (signingSpecHashFor E) (\<lambda>(hash, effective).
     thn (wrapping ''updating Certificate status to Signed''
           (updateStatusWithRetry E (set_signed (e_lib E) ''CertificateRenewed''
              ''Certificate has been renewed'' hash effective tlsSecretName
              (parseCertNotAfter (e_crypto E) body))))
      (wrapping ''updating TLS Secret with renewed cert''
        (createOrUpdateTLSSecret E ca tlsSecretName body existingKeyPEM))))))"

definition renewCertificate :: "cert_env \<Rightarrow> CertificateAuthority \<Rightarrow> string \<Rightarrow> unit cop" where
  "renewCertificate E ca caBaseURL =
     bnd (reads obj) (\<lambda>cert0.
     bnd (renew_request E ca caBaseURL cert0) (\<lambda>(body, existingKeyPEM).
     renew_commit E ca (tls_name cert0) body existingKeyPEM))"

definition reconcileCertRenewal :: "cert_env \<Rightarrow> CertificateAuthority \<Rightarrow> (cst, err, result) op" where
  "reconcileCertRenewal E ca =
     bnd (reads obj) (\<lambda>cert0.
     bnd (outcome (renewCertificate E ca (ca_base_url ca (m_Namespace (c_Meta cert0))))) (\<lambda>r.
     case r of
       Inl e \<Rightarrow>
         thn (logged (updateStatusWithRetry E
                (set_failed (e_lib E) CertRenewing ''RenewalFailed'' (err_text e))))
         (ret (Result RequeueIntervalLong))
     | Inr _ \<Rightarrow>
         bnd (reads obj) (\<lambda>cert.
         thn (event ''Normal'' ''CertificateRenewed'' (''Certificate renewed successfully in Secret ''
                @ m_Namespace (c_Meta cert) @ ''/'' @ m_Name (c_Meta cert) @ ''-tls''))
          (scheduleRenewalCheck E))))"

section \<open>Deletion\<close>

definition handleCertificateCleanup :: "cert_env \<Rightarrow> unit cop" where
  "handleCertificateCleanup E =
     bnd (reads obj) (\<lambda>cert.
     bnd (outcome (getCA E (cs_AuthorityRef (c_Spec cert)))) (\<lambda>r.
     case r of
       Inl e \<Rightarrow> if IsNotFound e then ret ()
                 else throw (wrapf (''getting CertificateAuthority '' @ cs_AuthorityRef (c_Spec cert)
                                    @ '' for cleanup'') e)
     | Inr ca \<Rightarrow>
         if m_DeletionTimestamp (ca_Meta ca) \<noteq> None then ret ()
         else if as_External (ca_Spec ca) \<noteq> None \<or> at_SigningSecretName (ca_Status ca) = [] then ret ()
         else
           thn (wrapping (''cleaning certificate '' @ cs_Certname (c_Spec cert) @ '' via CA API'')
                 (cleanCertViaAPI E ca (ca_base_url ca (m_Namespace (c_Meta cert)))))
             (event ''Normal'' ''CertificateCleaned''
               (''Certificate '' @ cs_Certname (c_Spec cert) @ '' cleaned from Puppet CA''))))"

definition cleanup_attempts :: "Certificate \<Rightarrow> int" where
  "cleanup_attempts cert =
     wrap64 ((case sget (m_Annotations (c_Meta cert)) AnnotationCleanupAttempts of
                None \<Rightarrow> 0 | Some v \<Rightarrow> AtoiValue v) + 1)"

definition remove_finalizer :: "cert_env \<Rightarrow> (cst, err, result) op" where
  "remove_finalizer E =
     bnd (reads obj) (\<lambda>cert.
     thn (mutate_obj (\<lambda>c. c \<lparr> c_Meta := RemoveFinalizer (e_lib E) (c_Meta c) certificateFinalizer \<rparr>))
     (thn (wrapping (''removing finalizer from Certificate '' @ m_Name (c_Meta cert)) (send_patch E))
      (ret (Result 0))))"

definition reconcile_deletion :: "cert_env \<Rightarrow> (cst, err, result) op" where
  "reconcile_deletion E =
     bnd (reads obj) (\<lambda>cert0.
     if \<not> ContainsFinalizer (e_lib E) (c_Meta cert0) certificateFinalizer then ret (Result 0)
     else
     bnd (outcome (handleCertificateCleanup E)) (\<lambda>r.
     bnd (reads obj) (\<lambda>cert.
     let attempts = cleanup_attempts cert in
     if (case r of Inl _ \<Rightarrow> attempts < maxCleanupAttempts | Inr _ \<Rightarrow> False) then
       thn (mutate_obj (\<lambda>c. c \<lparr> c_Meta := (c_Meta c) \<lparr> m_Annotations :=
              sput AnnotationCleanupAttempts (Itoa attempts) (m_Annotations (c_Meta c)) \<rparr> \<rparr>))
       (thn (logged (send_patch E))
        (ret (Result RequeueIntervalLong)))
     else remove_finalizer E)))"

section \<open>Adopting a TLS Secret\<close>

definition adoptTLSSecret :: "cert_env \<Rightarrow> string \<Rightarrow> unit cop" where
  "adoptTLSSecret E secretName =
     bnd (reads obj) (\<lambda>cert.
     bnd (wrapping (''getting Secret '' @ secretName) (getSecret E secretName)) (\<lambda>secret.
     if list_ex (\<lambda>ref. or_UID ref = m_UID (c_Meta cert)) (m_OwnerReferences (s_Meta secret)) then ret ()
     else
       (case SetControllerReference (e_lib E) ''Certificate'' (c_Meta cert) (s_Meta secret) of
          Inl e \<Rightarrow> throw (wrapf (''setting owner reference on Secret '' @ secretName) e)
        | Inr meta \<Rightarrow>
           (let secret' = secret \<lparr> s_Meta := meta \<rparr> in
            call (UpdateSecret secret') (\<lambda>h. e_updateSecret E h secret')))))"

definition adopt_existing :: "cert_env \<Rightarrow> string \<Rightarrow> (cst, err, result) op" where
  "adopt_existing E tlsSecretName =
     thn (wrapping ''adopting TLS Secret'' (adoptTLSSecret E tlsSecretName))
     (thn (mark_signed E tlsSecretName)
     (thn (event ''Normal'' ''CertificateSigned''
            (''Certificate signed and available in Secret '' @ tlsSecretName))
      (after_signed E)))"

section \<open>Reconcile\<close>

definition pause_certificate :: "cert_env \<Rightarrow> (cst, err, bool) op" where
  "pause_certificate E =
     bnd (reads obj) (\<lambda>cert.
     reconcilePauseState (e_lib E) (c_Meta cert) (ct_Conditions (c_Status cert))
       (\<lambda>f. updateStatusWithRetry E
              (with_status (\<lambda>st. st \<lparr> ct_Conditions := f (ct_Conditions st) \<rparr>))))"

text \<open>A Certificate that is in phase Signed: the drift of the spec and the renewal window.\<close>

definition renew_or_schedule :: "cert_env \<Rightarrow> CertificateAuthority \<Rightarrow> (cst, err, result) op" where
  "renew_or_schedule E ca =
     bnd (reads (\<lambda>s. (obj s, e_now E (hist s), e_later E (hist s)))) (\<lambda>(cert, now, later).
     case ct_NotAfter (c_Status cert) of
       None \<Rightarrow> ret (Result RequeueIntervalShort)
     | Some notAfter \<Rightarrow>
        if renewalDue (e_parseTime E) now later cert then
          thn (event ''Normal'' ''CertificateRenewalTriggered''
                (''Certificate renewal triggered, expires '' @ e_formatTime E notAfter))
            (reconcileCertRenewal E ca)
        else scheduleRenewalCheck E)"

definition reconcile_signed :: "cert_env \<Rightarrow> CertificateAuthority \<Rightarrow> (cst, err, result) op" where
  "reconcile_signed E ca =
     bnd (signingSpecHashFor E) (\<lambda>(wantHash, effective).
     bnd (reads obj) (\<lambda>cert.
     if ct_SignedSpecHash (c_Status cert) = [] then
       thn (wrapping (''recording signed spec hash for Certificate '' @ m_Name (c_Meta cert))
             (updateStatusWithRetry E (with_status (\<lambda>st.
                st \<lparr> ct_SignedSpecHash := wantHash, ct_EffectiveDNSAltNames := effective \<rparr>))))
         (renew_or_schedule E ca)
     else if ct_SignedSpecHash (c_Status cert) \<noteq> wantHash then reconcileCertSigning E ca
     else renew_or_schedule E ca))"

definition reconcile_with_ca :: "cert_env \<Rightarrow> CertificateAuthority \<Rightarrow> (cst, err, result) op" where
  "reconcile_with_ca E ca =
     (if \<not> IsStatusConditionTrue (e_lib E) (at_Conditions (ca_Status ca)) ConditionCAReady then
        thn (logged (updateStatusWithRetry E (set_phase CertPending)))
          (ret (Result RequeueIntervalMedium))
      else
        bnd (reads obj) (\<lambda>cert.
        if ct_Phase (c_Status cert) = CertSignedPhase then reconcile_signed E ca
        else
          bnd (isSecretReady (getSecret E) (tls_name cert) ''cert.pem'') (\<lambda>ready.
          if ready then adopt_existing E (tls_name cert) else reconcileCertSigning E ca)))"

definition add_finalizer :: "cert_env \<Rightarrow> (cst, err, unit) op" where
  "add_finalizer E =
     bnd (reads obj) (\<lambda>cert.
     if \<not> ContainsFinalizer (e_lib E) (c_Meta cert) certificateFinalizer then
       thn (mutate_obj (\<lambda>c. c \<lparr> c_Meta := AddFinalizer (e_lib E) (c_Meta c) certificateFinalizer \<rparr>))
         (wrapping (''adding finalizer to Certificate '' @ m_Name (c_Meta cert)) (send_patch E))
     else ret ())"

definition initial_phase :: "cert_env \<Rightarrow> (cst, err, unit) op" where
  "initial_phase E =
     bnd (reads obj) (\<lambda>cert.
     if ct_Phase (c_Status cert) = CertNoPhase then
       wrapping (''setting initial phase for Certificate '' @ m_Name (c_Meta cert))
         (updateStatusWithRetry E (set_phase CertPending))
     else ret ())"

definition resolve_ca :: "cert_env \<Rightarrow> (cst, err, result) op" where
  "resolve_ca E =
     bnd (reads obj) (\<lambda>cert.
     bnd (outcome (getCA E (cs_AuthorityRef (c_Spec cert)))) (\<lambda>r.
     case r of
       Inl e \<Rightarrow> if IsNotFound e then ret (Result 0)
                 else throw (wrapf (''getting CertificateAuthority '' @ cs_AuthorityRef (c_Spec cert)) e)
     | Inr ca \<Rightarrow> reconcile_with_ca E ca))"

definition reconcile_live :: "cert_env \<Rightarrow> (cst, err, result) op" where
  "reconcile_live E =
     thn (add_finalizer E)
     (bnd (pause_certificate E) (\<lambda>paused.
      if paused then ret (Result 0)
      else thn (initial_phase E) (resolve_ca E)))"

text \<open>The reconcile of one request; the state begins with an empty object under its key.\<close>

definition Reconcile_certificate :: "cert_env \<Rightarrow> (cst, err, result) op" where
  "Reconcile_certificate E =
     bnd (outcome (refetch E)) (\<lambda>r.
     case r of
       Inl e \<Rightarrow> if IsNotFound e then ret (Result 0) else throw (wrapf ''getting Certificate'' e)
     | Inr _ \<Rightarrow>
        bnd (reads obj) (\<lambda>cert.
        if m_DeletionTimestamp (c_Meta cert) \<noteq> None then reconcile_deletion E
        else reconcile_live E))"

definition start :: "string \<Rightarrow> string \<Rightarrow> cst" where
  "start name namespace = \<lparr> hist = [], obj = blank_cert name namespace \<rparr>"

end
