(* ===== verification/CertProps.thy ===== *)
theory CertProps
  imports CertReconcile
begin

text \<open>
  The properties of the Certificate controller. The locale \<open>passive_calls\<close> is the contract of a
  class of calls that contains every read, status update and event; its lemmas say which
  operations stay inside such a class. It is interpreted for the calls that do not talk to the
  CA, for those that write no Secret, and for those that do neither.
\<close>

section \<open>Calls and outcomes\<close>

lemma only_event: "P (Event k r n) \<Longrightarrow> only hist P (event k r n)"
  unfolding event_def by (rule only_call)

lemma only_getSecret: "P (GetSecret n) \<Longrightarrow> only hist P (getSecret E n)"
  unfolding getSecret_def by (rule only_call)

lemma only_getCA: "P (GetCA n) \<Longrightarrow> only hist P (getCA E n)"
  unfolding getCA_def by (rule only_call)

lemma only_refetch: "(\<And>n. P (GetCertificate n)) \<Longrightarrow> only hist P (refetch E)"
  by (rule onlyI) (auto simp: refetch_def call_def Let_def split: sum.splits)

lemma only_send_status: "(\<And>c. P (StatusUpdate c)) \<Longrightarrow> only hist P (send_status E)"
  by (rule onlyI) (auto simp: send_status_def call_def)

lemma only_send_patch: "(\<And>c. P (PatchCertificate c)) \<Longrightarrow> only hist P (send_patch E)"
  by (rule onlyI) (auto simp: send_patch_def call_def)

lemma only_do_request:
  "P (NewRequest req) \<Longrightarrow> P (Http client req) \<Longrightarrow> only hist P (do_request E b d client req)"
  unfolding do_request_def by (intro only_rules only_call)

lemmas base_only = only_event only_getSecret only_getCA only_refetch only_mutate only_send_status
  only_send_patch only_call only_do_request

locale passive_calls =
  fixes P :: "cert_call \<Rightarrow> bool"
  assumes gets: "P (GetCertificate n)" "P (GetCA n)" "P (GetSecret n)"
    and lists: "P ListServers" "P ListPools" "P ListCertificates"
    and status: "P (StatusUpdate c)"
    and events: "P (Event k r m)"
begin

lemmas allowed = gets lists status events

lemma status_only: "only hist P (updateStatusWithRetry E f)"
  unfolding updateStatusWithRetry_def by (intro only_rules base_only allowed)

lemma names_only: "only hist P (effectiveDNSAltNames E)"
  unfolding effectiveDNSAltNames_def by (intro only_rules base_only allowed)

lemma hash_only: "only hist P (signingSpecHashFor E)"
  unfolding signingSpecHashFor_def by (intro only_rules names_only)

lemma mark_only: "only hist P (mark_signed E n)"
  unfolding mark_signed_def extractNotAfter_def
  by (intro only_rules base_only allowed status_only hash_only)

lemma conflict_only: "only hist P (reportCertnameConflict E other)"
  unfolding reportCertnameConflict_def by (intro only_rules base_only allowed status_only)

lemma lookup_only: "only hist P (otherCertificateUsingCertname E)"
  unfolding otherCertificateUsingCertname_def by (intro only_rules base_only allowed)

lemma pause_only: "only hist P (pause_certificate E)"
  unfolding pause_certificate_def by (intro only_rules status_only)

lemma ready_only: "only hist P (isSecretReady (getSecret E) n k)"
  by (intro only_rules base_only allowed)

lemma schedule_only:
  assumes "\<And>c. P (PatchCertificate c)"
  shows "only hist P (scheduleRenewalCheck E)"
proof -
  have "only hist P (emitExpiryWarnings E t)" for t
    unfolding emitExpiryWarnings_def by (intro only_rules base_only allowed assms)
  then show ?thesis
    unfolding scheduleRenewalCheck_def
    by (intro only_rules) (auto split: schedule.split intro!: only_rules base_only allowed)
qed

end

definition talks_to_CA :: "cert_call \<Rightarrow> bool" where
  "talks_to_CA c = (case c of Http _ _ \<Rightarrow> True | NewRequest _ \<Rightarrow> True | _ \<Rightarrow> False)"

definition writes_secret :: "cert_call \<Rightarrow> bool" where
  "writes_secret c = (case c of WriteSecret _ \<Rightarrow> True | CreateSecret _ \<Rightarrow> True
     | UpdateSecret _ \<Rightarrow> True | DeleteSecret _ \<Rightarrow> True | _ \<Rightarrow> False)"

text \<open>Calls that neither reach the CA nor change a Secret nor patch the Certificate.\<close>

definition observes :: "cert_call \<Rightarrow> bool" where
  "observes c = (\<not> talks_to_CA c \<and> \<not> writes_secret c \<and> c \<noteq> GenerateKey \<and>
     (case c of PatchCertificate _ \<Rightarrow> False | _ \<Rightarrow> True))"

interpretation offline: passive_calls "\<lambda>c. \<not> talks_to_CA c"
  by unfold_locales (auto simp: talks_to_CA_def)

interpretation no_secrets: passive_calls "\<lambda>c. \<not> writes_secret c"
  by unfold_locales (auto simp: writes_secret_def)

interpretation observing: passive_calls observes
  by unfold_locales (auto simp: observes_def talks_to_CA_def writes_secret_def)

section \<open>The stored pair\<close>

text \<open>A Secret written through CreateOrUpdate holds a certificate issued for the key beside it.\<close>

definition verified_write :: "crypto \<Rightarrow> cert_call \<Rightarrow> bool" where
  "verified_write C c =
     (case c of
        WriteSecret secret \<Rightarrow>
          (case (sget (s_Data secret) ''cert.pem'', sget (s_Data secret) ''key.pem'') of
             (Some certPEM, Some keyPEM) \<Rightarrow> certMatchesKey C certPEM keyPEM = Inr True
           | _ \<Rightarrow> False)
      | _ \<Rightarrow> True)"

interpretation verifying: passive_calls "verified_write C"
  by unfold_locales (simp_all add: verified_write_def)

lemma verified_other:
  "verified_write C (Http cl r)" "verified_write C (NewRequest r)" "verified_write C GenerateKey"
  "verified_write C (CreateSecret x)" "verified_write C (UpdateSecret x)"
  "verified_write C (DeleteSecret n)" "verified_write C (PatchCertificate c)"
  by (simp_all add: verified_write_def)

lemmas verified_calls = verifying.allowed verified_other

lemma tls_write_verified:
  assumes "certMatchesKey C certPEM keyPEM = Inr True"
  shows "only hist (verified_write C) (createOrUpdateTLSSecret E ca name certPEM keyPEM)"
proof -
  have "verified_write C (WriteSecret secret')"
    if "secret_mutation L owner kind labels [(''cert.pem'', certPEM), (''key.pem'', keyPEM)] [] secret
        = Inr secret'" for L owner kind labels secret secret'
    using secret_mutation_data [OF that, of "''cert.pem''"] secret_mutation_data [OF that, of "''key.pem''"]
      assms by (simp add: verified_write_def)
  then show ?thesis
    unfolding createOrUpdateTLSSecret_def createOrUpdateSecret_def create_or_update_def
    by (intro only_rules base_only verified_calls) blast+
qed

lemma getCAPublicCert_only:
  "(\<And>n. P (GetSecret n)) \<Longrightarrow> only hist P (getCAPublicCert (getSecret E) ca)"
  unfolding getCAPublicCert_def by (intro only_rules base_only)

lemma client_only: "(\<And>n. P (GetSecret n)) \<Longrightarrow> only hist P (caHTTPClientForCA (e_crypto E) (getSecret E) ca)"
  unfolding caHTTPClientForCA_def buildExternalCAHTTPClient_def
  by (intro only_rules base_only getCAPublicCert_only)

lemma signing_client_only: "(\<And>n. P (GetSecret n)) \<Longrightarrow> only hist P (signing_client E ca b)"
  unfolding signing_client_def by (intro only_rules base_only getCAPublicCert_only)

lemma verified_submit: "only hist (verified_write C) (submitCSR E ca url)"
  unfolding submitCSR_def ensurePendingKey_def
  by (intro only_rules base_only verified_calls client_only verifying.names_only)

lemma verified_fetch: "only hist (verified_write C) (fetchSignedCert E ca url)"
  unfolding fetchSignedCert_def by (intro only_rules base_only verified_calls client_only)

lemma verified_sign_api: "only hist (verified_write C) (signCSRViaAPI E ca url)"
  unfolding signCSRViaAPI_def by (intro only_rules base_only verified_calls signing_client_only)

lemma verified_store: "only hist (verified_write (e_crypto E)) (store_signed E ca pem)"
  unfolding store_signed_def
  by (intro only_rules base_only verified_calls verifying.status_only tls_write_verified) simp

lemma verified_poll: "only hist (verified_write C) (poll_again E)"
  unfolding poll_again_def
  by (intro only_rules base_only verified_calls verifying.status_only)

lemma verified_sign: "only hist (verified_write (e_crypto E)) (signCertificate E ca url)"
  unfolding signCertificate_def fetch_or_sign_def
  by (intro only_rules verified_submit verified_fetch verified_sign_api verified_store verified_poll)

lemma verified_schedule: "only hist (verified_write C) (scheduleRenewalCheck E)"
  by (rule verifying.schedule_only) (rule verified_calls)

lemma verified_reconcile: "only hist (verified_write (e_crypto E)) (reconcileCertSigning E ca)"
  unfolding reconcileCertSigning_def after_signed_def
  by (intro only_rules verified_sign verified_schedule verifying.status_only verifying.lookup_only
      verifying.conflict_only verifying.mark_only)

text \<open>C7: whatever the CA answers and whichever calls fail, a signing reconcile never stores a
  foreign certificate: every TLS Secret it writes holds a certificate whose public key is that
  of the private key stored beside it.\<close>

theorem signing_stores_matching_pair:
  "\<exists>calls. hist (snd (reconcileCertSigning E ca s)) = hist s @ calls \<and>
     list_all (verified_write (e_crypto E)) calls"
  using verified_reconcile unfolding only_def by blast

section \<open>The object in memory\<close>

lemma keeps_obj_reads:
  "keeps (\<lambda>s. Q (obj s)) (getSecret E n)" "keeps (\<lambda>s. Q (obj s)) (getCA E n)"
  "keeps (\<lambda>s. Q (obj s)) (event k r m)"
  "keeps (\<lambda>s. Q (obj s)) (do_request E b d client req)"
  unfolding getSecret_def getCA_def event_def do_request_def
  by (intro keeps_rules keeps_obj_call)+

lemma keeps_obj_names: "keeps (\<lambda>s. Q (obj s)) (effectiveDNSAltNames E)"
  unfolding effectiveDNSAltNames_def by (intro keeps_rules keeps_obj_call)

lemma keeps_obj_hash: "keeps (\<lambda>s. Q (obj s)) (signingSpecHashFor E)"
  unfolding signingSpecHashFor_def by (intro keeps_rules keeps_obj_names)

text \<open>The key of the object never changes.\<close>

definition same_key :: "Certificate \<Rightarrow> Certificate \<Rightarrow> bool" where
  "same_key c d = (m_Name (c_Meta c) = m_Name (c_Meta d) \<and> m_Namespace (c_Meta c) = m_Namespace (c_Meta d))"

lemma set_signed_same_key [simp]: "same_key (set_signed L r m h e n na c) d = same_key c d"
  by (simp add: same_key_def set_signed_def set_cond_def with_status_def)

lemma refetch_same_key: "keeps (\<lambda>s. same_key (obj s) d) (refetch E)"
  by (auto simp: keeps_def refetch_def call_def same_key_def Let_def split: sum.splits)

lemma attempt_same_key:
  assumes "\<And>c. same_key (f c) d = same_key c d"
  shows "keeps (\<lambda>s. same_key (obj s) d) (thn (refetch E) (thn (mutate_obj f) (send_status E)))"
proof -
  have "keeps (\<lambda>s. same_key (obj s) d) (mutate_obj f)"
    unfolding mutate_obj_def by (rule keeps_modify) (simp add: assms)
  moreover have "keeps (\<lambda>s. same_key (obj s) d) (send_status E)"
    by (simp add: keeps_def send_status_def call_def)
  ultimately show ?thesis by (intro keeps_rules refetch_same_key)
qed

definition status_call :: "cert_call \<Rightarrow> bool" where
  "status_call c = (case c of GetCertificate _ \<Rightarrow> True | ListServers \<Rightarrow> True | ListPools \<Rightarrow> True
     | StatusUpdate _ \<Rightarrow> True | GetSecret _ \<Rightarrow> True | _ \<Rightarrow> False)"

lemma attempt_calls: "only hist status_call (thn (refetch E) (thn (mutate_obj f) (send_status E)))"
  by (intro only_rules base_only) (simp_all add: status_call_def)

lemma status_update_calls: "only hist status_call (updateStatusWithRetry E f)"
  unfolding updateStatusWithRetry_def by (intro only_rules attempt_calls)

text \<open>A status update that succeeds ends with a status call carrying the changed object.\<close>

lemma status_update_ok:
  assumes "updateStatusWithRetry E f s = (Inr u, s')" and "\<And>c d. same_key (f c) d = same_key c d"
  shows "\<exists>c cs. obj s' = f c \<and> same_key c (obj s) \<and> list_all status_call cs \<and>
    hist s' = hist s @ cs @ [StatusUpdate (f c)]"
proof -
  let ?m = "thn (refetch E) (thn (mutate_obj f) (send_status E))"
  let ?I = "\<lambda>t. same_key (obj t) (obj s) \<and> (\<exists>cs. hist t = hist s @ cs \<and> list_all status_call cs)"
  have "keeps ?I ?m"
    by (intro keeps_conj only_keeps attempt_same_key attempt_calls assms(2))
  moreover have "?I s" by (simp add: same_key_def)
  ultimately obtain s1 cs where s1: "same_key (obj s1) (obj s)" "hist s1 = hist s @ cs"
      "list_all status_call cs" "?m s1 = (Inr u, s')"
    using retry_InrE [OF assms(1) [unfolded updateStatusWithRetry_def]] by blast
  from s1(4) obtain s2 s3 u1 u2 where s2: "refetch E s1 = (Inr u1, s2)"
    "(mutate_obj f :: unit cop) s2 = (Inr u2, s3)" "send_status E s3 = (Inr u, s')"
    by (elim thn_InrE) blast
  have "same_key (obj s2) (obj s)" using keepsD [OF refetch_same_key s1(1) s2(1)] .
  moreover have "hist s2 = hist s1 @ [GetCertificate (m_Name (c_Meta (obj s1)))]"
    using s2(1) by (auto simp: refetch_def call_def Let_def split: sum.splits)
  moreover have "obj s3 = f (obj s2)" "hist s3 = hist s2"
    using s2(2) by (auto simp: mutate_obj_def modify_def)
  moreover have "obj s' = obj s3" "hist s' = hist s3 @ [StatusUpdate (obj s3)]"
    using s2(3) by (auto simp: send_status_def call_def)
  ultimately show ?thesis using s1(2,3)
    by (intro exI [of _ "obj s2"] exI [of _ "cs @ [GetCertificate (m_Name (c_Meta (obj s1)))]"])
      (simp add: status_call_def)
qed

section \<open>Renewal\<close>

text \<open>Everything a renewal does before it has a valid answer of the CA leaves the cluster alone.\<close>

definition request_call :: "cert_call \<Rightarrow> bool" where
  "request_call c = (case c of
     PatchCertificate _ \<Rightarrow> False | StatusUpdate _ \<Rightarrow> False | Event _ _ _ \<Rightarrow> False
   | _ \<Rightarrow> \<not> writes_secret c)"

lemma names_calls: "P ListServers \<Longrightarrow> P ListPools \<Longrightarrow> only hist P (effectiveDNSAltNames E)"
  unfolding effectiveDNSAltNames_def by (intro only_rules base_only)

lemma hash_calls: "P ListServers \<Longrightarrow> P ListPools \<Longrightarrow> only hist P (signingSpecHashFor E)"
  unfolding signingSpecHashFor_def by (intro only_rules names_calls)

lemma request_only: "only hist request_call (renew_request E ca url cert)"
  unfolding renew_request_def
  by (intro only_rules base_only names_calls getCAPublicCert_only)
    (simp_all add: request_call_def writes_secret_def)

lemma request_result:
  assumes "renew_request E ca url cert s = (Inr (body, key), s')"
  shows "\<exists>secret asked client req resp. e_getSecret E (hist s) (tls_name cert) = Inr secret \<and>
    sget (s_Data secret) ''key.pem'' = Some key \<and> hist s' = hist s @ asked @ [Http client req] \<and>
    e_http E (hist s @ asked) client req = Inr resp \<and> resp_Status resp = 200 \<and> body = resp_Body resp"
proof -
  obtain secret s1 names s2 pem s3 client req resp where
    g: "getSecret E (tls_name cert) s = (Inr secret, s1)"
      "key = sval (s_Data secret) ''key.pem''" "key \<noteq> []" and
    n: "effectiveDNSAltNames E s1 = (Inr names, s2)" and
    p: "getCAPublicCert (getSecret E) ca s2 = (Inr pem, s3)" and
    d: "do_request E ''building renewal request'' ''submitting renewal request'' client req s3 = (Inr resp, s')"
      "resp_Status resp = 200" "body = resp_Body resp"
    using assms unfolding renew_request_def Let_def
    by - (simp add: throw_def split: if_splits, elim bnd_InrE,
        simp add: throw_def split: if_splits option.splits, elim bnd_InrE,
        simp add: throw_def ret_def split: if_splits,
        (drule wrapping_InrE lift_InrE)+, elim conjE, blast)
  obtain cs where cs: "hist s2 = hist s1 @ cs"
    using onlyD [OF names_calls n, of "\<lambda>_. True"] by blast
  obtain ds where ds: "hist s3 = hist s2 @ ds"
    using onlyD [OF getCAPublicCert_only p, of "\<lambda>_. True"] by blast
  have e: "e_getSecret E (hist s) (tls_name cert) = Inr found \<Longrightarrow> s_Data secret = s_Data found" for found
    using g(1) by (auto simp: getSecret_def call_def)
  have "\<exists>found. e_getSecret E (hist s) (tls_name cert) = Inr found \<and> hist s1 = hist s @ [GetSecret (tls_name cert)]"
    using g(1) by (auto simp: getSecret_def call_def split: sum.splits)
  moreover have "hist s' = hist s3 @ [NewRequest req] @ [Http client req]"
    "e_http E (hist s3 @ [NewRequest req]) client req = Inr resp"
    using d(1) unfolding do_request_def
    by (auto simp: call_def elim!: thn_InrE dest!: wrapping_InrE)
  ultimately show ?thesis
    using cs ds g(2,3) d(2,3) e
    by (intro exI [of _ "sum.projr (e_getSecret E (hist s) (tls_name cert))"]
        exI [of _ "GetSecret (tls_name cert) # cs @ ds @ [NewRequest req]"] exI [of _ client] exI [of _ req] exI [of _ resp])
      (auto simp: sval_def split: option.splits)
qed

text \<open>A successful commit: one patch, then lists, gets and status updates, then the Secret.\<close>

lemma create_or_update_ok:
  assumes "create_or_update get blank mutate put put s = (Inr res, s')"
  shows "\<exists>r s1 new. get s = (r, s1) \<and> mutate (case r of Inl _ \<Rightarrow> blank | Inr found \<Rightarrow> found) = Inr new \<and>
    (put new s1 = (Inr (), s') \<or> (s' = s1 \<and> r = Inr new))"
proof -
  obtain r s1 where get: "get s = (r, s1)"
    and rest: "(case r of Inl e \<Rightarrow>
         if IsNotFound e then (case mutate blank of Inl e' \<Rightarrow> throw e' | Inr new \<Rightarrow> thn (put new) (ret Created))
         else throw e
       | Inr found \<Rightarrow> (case mutate found of Inl e' \<Rightarrow> throw e'
         | Inr new \<Rightarrow> if new = found then ret NoChange else thn (put new) (ret Updated))) s1 = (Inr res, s')"
    using assms unfolding create_or_update_def by (elim bnd_InrE) (blast dest: outcome_InrE)
  have w: "\<exists>u. put new s1 = (Inr u, s')" if "thn (put new) (ret x) s1 = (Inr res, s')" for new x
    using that by (elim thn_InrE) (auto dest!: ret_InrE)
  show ?thesis
  proof (cases r)
    case (Inl e)
    then have "\<exists>new. mutate blank = Inr new \<and> put new s1 = (Inr (), s')"
      using rest w by (auto split: if_splits sum.splits dest!: throw_InrE)
    then show ?thesis using get Inl by auto
  next
    case (Inr found)
    then have "\<exists>new. mutate found = Inr new \<and> (put new s1 = (Inr (), s') \<or> (s' = s1 \<and> r = Inr new))"
      using rest w by (auto split: if_splits sum.splits dest!: throw_InrE ret_InrE)
    then show ?thesis using get Inr by auto
  qed
qed

lemma secret_mutation_name:
  assumes "kube_laws L" and "secret_mutation L owner kind labels data keys secret = Inr secret'"
  shows "m_Name (s_Meta secret') = m_Name (s_Meta secret)"
  using assms(2) kube_laws.set_controller [OF assms(1)]
  by (fastforce simp: secret_mutation_def split: option.splits sum.splits)

text \<open>A Secret is stored: it is written, or the one just read already holds its data.\<close>

definition stores :: "cert_env \<Rightarrow> hist \<Rightarrow> string \<Rightarrow> Secret \<Rightarrow> hist \<Rightarrow> bool" where
  "stores E h name secret written = (written = [WriteSecret secret] \<or>
     (written = [] \<and> (\<exists>found. e_getSecret E h name = Inr found \<and> s_Data found = s_Data secret)))"

lemma tls_write_ok:
  assumes "createOrUpdateTLSSecret E ca name certPEM keyPEM s = (Inr u, s')"
  shows "\<exists>secret written. hist s' = hist s @ GetSecret name # written \<and> stores E (hist s) name secret written \<and>
    sget (s_Data secret) ''cert.pem'' = Some certPEM \<and> sget (s_Data secret) ''key.pem'' = Some keyPEM \<and>
    (kube_laws (e_lib E) \<longrightarrow> m_Name (s_Meta secret) = name)"
proof -
  let ?put = "\<lambda>secret. call (WriteSecret secret) (\<lambda>h. e_writeSecret E h secret) :: unit cop"
  define labels where "labels = sput ''openvox.voxpupuli.org/certificate'' (m_Name (c_Meta (obj s)))
    (caLabels (m_Name (ca_Meta ca)))"
  define blank where "blank = \<lparr> s_Meta = new_meta name (m_Namespace (c_Meta (obj s))), s_Data = [] \<rparr>"
  define change where "change = secret_mutation (e_lib E) (c_Meta (obj s)) ''Certificate'' labels
    [(''cert.pem'', certPEM), (''key.pem'', keyPEM)] []"
  have "thn (wrapping (''reconciling Secret '' @ name)
      (create_or_update (getSecret E name) blank change ?put ?put)) (ret ()) s = (Inr u, s')"
    using assms unfolding createOrUpdateTLSSecret_def createOrUpdateSecret_def change_def labels_def blank_def
    by (simp add: bnd_def reads_def)
  then obtain res where "create_or_update (getSecret E name) blank change ?put ?put s = (Inr res, s')"
    by (elim thn_InrE) (auto dest!: wrapping_InrE ret_InrE)
  from create_or_update_ok [OF this]
  obtain r s1 new where get: "getSecret E name s = (r, s1)"
    and m: "change (case r of Inl _ \<Rightarrow> blank | Inr found \<Rightarrow> found) = Inr new" and w: "?put new s1 = (Inr (), s') \<or> (s' = s1 \<and> r = Inr new)"
    by blast
  have "m_Name (s_Meta (case r of Inl _ \<Rightarrow> blank | Inr found \<Rightarrow> found)) = name"
    using get by (auto simp: getSecret_def call_def blank_def new_meta_def split: sum.splits)
  then have named: "kube_laws (e_lib E) \<longrightarrow> m_Name (s_Meta new) = name"
    using secret_mutation_name m [unfolded change_def] by fastforce
  have h1: "hist s1 = hist s @ [GetSecret name]" using get by (auto simp: getSecret_def call_def)
  have "\<exists>written. hist s' = hist s @ GetSecret name # written \<and> stores E (hist s) name new written"
    using w
  proof
    assume "?put new s1 = (Inr (), s')"
    then show ?thesis using h1 by (auto simp: call_def stores_def)
  next
    assume "s' = s1 \<and> r = Inr new"
    then show ?thesis using h1 get by (auto simp: stores_def getSecret_def call_def split: sum.splits)
  qed
  then show ?thesis
    using secret_mutation_data [OF m [unfolded change_def], of "''cert.pem''"]
      secret_mutation_data [OF m [unfolded change_def], of "''key.pem''"] named
    by auto
qed

lemma commit_order:
  assumes "renew_commit E ca name body key s = (Inr u, s')"
  shows "\<exists>patched calls status secret h written. hist s' = h @ GetSecret name # written \<and>
    h = hist s @ PatchCertificate patched # calls @ [StatusUpdate status] \<and> stores E h name secret written \<and>
    patched = set_renewed_annotations (e_formatTime E (e_now E (hist s))) (obj s) \<and>
    list_all status_call calls \<and> ct_Phase (c_Status status) = CertSignedPhase \<and>
    ct_NotAfter (c_Status status) = parseCertNotAfter (e_crypto E) body \<and>
    sget (s_Data secret) ''cert.pem'' = Some body \<and> sget (s_Data secret) ''key.pem'' = Some key"
proof -
  define stamp where "stamp = e_formatTime E (e_now E (hist s))"
  define signed where "signed h ns = set_signed (e_lib E) ''CertificateRenewed''
    ''Certificate has been renewed'' h ns name (parseCertNotAfter (e_crypto E) body)" for h ns
  obtain s1 s2 s3 s4 h ns u1 u2 u3 where
    m: "(mutate_obj (set_renewed_annotations stamp) :: unit cop) s = (Inr u1, s1)" and
    p: "send_patch E s1 = (Inr u2, s2)" and
    hs: "signingSpecHashFor E s2 = (Inr (h, ns), s3)" and
    st: "updateStatusWithRetry E (signed h ns) s3 = (Inr u3, s4)" and
    w: "createOrUpdateTLSSecret E ca name body key s4 = (Inr u, s')"
    using assms unfolding renew_commit_def stamp_def signed_def
    by (auto elim!: bnd_InrE thn_InrE dest!: wrapping_InrE reads_InrE)
  have o1: "obj s1 = set_renewed_annotations stamp (obj s)" "hist s1 = hist s"
    using m by (auto simp: mutate_obj_def modify_def)
  have h2: "hist s2 = hist s @ [PatchCertificate (obj s1)]"
    using p o1 by (auto simp: send_patch_def call_def)
  obtain cs where cs: "hist s3 = hist s2 @ cs" "list_all status_call cs"
    using onlyD [OF hash_calls hs, of status_call] by (auto simp: status_call_def)
  obtain c ds where ds: "list_all status_call ds" "hist s4 = hist s3 @ ds @ [StatusUpdate (signed h ns c)]"
    using status_update_ok [OF st] by (auto simp: signed_def)
  obtain secret written where secret: "hist s' = hist s4 @ GetSecret name # written"
    "stores E (hist s4) name secret written"
    "sget (s_Data secret) ''cert.pem'' = Some body" "sget (s_Data secret) ''key.pem'' = Some key"
    using tls_write_ok [OF w] by blast
  have "ct_Phase (c_Status (signed h ns c)) = CertSignedPhase"
    "ct_NotAfter (c_Status (signed h ns c)) = parseCertNotAfter (e_crypto E) body"
    by (simp_all add: signed_def set_signed_def set_cond_def with_status_def)
  then show ?thesis
    using h2 cs ds secret o1
    by (intro exI [of _ "obj s1"] exI [of _ "cs @ ds"] exI [of _ "signed h ns c"] exI [of _ secret]
        exI [of _ "hist s4"] exI [of _ written]) (simp add: stamp_def)
qed

text \<open>C22: a renewal that succeeds keeps the private key: the Secret it stores pairs the
  certificate of the answer of the CA (the last call of the request, with status 200) with the
  key it read from the existing TLS Secret. It writes in the order that rules out a second
  renewal racing the first: the cooldown annotation (with the expiry record dropped), then the
  status Signed with the expiry of the new certificate, then the Secret (CreateOrUpdate skips
  the write only when the Secret it then reads already holds exactly that pair); before the
  annotation nothing in the cluster was changed.\<close>

theorem renewal_order:
  assumes "renewCertificate E ca url s = (Inr u, s')"
  shows "\<exists>asked client req resp request patched calls status secret old h written.
    request = asked @ [Http client req] \<and>
    e_http E (hist s @ asked) client req = Inr resp \<and> resp_Status resp = 200 \<and>
    h = hist s @ request @ PatchCertificate patched # calls @ [StatusUpdate status] \<and>
    hist s' = h @ GetSecret (tls_name (obj s)) # written \<and>
    (written = [WriteSecret secret] \<or> (written = [] \<and>
       (\<exists>found. e_getSecret E h (tls_name (obj s)) = Inr found \<and> s_Data found = s_Data secret))) \<and>
    list_all request_call request \<and> list_all status_call calls \<and>
    sget (m_Annotations (c_Meta patched)) AnnotationLastRenewalTime =
      Some (e_formatTime E (e_now E (hist s @ request))) \<and>
    sget (m_Annotations (c_Meta patched)) AnnotationExpiryWarned = None \<and>
    ct_Phase (c_Status status) = CertSignedPhase \<and>
    ct_NotAfter (c_Status status) = parseCertNotAfter (e_crypto E) (resp_Body resp) \<and>
    e_getSecret E (hist s) (tls_name (obj s)) = Inr old \<and>
    sget (s_Data secret) ''cert.pem'' = Some (resp_Body resp) \<and>
    sget (s_Data secret) ''key.pem'' = sget (s_Data old) ''key.pem'' \<and>
    sget (s_Data old) ''key.pem'' \<noteq> None"
proof -
  obtain body key s1 where r: "renew_request E ca url (obj s) s = (Inr (body, key), s1)"
    and c: "renew_commit E ca (tls_name (obj s)) body key s1 = (Inr u, s')"
    using assms unfolding renewCertificate_def
    by (auto elim!: bnd_InrE dest!: reads_InrE split: prod.splits)
  obtain request where req: "hist s1 = hist s @ request" "list_all request_call request"
    using onlyD [OF request_only r] by blast
  obtain old asked client rq resp where
    old: "e_getSecret E (hist s) (tls_name (obj s)) = Inr old" "sget (s_Data old) ''key.pem'' = Some key" and
    answer: "hist s1 = hist s @ asked @ [Http client rq]" "e_http E (hist s @ asked) client rq = Inr resp"
      "resp_Status resp = 200" "body = resp_Body resp"
    using request_result [OF r] by blast
  have split: "request = asked @ [Http client rq]" using req(1) answer(1) by simp
  have ann: "AnnotationLastRenewalTime \<noteq> AnnotationExpiryWarned"
    by (simp add: AnnotationLastRenewalTime_def AnnotationExpiryWarned_def)
  obtain patched calls status secret h written where fin:
    "hist s' = h @ GetSecret (tls_name (obj s)) # written"
    "h = hist s1 @ PatchCertificate patched # calls @ [StatusUpdate status]"
    "stores E h (tls_name (obj s)) secret written"
    "patched = set_renewed_annotations (e_formatTime E (e_now E (hist s1))) (obj s1)"
    "list_all status_call calls" "ct_Phase (c_Status status) = CertSignedPhase"
    "ct_NotAfter (c_Status status) = parseCertNotAfter (e_crypto E) body"
    "sget (s_Data secret) ''cert.pem'' = Some body" "sget (s_Data secret) ''key.pem'' = Some key"
    using commit_order [OF c] by blast
  show ?thesis
    by (rule exI [of _ asked], rule exI [of _ client], rule exI [of _ rq], rule exI [of _ resp],
        rule exI [of _ request], rule exI [of _ patched], rule exI [of _ calls], rule exI [of _ status],
        rule exI [of _ secret], rule exI [of _ old], rule exI [of _ h], rule exI [of _ written])
      (use fin req(2) old answer(2-4) split ann in \<open>simp add: set_renewed_annotations_def stores_def req(1)\<close>)
qed

section \<open>A concrete environment\<close>

definition demo_crypto :: crypto where
  "demo_crypto = \<lparr> PemDecode = (\<lambda>s. Some (Pem ''CERTIFICATE'' s)), PemEncode = pem_Bytes,
     ParseCertificate = (\<lambda>s. Inr \<lparr> xc_PublicKey = RSAPublic s, xc_NotAfter = seconds 9000000 \<rparr>),
     ParsePKCS1PrivateKey = Inr, ParsePKCS8PrivateKey = (\<lambda>s. Inr (RSAPrivate s)),
     PublicKeyOf = (\<lambda>s. s), X509KeyPair = (\<lambda>_ _. None), AppendCertsFromPEM = (\<lambda>_. True),
     MarshalString = Inr, CreateCertificateRequest = (\<lambda>t k. Inr k) \<rparr>"

definition demo_spec :: "Certificate \<Rightarrow> Certificate" where
  "demo_spec c = c \<lparr> c_Spec := (c_Spec c) \<lparr> cs_Certname := ''web'', cs_AuthorityRef := ''ca'' \<rparr> \<rparr>"

definition demo_cert :: Certificate where
  "demo_cert = demo_spec (blank_cert ''web'' ''ns'')"

definition demo_ca :: CertificateAuthority where
  "demo_ca = (blank_ca ''ca'' ''ns'') \<lparr> ca_Status := (ca_Status (blank_ca ''ca'' ''ns''))
     \<lparr> at_Conditions := [\<lparr> cond_Type = ConditionCAReady, cond_Status = ''True'', cond_Reason = [],
                           cond_Message = [], cond_ObservedGeneration = 0 \<rparr>] \<rparr> \<rparr>"

text \<open>Every Secret holds the given pair; every HTTP request is answered with 200 and a body.\<close>

definition demo_cert_env :: "string \<Rightarrow> string \<Rightarrow> cert_env" where
  "demo_cert_env key body = \<lparr> e_lib = reference_lib, e_crypto = demo_crypto,
     e_parseTime = (\<lambda>_. None), e_formatTime = (\<lambda>_. ''now''), e_showDuration = (\<lambda>_. ''1h''),
     e_jsonString = (\<lambda>s. s), e_retries = 4, e_now = (\<lambda>_. 0), e_later = (\<lambda>_. 0), e_wallclock = (\<lambda>_. 0),
     e_getCertificate = (\<lambda>_ _. Inr demo_cert), e_getCA = (\<lambda>_ _. Inr demo_ca),
     e_getSecret = (\<lambda>_ n. Inr \<lparr> s_Meta = new_meta n ''ns'',
        s_Data = [(''cert.pem'', key), (''key.pem'', key), (''ca_crt.pem'', ''ca'')] \<rparr>),
     e_listServers = (\<lambda>_. Inr []), e_listPools = (\<lambda>_. Inr []), e_listCertificates = (\<lambda>_. Inr [demo_cert]),
     e_patchCertificate = (\<lambda>_ _. Inr ()), e_updateStatus = (\<lambda>_ _. Inr ()),
     e_createSecret = (\<lambda>_ _. Inr ()), e_updateSecret = (\<lambda>_ _. Inr ()), e_writeSecret = (\<lambda>_ _. Inr ()),
     e_deleteSecret = (\<lambda>_ _. Inr ()), e_generateKey = (\<lambda>_. Inr key), e_newRequest = (\<lambda>_ _. Inr ()),
     e_http = (\<lambda>_ _ _. Inr \<lparr> resp_Status = 200, resp_Body = body \<rparr>) \<rparr>"

definition demo_state :: cst where
  "demo_state = \<lparr> hist = [], obj = demo_cert \<rparr>"

lemmas op_defs = bnd_def thn_def ret_def throw_def outcome_def reads_def modify_def lift_def
  wrapping_def failing_def logged_def call_def event_def mutate_obj_def

lemmas cert_op_defs = renewCertificate_def renew_request_def renew_commit_def getSecret_def getCA_def
  refetch_def send_status_def send_patch_def updateStatusWithRetry_def getCAPublicCert_def
  mTLSHTTPClient_def do_request_def effectiveDNSAltNames_def signingSpecHashFor_def buildCSR_def
  buildCSRExtensions_def createOrUpdateTLSSecret_def createOrUpdateSecret_def create_or_update_def secret_mutation_def
  assertControlledBy_def set_signed_def set_cond_def with_status_def tls_name_def Let_def

lemmas demo_defs = demo_cert_env_def demo_crypto_def demo_cert_def demo_spec_def demo_ca_def
  demo_state_def blank_cert_def blank_ca_def new_meta_def

lemmas demo_eval = op_defs cert_op_defs demo_defs reference_lib_def set_controller_reference_def
  sval_def wanted_pools_def numeral_eq_Suc

lemma demo_renewal: "fst (renewCertificate (demo_cert_env ''k'' ''new'') demo_ca ''u'' demo_state) = Inr ()"
  by (simp add: demo_eval)

theorem renewal_order_witness:
  "\<exists>patched status secret request calls. hist (snd (renewCertificate (demo_cert_env ''k'' ''new'') demo_ca ''u'' demo_state)) =
     request @ PatchCertificate patched # calls @ [StatusUpdate status, GetSecret ''web-tls'', WriteSecret secret] \<and>
     sget (s_Data secret) ''cert.pem'' = Some ''new'' \<and> sget (s_Data secret) ''key.pem'' = Some ''k''"
proof -
  let ?E = "demo_cert_env ''k'' ''new''"
  let ?r = "renewCertificate ?E demo_ca ''u'' demo_state"
  have run: "?r = (Inr (), snd ?r)" using demo_renewal by (metis prod.collapse)
  have name: "tls_name (obj demo_state) = ''web-tls''" "hist demo_state = []"
    by (simp_all add: tls_name_def demo_defs)
  have get: "e_getSecret ?E h n = Inr found \<Longrightarrow> sget (s_Data found) ''cert.pem'' = Some ''k'' \<and>
      sget (s_Data found) ''key.pem'' = Some ''k''" for h n found
    by (auto simp: demo_cert_env_def)
  have answer: "e_http ?E h client req = Inr resp \<Longrightarrow> resp_Body resp = ''new''" for h client req resp
    by (auto simp: demo_cert_env_def)
  obtain h asked request client req resp patched calls status secret old written where
    h: "h = hist demo_state @ request @ PatchCertificate patched # calls @ [StatusUpdate status]"
      "hist (snd ?r) = h @ GetSecret (tls_name (obj demo_state)) # written"
    and w: "written = [WriteSecret secret] \<or> (written = [] \<and> (\<exists>found.
       e_getSecret ?E h (tls_name (obj demo_state)) = Inr found \<and> s_Data found = s_Data secret))"
    and old: "e_getSecret ?E (hist demo_state) (tls_name (obj demo_state)) = Inr old"
      "sget (s_Data secret) ''cert.pem'' = Some (resp_Body resp)"
      "sget (s_Data secret) ''key.pem'' = sget (s_Data old) ''key.pem''"
    and resp: "e_http ?E (hist demo_state @ asked) client req = Inr resp"
    using renewal_order [OF run] by blast
  have pair: "sget (s_Data secret) ''cert.pem'' = Some ''new''" "sget (s_Data secret) ''key.pem'' = Some ''k''"
    using old answer [OF resp] get [OF old(1)] by simp_all
  then have "written = [WriteSecret secret]" using w get by fastforce
  then show ?thesis using h name pair by auto
qed

section \<open>Certname conflicts\<close>

lemma claimant_in_list:
  assumes "other \<in> set certs" and "certnameOf other = certnameOf cert"
    and "m_Name (c_Meta other) \<noteq> m_Name (c_Meta cert)" and "m_DeletionTimestamp (c_Meta other) = None"
    and "cs_AuthorityRef (c_Spec other) = cs_AuthorityRef (c_Spec cert)"
  shows "m_Name (c_Meta other) \<in> set (claimants cert certs)"
proof -
  have "certnameOf cert \<in> set (index_certname other)"
    using assms(2) by (auto simp: index_certname_def nonEmpty_def certnameOf_def split: if_splits)
  then show ?thesis using assms by (auto simp: claimants_def)
qed

lemma first_claimant_least:
  assumes "claimants cert certs \<noteq> []"
  shows "first_claimant cert certs \<in> set (claimants cert certs) \<and>
    (\<forall>n \<in> set (claimants cert certs). first_claimant cert certs \<le> n)"
proof -
  obtain n ns where n: "sort (claimants cert certs) = n # ns"
    using assms by (cases "sort (claimants cert certs)") (auto dest: arg_cong [of _ _ length])
  have "sorted (n # ns)" by (metis n sorted_sort)
  moreover have "set (n # ns) = set (claimants cert certs)" by (metis n set_sort)
  ultimately show ?thesis using n by (auto simp: first_claimant_def)
qed

lemma conflict_result: "reportCertnameConflict E n s = (Inr r, s') \<Longrightarrow> r = Result 0"
  unfolding reportCertnameConflict_def Let_def
  by (elim bnd_InrE thn_InrE) (auto dest: ret_InrE)

text \<open>C18: a Certificate whose certname a live Certificate already claims against the same
  CertificateAuthority is never signed: the reconcile makes no request to the CA, creates no
  key and changes no Secret, and does not ask to be requeued; it reports the least name among
  the claimants, so that the report does not flip between reconciles.\<close>

theorem conflict_never_signed:
  assumes "e_listCertificates E (hist s) = Inr certs" and "other \<in> set certs"
    and "certnameOf other = certnameOf (obj s)"
    and "m_Name (c_Meta other) \<noteq> m_Name (c_Meta (obj s))" and "m_DeletionTimestamp (c_Meta other) = None"
    and "cs_AuthorityRef (c_Spec other) = cs_AuthorityRef (c_Spec (obj s))"
    and "list_all (\<lambda>c. m_Name (c_Meta c) \<noteq> []) certs"
  shows "\<exists>calls. hist (snd (reconcileCertSigning E ca s)) = hist s @ calls \<and> list_all observes calls \<and>
    (\<exists>reported s1. reconcileCertSigning E ca s = reportCertnameConflict E reported s1 \<and>
       reported \<in> set (claimants (obj s) certs) \<and>
       list_all (\<lambda>n. reported \<le> n) (claimants (obj s) certs)) \<and>
    (\<forall>r s'. reconcileCertSigning E ca s = (Inr r, s') \<longrightarrow> r = Result 0)"
proof -
  define s1 where "s1 = s \<lparr> hist := hist s @ [ListCertificates] \<rparr>"
  let ?n = "first_claimant (obj s) certs"
  have ne: "claimants (obj s) certs \<noteq> []" using claimant_in_list [OF assms(2-6)] by auto
  note least = first_claimant_least [OF ne]
  have "?n \<noteq> []"
    using least assms(7) by (auto simp: claimants_def list_all_iff)
  moreover have "otherCertificateUsingCertname E s = (Inr ?n, s1)"
    using assms(1) by (simp add: otherCertificateUsingCertname_def op_defs s1_def)
  ultimately have run: "reconcileCertSigning E ca s = reportCertnameConflict E ?n s1"
    by (simp add: reconcileCertSigning_def bnd_def)
  obtain calls where calls: "hist (snd (reportCertnameConflict E ?n s1)) = hist s1 @ calls"
      "list_all observes calls"
    using observing.conflict_only unfolding only_def by blast
  have "list_all (\<lambda>n. ?n \<le> n) (claimants (obj s) certs)"
    using least by (simp add: list_all_iff)
  then show ?thesis
    using run calls least conflict_result [of E ?n s1]
    by (intro exI [of _ "ListCertificates # calls"])
      (auto simp: s1_def observes_def talks_to_CA_def writes_secret_def)
qed

theorem conflict_never_signed_witness:
  "\<exists>calls. hist (snd (reconcileCertSigning (demo_cert_env ''k'' ''new'') demo_ca
       (demo_state \<lparr> obj := demo_cert \<lparr> c_Meta := new_meta ''web2'' ''ns'' \<rparr> \<rparr>))) = calls \<and>
     list_all observes calls"
  using conflict_never_signed [of "demo_cert_env ''k'' ''new''"
      "demo_state \<lparr> obj := demo_cert \<lparr> c_Meta := new_meta ''web2'' ''ns'' \<rparr> \<rparr>" "[demo_cert]" demo_cert demo_ca]
  by (simp add: demo_cert_env_def demo_state_def demo_cert_def demo_spec_def blank_cert_def new_meta_def
      certnameOf_def)

end
