(* ===== verification/CertLifecycle.thy ===== *)
theory CertLifecycle
  imports CertProps
begin

text \<open>
  The Certificate over several reconciles: pausing, deletion with its bounded cleanup, the
  quiet steady state, what happens to a changed spec, and what a signing comes to.
\<close>

section \<open>Pausing\<close>

definition observes_or_patches :: "cert_call \<Rightarrow> bool" where
  "observes_or_patches c = (observes c \<or> (\<exists>x. c = PatchCertificate x))"

interpretation quiet: passive_calls observes_or_patches
  by unfold_locales (simp_all add: observes_or_patches_def observing.allowed)

lemma quiet_patch: "observes_or_patches (PatchCertificate c)"
  by (simp add: observes_or_patches_def)

lemma pause_state_true:
  assumes "isPaused m" and "reconcilePauseState L m cs u s = (Inr b, s')"
  shows b
  using assms by (auto simp: reconcilePauseState_def ret_def split: if_splits prod.splits sum.splits)

lemma add_finalizer_annotations:
  assumes "kube_laws (e_lib E)" and "add_finalizer E s = (r, s')"
  shows "m_Annotations (c_Meta (obj s')) = m_Annotations (c_Meta (obj s))"
proof -
  have "m_Annotations (AddFinalizer (e_lib E) m f) = m_Annotations m" for m f
    using kube_laws.finalizer_only(1) [OF assms(1), of m f] by auto
  then show ?thesis using assms(2)
    by (auto simp: add_finalizer_def op_defs send_patch_def split: if_splits prod.splits sum.splits)
qed

lemma add_finalizer_calls: "only hist observes_or_patches (add_finalizer E)"
  unfolding add_finalizer_def by (intro only_rules base_only quiet_patch)

text \<open>a paused Certificate that is not being deleted is left alone: whatever its state, the
  reconcile makes no request to the CA, creates no key and touches no Secret; it only records
  the pause and its finalizer, and does not requeue. (The deletion path runs before the pause,
  so a paused Certificate stays deletable.)\<close>

theorem paused_certificate_untouched:
  assumes "kube_laws (e_lib E)" and "e_getCertificate E [] name = Inr cert"
    and "m_DeletionTimestamp (c_Meta cert) = None" and "isPaused (c_Meta cert)"
  shows "list_all observes_or_patches (hist (snd (Reconcile_certificate E (start name ns)))) \<and>
    (\<forall>r s'. Reconcile_certificate E (start name ns) = (Inr r, s') \<longrightarrow> r = Result 0)"
proof -
  define s1 where "s1 = \<lparr> hist = [GetCertificate name],
    obj = cert \<lparr> c_Meta := (c_Meta cert) \<lparr> m_Name := name, m_Namespace := ns \<rparr> \<rparr> \<rparr>"
  have "refetch E (start name ns) = (Inr (), s1)"
    using assms(2) by (simp add: refetch_def start_def blank_cert_def new_meta_def call_def s1_def)
  moreover have nodel: "m_DeletionTimestamp (c_Meta (obj s1)) = None" using assms(3) by (simp add: s1_def)
  ultimately have run: "Reconcile_certificate E (start name ns) = reconcile_live E s1"
    by (simp add: Reconcile_certificate_def op_defs)
  have paused: "isPaused (c_Meta (obj s1))" using assms(4) by (simp add: s1_def isPaused_def)
  obtain r s2 where s2: "add_finalizer E s1 = (r, s2)" by (cases "add_finalizer E s1")
  obtain cs where cs: "hist s2 = hist s1 @ cs" "list_all observes_or_patches cs"
    using onlyD [OF add_finalizer_calls s2] by blast
  obtain p s3 where s3: "pause_certificate E s2 = (p, s3)" by (cases "pause_certificate E s2")
  obtain ds where ds: "hist s3 = hist s2 @ ds" "list_all observes_or_patches ds"
    using onlyD [OF quiet.pause_only s3] by blast
  have "isPaused (c_Meta (obj s2))"
    using paused add_finalizer_annotations [OF assms(1) s2] by (simp add: isPaused_def)
  then have p: "p = Inr b \<Longrightarrow> b" for b
    using s3 pause_state_true unfolding pause_certificate_def by (auto simp: bnd_def reads_def)
  have first: "hist s1 = [GetCertificate name]" "observes_or_patches (GetCertificate name)"
    using quiet.gets by (simp_all add: s1_def)
  have live: "reconcile_live E s1 = (case r of Inl e \<Rightarrow> (Inl e, s2) | Inr _ \<Rightarrow>
      (case p of Inl e \<Rightarrow> (Inl e, s3) | Inr _ \<Rightarrow> (Inr (Result 0), s3)))"
    using s2 s3 p unfolding reconcile_live_def
    by (auto simp: bnd_def thn_def ret_def split: sum.splits)
  show ?thesis
    unfolding run live using cs ds first by (auto split: sum.splits)
qed

definition paused_cert :: Certificate where
  "paused_cert = demo_cert \<lparr> c_Meta := (c_Meta demo_cert) \<lparr> m_Annotations := [(AnnotationPaused, ''true'')] \<rparr> \<rparr>"

definition paused_env :: cert_env where
  "paused_env = (demo_cert_env ''k'' ''new'') \<lparr> e_getCertificate := (\<lambda>_ _. Inr paused_cert) \<rparr>"

theorem paused_certificate_untouched_witness:
  "list_all observes_or_patches (hist (snd (Reconcile_certificate paused_env (start ''web'' ''ns''))))"
  using paused_certificate_untouched [of paused_env "''web''" paused_cert "''ns''"]
    reference.kube_laws_axioms
  by (simp add: paused_env_def paused_cert_def demo_cert_env_def demo_cert_def demo_spec_def
      blank_cert_def new_meta_def isPaused_def sval_def)

section \<open>Deletion\<close>

text \<open>
  The Certificate the API server holds after a reconcile whose last call was a patch: the
  patched object if the patch succeeded, the old one otherwise.
\<close>

definition persisted :: "cert_env \<Rightarrow> Certificate \<Rightarrow> hist \<Rightarrow> Certificate" where
  "persisted E cert h =
     (if h = [] then cert
      else (case last h of
              PatchCertificate c \<Rightarrow>
                (case e_patchCertificate E (butlast h) c of Inr _ \<Rightarrow> c | Inl _ \<Rightarrow> cert)
            | _ \<Rightarrow> cert))"

text \<open>Reconciling a Certificate that is being deleted, under one environment after the other.\<close>

fun deletion_rounds :: "cert_env list \<Rightarrow> Certificate \<Rightarrow> Certificate" where
  "deletion_rounds [] cert = cert"
| "deletion_rounds (E # Es) cert =
     deletion_rounds Es (persisted E cert
       (hist (snd (reconcile_deletion E \<lparr> hist = [], obj = cert \<rparr>))))"

lemma cleanup_keeps_obj: "keeps (\<lambda>s. Q (obj s)) (handleCertificateCleanup E)"
proof -
  have "keeps (\<lambda>s. Q (obj s)) (signing_client E ca b)" for ca b
    unfolding signing_client_def getCAPublicCert_def by (intro keeps_rules keeps_obj_reads)
  then show ?thesis
    unfolding handleCertificateCleanup_def cleanCertViaAPI_def
    by (intro keeps_rules keeps_obj_reads)
qed

lemma patch_after_mutate:
  "hist (snd (thn (mutate_obj f) (thn (logged (send_patch E)) (ret x)) t)) =
   hist t @ [PatchCertificate (f (obj t))]"
  by (simp add: thn_def bnd_def mutate_obj_def modify_def logged_def send_patch_def call_def ret_def)

lemma remove_finalizer_hist:
  "hist (snd (remove_finalizer E t)) =
   hist t @ [PatchCertificate (obj t \<lparr> c_Meta := RemoveFinalizer (e_lib E) (c_Meta (obj t)) certificateFinalizer \<rparr>)]"
  by (simp add: remove_finalizer_def thn_def bnd_def reads_def mutate_obj_def modify_def wrapping_def
      send_patch_def call_def ret_def split: sum.split)

lemma attempts_after_annotation:
  assumes "1 \<le> n" and "n < 5"
  shows "cleanup_attempts (c \<lparr> c_Meta := (c_Meta c) \<lparr> m_Annotations :=
      sput AnnotationCleanupAttempts (Itoa n) (m_Annotations (c_Meta c)) \<rparr> \<rparr>) = n + 1"
proof -
  have "AtoiValue (Itoa n) = n"
    using assms ParseInt64_Itoa [of n] by (simp add: AtoiValue_def min_int64_def max_int64_def)
  then show ?thesis
    using assms wrap64_id [of "n + 1"]
    by (simp add: cleanup_attempts_def in_int64_def min_int64_def max_int64_def)
qed

definition with_attempts :: "int \<Rightarrow> Certificate \<Rightarrow> Certificate" where
  "with_attempts n c = c \<lparr> c_Meta := (c_Meta c) \<lparr> m_Annotations :=
     sput AnnotationCleanupAttempts (Itoa n) (m_Annotations (c_Meta c)) \<rparr> \<rparr>"

text \<open>A reconcile of the deletion ends with one patch: of the attempts, or of the finalizer.\<close>

lemma deletion_run:
  assumes "ContainsFinalizer (e_lib E) (c_Meta cert) certificateFinalizer"
    and "handleCertificateCleanup E \<lparr> hist = h0, obj = cert \<rparr> = (r, s1)"
  shows "hist (snd (reconcile_deletion E \<lparr> hist = h0, obj = cert \<rparr>)) = hist s1 @ [PatchCertificate
    (if (case r of Inl _ \<Rightarrow> cleanup_attempts cert < maxCleanupAttempts | Inr _ \<Rightarrow> False)
     then with_attempts (cleanup_attempts cert) cert
     else cert \<lparr> c_Meta := RemoveFinalizer (e_lib E) (c_Meta cert) certificateFinalizer \<rparr>)]"
proof -
  let ?s = "\<lparr> hist = h0, obj = cert \<rparr>" and ?n = "cleanup_attempts cert"
  have o1: "obj s1 = cert" using keepsD [OF cleanup_keeps_obj [of "\<lambda>c. c = cert"] _ assms(2)] by simp
  have "reconcile_deletion E ?s = (if (case r of Inl _ \<Rightarrow> ?n < maxCleanupAttempts | Inr _ \<Rightarrow> False) then
        thn (mutate_obj (with_attempts ?n)) (thn (logged (send_patch E)) (ret (Result RequeueIntervalLong))) s1
      else remove_finalizer E s1)"
    using assms o1 unfolding reconcile_deletion_def bnd_def reads_def outcome_def Let_def with_attempts_def [abs_def]
    by (cases r) (simp_all add: o1)
  then show ?thesis by (cases "case r of Inl _ \<Rightarrow> ?n < maxCleanupAttempts | Inr _ \<Rightarrow> False")
    (simp_all only: patch_after_mutate remove_finalizer_hist o1 if_True if_False)
qed

lemma deletion_round:
  assumes "kube_laws L" and "e_lib E = L" and patches: "\<And>h c. e_patchCertificate E h c = Inr ()"
    and "ContainsFinalizer L (c_Meta cert) certificateFinalizer" and "1 \<le> cleanup_attempts cert"
    and "cert' = persisted E cert (hist (snd (reconcile_deletion E \<lparr> hist = h0, obj = cert \<rparr>)))"
  shows "\<not> ContainsFinalizer L (c_Meta cert') certificateFinalizer \<or>
    (cleanup_attempts cert < maxCleanupAttempts \<and>
     cleanup_attempts cert' = cleanup_attempts cert + 1)"
proof -
  define n where "n = cleanup_attempts cert"
  obtain r s1 where c: "handleCertificateCleanup E \<lparr> hist = h0, obj = cert \<rparr> = (r, s1)"
    by (cases "handleCertificateCleanup E \<lparr> hist = h0, obj = cert \<rparr>")
  define retry where "retry = (case r of Inl _ \<Rightarrow> n < maxCleanupAttempts | Inr _ \<Rightarrow> False)"
  have cert': "cert' = (if retry then with_attempts n cert
      else cert \<lparr> c_Meta := RemoveFinalizer L (c_Meta cert) certificateFinalizer \<rparr>)"
    using assms(2,4,6) patches deletion_run [OF _ c] unfolding retry_def n_def by (simp add: persisted_def)
  show ?thesis
  proof (cases retry)
    case True
    then have "n < 5" by (auto simp: retry_def maxCleanupAttempts_def split: sum.splits)
    moreover have "1 \<le> n" using assms(5) by (simp add: n_def)
    ultimately show ?thesis
      using True cert' attempts_after_annotation [of n cert]
      by (simp add: with_attempts_def n_def maxCleanupAttempts_def)
  next
    case False
    then show ?thesis using cert' kube_laws.finalizer_removed [OF assms(1)] by simp
  qed
qed

lemma deletion_rounds_gone:
  assumes "\<not> ContainsFinalizer L (c_Meta cert) certificateFinalizer" and "\<forall>E \<in> set Es. e_lib E = L"
  shows "deletion_rounds Es cert = cert"
  using assms
  by (induction Es) (simp_all add: reconcile_deletion_def bnd_def reads_def ret_def persisted_def)

lemma deletion_rounds_bound:
  assumes "kube_laws L" and "\<forall>E \<in> set Es. e_lib E = L \<and> (\<forall>h c. e_patchCertificate E h c = Inr ())"
    and "1 \<le> cleanup_attempts cert" and "maxCleanupAttempts < cleanup_attempts cert + int (length Es)"
    and "cleanup_attempts cert \<le> maxCleanupAttempts \<or> Es \<noteq> []"
  shows "\<not> ContainsFinalizer L (c_Meta (deletion_rounds Es cert)) certificateFinalizer"
  using assms(2-)
proof (induction Es arbitrary: cert)
  case Nil
  then show ?case by simp
next
  case (Cons E Es)
  let ?c = "persisted E cert (hist (snd (reconcile_deletion E \<lparr> hist = [], obj = cert \<rparr>)))"
  have Es: "\<forall>E \<in> set Es. e_lib E = L" using Cons.prems(1) by simp
  show ?case
  proof (cases "ContainsFinalizer L (c_Meta cert) certificateFinalizer")
    case False
    moreover have "\<forall>E \<in> set (E # Es). e_lib E = L" using Cons.prems(1) by simp
    ultimately show ?thesis using deletion_rounds_gone [of L cert "E # Es"] by (simp only: not_False_eq_True)
  next
    case True
    have E: "e_lib E = L" "\<And>h c. e_patchCertificate E h c = Inr ()" using Cons.prems(1) by simp_all
    have "\<not> ContainsFinalizer L (c_Meta ?c) certificateFinalizer \<or>
      (cleanup_attempts cert < maxCleanupAttempts \<and> cleanup_attempts ?c = cleanup_attempts cert + 1)"
      by (rule deletion_round [OF assms(1) E True Cons.prems(2) refl])
    then show ?thesis
    proof
      assume "\<not> ContainsFinalizer L (c_Meta ?c) certificateFinalizer"
      then show ?thesis using deletion_rounds_gone [OF _ Es] by simp
    next
      assume "cleanup_attempts cert < maxCleanupAttempts \<and> cleanup_attempts ?c = cleanup_attempts cert + 1"
      then show ?thesis using Cons.IH [of ?c] Cons.prems by simp
    qed
  qed
qed

text \<open>C8: deletion is never blocked for good by an unreachable CA. Whatever each of five reconciles
  finds (the CA missing, failing or rejecting, in any order), after the fifth the finalizer is
  gone, provided the patches of the Certificate itself succeed and its attempt annotation was
  not set to a negative number by hand.\<close>

theorem deletion_terminates:
  assumes "kube_laws L"
    and "list_all (\<lambda>E. e_lib E = L \<and> (\<forall>h c. e_patchCertificate E h c = Inr ())) Es"
    and "length Es = 5" and "1 \<le> cleanup_attempts cert"
  shows "\<not> ContainsFinalizer L (c_Meta (deletion_rounds Es cert)) certificateFinalizer"
  by (rule deletion_rounds_bound [OF assms(1) _ assms(4)])
    (use assms(2-) in \<open>auto simp: list_all_iff maxCleanupAttempts_def\<close>)

definition deleted_cert :: Certificate where
  "deleted_cert = demo_cert \<lparr> c_Meta := (c_Meta demo_cert)
     \<lparr> m_Finalizers := [certificateFinalizer], m_DeletionTimestamp := Some 0 \<rparr> \<rparr>"

text \<open>An API server that cannot be asked for the CA.\<close>

definition failing_env :: cert_env where
  "failing_env = (demo_cert_env ''k'' ''new'') \<lparr> e_getCA := (\<lambda>_ _. Inl (Err Plain ''timeout'')) \<rparr>"

theorem deletion_terminates_witness:
  "certificateFinalizer \<in> set (m_Finalizers (c_Meta deleted_cert)) \<and>
   \<not> ContainsFinalizer reference_lib
       (c_Meta (deletion_rounds (replicate 5 failing_env) deleted_cert)) certificateFinalizer"
proof -
  have "cleanup_attempts deleted_cert = 1"
    by (simp add: cleanup_attempts_def deleted_cert_def demo_cert_def demo_spec_def blank_cert_def
        new_meta_def wrap64_def)
  then show ?thesis
    using deletion_terminates [of reference_lib "replicate 5 failing_env" deleted_cert]
      reference.kube_laws_axioms
    by (simp add: list_all_iff failing_env_def demo_cert_env_def deleted_cert_def)
qed

section \<open>The status after signing\<close>

lemma keeps_status_schedule: "keeps (\<lambda>s. Q (c_Status (obj s))) (scheduleRenewalCheck E)"
proof -
  have patch: "keeps (\<lambda>s. Q (c_Status (obj s))) (send_patch E)"
    by (simp add: keeps_def send_patch_def call_def)
  have logged: "keeps I m \<Longrightarrow> keeps I (logged m)" for I :: "cst \<Rightarrow> bool" and m :: "unit cop"
    by (auto simp: keeps_def logged_def split: prod.splits)
  have ev: "keeps (\<lambda>s. Q (c_Status (obj s))) (event k r n)" for k r n
    using keeps_obj_reads(3) [of "\<lambda>c. Q (c_Status c)"] .
  have evs: "keeps (\<lambda>s. Q (c_Status (obj s)))
      (foldr (\<lambda>label rest. thn (event ''Warning'' ''CertificateExpiringSoon'' (f label)) rest) ls (ret ()))"
    for f ls by (induction ls) (auto intro!: keeps_rules ev)
  have "keeps (\<lambda>s. Q (c_Status (obj s))) (mutate_obj (\<lambda>c. c \<lparr> c_Meta := g c \<rparr>))" for g
    unfolding mutate_obj_def by (rule keeps_modify) simp
  then have "keeps (\<lambda>s. Q (c_Status (obj s))) (emitExpiryWarnings E t)" for t
    unfolding emitExpiryWarnings_def Let_def by (intro keeps_rules evs logged patch)
  then show ?thesis
    unfolding scheduleRenewalCheck_def Let_def
    by (intro keeps_rules) (auto split: schedule.split intro!: keeps_rules ev)
qed

lemma keeps_status_after_signed: "keeps (\<lambda>s. Q (c_Status (obj s))) (after_signed E)"
  unfolding after_signed_def by (intro keeps_rules keeps_status_schedule)

lemma mark_signed_ok:
  assumes "kube_laws (e_lib E)" and "mark_signed E n s = (Inr na, s')"
  shows "ct_Phase (c_Status (obj s')) = CertSignedPhase \<and>
    IsStatusConditionTrue (e_lib E) (ct_Conditions (c_Status (obj s'))) ConditionCertSigned \<and>
    (\<exists>names t. signingSpecHashFor E s = (Inr (ct_SignedSpecHash (c_Status (obj s')), names), t))"
proof -
  obtain h ns t u v w where hs: "signingSpecHashFor E s = (Inr (h, ns), t)"
    and st: "updateStatusWithRetry E (set_signed (e_lib E) ''CertificateSigned''
          ''Certificate is signed and available'' h ns n v) w = (Inr u, s')"
    using assms(2) unfolding mark_signed_def
    by (auto elim!: bnd_InrE thn_InrE dest!: ret_InrE)
  obtain c where "obj s' = set_signed (e_lib E) ''CertificateSigned''
          ''Certificate is signed and available'' h ns n v c"
    using status_update_ok [OF st] by auto
  then show ?thesis
    using hs kube_laws.condition_set_true [OF assms(1)]
    by (simp add: set_signed_def set_cond_def with_status_def)
qed

section \<open>The steady state\<close>

lemma schedule_result: "fst (scheduleRenewalCheck E s) =
  Inr (Result (schedule_delay (schedule_renewal (e_parseTime E) (e_now E (hist s)) (e_later E (hist s)) (obj s))))"
proof -
  have ev: "succeeds (event k r n)" for k r n by (simp add: succeeds_def event_def call_def)
  have "succeeds (logged m)" for m :: "unit cop" by (simp add: succeeds_def logged_def split: prod.split)
  then have "succeeds (emitExpiryWarnings E d)" for d
    unfolding emitExpiryWarnings_def Let_def mutate_obj_def by (intro succeeds_rules ev)
  then have "succeeds (case sch of CoolingDown \<Rightarrow> event a b c | CheckLater _ u \<Rightarrow> emitExpiryWarnings E u
      | _ \<Rightarrow> ret ())" for sch a b c
    by (cases sch) (simp_all add: ev succeeds_basic)
  from succeeds_then_ret [OF this] show ?thesis
    by (simp add: scheduleRenewalCheck_def Let_def bnd_def reads_def)
qed

lemma steady_round:
  assumes "IsStatusConditionTrue (e_lib E) (at_Conditions (ca_Status ca)) ConditionCAReady"
    and "ct_Phase (c_Status (obj s)) = CertSignedPhase"
    and "signingSpecHashFor E s = (Inr (h, names), s1)"
    and "ct_SignedSpecHash (c_Status (obj s)) = h" and "h \<noteq> []"
    and "\<not> renewalDue (e_parseTime E) (e_now E (hist s1)) (e_later E (hist s1)) (obj s)"
  shows "\<exists>calls. hist (snd (reconcile_with_ca E ca s)) = hist s @ calls \<and>
    list_all observes_or_patches calls \<and> c_Status (obj (snd (reconcile_with_ca E ca s))) = c_Status (obj s) \<and>
    fst (reconcile_with_ca E ca s) = Inr (Result (schedule_delay
      (schedule_renewal (e_parseTime E) (e_now E (hist s1)) (e_later E (hist s1)) (obj s))))"
proof -
  have o1: "obj s1 = obj s" using keepsD [OF keeps_obj_hash [of "\<lambda>c. c = obj s"] _ assms(3)] by simp
  have run: "reconcile_with_ca E ca s = (case ct_NotAfter (c_Status (obj s)) of
      None \<Rightarrow> (Inr (Result RequeueIntervalShort), s1) | Some _ \<Rightarrow> scheduleRenewalCheck E s1)"
    using assms o1
    by (simp add: reconcile_with_ca_def reconcile_signed_def renew_or_schedule_def bnd_def reads_def
        ret_def split: option.split)
  obtain cs where cs: "hist s1 = hist s @ cs" "list_all observes_or_patches cs"
    using onlyD [OF quiet.hash_only assms(3)] by blast
  obtain ds where ds: "hist (snd (scheduleRenewalCheck E s1)) = hist s1 @ ds" "list_all observes_or_patches ds"
    using quiet.schedule_only [OF quiet_patch] unfolding only_def by blast
  have "c_Status (obj (snd (scheduleRenewalCheck E s1))) = c_Status (obj s)"
    using keeps_status_schedule [of "\<lambda>st. st = c_Status (obj s)" E] o1 by (auto simp: keeps_def)
  then show ?thesis
    using run cs ds o1 schedule_result [of E s1]
    by (cases "ct_NotAfter (c_Status (obj s))")
      (auto simp: schedule_renewal_def schedule_delay_def)
qed

text \<open>C31: in the steady state the controller is quiet. For a signed Certificate whose recorded
  digest is the one of its current spec and whose renewal is not due, a reconcile with a ready
  CA makes no request to the CA and changes no Secret and no status; its result is exactly the
  delay of the renewal schedule.\<close>

theorem steady_state_quiet:
  assumes "IsStatusConditionTrue (e_lib E) (at_Conditions (ca_Status ca)) ConditionCAReady"
    and "ct_Phase (c_Status (obj s)) = CertSignedPhase"
    and "signingSpecHashFor E s = (Inr (h, names), s1)"
    and "ct_SignedSpecHash (c_Status (obj s)) = h" and "h \<noteq> []"
    and "\<not> renewalDue (e_parseTime E) (e_now E (hist s1)) (e_later E (hist s1)) (obj s)"
  shows "\<exists>calls. hist (snd (reconcile_with_ca E ca s)) = hist s @ calls \<and>
    list_all observes_or_patches calls \<and> c_Status (obj (snd (reconcile_with_ca E ca s))) = c_Status (obj s) \<and>
    fst (reconcile_with_ca E ca s) = Inr (Result (schedule_delay
      (schedule_renewal (e_parseTime E) (e_now E (hist s1)) (e_later E (hist s1)) (obj s))))"
  by (rule steady_round [OF assms])

definition steady_cert :: Certificate where
  "steady_cert = demo_cert \<lparr> c_Status := (c_Status demo_cert) \<lparr> ct_Phase := CertSignedPhase,
     ct_SignedSpecHash := signingSpecHash reference_lib demo_cert (dedupeSorted []),
     ct_NotAfter := Some (seconds 9000000) \<rparr> \<rparr>"

lemma demo_ca_ready:
  "IsStatusConditionTrue reference_lib (at_Conditions (ca_Status demo_ca)) ConditionCAReady"
  by (simp add: IsStatusConditionTrue_def reference_lib_def demo_ca_def ConditionCAReady_def)

lemma hash_not_empty: "signingSpecHash reference_lib c names \<noteq> []"
proof -
  have "''certname'' \<in> set (sort_compact (map fst (signing_fields c names)))"
    by (simp add: sort_compact_props signing_fields_def)
  then show ?thesis
    by (force simp: signingSpecHash_def hashStringMap_def hash_input_def reference_lib_def)
qed

lemma steady_hash:
  "signingSpecHash L (c \<lparr> c_Status := st \<rparr>) names = signingSpecHash L c names"
  by (simp add: signingSpecHash_def signing_fields_def)

theorem steady_state_quiet_witness:
  "\<exists>calls. hist (snd (reconcile_with_ca (demo_cert_env ''k'' ''new'') demo_ca \<lparr> hist = [], obj = steady_cert \<rparr>)) = calls \<and>
    list_all observes_or_patches calls"
proof -
  let ?E = "demo_cert_env ''k'' ''new''" and ?s = "\<lparr> hist = [], obj = steady_cert \<rparr>"
  let ?h = "signingSpecHash reference_lib demo_cert (dedupeSorted [])"
  have env: "e_lib ?E = reference_lib" "\<And>h. e_now ?E h = 0" "\<And>h. e_later ?E h = 0" "\<And>x. e_parseTime ?E x = None"
    by (simp_all add: demo_cert_env_def)
  have "signingSpecHashFor ?E ?s = (Inr (?h, dedupeSorted []), \<lparr> hist = [ListServers], obj = steady_cert \<rparr>)"
    by (simp add: signingSpecHashFor_def effectiveDNSAltNames_def op_defs Let_def demo_cert_env_def
        wanted_pools_def steady_cert_def steady_hash)
      (simp add: demo_cert_def demo_spec_def blank_cert_def)
  moreover have "\<not> renewalDue (e_parseTime ?E) 0 0 steady_cert"
    by (simp add: renewalDue_def steady_cert_def parseCertRenewBefore_def demo_cert_def demo_spec_def
        blank_cert_def wrap64_def durations defaultRenewBeforeSeconds_def)
  ultimately show ?thesis
    using steady_state_quiet [of ?E demo_ca ?s ?h "dedupeSorted []" "\<lparr> hist = [ListServers], obj = steady_cert \<rparr>"]
      demo_ca_ready hash_not_empty [of demo_cert "dedupeSorted []"] env
    by (auto simp: steady_cert_def)
qed

section \<open>A changed spec and an adopted certificate\<close>

lemma adoption_offline: "only hist (\<lambda>c. \<not> talks_to_CA c) (adopt_existing E n)"
proof -
  have "only hist (\<lambda>c. \<not> talks_to_CA c) (scheduleRenewalCheck E)"
    by (rule offline.schedule_only) (simp add: talks_to_CA_def)
  moreover have "only hist (\<lambda>c. \<not> talks_to_CA c) (adoptTLSSecret E n)"
    unfolding adoptTLSSecret_def by (intro only_rules base_only) (simp_all add: talks_to_CA_def)
  ultimately show ?thesis
    unfolding adopt_existing_def after_signed_def
    by (intro only_rules base_only offline.mark_only offline.allowed)
qed

text \<open>
  The effective DNS alt names of a Certificate as two answers of the API server determine them:
  the Servers listed after the history h and, when one of them wants the names of Pools, the
  Pools listed next.
\<close>

definition effective_at :: "cert_env \<Rightarrow> hist \<Rightarrow> Certificate \<Rightarrow> string list \<Rightarrow> bool" where
  "effective_at E h cert names = (\<exists>servers. e_listServers E h = Inr servers \<and>
     (let wanted = wanted_pools (filter (\<lambda>sv. m_Name (c_Meta cert) \<in> set (index_certificateRef sv)) servers)
      in if wanted = [] then names = dedupeSorted (cs_DNSAltNames (c_Spec cert))
         else \<exists>pools. e_listPools E (h @ [ListServers]) = Inr pools \<and>
                names = effective_names (cs_DNSAltNames (c_Spec cert)) wanted pools))"

lemma names_at:
  assumes "effectiveDNSAltNames E s = (Inr names, t)"
  shows "effective_at E (hist s) (obj s) names \<and> (\<exists>after. hist t = hist s @ ListServers # after)"
  using assms
  by (auto simp: effectiveDNSAltNames_def effective_at_def bnd_def reads_def wrapping_def call_def ret_def Let_def
      split: sum.splits if_splits)

lemma names_from:
  assumes "effective_at E (hist s) (obj s) names"
  shows "\<exists>t. signingSpecHashFor E s = (Inr (signingSpecHash (e_lib E) (obj s) names, names), t)"
proof -
  have "\<exists>t. effectiveDNSAltNames E s = (Inr names, t)"
    using assms
    by (auto simp: effectiveDNSAltNames_def effective_at_def bnd_def reads_def wrapping_def call_def ret_def Let_def
        split: if_splits)
  then obtain t where t: "effectiveDNSAltNames E s = (Inr names, t)" by blast
  then have "obj t = obj s" using keepsD [OF keeps_obj_names [of "\<lambda>c. c = obj s"] _ t] by simp
  then show ?thesis using t by (simp add: signingSpecHashFor_def bnd_def reads_def ret_def)
qed

lemma mark_signed_digest:
  assumes "mark_signed E n s = (Inr na, s')"
  shows "\<exists>names after. effective_at E (hist s) (obj s) names \<and> hist s' = hist s @ ListServers # after \<and>
    ct_SignedSpecHash (c_Status (obj s')) = signingSpecHash (e_lib E) (obj s) names \<and>
    ct_EffectiveDNSAltNames (c_Status (obj s')) = names"
proof -
  obtain h ns t u v w where hs: "signingSpecHashFor E s = (Inr (h, ns), t)"
    and ex: "(extractNotAfter E n :: (cst, err, int option) op) t = (Inr v, w)"
    and st: "updateStatusWithRetry E (set_signed (e_lib E) ''CertificateSigned''
          ''Certificate is signed and available'' h ns n v) w = (Inr u, s')"
    using assms unfolding mark_signed_def
    by (auto elim!: bnd_InrE thn_InrE dest!: ret_InrE)
  obtain t1 where n: "effectiveDNSAltNames E s = (Inr ns, t1)" and h: "h = signingSpecHash (e_lib E) (obj t1) ns"
    and tt: "t = t1"
    using hs unfolding signingSpecHashFor_def by (auto elim!: bnd_InrE dest!: reads_InrE ret_InrE)
  have o1: "obj t1 = obj s" using keepsD [OF keeps_obj_names [of "\<lambda>c. c = obj s"] _ n] by simp
  obtain xs where xs: "hist w = hist t @ xs"
    using ex by (auto simp: extractNotAfter_def getSecret_def bnd_def outcome_def call_def ret_def)
  obtain c cs where c: "obj s' = set_signed (e_lib E) ''CertificateSigned''
          ''Certificate is signed and available'' h ns n v c"
    and cs: "hist s' = hist w @ cs @ [StatusUpdate (obj s')]"
    using status_update_ok [OF st] by auto
  obtain after where "hist t1 = hist s @ ListServers # after" using names_at [OF n] by blast
  then have "hist s' = hist s @ ListServers # (after @ xs @ cs @ [StatusUpdate (obj s')])"
    using xs cs tt by simp
  then show ?thesis
    using names_at [OF n] c h o1 by (auto simp: set_signed_def set_cond_def with_status_def)
qed

lemma same_spec_hash: "c_Spec c = c_Spec d \<Longrightarrow> signingSpecHash L c names = signingSpecHash L d names"
  by (simp add: signingSpecHash_def signing_fields_def)

text \<open>An adoption, with the answers its digest rests on.\<close>

lemma adoption_run:
  assumes "kube_laws (e_lib E)"
    and "adopt_existing E n s1 = (Inr r, s')"
  shows "ct_Phase (c_Status (obj s')) = CertSignedPhase \<and>
    (\<exists>names before after. hist s' = hist s1 @ before @ ListServers # after \<and>
      list_all (\<lambda>c. \<not> talks_to_CA c) (before @ ListServers # after) \<and>
      effective_at E (hist s1 @ before) (obj s1) names \<and>
      ct_SignedSpecHash (c_Status (obj s')) = signingSpecHash (e_lib E) (obj s1) names \<and>
      ct_EffectiveDNSAltNames (c_Status (obj s')) = names)"
proof -
  obtain calls where calls: "hist s' = hist s1 @ calls" "list_all (\<lambda>c. \<not> talks_to_CA c) calls"
    using onlyD [OF adoption_offline assms(2)] by blast
  obtain u1 na u2 s2 s3 s4 where a: "adoptTLSSecret E n s1 = (Inr u1, s2)"
    and m: "mark_signed E n s2 = (Inr na, s3)"
    and e: "(event ''Normal'' ''CertificateSigned''
              (''Certificate signed and available in Secret '' @ n) :: unit cop) s3 = (Inr u2, s4)"
    and f: "after_signed E s4 = (Inr r, s')"
    using assms(2) unfolding adopt_existing_def by (elim thn_InrE) (blast dest: wrapping_InrE)
  have "keeps (\<lambda>t. obj t = obj s1) (adoptTLSSecret E n)"
    unfolding adoptTLSSecret_def Let_def
    by (intro keeps_rules keeps_obj_reads(1) [of "\<lambda>c. c = obj s1"] keeps_obj_call [of "\<lambda>c. c = obj s1"])
  then have o2: "obj s2 = obj s1"
    using keepsD [of "\<lambda>t. obj t = obj s1" "adoptTLSSecret E n" s1 "Inr u1" s2] a by simp
  have o4: "obj s4 = obj s3" using e by (auto simp: event_def call_def)
  have o': "c_Status (obj s') = c_Status (obj s3)"
    using keepsD [OF keeps_status_after_signed [of "\<lambda>st. st = c_Status (obj s3)"] _ f] o4 by simp
  have p: "ct_Phase (c_Status (obj s')) = CertSignedPhase" using mark_signed_ok [OF assms(1) m] o' by simp
  obtain names xs where n: "effective_at E (hist s2) (obj s1) names" "hist s3 = hist s2 @ ListServers # xs"
    "ct_SignedSpecHash (c_Status (obj s3)) = signingSpecHash (e_lib E) (obj s1) names"
    "ct_EffectiveDNSAltNames (c_Status (obj s3)) = names"
    using mark_signed_digest [OF m] o2 by auto
  have any: "only hist (\<lambda>_. True) (adoptTLSSecret E k)" "only hist (\<lambda>_. True) (after_signed E)" for k
    unfolding adoptTLSSecret_def after_signed_def scheduleRenewalCheck_def emitExpiryWarnings_def Let_def
    by (intro only_rules base_only; auto split: schedule.split intro!: only_rules base_only)+
  obtain ys where ys: "hist s2 = hist s1 @ ys" using onlyD [OF any(1) a] by blast
  obtain zs where "hist s' = hist s4 @ zs" using onlyD [OF any(2) f] by blast
  moreover have "\<exists>es. hist s4 = hist s3 @ es" using e by (auto simp: event_def call_def)
  ultimately obtain after where after: "hist s' = hist s1 @ ys @ ListServers # after" using n(2) ys by auto
  then have "list_all (\<lambda>c. \<not> talks_to_CA c) (ys @ ListServers # after)" using calls by simp
  then show ?thesis using after n ys p o' by auto
qed

text \<open>Later reconciles that see the recorded digest.\<close>

lemma recorded_quiet:
  assumes "ct_Phase (c_Status (obj t)) = CertSignedPhase" and "ct_SignedSpecHash (c_Status (obj t)) \<noteq> []"
    and "ct_SignedSpecHash (c_Status (obj t)) = signingSpecHash (e_lib E) (obj t) names"
    and "IsStatusConditionTrue (e_lib E) (at_Conditions (ca_Status ca)) ConditionCAReady"
    and "effective_at E (hist t) (obj t) names"
    and "\<forall>h. \<not> renewalDue (e_parseTime E) (e_now E h) (e_later E h) (obj t)"
  shows "\<exists>calls. hist (snd (reconcile_with_ca E ca t)) = hist t @ calls \<and> list_all observes_or_patches calls"
proof -
  obtain t1 where t1: "signingSpecHashFor E t = (Inr (signingSpecHash (e_lib E) (obj t) names, names), t1)"
    using names_from [OF assms(5)] by blast
  show ?thesis
    using steady_round [OF assms(4,1) t1 assms(3) _ assms(6) [rule_format]] assms(2,3) by auto
qed

text \<open>C30: a Certificate that is not in phase Signed and whose TLS Secret exists is not signed but
  adopted: the reconcile never contacts the CA, and when it succeeds it records the phase Signed,
  and as digest and effective names those of the current spec with the Servers and Pools it lists
  in this very reconcile, whatever the adopted certificate was issued for. A spec change that was
  still waiting for its new certificate (phase Requesting or WaitingForSigning, the old Secret in
  place) is thereby recorded as done and the re-signing is dropped: every later reconcile that
  sees the same spec and effective names and this status makes no request to the CA and changes
  no Secret until a renewal is due.\<close>

theorem adoption_records_current_spec:
  assumes "kube_laws (e_lib E)"
    and "IsStatusConditionTrue (e_lib E) (at_Conditions (ca_Status ca)) ConditionCAReady"
    and "ct_Phase (c_Status (obj s)) \<noteq> CertSignedPhase"
    and "e_getSecret E (hist s) (tls_name (obj s)) = Inr secret"
    and "sget (s_Data secret) ''cert.pem'' \<noteq> None"
    and "reconcile_with_ca E ca s = (Inr r, s')"
  shows "ct_Phase (c_Status (obj s')) = CertSignedPhase \<and>
    (\<exists>names before after. hist s' = hist s @ before @ ListServers # after \<and>
      list_all (\<lambda>c. \<not> talks_to_CA c) (before @ ListServers # after) \<and>
      effective_at E (hist s @ before) (obj s) names \<and>
      ct_SignedSpecHash (c_Status (obj s')) = signingSpecHash (e_lib E) (obj s) names \<and>
      ct_EffectiveDNSAltNames (c_Status (obj s')) = names \<and>
      (\<forall>E2 ca2 t. e_lib E2 = e_lib E \<and>
         IsStatusConditionTrue (e_lib E2) (at_Conditions (ca_Status ca2)) ConditionCAReady \<and>
         c_Spec (obj t) = c_Spec (obj s) \<and> c_Status (obj t) = c_Status (obj s') \<and>
         ct_SignedSpecHash (c_Status (obj t)) \<noteq> [] \<and> effective_at E2 (hist t) (obj t) names \<and>
         (\<forall>h. \<not> renewalDue (e_parseTime E2) (e_now E2 h) (e_later E2 h) (obj t)) \<longrightarrow>
         (\<exists>calls. hist (snd (reconcile_with_ca E2 ca2 t)) = hist t @ calls \<and>
            list_all observes_or_patches calls)))"
proof -
  define s1 where "s1 = s \<lparr> hist := hist s @ [GetSecret (tls_name (obj s))] \<rparr>"
  have run: "adopt_existing E (tls_name (obj s)) s1 = (Inr r, s')"
    using assms(2-6)
    by (simp add: reconcile_with_ca_def isSecretReady_def getSecret_def call_def bnd_def reads_def
        ret_def outcome_def s1_def)
  obtain names ys after where phase: "ct_Phase (c_Status (obj s')) = CertSignedPhase"
    and h: "hist s' = hist s1 @ ys @ ListServers # after"
      "list_all (\<lambda>c. \<not> talks_to_CA c) (ys @ ListServers # after)"
      "effective_at E (hist s1 @ ys) (obj s1) names"
    and st: "ct_SignedSpecHash (c_Status (obj s')) = signingSpecHash (e_lib E) (obj s1) names"
      "ct_EffectiveDNSAltNames (c_Status (obj s')) = names"
    using adoption_run [OF assms(1) run] by blast
  define before where "before = GetSecret (tls_name (obj s)) # ys"
  have calls: "hist s' = hist s @ before @ ListServers # after"
      "list_all (\<lambda>c. \<not> talks_to_CA c) (before @ ListServers # after)"
      "effective_at E (hist s @ before) (obj s) names"
    using h by (simp_all add: before_def s1_def talks_to_CA_def)
  have status: "ct_SignedSpecHash (c_Status (obj s')) = signingSpecHash (e_lib E) (obj s) names"
    using st by (simp add: s1_def)
  have later: "\<exists>calls. hist (snd (reconcile_with_ca E2 ca2 t)) = hist t @ calls \<and> list_all observes_or_patches calls"
    if "e_lib E2 = e_lib E"
      "IsStatusConditionTrue (e_lib E2) (at_Conditions (ca_Status ca2)) ConditionCAReady"
      "c_Spec (obj t) = c_Spec (obj s)" "c_Status (obj t) = c_Status (obj s')"
      "ct_SignedSpecHash (c_Status (obj t)) \<noteq> []" "effective_at E2 (hist t) (obj t) names"
      "\<forall>h. \<not> renewalDue (e_parseTime E2) (e_now E2 h) (e_later E2 h) (obj t)" for E2 ca2 t
    by (rule recorded_quiet [OF _ that(5) _ that(2,6,7)])
      (use that phase status same_spec_hash [OF that(3)] in simp_all)
  show ?thesis
    by (rule conjI [OF phase], rule exI [of _ names], rule exI [of _ before], rule exI [of _ after],
        intro conjI allI impI calls status st(2), elim conjE, rule later; assumption)
qed

section \<open>The outcome of signing\<close>

lemma failing_InrE: "failing d m s = (Inr x, s') \<Longrightarrow> m s = (Inr x, s')"
  by (auto simp: failing_def split: prod.splits sum.splits)

text \<open>Storing a certificate, for one issued for the pending key and for another.\<close>

lemma store_match:
  assumes "getSecret E (pending_name (obj s4)) s4 = (Inr secret, s5)"
    and "certMatchesKey (e_crypto E) pem (sval (s_Data secret) ''key.pem'') = Inr True"
    and "store_signed E ca pem s4 = (Inr d, s6)"
  shows "d = 0 \<and> (\<exists>tls written. hist s6 = hist s5 @
      GetSecret (tls_name (obj s4)) # written @ [DeleteSecret (pending_name (obj s4))] \<and>
    stores E (hist s5) (tls_name (obj s4)) tls written \<and>
    sget (s_Data tls) ''cert.pem'' = Some pem \<and>
    sget (s_Data tls) ''key.pem'' = Some (sval (s_Data secret) ''key.pem'') \<and>
    (kube_laws (e_lib E) \<longrightarrow> m_Name (s_Meta tls) = tls_name (obj s4)))"
proof -
  let ?key = "sval (s_Data secret) ''key.pem''" and ?pending = "pending_name (obj s4)"
  let ?drop = "logged (call (DeleteSecret ?pending) (\<lambda>h. e_deleteSecret E h ?pending)) :: (cst, int \<times> err, unit) op"
  have "thn (failing 0 (wrapping ''creating TLS Secret''
      (createOrUpdateTLSSecret E ca (tls_name (obj s4)) pem ?key))) (thn ?drop (ret 0)) s5 = (Inr d, s6)"
    using assms by (simp add: store_signed_def bnd_def reads_def failing_def wrapping_def Let_def)
  then obtain u s where w: "createOrUpdateTLSSecret E ca (tls_name (obj s4)) pem ?key s5 = (Inr u, s)"
    and rest: "thn ?drop (ret 0) s = (Inr d, s6)"
    by (elim thn_InrE [of _ "thn ?drop (ret 0)"]) (auto dest!: failing_InrE wrapping_InrE)
  have "d = 0" "hist s6 = hist s @ [DeleteSecret ?pending]"
    using rest by (auto simp: thn_def bnd_def logged_def call_def ret_def split: sum.splits prod.splits)
  moreover obtain tls written where "hist s = hist s5 @ GetSecret (tls_name (obj s4)) # written"
    "stores E (hist s5) (tls_name (obj s4)) tls written" "sget (s_Data tls) ''cert.pem'' = Some pem"
    "sget (s_Data tls) ''key.pem'' = Some ?key"
    "kube_laws (e_lib E) \<longrightarrow> m_Name (s_Meta tls) = tls_name (obj s4)"
    using tls_write_ok [OF w] by blast
  ultimately show ?thesis by auto
qed

lemma store_mismatch:
  assumes "getSecret E (pending_name (obj s4)) s4 = (Inr secret, s5)"
    and "certMatchesKey (e_crypto E) pem (sval (s_Data secret) ''key.pem'') = Inr False"
  shows "\<exists>s6 calls. store_signed E ca pem s4 = (Inr 0, s6) \<and> hist s6 = hist s5 @ calls \<and>
    list_all (\<lambda>c. \<not> writes_secret c) calls"
proof -
  let ?warn = "thn (logged (updateStatusWithRetry E (set_failed (e_lib E) CertError ''CertnameConflict''
      (mismatch_message (obj s4))))) (thn (event ''Warning'' ''CertnameConflict'' (mismatch_message (obj s4))) (ret 0))
      :: (cst, int \<times> err, int) op"
  have quiet_warn: "only hist (\<lambda>c. \<not> writes_secret c) ?warn"
    by (intro only_rules base_only no_secrets.status_only no_secrets.allowed)
  have "\<exists>s6. ?warn s5 = (Inr 0, s6)"
    by (auto simp: thn_def bnd_def logged_def event_def call_def ret_def split: prod.splits sum.splits)
  then obtain s6 where warn: "?warn s5 = (Inr 0, s6)" by blast
  then have "store_signed E ca pem s4 = (Inr 0, s6)"
    using assms by (simp add: store_signed_def bnd_def reads_def failing_def wrapping_def Let_def)
  then show ?thesis using onlyD [OF quiet_warn warn] by blast
qed

text \<open>What follows a signing that ended with neither an error nor a delay.\<close>

lemma after_signing:
  assumes "kube_laws (e_lib E)"
    and "otherCertificateUsingCertname E s = (Inr [], s1)"
    and "(logged (updateStatusWithRetry E (set_phase CertRequesting)) :: unit cop) s1 = (Inr u, s2)"
    and "signCertificate E ca (ca_base_url ca (m_Namespace (c_Meta (obj s1)))) s2 = (Inr 0, s6)"
    and "reconcileCertSigning E ca s = (Inr r, s')"
  shows "ct_Phase (c_Status (obj s')) = CertSignedPhase \<and>
    IsStatusConditionTrue (e_lib E) (ct_Conditions (c_Status (obj s'))) ConditionCertSigned \<and>
    (\<exists>calls. hist s' = hist s6 @ calls \<and> list_all (\<lambda>c. \<not> writes_secret c) calls)"
proof -
  have tail: "bnd (reads obj) (\<lambda>cert. thn (mark_signed E (tls_name cert)) (after_signed E)) s6 = (Inr r, s')"
    using assms(2-5)
    by (simp add: reconcileCertSigning_def thn_def bnd_def reads_def outcome_def Let_def)
  then obtain na s7 where m: "mark_signed E (tls_name (obj s6)) s6 = (Inr na, s7)"
    and f: "after_signed E s7 = (Inr r, s')"
    by (auto elim!: bnd_InrE thn_InrE dest!: reads_InrE)
  have status: "c_Status (obj s') = c_Status (obj s7)"
    using keepsD [OF keeps_status_after_signed [of "\<lambda>st. st = c_Status (obj s7)"] _ f] by simp
  have after: "only hist (\<lambda>c. \<not> writes_secret c) (after_signed E)"
    unfolding after_signed_def
    by (intro only_rules no_secrets.schedule_only) (simp add: writes_secret_def)
  obtain xs ys where "hist s7 = hist s6 @ xs" "list_all (\<lambda>c. \<not> writes_secret c) xs"
      "hist s' = hist s7 @ ys" "list_all (\<lambda>c. \<not> writes_secret c) ys"
    using onlyD [OF no_secrets.mark_only m] onlyD [OF after f] by blast
  then show ?thesis using mark_signed_ok [OF assms(1) m] status by auto
qed

text \<open>A certificate issued for another key: nothing is stored and the mismatch is recorded as an
  error, but the caller cannot tell this outcome from success.\<close>

theorem foreign_certificate_marked_signed:
  assumes "kube_laws (e_lib E)"
    and "otherCertificateUsingCertname E s = (Inr [], s1)"
    and "(logged (updateStatusWithRetry E (set_phase CertRequesting)) :: unit cop) s1 = (Inr u, s2)"
    and "submitCSR E ca (ca_base_url ca (m_Namespace (c_Meta (obj s1)))) s2 = (Inr v, s3)"
    and "fetchSignedCert E ca (ca_base_url ca (m_Namespace (c_Meta (obj s1)))) s3 = (Inr (Some pem), s4)"
    and "getSecret E (pending_name (obj s4)) s4 = (Inr secret, s5)"
    and "certMatchesKey (e_crypto E) pem (sval (s_Data secret) ''key.pem'') = Inr False"
    and "reconcileCertSigning E ca s = (Inr r, s')"
  shows "ct_Phase (c_Status (obj s')) = CertSignedPhase \<and>
    IsStatusConditionTrue (e_lib E) (ct_Conditions (c_Status (obj s'))) ConditionCertSigned \<and>
    (\<exists>calls. hist s' = hist s5 @ calls \<and> list_all (\<lambda>c. \<not> writes_secret c) calls)"
proof -
  obtain s6 calls where store: "store_signed E ca pem s4 = (Inr 0, s6)" "hist s6 = hist s5 @ calls"
      "list_all (\<lambda>c. \<not> writes_secret c) calls"
    using store_mismatch [OF assms(6,7)] by blast
  then have "signCertificate E ca (ca_base_url ca (m_Namespace (c_Meta (obj s1)))) s2 = (Inr 0, s6)"
    using assms(4,5) by (simp add: signCertificate_def fetch_or_sign_def thn_def bnd_def outcome_def ret_def)
  from after_signing [OF assms(1-3) this assms(8)] store(2,3) show ?thesis by auto
qed

text \<open>What a signing writes before it stores: at most the pending key, in a Secret of its own.\<close>

definition pending_key_only :: "string \<Rightarrow> cert_call \<Rightarrow> bool" where
  "pending_key_only name c = (case c of
     CreateSecret secret \<Rightarrow> m_Name (s_Meta secret) = name \<and> map fst (s_Data secret) = [''key.pem'']
   | _ \<Rightarrow> \<not> writes_secret c)"

interpretation pending: passive_calls "pending_key_only name"
  by unfold_locales (simp_all add: pending_key_only_def writes_secret_def)

lemma pending_other:
  "pending_key_only name (Http cl r)" "pending_key_only name (NewRequest r)" "pending_key_only name GenerateKey"
  by (simp_all add: pending_key_only_def writes_secret_def)

lemmas pending_calls = pending.allowed pending_other

lemma pending_key_written:
  assumes "kube_laws (e_lib E)"
  shows "only hist (pending_key_only name) (ensurePendingKey E name)"
proof -
  have "pending_key_only name (CreateSecret \<lparr> s_Meta = meta', s_Data = [(''key.pem'', key)] \<rparr>)"
    if "SetControllerReference (e_lib E) ''Certificate'' owner ((new_meta name ns) \<lparr> m_Labels := ls \<rparr>) = Inr meta'"
    for owner ns ls meta' key
    using kube_laws.set_controller [OF assms that] by (auto simp: pending_key_only_def new_meta_def)
  then show ?thesis
    unfolding ensurePendingKey_def Let_def by (intro only_rules base_only pending_calls)
qed

lemma only_from_obj:
  assumes "only hist P (f (obj s))" and "bnd (reads obj) f s = (r, s')"
  shows "\<exists>cs. hist s' = hist s @ cs \<and> list_all P cs"
  using assms by (auto simp: only_def bnd_def reads_def dest: spec [of _ s])

lemma submit_calls:
  assumes "kube_laws (e_lib E)" and "submitCSR E ca url s = (r, s')"
  shows "\<exists>calls. hist s' = hist s @ calls \<and> list_all (pending_key_only (pending_name (obj s))) calls"
  by (rule only_from_obj [OF _ assms(2) [unfolded submitCSR_def]])
    (intro only_rules base_only pending_calls pending_key_written assms client_only pending.names_only)

lemma keeps_obj_requests:
  "keeps (\<lambda>s. Q (obj s)) (submitCSR E ca url)"
  "keeps (\<lambda>s. Q (obj s)) (fetchSignedCert E ca url)"
  "keeps (\<lambda>s. Q (obj s)) (signCSRViaAPI E ca url)"
  unfolding submitCSR_def ensurePendingKey_def fetchSignedCert_def signCSRViaAPI_def signing_client_def
    getCAPublicCert_def caHTTPClientForCA_def buildExternalCAHTTPClient_def Let_def
  by (intro keeps_rules keeps_obj_reads keeps_obj_names keeps_obj_call)+

lemma quiet_requests:
  "only hist (pending_key_only name) (fetchSignedCert E ca url)"
  "only hist (pending_key_only name) (signCSRViaAPI E ca url)"
  unfolding fetchSignedCert_def signCSRViaAPI_def
  by (intro only_rules base_only pending_calls client_only signing_client_only)+

text \<open>
  How a certificate is obtained after the CSR was submitted: the CA already has it, or it has
  none yet, is not external and the operator holds a signing Secret, with which it signs the
  request itself and asks once more.
\<close>

definition certificate_obtained :: "cert_env \<Rightarrow> CertificateAuthority \<Rightarrow> string \<Rightarrow> cst \<Rightarrow> string \<Rightarrow> cst \<Rightarrow> bool" where
  "certificate_obtained E ca url s pem s' =
     (fetchSignedCert E ca url s = (Inr (Some pem), s') \<or>
      (as_External (ca_Spec ca) = None \<and> at_SigningSecretName (ca_Status ca) \<noteq> [] \<and>
       (\<exists>s1 s2. fetchSignedCert E ca url s = (Inr None, s1) \<and> signCSRViaAPI E ca url s1 = (Inr (), s2) \<and>
          fetchSignedCert E ca url s2 = (Inr (Some pem), s'))))"

lemma obtained_runs:
  assumes "certificate_obtained E ca url s3 pem s4" and "submitCSR E ca url s2 = (Inr v, s3)"
  shows "signCertificate E ca url s2 = store_signed E ca pem s4"
  using assms
  by (auto simp: certificate_obtained_def signCertificate_def fetch_or_sign_def thn_def bnd_def outcome_def ret_def)

lemma obtained_quiet:
  assumes "certificate_obtained E ca url s pem s'"
  shows "obj s' = obj s \<and> (\<exists>calls. hist s' = hist s @ calls \<and> list_all (pending_key_only name) calls)"
proof -
  have fetch: "obj t' = obj t \<and> (\<exists>calls. hist t' = hist t @ calls \<and> list_all (pending_key_only name) calls)"
    if "fetchSignedCert E ca url t = (r, t')" for t r t'
    using keepsD [OF keeps_obj_requests(2) [of "\<lambda>c. c = obj t"] _ that] onlyD [OF quiet_requests(1) that] by simp
  have sign: "obj t' = obj t \<and> (\<exists>calls. hist t' = hist t @ calls \<and> list_all (pending_key_only name) calls)"
    if "signCSRViaAPI E ca url t = (r, t')" for t r t'
    using keepsD [OF keeps_obj_requests(3) [of "\<lambda>c. c = obj t"] _ that] onlyD [OF quiet_requests(2) that] by simp
  from assms show ?thesis
    unfolding certificate_obtained_def
  proof (elim disjE exE conjE)
    assume "fetchSignedCert E ca url s = (Inr (Some pem), s')"
    then show ?thesis by (rule fetch)
  next
    fix s1 s2
    assume "fetchSignedCert E ca url s = (Inr None, s1)" "signCSRViaAPI E ca url s1 = (Inr (), s2)"
      "fetchSignedCert E ca url s2 = (Inr (Some pem), s')"
    from fetch [OF this(1)] sign [OF this(2)] fetch [OF this(3)] show ?thesis by auto
  qed
qed

text \<open>Up to the pending key that is compared: the calls, and the key of the object in memory.\<close>

lemma before_storing:
  assumes "kube_laws (e_lib E)"
    and "otherCertificateUsingCertname E s = (Inr [], s1)"
    and "(logged (updateStatusWithRetry E (set_phase CertRequesting)) :: unit cop) s1 = (Inr u, s2)"
    and "submitCSR E ca url s2 = (Inr v, s3)"
    and "certificate_obtained E ca url s3 pem s4"
    and "getSecret E (pending_name (obj s4)) s4 = (Inr secret, s5)"
  shows "same_key (obj s4) (obj s) \<and> (\<exists>before. hist s5 = hist s @ before \<and>
    list_all (pending_key_only (pending_name (obj s))) before)"
proof -
  have o1: "obj s1 = obj s"
    using assms(2) by (auto simp: otherCertificateUsingCertname_def bnd_def reads_def wrapping_def call_def ret_def
        split: sum.splits prod.splits)
  obtain c1 where c1: "hist s1 = hist s @ c1" "list_all (pending_key_only (pending_name (obj s))) c1"
    using onlyD [OF pending.lookup_only assms(2)] by blast
  have st: "only hist (pending_key_only n) (logged (updateStatusWithRetry E f) :: unit cop)" for n f
    by (intro only_rules pending.status_only)
  obtain c2 where c2: "hist s2 = hist s1 @ c2" "list_all (pending_key_only (pending_name (obj s))) c2"
    using onlyD [OF st assms(3)] by blast
  have kept: "keeps (\<lambda>t. same_key (obj t) (obj s)) (updateStatusWithRetry E (set_phase CertRequesting))"
    unfolding updateStatusWithRetry_def
    by (intro keeps_retry attempt_same_key) (simp add: same_key_def set_phase_def with_status_def)
  obtain x where x: "updateStatusWithRetry E (set_phase CertRequesting) s1 = (x, s2)"
    using assms(3) by (auto simp: logged_def split: prod.splits)
  have "same_key (obj s1) (obj s)" using o1 by (simp add: same_key_def)
  then have o2: "same_key (obj s2) (obj s)" using keepsD [OF kept _ x] by blast
  have o3: "obj s3 = obj s2"
    using keepsD [OF keeps_obj_requests(1) [of "\<lambda>c. c = obj s2"] _ assms(4)] by simp
  obtain c3 where c3: "hist s3 = hist s2 @ c3" "list_all (pending_key_only (pending_name (obj s))) c3"
    using submit_calls [OF assms(1,4)] o2 by (auto simp: pending_name_def same_key_def)
  obtain c4 where c4: "obj s4 = obj s3" "hist s4 = hist s3 @ c4"
      "list_all (pending_key_only (pending_name (obj s))) c4"
    using obtained_quiet [OF assms(5)] by blast
  have "hist s5 = hist s4 @ [GetSecret (pending_name (obj s4))]"
    using assms(6) by (auto simp: getSecret_def call_def split: sum.splits)
  then show ?thesis using c1 c2 c3 c4 o2 o3 pending.gets(3) by auto
qed

text \<open>C29: what a signing reconcile comes to that obtained a certificate, at once or after signing the
  request itself, and met no error of the API server.  Over the whole reconcile the only Secret it
  creates before storing is its own pending key.  If the certificate is for that key, the TLS Secret
  of the Certificate then holds exactly that certificate and that key, the pending Secret is deleted,
  and no other Secret changes; if it is for another key, no Secret changes.  In both cases the
  reconcile ends with the phase Signed and the condition CertSigned True, which is what other
  controllers mount by: the mismatch is recorded as an error, but signCertificate returns neither an
  error nor a requeue for it, so that its caller takes it for a success.\<close>

theorem signing_outcome:
  assumes "kube_laws (e_lib E)"
    and "otherCertificateUsingCertname E s = (Inr [], s1)"
    and "(logged (updateStatusWithRetry E (set_phase CertRequesting)) :: unit cop) s1 = (Inr u, s2)"
    and "submitCSR E ca (ca_base_url ca (m_Namespace (c_Meta (obj s1)))) s2 = (Inr v, s3)"
    and "certificate_obtained E ca (ca_base_url ca (m_Namespace (c_Meta (obj s1)))) s3 pem s4"
    and "getSecret E (pending_name (obj s4)) s4 = (Inr secret, s5)"
    and "certMatchesKey (e_crypto E) pem (sval (s_Data secret) ''key.pem'') = Inr matches"
    and "signCertificate E ca (ca_base_url ca (m_Namespace (c_Meta (obj s1)))) s2 = (Inr delay, s6)"
    and "reconcileCertSigning E ca s = (Inr r, s')"
  shows "ct_Phase (c_Status (obj s')) = CertSignedPhase \<and>
    IsStatusConditionTrue (e_lib E) (ct_Conditions (c_Status (obj s'))) ConditionCertSigned \<and>
    (\<exists>before stored after. hist s' = hist s @ before @ stored @ after \<and>
      list_all (pending_key_only (pending_name (obj s))) before \<and> list_all (\<lambda>c. \<not> writes_secret c) after \<and>
      (if matches
       then \<exists>tls written. stored = GetSecret (tls_name (obj s)) # written @ [DeleteSecret (pending_name (obj s))] \<and>
         (written = [WriteSecret tls] \<or> (written = [] \<and>
            (\<exists>found. e_getSecret E (hist s @ before) (tls_name (obj s)) = Inr found \<and> s_Data found = s_Data tls))) \<and>
         m_Name (s_Meta tls) = tls_name (obj s) \<and> sget (s_Data tls) ''cert.pem'' = Some pem \<and>
         sget (s_Data tls) ''key.pem'' = Some (sval (s_Data secret) ''key.pem'')
       else stored = []))"
proof -
  let ?url = "ca_base_url ca (m_Namespace (c_Meta (obj s1)))"
  have store: "store_signed E ca pem s4 = (Inr delay, s6)"
    using assms(8) obtained_runs [OF assms(5,4)] by simp
  obtain before where before: "hist s5 = hist s @ before"
      "list_all (pending_key_only (pending_name (obj s))) before" and key: "same_key (obj s4) (obj s)"
    using before_storing [OF assms(1-6)] by blast
  have names: "pending_name (obj s4) = pending_name (obj s)" "tls_name (obj s4) = tls_name (obj s)"
    using key by (simp_all add: pending_name_def tls_name_def same_key_def)
  show ?thesis
  proof (cases matches)
    case True
    then have "certMatchesKey (e_crypto E) pem (sval (s_Data secret) ''key.pem'') = Inr True"
      using assms(7) by simp
    from store_match [OF assms(6) this store] obtain tls written where
      st: "delay = 0" "hist s6 = hist s5 @ GetSecret (tls_name (obj s)) # written @ [DeleteSecret (pending_name (obj s))]"
      "stores E (hist s5) (tls_name (obj s)) tls written" "sget (s_Data tls) ''cert.pem'' = Some pem"
      "sget (s_Data tls) ''key.pem'' = Some (sval (s_Data secret) ''key.pem'')" "m_Name (s_Meta tls) = tls_name (obj s)"
      using names assms(1) by auto
    then have run: "signCertificate E ca ?url s2 = (Inr 0, s6)" using assms(8) by simp
    obtain after where after: "hist s' = hist s6 @ after" "list_all (\<lambda>c. \<not> writes_secret c) after"
      using after_signing [OF assms(1-3) run assms(9)] by blast
    define stored where "stored = GetSecret (tls_name (obj s)) # written @ [DeleteSecret (pending_name (obj s))]"
    have "hist s' = hist s @ before @ stored @ after" using after st(2) before by (simp add: stored_def)
    moreover have "\<exists>tls written. stored = GetSecret (tls_name (obj s)) # written @ [DeleteSecret (pending_name (obj s))] \<and>
         (written = [WriteSecret tls] \<or> (written = [] \<and>
            (\<exists>found. e_getSecret E (hist s @ before) (tls_name (obj s)) = Inr found \<and> s_Data found = s_Data tls))) \<and>
         m_Name (s_Meta tls) = tls_name (obj s) \<and> sget (s_Data tls) ''cert.pem'' = Some pem \<and>
         sget (s_Data tls) ''key.pem'' = Some (sval (s_Data secret) ''key.pem'')"
      using st(3-6) unfolding stored_def stores_def before(1) by blast
    ultimately show ?thesis
      using after_signing [OF assms(1-3) run assms(9)] before(2) after(2) True by (simp only: if_True) blast
  next
    case False
    then have "certMatchesKey (e_crypto E) pem (sval (s_Data secret) ''key.pem'') = Inr False"
      using assms(7) by simp
    note st = store_mismatch [OF assms(6) this]
    obtain calls where calls: "delay = 0" "hist s6 = hist s5 @ calls" "list_all (\<lambda>c. \<not> writes_secret c) calls"
      using st [of ca] store by auto
    then have run: "signCertificate E ca ?url s2 = (Inr 0, s6)" using assms(8) by simp
    obtain more where more: "hist s' = hist s6 @ more" "list_all (\<lambda>c. \<not> writes_secret c) more"
      using after_signing [OF assms(1-3) run assms(9)] by blast
    have "hist s' = hist s @ before @ [] @ calls @ more" using more calls before by simp
    moreover have "list_all (\<lambda>c. \<not> writes_secret c) (calls @ more)" using more calls by simp
    ultimately show ?thesis
      using False before(2) after_signing [OF assms(1-3) run assms(9)] by (simp only: if_False) blast
  qed
qed

lemma after_signed_succeeds: "succeeds (after_signed E)"
proof -
  have "succeeds (scheduleRenewalCheck E)"
    unfolding succeeds_def using schedule_result by (metis prod.collapse)
  then show ?thesis unfolding after_signed_def by (intro succeeds_rules)
qed

lemma succeeds_logged: "succeeds (logged m)"
  by (simp add: succeeds_def logged_def split: prod.split)

lemma succeeds_event: "succeeds (event k r n)"
  by (simp add: succeeds_def event_def call_def)

definition requesting_cert :: Certificate where
  "requesting_cert = set_phase CertRequesting demo_cert"

text \<open>In the concrete environment no call of the API server fails.\<close>

lemma demo_succeeds:
  "succeeds (updateStatusWithRetry (demo_cert_env k b) f)"
  "succeeds (effectiveDNSAltNames (demo_cert_env k b))"
  "succeeds (getSecret (demo_cert_env k b) n)"
  "succeeds (call c (\<lambda>_. Inr x))"
proof -
  let ?m = "thn (refetch (demo_cert_env k b)) (thn (mutate_obj f) (send_status (demo_cert_env k b)))"
  have "succeeds ?m"
    by (simp add: succeeds_def op_defs refetch_def send_status_def demo_cert_env_def Let_def)
  then show "succeeds (updateStatusWithRetry (demo_cert_env k b) f)"
    unfolding updateStatusWithRetry_def succeeds_def using retry_ok by metis
  show "succeeds (effectiveDNSAltNames (demo_cert_env k b))"
    by (simp add: succeeds_def effectiveDNSAltNames_def op_defs wanted_pools_def demo_cert_env_def)
  show "succeeds (getSecret (demo_cert_env k b) n)"
    by (simp add: succeeds_def getSecret_def call_def demo_cert_env_def)
  show "succeeds (call c (\<lambda>_. Inr x))" by (simp add: succeeds_def call_def)
qed

lemma demo_mark: "succeeds (mark_signed (demo_cert_env k b) n)"
proof -
  have "succeeds (signingSpecHashFor (demo_cert_env k b))"
    unfolding signingSpecHashFor_def by (intro succeeds_rules demo_succeeds)
  moreover have "succeeds (extractNotAfter E m)" for E m
    unfolding extractNotAfter_def by (intro succeeds_rules)
  ultimately show ?thesis
    unfolding mark_signed_def split_def by (intro succeeds_rules demo_succeeds)
qed

lemma demo_adopt_secret: "succeeds (adoptTLSSecret (demo_cert_env k b) n)"
  by (simp add: succeeds_def adoptTLSSecret_def op_defs getSecret_def demo_cert_env_def Let_def
      reference_lib_def set_controller_reference_def new_meta_def)

lemma succeeds_failing: "succeeds m \<Longrightarrow> succeeds (failing d m)"
  unfolding succeeds_def
proof
  fix s
  assume "\<forall>s. \<exists>x s'. m s = (Inr x, s')"
  then obtain x s' where "m s = (Inr x, s')" by blast
  then show "\<exists>x s'. failing d m s = (Inr x, s')" by (simp add: failing_def)
qed

lemma succeeds_wrapping: "succeeds m \<Longrightarrow> succeeds (wrapping msg m)"
  unfolding succeeds_def wrapping_def by (metis (no_types, lifting) case_prod_conv sum.case(2))

lemma demo_adoption:
  "\<exists>r s'. reconcile_with_ca (demo_cert_env ''k'' ''new'') demo_ca \<lparr> hist = [], obj = requesting_cert \<rparr>
     = (Inr r, s')"
proof -
  let ?E = "demo_cert_env ''k'' ''new''"
  have adopt: "succeeds (adopt_existing ?E n)" for n
    unfolding adopt_existing_def
    by (intro succeeds_rules succeeds_wrapping demo_adopt_secret demo_mark after_signed_succeeds succeeds_event)
  have "reconcile_with_ca ?E demo_ca \<lparr> hist = [], obj = requesting_cert \<rparr> =
      adopt_existing ?E (tls_name requesting_cert) \<lparr> hist = [GetSecret (tls_name requesting_cert)], obj = requesting_cert \<rparr>"
    using demo_ca_ready
    by (simp add: reconcile_with_ca_def isSecretReady_def op_defs getSecret_def demo_cert_env_def
        requesting_cert_def set_phase_def with_status_def demo_cert_def demo_spec_def blank_cert_def)
  then show ?thesis using adopt unfolding succeeds_def by simp
qed

theorem adoption_records_current_spec_witness:
  "\<exists>(s' :: cst). ct_SignedSpecHash (c_Status (obj s')) = signingSpecHash reference_lib requesting_cert [] \<and>
     list_all (\<lambda>c. \<not> talks_to_CA c) (hist s') \<and> ct_Phase (c_Status (obj s')) = CertSignedPhase"
proof -
  let ?E = "demo_cert_env ''k'' ''new''" and ?s = "\<lparr> hist = [], obj = requesting_cert \<rparr> :: cst"
  obtain r s' where run: "reconcile_with_ca ?E demo_ca ?s = (Inr r, s')"
    using demo_adoption by blast
  have env: "e_lib ?E = reference_lib" by (simp add: demo_cert_env_def)
  have laws: "kube_laws (e_lib ?E)" using reference.kube_laws_axioms env by simp
  have ready: "IsStatusConditionTrue (e_lib ?E) (at_Conditions (ca_Status demo_ca)) ConditionCAReady"
    using demo_ca_ready env by simp
  have phase: "ct_Phase (c_Status (obj ?s)) \<noteq> CertSignedPhase"
    by (simp add: requesting_cert_def set_phase_def with_status_def)
  obtain secret where secret: "e_getSecret ?E (hist ?s) (tls_name (obj ?s)) = Inr secret"
    "sget (s_Data secret) ''cert.pem'' \<noteq> None"
    by (simp add: demo_cert_env_def)
  have none: "effective_at ?E h requesting_cert names \<Longrightarrow> names = []" for h names
    by (simp add: effective_at_def demo_cert_env_def wanted_pools_def requesting_cert_def set_phase_def
        with_status_def demo_cert_def demo_spec_def blank_cert_def dedupeSorted_def sort_compact_def)
  obtain names before after where "hist s' = before @ ListServers # after"
    "list_all (\<lambda>c. \<not> talks_to_CA c) (before @ ListServers # after)" "effective_at ?E before requesting_cert names"
    "ct_SignedSpecHash (c_Status (obj s')) = signingSpecHash reference_lib requesting_cert names"
    "ct_Phase (c_Status (obj s')) = CertSignedPhase"
    using adoption_records_current_spec [OF laws ready phase secret run]
    by (simp only: env append_Nil world.simps) blast
  moreover from this have "names = []" using none by blast
  ultimately show ?thesis by (intro exI [of _ s']) simp
qed

lemma demo_signing: "succeeds (reconcileCertSigning (demo_cert_env k b) ca)"
proof -
  have other: "succeeds (otherCertificateUsingCertname (demo_cert_env k b))"
    by (simp add: succeeds_def otherCertificateUsingCertname_def op_defs demo_cert_env_def)
  have conflict: "succeeds (reportCertnameConflict (demo_cert_env k b) n)" for n
    unfolding reportCertnameConflict_def Let_def
    by (intro succeeds_rules succeeds_wrapping demo_succeeds succeeds_event)
  have tail: "succeeds (case r of Inl (delay, e) \<Rightarrow> thn (logged (u delay e)) (ret (f delay))
      | Inr delay \<Rightarrow> if 0 < delay then ret (Result delay) else bnd (reads obj) (\<lambda>cert.
          thn (mark_signed (demo_cert_env k b) (tls_name cert)) (after_signed (demo_cert_env k b))))"
    for r :: "(int \<times> err) + int" and u :: "int \<Rightarrow> err \<Rightarrow> unit cop" and f
    by (cases r) (auto split: prod.split intro!: succeeds_rules succeeds_logged demo_mark after_signed_succeeds)
  show ?thesis
    unfolding reconcileCertSigning_def Let_def
    by (intro succeeds_rules other conflict succeeds_logged tail)
qed

lemma demo_update:
  "\<exists>s'. updateStatusWithRetry (demo_cert_env k b) f s = (Inr (), s') \<and>
    (\<exists>m. obj s' = f (demo_cert \<lparr> c_Meta := m \<rparr>))"
proof -
  let ?m = "thn (refetch (demo_cert_env k b)) (thn (mutate_obj f) (send_status (demo_cert_env k b)))"
  have "\<exists>s'. ?m s = (Inr (), s') \<and> (\<exists>m. obj s' = f (demo_cert \<lparr> c_Meta := m \<rparr>))"
    by (auto simp: op_defs refetch_def send_status_def demo_cert_env_def Let_def)
  then show ?thesis unfolding updateStatusWithRetry_def using retry_ok by metis
qed

lemma demo_client: "\<exists>client s'. caHTTPClientForCA demo_crypto (getSecret (demo_cert_env k b)) demo_ca s = (Inr client, s') \<and> obj s' = obj s"
  by (simp add: caHTTPClientForCA_def getCAPublicCert_def caHTTPClient_def op_defs getSecret_def
      demo_cert_env_def demo_crypto_def demo_ca_def blank_ca_def sval_def Let_def)

lemma demo_names: "effectiveDNSAltNames (demo_cert_env k b) s =
  (Inr (dedupeSorted (cs_DNSAltNames (c_Spec (obj s)))), s \<lparr> hist := hist s @ [ListServers] \<rparr>)"
  by (simp add: effectiveDNSAltNames_def op_defs wanted_pools_def demo_cert_env_def)

lemma demo_selectors:
  "e_crypto (demo_cert_env k b) = demo_crypto"
  "e_newRequest (demo_cert_env k b) h req = Inr ()"
  "e_http (demo_cert_env k b) h client req = Inr \<lparr> resp_Status = 200, resp_Body = b \<rparr>"
  "PemDecode demo_crypto p = Some (Pem ''CERTIFICATE'' p)"
  "ParsePKCS1PrivateKey demo_crypto p = Inr p"
  "CreateCertificateRequest demo_crypto t p = Inr p"
  by (simp_all add: demo_cert_env_def demo_crypto_def)

lemma demo_pending:
  "\<exists>s'. ensurePendingKey (demo_cert_env ''k'' b) n s = (Inr ''k'', s') \<and> obj s' = obj s"
  by (simp add: ensurePendingKey_def op_defs getSecret_def demo_cert_env_def sval_def Let_def)

lemma demo_submit:
  assumes "cs_CSRExtensions (c_Spec (obj s)) = None"
  shows "\<exists>s'. submitCSR (demo_cert_env ''k'' b) demo_ca url s = (Inr (), s')"
proof -
  obtain s1 where key: "ensurePendingKey (demo_cert_env ''k'' b) (pending_name (obj s)) s = (Inr ''k'', s1)"
      "obj s1 = obj s"
    using demo_pending by blast
  obtain client s3 where cl: "\<And>t. caHTTPClientForCA demo_crypto (getSecret (demo_cert_env ''k'' b)) demo_ca t = (Inr (client t), s3 t)"
    using demo_client by metis
  show ?thesis
    using assms
    by (simp add: key cl demo_names submitCSR_def op_defs buildCSR_def buildCSRExtensions_def
        demo_selectors Let_def)
qed

lemma demo_fetch: "b \<noteq> [] \<Longrightarrow> \<exists>s'. fetchSignedCert (demo_cert_env ''k'' b) demo_ca url s = (Inr (Some b), s')"
proof -
  assume "b \<noteq> []"
  obtain client s3 where cl: "\<And>t. caHTTPClientForCA demo_crypto (getSecret (demo_cert_env ''k'' b)) demo_ca t = (Inr (client t), s3 t)"
    using demo_client by metis
  show ?thesis
    using \<open>b \<noteq> []\<close>
    by (simp add: cl fetchSignedCert_def do_request_def op_defs demo_selectors Let_def)
qed

lemma demo_matches: "certMatchesKey demo_crypto b k = Inr (b = k)"
  by (simp add: certMatchesKey_def demo_crypto_def parsePrivateKey_def)

lemma demo_store: "succeeds (store_signed (demo_cert_env ''k'' b) demo_ca b)"
proof -
  let ?E = "demo_cert_env ''k'' b"
  have stores: "succeeds (createOrUpdateTLSSecret (demo_cert_env ''k'' c) demo_ca n p k)" for c n p k
    by (simp add: succeeds_def createOrUpdateTLSSecret_def createOrUpdateSecret_def create_or_update_def
        op_defs getSecret_def demo_cert_env_def Let_def reference_lib_def set_controller_reference_def new_meta_def
        secret_mutation_def assertControlledBy_def)
  show ?thesis
    unfolding store_signed_def Let_def demo_selectors demo_matches
    by (auto intro!: succeeds_rules succeeds_logged succeeds_failing succeeds_wrapping succeeds_event
        demo_succeeds stores)
qed

text \<open>The run of the concrete environment up to the certificate it fetches.\<close>

lemma demo_run:
  assumes "b \<noteq> []"
  obtains s1 s2 s3 s4 s5 s6 secret delay r s' where
    "otherCertificateUsingCertname (demo_cert_env ''k'' b) demo_state = (Inr [], s1)"
    "(logged (updateStatusWithRetry (demo_cert_env ''k'' b) (set_phase CertRequesting)) :: unit cop) s1 = (Inr (), s2)"
    "submitCSR (demo_cert_env ''k'' b) demo_ca (ca_base_url demo_ca (m_Namespace (c_Meta (obj s1)))) s2 = (Inr (), s3)"
    "fetchSignedCert (demo_cert_env ''k'' b) demo_ca (ca_base_url demo_ca (m_Namespace (c_Meta (obj s1)))) s3 = (Inr (Some b), s4)"
    "getSecret (demo_cert_env ''k'' b) (pending_name (obj s4)) s4 = (Inr secret, s5)"
    "sval (s_Data secret) ''key.pem'' = ''k''"
    "signCertificate (demo_cert_env ''k'' b) demo_ca (ca_base_url demo_ca (m_Namespace (c_Meta (obj s1)))) s2 = (Inr delay, s6)"
    "reconcileCertSigning (demo_cert_env ''k'' b) demo_ca demo_state = (Inr r, s')"
proof -
  let ?E = "demo_cert_env ''k'' b"
  obtain r s' where run: "reconcileCertSigning ?E demo_ca demo_state = (Inr r, s')"
    using demo_signing unfolding succeeds_def by blast
  obtain s1 where s1: "otherCertificateUsingCertname ?E demo_state = (Inr [], s1)"
    by (simp add: otherCertificateUsingCertname_def op_defs demo_cert_env_def demo_state_def
        first_claimant_def claimants_def)
  let ?url = "ca_base_url demo_ca (m_Namespace (c_Meta (obj s1)))"
  obtain s2 m where u: "updateStatusWithRetry ?E (set_phase CertRequesting) s1 = (Inr (), s2)"
      "obj s2 = set_phase CertRequesting (demo_cert \<lparr> c_Meta := m \<rparr>)"
    using demo_update by blast
  have s2: "(logged (updateStatusWithRetry ?E (set_phase CertRequesting)) :: unit cop) s1 = (Inr (), s2)"
    using u(1) by (simp add: logged_def)
  have "cs_CSRExtensions (c_Spec (obj s2)) = None"
    using u(2) by (simp add: set_phase_def with_status_def demo_cert_def demo_spec_def blank_cert_def)
  then obtain s3 where s3: "submitCSR ?E demo_ca ?url s2 = (Inr (), s3)" using demo_submit by blast
  obtain s4 where s4: "fetchSignedCert ?E demo_ca ?url s3 = (Inr (Some b), s4)"
    using demo_fetch [OF assms] by blast
  obtain secret s5 where s5: "getSecret ?E (pending_name (obj s4)) s4 = (Inr secret, s5)"
      "sval (s_Data secret) ''key.pem'' = ''k''"
    by (simp add: getSecret_def call_def demo_cert_env_def sval_def)
  obtain delay s6 where "store_signed ?E demo_ca b s4 = (Inr delay, s6)"
    using demo_store unfolding succeeds_def by blast
  then have "signCertificate ?E demo_ca ?url s2 = (Inr delay, s6)"
    using s3 s4 by (simp add: signCertificate_def fetch_or_sign_def thn_def bnd_def outcome_def ret_def)
  then show ?thesis by (rule that [OF s1 s2 s3 s4 s5 _ run])
qed

theorem signing_outcome_witness:
  "(\<exists>r s'. reconcileCertSigning (demo_cert_env ''k'' ''k'') demo_ca demo_state = (Inr r, s') \<and>
     ct_Phase (c_Status (obj s')) = CertSignedPhase \<and> DeleteSecret ''web-tls-pending'' \<in> set (hist s')) \<and>
   (\<exists>r s'. reconcileCertSigning (demo_cert_env ''k'' ''new'') demo_ca demo_state = (Inr r, s') \<and>
     ct_Phase (c_Status (obj s')) = CertSignedPhase \<and> (\<forall>tls. WriteSecret tls \<notin> set (hist s')))"
proof -
  have laws: "kube_laws (e_lib (demo_cert_env k b))" for k b
    using reference.kube_laws_axioms by (simp add: demo_cert_env_def)
  have start: "hist demo_state = []" "pending_name (obj demo_state) = ''web-tls-pending''"
    by (simp_all add: pending_name_def demo_defs)
  have weaken: "(if c then P else Q) \<Longrightarrow> (P \<Longrightarrow> P') \<Longrightarrow> if c then P' else Q" for c P P' Q
    by (simp split: if_splits)
  have unwritten: "WriteSecret tls \<notin> set cs"
    if "list_all (pending_key_only n) cs \<or> list_all (\<lambda>c. \<not> writes_secret c) cs" for cs tls n
    using that by (auto simp: list_all_iff pending_key_only_def writes_secret_def)
  have "\<exists>r s'. reconcileCertSigning (demo_cert_env ''k'' b) demo_ca demo_state = (Inr r, s') \<and>
     ct_Phase (c_Status (obj s')) = CertSignedPhase \<and>
     (b = ''k'' \<longrightarrow> DeleteSecret ''web-tls-pending'' \<in> set (hist s')) \<and>
     (b \<noteq> ''k'' \<longrightarrow> (\<forall>tls. WriteSecret tls \<notin> set (hist s')))" if "b \<noteq> []" for b
  proof (rule demo_run [OF that])
    fix s1 s2 s3 s4 s5 s6 secret delay r s'
    let ?url = "ca_base_url demo_ca (m_Namespace (c_Meta (obj (s1 :: cst))))"
    assume steps: "otherCertificateUsingCertname (demo_cert_env ''k'' b) demo_state = (Inr [], s1)"
      "(logged (updateStatusWithRetry (demo_cert_env ''k'' b) (set_phase CertRequesting)) :: unit cop) s1 = (Inr (), s2)"
      "submitCSR (demo_cert_env ''k'' b) demo_ca ?url s2 = (Inr (), s3)"
      and fetched: "fetchSignedCert (demo_cert_env ''k'' b) demo_ca ?url s3 = (Inr (Some b), s4)"
      and get: "getSecret (demo_cert_env ''k'' b) (pending_name (obj s4)) s4 = (Inr secret, s5)"
      and key: "sval (s_Data secret) ''key.pem'' = ''k''"
      and run: "signCertificate (demo_cert_env ''k'' b) demo_ca ?url s2 = (Inr delay, s6)"
      "reconcileCertSigning (demo_cert_env ''k'' b) demo_ca demo_state = (Inr r, s')"
    have answer: "certificate_obtained (demo_cert_env ''k'' b) demo_ca ?url s3 b s4"
      using fetched by (simp add: certificate_obtained_def)
    have m: "certMatchesKey (e_crypto (demo_cert_env ''k'' b)) b (sval (s_Data secret) ''key.pem'') = Inr (b = ''k'')"
      using key demo_matches by (simp add: demo_selectors)
    note outcome = signing_outcome [OF laws steps answer get m run]
    then obtain before stored after where h: "hist s' = before @ stored @ after"
      "list_all (pending_key_only ''web-tls-pending'') before" "list_all (\<lambda>c. \<not> writes_secret c) after"
      and st: "if b = ''k'' then \<exists>tls written. stored = GetSecret (tls_name (obj demo_state)) # written
          @ [DeleteSecret ''web-tls-pending''] else stored = []"
      unfolding start append_Nil
      by (elim conjE exE) (rule that, assumption, assumption, assumption, erule weaken, blast)
    have st': "b = ''k'' \<longrightarrow> DeleteSecret ''web-tls-pending'' \<in> set stored" "b \<noteq> ''k'' \<longrightarrow> stored = []"
      using st by (auto split: if_splits)
    have "b \<noteq> ''k'' \<longrightarrow> (\<forall>tls. WriteSecret tls \<notin> set (hist s'))"
      using h st' unwritten by auto
    then show ?thesis using outcome run(2) h(1) st' by auto
  qed
  note both = this
  from both [of "''k''"] both [of "''new''"] show ?thesis by simp
qed

end
