(* ===== verification/GoNet.thy ===== *)
theory GoNet
  imports Prelude
begin

text \<open>
  What cmd/enc and cmd/report share: slash-separated paths (path/filepath on Unix), request
  headers of net/http, basic authentication, path escaping, the values a JSON or YAML decoder
  produces, the HTTP client both programs build, and a process state of files and of the
  requests sent. Encoders, decoders, certificate parsing and the network are parameters.
\<close>

section \<open>Paths\<close>

text \<open>filepath.Clean: the components after dropping empty ones and resolving dots.\<close>

fun clean_parts :: "bool \<Rightarrow> string list \<Rightarrow> string list \<Rightarrow> string list" where
  "clean_parts rooted acc [] = rev acc"
| "clean_parts rooted acc (p # ps) =
     (if p = [] \<or> p = ''.'' then clean_parts rooted acc ps
      else if p = ''..'' then
        (case acc of
           [] \<Rightarrow> clean_parts rooted (if rooted then [] else [p]) ps
         | a # rest \<Rightarrow> clean_parts rooted (if a = ''..'' then p # acc else rest) ps)
      else clean_parts rooted (p # acc) ps)"

definition Clean :: "string \<Rightarrow> string" where
  "Clean path =
     (if path = [] then ''.''
      else let rooted = HasPrefix path ''/'';
               body = Join (clean_parts rooted [] (SplitOn CHR ''/'' path)) ''/''
           in if rooted then ''/'' @ body else if body = [] then ''.'' else body)"

definition JoinPath :: "string list \<Rightarrow> string" where
  "JoinPath elems =
     (case dropWhile (\<lambda>e. e = []) elems of [] \<Rightarrow> [] | es \<Rightarrow> Clean (Join es ''/''))"

definition Base :: "string \<Rightarrow> string" where
  "Base path =
     (if path = [] then ''.''
      else let stripped = TrimRight CHR ''/'' path
           in if stripped = [] then ''/'' else last (SplitOn CHR ''/'' stripped))"

lemma Base_plain: "s \<noteq> [] \<Longrightarrow> CHR ''/'' \<notin> set s \<Longrightarrow> Base s = s"
proof -
  assume s: "s \<noteq> []" "CHR ''/'' \<notin> set s"
  then have "dropWhile (\<lambda>x. x = CHR ''/'') (rev s) = rev s"
    by (cases "rev s") (auto simp: dropWhile_eq_self_iff)
  then have "TrimRight CHR ''/'' s = s" by (simp add: TrimRight_def)
  then show ?thesis using s by (simp add: Base_def SplitOn_no_sep)
qed

lemma clean_parts_snoc:
  assumes "q \<noteq> []" "q \<noteq> ''.''" "q \<noteq> ''..''"
  shows "clean_parts rooted acc (ps @ [q]) = clean_parts rooted acc ps @ [q]"
  using assms by (induction rooted acc ps rule: clean_parts.induct) (auto split: list.split)

lemma Join_snoc: "Join (xs @ [q]) sep = (if xs = [] then q else Join xs sep @ sep @ q)"
  by (induction xs sep rule: Join.induct) auto

lemma SplitOn_snoc:
  "c \<notin> set q \<Longrightarrow> SplitOn c (p @ c # q) = SplitOn c p @ [q]"
proof (induction p)
  case Nil
  then show ?case by (simp add: SplitOn_no_sep)
next
  case (Cons x p)
  then show ?case by (cases "SplitOn c p") auto
qed

text \<open>A plain file name joined to a directory stays the end of the path; the front depends on the
  directory alone, so different names give different paths.\<close>

definition file_name :: "string \<Rightarrow> bool" where
  "file_name q = (q \<noteq> [] \<and> q \<noteq> ''.'' \<and> q \<noteq> ''..'' \<and> CHR ''/'' \<notin> set q)"

lemma JoinPath_file: "\<exists>front. \<forall>q. file_name q \<longrightarrow> JoinPath [dir, q] = front @ q"
proof (cases "dir = []")
  case True
  have "JoinPath [dir, q] = [] @ q" if "file_name q" for q
    using that True
    by (cases q) (auto simp: file_name_def JoinPath_def Clean_def SplitOn_no_sep Let_def)
  then show ?thesis by blast
next
  case False
  let ?rooted = "HasPrefix dir ''/''"
  let ?cs = "clean_parts ?rooted [] (SplitOn CHR ''/'' dir)"
  let ?front = "(if ?rooted then ''/'' else []) @ (if ?cs = [] then [] else Join ?cs ''/'' @ ''/'')"
  have "JoinPath [dir, q] = ?front @ q" if "file_name q" for q
  proof -
    obtain x d where "dir = x # d" using False by (cases dir) auto
    then have "HasPrefix (dir @ ''/'' @ q) ''/'' = ?rooted" by simp
    then show ?thesis
      using that False
      by (simp add: file_name_def JoinPath_def Clean_def Let_def SplitOn_snoc clean_parts_snoc
          Join_snoc)
  qed
  then show ?thesis by blast
qed

lemma JoinPath_file_inject:
  "JoinPath [dir, p] = JoinPath [dir, q] \<Longrightarrow> file_name p \<Longrightarrow> file_name q \<Longrightarrow> p = q"
  using JoinPath_file [of dir] by (metis append_same_eq same_append_eq)

text \<open>Cleaning is idempotent, so a path that was joined is read as it was written: what it
  produces is, unless rooted, some parent steps, followed by file names.\<close>

definition clean_form :: "bool \<Rightarrow> string list \<Rightarrow> bool" where
  "clean_form rooted ps = (\<exists>n os. ps = replicate n ''..'' @ os \<and> list_all file_name os \<and> (rooted \<longrightarrow> n = 0))"

lemma clean_form_file:
  "clean_form rooted ps \<Longrightarrow> file_name p \<Longrightarrow> clean_form rooted (ps @ [p])"
  unfolding clean_form_def by fastforce

lemma clean_form_parent:
  assumes "clean_form rooted (ps @ [a])"
  shows "clean_form rooted (if a = ''..'' then (ps @ [a]) @ [''..''] else ps)"
proof -
  obtain n os where os: "ps @ [a] = replicate n ''..'' @ os" "list_all file_name os" "rooted \<longrightarrow> n = 0"
    using assms clean_form_def by blast
  show ?thesis
  proof (cases os rule: rev_cases)
    case Nil
    then have n: "ps @ [a] = replicate n ''..''" using os by simp
    then have "a \<in> set (replicate n ''..'')" by (metis in_set_conv_decomp)
    then have a: "a = ''..''" by simp
    have "0 < n" using n by (cases n) auto
    then have "\<not> rooted" using os by simp
    moreover have "(ps @ [a]) @ [''..''] = replicate (Suc n) ''..'' @ []"
      using n by (simp add: replicate_append_same)
    ultimately show ?thesis using a unfolding clean_form_def by (metis list.pred_inject(1))
  next
    case (snoc os' x)
    then have "ps = replicate n ''..'' @ os'" "a = x" "file_name x" "list_all file_name os'"
      using os by (auto simp flip: append_assoc)
    moreover from this have "a \<noteq> ''..''" by (simp add: file_name_def)
    ultimately show ?thesis using os(3) unfolding clean_form_def by auto
  qed
qed

lemma clean_parts_form:
  "list_all (\<lambda>p. CHR ''/'' \<notin> set p) ps \<Longrightarrow> clean_form rooted (rev acc) \<Longrightarrow>
   clean_form rooted (clean_parts rooted acc ps)"
proof (induction rooted acc ps rule: clean_parts.induct)
  case (2 rooted acc p ps)
  have ps: "list_all (\<lambda>p. CHR ''/'' \<notin> set p) ps" "CHR ''/'' \<notin> set p" using 2(5) by simp_all
  show ?case
  proof (cases "p = [] \<or> p = ''.''")
    case True
    then show ?thesis using 2(1) [OF True ps(1) 2(6)] by simp
  next
    case f1: False
    show ?thesis
    proof (cases "p = ''..''")
      case f2: False
      then have "file_name p" using f1 ps(2) by (simp add: file_name_def)
      then have "clean_form rooted (rev (p # acc))" using clean_form_file [OF 2(6)] by simp
      from 2(4) [OF f1 f2 ps(1) this] show ?thesis using f1 f2 by simp
    next
      case t: True
      show ?thesis
      proof (cases acc)
        case Nil
        have "clean_form rooted (rev (if rooted then [] else [p]))"
          using t by (auto simp: clean_form_def intro: exI [of _ "Suc 0"])
        from 2(2) [OF f1 t Nil ps(1) this] show ?thesis using f1 t Nil by (cases rooted) simp_all
      next
        case (Cons a rest)
        have "clean_form rooted (rev (if a = ''..'' then p # acc else rest))"
          using clean_form_parent [of rooted "rev rest" a] 2(6) Cons t
          by (cases "a = ''..''") simp_all
        from 2(3) [OF f1 t Cons ps(1) this] show ?thesis
          using f1 t Cons by (cases "a = ''..''") simp_all
      qed
    qed
  qed
qed simp

lemma clean_parts_names:
  "list_all file_name os \<Longrightarrow> clean_parts rooted acc os = rev acc @ os"
  by (induction os arbitrary: acc) (auto simp: file_name_def)

lemma clean_parts_parents:
  "list_all file_name os \<Longrightarrow>
   clean_parts False (replicate k ''..'') (replicate n ''..'' @ os) = replicate k ''..'' @ replicate n ''..'' @ os"
proof (induction n arbitrary: k)
  case (Suc n)
  have "clean_parts False (replicate k ''..'') (replicate (Suc n) ''..'' @ os) =
      clean_parts False (replicate (Suc k) ''..'') (replicate n ''..'' @ os)"
    by (cases k) simp_all
  also have "\<dots> = replicate (Suc k) ''..'' @ replicate n ''..'' @ os"
    using Suc.IH [OF Suc.prems] .
  also have "\<dots> = replicate k ''..'' @ replicate (Suc n) ''..'' @ os"
    by (simp add: replicate_app_Cons_same)
  finally show ?case .
qed (simp add: clean_parts_names)

lemma clean_parts_fixed: "clean_form rooted ps \<Longrightarrow> clean_parts rooted [] ps = ps"
proof -
  assume "clean_form rooted ps"
  then obtain n os where ps: "ps = replicate n ''..'' @ os" "list_all file_name os" "rooted \<longrightarrow> n = 0"
    using clean_form_def by blast
  show ?thesis
  proof (cases rooted)
    case True
    then show ?thesis using ps clean_parts_names [OF ps(2)] by simp
  next
    case False
    then show ?thesis using ps(1) clean_parts_parents [OF ps(2), of 0 n] by simp
  qed
qed

lemma clean_form_parts:
  assumes "clean_form rooted ps" and "p \<in> set ps"
  shows "p \<noteq> [] \<and> CHR ''/'' \<notin> set p"
proof -
  obtain n os where os: "ps = replicate n ''..'' @ os" "list_all file_name os"
    using assms(1) clean_form_def by blast
  consider "p = ''..''" | "p \<in> set os" using assms(2) os(1) by auto
  then show ?thesis
  proof cases
    case 1
    then show ?thesis by simp
  next
    case 2
    then have "file_name p" using os(2) by (simp add: list_all_iff)
    then show ?thesis by (simp add: file_name_def)
  qed
qed

definition render_path :: "bool \<Rightarrow> string list \<Rightarrow> string" where
  "render_path rooted ps =
     (if rooted then CHR ''/'' # Join ps ''/'' else if ps = [] then ''.'' else Join ps ''/'')"

lemma Clean_render:
  assumes "clean_form rooted ps"
  shows "Clean (render_path rooted ps) = render_path rooted ps"
proof (cases ps)
  case Nil
  have "Clean ''/'' = ''/''" "Clean ''.'' = ''.''" by (simp_all add: Clean_def)
  then show ?thesis using Nil by (simp add: render_path_def)
next
  case (Cons q qs)
  have split: "SplitOn CHR ''/'' (Join ps ''/'') = ps"
    using SplitOn_Join [of ps "CHR ''/''"] clean_form_parts [OF assms] Cons by auto
  obtain x q' where q: "q = x # q'" "x \<noteq> CHR ''/''"
    using clean_form_parts [OF assms, of q] Cons by (cases q) auto
  then obtain body where body: "Join ps ''/'' = x # body" using Cons by (cases qs) auto
  show ?thesis
    using clean_parts_fixed [OF assms] split body q(2) Cons
    by (cases rooted) (simp_all add: Clean_def render_path_def Let_def)
qed

lemma Join_empty: "(\<And>p. p \<in> set ps \<Longrightarrow> p \<noteq> []) \<Longrightarrow> Join ps ''/'' = [] \<longleftrightarrow> ps = []"
  by (induction ps "''/''" rule: Join.induct) auto

lemma Clean_is_render:
  assumes "path \<noteq> []"
  shows "\<exists>rooted ps. clean_form rooted ps \<and> Clean path = render_path rooted ps"
proof -
  define rooted ps where "rooted = HasPrefix path ''/''"
    and "ps = clean_parts rooted [] (SplitOn CHR ''/'' path)"
  have form: "clean_form rooted ps" unfolding ps_def
    by (rule clean_parts_form) (auto simp: list_all_iff clean_form_def dest: SplitOn_parts)
  have "Join ps ''/'' = [] \<longleftrightarrow> ps = []" using Join_empty clean_form_parts [OF form] by blast
  moreover have "Clean path = (if rooted then ''/'' @ Join ps ''/''
      else if Join ps ''/'' = [] then ''.'' else Join ps ''/'')"
    unfolding Clean_def Let_def rooted_def ps_def using assms by simp
  ultimately have "Clean path = render_path rooted ps" by (simp add: render_path_def)
  then show ?thesis using form by blast
qed

lemma Clean_idem [simp]: "Clean (Clean path) = Clean path"
proof (cases "path = []")
  case True
  then show ?thesis by (simp add: Clean_def)
next
  case False
  then show ?thesis using Clean_is_render Clean_render by metis
qed

lemma Clean_JoinPath: "JoinPath es \<noteq> [] \<Longrightarrow> Clean (JoinPath es) = JoinPath es"
  by (cases "dropWhile (\<lambda>e. e = []) es") (simp_all add: JoinPath_def)

section \<open>Headers, escaping and authentication\<close>

definition is_alpha :: "char \<Rightarrow> bool" where
  "is_alpha c = (let n = of_char c :: nat in (65 \<le> n \<and> n \<le> 90) \<or> (97 \<le> n \<and> n \<le> 122))"

definition is_digit :: "char \<Rightarrow> bool" where
  "is_digit c = (let n = of_char c :: nat in 48 \<le> n \<and> n \<le> 57)"

definition to_upper_char :: "char \<Rightarrow> char" where
  "to_upper_char c =
     (let n = of_char c :: nat in if 97 \<le> n \<and> n \<le> 122 then char_of (n - 32) else c)"

text \<open>textproto.CanonicalMIMEHeaderKey: a name with a byte that is not a token byte is kept.\<close>

definition is_token :: "char \<Rightarrow> bool" where
  "is_token c = (is_alpha c \<or> is_digit c \<or> c \<in> set ''!#$%&*+-.^_|~'' \<or> c \<in> {CHR 0x27, CHR 0x60})"

fun capitalize :: "bool \<Rightarrow> string \<Rightarrow> string" where
  "capitalize up [] = []"
| "capitalize up (c # s) =
     (if up then to_upper_char c else to_lower_char c) # capitalize (c = CHR ''-'') s"

definition CanonicalKey :: "string \<Rightarrow> string" where
  "CanonicalKey s = (if list_all is_token s then capitalize True s else s)"

definition set_header :: "string \<Rightarrow> string \<Rightarrow> string smap \<Rightarrow> string smap" where
  "set_header name value h = sput (CanonicalKey name) value h"

text \<open>url.PathEscape.\<close>

definition hex_char :: "nat \<Rightarrow> char" where
  "hex_char n = ''0123456789ABCDEF'' ! n"

definition path_safe :: "char \<Rightarrow> bool" where
  "path_safe c = (is_alpha c \<or> is_digit c \<or> c \<in> set ''-_.~$&+=:@'')"

definition PathEscape :: "string \<Rightarrow> string" where
  "PathEscape s = concat (map (\<lambda>c. if path_safe c then [c]
     else (let n = of_char c :: nat in [CHR ''%'', hex_char (n div 16), hex_char (n mod 16)])) s)"

lemma PathEscape_safe: "list_all path_safe s \<Longrightarrow> PathEscape s = s"
  by (induction s) (auto simp: PathEscape_def)

text \<open>base64.StdEncoding, for Request.SetBasicAuth.\<close>

definition base64_char :: "nat \<Rightarrow> char" where
  "base64_char n = ''ABCDEFGHIJKLMNOPQRSTUVWXYZabcdefghijklmnopqrstuvwxyz0123456789+/'' ! (n mod 64)"

fun base64 :: "string \<Rightarrow> string" where
  "base64 [] = []"
| "base64 [a] = (let n = of_char a * 16 :: nat in [base64_char (n div 64), base64_char n] @ ''=='')"
| "base64 [a, b] = (let n = (of_char a * 256 + of_char b) * 4 :: nat in
     [base64_char (n div 4096), base64_char (n div 64), base64_char n] @ ''='')"
| "base64 (a # b # c # s) = (let n = (of_char a * 256 + of_char b) * 256 + of_char c :: nat in
     [base64_char (n div 262144), base64_char (n div 4096), base64_char (n div 64), base64_char n]
     @ base64 s)"

lemma base64_example: "base64 ''u:p'' = ''dTpw''"
  by (simp add: base64_char_def)

section \<open>Dynamic values\<close>

text \<open>A Go value of type any out of a decoder; nil is \<open>Nil\<close>, numbers are float64.\<close>

datatype any = Nil | AnyBool bool | AnyNumber rat | AnyString string
  | AnyList "any list" | AnyMap "(string \<times> any) list"

text \<open>A map look-up with a missing key gives nil; a failed assertion to string gives the empty one.\<close>

definition field :: "(string \<times> any) list \<Rightarrow> string \<Rightarrow> any" where
  "field m k = (case sget m k of None \<Rightarrow> Nil | Some v \<Rightarrow> v)"

definition as_string :: "any \<Rightarrow> string" where
  "as_string v = (case v of AnyString s \<Rightarrow> s | _ \<Rightarrow> [])"

section \<open>Programs that send requests\<close>

record AuthConfig =
  au_Type :: string
  au_Header :: string
  au_Token :: string
  au_Username :: string
  au_Password :: string

record SSLConfig =
  ssl_CertFile :: string
  ssl_KeyFile :: string
  ssl_CAFile :: string

record tls_client =
  tc_Timeout :: int
  tc_RootCAs :: "string option"
  tc_Certificate :: "(string \<times> string) option"

record request =
  rq_Method :: string
  rq_URL :: string
  rq_Header :: "string smap"
  rq_Body :: "string option"

text \<open>One answer of a server: the status, the Location header (empty when there is none) and the body
  (None for a read error).\<close>

record http_answer =
  an_Status :: nat
  an_Location :: string
  an_Body :: "string option"

record process =
  files :: "string \<Rightarrow> string option"
  sent :: "(tls_client \<times> request) list"

text \<open>
  What a process calls: certificate parsing, http.NewRequest (None when it accepts method and
  URL), and one round trip of the network, whose answer (an error text or a response) may depend
  on what was sent before.  Of net/url, for redirects: the URL that a Location stands for on a
  page (URL.Parse, None when it is malformed), whether headers with credentials may follow from
  one URL to another (the same host, or shouldCopyHeaderOnRedirect), and the Referer of a new
  request (refererForURL).
\<close>

record net_env =
  n_AppendCertsFromPEM :: "string \<Rightarrow> bool"
  n_X509KeyPair :: "string \<Rightarrow> string \<Rightarrow> string option"
  n_NewRequest :: "string \<Rightarrow> string \<Rightarrow> string option"
  n_RoundTrip :: "(tls_client \<times> request) list \<Rightarrow> tls_client \<Rightarrow> request \<Rightarrow> string + http_answer"
  n_Resolve :: "string \<Rightarrow> string \<Rightarrow> string option"
  n_SameDomain :: "string \<Rightarrow> string \<Rightarrow> bool"
  n_Referer :: "string \<Rightarrow> string \<Rightarrow> string \<Rightarrow> string"
  n_Marshal :: "any \<Rightarrow> string + string"

definition read_file :: "string \<Rightarrow> (process, 'e, string option) op" where
  "read_file path = reads (\<lambda>p. files p (Clean path))"

text \<open>
  The credentials of both programs.  The report processor sets its custom headers after this one,
  so that a custom header Authorization replaces it there.
\<close>

definition auth_header :: "AuthConfig \<Rightarrow> string smap \<Rightarrow> string smap" where
  "auth_header auth h =
     (if au_Type auth = ''token'' then set_header (au_Header auth) (au_Token auth) h
      else if au_Type auth = ''bearer'' then set_header ''Authorization'' (''Bearer '' @ au_Token auth) h
      else if au_Type auth = ''basic'' then
        set_header ''Authorization'' (''Basic '' @ base64 (au_Username auth @ '':'' @ au_Password auth)) h
      else h)"

text \<open>buildHTTPClient of both programs: the CA file, the client pair for mtls, the timeout. Only
  files are read; time.Duration(n) * time.Second wraps around.\<close>

definition build_client :: "net_env \<Rightarrow> AuthConfig \<Rightarrow> SSLConfig \<Rightarrow> int \<Rightarrow> (process, string, tls_client) op" where
  "build_client N auth ssl timeoutSeconds =
     bnd (if ssl_CAFile ssl \<noteq> [] then
            bnd (read_file (ssl_CAFile ssl)) (\<lambda>caCert. case caCert of
              None \<Rightarrow> throw ''reading CA cert''
            | Some pem \<Rightarrow> if \<not> n_AppendCertsFromPEM N pem then throw ''failed to parse CA certificate''
                          else ret (Some pem))
          else ret None) (\<lambda>roots.
     bnd (if au_Type auth = ''mtls'' \<and> ssl_CertFile ssl \<noteq> [] \<and> ssl_KeyFile ssl \<noteq> [] then
            bnd (reads (\<lambda>p. (files p (ssl_CertFile ssl), files p (ssl_KeyFile ssl)))) (\<lambda>pair. case pair of
              (Some cert, Some key) \<Rightarrow>
                (case n_X509KeyPair N cert key of
                   Some e \<Rightarrow> throw (''loading client certificate: '' @ e)
                 | None \<Rightarrow> ret (Some (cert, key)))
            | _ \<Rightarrow> throw ''loading client certificate'')
          else ret None) (\<lambda>pair.
     ret \<lparr> tc_Timeout = wrap64 (timeoutSeconds * 1000000000), tc_RootCAs = roots,
           tc_Certificate = pair \<rparr>))"

section \<open>http.Client.Do\<close>

text \<open>
  Client.Do of net/http on a client without CheckRedirect, which both programs build: an answer
  with status 301, 302, 303, 307 or 308 and a Location is followed, up to ten requests in all.
  Unless the status is 307 or 308 the next request is a GET (or stays a HEAD) without the body
  and the headers that describe it; once a hop has left the domain of the first request, the
  headers with credentials stay behind.  The texts of the errors are abbreviated.
\<close>

definition is_redirect :: "nat \<Rightarrow> bool" where
  "is_redirect status = (status \<in> {301, 302, 303, 307, 308})"

definition keeps_body :: "nat \<Rightarrow> bool" where
  "keeps_body status = (status \<in> {307, 308})"

definition redirect_method :: "nat \<Rightarrow> string \<Rightarrow> string" where
  "redirect_method status meth =
     (if keeps_body status \<or> meth = ''GET'' \<or> meth = ''HEAD'' then meth else ''GET'')"

definition sensitive_headers :: "string list" where
  "sensitive_headers = [''Authorization'', ''Www-Authenticate'', ''Cookie'', ''Cookie2'',
     ''Proxy-Authorization'', ''Proxy-Authenticate'']"

definition body_headers :: "string list" where
  "body_headers = [''Content-Encoding'', ''Content-Language'', ''Content-Location'', ''Content-Type'']"

definition copied_headers :: "bool \<Rightarrow> bool \<Rightarrow> string smap \<Rightarrow> string smap" where
  "copied_headers left noBody h = filter (\<lambda>(k, _).
     \<not> (left \<and> CanonicalKey k \<in> set sensitive_headers) \<and> \<not> (noBody \<and> CanonicalKey k \<in> set body_headers)) h"

text \<open>The request after an answer: None when the answer is the result, an error when its Location is
  malformed; else the request, whether the domain was left and whether the body still goes along.\<close>

definition next_hop :: "net_env \<Rightarrow> request \<Rightarrow> request \<Rightarrow> http_answer \<Rightarrow> bool \<Rightarrow> bool \<Rightarrow>
    (string + request \<times> bool \<times> bool) option" where
  "next_hop N first req a left withBody =
     (if \<not> is_redirect (an_Status a) \<or> an_Location a = [] then None
      else Some (case n_Resolve N (rq_URL req) (an_Location a) of
        None \<Rightarrow> Inl ''failed to parse Location header''
      | Some url \<Rightarrow>
         (let left' = (left \<or> \<not> n_SameDomain N (rq_URL first) url);
              withBody' = (withBody \<and> keeps_body (an_Status a));
              h = copied_headers left' (\<not> withBody') (rq_Header first);
              referer = n_Referer N (rq_URL req) url (sval h ''Referer'')
          in Inr (\<lparr> rq_Method = redirect_method (an_Status a) (rq_Method req), rq_URL = url,
                    rq_Header = (if referer = [] then h else sput ''Referer'' referer h),
                    rq_Body = (if withBody' then rq_Body first else None) \<rparr>, left', withBody'))))"

fun exchange :: "net_env \<Rightarrow> tls_client \<Rightarrow> request \<Rightarrow> nat \<Rightarrow> bool \<Rightarrow> bool \<Rightarrow> (tls_client \<times> request) list \<Rightarrow>
    request \<Rightarrow> (string + nat \<times> string option) \<times> (tls_client \<times> request) list" where
  "exchange N client first redirects left withBody before req =
     (case n_RoundTrip N before client req of
        Inl e \<Rightarrow> (Inl e, [(client, req)])
      | Inr a \<Rightarrow>
         (case next_hop N first req a left withBody of
            None \<Rightarrow> (Inr (an_Status a, an_Body a), [(client, req)])
          | Some (Inl e) \<Rightarrow> (Inl e, [(client, req)])
          | Some (Inr (req', left', withBody')) \<Rightarrow>
             (case redirects of
                0 \<Rightarrow> (Inl ''stopped after 10 redirects'', [(client, req)])
              | Suc n \<Rightarrow>
                 (case exchange N client first n left' withBody' (before @ [(client, req)]) req' of
                    (r, calls) \<Rightarrow> (r, (client, req) # calls)))))"

declare exchange.simps [simp del]

text \<open>What one Client.Do answers and sends after the requests already sent.\<close>

definition converse_with :: "net_env \<Rightarrow> (tls_client \<times> request) list \<Rightarrow> tls_client \<times> request \<Rightarrow>
    (string + nat \<times> string option) \<times> (tls_client \<times> request) list" where
  "converse_with N before call = exchange N (fst call) (snd call) 9 False True before (snd call)"

definition send :: "net_env \<Rightarrow> tls_client \<Rightarrow> request \<Rightarrow> (process, string, nat \<times> string option) op" where
  "send N client req = (\<lambda>p. case converse_with N (sent p) (client, req) of
     (r, calls) \<Rightarrow> (r, p \<lparr> sent := sent p @ calls \<rparr>))"

lemma only_read_file [only_rules]: "only sent P (read_file path)"
  unfolding read_file_def by (intro only_rules)

lemma only_build_client [only_rules]: "only sent P (build_client N auth ssl t)"
  unfolding build_client_def by (intro only_rules)

lemma keeps_read_file [keeps_rules]: "keeps I (read_file path)"
  unfolding read_file_def by (intro keeps_rules)

lemma keeps_build_client [keeps_rules]: "keeps I (build_client N auth ssl t)"
  unfolding build_client_def by (intro keeps_rules)

lemma keeps_send: "(\<And>p q. files p = files q \<Longrightarrow> I p \<Longrightarrow> I q) \<Longrightarrow> keeps I (send N client req)"
  by (simp add: keeps_def send_def split: prod.split)

section \<open>Conversations\<close>

text \<open>Each later request goes, with the same client, to the URL the answer before it pointed to.\<close>

fun redirect_chain :: "net_env \<Rightarrow> (tls_client \<times> request) list \<Rightarrow> (tls_client \<times> request) list \<Rightarrow> bool" where
  "redirect_chain N before (c # d # rest) =
     ((case n_RoundTrip N before (fst c) (snd c) of
         Inl _ \<Rightarrow> False
       | Inr a \<Rightarrow> is_redirect (an_Status a) \<and> an_Location a \<noteq> [] \<and>
           n_Resolve N (rq_URL (snd c)) (an_Location a) = Some (rq_URL (snd d))) \<and>
      fst d = fst c \<and> redirect_chain N (before @ [c]) (d # rest))"
| "redirect_chain N before _ = True"

text \<open>A request that left the domain of the first one carries none of the headers with credentials.\<close>

definition guards_credentials :: "net_env \<Rightarrow> request \<Rightarrow> tls_client \<times> request \<Rightarrow> bool" where
  "guards_credentials N first = (\<lambda>(client, req). n_SameDomain N (rq_URL first) (rq_URL req) \<or>
     list_all (\<lambda>h. sget (rq_Header req) h = None) sensitive_headers)"

lemma sensitive_canonical: "h \<in> set sensitive_headers \<Longrightarrow> CanonicalKey h = h"
proof -
  have "list_all (\<lambda>h. CanonicalKey h = h) sensitive_headers" by code_simp
  then show "h \<in> set sensitive_headers \<Longrightarrow> CanonicalKey h = h" by (simp add: list_all_iff)
qed

lemma copied_none: "h \<in> set sensitive_headers \<Longrightarrow> sget (copied_headers True b hs) h = None"
  using sensitive_canonical [of h] by (induction hs) (auto simp: copied_headers_def)

lemma next_hop_props:
  assumes "next_hop N first req a left withBody = Some (Inr (req', left', withBody'))"
  shows "is_redirect (an_Status a) \<and> an_Location a \<noteq> [] \<and>
    n_Resolve N (rq_URL req) (an_Location a) = Some (rq_URL req') \<and>
    guards_credentials N first (client, req')"
proof -
  have referer: "''Referer'' \<notin> set sensitive_headers" by (simp add: sensitive_headers_def)
  show ?thesis
    using assms copied_none referer
    by (auto simp: next_hop_def guards_credentials_def list_all_iff Let_def split: if_splits option.splits)
qed

lemma exchange_props:
  assumes "exchange N client first n left withBody before req = (r, calls)"
  shows "hd calls = (client, req) \<and> calls \<noteq> [] \<and> length calls \<le> Suc n \<and> redirect_chain N before calls \<and>
    list_all (guards_credentials N first) (tl calls)"
  using assms
proof (induction n arbitrary: left withBody before req r calls)
  case 0
  then show ?case by (subst (asm) exchange.simps) (auto split: sum.splits option.splits)
next
  case (Suc n)
  show ?case
  proof (cases "\<exists>a req' left' withBody'. n_RoundTrip N before client req = Inr a \<and>
      next_hop N first req a left withBody = Some (Inr (req', left', withBody'))")
    case False
    then show ?thesis using Suc.prems
      by (subst (asm) exchange.simps) (auto split: sum.splits option.splits prod.splits)
  next
    case True
    then obtain a req' left' withBody' where hop: "n_RoundTrip N before client req = Inr a"
      "next_hop N first req a left withBody = Some (Inr (req', left', withBody'))" by blast
    obtain r' cs where rest: "exchange N client first n left' withBody' (before @ [(client, req)]) req' = (r', cs)"
      by (cases "exchange N client first n left' withBody' (before @ [(client, req)]) req'")
    have calls: "calls = (client, req) # cs"
      using Suc.prems hop rest by (subst (asm) exchange.simps) simp
    have cs: "hd cs = (client, req')" "cs \<noteq> []" "length cs \<le> Suc n"
      "redirect_chain N (before @ [(client, req)]) cs" "list_all (guards_credentials N first) (tl cs)"
      using Suc.IH [OF rest] by simp_all
    then obtain more where "cs = (client, req') # more" by (cases cs) simp_all
    then show ?thesis using cs calls hop(1) next_hop_props [OF hop(2), of client] by simp
  qed
qed

text \<open>An answer that is no redirect ends the conversation.\<close>

lemma converse_plain:
  assumes "n_RoundTrip N before client req = Inr a" and "\<not> is_redirect (an_Status a)"
  shows "converse_with N before (client, req) = (Inr (an_Status a, an_Body a), [(client, req)])"
  using assms by (simp add: converse_with_def exchange.simps next_hop_def)

lemma converse_props:
  "hd (snd (converse_with N before call)) = call \<and> snd (converse_with N before call) \<noteq> [] \<and>
   length (snd (converse_with N before call)) \<le> 10 \<and> redirect_chain N before (snd (converse_with N before call)) \<and>
   list_all (guards_credentials N (snd call)) (tl (snd (converse_with N before call)))"
  using exchange_props [of N "fst call" "snd call" 9 False True before "snd call"]
  by (cases "exchange N (fst call) (snd call) 9 False True before (snd call)") (simp add: converse_with_def)

section \<open>At most one conversation\<close>

definition silent :: "(process, 'e, 'a) op \<Rightarrow> bool" where
  "silent m = only sent (\<lambda>_. False) m"

text \<open>Nothing is sent, or one conversation is held, which a call with the property R begins.\<close>

definition once :: "net_env \<Rightarrow> (tls_client \<times> request \<Rightarrow> bool) \<Rightarrow> (process, 'e, 'a) op \<Rightarrow> bool" where
  "once N R m = (\<forall>p. sent (snd (m p)) = sent p \<or>
     (\<exists>call. R call \<and> sent (snd (m p)) = sent p @ snd (converse_with N (sent p) call)))"

lemma silent_sent: "silent m \<Longrightarrow> sent (snd (m p)) = sent p"
  unfolding silent_def only_def by (metis append_Nil2 list.pred_inject(2) neq_Nil_conv)

lemma silentI: "(\<And>p. sent (snd (m p)) = sent p) \<Longrightarrow> silent m"
  by (simp add: silent_def only_def)

lemma once_silent: "silent m \<Longrightarrow> once N R m"
  by (simp add: once_def silent_sent)

lemma once_then_silent:
  assumes "once N R m" and "\<And>x. silent (f x)"
  shows "once N R (bnd m f)"
  unfolding once_def
proof
  fix p
  obtain r p' where mp: "m p = (r, p')" by (cases "m p")
  have "sent (snd (bnd m f p)) = sent p'"
    using mp silent_sent [OF assms(2)] by (cases r) (simp_all add: bnd_def)
  then show "sent (snd (bnd m f p)) = sent p \<or>
      (\<exists>call. R call \<and> sent (snd (bnd m f p)) = sent p @ snd (converse_with N (sent p) call))"
    using assms(1) mp unfolding once_def by (metis snd_conv)
qed

lemma silent_then_once:
  assumes "silent m" and "\<And>x. once N R (f x)"
  shows "once N R (bnd m f)"
  unfolding once_def
proof
  fix p
  obtain r p' where mp: "m p = (r, p')" by (cases "m p")
  have "sent p' = sent p" using silent_sent [OF assms(1), of p] mp by simp
  then show "sent (snd (bnd m f p)) = sent p \<or>
      (\<exists>call. R call \<and> sent (snd (bnd m f p)) = sent p @ snd (converse_with N (sent p) call))"
  proof (cases r)
    case (Inl e)
    then show ?thesis using mp \<open>sent p' = sent p\<close> by (simp add: bnd_def)
  next
    case (Inr x)
    have "bnd m f p = f x p'" using mp Inr by (simp add: bnd_def)
    then show ?thesis using assms(2) [of x] \<open>sent p' = sent p\<close> unfolding once_def by metis
  qed
qed

lemma once_send: "R (client, req) \<Longrightarrow> once N R (send N client req)"
  unfolding once_def send_def split_def by (auto intro!: exI [of _ client] exI [of _ req])

lemma once_case_option: "once N R a \<Longrightarrow> (\<And>x. once N R (f x)) \<Longrightarrow> once N R (case v of None \<Rightarrow> a | Some x \<Rightarrow> f x)"
  by (cases v) simp_all

end
