(* ===== verification/EncClassifier.thy ===== *)
theory EncClassifier
  imports GoNet
begin

text \<open>
  The external node classifier (cmd/enc): puppetserver runs it with a certname, it asks an HTTP
  service and prints the classification, or a cached one. The process has files and the
  requests it sent; encoders, decoders, the network and the success of writes are parameters.
\<close>

section \<open>Data\<close>

record ENCConfig =
  enc_URL :: string
  enc_Method :: string
  enc_Path :: string
  enc_Body :: string
  enc_ResponseFormat :: string
  enc_TimeoutSeconds :: int
  enc_Auth :: AuthConfig
  cache_Enabled :: bool
  cache_Directory :: string
  enc_SSL :: SSLConfig

record ENCResult =
  Classes :: any
  Parameters :: "(string \<times> any) list"
  Environment :: string

text \<open>The error type notFoundError and every other error, with its text.\<close>

datatype enc_error = notFoundError string | otherError string

text \<open>
  What the process calls besides the network: the YAML decoders of the configuration and of a
  facts file (its values, if any), the decoders and the encoder of a result, os.MkdirAll, and
  os.WriteFile, which tells whether it succeeded and what the file holds then.
\<close>

record enc_env =
  en_net :: net_env
  en_UnmarshalConfig :: "string \<Rightarrow> string + ENCConfig"
  en_UnmarshalFacts :: "string \<Rightarrow> string + (string \<times> any) list option"
  en_UnmarshalJSON :: "string \<Rightarrow> string + ENCResult"
  en_UnmarshalYAML :: "string \<Rightarrow> string + ENCResult"
  en_MarshalYAML :: "ENCResult \<Rightarrow> string + string"
  en_MkdirAll :: "string \<Rightarrow> bool"
  en_WriteFile :: "string \<Rightarrow> string \<Rightarrow> bool \<times> string option"

section \<open>The operations\<close>

definition validCertname :: "string \<Rightarrow> bool" where
  "validCertname certname =
     (certname \<noteq> [] \<and> list_all (\<lambda>c. is_alpha c \<or> is_digit c \<or> c \<in> set ''._-'') certname)"

definition validateCertname :: "string \<Rightarrow> string option" where
  "validateCertname certname =
     (if \<not> validCertname certname
      then Some (''invalid certname '' @ Quote certname @ '': must match [a-zA-Z0-9._-]+'') else None)"

definition loadENCConfig :: "enc_env \<Rightarrow> string \<Rightarrow> process \<Rightarrow> string + ENCConfig" where
  "loadENCConfig E path p =
     (case files p (Clean path) of
        None \<Rightarrow> Inl ''reading ENC config''
      | Some data \<Rightarrow>
         (case en_UnmarshalConfig E data of
            Inl e \<Rightarrow> Inl (''parsing ENC config: '' @ e)
          | Inr cfg \<Rightarrow>
             (let cfg1 = (if enc_TimeoutSeconds cfg = 0 then cfg \<lparr> enc_TimeoutSeconds := 10 \<rparr> else cfg);
                  cfg2 = (if enc_Method cfg1 = [] then cfg1 \<lparr> enc_Method := ''GET'' \<rparr> else cfg1)
              in Inr (if enc_ResponseFormat cfg2 = []
                      then cfg2 \<lparr> enc_ResponseFormat := ''yaml'' \<rparr> else cfg2))))"

definition loadFacts :: "enc_env \<Rightarrow> string \<Rightarrow> process \<Rightarrow> (string \<times> any) list" where
  "loadFacts E certname p =
     (let safeName = Base certname;
          factsPath = JoinPath [''/opt/puppetlabs/server/data/puppetserver/yaml/facts'', safeName @ ''.yaml'']
      in case files p (Clean factsPath) of
           None \<Rightarrow> []
         | Some data \<Rightarrow>
            (case en_UnmarshalFacts E data of
               Inl _ \<Rightarrow> []
             | Inr None \<Rightarrow> []
             | Inr (Some values) \<Rightarrow> values))"

definition buildRequestBody :: "enc_env \<Rightarrow> string \<Rightarrow> string \<Rightarrow> process \<Rightarrow> string + string" where
  "buildRequestBody E bodyType certname p =
     (if bodyType = ''certname'' then
        n_Marshal (en_net E) (AnyMap [(''certname'', AnyString certname)])
      else if bodyType = ''facts'' then
        n_Marshal (en_net E) (AnyMap [(''certname'', AnyString certname),
                                      (''facts'', AnyMap (loadFacts E certname p))])
      else Inr [])"

definition normalizeResponse :: "enc_env \<Rightarrow> string \<Rightarrow> string \<Rightarrow> string + string" where
  "normalizeResponse E body format =
     (case (if format = ''json'' then
              (case en_UnmarshalJSON E body of Inl e \<Rightarrow> Inl (''parsing JSON response: '' @ e) | r \<Rightarrow> r)
            else if format = ''yaml'' then
              (case en_UnmarshalYAML E body of Inl e \<Rightarrow> Inl (''parsing YAML response: '' @ e) | r \<Rightarrow> r)
            else Inl (''unsupported response format: '' @ format)) of
        Inl e \<Rightarrow> Inl e
      | Inr result \<Rightarrow>
         (let result' = (if Classes result = Nil then result \<lparr> Classes := AnyMap [] \<rparr> else result)
          in case en_MarshalYAML E result' of
               Inl e \<Rightarrow> Inl (''marshalling ENC result: '' @ e)
             | Inr out \<Rightarrow> Inr out))"

definition enc_buildHTTPClient :: "enc_env \<Rightarrow> ENCConfig \<Rightarrow> (process, string, tls_client) op" where
  "enc_buildHTTPClient E cfg =
     build_client (en_net E) (enc_Auth cfg) (enc_SSL cfg) (enc_TimeoutSeconds cfg)"

text \<open>fmt.Errorf with a prefix: the result is not a notFoundError.\<close>

definition prefixed :: "string \<Rightarrow> (process, string, 'a) op \<Rightarrow> (process, enc_error, 'a) op" where
  "prefixed msg m = (\<lambda>p. case m p of
     (Inl e, p') \<Rightarrow> (Inl (otherError (msg @ '': '' @ e)), p') | (Inr x, p') \<Rightarrow> (Inr x, p'))"

definition classifier_url :: "ENCConfig \<Rightarrow> string \<Rightarrow> string" where
  "classifier_url cfg certname =
     enc_URL cfg @ ReplaceAll (enc_Path cfg) ''{certname}'' (PathEscape certname)"

definition classifier_request :: "ENCConfig \<Rightarrow> string \<Rightarrow> string option \<Rightarrow> request" where
  "classifier_request cfg certname body =
     \<lparr> rq_Method = enc_Method cfg, rq_URL = classifier_url cfg certname,
       rq_Header = auth_header (enc_Auth cfg)
         (set_header ''Accept'' ''application/json, application/yaml, text/yaml''
           (if enc_Method cfg = ''POST'' \<and> enc_Body cfg \<noteq> []
            then set_header ''Content-Type'' ''application/json'' [] else [])),
       rq_Body = body \<rparr>"

definition classify :: "enc_env \<Rightarrow> ENCConfig \<Rightarrow> string \<Rightarrow> (process, enc_error, string) op" where
  "classify E cfg certname =
     (case validateCertname certname of
        Some e \<Rightarrow> throw (otherError e)
      | None \<Rightarrow>
     bnd (if enc_Method cfg = ''POST'' \<and> enc_Body cfg \<noteq> [] then
            prefixed ''building request body''
              (\<lambda>p. (map_sum id Some (buildRequestBody E (enc_Body cfg) certname p), p))
          else ret None) (\<lambda>body.
     let reqURL = classifier_url cfg certname;
         req = classifier_request cfg certname body in
     case n_NewRequest (en_net E) (enc_Method cfg) reqURL of
       Some e \<Rightarrow> throw (otherError (''creating request: '' @ e))
     | None \<Rightarrow>
     bnd (prefixed ''building HTTP client'' (enc_buildHTTPClient E cfg)) (\<lambda>client.
     bnd (prefixed ''HTTP request failed'' (send (en_net E) client req)) (\<lambda>(status, content).
     case content of
       None \<Rightarrow> throw (otherError ''reading response'')
     | Some respBody \<Rightarrow>
        if status = 404 then throw (notFoundError (''HTTP 404: '' @ reqURL))
        else if status < 200 \<or> 300 \<le> status then
          throw (otherError (''HTTP '' @ Itoa (int status) @ '': '' @ respBody))
        else (case normalizeResponse E respBody (enc_ResponseFormat cfg) of
                Inl e \<Rightarrow> throw (otherError e)
              | Inr out \<Rightarrow> ret out)))))"

definition cache_path :: "string \<Rightarrow> string \<Rightarrow> string" where
  "cache_path dir certname = JoinPath [dir, Base certname @ ''.yaml'']"

definition saveCache :: "enc_env \<Rightarrow> string \<Rightarrow> string \<Rightarrow> string \<Rightarrow> process \<Rightarrow> process" where
  "saveCache E dir certname data p =
     (if \<not> en_MkdirAll E dir then p
      else p \<lparr> files := (files p)
             (cache_path dir certname := snd (en_WriteFile E (cache_path dir certname) data)) \<rparr>)"

definition readCache :: "string \<Rightarrow> string \<Rightarrow> process \<Rightarrow> string option" where
  "readCache dir certname p = files p (Clean (cache_path dir certname))"

text \<open>The exit code and standard output, from the --config flag and the other arguments.\<close>

definition enc_main :: "enc_env \<Rightarrow> string option \<Rightarrow> string list \<Rightarrow> process \<Rightarrow> (nat \<times> string) \<times> process" where
  "enc_main E configFlag args p =
     (case args of
        [] \<Rightarrow> ((2, []), p)
      | certname # _ \<Rightarrow>
         (case loadENCConfig E (case configFlag of None \<Rightarrow> ''/etc/puppetlabs/puppet/enc.yaml''
                                | Some path \<Rightarrow> path) p of
            Inl _ \<Rightarrow> ((2, []), p)
          | Inr cfg \<Rightarrow>
             (case classify E cfg certname p of
                (Inl e, p') \<Rightarrow>
                  (case (if cache_Enabled cfg then readCache (cache_Directory cfg) certname p' else None) of
                     Some cached \<Rightarrow> ((0, cached), p')
                   | None \<Rightarrow>
                      (case e of
                         notFoundError _ \<Rightarrow> ((1, []), p')
                       | otherError _ \<Rightarrow> ((2, []), p')))
              | (Inr result, p') \<Rightarrow>
                  ((0, result), if cache_Enabled cfg
                                then saveCache E (cache_Directory cfg) certname result p' else p'))))"

section \<open>Certnames and paths\<close>

lemma validCertname_file: "validCertname c \<Longrightarrow> file_name (c @ ''.yaml'') \<and> Base c = c"
proof -
  assume c: "validCertname c"
  then have slash: "CHR ''/'' \<notin> set c"
    by (auto simp: validCertname_def list_all_iff is_alpha_def is_digit_def)
  then have "Base c = c" using c Base_plain by (simp add: validCertname_def)
  moreover have "file_name (c @ ''.yaml'')"
    using slash by (cases c) (auto simp: file_name_def)
  ultimately show ?thesis by simp
qed

lemma validCertname_escape: "validCertname c \<Longrightarrow> PathEscape c = c"
  by (rule PathEscape_safe) (auto simp: validCertname_def list_all_iff path_safe_def)

lemma cache_path_clean: "Clean (cache_path dir c) = cache_path dir c"
  by (auto simp: cache_path_def JoinPath_def)

lemma cache_path_inject:
  assumes "validCertname c" and "validCertname d" and "cache_path dir c = cache_path dir d"
  shows "c = d"
  using JoinPath_file_inject [of dir "c @ ''.yaml''" "d @ ''.yaml''"] assms
    validCertname_file [OF assms(1)] validCertname_file [OF assms(2)]
  by (simp add: cache_path_def)

section \<open>What a classification does\<close>

lemma only_prefixed [only_rules]: "only hs P m \<Longrightarrow> only hs P (prefixed msg m)"
  by (rule onlyI) (auto simp: prefixed_def split: prod.splits sum.splits dest: onlyD)

lemma keeps_prefixed [keeps_rules]: "keeps I m \<Longrightarrow> keeps I (prefixed msg m)"
  by (auto simp: keeps_def prefixed_def split: prod.split sum.split)

lemma classify_files: "files (snd (classify E cfg c p)) = files p"
proof -
  have pure: "keeps (\<lambda>q. files q = files p) (\<lambda>q. (f q, q))" for f :: "process \<Rightarrow> string + string option"
    by (simp add: keeps_def)
  have "keeps (\<lambda>q. files q = files p) (classify E cfg c)"
    unfolding classify_def enc_buildHTTPClient_def Let_def
    by (intro keeps_rules pure keeps_send) simp
  then show ?thesis by (simp add: keeps_def)
qed

lemma classify_invalid: "\<not> validCertname c \<Longrightarrow> \<exists>e. classify E cfg c p = (Inl (otherError e), p)"
  by (simp add: classify_def validateCertname_def throw_def)

lemma once_prefixed: "once N R m \<Longrightarrow> once N R (prefixed msg m)"
  by (simp add: once_def prefixed_def split: prod.split sum.split) (metis snd_conv)

text \<open>The one request a classification makes of its own accord.\<close>

definition classifier_call :: "ENCConfig \<Rightarrow> string \<Rightarrow> tls_client \<times> request \<Rightarrow> bool" where
  "classifier_call cfg certname = (\<lambda>(client, req).
     rq_Method req = enc_Method cfg \<and> rq_URL req = classifier_url cfg certname)"

lemma classify_once: "once (en_net E) (classifier_call cfg c) (classify E cfg c)"
proof -
  have pure: "only sent Q (\<lambda>q. (f q, q))" for Q and f :: "process \<Rightarrow> string + string option"
    by (simp add: only_def)
  have client: "silent (prefixed msg (enc_buildHTTPClient E cfg))" for msg
    unfolding silent_def enc_buildHTTPClient_def by (intro only_rules)
  have body: "silent (if b then prefixed msg (\<lambda>q. (f q, q)) else ret None)"
    for b msg and f :: "process \<Rightarrow> string + string option"
    unfolding silent_def by (intro only_rules pure)
  have answer: "silent (case content of None \<Rightarrow> throw e | Some respBody \<Rightarrow>
      if A then throw f else if B then throw (g respBody)
      else (case h respBody of Inl x \<Rightarrow> throw (otherError x) | Inr y \<Rightarrow> ret y))"
    for content :: "string option" and e f and A B and g and h :: "string \<Rightarrow> string + string"
    unfolding silent_def by (intro only_rules)
  have call: "classifier_call cfg c (client, classifier_request cfg c body)" for client body
    by (simp add: classifier_call_def classifier_request_def)
  show ?thesis
    unfolding classify_def Let_def split_def
    by (intro once_case_option once_silent [OF silentI] silent_then_once [OF body]
        silent_then_once [OF client] once_then_silent [OF once_prefixed [OF once_send]] answer call)
      (simp_all add: throw_def)
qed

section \<open>The program\<close>

definition enc_config :: "enc_env \<Rightarrow> string option \<Rightarrow> process \<Rightarrow> string + ENCConfig" where
  "enc_config E f p = loadENCConfig E
     (case f of None \<Rightarrow> ''/etc/puppetlabs/puppet/enc.yaml'' | Some path \<Rightarrow> path) p"

lemma enc_main_cases:
  "enc_main E f (c # rest) p = (case enc_config E f p of
     Inl _ \<Rightarrow> ((2, []), p)
   | Inr cfg \<Rightarrow> (case classify E cfg c p of
       (Inl e, p') \<Rightarrow>
         (case (if cache_Enabled cfg then readCache (cache_Directory cfg) c p' else None) of
            Some cached \<Rightarrow> ((0, cached), p')
          | None \<Rightarrow> ((case e of notFoundError _ \<Rightarrow> 1 | otherError _ \<Rightarrow> 2, []), p'))
     | (Inr out, p') \<Rightarrow> ((0, out), if cache_Enabled cfg
         then saveCache E (cache_Directory cfg) c out p' else p')))"
  by (auto simp: enc_main_def enc_config_def split: sum.split prod.split option.split enc_error.split)

lemma saveCache_sent [simp]: "sent (saveCache E dir c out p) = sent p"
  by (simp add: saveCache_def)

lemma enc_main_files:
  "files (snd (enc_main E f (c # rest) p)) q = files p q \<or>
   (\<exists>cfg. enc_config E f p = Inr cfg \<and> validCertname c \<and> q = cache_path (cache_Directory cfg) c)"
proof (cases "enc_config E f p")
  case (Inr cfg)
  obtain r p' where cl: "classify E cfg c p = (r, p')" by (cases "classify E cfg c p")
  have files: "files p' = files p" using classify_files [of E cfg c p] cl by simp
  show ?thesis
  proof (cases r)
    case (Inl e)
    then show ?thesis using Inr cl files by (simp add: enc_main_cases split: option.split)
  next
    case r: (Inr out)
    then have "validCertname c" using classify_invalid [of c E cfg p] cl by auto
    then show ?thesis using Inr cl files r by (auto simp: enc_main_cases saveCache_def)
  qed
qed (simp add: enc_main_cases)

text \<open>C39: what reaches the network. One run holds at most one conversation with the classifier, and
  only for a certname of letters, digits, dots, dashes and underscores. It begins with the
  configured method at the configured URL with the certname put literally into the path template:
  no certname can change any other part of the URL. At most nine further requests follow, each
  only because the answer before it was a redirect, and to the URL that answer pointed to, so that
  a classifier that does not redirect gets one request; the headers Authorization and Cookie never
  follow to another domain.\<close>

theorem enc_requests_confined:
  "\<exists>calls. sent (snd (enc_main E f (certname # rest) p)) = sent p @ calls \<and> length calls \<le> 10 \<and>
     (calls = [] \<or> validCertname certname \<and>
        (\<exists>cfg client req later. enc_config E f p = Inr cfg \<and> calls = (client, req) # later \<and>
           rq_Method req = enc_Method cfg \<and>
           rq_URL req = enc_URL cfg @ ReplaceAll (enc_Path cfg) ''{certname}'' certname \<and>
           redirect_chain (en_net E) (sent p) calls \<and>
           (case n_RoundTrip (en_net E) (sent p) client req of
              Inl _ \<Rightarrow> later = [] | Inr a \<Rightarrow> is_redirect (an_Status a) \<or> later = []) \<and>
           list_all (\<lambda>(_, req'). n_SameDomain (en_net E) (rq_URL req) (rq_URL req') \<or>
             sget (rq_Header req') ''Authorization'' = None \<and> sget (rq_Header req') ''Cookie'' = None) later))"
proof (cases "enc_config E f p")
  case (Inr cfg)
  obtain r p' where cl: "classify E cfg certname p = (r, p')" by (cases "classify E cfg certname p")
  have run: "sent (snd (enc_main E f (certname # rest) p)) = sent p'"
    using Inr cl by (cases r) (simp_all add: enc_main_cases split: option.split)
  show ?thesis
  proof (cases "sent p' = sent p")
    case True
    then show ?thesis using run by simp
  next
    case False
    then have valid: "validCertname certname" using classify_invalid [of certname E cfg p] cl by auto
    obtain client req where call: "classifier_call cfg certname (client, req)"
        "sent p' = sent p @ snd (converse_with (en_net E) (sent p) (client, req))"
      using classify_once [of E cfg certname] cl False unfolding once_def by (metis snd_conv surj_pair)
    define calls where "calls = snd (converse_with (en_net E) (sent p) (client, req))"
    note conv = converse_props [of "en_net E" "sent p" "(client, req)", folded calls_def]
    then obtain later where later: "calls = (client, req) # later" by (cases calls) simp_all
    have first: "case n_RoundTrip (en_net E) (sent p) client req of
        Inl _ \<Rightarrow> later = [] | Inr a \<Rightarrow> is_redirect (an_Status a) \<or> later = []"
      using conv later by (cases later) (auto split: sum.splits)
    have "list_all (\<lambda>(_, req'). n_SameDomain (en_net E) (rq_URL req) (rq_URL req') \<or>
        sget (rq_Header req') ''Authorization'' = None \<and> sget (rq_Header req') ''Cookie'' = None) later"
      using conv later by (auto simp: guards_credentials_def sensitive_headers_def list_all_iff)
    then show ?thesis
      using run call(2) conv first later valid Inr call(1) validCertname_escape [OF valid]
      by (intro exI [of _ calls]) (simp add: calls_def [symmetric] classifier_call_def classifier_url_def)
  qed
qed (simp add: enc_main_cases)

text \<open>the cache of one node is never touched by a run for another one: whatever certname the
  program is called with, the entry of every other valid certname is read as before.\<close>

theorem enc_cache_isolated:
  assumes "validCertname other" and "other \<noteq> certname"
    and "enc_config E f p = Inr cfg"
  shows "readCache (cache_Directory cfg) other (snd (enc_main E f (certname # rest) p)) =
    readCache (cache_Directory cfg) other p"
  using enc_main_files [of E f certname rest p "cache_path (cache_Directory cfg) other"] assms
    cache_path_inject [of other certname "cache_Directory cfg"]
  by (auto simp: readCache_def cache_path_clean)

text \<open>a cached classification survives an outage unchanged. When a run with an enabled cache
  succeeded and its write of the cache did, a later run for the same certname whose query fails
  for whatever reason prints the same bytes and exits with 0.\<close>

theorem enc_cache_roundtrip:
  assumes "enc_config E f p = Inr cfg" and "cache_Enabled cfg" and "validCertname c"
    and "classify E cfg c p = (Inr out, p1)"
    and "en_MkdirAll E (cache_Directory cfg)"
    and "en_WriteFile E (cache_path (cache_Directory cfg) c) out = (True, Some out)"
    and "enc_config E f q = Inr cfg"
    and "files q (cache_path (cache_Directory cfg) c) =
         files (snd (enc_main E f (c # rest) p)) (cache_path (cache_Directory cfg) c)"
    and "classify E cfg c q = (Inl e, q1)"
  shows "fst (enc_main E f (c # rest) p) = (0, out) \<and> fst (enc_main E f (c # rest) q) = (0, out)"
proof -
  have "files q1 = files q" using classify_files [of E cfg c q] assms(9) by simp
  moreover have "files q (cache_path (cache_Directory cfg) c) = Some out"
    using assms by (simp add: enc_main_cases saveCache_def)
  ultimately show ?thesis
    using assms by (simp add: enc_main_cases readCache_def cache_path_clean)
qed

text \<open>the exit code 1, which tells puppetserver that the node is unknown, is given exactly when
  the service answered 404 and no cached classification is used: with the cache enabled, a node
  that was removed from the classifier keeps its last classification for ever.\<close>

theorem enc_not_found_code:
  "fst (fst (enc_main E f (c # rest) p)) = 1 \<longleftrightarrow>
   (\<exists>cfg m p'. enc_config E f p = Inr cfg \<and> classify E cfg c p = (Inl (notFoundError m), p') \<and>
      (if cache_Enabled cfg then readCache (cache_Directory cfg) c p = None else True))"
proof (cases "enc_config E f p")
  case (Inr cfg)
  obtain r p' where cl: "classify E cfg c p = (r, p')" by (cases "classify E cfg c p")
  have files: "files p' = files p" using classify_files [of E cfg c p] cl by simp
  then have "readCache (cache_Directory cfg) c p' = readCache (cache_Directory cfg) c p"
    by (simp add: readCache_def)
  then show ?thesis using Inr cl
    by (cases r) (auto simp: enc_main_cases split: option.split enc_error.split)
qed (simp add: enc_main_cases)

text \<open>a certname that the validation refuses is answered from the cache of another node. For a
  name with a slash no request is made, but the fallback reads the cache entry of its last path
  component, so that the classification of that other, valid node is printed with exit code 0.\<close>

theorem enc_refused_name_served:
  assumes "enc_config E f p = Inr cfg" and "cache_Enabled cfg" and "validCertname node"
    and "readCache (cache_Directory cfg) node p = Some out"
  shows "enc_main E f ((front @ ''/'' @ node) # rest) p = ((0, out), p)"
proof -
  let ?c = "front @ ''/'' @ node"
  have slash: "CHR ''/'' \<notin> set node" "node \<noteq> []"
    using assms(3) by (auto simp: validCertname_def list_all_iff is_alpha_def is_digit_def)
  have "\<not> validCertname ?c"
    by (simp add: validCertname_def is_alpha_def is_digit_def)
  then obtain e where cl: "classify E cfg ?c p = (Inl (otherError e), p)"
    using classify_invalid by blast
  have "dropWhile (\<lambda>x. x = CHR ''/'') (rev ?c) = rev ?c"
    using slash by (cases "rev node") (auto simp: dropWhile_append)
  then have "TrimRight CHR ''/'' ?c = ?c" by (simp add: TrimRight_def)
  then have "Base ?c = node"
    using SplitOn_snoc [OF slash(1), of front] by (simp add: Base_def)
  then have "readCache (cache_Directory cfg) ?c p = Some out"
    using assms(4) validCertname_file [OF assms(3)] by (simp add: readCache_def cache_path_def)
  then show ?thesis using assms(1,2) cl by (simp add: enc_main_cases)
qed

section \<open>At concrete inputs\<close>

text \<open>A classifier that answers the first request and fails on every later one.\<close>

definition demo_enc_config :: ENCConfig where
  "demo_enc_config = \<lparr> enc_URL = ''https://enc'', enc_Method = ''GET'', enc_Path = ''/n/{certname}'',
     enc_Body = [], enc_ResponseFormat = ''yaml'', enc_TimeoutSeconds = 5,
     enc_Auth = \<lparr> au_Type = [], au_Header = [], au_Token = [], au_Username = [], au_Password = [] \<rparr>,
     cache_Enabled = True, cache_Directory = ''/cache'',
     enc_SSL = \<lparr> ssl_CertFile = [], ssl_KeyFile = [], ssl_CAFile = [] \<rparr> \<rparr>"

definition demo_net :: net_env where
  "demo_net = \<lparr> n_AppendCertsFromPEM = (\<lambda>_. True), n_X509KeyPair = (\<lambda>_ _. None),
     n_NewRequest = (\<lambda>_ _. None),
     n_RoundTrip = (\<lambda>before _ _. if before = []
       then Inr \<lparr> an_Status = 200, an_Location = [], an_Body = Some ''classes'' \<rparr> else Inl ''down''),
     n_Resolve = (\<lambda>_ url. Some url), n_SameDomain = (=), n_Referer = (\<lambda>_ _ _. []),
     n_Marshal = (\<lambda>_. Inr []) \<rparr>"

definition demo_enc :: enc_env where
  "demo_enc = \<lparr> en_net = demo_net, en_UnmarshalConfig = (\<lambda>_. Inr demo_enc_config),
     en_UnmarshalFacts = (\<lambda>_. Inr None), en_UnmarshalJSON = (\<lambda>_. Inl ''no''),
     en_UnmarshalYAML = (\<lambda>s. Inr \<lparr> Classes = AnyString s, Parameters = [], Environment = [] \<rparr>),
     en_MarshalYAML = (\<lambda>r. Inr (as_string (Classes r))), en_MkdirAll = (\<lambda>_. True),
     en_WriteFile = (\<lambda>_ data. (True, Some data)) \<rparr>"

definition demo_files :: "string \<Rightarrow> string option" where
  "demo_files path = (if path = ''/c'' then Some ''config'' else None)"

lemma demo_enc_loads: "files p ''/c'' = Some d \<Longrightarrow> enc_config demo_enc (Some ''/c'') p = Inr demo_enc_config"
  by (simp add: enc_config_def loadENCConfig_def demo_enc_def demo_enc_config_def Clean_def)

lemma demo_classify:
  "classify demo_enc demo_enc_config ''web01'' p =
     (if sent p = [] then Inr ''classes'' else Inl (otherError ''HTTP request failed: down''),
      p \<lparr> sent := sent p @ [(\<lparr> tc_Timeout = 5000000000, tc_RootCAs = None, tc_Certificate = None \<rparr>,
        classifier_request demo_enc_config ''web01'' None)] \<rparr>)"
  by (simp add: classify_def validateCertname_def validCertname_def is_alpha_def is_digit_def
      demo_enc_def demo_enc_config_def demo_net_def enc_buildHTTPClient_def build_client_def
      prefixed_def bnd_def ret_def throw_def send_def converse_with_def exchange.simps next_hop_def
      is_redirect_def normalizeResponse_def as_string_def wrap64_def Let_def)

theorem enc_cache_roundtrip_witness:
  "let p = \<lparr> files = demo_files, sent = [] \<rparr>; q = snd (enc_main demo_enc (Some ''/c'') [''web01''] p)
   in fst (enc_main demo_enc (Some ''/c'') [''web01''] p) = (0, ''classes'') \<and>
      fst (enc_main demo_enc (Some ''/c'') [''web01''] q) = (0, ''classes'')"
proof -
  let ?p = "\<lparr> files = demo_files, sent = [] \<rparr>"
  let ?q = "snd (enc_main demo_enc (Some ''/c'') [''web01''] ?p)"
  have load: "enc_config demo_enc (Some ''/c'') ?p = Inr demo_enc_config"
    by (rule demo_enc_loads) (simp add: demo_files_def)
  have enabled: "cache_Enabled demo_enc_config" "en_MkdirAll demo_enc (cache_Directory demo_enc_config)"
    "en_WriteFile demo_enc path out = (True, Some out)" for path out
    by (simp_all add: demo_enc_config_def demo_enc_def)
  have valid: "validCertname ''web01''" by (simp add: validCertname_def is_alpha_def is_digit_def)
  have "cache_path (cache_Directory demo_enc_config) ''web01'' \<noteq> ''/c''"
    by (simp add: cache_path_def JoinPath_def Clean_def Base_def TrimRight_def demo_enc_config_def)
  then have "files ?q ''/c'' = Some ''config''"
    using enc_main_files [of demo_enc "Some ''/c''" "''web01''" "[]" ?p "''/c''"] load
    by (auto simp: demo_files_def)
  then have load': "enc_config demo_enc (Some ''/c'') ?q = Inr demo_enc_config"
    using demo_enc_loads by blast
  have one: "classify demo_enc demo_enc_config ''web01'' ?p = (Inr ''classes'', snd (classify demo_enc demo_enc_config ''web01'' ?p))"
    by (simp add: demo_classify)
  have "sent ?q \<noteq> []"
    using load by (simp add: enc_main_cases demo_classify)
  then have two: "classify demo_enc demo_enc_config ''web01'' ?q =
      (Inl (otherError ''HTTP request failed: down''), snd (classify demo_enc demo_enc_config ''web01'' ?q))"
    by (simp add: demo_classify)
  show ?thesis
    using enc_cache_roundtrip [OF load enabled(1) valid one enabled(2) enabled(3) load' refl two]
    by (simp only: Let_def)
qed

theorem enc_cache_isolated_witness:
  "readCache ''/cache'' ''web02'' (snd (enc_main demo_enc (Some ''/c'') [''web01'']
     \<lparr> files = demo_files(''/cache/web02.yaml'' := Some ''mine''), sent = [] \<rparr>)) =
   readCache ''/cache'' ''web02'' \<lparr> files = demo_files(''/cache/web02.yaml'' := Some ''mine''), sent = [] \<rparr>"
proof -
  let ?p = "\<lparr> files = demo_files(''/cache/web02.yaml'' := Some ''mine''), sent = [] \<rparr>"
  have load: "enc_config demo_enc (Some ''/c'') ?p = Inr demo_enc_config"
    by (rule demo_enc_loads) (simp add: demo_files_def)
  have valid: "validCertname ''web02''" "''web02'' \<noteq> ''web01''"
    by (simp_all add: validCertname_def is_alpha_def is_digit_def)
  show ?thesis
    using enc_cache_isolated [OF valid load, of "[]"] by (simp add: demo_enc_config_def)
qed

theorem enc_refused_name_served_witness:
  "enc_main demo_enc (Some ''/c'') [''../../x/web02'']
     \<lparr> files = demo_files(''/cache/web02.yaml'' := Some ''mine''), sent = [] \<rparr> =
   ((0, ''mine''), \<lparr> files = demo_files(''/cache/web02.yaml'' := Some ''mine''), sent = [] \<rparr>)"
proof -
  let ?p = "\<lparr> files = demo_files(''/cache/web02.yaml'' := Some ''mine''), sent = [] \<rparr>"
  have load: "enc_config demo_enc (Some ''/c'') ?p = Inr demo_enc_config"
    by (rule demo_enc_loads) (simp add: demo_files_def)
  have valid: "validCertname ''web02''" by (simp add: validCertname_def is_alpha_def is_digit_def)
  have enabled: "cache_Enabled demo_enc_config" by (simp add: demo_enc_config_def)
  have "readCache (cache_Directory demo_enc_config) ''web02'' ?p = Some ''mine''"
    by (simp add: readCache_def cache_path_def JoinPath_def Clean_def Base_def TrimRight_def
        demo_enc_config_def)
  from enc_refused_name_served [OF load enabled valid this, of "''../../x''" "[]"]
  show ?thesis by simp
qed

end
