(* ===== verification/ReportForward.thy ===== *)
theory ReportForward
  imports GoNet
begin

text \<open>
  The report processor (cmd/report): puppetserver pipes a report into it, and it forwards the
  report to every configured endpoint, transformed into PuppetDB's wire format where the
  endpoint asks for it. JSON and YAML, times, float formatting and the network are parameters;
  the order in which Go iterates over a map is the order of its association list.
\<close>

section \<open>Data\<close>

record HeaderConfig =
  hd_Name :: string
  hd_Value :: string

record EndpointConfig =
  ep_Name :: string
  ep_Processor :: string
  ep_URL :: string
  ep_TimeoutSeconds :: int
  ep_Auth :: AuthConfig
  ep_SSL :: SSLConfig
  ep_Headers :: "HeaderConfig list"

record ReportConfig =
  Endpoints :: "EndpointConfig list"

record PuppetDBCommand =
  Command :: string
  Version :: int
  Payload :: "(string \<times> any) list"

text \<open>
  What the process calls besides the network: standard input (None for a read error), the
  decoders, the encoder of a command, time.Parse and Format for RFC 3339 (nanoseconds since the
  epoch), time.Duration of a float64 number of seconds, the %v verb on values that are neither
  nil nor strings, and the clock.
\<close>

record report_env =
  re_net :: net_env
  re_Stdin :: "string option"
  re_UnmarshalConfig :: "string \<Rightarrow> string + ReportConfig"
  re_UnmarshalReport :: "string \<Rightarrow> string + (string \<times> any) list"
  re_MarshalCommand :: "PuppetDBCommand \<Rightarrow> string + string"
  re_ParseTime :: "string \<Rightarrow> int option"
  re_FormatTime :: "int \<Rightarrow> string"
  re_SecondsToDuration :: "rat \<Rightarrow> int"
  re_ShowValue :: "any \<Rightarrow> string"
  re_Now :: int

section \<open>The PuppetDB wire format\<close>

definition anyToString :: "report_env \<Rightarrow> any \<Rightarrow> string" where
  "anyToString E v = (case v of Nil \<Rightarrow> [] | AnyString s \<Rightarrow> s | _ \<Rightarrow> re_ShowValue E v)"

text \<open>A metric tuple [name, label, value] with at least three elements.\<close>

definition metric_tuple :: "any \<Rightarrow> (string \<times> any) option" where
  "metric_tuple v = (case v of
     AnyList (n # l # x # _) \<Rightarrow> Some (as_string n, x) | _ \<Rightarrow> None)"

fun total_of :: "any list \<Rightarrow> rat" where
  "total_of [] = 0"
| "total_of (v # vs) =
     (case metric_tuple v of
        Some (n, x) \<Rightarrow>
          if n = ''total'' then (case x of AnyNumber q \<Rightarrow> q | _ \<Rightarrow> 0) else total_of vs
      | None \<Rightarrow> total_of vs)"

definition getRunDuration :: "(string \<times> any) list \<Rightarrow> rat" where
  "getRunDuration report =
     (case field report ''metrics'' of
        AnyMap metrics \<Rightarrow>
          (case field metrics ''time'' of
             AnyMap timeMetric \<Rightarrow>
               (case field timeMetric ''values'' of AnyList values \<Rightarrow> total_of values | _ \<Rightarrow> 0)
           | _ \<Rightarrow> 0)
      | _ \<Rightarrow> 0)"

definition calculateEndTime :: "report_env \<Rightarrow> (string \<times> any) list \<Rightarrow> string" where
  "calculateEndTime E report =
     (let startTimeStr = as_string (field report ''time'') in
      if startTimeStr = [] then []
      else (case re_ParseTime E startTimeStr of
              None \<Rightarrow> startTimeStr
            | Some startTime \<Rightarrow>
                re_FormatTime E (startTime + re_SecondsToDuration E (getRunDuration report))))"

definition transform_event :: "report_env \<Rightarrow> (string \<times> any) list \<Rightarrow> any" where
  "transform_event E eMap = AnyMap
     [(''status'', field eMap ''status''), (''timestamp'', field eMap ''time''),
      (''name'', field eMap ''name''), (''property'', field eMap ''property''),
      (''new_value'', AnyString (anyToString E (field eMap ''desired_value''))),
      (''old_value'', AnyString (anyToString E (field eMap ''previous_value''))),
      (''corrective_change'', field eMap ''corrective_change''), (''message'', field eMap ''message'')]"

definition only_map :: "any \<Rightarrow> (string \<times> any) list option" where
  "only_map v = (case v of AnyMap m \<Rightarrow> Some m | _ \<Rightarrow> None)"

definition transformEvents :: "report_env \<Rightarrow> any \<Rightarrow> any list" where
  "transformEvents E events =
     (case events of
        AnyList es \<Rightarrow> List.map_filter (\<lambda>e. map_option (transform_event E) (only_map e)) es
      | _ \<Rightarrow> [])"

definition transform_resource :: "report_env \<Rightarrow> (string \<times> any) list \<Rightarrow> any" where
  "transform_resource E rsMap = AnyMap
     [(''skipped'', field rsMap ''skipped''), (''timestamp'', field rsMap ''time''),
      (''resource_type'', field rsMap ''resource_type''),
      (''resource_title'', AnyString (anyToString E (field rsMap ''title''))),
      (''file'', field rsMap ''file''), (''line'', field rsMap ''line''),
      (''containment_path'', field rsMap ''containment_path''),
      (''corrective_change'', field rsMap ''corrective_change''),
      (''events'', AnyList (transformEvents E (field rsMap ''events'')))]"

definition transformResources :: "report_env \<Rightarrow> any \<Rightarrow> any list" where
  "transformResources E resourceStatuses =
     (case resourceStatuses of
        AnyMap statuses \<Rightarrow>
          List.map_filter (\<lambda>(_, rs). map_option (transform_resource E) (only_map rs)) statuses
      | _ \<Rightarrow> [])"

definition metric_entries :: "any \<Rightarrow> any list" where
  "metric_entries metricData =
     (case metricData of
        AnyMap mMap \<Rightarrow>
          (case field mMap ''values'' of
             AnyList values \<Rightarrow>
               map (\<lambda>(n, x). AnyMap [(''category'', AnyString (as_string (field mMap ''name''))),
                                     (''name'', AnyString n), (''value'', x)])
                 (List.map_filter metric_tuple values)
           | _ \<Rightarrow> [])
      | _ \<Rightarrow> [])"

text \<open>The slice is declared without a value, so it stays nil when no entry was appended; a metrics
  value that is no map gives the empty slice.\<close>

definition transformMetrics :: "any \<Rightarrow> any" where
  "transformMetrics metrics =
     (case metrics of
        AnyMap metricsMap \<Rightarrow>
          (let result = concat (map (\<lambda>(_, m). metric_entries m) metricsMap)
           in if result = [] then Nil else AnyList result)
      | _ \<Rightarrow> AnyList [])"

definition passed_fields :: "string list" where
  "passed_fields = [''puppet_version'', ''report_format'', ''configuration_version'',
     ''environment'', ''transaction_uuid'', ''status'', ''noop'', ''noop_pending'',
     ''corrective_change'', ''catalog_uuid'', ''code_id'', ''cached_catalog_status'', ''job_id'']"

definition wire_report :: "report_env \<Rightarrow> (string \<times> any) list \<Rightarrow> (string \<times> any) list" where
  "wire_report E report =
     (let w1 = sput ''certname'' (field report ''host'') [];
          w2 = sput ''start_time'' (field report ''time'') w1;
          w3 = sput ''end_time'' (AnyString (calculateEndTime E report)) w2;
          w4 = sput ''producer_timestamp'' (AnyString (re_FormatTime E (re_Now E))) w3;
          serverUsed = as_string (field report ''server_used'');
          w5 = sput ''producer''
                 (if serverUsed \<noteq> [] then AnyString serverUsed else field report ''host'') w4;
          w6 = fold (\<lambda>f w. case sget report f of None \<Rightarrow> w | Some v \<Rightarrow> sput f v w) passed_fields w5;
          w7 = sput ''resources'' (AnyList (transformResources E (field report ''resource_statuses''))) w6;
          w8 = sput ''metrics'' (transformMetrics (field report ''metrics'')) w7
      in sput ''logs'' (field report ''logs'') w8)"

definition transformToPuppetDB :: "report_env \<Rightarrow> string \<Rightarrow> string + string" where
  "transformToPuppetDB E reportJSON =
     (case re_UnmarshalReport E reportJSON of
        Inl e \<Rightarrow> Inl (''parsing report JSON: '' @ e)
      | Inr report \<Rightarrow>
          re_MarshalCommand E \<lparr> Command = ''store report'', Version = 8, Payload = wire_report E report \<rparr>)"

section \<open>Forwarding\<close>

definition loadReportConfig :: "report_env \<Rightarrow> string \<Rightarrow> process \<Rightarrow> string + ReportConfig" where
  "loadReportConfig E path p =
     (case files p (Clean path) of
        None \<Rightarrow> Inl ''reading report config''
      | Some data \<Rightarrow>
         (case re_UnmarshalConfig E data of
            Inl e \<Rightarrow> Inl (''parsing report config: '' @ e)
          | Inr cfg \<Rightarrow> Inr (cfg \<lparr> Endpoints := map (\<lambda>ep.
              if ep_TimeoutSeconds ep = 0 then ep \<lparr> ep_TimeoutSeconds := 30 \<rparr> else ep) (Endpoints cfg) \<rparr>)))"

definition report_buildHTTPClient :: "report_env \<Rightarrow> EndpointConfig \<Rightarrow> (process, string, tls_client) op" where
  "report_buildHTTPClient E endpoint =
     build_client (re_net E) (ep_Auth endpoint) (ep_SSL endpoint) (ep_TimeoutSeconds endpoint)"

definition endpoint_url :: "EndpointConfig \<Rightarrow> string" where
  "endpoint_url endpoint =
     (if ep_Processor endpoint = ''puppetdb'' then TrimRight CHR ''/'' (ep_URL endpoint) @ ''/pdb/cmd/v1''
      else ep_URL endpoint)"

definition endpoint_body :: "report_env \<Rightarrow> EndpointConfig \<Rightarrow> string \<Rightarrow> string + string" where
  "endpoint_body E endpoint reportJSON =
     (if ep_Processor endpoint = ''puppetdb'' then
        (case transformToPuppetDB E reportJSON of
           Inl e \<Rightarrow> Inl (''transforming to PuppetDB format: '' @ e) | Inr b \<Rightarrow> Inr b)
      else Inr reportJSON)"

definition endpoint_request :: "EndpointConfig \<Rightarrow> string \<Rightarrow> request" where
  "endpoint_request endpoint body =
     \<lparr> rq_Method = ''POST'', rq_URL = endpoint_url endpoint,
       rq_Header = fold (\<lambda>h. set_header (hd_Name h) (hd_Value h)) (ep_Headers endpoint)
         (auth_header (ep_Auth endpoint)
           (set_header ''Accept'' ''application/json''
             (set_header ''Content-Type'' ''application/json'' []))),
       rq_Body = Some body \<rparr>"

definition prefix_error :: "string \<Rightarrow> (process, string, 'a) op \<Rightarrow> (process, string, 'a) op" where
  "prefix_error msg m = (\<lambda>p. case m p of
     (Inl e, p') \<Rightarrow> (Inl (msg @ '': '' @ e), p') | (Inr x, p') \<Rightarrow> (Inr x, p'))"

definition forward :: "report_env \<Rightarrow> EndpointConfig \<Rightarrow> string \<Rightarrow> (process, string, unit) op" where
  "forward E endpoint reportJSON =
     (case endpoint_body E endpoint reportJSON of
        Inl e \<Rightarrow> throw e
      | Inr body \<Rightarrow>
     (case n_NewRequest (re_net E) ''POST'' (endpoint_url endpoint) of
        Some e \<Rightarrow> throw (''creating request: '' @ e)
      | None \<Rightarrow>
     bnd (prefix_error ''building HTTP client'' (report_buildHTTPClient E endpoint)) (\<lambda>client.
     bnd (prefix_error ''HTTP request failed''
           (send (re_net E) client (endpoint_request endpoint body))) (\<lambda>(status, content).
     case content of
       None \<Rightarrow> throw ''reading response''
     | Some respBody \<Rightarrow>
        if status < 200 \<or> 300 \<le> status then
          throw (''HTTP '' @ Itoa (int status) @ '': '' @ respBody)
        else ret ()))))"

text \<open>The loop of main: the errors of the endpoints, in their order.\<close>

fun forward_all :: "report_env \<Rightarrow> EndpointConfig list \<Rightarrow> string \<Rightarrow> process \<Rightarrow> string list \<times> process" where
  "forward_all E [] reportJSON p = ([], p)"
| "forward_all E (endpoint # rest) reportJSON p =
     (case forward E endpoint reportJSON p of (r, p') \<Rightarrow>
      case forward_all E rest reportJSON p' of (errs, p'') \<Rightarrow>
        ((case r of Inl e \<Rightarrow> [''endpoint '' @ ep_Name endpoint @ '': '' @ e] | Inr _ \<Rightarrow> []) @ errs, p''))"

definition report_main :: "report_env \<Rightarrow> string option \<Rightarrow> process \<Rightarrow> nat \<times> process" where
  "report_main E configFlag p =
     (case loadReportConfig E (case configFlag of None \<Rightarrow> ''/etc/puppetlabs/puppet/report-webhook.yaml''
                               | Some path \<Rightarrow> path) p of
        Inl _ \<Rightarrow> (2, p)
      | Inr cfg \<Rightarrow>
         (case re_Stdin E of
            None \<Rightarrow> (2, p)
          | Some reportJSON \<Rightarrow>
             if reportJSON = [] then (2, p)
             else (case forward_all E (Endpoints cfg) reportJSON p of (errs, p') \<Rightarrow>
                     (if errs \<noteq> [] then 2 else 0, p'))))"

section \<open>What is sent\<close>

text \<open>The request an endpoint gets, if its body, its URL and its client can be built.\<close>

definition attempt :: "report_env \<Rightarrow> string \<Rightarrow> process \<Rightarrow> EndpointConfig \<Rightarrow> (tls_client \<times> request) option" where
  "attempt E reportJSON p ep =
     (case endpoint_body E ep reportJSON of
        Inl _ \<Rightarrow> None
      | Inr body \<Rightarrow>
         if n_NewRequest (re_net E) ''POST'' (endpoint_url ep) \<noteq> None then None
         else (case fst (report_buildHTTPClient E ep p) of
                 Inl _ \<Rightarrow> None
               | Inr client \<Rightarrow> Some (client, endpoint_request ep body)))"

text \<open>What an endpoint's request leads to after the ones in the history, and whether it was accepted.\<close>

definition conversation :: "report_env \<Rightarrow> (tls_client \<times> request) list \<Rightarrow> tls_client \<times> request \<Rightarrow>
    (tls_client \<times> request) list" where
  "conversation E before call = snd (converse_with (re_net E) before call)"

definition accepted :: "report_env \<Rightarrow> (tls_client \<times> request) list \<Rightarrow> tls_client \<times> request \<Rightarrow> bool" where
  "accepted E before call =
     (case fst (converse_with (re_net E) before call) of
        Inl _ \<Rightarrow> False
      | Inr (status, content) \<Rightarrow> content \<noteq> None \<and> 200 \<le> status \<and> status < 300)"

fun conversations :: "report_env \<Rightarrow> (tls_client \<times> request) list \<Rightarrow> (tls_client \<times> request) list \<Rightarrow>
    (tls_client \<times> request) list list" where
  "conversations E before [] = []"
| "conversations E before (call # rest) =
     conversation E before call # conversations E (before @ conversation E before call) rest"

lemma client_state: "snd (report_buildHTTPClient E ep p) = p"
proof -
  have "keeps (\<lambda>q. q = p) (report_buildHTTPClient E ep)"
    unfolding report_buildHTTPClient_def by (intro keeps_rules)
  then show ?thesis by (simp add: keeps_def)
qed

lemma client_files: "files p = files q \<Longrightarrow> fst (report_buildHTTPClient E ep p) = fst (report_buildHTTPClient E ep q)"
  by (simp add: report_buildHTTPClient_def build_client_def bnd_def reads_def read_file_def ret_def throw_def
      split: option.split)

lemma attempt_files: "files p = files q \<Longrightarrow> attempt E json p ep = attempt E json q ep"
  unfolding attempt_def by (subst client_files) auto

lemma forward_result:
  "forward E ep json p = (case attempt E json p ep of
     None \<Rightarrow> (fst (forward E ep json p), p)
   | Some call \<Rightarrow> (if accepted E (sent p) call then Inr () else fst (forward E ep json p),
                  p \<lparr> sent := sent p @ conversation E (sent p) call \<rparr>)) \<and>
   (isl (fst (forward E ep json p)) \<longleftrightarrow>
      (case attempt E json p ep of None \<Rightarrow> True | Some call \<Rightarrow> \<not> accepted E (sent p) call))"
proof (cases "endpoint_body E ep json")
  case (Inl e)
  then show ?thesis by (simp add: forward_def attempt_def throw_def)
next
  case (Inr body)
  show ?thesis
  proof (cases "n_NewRequest (re_net E) ''POST'' (endpoint_url ep)")
    case (Some e)
    then show ?thesis using Inr by (simp add: forward_def attempt_def throw_def)
  next
    case None
    obtain r where r: "report_buildHTTPClient E ep p = (r, p)"
      using client_state [of E ep p] by (cases "report_buildHTTPClient E ep p") simp
    show ?thesis
    proof (cases r)
      case (Inl e)
      then show ?thesis using Inr None r by (simp add: forward_def attempt_def bnd_def prefix_error_def)
    next
      case client: (Inr client)
      let ?call = "(client, endpoint_request ep body)"
      have att: "attempt E json p ep = Some ?call" using Inr None r client by (simp add: attempt_def)
      obtain res calls where conv: "converse_with (re_net E) (sent p) ?call = (res, calls)"
        by (cases "converse_with (re_net E) (sent p) ?call")
      show ?thesis
      proof (cases res)
        case (Inl e)
        then show ?thesis using Inr None r client att conv
          by (simp add: forward_def bnd_def prefix_error_def send_def accepted_def conversation_def)
      next
        case answer: (Inr a)
        obtain status content where a: "a = (status, content)" by (cases a)
        show ?thesis using Inr None r client att answer a conv
          by (cases content)
            (auto simp: forward_def bnd_def prefix_error_def send_def accepted_def conversation_def throw_def ret_def)
      qed
    qed
  qed
qed

lemma forward_state:
  "snd (forward E ep json p) = (case attempt E json p ep of None \<Rightarrow> p
     | Some call \<Rightarrow> p \<lparr> sent := sent p @ conversation E (sent p) call \<rparr>)"
  using arg_cong [OF conjunct1 [OF forward_result [of E ep json p]], of snd]
  by (cases "attempt E json p ep") simp_all

lemma forward_all_state:
  "snd (forward_all E eps json p) =
   p \<lparr> sent := sent p @ concat (conversations E (sent p) (List.map_filter (attempt E json p) eps)) \<rparr>"
proof (induction eps arbitrary: p)
  case (Cons ep eps)
  obtain r p' where fw: "forward E ep json p = (r, p')" by (cases "forward E ep json p")
  have p': "p' = (case attempt E json p ep of None \<Rightarrow> p | Some call \<Rightarrow> p \<lparr> sent := sent p @ conversation E (sent p) call \<rparr>)"
    using forward_state [of E ep json p] fw by simp
  then have "files p' = files p" by (simp split: option.split)
  then have same: "attempt E json p' = attempt E json p" using attempt_files by blast
  have "snd (forward_all E (ep # eps) json p) = snd (forward_all E eps json p')"
    using fw by (simp split: prod.split)
  then show ?case
    using Cons.IH [of p'] same p' by (cases "attempt E json p ep") (simp_all add: List.map_filter_def)
qed (simp add: List.map_filter_def)

text \<open>No endpoint reported an error: each was attempted and accepted after the earlier ones.\<close>

fun all_accepted :: "report_env \<Rightarrow> (tls_client \<times> request) list \<Rightarrow> (tls_client \<times> request) option list \<Rightarrow> bool" where
  "all_accepted E before [] = True"
| "all_accepted E before (None # rest) = False"
| "all_accepted E before (Some call # rest) =
     (accepted E before call \<and> all_accepted E (before @ conversation E before call) rest)"

lemma forward_all_errors:
  "fst (forward_all E eps json p) = [] \<longleftrightarrow> all_accepted E (sent p) (map (attempt E json p) eps)"
proof (induction eps arbitrary: p)
  case (Cons ep eps)
  obtain r p' where fw: "forward E ep json p = (r, p')" by (cases "forward E ep json p")
  have p': "p' = (case attempt E json p ep of None \<Rightarrow> p | Some call \<Rightarrow> p \<lparr> sent := sent p @ conversation E (sent p) call \<rparr>)"
    using forward_state [of E ep json p] fw by simp
  then have "files p' = files p" by (simp split: option.split)
  then have same: "attempt E json p' = attempt E json p" using attempt_files by blast
  have r: "isl r \<longleftrightarrow> (case attempt E json p ep of None \<Rightarrow> True | Some call \<Rightarrow> \<not> accepted E (sent p) call)"
    using forward_result [of E ep json p] fw by simp
  have "fst (forward_all E (ep # eps) json p) = [] \<longleftrightarrow>
      \<not> isl r \<and> fst (forward_all E eps json p') = []"
    using fw by (cases r) (simp_all split: prod.split)
  then show ?case
    using Cons.IH [of p'] same p' r by (cases "attempt E json p ep") simp_all
qed simp

definition report_config :: "report_env \<Rightarrow> string option \<Rightarrow> process \<Rightarrow> string + ReportConfig" where
  "report_config E f p = loadReportConfig E
     (case f of None \<Rightarrow> ''/etc/puppetlabs/puppet/report-webhook.yaml'' | Some path \<Rightarrow> path) p"

definition usable_input :: "report_env \<Rightarrow> string option \<Rightarrow> process \<Rightarrow> (ReportConfig \<times> string) option" where
  "usable_input E f p =
     (case (report_config E f p, re_Stdin E) of
        (Inr cfg, Some json) \<Rightarrow> if json = [] then None else Some (cfg, json)
      | _ \<Rightarrow> None)"

lemma report_main_cases:
  "report_main E f p = (case usable_input E f p of
     None \<Rightarrow> (2, p)
   | Some (cfg, json) \<Rightarrow> (if fst (forward_all E (Endpoints cfg) json p) = [] then 0 else 2,
                          snd (forward_all E (Endpoints cfg) json p)))"
  by (auto simp: report_main_def usable_input_def report_config_def split: sum.split option.split prod.split)

text \<open>Conversations one after the other, each continued by redirects only.\<close>

fun conversing :: "net_env \<Rightarrow> (tls_client \<times> request) list \<Rightarrow> (tls_client \<times> request) list list \<Rightarrow> bool" where
  "conversing N before [] = True"
| "conversing N before (conv # rest) =
     (conv \<noteq> [] \<and> length conv \<le> 10 \<and> redirect_chain N before conv \<and>
      list_all (guards_credentials N (snd (hd conv))) (tl conv) \<and> conversing N (before @ conv) rest)"

lemma conversations_props:
  "map hd (conversations E before calls) = calls \<and> conversing (re_net E) before (conversations E before calls)"
proof (induction calls arbitrary: before)
  case (Cons call calls)
  then show ?case using converse_props [of "re_net E" before call] by (simp add: conversation_def)
qed simp

text \<open>C40: an endpoint that fails never keeps the report from the others. What a run sends is, in the
  order of the configuration, one conversation with every endpoint whose body, URL and client can
  be built from the report, the configuration and the files, however the other endpoints answer.
  Each conversation begins with that endpoint's request; further requests, at most nine, follow
  only where the answer before is a redirect, to the URL it points to and without the headers with
  credentials on another domain. Nothing else changes.\<close>

theorem report_traffic:
  "case usable_input E f p of
     None \<Rightarrow> snd (report_main E f p) = p
   | Some (cfg, json) \<Rightarrow>
       (\<exists>convs. snd (report_main E f p) = p \<lparr> sent := sent p @ concat convs \<rparr> \<and>
          map hd convs = List.map_filter (attempt E json p) (Endpoints cfg) \<and>
          conversing (re_net E) (sent p) convs)"
proof (cases "usable_input E f p")
  case None
  then show ?thesis by (simp add: report_main_cases)
next
  case (Some input)
  obtain cfg json where input: "input = (cfg, json)" by (cases input)
  show ?thesis
    using Some input conversations_props [of E "sent p" "List.map_filter (attempt E json p) (Endpoints cfg)"]
    by (auto simp: report_main_cases forward_all_state
        intro!: exI [of _ "conversations E (sent p) (List.map_filter (attempt E json p) (Endpoints cfg))"])
qed

text \<open>the exit code is 0 exactly when configuration and report could be read, the report is not
  empty, a request to every endpoint could be built and the conversation with every endpoint ended
  with a status of the 200s and a readable body; otherwise it is 2.\<close>

theorem report_exit_code:
  "fst (report_main E f p) = (case usable_input E f p of
     None \<Rightarrow> 2
   | Some (cfg, json) \<Rightarrow> if all_accepted E (sent p) (map (attempt E json p) (Endpoints cfg)) then 0 else 2)"
  by (simp add: report_main_cases forward_all_errors split: option.split prod.split)

section \<open>The wire format\<close>

lemma passed_fold:
  "sget (fold (\<lambda>f w. case sget report f of None \<Rightarrow> w | Some v \<Rightarrow> sput f v w) fs w) k =
   (if k \<in> set fs \<and> sget report k \<noteq> None then sget report k else sget w k)"
proof (induction fs arbitrary: w)
  case (Cons f fs)
  then show ?case by (cases "sget report f") auto
qed simp

text \<open>the fields of a PuppetDB report are exactly these: the renamed ones, the computed ones and,
  of the fields that pass through, those the report has, with the report's values; nothing else
  of a report is stored.\<close>

theorem wire_report_fields:
  "sget (wire_report E report) k =
    (if k = ''logs'' then Some (field report ''logs'')
     else if k = ''metrics'' then Some (transformMetrics (field report ''metrics''))
     else if k = ''resources'' then Some (AnyList (transformResources E (field report ''resource_statuses'')))
     else if k \<in> set passed_fields then sget report k
     else if k = ''producer'' then
       Some (if as_string (field report ''server_used'') \<noteq> [] then field report ''server_used'' else field report ''host'')
     else if k = ''producer_timestamp'' then Some (AnyString (re_FormatTime E (re_Now E)))
     else if k = ''end_time'' then Some (AnyString (calculateEndTime E report))
     else if k = ''start_time'' then Some (field report ''time'')
     else if k = ''certname'' then Some (field report ''host'') else None)"
proof -
  have str: "AnyString (as_string v) = v" if "as_string v \<noteq> []" for v
    using that by (cases v) (simp_all add: as_string_def)
  have dis: "k \<in> set passed_fields \<Longrightarrow> k \<noteq> ''certname'' \<and> k \<noteq> ''start_time'' \<and> k \<noteq> ''end_time'' \<and>
      k \<noteq> ''producer_timestamp'' \<and> k \<noteq> ''producer''"
    by (auto simp: passed_fields_def)
  show ?thesis
  proof (cases "k \<in> set passed_fields")
    case True
    then show ?thesis using dis by (auto simp: wire_report_def passed_fold Let_def)
  next
    case False
    then show ?thesis by (simp add: wire_report_def passed_fold Let_def str)
  qed
qed

lemma map_filter_iff: "y \<in> set (List.map_filter f xs) \<longleftrightarrow> (\<exists>x \<in> set xs. f x = Some y)"
  by (force simp: List.map_filter_def)

lemma metric_tuple_Some:
  "metric_tuple v = Some (n, x) \<longleftrightarrow> (\<exists>name label rest. v = AnyList (name # label # x # rest) \<and> n = as_string name)"
  by (auto simp: metric_tuple_def split: any.splits list.splits)

lemma metric_entries_iff:
  "e \<in> set (metric_entries m) \<longleftrightarrow> (\<exists>mMap vals name label x rest. m = AnyMap mMap \<and>
     field mMap ''values'' = AnyList vals \<and> AnyList (name # label # x # rest) \<in> set vals \<and>
     e = AnyMap [(''category'', AnyString (as_string (field mMap ''name''))),
                 (''name'', AnyString (as_string name)), (''value'', x)])"
proof (cases m)
  case (AnyMap mMap)
  show ?thesis
  proof (cases "field mMap ''values''")
    case (AnyList vals)
    have "e \<in> set (metric_entries m) \<longleftrightarrow> (\<exists>n x. (n, x) \<in> set (List.map_filter metric_tuple vals) \<and>
        e = AnyMap [(''category'', AnyString (as_string (field mMap ''name''))),
                    (''name'', AnyString n), (''value'', x)])"
      using AnyMap AnyList by (auto simp: metric_entries_def image_iff split: prod.splits intro: bexI [rotated])
    also have "\<dots> \<longleftrightarrow> (\<exists>name label x rest. AnyList (name # label # x # rest) \<in> set vals \<and>
        e = AnyMap [(''category'', AnyString (as_string (field mMap ''name''))),
                    (''name'', AnyString (as_string name)), (''value'', x)])"
      unfolding map_filter_iff metric_tuple_Some by blast
    finally show ?thesis using AnyMap AnyList by auto
  qed (use AnyMap in \<open>auto simp: metric_entries_def\<close>)
qed (auto simp: metric_entries_def)

text \<open>the flat metrics are exactly the tuples of at least three elements under the values of each
  metric, each with the category of its metric. With no such tuple the field is null rather than
  the empty array, unlike the resources and events, which are arrays always.\<close>

theorem metrics_flattened:
  "transformMetrics (AnyMap metrics) \<in> {Nil} \<union> range AnyList \<and>
   (transformMetrics (AnyMap metrics) = Nil \<longleftrightarrow>
      (\<nexists>key mMap vals name label x rest. (key, AnyMap mMap) \<in> set metrics \<and>
         field mMap ''values'' = AnyList vals \<and> AnyList (name # label # x # rest) \<in> set vals)) \<and>
   {e. \<exists>es. transformMetrics (AnyMap metrics) = AnyList es \<and> e \<in> set es} =
     {AnyMap [(''category'', AnyString (as_string (field mMap ''name''))),
              (''name'', AnyString (as_string name)), (''value'', x)] | key mMap vals name label x rest.
        (key, AnyMap mMap) \<in> set metrics \<and> field mMap ''values'' = AnyList vals \<and>
        AnyList (name # label # x # rest) \<in> set vals}"
proof -
  let ?es = "concat (map (\<lambda>(_, m). metric_entries m) metrics)"
  have in_es: "e \<in> set ?es \<longleftrightarrow> (\<exists>key mMap vals name label x rest. (key, AnyMap mMap) \<in> set metrics \<and>
      field mMap ''values'' = AnyList vals \<and> AnyList (name # label # x # rest) \<in> set vals \<and>
      e = AnyMap [(''category'', AnyString (as_string (field mMap ''name''))),
                  (''name'', AnyString (as_string name)), (''value'', x)])" for e
    by (simp add: split_def metric_entries_iff) (metis fst_conv prod.collapse snd_conv)
  have "?es = [] \<longleftrightarrow> (\<nexists>e. e \<in> set ?es)" by (metis list.set_intros(1) neq_Nil_conv not_Cons_self2 set_empty2 empty_iff)
  then have empty: "?es = [] \<longleftrightarrow> (\<nexists>key mMap vals name label x rest. (key, AnyMap mMap) \<in> set metrics \<and>
      field mMap ''values'' = AnyList vals \<and> AnyList (name # label # x # rest) \<in> set vals)"
    unfolding in_es by blast
  have "{e. \<exists>es. transformMetrics (AnyMap metrics) = AnyList es \<and> e \<in> set es} = set ?es"
    by (auto simp: transformMetrics_def Let_def)
  moreover have "transformMetrics (AnyMap metrics) = (if ?es = [] then Nil else AnyList ?es)"
    by (simp add: transformMetrics_def Let_def)
  ultimately show ?thesis
    using empty in_es
    by (intro conjI; (simp only: set_eq_iff mem_Collect_eq)?) (simp, simp, blast)
qed

end
