(* ===== verification/PoolCtl.thy ===== *)
theory PoolCtl
  imports CertDerived "HOL-Library.Option_ord"
begin

text \<open>
  The Pool controller (pool_controller.go): a Service in front of the pods of the Servers that
  joined the Pool, a TLSRoute for its hostname if the Pool owns it, and the status. Which of
  several Pools owns a hostname is decided by an order all of them compute; the locale
  \<open>claim_order\<close> states what that order has to be for the decision to be the same everywhere.
\<close>

section \<open>Objects and calls\<close>

record TLSRoute =
  tr_Meta :: ObjectMeta
  tr_ParentName :: string
  tr_ParentSection :: "string option"
  tr_Hostnames :: "string list"
  tr_BackendName :: string
  tr_BackendPort :: int

datatype pool_call =
    GetPool string | ListPoolsOf string | PoolStatusUpdate Pool
  | GetService string | CreateService Service | UpdateService Service
  | GetRoute string | CreateRoute TLSRoute | UpdateRoute TLSRoute | DeleteRoute string
  | ListEndpointSlices string
  | PoolEvent string string string

record pool_env =
  pe_lib :: kube_lib
  pe_retries :: nat
  pe_GatewayAPIAvailable :: bool
  pe_getPool :: "pool_call list \<Rightarrow> string \<Rightarrow> err + Pool"
  pe_listPools :: "pool_call list \<Rightarrow> err + Pool list"
  pe_updateStatus :: "pool_call list \<Rightarrow> Pool \<Rightarrow> err + unit"
  pe_getService :: "pool_call list \<Rightarrow> string \<Rightarrow> err + Service"
  pe_writeService :: "pool_call list \<Rightarrow> Service \<Rightarrow> err + unit"
  pe_getRoute :: "pool_call list \<Rightarrow> string \<Rightarrow> err + TLSRoute"
  pe_writeRoute :: "pool_call list \<Rightarrow> TLSRoute \<Rightarrow> err + unit"
  pe_deleteRoute :: "pool_call list \<Rightarrow> string \<Rightarrow> err + unit"
  pe_listEndpointSlices :: "pool_call list \<Rightarrow> err + bool option list list"

type_synonym pst = "(pool_call, Pool) world"
type_synonym 'a pop = "(pst, err, 'a) op"

definition pool_event :: "string \<Rightarrow> string \<Rightarrow> string \<Rightarrow> (pst, 'e, unit) op" where
  "pool_event kind reason note = call (PoolEvent kind reason note) (\<lambda>_. Inr ())"

definition pool_refetch :: "pool_env \<Rightarrow> unit pop" where
  "pool_refetch E = (\<lambda>s. let name = m_Name (p_Meta (obj s)); ns = m_Namespace (p_Meta (obj s)) in
     case call (GetPool name) (\<lambda>h. pe_getPool E h name) s of
       (Inl e, s') \<Rightarrow> (Inl e, s')
     | (Inr pool, s') \<Rightarrow>
         (Inr (), s' \<lparr> obj := pool \<lparr> p_Meta := p_Meta pool \<lparr> m_Name := name, m_Namespace := ns \<rparr> \<rparr> \<rparr>))"

definition pool_send_status :: "pool_env \<Rightarrow> unit pop" where
  "pool_send_status E = (\<lambda>s. call (PoolStatusUpdate (obj s)) (\<lambda>h. pe_updateStatus E h (obj s)) s)"

definition pool_update_status :: "pool_env \<Rightarrow> (Pool \<Rightarrow> Pool) \<Rightarrow> unit pop" where
  "pool_update_status E change = status_with_retry (pe_retries E) (pool_refetch E) change (pool_send_status E)"

section \<open>Who owns a hostname\<close>

text \<open>metav1.Time.Before, with the zero time of an object that has no timestamp before all others.\<close>

definition time_before :: "int option \<Rightarrow> int option \<Rightarrow> bool" where
  "time_before a b = (case (a, b) of
     (_, None) \<Rightarrow> False | (None, Some _) \<Rightarrow> True | (Some x, Some y) \<Rightarrow> x < y)"

definition claimPrecedes :: "Pool \<Rightarrow> Pool \<Rightarrow> bool" where
  "claimPrecedes a b =
     (if m_CreationTimestamp (p_Meta a) \<noteq> m_CreationTimestamp (p_Meta b)
      then time_before (m_CreationTimestamp (p_Meta a)) (m_CreationTimestamp (p_Meta b))
      else m_Name (p_Meta a) < m_Name (p_Meta b))"

definition route_hostname :: "Pool \<Rightarrow> string" where
  "route_hostname pool = (case p_Route pool of None \<Rightarrow> [] | Some r \<Rightarrow> r_Hostname r)"

definition competes :: "Pool \<Rightarrow> Pool \<Rightarrow> bool" where
  "competes pool other =
     (if m_Name (p_Meta other) = m_Name (p_Meta pool) then False
      else if m_DeletionTimestamp (p_Meta other) \<noteq> None then False
      else (case p_Route other of
              None \<Rightarrow> False
            | Some r \<Rightarrow> r_Enabled r \<and> r_Hostname r = route_hostname pool))"

fun earliest_claim :: "('a \<Rightarrow> 'a \<Rightarrow> bool) \<Rightarrow> 'a \<Rightarrow> 'a list \<Rightarrow> 'a" where
  "earliest_claim precedes owner [] = owner"
| "earliest_claim precedes owner (other # rest) =
     earliest_claim precedes (if precedes other owner then other else owner) rest"

definition hostname_owner :: "Pool \<Rightarrow> Pool list \<Rightarrow> Pool" where
  "hostname_owner pool pools = earliest_claim claimPrecedes pool (filter (competes pool) pools)"

definition hostnameOwner :: "pool_env \<Rightarrow> Pool pop" where
  "hostnameOwner E =
     bnd (reads obj) (\<lambda>pool.
     bnd (wrapping ''listing Pools for the hostname conflict check''
           (call (ListPoolsOf (m_Namespace (p_Meta pool))) (pe_listPools E))) (\<lambda>pools.
     ret (hostname_owner pool pools)))"

definition hostnameConflictMessage :: "string \<Rightarrow> string \<Rightarrow> string" where
  "hostnameConflictMessage hostname owner =
     ''Hostname '' @ Quote hostname @ '' is already claimed by Pool '' @ owner"

definition ConditionPoolReady :: string where "ConditionPoolReady = ''Ready''"

definition wasConflictingWith :: "kube_lib \<Rightarrow> Condition list \<Rightarrow> string \<Rightarrow> string \<Rightarrow> bool" where
  "wasConflictingWith L conditions hostname owner =
     (case FindStatusCondition L conditions ConditionPoolReady of
        None \<Rightarrow> False
      | Some c \<Rightarrow> cond_Status c = ''False'' \<and> cond_Reason c = ''HostnameConflict'' \<and>
                  cond_Message c = hostnameConflictMessage hostname owner)"

section \<open>The TLSRoute\<close>

definition deleteOwnedTLSRoute :: "pool_env \<Rightarrow> unit pop" where
  "deleteOwnedTLSRoute E =
     bnd (reads obj) (\<lambda>pool. let name = m_Name (p_Meta pool) in
     bnd (outcome (call (GetRoute name) (\<lambda>h. pe_getRoute E h name))) (\<lambda>r. case r of
       Inl e \<Rightarrow> if IsNotFound e then ret () else throw (wrapf (''getting TLSRoute '' @ name) e)
     | Inr existing \<Rightarrow>
         if \<not> IsControlledBy (pe_lib E) (tr_Meta existing) (p_Meta pool) then ret ()
         else
           bnd (outcome (call (DeleteRoute name) (\<lambda>h. pe_deleteRoute E h name))) (\<lambda>d. case d of
             Inl e \<Rightarrow> if IsNotFound e
                       then pool_event ''Normal'' ''TLSRouteDeleted'' (''TLSRoute '' @ name @ '' deleted'')
                       else throw (wrapf ''deleting orphaned TLSRoute'' e)
           | Inr _ \<Rightarrow> pool_event ''Normal'' ''TLSRouteDeleted'' (''TLSRoute '' @ name @ '' deleted''))))"

definition service_port :: "Pool \<Rightarrow> int" where
  "service_port pool = (if ps_Port (p_Service pool) > 0 then ps_Port (p_Service pool) else 8140)"

definition route_mutation :: "kube_lib \<Rightarrow> Pool \<Rightarrow> PoolRouteSpec \<Rightarrow> TLSRoute \<Rightarrow> err + TLSRoute" where
  "route_mutation L pool spec route =
     (case assertControlledBy L (tr_Meta route) (p_Meta pool) ''TLSRoute'' ''Pool'' of
        Some e \<Rightarrow> Inl e
      | None \<Rightarrow>
         (case SetControllerReference L ''Pool'' (p_Meta pool) (tr_Meta route) of
            Inl e \<Rightarrow> Inl e
          | Inr meta \<Rightarrow> Inr \<lparr> tr_Meta = meta, tr_ParentName = r_GatewayName spec,
              tr_ParentSection = (if r_GatewaySection spec \<noteq> [] then Some (r_GatewaySection spec) else None),
              tr_Hostnames = [r_Hostname spec], tr_BackendName = m_Name (p_Meta pool),
              tr_BackendPort = service_port pool \<rparr>))"

definition blank_route :: "string \<Rightarrow> string \<Rightarrow> TLSRoute" where
  "blank_route name ns = \<lparr> tr_Meta = new_meta name ns, tr_ParentName = [], tr_ParentSection = None,
     tr_Hostnames = [], tr_BackendName = [], tr_BackendPort = 0 \<rparr>"

definition reconcileTLSRoute :: "pool_env \<Rightarrow> PoolRouteSpec \<Rightarrow> unit pop" where
  "reconcileTLSRoute E spec =
     bnd (reads obj) (\<lambda>pool. let name = m_Name (p_Meta pool) in
     bnd (wrapping (''reconciling TLSRoute '' @ name)
           (create_or_update (call (GetRoute name) (\<lambda>h. pe_getRoute E h name))
             (blank_route name (m_Namespace (p_Meta pool))) (route_mutation (pe_lib E) pool spec)
             (\<lambda>route. call (CreateRoute route) (\<lambda>h. pe_writeRoute E h route))
             (\<lambda>route. call (UpdateRoute route) (\<lambda>h. pe_writeRoute E h route)))) (\<lambda>result.
     if result = Created then
       pool_event ''Normal'' ''TLSRouteCreated''
         (''TLSRoute '' @ name @ '' created for hostname '' @ r_Hostname spec)
     else if result = Updated then
       pool_event ''Normal'' ''TLSRouteUpdated'' (''TLSRoute '' @ name @ '' updated'')
     else ret ()))"

section \<open>The Service\<close>

definition poolServiceSelector :: "Pool \<Rightarrow> string smap" where
  "poolServiceSelector pool = [(poolLabel (m_Name (p_Meta pool)), ''true'')]"

text \<open>maps.Copy of the configured labels over the ones of the operator.\<close>

definition service_labels :: "Pool \<Rightarrow> string smap" where
  "service_labels pool =
     fold (\<lambda>(k, v). sput k v) (ps_Labels (p_Service pool))
       [(''app.kubernetes.io/name'', ''openvox''), (''app.kubernetes.io/managed-by'', ''openvox-operator''),
        (poolLabel (m_Name (p_Meta pool)), ''true'')]"

definition owned_port :: "Pool \<Rightarrow> ServicePort \<Rightarrow> ServicePort" where
  "owned_port pool port =
     (let p = port \<lparr> sp_Name := ''https'', sp_Port := service_port pool, sp_TargetPort := 8140,
                     sp_Protocol := ''TCP'' \<rparr>
      in if ps_NodePort (p_Service pool) > 0 then p \<lparr> sp_NodePort := ps_NodePort (p_Service pool) \<rparr> else p)"

definition service_mutation :: "kube_lib \<Rightarrow> Pool \<Rightarrow> Service \<Rightarrow> err + Service" where
  "service_mutation L pool svc =
     (case assertControlledBy L (svc_Meta svc) (p_Meta pool) ''Service'' ''Pool'' of
        Some e \<Rightarrow> Inl e
      | None \<Rightarrow>
         (let meta = svc_Meta svc \<lparr> m_Labels := service_labels pool,
                                    m_Annotations := ps_Annotations (p_Service pool) \<rparr>;
              ports = (case svc_Ports svc of [] \<Rightarrow> [blank_port] | ps \<Rightarrow> ps)
          in case SetControllerReference L ''Pool'' (p_Meta pool) meta of
               Inl e \<Rightarrow> Inl e
             | Inr meta' \<Rightarrow> Inr (svc \<lparr> svc_Meta := meta',
                 svc_Type := (if ps_Type (p_Service pool) \<noteq> [] then ps_Type (p_Service pool) else ''ClusterIP''),
                 svc_Selector := poolServiceSelector pool,
                 svc_Ports := owned_port pool (hd ports) # tl ports,
                 svc_ExternalIPs := ps_ExternalIPs (p_Service pool) \<rparr>)))"

definition reconcileService :: "pool_env \<Rightarrow> unit pop" where
  "reconcileService E =
     bnd (reads obj) (\<lambda>pool. let name = m_Name (p_Meta pool) in
     bnd (wrapping (''reconciling Service '' @ name)
           (create_or_update (call (GetService name) (\<lambda>h. pe_getService E h name))
             (blank_service name (m_Namespace (p_Meta pool))) (service_mutation (pe_lib E) pool)
             (\<lambda>svc. call (CreateService svc) (\<lambda>h. pe_writeService E h svc))
             (\<lambda>svc. call (UpdateService svc) (\<lambda>h. pe_writeService E h svc)))) (\<lambda>result.
     if result = Created then pool_event ''Normal'' ''ServiceSynced'' (''Service '' @ name @ '' created'')
     else if result = Updated then pool_event ''Normal'' ''ServiceSynced'' (''Service '' @ name @ '' updated'')
     else ret ()))"

text \<open>The ready endpoints; each slice lists the readiness flags of its endpoints. The count is an
  int32.\<close>

definition countEndpoints :: "pool_env \<Rightarrow> int pop" where
  "countEndpoints E =
     bnd (reads obj) (\<lambda>pool.
     bnd (wrapping (''listing EndpointSlices for Service '' @ m_Name (p_Meta pool))
           (call (ListEndpointSlices (m_Name (p_Meta pool))) (pe_listEndpointSlices E))) (\<lambda>slices.
     ret (signed_take_bit 31 (int (length (filter (\<lambda>r. r = Some True) (concat slices)))))))"

section \<open>Reconcile\<close>

text \<open>The route phase: the name of the Pool that owns the hostname when it is not this one, with the
  hostname; both empty otherwise.\<close>

definition route_phase :: "pool_env \<Rightarrow> (string \<times> string) pop" where
  "route_phase E =
     bnd (reads obj) (\<lambda>pool.
     case (case p_Route pool of None \<Rightarrow> None | Some spec \<Rightarrow> if r_Enabled spec then Some spec else None) of
       Some spec \<Rightarrow>
         if \<not> pe_GatewayAPIAvailable E then ret ([], [])
         else
           bnd (hostnameOwner E) (\<lambda>owner.
           if m_Name (p_Meta owner) \<noteq> m_Name (p_Meta pool) then
             thn (deleteOwnedTLSRoute E) (ret (m_Name (p_Meta owner), r_Hostname spec))
           else
             thn (wrapping ''reconciling TLSRoute'' (reconcileTLSRoute E spec)) (ret ([], [])))
     | None \<Rightarrow>
         if pe_GatewayAPIAvailable E then thn (deleteOwnedTLSRoute E) (ret ([], []))
         else ret ([], []))"

definition ready_condition :: "Pool \<Rightarrow> string \<Rightarrow> string \<Rightarrow> int \<Rightarrow> Condition" where
  "ready_condition pool conflictWith claimedHostname endpoints =
     (let c = \<lparr> cond_Type = ConditionPoolReady, cond_Status = ''False'', cond_Reason = [],
                cond_Message = [], cond_ObservedGeneration = m_Generation (p_Meta pool) \<rparr>
      in if conflictWith \<noteq> [] then
           c \<lparr> cond_Reason := ''HostnameConflict'',
               cond_Message := hostnameConflictMessage claimedHostname conflictWith \<rparr>
         else if endpoints > 0 then
           c \<lparr> cond_Status := ''True'', cond_Reason := ''EndpointsAvailable'',
               cond_Message := Itoa endpoints @ '' ready endpoint(s) behind Service '' @ m_Name (p_Meta pool) \<rparr>
         else
           c \<lparr> cond_Reason := ''NoEndpoints'',
               cond_Message := ''No ready Server pods select Service '' @ m_Name (p_Meta pool) \<rparr>)"

definition set_pool_status :: "kube_lib \<Rightarrow> string \<Rightarrow> string \<Rightarrow> int \<Rightarrow> Pool \<Rightarrow> Pool" where
  "set_pool_status L conflictWith claimedHostname endpoints pool =
     pool \<lparr> p_Status := p_Status pool \<lparr> pt_ObservedGeneration := m_Generation (p_Meta pool),
       pt_ServiceName := m_Name (p_Meta pool), pt_Endpoints := endpoints,
       pt_Conditions := SetStatusCondition L (pt_Conditions (p_Status pool))
         (ready_condition pool conflictWith claimedHostname endpoints) \<rparr> \<rparr>"

definition finish_pool :: "pool_env \<Rightarrow> string \<times> string \<Rightarrow> result pop" where
  "finish_pool E = (\<lambda>(conflictWith, claimedHostname).
     bnd (reads obj) (\<lambda>pool.
     bnd (wrapping (''counting endpoints for Pool '' @ m_Name (p_Meta pool)) (countEndpoints E)) (\<lambda>endpoints.
     thn (wrapping (''updating Pool status '' @ m_Name (p_Meta pool))
           (pool_update_status E (set_pool_status (pe_lib E) conflictWith claimedHostname endpoints)))
     (thn (if conflictWith \<noteq> [] \<and>
              \<not> wasConflictingWith (pe_lib E) (pt_Conditions (p_Status pool)) claimedHostname conflictWith
           then pool_event ''Warning'' ''HostnameConflict'' (hostnameConflictMessage claimedHostname conflictWith)
           else ret ())
      (ret (Result 0))))))"

definition pause_pool :: "pool_env \<Rightarrow> bool pop" where
  "pause_pool E =
     bnd (reads obj) (\<lambda>pool.
     reconcilePauseState (pe_lib E) (p_Meta pool) (pt_Conditions (p_Status pool))
       (\<lambda>f. pool_update_status E (\<lambda>q. q \<lparr> p_Status := (p_Status q)
              \<lparr> pt_Conditions := f (pt_Conditions (p_Status q)) \<rparr> \<rparr>)))"

definition Reconcile_pool :: "pool_env \<Rightarrow> result pop" where
  "Reconcile_pool E =
     bnd (outcome (pool_refetch E)) (\<lambda>r. case r of
       Inl e \<Rightarrow> if IsNotFound e then ret (Result 0) else throw (wrapf ''getting Pool'' e)
     | Inr _ \<Rightarrow>
         bnd (pause_pool E) (\<lambda>paused.
         if paused then ret (Result 0)
         else
           bnd (outcome (reconcileService E)) (\<lambda>svc. case svc of
             Inl e \<Rightarrow> thn (pool_event ''Warning'' ''PoolError'' (''Failed to reconcile Service: '' @ err_text e))
                       (throw (wrapf ''reconciling Service'' e))
           | Inr _ \<Rightarrow> bnd (route_phase E) (finish_pool E))))"

section \<open>Watches\<close>

definition pool_request :: "Pool \<Rightarrow> string \<times> string" where
  "pool_request pool = (m_Namespace (p_Meta pool), m_Name (p_Meta pool))"

text \<open>The Pools to reconcile after a change of one Pool, from the listing of its namespace (None
  for an error).\<close>

definition poolsSharingHostname :: "Pool \<Rightarrow> Pool list option \<Rightarrow> (string \<times> string) list" where
  "poolsSharingHostname changed pools =
     (case p_Route changed of
        None \<Rightarrow> []
      | Some route \<Rightarrow>
         if r_Hostname route = [] then []
         else (case pools of
                 None \<Rightarrow> []
               | Some ps \<Rightarrow> map pool_request (filter (\<lambda>other.
                   m_Name (p_Meta other) \<noteq> m_Name (p_Meta changed) \<and>
                   (case p_Route other of None \<Rightarrow> False | Some r \<Rightarrow> r_Hostname r = r_Hostname route)) ps)))"

definition enqueuePoolsForServer :: "Pool list option \<Rightarrow> (string \<times> string) list" where
  "enqueuePoolsForServer pools = (case pools of None \<Rightarrow> [] | Some ps \<Rightarrow> map pool_request ps)"

section \<open>The order of claims\<close>

text \<open>What an order of claims has to satisfy for all observers of the same claims to agree on the
  earliest: a strict weak order that separates claims of different names.\<close>

locale claim_order =
  fixes precedes :: "'a \<Rightarrow> 'a \<Rightarrow> bool" and name :: "'a \<Rightarrow> string"
  assumes asym: "precedes a b \<Longrightarrow> \<not> precedes b a"
    and neg_trans: "\<not> precedes a b \<Longrightarrow> \<not> precedes b c \<Longrightarrow> \<not> precedes a c"
    and separates: "name a \<noteq> name b \<Longrightarrow> precedes a b \<or> precedes b a"
begin

lemma earliest_in: "earliest_claim precedes owner xs \<in> insert owner (set xs)"
proof (induction xs arbitrary: owner)
  case (Cons other rest)
  then show ?case using Cons [of "if precedes other owner then other else owner"] by (auto split: if_splits)
qed simp

lemma earliest_least: "x \<in> insert owner (set xs) \<Longrightarrow> \<not> precedes x (earliest_claim precedes owner xs)"
proof (induction xs arbitrary: owner x)
  case Nil
  then have "x = owner" by simp
  then show ?case using asym [of x x] by auto
next
  case (Cons other rest)
  define next_owner where "next_owner = (if precedes other owner then other else owner)"
  let ?e = "earliest_claim precedes next_owner rest"
  have IH: "\<not> precedes y ?e" if "y \<in> insert next_owner (set rest)" for y
    using Cons.IH that by blast
  have "\<not> precedes other next_owner" "\<not> precedes owner next_owner"
    using asym [of other owner] asym [of other other] asym [of owner owner] by (auto simp: next_owner_def)
  then have "\<not> precedes other ?e" "\<not> precedes owner ?e"
    using neg_trans IH [of next_owner] by blast+
  moreover have "earliest_claim precedes owner (other # rest) = ?e" by (simp add: next_owner_def)
  ultimately show ?case using Cons.prems IH by auto
qed

lemma earliest_agree:
  assumes "insert owner (set xs) = insert owner' (set ys)"
  shows "name (earliest_claim precedes owner xs) = name (earliest_claim precedes owner' ys)"
proof (rule ccontr)
  let ?a = "earliest_claim precedes owner xs" and ?b = "earliest_claim precedes owner' ys"
  assume "name ?a \<noteq> name ?b"
  then have "precedes ?a ?b \<or> precedes ?b ?a" by (rule separates)
  moreover have "\<not> precedes ?a ?b"
    using earliest_least [of ?a owner' ys] earliest_in [of owner xs] assms by simp
  moreover have "\<not> precedes ?b ?a"
    using earliest_least [of ?b owner xs] earliest_in [of owner' ys] assms by simp
  ultimately show False by blast
qed

lemma earliest_self: "\<forall>x \<in> set xs. \<not> precedes x owner \<Longrightarrow> earliest_claim precedes owner xs = owner"
  by (induction xs) auto

end

lemma time_before_less: "time_before a b = (a < b)"
  by (cases a; cases b) (simp_all add: time_before_def)

lemma claimPrecedes_iff:
  "claimPrecedes a b \<longleftrightarrow>
     m_CreationTimestamp (p_Meta a) < m_CreationTimestamp (p_Meta b) \<or>
     m_CreationTimestamp (p_Meta a) = m_CreationTimestamp (p_Meta b) \<and>
     m_Name (p_Meta a) < m_Name (p_Meta b)"
  by (simp add: claimPrecedes_def time_before_less)

lemma lex_neg_trans:
  fixes x y z :: "'a :: linorder" and k m n :: "'b :: linorder"
  shows "\<not> (x < y \<or> x = y \<and> m < n) \<Longrightarrow> \<not> (y < z \<or> y = z \<and> n < k) \<Longrightarrow> \<not> (x < z \<or> x = z \<and> m < k)"
  by (cases "x = y"; cases "y = z") auto

interpretation claims: claim_order claimPrecedes "\<lambda>pool. m_Name (p_Meta pool)"
proof unfold_locales
  fix a b c :: Pool
  show "claimPrecedes a b \<Longrightarrow> \<not> claimPrecedes b a"
    unfolding claimPrecedes_iff by (metis less_asym less_irrefl)
  show "m_Name (p_Meta a) \<noteq> m_Name (p_Meta b) \<Longrightarrow> claimPrecedes a b \<or> claimPrecedes b a"
    unfolding claimPrecedes_iff by (metis linorder_neqE)
  show "\<not> claimPrecedes a b \<Longrightarrow> \<not> claimPrecedes b c \<Longrightarrow> \<not> claimPrecedes a c"
    unfolding claimPrecedes_iff by (rule lex_neg_trans)
qed

section \<open>Properties\<close>

definition claims_hostname :: "string \<Rightarrow> Pool \<Rightarrow> bool" where
  "claims_hostname hostname pool =
     (m_DeletionTimestamp (p_Meta pool) = None \<and>
      (case p_Route pool of None \<Rightarrow> False | Some r \<Rightarrow> r_Enabled r \<and> r_Hostname r = hostname))"

lemma claims_route: "claims_hostname h pool \<Longrightarrow> route_hostname pool = h"
  by (auto simp: claims_hostname_def route_hostname_def split: option.splits)

lemma competes_claims:
  "competes pool other \<longleftrightarrow> m_Name (p_Meta other) \<noteq> m_Name (p_Meta pool) \<and>
     claims_hostname (route_hostname pool) other"
  by (auto simp: competes_def claims_hostname_def split: option.splits)

lemma claim_set:
  assumes "distinct (map (\<lambda>p. m_Name (p_Meta p)) pools)" and "pool \<in> set pools"
    and "claims_hostname h pool"
  shows "insert pool (set (filter (competes pool) pools)) = {x \<in> set pools. claims_hostname h x}"
proof -
  have "x = pool" if "x \<in> set pools" "m_Name (p_Meta x) = m_Name (p_Meta pool)" for x
    using assms(1,2) that by (auto simp: distinct_map inj_on_def)
  then show ?thesis using assms(2,3) claims_route [OF assms(3)] by (auto simp: competes_claims)
qed

text \<open>C36: the Pools that compete for a hostname agree on its owner. Whichever of them computes it,
  and in whatever order the API lists the Pools, the result is the same Pool, which is itself one
  of the live claimants; so of all Pools that see the same claims, one keeps a TLSRoute.\<close>

theorem hostname_owner_agreed:
  assumes "distinct (map (\<lambda>p. m_Name (p_Meta p)) pools)"
    and "distinct (map (\<lambda>p. m_Name (p_Meta p)) pools')" and "set pools' = set pools"
    and "p \<in> set pools" and "q \<in> set pools" and "claims_hostname h p" and "claims_hostname h q"
  shows "m_Name (p_Meta (hostname_owner p pools)) = m_Name (p_Meta (hostname_owner q pools')) \<and>
    hostname_owner p pools \<in> set pools \<and> claims_hostname h (hostname_owner p pools)"
proof -
  have p: "insert p (set (filter (competes p) pools)) = {x \<in> set pools. claims_hostname h x}"
    by (rule claim_set) (use assms in auto)
  have q: "insert q (set (filter (competes q) pools')) = {x \<in> set pools. claims_hostname h x}"
    using claim_set [OF assms(2) _ assms(7)] assms(3,5) by simp
  show ?thesis
    using claims.earliest_agree [of p "filter (competes p) pools" q "filter (competes q) pools'"]
      claims.earliest_in [of p "filter (competes p) pools"] unfolding hostname_owner_def p q by simp
qed

text \<open>C38: a Pool that is being deleted does not release its hostname while it is still reconciled.
  Competitors skip it, but its own computation starts from itself: the earliest Pool, once marked
  for deletion, still takes itself for the owner, and so does a second Pool for the same
  hostname.\<close>

theorem deleting_pool_keeps_claim:
  assumes "p \<in> set pools" and "m_DeletionTimestamp (p_Meta p) \<noteq> None"
    and "\<forall>x \<in> set pools. m_Name (p_Meta x) \<noteq> m_Name (p_Meta p) \<longrightarrow> claimPrecedes p x"
    and "q \<in> set pools" and "claims_hostname (route_hostname p) q"
    and "\<forall>x \<in> set pools. m_Name (p_Meta x) \<noteq> m_Name (p_Meta q) \<and>
           claims_hostname (route_hostname p) x \<longrightarrow> claimPrecedes q x"
  shows "hostname_owner p pools = p \<and> hostname_owner q pools = q"
proof -
  have "hostname_owner p pools = p"
    unfolding hostname_owner_def
    by (rule claims.earliest_self) (use assms(3) claims.asym in \<open>auto simp: competes_claims\<close>)
  moreover have "hostname_owner q pools = q"
    unfolding hostname_owner_def
    by (rule claims.earliest_self)
      (use assms(5,6) claims.asym claims_route [OF assms(5)] in \<open>auto simp: competes_claims\<close>)
  ultimately show ?thesis by simp
qed

text \<open>a Pool that lost its hostname is reconciled again when the winner changes or goes away: the
  watch on Pools maps the owner it lost to back to it.\<close>

theorem loser_requeued:
  assumes "p \<in> set pools" and "p_Route p = Some route" and "r_Hostname route \<noteq> []"
    and "m_Name (p_Meta (hostname_owner p pools)) \<noteq> m_Name (p_Meta p)"
  shows "pool_request p \<in> set (poolsSharingHostname (hostname_owner p pools) (Some pools))"
proof -
  have "hostname_owner p pools \<in> insert p (set (filter (competes p) pools))"
    unfolding hostname_owner_def by (rule claims.earliest_in)
  then have "competes p (hostname_owner p pools)" using assms(4) by auto
  then obtain r where "p_Route (hostname_owner p pools) = Some r" "r_Hostname r = r_Hostname route"
    using assms(2) by (auto simp: competes_claims claims_hostname_def route_hostname_def split: option.splits)
  then show ?thesis using assms by (auto simp: poolsSharingHostname_def)
qed

text \<open>Calls that put a TLSRoute in place.\<close>

definition claims_route_call :: "pool_call \<Rightarrow> bool" where
  "claims_route_call c = (case c of CreateRoute _ \<Rightarrow> True | UpdateRoute _ \<Rightarrow> True | _ \<Rightarrow> False)"

lemma delete_no_claim: "only hist (\<lambda>c. \<not> claims_route_call c) (deleteOwnedTLSRoute E)"
  unfolding deleteOwnedTLSRoute_def pool_event_def Let_def
  by (intro only_rules only_call) (simp_all add: claims_route_call_def)

text \<open>a Pool that another Pool outranks puts no TLSRoute in place. The route phase then creates and
  updates none, at most deletes one of its own, and reports the owner and the hostname that was
  asked for.\<close>

theorem outranked_pool_no_route:
  assumes "p_Route (obj s) = Some spec" and "r_Enabled spec" and "pe_GatewayAPIAvailable E"
    and "pe_listPools E (hist s) = Inr pools"
    and "m_Name (p_Meta (hostname_owner (obj s) pools)) \<noteq> m_Name (p_Meta (obj s))"
  shows "(\<exists>calls. hist (snd (route_phase E s)) = hist s @ calls \<and>
      list_all (\<lambda>c. \<not> claims_route_call c) calls) \<and>
    (case fst (route_phase E s) of Inl _ \<Rightarrow> True
     | Inr r \<Rightarrow> r = (m_Name (p_Meta (hostname_owner (obj s) pools)), r_Hostname spec))"
proof -
  let ?s1 = "s \<lparr> hist := hist s @ [ListPoolsOf (m_Namespace (p_Meta (obj s)))] \<rparr>"
  let ?o = "hostname_owner (obj s) pools"
  have run: "route_phase E s = thn (deleteOwnedTLSRoute E) (ret (m_Name (p_Meta ?o), r_Hostname spec)) ?s1"
    using assms by (simp add: route_phase_def hostnameOwner_def bnd_def reads_def wrapping_def call_def ret_def)
  obtain calls where calls: "hist (snd (deleteOwnedTLSRoute E ?s1)) = hist ?s1 @ calls"
      "list_all (\<lambda>c. \<not> claims_route_call c) calls"
    using delete_no_claim unfolding only_def by blast
  have "hist (snd (route_phase E s)) = hist s @ ListPoolsOf (m_Namespace (p_Meta (obj s))) # calls"
    using run calls(1) by (cases "deleteOwnedTLSRoute E ?s1") (auto simp: thn_def bnd_def ret_def split: sum.split)
  moreover have "list_all (\<lambda>c. \<not> claims_route_call c) (ListPoolsOf (m_Namespace (p_Meta (obj s))) # calls)"
    using calls(2) by (simp add: claims_route_call_def)
  moreover have "case fst (route_phase E s) of Inl _ \<Rightarrow> True | Inr r \<Rightarrow> r = (m_Name (p_Meta ?o), r_Hostname spec)"
    using run by (cases "deleteOwnedTLSRoute E ?s1") (auto simp: thn_def bnd_def ret_def split: sum.split)
  ultimately show ?thesis by blast
qed

text \<open>C37: updating the Service of a Pool touches only what the Pool owns. An existing Service is left
  alone unless the Pool controls it; otherwise it keeps its cluster IP, every port after the first
  and, unless the Pool sets one, its node port, and afterwards it selects the pods of this Pool on
  port 8140.\<close>

theorem pool_service_preserved:
  assumes "kube_laws L" and "service_mutation L pool svc = Inr svc'"
    and "m_ResourceVersion (svc_Meta svc) \<noteq> []" and "svc_Ports svc = port # ports"
  shows "IsControlledBy L (svc_Meta svc) (p_Meta pool) \<and> svc_ClusterIP svc' = svc_ClusterIP svc \<and>
    (\<exists>port'. svc_Ports svc' = port' # ports \<and> sp_TargetPort port' = 8140 \<and>
       sp_NodePort port' = (if ps_NodePort (p_Service pool) > 0 then ps_NodePort (p_Service pool)
                            else sp_NodePort port)) \<and>
    svc_Selector svc' = [(poolLabel (m_Name (p_Meta pool)), ''true'')] \<and>
    m_Name (svc_Meta svc') = m_Name (svc_Meta svc)"
proof -
  let ?meta = "svc_Meta svc \<lparr> m_Labels := service_labels pool, m_Annotations := ps_Annotations (p_Service pool) \<rparr>"
  have owned: "IsControlledBy L (svc_Meta svc) (p_Meta pool)"
    using assms(2,3) by (simp add: service_mutation_def assertControlledBy_def split: if_splits)
  then obtain meta' where meta': "SetControllerReference L ''Pool'' (p_Meta pool) ?meta = Inr meta'"
      and svc': "svc' = svc \<lparr> svc_Meta := meta',
        svc_Type := (if ps_Type (p_Service pool) \<noteq> [] then ps_Type (p_Service pool) else ''ClusterIP''),
        svc_Selector := poolServiceSelector pool, svc_Ports := owned_port pool port # ports,
        svc_ExternalIPs := ps_ExternalIPs (p_Service pool) \<rparr>"
    using assms(2,4)
    by (cases "SetControllerReference L ''Pool'' (p_Meta pool) ?meta")
      (auto simp: service_mutation_def assertControlledBy_def Let_def split: if_splits)
  have "m_Name meta' = m_Name (svc_Meta svc)"
    using kube_laws.set_controller [OF assms(1) meta'] by auto
  then show ?thesis using owned svc' by (simp add: owned_port_def poolServiceSelector_def Let_def)
qed

section \<open>At concrete inputs\<close>

definition demo_pool :: "string \<Rightarrow> int option \<Rightarrow> int \<Rightarrow> Pool" where
  "demo_pool name deleted created =
     \<lparr> p_Meta = new_meta name ''ns'' \<lparr> m_CreationTimestamp := Some created,
                  m_DeletionTimestamp := deleted \<rparr>,
       p_Service = \<lparr> ps_Type = [], ps_Port = 0, ps_NodePort = 0, ps_Annotations = [], ps_Labels = [],
                     ps_ExternalIPs = [] \<rparr>,
       p_Route = Some \<lparr> r_Enabled = True, r_Hostname = ''h'', r_GatewayName = ''gw'', r_GatewaySection = [],
                        r_InjectDNSAltName = False \<rparr>,
       p_Status = \<lparr> pt_ObservedGeneration = 0, pt_ServiceName = [], pt_Endpoints = 0, pt_Conditions = [] \<rparr> \<rparr>"

lemmas demo_pool_defs = demo_pool_def new_meta_def claims_hostname_def

lemma demo_owner: "hostname_owner (demo_pool ''b'' None 1) [demo_pool ''b'' None 1, demo_pool ''a'' None 1] = demo_pool ''a'' None 1"
  by (simp add: hostname_owner_def competes_def claimPrecedes_def demo_pool_def new_meta_def route_hostname_def)

theorem hostname_owner_agreed_witness:
  "let a = demo_pool ''a'' None 1; b = demo_pool ''b'' None 1 in
   m_Name (p_Meta (hostname_owner a [a, b])) = m_Name (p_Meta (hostname_owner b [b, a])) \<and>
   hostname_owner a [a, b] \<in> {a, b} \<and> claims_hostname ''h'' (hostname_owner a [a, b])"
  unfolding Let_def
  using hostname_owner_agreed [of "[demo_pool ''a'' None 1, demo_pool ''b'' None 1]"
      "[demo_pool ''b'' None 1, demo_pool ''a'' None 1]" "demo_pool ''a'' None 1" "demo_pool ''b'' None 1" "''h''"]
  by (simp add: demo_pool_defs insert_commute)

theorem deleting_pool_keeps_claim_witness:
  "let a = demo_pool ''a'' (Some 5) 1; b = demo_pool ''b'' None 2 in
   hostname_owner a [a, b] = a \<and> hostname_owner b [a, b] = b"
proof -
  let ?a = "demo_pool ''a'' (Some 5) 1" and ?b = "demo_pool ''b'' None 2"
  have before: "claimPrecedes ?a ?b" by (simp add: claimPrecedes_def time_before_def demo_pool_defs)
  have b: "claims_hostname (route_hostname ?a) ?b"
    by (simp add: demo_pool_defs route_hostname_def)
  have a: "\<not> claims_hostname (route_hostname ?a) ?a" "m_DeletionTimestamp (p_Meta ?a) \<noteq> None"
    by (simp_all add: demo_pool_defs)
  show ?thesis
    unfolding Let_def
    by (rule deleting_pool_keeps_claim) (use before b a in auto)
qed

theorem loser_requeued_witness:
  "(''ns'', ''b'') \<in> set (poolsSharingHostname (demo_pool ''a'' None 1)
     (Some [demo_pool ''b'' None 1, demo_pool ''a'' None 1]))"
proof -
  let ?b = "demo_pool ''b'' None 1"
  have "p_Route ?b = Some \<lparr> r_Enabled = True, r_Hostname = ''h'', r_GatewayName = ''gw'',
      r_GatewaySection = [], r_InjectDNSAltName = False \<rparr>" by (simp add: demo_pool_def)
  from loser_requeued [OF _ this, of "[?b, demo_pool ''a'' None 1]"]
  have "pool_request ?b \<in> set (poolsSharingHostname (demo_pool ''a'' None 1) (Some [?b, demo_pool ''a'' None 1]))"
    unfolding demo_owner by (simp add: demo_pool_defs)
  then show ?thesis by (simp add: pool_request_def demo_pool_def new_meta_def)
qed

definition demo_pool_env :: "Pool list \<Rightarrow> pool_env" where
  "demo_pool_env pools = \<lparr> pe_lib = reference_lib, pe_retries = 4, pe_GatewayAPIAvailable = True,
     pe_getPool = (\<lambda>_ _. Inl (Err NotFound [])), pe_listPools = (\<lambda>_. Inr pools),
     pe_updateStatus = (\<lambda>_ _. Inr ()), pe_getService = (\<lambda>_ _. Inl (Err NotFound [])),
     pe_writeService = (\<lambda>_ _. Inr ()), pe_getRoute = (\<lambda>_ _. Inl (Err NotFound [])),
     pe_writeRoute = (\<lambda>_ _. Inr ()), pe_deleteRoute = (\<lambda>_ _. Inr ()),
     pe_listEndpointSlices = (\<lambda>_. Inr []) \<rparr>"

theorem outranked_pool_no_route_witness:
  "let b = demo_pool ''b'' None 1; E = demo_pool_env [b, demo_pool ''a'' None 1] in
   fst (route_phase E \<lparr> hist = [], obj = b \<rparr>) = Inr (''a'', ''h'')"
proof -
  let ?b = "demo_pool ''b'' None 1" and ?a = "demo_pool ''a'' None 1"
  let ?E = "demo_pool_env [?b, ?a]" and ?s = "\<lparr> hist = [], obj = demo_pool ''b'' None 1 \<rparr> :: pst"
  have route: "p_Route (obj ?s) = Some \<lparr> r_Enabled = True, r_Hostname = ''h'', r_GatewayName = ''gw'',
      r_GatewaySection = [], r_InjectDNSAltName = False \<rparr>" by (simp add: demo_pool_def)
  have env: "pe_GatewayAPIAvailable ?E" "pe_listPools ?E (hist ?s) = Inr [?b, ?a]"
    by (simp_all add: demo_pool_env_def)
  have outranked: "m_Name (p_Meta (hostname_owner (obj ?s) [?b, ?a])) \<noteq> m_Name (p_Meta (obj ?s))"
    using demo_owner by (simp add: demo_pool_def new_meta_def)
  have ok: "\<exists>r. fst (route_phase ?E ?s) = Inr r"
    by (simp add: route_phase_def hostnameOwner_def deleteOwnedTLSRoute_def bnd_def thn_def reads_def
        outcome_def wrapping_def call_def ret_def demo_pool_env_def demo_pool_def new_meta_def
        hostname_owner_def competes_def claimPrecedes_def route_hostname_def IsNotFound_def Let_def)
  then show ?thesis
    using outranked_pool_no_route [OF route _ env outranked] demo_owner
    by (auto simp: Let_def demo_pool_def new_meta_def)
qed

definition demo_service :: Service where
  "demo_service = \<lparr> svc_Meta = new_meta ''p'' ''ns'' \<lparr> m_ResourceVersion := ''7'',
       m_OwnerReferences := [\<lparr> or_Kind = ''Pool'', or_Name = ''p'', or_UID = [], or_Controller = True \<rparr>] \<rparr>,
     svc_Type = ''NodePort'', svc_ClusterIP = ''10.0.0.1'', svc_Selector = [],
     svc_Ports = [\<lparr> sp_Name = ''https'', sp_Port = 1, sp_TargetPort = 1, sp_Protocol = ''TCP'', sp_NodePort = 30001 \<rparr>],
     svc_ExternalIPs = [] \<rparr>"

theorem pool_service_preserved_witness:
  "\<exists>svc'. service_mutation reference_lib (demo_pool ''p'' None 1) demo_service = Inr svc' \<and>
     svc_ClusterIP svc' = ''10.0.0.1'' \<and> svc_Selector svc' = [(poolLabel ''p'', ''true'')]"
proof -
  obtain svc' where m: "service_mutation reference_lib (demo_pool ''p'' None 1) demo_service = Inr svc'"
    by (simp add: service_mutation_def assertControlledBy_def reference_lib_def demo_service_def
        demo_pool_def new_meta_def set_controller_reference_def Let_def)
  have svc: "m_ResourceVersion (svc_Meta demo_service) \<noteq> []"
    "svc_Ports demo_service = [\<lparr> sp_Name = ''https'', sp_Port = 1, sp_TargetPort = 1, sp_Protocol = ''TCP'', sp_NodePort = 30001 \<rparr>]"
    by (simp_all add: demo_service_def)
  show ?thesis
    using pool_service_preserved [OF reference.kube_laws_axioms m svc] m
    by (auto simp: demo_service_def demo_pool_def new_meta_def)
qed

end
