(* ===== verification/ConfigApi.thy ===== *)
theory ConfigApi
  imports Api
begin

text \<open>
  The custom resources of api/v1alpha1 that the configuration side reads and reports on:
  Config, SigningPolicy, NodeClassifier, ReportProcessor and Database, with Go's pointers as
  options, int32 and int64 fields as integers of the range of their type, string maps as
  association lists, and the string-typed phases as datatypes whose first constructor is the
  empty string.
\<close>

section \<open>Shared parts\<close>

record SecretKeyRef =
  skr_Name :: string
  skr_Key :: string

record SecretKeySelector =
  sks_SecretKeyRef :: SecretKeyRef

record TokenAuth =
  ta_Header :: string
  ta_SecretKeyRef :: SecretKeyRef

record BasicAuthSecretRef =
  ba_Name :: string
  ba_UsernameKey :: string
  ba_PasswordKey :: string

section \<open>Config\<close>

record HTTPClientSpec =
  hc_ConnectTimeoutMs :: "int option"
  hc_IdleTimeoutMs :: "int option"

record AuthorizationMatchRequest =
  mr_Path :: string
  mr_Type :: string
  mr_Method :: "string list"

record AuthorizationRule =
  ar_Name :: string
  ar_MatchRequest :: AuthorizationMatchRequest
  ar_Allow :: string
  ar_AllowUnauthenticated :: bool
  ar_Deny :: string
  ar_SortOrder :: int

record PuppetServerSpec =
  pss_MaxRequestsPerInstance :: int
  pss_BorrowTimeout :: int
  pss_CompileMode :: string
  pss_ClientAuth :: string
  pss_HTTPClient :: "HTTPClientSpec option"
  pss_AuthorizationRules :: "AuthorizationRule list"

record LoggingSpec =
  lg_Level :: string
  lg_Loggers :: "string smap"

record JMXSpec =
  jmx_Enabled :: bool

record GraphiteSpec =
  gr_Enabled :: bool
  gr_Host :: string
  gr_Port :: int
  gr_UpdateIntervalSeconds :: int

record MetricsSpec =
  me_Enabled :: bool
  me_JMX :: "JMXSpec option"
  me_Graphite :: "GraphiteSpec option"

record PuppetExtraConfig =
  ec_Main :: "string smap"
  ec_Server :: "string smap"
  ec_Agent :: "string smap"

record PuppetSpec =
  pu_EnvironmentTimeout :: string
  pu_EnvironmentPath :: string
  pu_HieraConfig :: string
  pu_Storeconfigs :: "bool option"
  pu_StoreBackend :: string
  pu_Reports :: string
  pu_ExtraConfig :: "PuppetExtraConfig option"
  pu_AutosignCommand :: string
  pu_ExternalNodesCommand :: string

record ConfigSpec =
  cf_Image :: ImageSpec
  cf_AuthorityRef :: string
  cf_DatabaseRef :: string
  cf_PuppetDBServerURLs :: "string list"
  cf_Puppet :: PuppetSpec
  cf_PuppetServer :: PuppetServerSpec
  cf_Logging :: "LoggingSpec option"
  cf_Metrics :: "MetricsSpec option"
  cf_NodeClassifierRef :: string
  cf_Code :: "CodeSpec list"
  cf_ReadOnlyRootFilesystem :: "bool option"

datatype ConfigPhase = ConfigNoPhase | ConfigPending | ConfigRunning | ConfigError

record ConfigStatus =
  cft_ObservedGeneration :: int
  cft_Phase :: ConfigPhase
  cft_Conditions :: "Condition list"

record Config =
  cfg_Meta :: ObjectMeta
  cfg_Spec :: ConfigSpec
  cfg_Status :: ConfigStatus

definition ConditionConfigReady :: string where "ConditionConfigReady = ''ConfigReady''"

abbreviation cfg_name :: "Config \<Rightarrow> string" where "cfg_name cfg \<equiv> m_Name (cfg_Meta cfg)"
abbreviation cfg_ns :: "Config \<Rightarrow> string" where "cfg_ns cfg \<equiv> m_Namespace (cfg_Meta cfg)"

definition index_config_authorityRef :: "Config \<Rightarrow> string list" where
  "index_config_authorityRef cfg =
     (if cf_AuthorityRef (cfg_Spec cfg) = [] then [] else [cf_AuthorityRef (cfg_Spec cfg)])"

definition index_config_nodeClassifierRef :: "Config \<Rightarrow> string list" where
  "index_config_nodeClassifierRef cfg =
     (if cf_NodeClassifierRef (cfg_Spec cfg) = [] then [] else [cf_NodeClassifierRef (cfg_Spec cfg)])"

section \<open>SigningPolicy\<close>

record PatternSpec =
  psp_Allow :: "string list"

record CSRAttributeMatch =
  cam_Name :: string
  cam_Value :: string
  cam_ValueFrom :: "SecretKeySelector option"

record SigningPolicySpec =
  sp_CertificateAuthorityRef :: string
  sp_Any :: bool
  sp_Certnames :: "PatternSpec option"
  sp_DNSAltNames :: "PatternSpec option"
  sp_IPAltNames :: "PatternSpec option"
  sp_URIAltNames :: "PatternSpec option"
  sp_EmailAltNames :: "PatternSpec option"
  sp_Extensions :: "PatternSpec option"
  sp_CSRAttributes :: "CSRAttributeMatch list"

text \<open>The phases of the three resources whose status only reports on a rendered Secret.\<close>

datatype RenderPhase = RenderNoPhase | RenderActive | RenderDisabled | RenderError

record RenderStatus =
  rst_ObservedGeneration :: int
  rst_Phase :: RenderPhase
  rst_Conditions :: "Condition list"

record SigningPolicy =
  spo_Meta :: ObjectMeta
  spo_Spec :: SigningPolicySpec
  spo_Status :: RenderStatus

section \<open>NodeClassifier\<close>

record NodeClassifierAuth =
  na_MTLS :: bool
  na_Token :: "TokenAuth option"
  na_Bearer :: "SecretKeySelector option"
  na_Basic :: "BasicAuthSecretRef option"

record NodeClassifierCache =
  nca_Enabled :: bool
  nca_Directory :: string

record NodeClassifierSpec =
  nc_URL :: string
  nc_RequestMethod :: string
  nc_RequestPath :: string
  nc_RequestBody :: string
  nc_ResponseFormat :: string
  nc_TimeoutSeconds :: int
  nc_Auth :: "NodeClassifierAuth option"
  nc_Cache :: "NodeClassifierCache option"

record NodeClassifier =
  nco_Meta :: ObjectMeta
  nco_Spec :: NodeClassifierSpec
  nco_Status :: RenderStatus

section \<open>ReportProcessor\<close>

record ConfigMapKeyRef =
  cmr_Name :: string
  cmr_Key :: string

record HTTPHeaderValueFrom =
  vf_SecretKeyRef :: "SecretKeyRef option"
  vf_ConfigMapKeyRef :: "ConfigMapKeyRef option"

record HTTPHeader =
  hh_Name :: string
  hh_Value :: string
  hh_ValueFrom :: "HTTPHeaderValueFrom option"

record ReportProcessorSpec =
  rp_ConfigRef :: string
  rp_Processor :: string
  rp_URL :: string
  rp_TimeoutSeconds :: int
  rp_Auth :: "NodeClassifierAuth option"
  rp_Headers :: "HTTPHeader list"

record ReportProcessor =
  rpo_Meta :: ObjectMeta
  rpo_Spec :: ReportProcessorSpec
  rpo_Status :: RenderStatus

definition ConditionRenderReady :: string where "ConditionRenderReady = ''Ready''"

section \<open>Database\<close>

record PostgresSpec =
  pg_Host :: string
  pg_Port :: int
  pg_Database :: string
  pg_CredentialsSecretRef :: string
  pg_SSLMode :: string

datatype DatabasePhase = DatabaseNoPhase | DatabasePending | DatabaseWaitingForCert
  | DatabaseRunning | DatabaseError

record DatabaseStatus =
  dt_ObservedGeneration :: int
  dt_Phase :: DatabasePhase
  dt_URL :: string
  dt_Ready :: int
  dt_Desired :: int
  dt_Conditions :: "Condition list"

record DatabaseSpec =
  ds_CertificateRef :: string
  ds_Image :: ImageSpec
  ds_Postgres :: PostgresSpec
  ds_Replicas :: "int option"
  ds_JavaArgs :: string
  ds_PDB :: "PDBSpec option"
  ds_NetworkPolicy :: "NetworkPolicySpec option"
  ds_PriorityClassName :: string
  ds_ServiceType :: string
  ds_ServicePort :: int
  ds_ServiceAnnotations :: "string smap"
  ds_Resources :: ResourceRequirements
  ds_SecurityContext :: "PodSecurityContextSpec option"

record Database =
  db_Meta :: ObjectMeta
  db_Spec :: DatabaseSpec
  db_Status :: DatabaseStatus

section \<open>Objects without any field set\<close>

definition blank_puppet :: PuppetSpec where
  "blank_puppet = \<lparr> pu_EnvironmentTimeout = [], pu_EnvironmentPath = [], pu_HieraConfig = [],
     pu_Storeconfigs = None, pu_StoreBackend = [], pu_Reports = [], pu_ExtraConfig = None,
     pu_AutosignCommand = [], pu_ExternalNodesCommand = [] \<rparr>"

definition blank_config :: "string \<Rightarrow> string \<Rightarrow> Config" where
  "blank_config name ns = \<lparr> cfg_Meta = new_meta name ns,
     cfg_Spec = \<lparr> cf_Image = \<lparr> im_Repository = [], im_Tag = [], im_PullPolicy = [], im_PullSecrets = [] \<rparr>,
       cf_AuthorityRef = [], cf_DatabaseRef = [], cf_PuppetDBServerURLs = [],
       cf_Puppet = blank_puppet,
       cf_PuppetServer = \<lparr> pss_MaxRequestsPerInstance = 0, pss_BorrowTimeout = 0,
         pss_CompileMode = [], pss_ClientAuth = [], pss_HTTPClient = None,
         pss_AuthorizationRules = [] \<rparr>,
       cf_Logging = None, cf_Metrics = None, cf_NodeClassifierRef = [], cf_Code = [],
       cf_ReadOnlyRootFilesystem = None \<rparr>,
     cfg_Status = \<lparr> cft_ObservedGeneration = 0, cft_Phase = ConfigNoPhase, cft_Conditions = [] \<rparr> \<rparr>"

definition blank_policy :: "string \<Rightarrow> string \<Rightarrow> string \<Rightarrow> SigningPolicy" where
  "blank_policy name ns ca = \<lparr> spo_Meta = new_meta name ns,
     spo_Spec = \<lparr> sp_CertificateAuthorityRef = ca, sp_Any = False, sp_Certnames = None,
       sp_DNSAltNames = None, sp_IPAltNames = None, sp_URIAltNames = None, sp_EmailAltNames = None,
       sp_Extensions = None, sp_CSRAttributes = [] \<rparr>,
     spo_Status = \<lparr> rst_ObservedGeneration = 0, rst_Phase = RenderNoPhase, rst_Conditions = [] \<rparr> \<rparr>"

section \<open>Functions of helpers.go on a Config\<close>

definition defaultEnvironmentPath :: string where
  "defaultEnvironmentPath = ''/etc/puppetlabs/code/environments''"

definition resolveEnvironmentPath :: "Config \<Rightarrow> string" where
  "resolveEnvironmentPath cfg =
     (if pu_EnvironmentPath (cf_Puppet (cfg_Spec cfg)) \<noteq> [] then pu_EnvironmentPath (cf_Puppet (cfg_Spec cfg))
      else defaultEnvironmentPath)"

definition configImagePullPolicy :: "Config \<Rightarrow> string" where
  "configImagePullPolicy cfg =
     (if im_PullPolicy (cf_Image (cfg_Spec cfg)) \<noteq> [] then im_PullPolicy (cf_Image (cfg_Spec cfg))
      else ''IfNotPresent'')"

definition pullPolicyOrDefault :: "string \<Rightarrow> string" where
  "pullPolicyOrDefault p = (if p \<noteq> [] then p else ''IfNotPresent'')"

text \<open>appendPullSecrets: the loop over the added references with its seen set.\<close>

fun append_pull_secrets :: "string list \<Rightarrow> string list \<Rightarrow> string list \<Rightarrow> string list" where
  "append_pull_secrets seen existing [] = existing"
| "append_pull_secrets seen existing (a # add) =
     (if a = [] \<or> a \<in> set seen then append_pull_secrets seen existing add
      else append_pull_secrets (a # seen) (existing @ [a]) add)"

definition appendPullSecrets :: "string list \<Rightarrow> string list \<Rightarrow> string list" where
  "appendPullSecrets existing add = append_pull_secrets existing existing add"

lemma append_pull_secrets_props:
  assumes "set existing = set seen" "distinct existing"
  shows "set (append_pull_secrets seen existing add) = set existing \<union> (set add - {[]}) \<and>
    distinct (append_pull_secrets seen existing add)"
  using assms
proof (induction seen existing add rule: append_pull_secrets.induct)
  case (2 seen existing a add)
  then show ?case by (cases "a = [] \<or> a \<in> set seen") auto
qed simp

end
