(* ===== verification/ConfigRender.thy ===== *)
theory ConfigRender
  imports ConfigApi
begin

text \<open>
  The files the Config controller renders (config_rendering.go), as functions of the Config, the
  CertificateAuthority it references and what was read besides. A line break in a literal is
  written \<open>\<newline>\<close>. The rules of auth.conf are a list of records and a printer, so that what they
  grant can be stated; \<open>printed_auth_conf\<close> is the text of the file.
\<close>

section \<open>puppet.conf\<close>

definition encBinaryPath :: string where "encBinaryPath = ''/usr/local/bin/openvox-enc''"
definition autosignBinaryPath :: string where
  "autosignBinaryPath = ''/usr/local/bin/openvox-autosign''"

definition setting :: "string \<Rightarrow> string \<Rightarrow> string" where
  "setting k v = k @ '' = '' @ v @ ''\<newline>''"

definition sorted_settings :: "string smap \<Rightarrow> string" where
  "sorted_settings m = concat (map (\<lambda>k. setting k (sval m k)) (sort_compact (map fst m)))"

definition writeExtraConfig :: "PuppetExtraConfig option \<Rightarrow> string \<Rightarrow> string" where
  "writeExtraConfig extra section =
     (case extra of
        None \<Rightarrow> []
      | Some e \<Rightarrow>
         if section = ''main'' then sorted_settings (ec_Main e)
         else if section = ''server'' then sorted_settings (ec_Server e)
         else if section = ''agent'' then sorted_settings (ec_Agent e)
         else [])"

definition report_targets :: "Config \<Rightarrow> bool \<Rightarrow> string" where
  "report_targets cfg hasRP =
     (let reports = pu_Reports (cf_Puppet (cfg_Spec cfg))
      in if hasRP then
           (if reports = [] then ''webhook''
            else if \<not> Contains reports ''webhook'' then reports @ '',webhook''
            else reports)
         else reports)"

definition main_section :: "Config \<Rightarrow> string" where
  "main_section cfg =
     ''[main]\<newline>confdir = /etc/puppetlabs/puppet\<newline>vardir = /opt/puppetlabs/puppet/cache\<newline>'' @
     ''logdir = /var/log/puppetlabs/puppet\<newline>codedir = /etc/puppetlabs/code\<newline>'' @
     ''rundir = /var/run/puppetlabs\<newline>manage_internal_file_permissions = false\<newline>'' @
     setting ''environmentpath'' (resolveEnvironmentPath cfg) @
     (let h = pu_HieraConfig (cf_Puppet (cfg_Spec cfg)) in if h \<noteq> [] then setting ''hiera_config'' h else []) @
     writeExtraConfig (pu_ExtraConfig (cf_Puppet (cfg_Spec cfg))) ''main''"

text \<open>The settings from the CertificateAuthority: its TTL in seconds and the autosign command.\<close>

definition ca_settings :: "Config \<Rightarrow> CertificateAuthority option \<Rightarrow> err + string" where
  "ca_settings cfg ca =
     (case ca of
        None \<Rightarrow> Inr []
      | Some c \<Rightarrow>
         (let autosign = (let cmd = pu_AutosignCommand (cf_Puppet (cfg_Spec cfg))
                          in setting ''autosign'' (if cmd \<noteq> [] then cmd else autosignBinaryPath))
          in if as_TTL (ca_Spec c) = [] then Inr autosign
             else (case ParseDurationToSeconds (as_TTL (ca_Spec c)) of
                     Inl e \<Rightarrow> Inl (wrapf ''parsing CA TTL'' (duration_err e))
                   | Inr ttl \<Rightarrow> Inr ((if ttl > 0 then setting ''ca_ttl'' (Itoa ttl) else []) @ autosign))))"

definition enc_settings :: "Config \<Rightarrow> string" where
  "enc_settings cfg =
     (let cmd = pu_ExternalNodesCommand (cf_Puppet (cfg_Spec cfg))
      in if cmd \<noteq> [] then ''node_terminus = exec\<newline>'' @ setting ''external_nodes'' cmd
         else if cf_NodeClassifierRef (cfg_Spec cfg) \<noteq> []
         then ''node_terminus = exec\<newline>'' @ setting ''external_nodes'' encBinaryPath
         else [])"

definition puppet_conf :: "Config \<Rightarrow> bool \<Rightarrow> CertificateAuthority option \<Rightarrow> err + string" where
  "puppet_conf cfg hasRP ca =
     (let p = cf_Puppet (cfg_Spec cfg) in
      case ca_settings cfg ca of
        Inl e \<Rightarrow> Inl e
      | Inr caText \<Rightarrow> Inr (main_section cfg @ ''\<newline>[server]\<newline>'' @
          (if pu_EnvironmentTimeout p \<noteq> [] then setting ''environment_timeout'' (pu_EnvironmentTimeout p) else []) @
          (if BoolValue (pu_Storeconfigs p) True
           then ''storeconfigs = true\<newline>'' @
             (if pu_StoreBackend p \<noteq> [] then setting ''storeconfigs_backend'' (pu_StoreBackend p) else [])
           else []) @
          (if report_targets cfg hasRP \<noteq> [] then setting ''reports'' (report_targets cfg hasRP) else []) @
          caText @ enc_settings cfg @ writeExtraConfig (pu_ExtraConfig p) ''server'' @
          (if (case pu_ExtraConfig p of None \<Rightarrow> False | Some e \<Rightarrow> ec_Agent e \<noteq> [])
           then ''\<newline>[agent]\<newline>'' @ writeExtraConfig (pu_ExtraConfig p) ''agent'' else [])))"

section \<open>puppetdb.conf and routes.yaml\<close>

definition puppetdb_conf :: "string option \<Rightarrow> string" where
  "puppetdb_conf urls =
     ''[main]\<newline>'' @ (case urls of None \<Rightarrow> [] | Some u \<Rightarrow> setting ''server_urls'' u) @
     ''soft_write_failure = true\<newline>''"

definition puppetDBActiveForFacts :: "Config \<Rightarrow> bool" where
  "puppetDBActiveForFacts cfg =
     (let p = cf_Puppet (cfg_Spec cfg) in
      if \<not> (cf_DatabaseRef (cfg_Spec cfg) \<noteq> [] \<or> cf_PuppetDBServerURLs (cfg_Spec cfg) \<noteq> []) then False
      else (BoolValue (pu_Storeconfigs p) True \<and> pu_StoreBackend p = ''puppetdb'') \<or>
           Contains (pu_Reports p) ''puppetdb'')"

definition renderRoutesYAML :: "Config \<Rightarrow> string" where
  "renderRoutesYAML cfg =
     (if \<not> puppetDBActiveForFacts cfg then []
      else ''---\<newline>master:\<newline>  facts:\<newline>    terminus: puppetdb\<newline>    cache: json\<newline>'')"

section \<open>webserver.conf and puppetserver.conf\<close>

definition renderWebserverConfWithCRL :: "Config \<Rightarrow> string \<Rightarrow> string" where
  "renderWebserverConfWithCRL cfg crlPath =
     (let c = pss_ClientAuth (cf_PuppetServer (cfg_Spec cfg)); clientAuth = (if c \<noteq> [] then c else ''want'') in
      ''webserver: {\<newline>    client-auth: '' @ clientAuth @ ''\<newline>    ssl-host: 0.0.0.0\<newline>'' @
      ''    ssl-port: 8140\<newline>    ssl-cert: /etc/puppetlabs/puppet/ssl/certs/puppet.pem\<newline>'' @
      ''    ssl-key: /etc/puppetlabs/puppet/ssl/private_keys/puppet.pem\<newline>'' @
      ''    ssl-ca-cert: /etc/puppetlabs/puppet/ssl/certs/ca.pem\<newline>    ssl-crl-path: '' @ crlPath @ ''\<newline>}\<newline>'')"

definition renderWebserverConf :: "Config \<Rightarrow> string" where
  "renderWebserverConf cfg = renderWebserverConfWithCRL cfg ''/etc/puppetlabs/puppet/crl/ca_crl.pem''"

definition renderWebserverConfCA :: "Config \<Rightarrow> string" where
  "renderWebserverConfCA cfg = renderWebserverConfWithCRL cfg ''/etc/puppetlabs/puppet/ssl/crl.pem''"

definition millis :: "string \<Rightarrow> int option \<Rightarrow> string" where
  "millis k v = (case v of None \<Rightarrow> [] | Some ms \<Rightarrow> ''    '' @ k @ '': '' @ Itoa ms @ ''\<newline>'')"

definition renderPuppetserverConf :: "Config \<Rightarrow> string" where
  \<open>renderPuppetserverConf cfg =
     (let ps = cf_PuppetServer (cfg_Spec cfg);
          borrowTimeout = (if pss_BorrowTimeout ps \<noteq> 0 then pss_BorrowTimeout ps else 1200000);
          compileMode = (if pss_CompileMode ps \<noteq> [] then pss_CompileMode ps else ''off'') in
      ''jruby-puppet: {\<newline>    ruby-load-path: [/opt/puppetlabs/puppet/lib/ruby/vendor_ruby]\<newline>'' @
      ''    gem-home: /opt/puppetlabs/server/data/puppetserver/jruby-gems\<newline>'' @
      ''    gem-path: [${jruby-puppet.gem-home}, "/opt/puppetlabs/server/data/puppetserver/vendored-jruby-gems", "/opt/puppetlabs/puppet/lib/ruby/vendor_gems"]\<newline>'' @
      ''    server-conf-dir: /etc/puppetlabs/puppet\<newline>    server-code-dir: /etc/puppetlabs/code\<newline>'' @
      ''    server-var-dir: /run/puppetserver\<newline>    server-run-dir: /run/puppetserver/run\<newline>'' @
      ''    server-log-dir: /var/log/puppetlabs/puppetserver\<newline>    max-active-instances: 1\<newline>'' @
      ''    max-requests-per-instance: '' @ Itoa (pss_MaxRequestsPerInstance ps) @ ''\<newline>'' @
      ''    borrow-timeout: '' @ Itoa borrowTimeout @ ''\<newline>    compile-mode: '' @ compileMode @ ''\<newline>}\<newline>'' @
      ''\<newline>http-client: {\<newline>'' @
      (case pss_HTTPClient ps of
         None \<Rightarrow> []
       | Some h \<Rightarrow> millis ''connect-timeout-milliseconds'' (hc_ConnectTimeoutMs h) @
                   millis ''idle-timeout-milliseconds'' (hc_IdleTimeoutMs h)) @
      ''}\<newline>\<newline>profiler: {\<newline>}\<newline>\<newline>dropsonde: {\<newline>    enabled: false\<newline>}\<newline>'')\<close>

section \<open>auth.conf\<close>

text \<open>Who a rule lets through; the certname of \<open>AllowAdmin\<close> is empty without an internal CA.\<close>

datatype access = AllowUnauthenticated | AllowName string | DenyName string | AllowAdmin string | NoAccess

record auth_rule =
  rule_Path :: string
  rule_Type :: string
  rule_Method :: "string list"
  rule_Access :: access
  rule_SortOrder :: int
  rule_Name :: string

definition rule :: "string \<Rightarrow> string \<Rightarrow> string list \<Rightarrow> access \<Rightarrow> string \<Rightarrow> auth_rule" where
  "rule p ty ms a n = \<lparr> rule_Path = p, rule_Type = ty, rule_Method = ms, rule_Access = a,
                         rule_SortOrder = 500, rule_Name = n \<rparr>"

text \<open>The built-in rules, by the API they guard: catalogs, the CA, status and the rest of the server.\<close>

definition catalogRules :: "auth_rule list" where
  "catalogRules =
     [rule ''^/puppet/v3/catalog/([^/]+)$'' ''regex'' [''get'', ''post''] (AllowName ''$1'') ''puppetlabs v3 catalog from agents'',
      rule ''^/puppet/v4/catalog/?$'' ''regex'' [''post''] (DenyName ''*'') ''puppetlabs v4 catalog for services'']"

definition caRules :: "string \<Rightarrow> auth_rule list" where
  "caRules op =
     [rule ''/puppet-ca/v1/certificate/'' ''path'' [''get''] AllowUnauthenticated ''puppetlabs certificate'',
      rule ''/puppet-ca/v1/certificate_revocation_list/ca'' ''path'' [''get''] AllowUnauthenticated ''puppetlabs crl'',
      rule ''/puppet-ca/v1/certificate_request'' ''path'' [''get'', ''put''] AllowUnauthenticated ''puppetlabs csr'',
      rule ''/puppet-ca/v1/certificate_renewal'' ''path'' [''post''] (AllowName ''*'') ''puppetlabs certificate renewal'',
      rule ''/puppet-ca/v1/certificate_status'' ''path'' [''get'', ''put'', ''delete''] (AllowAdmin op) ''puppetlabs cert status'',
      rule ''^/puppet-ca/v1/certificate_revocation_list$'' ''regex'' [''put''] (AllowAdmin op) ''puppetlabs CRL update'',
      rule ''/puppet-ca/v1/certificate_statuses'' ''path'' [''get''] (AllowAdmin op) ''puppetlabs cert statuses'',
      rule ''/puppet-ca/v1/expirations'' ''path'' [''get''] (AllowName ''*'') ''puppetlabs CA cert and CRL expirations'',
      rule ''/puppet-ca/v1/clean'' ''path'' [''put''] (AllowAdmin op) ''puppetlabs cert clean'',
      rule ''/puppet-ca/v1/sign'' ''path'' [''post''] (AllowAdmin op) ''puppetlabs cert sign'',
      rule ''/puppet-ca/v1/sign/all'' ''path'' [''post''] (AllowAdmin op) ''puppetlabs cert sign all'']"

definition serverRules :: "string \<Rightarrow> auth_rule list" where
  "serverRules op =
     [rule ''/status/v1/services'' ''path'' [''get''] AllowUnauthenticated ''puppetlabs status service - full'',
      rule ''/status/v1/simple'' ''path'' [''get''] AllowUnauthenticated ''puppetlabs status service - simple'',
      rule ''/puppet/v3/environments'' ''path'' [''get''] (AllowName ''*'') ''puppetlabs environments'',
      rule ''/puppet/v3/file_bucket_file'' ''path'' [''head'', ''put''] (AllowName ''*'') ''puppetlabs file bucket file'',
      rule ''/puppet/v3/file_bucket_file'' ''path'' [''get'', ''post''] (AllowAdmin op) ''puppetlabs file bucket file read'',
      rule ''/puppet/v3/file_content'' ''path'' [''get'', ''post''] (AllowName ''*'') ''puppetlabs file content'',
      rule ''/puppet/v3/file_metadata'' ''path'' [''get'', ''post''] (AllowName ''*'') ''puppetlabs file metadata'',
      rule ''^/puppet/v3/node/([^/]+)$'' ''regex'' [''get''] (AllowName ''$1'') ''puppetlabs node'',
      rule ''^/puppet/v3/report/([^/]+)$'' ''regex'' [''put''] (AllowName ''$1'') ''puppetlabs report'',
      rule ''^/puppet/v3/facts/([^/]+)$'' ''regex'' [''put''] (AllowName ''$1'') ''puppetlabs facts'',
      rule ''/puppet/v3/static_file_content'' ''path'' [''get''] (AllowName ''*'') ''puppetlabs static file content'',
      rule ''/puppet/v3/tasks'' ''path'' [] (AllowName ''*'') ''puppet tasks information'',
      rule ''/puppet-admin-api/v1/environment-cache'' ''path'' [''delete''] (AllowAdmin op) ''primary can clean cache after code deploy'']"

definition builtinAuthRules :: "string \<Rightarrow> auth_rule list" where
  "builtinAuthRules op = catalogRules @ caRules op @ serverRules op"

lemmas builtin_rules = builtinAuthRules_def catalogRules_def caRules_def serverRules_def

definition custom_rule :: "AuthorizationRule \<Rightarrow> auth_rule" where
  "custom_rule r =
     \<lparr> rule_Path = mr_Path (ar_MatchRequest r),
       rule_Type = (if mr_Type (ar_MatchRequest r) = [] then ''path'' else mr_Type (ar_MatchRequest r)),
       rule_Method = mr_Method (ar_MatchRequest r),
       rule_Access = (if ar_AllowUnauthenticated r then AllowUnauthenticated
                      else if ar_Allow r \<noteq> [] then AllowName (ar_Allow r)
                      else if ar_Deny r \<noteq> [] then DenyName (ar_Deny r) else NoAccess),
       rule_SortOrder = (if ar_SortOrder r = 0 then 500 else ar_SortOrder r),
       rule_Name = ar_Name r \<rparr>"

definition deny_all_rule :: auth_rule where
  "deny_all_rule = rule ''/'' ''path'' [] (DenyName ''*'') ''puppetlabs deny all'' \<lparr> rule_SortOrder := 999 \<rparr>"

definition operator_certname :: "CertificateAuthority option \<Rightarrow> string" where
  "operator_certname ca =
     (case ca of
        None \<Rightarrow> []
      | Some c \<Rightarrow> if as_External (ca_Spec c) = None then operatorSigningCertname (m_Name (ca_Meta c)) else [])"

definition auth_rules :: "Config \<Rightarrow> CertificateAuthority option \<Rightarrow> auth_rule list" where
  "auth_rules cfg ca =
     builtinAuthRules (operator_certname ca) @
     map custom_rule (pss_AuthorizationRules (cf_PuppetServer (cfg_Spec cfg))) @ [deny_all_rule]"

definition ppCliAuthAllow :: "string \<Rightarrow> string" where
  \<open>ppCliAuthAllow op =
     (if op \<noteq> [] then
        ''            allow: [\<newline>                {\<newline>                    extensions: {\<newline>'' @
        ''                        pp_cli_auth: "true"\<newline>                    }\<newline>                },\<newline>'' @
        ''                '' @ Quote op @ ''\<newline>            ]''
      else
        ''            allow: {\<newline>               extensions: {\<newline>'' @
        ''                   pp_cli_auth: "true"\<newline>               }\<newline>            }'')\<close>

definition show_access :: "access \<Rightarrow> string" where
  "show_access a =
     (case a of
        AllowUnauthenticated \<Rightarrow> ''            allow-unauthenticated: true\<newline>''
      | AllowName n \<Rightarrow> ''            allow: '' @ Quote n @ ''\<newline>''
      | DenyName n \<Rightarrow> ''            deny: '' @ Quote n @ ''\<newline>''
      | AllowAdmin op \<Rightarrow> ppCliAuthAllow op @ ''\<newline>''
      | NoAccess \<Rightarrow> [])"

definition show_methods :: "string list \<Rightarrow> string" where
  "show_methods ms =
     (case ms of
        [] \<Rightarrow> []
      | [m] \<Rightarrow> ''                method: '' @ m @ ''\<newline>''
      | _ \<Rightarrow> ''                method: ['' @ Join ms '', '' @ '']\<newline>'')"

definition show_rule :: "auth_rule \<Rightarrow> string" where
  "show_rule r =
     ''        {\<newline>            match-request: {\<newline>                path: '' @ Quote (rule_Path r) @
     ''\<newline>                type: '' @ rule_Type r @ ''\<newline>'' @ show_methods (rule_Method r) @
     ''            }\<newline>'' @ show_access (rule_Access r) @
     ''            sort-order: '' @ Itoa (rule_SortOrder r) @ ''\<newline>            name: '' @ Quote (rule_Name r) @
     ''\<newline>        }''"

definition renderAuthConf :: "Config \<Rightarrow> CertificateAuthority option \<Rightarrow> string" where
  "renderAuthConf cfg ca =
     ''authorization: {\<newline>    version: 1\<newline>    rules: [\<newline>'' @
     Join (map show_rule (auth_rules cfg ca)) '',\<newline>'' @ ''\<newline>    ]\<newline>}\<newline>''"

section \<open>logback.xml, metrics.conf and ca.conf\<close>

definition logback_head :: string where
  \<open>logback_head =
     ''<configuration scan="true">\<newline>    <appender name="STDOUT" class="ch.qos.logback.core.ConsoleAppender">\<newline>'' @
     ''        <encoder>\<newline>            <pattern>%d %-5p [%t] [%c{2}] %m%n</pattern>\<newline>        </encoder>\<newline>    </appender>\<newline>\<newline>''\<close>

definition logger_line :: "string \<times> string \<Rightarrow> string" where
  "logger_line l = ''    <logger name='' @ Quote (fst l) @ '' level='' @ Quote (snd l) @ '' />\<newline>''"

definition logback_root :: "Config \<Rightarrow> string" where
  \<open>logback_root cfg =
     ''    <root level='' @
     Quote (case cf_Logging (cfg_Spec cfg) of
              None \<Rightarrow> ''INFO''
            | Some l \<Rightarrow> if lg_Level l \<noteq> [] then lg_Level l else ''INFO'') @
     ''>\<newline>        <appender-ref ref="STDOUT" />\<newline>    </root>\<newline></configuration>\<newline>''\<close>

text \<open>The loggers in the order in which Go happens to iterate over the map.\<close>

definition renderLogbackXML :: "Config \<Rightarrow> (string \<times> string) list \<Rightarrow> string" where
  "renderLogbackXML cfg loggers =
     logback_head @ concat (map logger_line loggers) @
     (if loggers \<noteq> [] then ''\<newline>'' else []) @ logback_root cfg"

definition jmx_reporter :: string where
  "jmx_reporter = ''                jmx: {\<newline>                    enabled: true\<newline>                }''"

definition graphite_reporter :: "GraphiteSpec \<Rightarrow> string" where
  "graphite_reporter g =
     ''                graphite: {\<newline>                    enabled: true\<newline>                    host: '' @ Quote (gr_Host g) @
     ''\<newline>                    port: '' @ Itoa (if gr_Port g \<noteq> 0 then gr_Port g else 2003) @
     ''\<newline>                    update-interval-seconds: '' @
     Itoa (if gr_UpdateIntervalSeconds g \<noteq> 0 then gr_UpdateIntervalSeconds g else 60) @
     ''\<newline>                }''"

definition metric_reporters :: "MetricsSpec \<Rightarrow> string list" where
  "metric_reporters m =
     (if (case me_JMX m of None \<Rightarrow> False | Some j \<Rightarrow> jmx_Enabled j) then [jmx_reporter] else []) @
     (case me_Graphite m of
        None \<Rightarrow> []
      | Some g \<Rightarrow> if gr_Enabled g then [graphite_reporter g] else [])"

definition renderMetricsConf :: "Config \<Rightarrow> string" where
  "renderMetricsConf cfg =
     ''metrics: {\<newline>    server-id: localhost\<newline>'' @
     (case cf_Metrics (cfg_Spec cfg) of
        None \<Rightarrow> []
      | Some m \<Rightarrow>
         if \<not> me_Enabled m then []
         else ''    registries: {\<newline>        puppetserver: {\<newline>'' @
           (if metric_reporters m \<noteq> []
            then ''            reporters: {\<newline>'' @
              concat (map (\<lambda>r. r @ ''\<newline>'') (metric_reporters m)) @ ''            }\<newline>''
            else []) @
           ''        }\<newline>    }\<newline>'') @
     ''}\<newline>''"

definition show_bool :: "bool \<Rightarrow> string" where
  "show_bool b = (if b then ''true'' else ''false'')"

definition renderCAConf :: "CertificateAuthority option \<Rightarrow> string" where
  "renderCAConf ca =
     (let flag = (\<lambda>f. case ca of None \<Rightarrow> True | Some c \<Rightarrow> BoolValue (f (ca_Spec c)) True);
          ttl = (case ca of
                   None \<Rightarrow> ''90d''
                 | Some c \<Rightarrow> if as_AutoRenewalCertTTL (ca_Spec c) \<noteq> [] then as_AutoRenewalCertTTL (ca_Spec c)
                             else ''90d'') in
      ''certificate-authority: {\<newline>    allow-subject-alt-names: '' @ show_bool (flag as_AllowSubjectAltNames) @
      ''\<newline>    allow-authorization-extensions: '' @ show_bool (flag as_AllowAuthorizationExtensions) @
      ''\<newline>    enable-infra-crl: '' @ show_bool (flag as_EnableInfraCRL) @
      ''\<newline>    allow-auto-renewal: '' @ show_bool (flag as_AllowAutoRenewal) @
      ''\<newline>    auto-renewal-cert-ttl: '' @ ttl @ ''\<newline>}\<newline>'')"

end
