(* ===== verification/RenderedSource.thy ===== *)
theory RenderedSource
  imports ConfigApi
begin

text \<open>
  The record a rendered Secret carries of the resources it was rendered from
  (rendered_source.go): the printed annotation, its reading back for one resource, and the
  watch that maps the Secret back to all of them.
\<close>

definition AnnotationRenderedFrom :: string where
  "AnnotationRenderedFrom = ''openvox.voxpupuli.org/rendered-from''"

record renderSource =
  rs_Name :: string
  rs_Generation :: int

definition sourceOf :: "ObjectMeta \<Rightarrow> renderSource" where
  "sourceOf m = \<lparr> rs_Name = m_Name m, rs_Generation = m_Generation m \<rparr>"

definition source_text :: "renderSource \<Rightarrow> string" where
  "source_text s = rs_Name s @ CHR ''='' # Itoa (rs_Generation s)"

definition renderedFromAnnotation :: "renderSource list \<Rightarrow> string smap" where
  "renderedFromAnnotation sources =
     [(AnnotationRenderedFrom, Join (sort (map source_text sources)) '','')]"

definition renderedSourceRecorded :: "string smap \<Rightarrow> bool" where
  "renderedSourceRecorded annotations = (sget annotations AnnotationRenderedFrom \<noteq> None)"

text \<open>The loop over the parts; the first part with the name decides.\<close>

fun find_generation :: "string \<Rightarrow> string list \<Rightarrow> int option" where
  "find_generation name [] = None"
| "find_generation name (part # parts) =
     (case Cut part CHR ''='' of (key, gen, found) \<Rightarrow>
        if \<not> found \<or> key \<noteq> name then find_generation name parts else ParseInt64 gen)"

definition renderedGeneration :: "string smap \<Rightarrow> string \<Rightarrow> int option" where
  "renderedGeneration annotations name =
     (case sget annotations AnnotationRenderedFrom of
        None \<Rightarrow> None
      | Some value \<Rightarrow> if value = [] then None else find_generation name (SplitOn CHR '','' value))"

definition renderedSourceRequests :: "ObjectMeta \<Rightarrow> (string \<times> string) list" where
  "renderedSourceRequests m =
     (let value = sval (m_Annotations m) AnnotationRenderedFrom
      in if value = [] then []
         else List.map_filter (\<lambda>part. case Cut part CHR ''='' of (name, _, found) \<Rightarrow>
                if \<not> found \<or> name = [] then None else Some (m_Namespace m, name))
              (SplitOn CHR '','' value))"

definition allOverride :: "Config list \<Rightarrow> (Config \<Rightarrow> string) \<Rightarrow> bool" where
  "allOverride configs command =
     (if list_ex (\<lambda>cfg. command cfg = []) configs then False else length configs > 0)"

definition overrideAutosign :: "Config \<Rightarrow> string" where
  "overrideAutosign cfg = pu_AutosignCommand (cf_Puppet (cfg_Spec cfg))"

definition overrideExternalNodes :: "Config \<Rightarrow> string" where
  "overrideExternalNodes cfg = pu_ExternalNodesCommand (cf_Puppet (cfg_Spec cfg))"

section \<open>Reading the record back\<close>

text \<open>A name the API server accepts has neither of the separators.\<close>

definition source_name :: "string \<Rightarrow> bool" where
  "source_name n = (n \<noteq> [] \<and> CHR '','' \<notin> set n \<and> CHR ''='' \<notin> set n)"

definition well_recorded :: "renderSource list \<Rightarrow> bool" where
  "well_recorded sources =
     (distinct (map rs_Name sources) \<and>
      list_all (\<lambda>s. source_name (rs_Name s) \<and> in_int64 (rs_Generation s)) sources)"

lemma digit_chars_plain:
  "CHR '','' \<notin> set (nat_digits n)" "CHR ''='' \<notin> set (nat_digits n)"
  using nat_digits_chars by fastforce+

lemma Itoa_plain: "CHR '','' \<notin> set (Itoa i)" "CHR ''='' \<notin> set (Itoa i)"
  by (auto simp: Itoa_def digit_chars_plain)

lemma source_text_cut:
  "source_name (rs_Name s) \<Longrightarrow>
   Cut (source_text s) CHR ''='' = (rs_Name s, Itoa (rs_Generation s), True)"
  by (simp add: source_text_def source_name_def Cut_found)

lemma source_text_plain: "source_name (rs_Name s) \<Longrightarrow> CHR '','' \<notin> set (source_text s)"
  by (simp add: source_text_def source_name_def Itoa_plain)

lemma source_text_nonempty [simp]: "source_text s \<noteq> []"
  by (simp add: source_text_def)

lemma sort_Nil_iff [simp]: "sort xs = [] \<longleftrightarrow> xs = []"
  by (metis set_empty set_sort)

lemma find_SomeD: "find P xs = Some x \<Longrightarrow> x \<in> set xs \<and> P x"
  by (induction xs) (auto split: if_splits)

lemma set_map_filter: "set (List.map_filter g xs) = {y. \<exists>x \<in> set xs. g x = Some y}"
  by (induction xs) (auto simp: map_filter_simps split: option.splits)

lemma recorded_parts:
  assumes "well_recorded sources" "sources \<noteq> []"
  shows "SplitOn CHR '','' (Join (sort (map source_text sources)) '','') = sort (map source_text sources)"
  using assms source_text_plain
  by (intro SplitOn_Join) (auto simp: well_recorded_def list_all_iff)

lemma Join_nonempty: "ps \<noteq> [] \<Longrightarrow> [] \<notin> set ps \<Longrightarrow> Join ps sep \<noteq> []"
  by (induction ps sep rule: Join.induct) auto

lemma joined_nonempty:
  assumes "sources \<noteq> []"
  shows "Join (sort (map source_text sources)) '','' \<noteq> []"
proof (rule Join_nonempty)
  show "sort (map source_text sources) \<noteq> []" using assms by simp
  show "[] \<notin> set (sort (map source_text sources))"
    using source_text_nonempty by (metis ex_map_conv set_sort)
qed

lemma find_generation_texts:
  assumes "\<And>p. p \<in> set parts \<Longrightarrow> \<exists>s \<in> set sources. p = source_text s"
    and "well_recorded sources" and "s \<in> set sources"
  shows "find_generation (rs_Name s) parts =
    (if source_text s \<in> set parts then Some (rs_Generation s) else None)"
  using assms(1)
proof (induction parts)
  case (Cons p parts)
  obtain t where t: "t \<in> set sources" "p = source_text t" using Cons.prems by auto
  have plain: "source_name (rs_Name t)" "in_int64 (rs_Generation t)"
    using assms(2) t(1) by (auto simp: well_recorded_def list_all_iff)
  have IH: "find_generation (rs_Name s) parts =
      (if source_text s \<in> set parts then Some (rs_Generation s) else None)"
    using Cons by simp
  show ?case
  proof (cases "rs_Name t = rs_Name s")
    case True
    then have "t = s" using assms(2,3) t(1)
      by (auto simp: well_recorded_def distinct_map inj_on_def)
    then show ?thesis using t plain
      by (simp add: source_text_cut ParseInt64_Itoa in_int64_def)
  next
    case False
    moreover have "source_name (rs_Name s)"
      using assms(2,3) by (simp add: well_recorded_def list_all_iff)
    ultimately have "source_text t \<noteq> source_text s"
      using source_text_cut [OF plain(1)] source_text_cut [of s] by auto
    then show ?thesis using t plain False IH by (simp add: source_text_cut)
  qed
qed simp

lemma find_generation_foreign:
  assumes "\<And>p. p \<in> set parts \<Longrightarrow> \<exists>s \<in> set sources. p = source_text s"
    and "well_recorded sources" and "name \<notin> rs_Name ` set sources"
  shows "find_generation name parts = None"
  using assms(1)
proof (induction parts)
  case (Cons p parts)
  obtain t where t: "t \<in> set sources" "p = source_text t" using Cons.prems by auto
  then have "source_name (rs_Name t)" "rs_Name t \<noteq> name"
    using assms(2,3) by (auto simp: well_recorded_def list_all_iff)
  then show ?case using Cons t by (simp add: source_text_cut)
qed simp

lemma recorded_generation:
  assumes "well_recorded sources"
  shows "renderedGeneration (renderedFromAnnotation sources) name =
    map_option rs_Generation (find (\<lambda>s. rs_Name s = name) sources)"
proof (cases "sources = []")
  case True
  then show ?thesis by (simp add: renderedGeneration_def renderedFromAnnotation_def)
next
  case False
  have parts: "\<exists>s \<in> set sources. p = source_text s" if "p \<in> set (sort (map source_text sources))" for p
    using that by auto
  have nonempty: "Join (sort (map source_text sources)) '','' \<noteq> []"
    using False by (rule joined_nonempty)
  have gen: "renderedGeneration (renderedFromAnnotation sources) name =
      find_generation name (sort (map source_text sources))"
    using nonempty recorded_parts [OF assms False]
    by (simp add: renderedGeneration_def renderedFromAnnotation_def)
  show ?thesis
  proof (cases "find (\<lambda>s. rs_Name s = name) sources")
    case None
    then have "name \<notin> rs_Name ` set sources" by (auto simp: find_None_iff)
    then have "find_generation name (sort (map source_text sources)) = None"
      using find_generation_foreign [of "sort (map source_text sources)" sources name] parts assms by blast
    then show ?thesis using gen None by simp
  next
    case (Some s)
    then have "s \<in> set sources" "rs_Name s = name" by (auto dest: find_SomeD)
    with gen Some find_generation_texts [OF parts assms, of "sort (map source_text sources)" s]
    show ?thesis by simp
  qed
qed

lemma recorded_requests:
  assumes "well_recorded sources"
    and "m_Annotations m = renderedFromAnnotation sources"
  shows "set (renderedSourceRequests m) = (\<lambda>s. (m_Namespace m, rs_Name s)) ` set sources"
proof (cases "sources = []")
  case True
  then show ?thesis using assms(2)
    by (simp add: renderedSourceRequests_def renderedFromAnnotation_def sval_def)
next
  case False
  have nonempty: "Join (sort (map source_text sources)) '','' \<noteq> []"
    using False by (rule joined_nonempty)
  have name: "source_name (rs_Name s)" if "s \<in> set sources" for s
    using assms(1) that by (auto simp: well_recorded_def list_all_iff)
  define f where "f = (\<lambda>part. case Cut part CHR ''='' of (name, _, found) \<Rightarrow>
      if \<not> found \<or> name = [] then None else Some (m_Namespace m, name :: string))"
  have f: "f (source_text s) = Some (m_Namespace m, rs_Name s)" if "s \<in> set sources" for s
    using name [OF that] by (simp add: f_def source_text_cut source_name_def)
  have "renderedSourceRequests m = List.map_filter f (sort (map source_text sources))"
    using nonempty recorded_parts [OF assms(1) False] assms(2)
    by (simp add: renderedSourceRequests_def renderedFromAnnotation_def sval_def f_def)
  then show ?thesis using f by (auto simp: set_map_filter)
qed

text \<open>C27: The record a render writes tells exactly the resources it came from. Its annotation is
  always present, also for a render from nothing; reading it back for a name gives the
  generation that resource had, and nothing for a resource that did not contribute; and the
  watch on the Secret requeues exactly the recorded resources.\<close>

theorem rendered_sources_roundtrip:
  assumes "distinct (map rs_Name sources)"
    and "\<And>s. s \<in> set sources \<Longrightarrow> rs_Name s \<noteq> [] \<and> CHR '','' \<notin> set (rs_Name s) \<and>
           CHR ''='' \<notin> set (rs_Name s) \<and> in_int64 (rs_Generation s)"
    and "m_Annotations m = renderedFromAnnotation sources"
  shows "renderedSourceRecorded (m_Annotations m) \<and>
    (\<forall>name g. renderedGeneration (m_Annotations m) name = Some g \<longleftrightarrow>
       \<lparr> rs_Name = name, rs_Generation = g \<rparr> \<in> set sources) \<and>
    set (renderedSourceRequests m) = (\<lambda>s. (m_Namespace m, rs_Name s)) ` set sources"
proof -
  have well: "well_recorded sources"
    using assms(1,2) by (auto simp: well_recorded_def source_name_def list_all_iff)
  have "renderedGeneration (m_Annotations m) name = Some g \<longleftrightarrow>
      \<lparr> rs_Name = name, rs_Generation = g \<rparr> \<in> set sources" for name g
  proof
    assume "renderedGeneration (m_Annotations m) name = Some g"
    then obtain s where "find (\<lambda>s. rs_Name s = name) sources = Some s" "rs_Generation s = g"
      using assms(3) recorded_generation [OF well] by auto
    then have "s \<in> set sources" "s = \<lparr> rs_Name = name, rs_Generation = g \<rparr>"
      by (auto dest: find_SomeD)
    then show "\<lparr> rs_Name = name, rs_Generation = g \<rparr> \<in> set sources" by simp
  next
    assume s: "\<lparr> rs_Name = name, rs_Generation = g \<rparr> \<in> set sources"
    then obtain t where t: "find (\<lambda>s. rs_Name s = name) sources = Some t"
      by (metis (mono_tags, lifting) find_None_iff not_Some_eq renderSource.select_convs(1))
    then have "t \<in> set sources" "rs_Name t = name" by (auto dest: find_SomeD)
    then have "t = \<lparr> rs_Name = name, rs_Generation = g \<rparr>"
      using s assms(1) by (auto simp: distinct_map inj_on_def)
    then show "renderedGeneration (m_Annotations m) name = Some g"
      using assms(3) recorded_generation [OF well] t by simp
  qed
  then show ?thesis using recorded_requests [OF well assms(3)] assms(3)
    by (auto simp: renderedSourceRecorded_def renderedFromAnnotation_def)
qed

theorem rendered_sources_roundtrip_witness:
  "renderedGeneration (renderedFromAnnotation
     [\<lparr> rs_Name = ''web'', rs_Generation = 12 \<rparr>, \<lparr> rs_Name = ''db'', rs_Generation = 3 \<rparr>]) ''web'' = Some 12"
proof -
  let ?sources = "[\<lparr> rs_Name = ''web'', rs_Generation = 12 \<rparr>, \<lparr> rs_Name = ''db'', rs_Generation = 3 \<rparr>]"
  let ?m = "new_meta ''ca-autosign-policy'' ''ns'' \<lparr> m_Annotations := renderedFromAnnotation ?sources \<rparr>"
  have "rs_Name s \<noteq> [] \<and> CHR '','' \<notin> set (rs_Name s) \<and> CHR ''='' \<notin> set (rs_Name s) \<and>
      in_int64 (rs_Generation s)" if "s \<in> set ?sources" for s
    using that by (auto simp: in_int64_def min_int64_def max_int64_def)
  then show ?thesis using rendered_sources_roundtrip [of ?sources ?m] by simp
qed

end
