(* ===== verification/ConfigWorld.thy ===== *)
theory ConfigWorld
  imports ConfigRender RenderedSource
begin

text \<open>
  The surroundings of the Config controller: its calls to the API server, whose answers are
  functions of the calls before, and the reads and writes its steps share (config_controller.go,
  helpers.go, config_reports.go): references to Secrets and ConfigMaps, the CertificateAuthority
  and the ReportProcessors of a Config, and the owned Secrets.
\<close>

section \<open>Objects and calls\<close>

text \<open>The structures the YAML encoder prints.\<close>

record wireAuthConfig =
  wa_Type :: string
  wa_Header :: string
  wa_Token :: string
  wa_Username :: string
  wa_Password :: string

record wireSSLConfig =
  ws_CertFile :: string
  ws_KeyFile :: string
  ws_CAFile :: string

record encCache =
  wc_Enabled :: bool
  wc_Directory :: string

record encYAMLConfig =
  ey_URL :: string
  ey_Method :: string
  ey_Path :: string
  ey_Body :: string
  ey_ResponseFormat :: string
  ey_TimeoutSeconds :: int
  ey_Auth :: "wireAuthConfig option"
  ey_Cache :: "encCache option"
  ey_SSL :: wireSSLConfig

record reportHeaderConfig =
  rh_Name :: string
  rh_Value :: string

record reportEndpointConfig =
  re_Name :: string
  re_Processor :: string
  re_URL :: string
  re_TimeoutSeconds :: int
  re_Auth :: "wireAuthConfig option"
  re_SSL :: wireSSLConfig
  re_Headers :: "reportHeaderConfig list"

datatype cfg_call =
    CfgGet string | CfgStatusUpdate Config
  | CfgGetCA string | CfgGetDatabase string | CfgGetNodeClassifier string
  | CfgListPolicies string | CfgListReportProcessors string
  | CfgGetSecret string string | CfgCreateSecret Secret | CfgUpdateSecret Secret
  | CfgGetConfigMap string | CfgCreateConfigMap ConfigMap | CfgUpdateConfigMap ConfigMap
  | CfgGetServiceAccount string | CfgCreateServiceAccount ServiceAccount
  | CfgEvent string string string

record cfg_env =
  ce_lib :: kube_lib
  ce_retries :: nat
  ce_get :: "cfg_call list \<Rightarrow> string \<Rightarrow> err + Config"
  ce_updateStatus :: "cfg_call list \<Rightarrow> Config \<Rightarrow> err + unit"
  ce_getCA :: "cfg_call list \<Rightarrow> string \<Rightarrow> err + CertificateAuthority"
  ce_getDatabase :: "cfg_call list \<Rightarrow> string \<Rightarrow> err + Database"
  ce_getNodeClassifier :: "cfg_call list \<Rightarrow> string \<Rightarrow> err + NodeClassifier"
  ce_listPolicies :: "cfg_call list \<Rightarrow> string \<Rightarrow> err + SigningPolicy list"
  ce_listReportProcessors :: "cfg_call list \<Rightarrow> string \<Rightarrow> err + ReportProcessor list"
  ce_getSecret :: "cfg_call list \<Rightarrow> string \<Rightarrow> string \<Rightarrow> err + Secret"
  ce_writeSecret :: "cfg_call list \<Rightarrow> Secret \<Rightarrow> err + unit"
  ce_getConfigMap :: "cfg_call list \<Rightarrow> string \<Rightarrow> err + ConfigMap"
  ce_writeConfigMap :: "cfg_call list \<Rightarrow> ConfigMap \<Rightarrow> err + unit"
  ce_getServiceAccount :: "cfg_call list \<Rightarrow> string \<Rightarrow> err + ServiceAccount"
  ce_writeServiceAccount :: "cfg_call list \<Rightarrow> ServiceAccount \<Rightarrow> err + unit"
  ce_iterate :: "cfg_call list \<Rightarrow> string smap \<Rightarrow> (string \<times> string) list"
  ce_marshalENC :: "encYAMLConfig \<Rightarrow> err + string"
  ce_marshalReports :: "reportEndpointConfig list \<Rightarrow> err + string"

type_synonym gst = "(cfg_call, Config) world"
type_synonym 'a gop = "(gst, err, 'a) op"

definition cfg_event :: "string \<Rightarrow> string \<Rightarrow> string \<Rightarrow> (gst, 'e, unit) op" where
  "cfg_event kind reason note = call (CfgEvent kind reason note) (\<lambda>_. Inr ())"

definition cfg_refetch :: "cfg_env \<Rightarrow> unit gop" where
  "cfg_refetch E = (\<lambda>s. let name = cfg_name (obj s); ns = cfg_ns (obj s) in
     case call (CfgGet name) (\<lambda>h. ce_get E h name) s of
       (Inl e, s') \<Rightarrow> (Inl e, s')
     | (Inr cfg, s') \<Rightarrow>
         (Inr (), s' \<lparr> obj := cfg \<lparr> cfg_Meta := cfg_Meta cfg \<lparr> m_Name := name, m_Namespace := ns \<rparr> \<rparr> \<rparr>))"

definition cfg_send_status :: "cfg_env \<Rightarrow> unit gop" where
  "cfg_send_status E = (\<lambda>s. call (CfgStatusUpdate (obj s)) (\<lambda>h. ce_updateStatus E h (obj s)) s)"

definition cfg_update_status :: "cfg_env \<Rightarrow> (Config \<Rightarrow> Config) \<Rightarrow> unit gop" where
  "cfg_update_status E change = status_with_retry (ce_retries E) (cfg_refetch E) change (cfg_send_status E)"

section \<open>References\<close>

definition data_key :: "string \<Rightarrow> string \<Rightarrow> string \<Rightarrow> string smap \<Rightarrow> err + string" where
  "data_key kind name key data =
     (case sget data key of
        None \<Rightarrow> Inl (Errorf (''key '' @ Quote key @ '' not found in '' @ kind @ '' '' @ name))
      | Some v \<Rightarrow> Inr v)"

definition resolveSecretKey :: "cfg_env \<Rightarrow> string \<Rightarrow> string \<Rightarrow> string \<Rightarrow> string gop" where
  "resolveSecretKey E ns name key =
     bnd (wrapping (''getting Secret '' @ name)
           (call (CfgGetSecret ns name) (\<lambda>h. ce_getSecret E h ns name))) (\<lambda>secret.
     lift (data_key ''Secret'' name key (s_Data secret)))"

definition resolveConfigMapKey :: "cfg_env \<Rightarrow> string \<Rightarrow> string \<Rightarrow> string gop" where
  "resolveConfigMapKey E name key =
     bnd (wrapping (''getting ConfigMap '' @ name)
           (call (CfgGetConfigMap name) (\<lambda>h. ce_getConfigMap E h name))) (\<lambda>cm.
     lift (data_key ''ConfigMap'' name key (cm_Data cm)))"

definition findCertificateAuthority :: "cfg_env \<Rightarrow> CertificateAuthority option gop" where
  "findCertificateAuthority E =
     bnd (reads obj) (\<lambda>cfg. let ref = cf_AuthorityRef (cfg_Spec cfg) in
     if ref = [] then ret None
     else
       bnd (outcome (call (CfgGetCA ref) (\<lambda>h. ce_getCA E h ref))) (\<lambda>r. case r of
         Inl e \<Rightarrow> if IsNotFound e then ret None
                   else throw (wrapf (''getting CertificateAuthority '' @ ref) e)
       | Inr ca \<Rightarrow> ret (Some ca)))"

text \<open>The names in a namespace are distinct, so that the order by name is the only one.\<close>

definition report_processors_of :: "Config \<Rightarrow> ReportProcessor list \<Rightarrow> ReportProcessor list" where
  "report_processors_of cfg rps =
     sort_key (\<lambda>rp. m_Name (rpo_Meta rp)) (filter (\<lambda>rp. rp_ConfigRef (rpo_Spec rp) = cfg_name cfg) rps)"

definition findReportProcessors :: "cfg_env \<Rightarrow> ReportProcessor list gop" where
  "findReportProcessors E =
     bnd (reads obj) (\<lambda>cfg.
     bnd (call (CfgListReportProcessors (cfg_ns cfg)) (\<lambda>h. ce_listReportProcessors E h (cfg_ns cfg))) (\<lambda>rps.
     ret (report_processors_of cfg rps)))"

definition hasReportProcessors :: "cfg_env \<Rightarrow> bool gop" where
  "hasReportProcessors E = bnd (findReportProcessors E) (\<lambda>rps. ret (rps \<noteq> []))"

section \<open>Owned Secrets\<close>

definition config_secret_mutation :: "kube_lib \<Rightarrow> Config \<Rightarrow> string smap \<Rightarrow> string smap \<Rightarrow> Secret \<Rightarrow> err + Secret" where
  "config_secret_mutation L cfg data annotations secret =
     (case assertControlledBy L (s_Meta secret) (cfg_Meta cfg) ''Secret'' ''Config'' of
        Some e \<Rightarrow> Inl e
      | None \<Rightarrow>
         (case SetControllerReference L ''Config'' (cfg_Meta cfg)
                 (s_Meta secret \<lparr> m_Labels := configLabels (cfg_name cfg),
                    m_Annotations := fold (\<lambda>(k, v). sput k v) annotations (m_Annotations (s_Meta secret)) \<rparr>) of
            Inl e \<Rightarrow> Inl e
          | Inr meta \<Rightarrow> Inr \<lparr> s_Meta = meta, s_Data = data \<rparr>))"

definition reconcileSecret :: "cfg_env \<Rightarrow> string \<Rightarrow> string smap \<Rightarrow> string smap \<Rightarrow> unit gop" where
  "reconcileSecret E name data annotations =
     bnd (reads obj) (\<lambda>cfg.
     bnd (wrapping (''reconciling Secret '' @ name)
           (create_or_update (call (CfgGetSecret (cfg_ns cfg) name) (\<lambda>h. ce_getSecret E h (cfg_ns cfg) name))
             \<lparr> s_Meta = new_meta name (cfg_ns cfg), s_Data = [] \<rparr>
             (config_secret_mutation (ce_lib E) cfg data annotations)
             (\<lambda>secret. call (CfgCreateSecret secret) (\<lambda>h. ce_writeSecret E h secret))
             (\<lambda>secret. call (CfgUpdateSecret secret) (\<lambda>h. ce_writeSecret E h secret)))) (\<lambda>_.
     ret ()))"

section \<open>What the shared operations call\<close>

named_theorems cfg_only "what the operations of the Config controller call"

lemma only_resolveSecretKey [cfg_only]:
  "P (CfgGetSecret ns name) \<Longrightarrow> only hist P (resolveSecretKey E ns name key)"
  unfolding resolveSecretKey_def by (intro only_rules only_call)

lemma only_resolveConfigMapKey [cfg_only]:
  "P (CfgGetConfigMap name) \<Longrightarrow> only hist P (resolveConfigMapKey E name key)"
  unfolding resolveConfigMapKey_def by (intro only_rules only_call)

lemma only_findCertificateAuthority [cfg_only]:
  "(\<And>n. P (CfgGetCA n)) \<Longrightarrow> only hist P (findCertificateAuthority E)"
  unfolding findCertificateAuthority_def by (intro only_rules only_call)

lemma only_findReportProcessors [cfg_only]:
  "(\<And>n. P (CfgListReportProcessors n)) \<Longrightarrow> only hist P (findReportProcessors E)"
  unfolding findReportProcessors_def by (intro only_rules only_call)

lemma only_hasReportProcessors [cfg_only]:
  "(\<And>n. P (CfgListReportProcessors n)) \<Longrightarrow> only hist P (hasReportProcessors E)"
  unfolding hasReportProcessors_def by (intro only_rules cfg_only)

lemma only_cfg_event [cfg_only]: "P (CfgEvent k r n) \<Longrightarrow> only hist P (cfg_event k r n)"
  unfolding cfg_event_def by (rule only_call)

lemma config_secret_mutation_Inr:
  "config_secret_mutation L cfg data annotations secret = Inr secret' \<Longrightarrow>
   s_Data secret' = data \<and> assertControlledBy L (s_Meta secret) (cfg_Meta cfg) ''Secret'' ''Config'' = None"
  by (auto simp: config_secret_mutation_def split: option.splits sum.splits)

end
