(* ===== verification/AutosignRender.thy ===== *)
theory AutosignRender
  imports ConfigWorld Autosign
begin

text \<open>
  The autosign policy Secret (config_autosign.go): the Config controller turns the SigningPolicies
  of a CertificateAuthority into the document the autosign program reads. Its rendering is the
  printing (\<open>policy_yaml\<close>) of a policy configuration of that program, computed by
  \<open>resolve_policies\<close>; the printing is unambiguous, whatever the quoted values are; and what
  auth.conf grants the operator's certname is what the program refuses to sign.
\<close>

section \<open>Rendering\<close>

definition renderAllowList :: "string \<Rightarrow> string list \<Rightarrow> string" where
  "renderAllowList field allow =
     ''    '' @ field @ '':\<newline>      allow:\<newline>'' @
     concat (map (\<lambda>a. ''        - '' @ Quote a @ ''\<newline>'') allow)"

definition render_allow :: "string \<Rightarrow> PatternSpec option \<Rightarrow> string" where
  "render_allow field p = (case p of None \<Rightarrow> [] | Some q \<Rightarrow> renderAllowList field (psp_Allow q))"

definition render_attribute :: "cfg_env \<Rightarrow> string \<Rightarrow> string \<Rightarrow> CSRAttributeMatch \<Rightarrow> string gop" where
  "render_attribute E ns policyName attr =
     bnd (case cam_ValueFrom attr of
            None \<Rightarrow> ret (cam_Value attr)
          | Some ref \<Rightarrow>
              wrapping (''resolving csrAttribute '' @ Quote (cam_Name attr) @ '' for policy '' @ policyName)
                (resolveSecretKey E ns (skr_Name (sks_SecretKeyRef ref)) (skr_Key (sks_SecretKeyRef ref)))) (\<lambda>value.
     ret (''      - name: '' @ Quote (cam_Name attr) @ ''\<newline>        value: '' @ Quote value @ ''\<newline>''))"

definition render_policy :: "cfg_env \<Rightarrow> string \<Rightarrow> SigningPolicy \<Rightarrow> string gop" where
  "render_policy E ns p =
     (let spec = spo_Spec p in
      bnd (if sp_CSRAttributes spec \<noteq> []
           then bnd (each (render_attribute E ns (m_Name (spo_Meta p))) (sp_CSRAttributes spec)) (\<lambda>ts.
                ret (''    csrAttributes:\<newline>'' @ concat ts))
           else ret []) (\<lambda>attrs.
      ret (''  - name: '' @ Quote (m_Name (spo_Meta p)) @ ''\<newline>'' @
           (if sp_Any spec then ''    any: true\<newline>'' else []) @
           render_allow ''certnames'' (sp_Certnames spec) @
           render_allow ''dnsAltNames'' (sp_DNSAltNames spec) @
           render_allow ''ipAltNames'' (sp_IPAltNames spec) @
           render_allow ''uriAltNames'' (sp_URIAltNames spec) @
           render_allow ''emailAltNames'' (sp_EmailAltNames spec) @
           render_allow ''extensions'' (sp_Extensions spec) @ attrs)))"

definition by_name :: "SigningPolicy list \<Rightarrow> SigningPolicy list" where
  "by_name policies = sort_key (\<lambda>p. m_Name (spo_Meta p)) policies"

definition renderAutosignPolicyConfig :: "cfg_env \<Rightarrow> string \<Rightarrow> CertificateAuthority \<Rightarrow> SigningPolicy list \<Rightarrow> string gop" where
  "renderAutosignPolicyConfig E ns ca policies =
     bnd (each (render_policy E ns) (by_name policies)) (\<lambda>texts.
     ret (''reservedCertnames:\<newline>  - '' @ Quote (operatorSigningCertname (m_Name (ca_Meta ca))) @
          ''\<newline>policies:\<newline>'' @ concat texts))"

definition signingPoliciesForAuthority :: "cfg_env \<Rightarrow> string \<Rightarrow> string \<Rightarrow> SigningPolicy list gop" where
  "signingPoliciesForAuthority E ns caName =
     bnd (wrapping (''listing SigningPolicies in namespace '' @ ns)
           (call (CfgListPolicies ns) (\<lambda>h. ce_listPolicies E h ns))) (\<lambda>policies.
     ret (filter (\<lambda>p. sp_CertificateAuthorityRef (spo_Spec p) = caName) policies))"

definition autosign_secret_name :: "string \<Rightarrow> string" where
  "autosign_secret_name caName = caName @ ''-autosign-policy''"

definition policy_file :: string where "policy_file = ''autosign-policy.yaml''"

definition reconcileAutosignSecret :: "cfg_env \<Rightarrow> CertificateAuthority \<Rightarrow> unit gop" where
  "reconcileAutosignSecret E ca =
     bnd (reads obj) (\<lambda>cfg. let caName = m_Name (ca_Meta ca) in
     bnd (signingPoliciesForAuthority E (m_Namespace (ca_Meta ca)) caName) (\<lambda>policies.
     bnd (outcome (renderAutosignPolicyConfig E (cfg_ns cfg) ca policies)) (\<lambda>r. case r of
       Inl e \<Rightarrow>
         thn (cfg_event ''Warning'' ''AutosignPolicyRenderFailed''
               (''Rendering the autosign policy for CertificateAuthority '' @ caName @ '' failed: '' @ err_text e))
         (throw (wrapf ''rendering autosign policy config'' e))
     | Inr policyYAML \<Rightarrow>
         reconcileSecret E (autosign_secret_name caName) [(policy_file, policyYAML)]
           (renderedFromAnnotation (map (\<lambda>p. sourceOf (spo_Meta p)) (by_name policies))))))"

definition reconcileAutosignSecrets :: "cfg_env \<Rightarrow> unit gop" where
  "reconcileAutosignSecrets E =
     bnd (reads obj) (\<lambda>cfg. let ref = cf_AuthorityRef (cfg_Spec cfg) in
     if ref = [] then ret ()
     else if pu_AutosignCommand (cf_Puppet (cfg_Spec cfg)) \<noteq> [] then ret ()
     else
       bnd (outcome (call (CfgGetCA ref) (\<lambda>h. ce_getCA E h ref))) (\<lambda>r. case r of
         Inl e \<Rightarrow> if IsNotFound e then ret ()
                   else throw (wrapf (''getting CertificateAuthority '' @ ref) e)
       | Inr ca \<Rightarrow>
           wrapping (''reconciling autosign Secret for CA '' @ m_Name (ca_Meta ca))
             (reconcileAutosignSecret E ca)))"

section \<open>Watches\<close>

definition config_request :: "Config \<Rightarrow> string \<times> string" where
  "config_request cfg = (cfg_ns cfg, cfg_name cfg)"

definition configRequests :: "Config list \<Rightarrow> (string \<times> string) list" where
  "configRequests configs = map config_request configs"

text \<open>The Configs of the namespace, None when they cannot be listed.\<close>

definition configsReferencingAuthority :: "string \<Rightarrow> Config list \<Rightarrow> Config list" where
  "configsReferencingAuthority caName configs =
     filter (\<lambda>cfg. caName \<in> set (index_config_authorityRef cfg)) configs"

definition enqueueConfigsForSigningPolicy :: "SigningPolicy \<Rightarrow> Config list option \<Rightarrow> (string \<times> string) list" where
  "enqueueConfigsForSigningPolicy sp configs =
     (let ref = sp_CertificateAuthorityRef (spo_Spec sp) in
      if ref = [] then []
      else (case configs of
              None \<Rightarrow> []
            | Some cfgs \<Rightarrow> configRequests (configsReferencingAuthority ref cfgs)))"

section \<open>The configuration a document is printed from\<close>

definition allow_yaml :: "string \<Rightarrow> PatternConf option \<Rightarrow> string" where
  "allow_yaml field p = (case p of None \<Rightarrow> [] | Some q \<Rightarrow> renderAllowList field (Allow q))"

definition attribute_yaml :: "CSRAttributeConf \<Rightarrow> string" where
  "attribute_yaml a =
     ''      - name: '' @ Quote (attr_Name a) @ ''\<newline>        value: '' @ Quote (attr_Value a) @ ''\<newline>''"

definition attributes_yaml :: "CSRAttributeConf list \<Rightarrow> string" where
  "attributes_yaml as =
     (if as = [] then [] else ''    csrAttributes:\<newline>'' @ concat (map attribute_yaml as))"

definition policy_entry :: "Policy \<Rightarrow> string" where
  "policy_entry p =
     ''  - name: '' @ Quote (pol_Name p) @ ''\<newline>'' @
     (if pol_Any p then ''    any: true\<newline>'' else []) @
     allow_yaml ''certnames'' (pol_Certnames p) @
     allow_yaml ''dnsAltNames'' (pol_DNSAltNames p) @
     allow_yaml ''ipAltNames'' (pol_IPAltNames p) @
     allow_yaml ''uriAltNames'' (pol_URIAltNames p) @
     allow_yaml ''emailAltNames'' (pol_EmailAltNames p) @
     allow_yaml ''extensions'' (pol_Extensions p) @
     attributes_yaml (pol_CSRAttributes p)"

definition policy_yaml :: "PolicyConfig \<Rightarrow> string" where
  "policy_yaml c =
     ''reservedCertnames:\<newline>'' @
     concat (map (\<lambda>r. ''  - '' @ Quote r @ ''\<newline>'') (ReservedCertnames c)) @
     ''policies:\<newline>'' @ concat (map policy_entry (Policies c))"

definition pattern_conf :: "PatternSpec option \<Rightarrow> PatternConf option" where
  "pattern_conf = map_option (\<lambda>p. \<lparr> Allow = psp_Allow p \<rparr>)"

definition resolve_attribute :: "cfg_env \<Rightarrow> string \<Rightarrow> string \<Rightarrow> CSRAttributeMatch \<Rightarrow> CSRAttributeConf gop" where
  "resolve_attribute E ns policyName attr =
     bnd (case cam_ValueFrom attr of
            None \<Rightarrow> ret (cam_Value attr)
          | Some ref \<Rightarrow>
              wrapping (''resolving csrAttribute '' @ Quote (cam_Name attr) @ '' for policy '' @ policyName)
                (resolveSecretKey E ns (skr_Name (sks_SecretKeyRef ref)) (skr_Key (sks_SecretKeyRef ref)))) (\<lambda>value.
     ret \<lparr> attr_Name = cam_Name attr, attr_Value = value \<rparr>)"

definition resolve_policy :: "cfg_env \<Rightarrow> string \<Rightarrow> SigningPolicy \<Rightarrow> Policy gop" where
  "resolve_policy E ns p =
     (let spec = spo_Spec p in
      bnd (each (resolve_attribute E ns (m_Name (spo_Meta p))) (sp_CSRAttributes spec)) (\<lambda>attrs.
      ret \<lparr> pol_Name = m_Name (spo_Meta p), pol_Any = sp_Any spec,
            pol_Certnames = pattern_conf (sp_Certnames spec),
            pol_DNSAltNames = pattern_conf (sp_DNSAltNames spec),
            pol_IPAltNames = pattern_conf (sp_IPAltNames spec),
            pol_URIAltNames = pattern_conf (sp_URIAltNames spec),
            pol_EmailAltNames = pattern_conf (sp_EmailAltNames spec),
            pol_Extensions = pattern_conf (sp_Extensions spec),
            pol_CSRAttributes = attrs \<rparr>))"

definition resolve_policies :: "cfg_env \<Rightarrow> string \<Rightarrow> CertificateAuthority \<Rightarrow> SigningPolicy list \<Rightarrow> PolicyConfig gop" where
  "resolve_policies E ns ca policies =
     bnd (each (resolve_policy E ns) (by_name policies)) (\<lambda>ps.
     ret \<lparr> ReservedCertnames = [operatorSigningCertname (m_Name (ca_Meta ca))], Policies = ps \<rparr>)"

text \<open>An operation with its result transformed.\<close>

definition mapped :: "('a \<Rightarrow> 'b) \<Rightarrow> ('s, 'e, 'a) op \<Rightarrow> ('s, 'e, 'b) op" where
  "mapped g m = bnd m (\<lambda>x. ret (g x))"

lemma bnd_assoc: "bnd (bnd m f) g = bnd m (\<lambda>x. bnd (f x) g)"
  by (rule ext) (auto simp: bnd_def split: prod.split sum.split)

lemma bnd_ret: "bnd (ret x) f = f x"
  by (simp add: bnd_def ret_def)

lemma mapped_bnd_ret: "mapped g (bnd m (\<lambda>x. ret (h x))) = bnd m (\<lambda>x. ret (g (h x)))"
  by (simp add: mapped_def bnd_assoc bnd_ret)

lemma each_mapped:
  assumes "\<And>x. f x = mapped g (f' x)"
  shows "each f xs = mapped (map g) (each f' xs)"
proof (induction xs)
  case (Cons x xs)
  then show ?case by (simp add: assms mapped_def bnd_assoc bnd_ret)
qed (simp add: mapped_def bnd_ret)

lemma render_attribute_mapped:
  "render_attribute E ns n attr = mapped attribute_yaml (resolve_attribute E ns n attr)"
  unfolding render_attribute_def resolve_attribute_def mapped_bnd_ret by (simp add: attribute_yaml_def)

lemma render_allow_conf: "render_allow field p = allow_yaml field (pattern_conf p)"
  by (cases p) (simp_all add: render_allow_def allow_yaml_def pattern_conf_def)

lemma render_policy_mapped:
  "render_policy E ns p = mapped policy_entry (resolve_policy E ns p)"
proof -
  let ?as = "sp_CSRAttributes (spo_Spec p)" and ?n = "m_Name (spo_Meta p)"
  have each: "each (render_attribute E ns ?n) ?as =
      mapped (map attribute_yaml) (each (resolve_attribute E ns ?n) ?as)"
    by (rule each_mapped) (rule render_attribute_mapped)
  show ?thesis
  proof (cases "?as = []")
    case True
    then show ?thesis
      by (simp add: render_policy_def resolve_policy_def Let_def mapped_bnd_ret bnd_ret
          policy_entry_def render_allow_conf attributes_yaml_def mapped_def)
  next
    case False
    then obtain a as where as: "?as = a # as" by (cases ?as) auto
    have "bnd (each (resolve_attribute E ns ?n) ?as) (\<lambda>xs. ret (g xs)) =
        bnd (each (resolve_attribute E ns ?n) ?as) (\<lambda>xs. ret (h xs))"
      if "\<And>x xs. g (x # xs) = h (x # xs)" for g h :: "CSRAttributeConf list \<Rightarrow> string"
      using that by (simp add: as bnd_assoc bnd_ret)
    then show ?thesis using False
      unfolding render_policy_def resolve_policy_def Let_def mapped_bnd_ret
      by (simp add: each bnd_assoc bnd_ret mapped_def policy_entry_def render_allow_conf
          attributes_yaml_def)
  qed
qed

lemma render_mapped:
  "renderAutosignPolicyConfig E ns ca policies = mapped policy_yaml (resolve_policies E ns ca policies)"
proof -
  have "each (render_policy E ns) (by_name policies) =
      mapped (map policy_entry) (each (resolve_policy E ns) (by_name policies))"
    by (rule each_mapped) (rule render_policy_mapped)
  then show ?thesis
    by (simp add: renderAutosignPolicyConfig_def resolve_policies_def mapped_bnd_ret)
      (simp add: mapped_def bnd_assoc bnd_ret policy_yaml_def)
qed

lemma resolve_reserved:
  "resolve_policies E ns ca policies s = (Inr conf, s') \<Longrightarrow>
   ReservedCertnames conf = [operatorSigningCertname (m_Name (ca_Meta ca))]"
  by (auto simp: resolve_policies_def bnd_def ret_def split: prod.splits sum.splits)

text \<open>C26: Rendering the policy document does what resolving the SigningPolicies into a policy
  configuration of the autosign program and printing it does: the same look-ups in the same
  order, the same errors, and on success the printed configuration.\<close>

theorem autosign_render_refines:
  "renderAutosignPolicyConfig E ns ca policies s =
     (case resolve_policies E ns ca policies s of
        (Inl e, s') \<Rightarrow> (Inl e, s')
      | (Inr conf, s') \<Rightarrow> (Inr (policy_yaml conf), s'))"
  by (simp add: render_mapped mapped_def bnd_def ret_def split: prod.split sum.split)

section \<open>The document is unambiguous\<close>

text \<open>What follows a block is the end of the document or one of the tokens that may come next.\<close>

definition starts :: "string list \<Rightarrow> string \<Rightarrow> bool" where
  "starts toks r = (r = [] \<or> list_ex (HasPrefix r) toks)"

definition comparable :: "string \<Rightarrow> string \<Rightarrow> bool" where
  "comparable t u = (HasPrefix t u \<or> HasPrefix u t)"

lemma HasPrefix_comparable: "HasPrefix r t \<Longrightarrow> HasPrefix r u \<Longrightarrow> comparable t u"
  unfolding comparable_def HasPrefix_append by (metis append_eq_append_conv2)

lemma starts_not_prefix:
  "starts toks r \<Longrightarrow> list_all (\<lambda>u. \<not> comparable t u) toks \<Longrightarrow> t \<noteq> [] \<Longrightarrow> \<not> HasPrefix r t"
  using HasPrefix_comparable by (auto simp: starts_def list_ex_iff list_all_iff) (metis HasPrefix_append append_is_Nil_conv)

definition unambiguous :: "string list \<Rightarrow> ('a \<Rightarrow> string) \<Rightarrow> bool" where
  "unambiguous toks f = (\<forall>x y r r'. starts toks r \<longrightarrow> starts toks r' \<longrightarrow>
     f x @ r = f y @ r' \<longrightarrow> x = y \<and> r = r')"

lemma unambiguousD:
  "unambiguous toks f \<Longrightarrow> f x @ r = f y @ r' \<Longrightarrow> starts toks r \<Longrightarrow> starts toks r' \<Longrightarrow> x = y \<and> r = r'"
  unfolding unambiguous_def by blast

lemma items_unambiguous:
  assumes f: "unambiguous (p # toks) f"
    and p: "p \<noteq> []" "list_all (\<lambda>u. \<not> comparable p u) toks"
  shows "unambiguous toks (\<lambda>xs. concat (map (\<lambda>x. p @ f x) xs))"
  unfolding unambiguous_def
proof (intro allI impI)
  fix xs ys :: "'a list" and r r' :: string
  assume "starts toks r" "starts toks r'"
    and "concat (map (\<lambda>x. p @ f x) xs) @ r = concat (map (\<lambda>x. p @ f x) ys) @ r'"
  then show "xs = ys \<and> r = r'"
  proof (induction xs arbitrary: ys)
    case Nil
    show ?case
    proof (cases ys)
      case (Cons y ys')
      then have "r = p @ (f y @ concat (map (\<lambda>x. p @ f x) ys') @ r')" using Nil(3) by simp
      then have "HasPrefix r p" by simp
      then show ?thesis using starts_not_prefix [OF Nil(1) p(2,1)] by simp
    qed (use Nil in simp)
  next
    case (Cons x xs)
    show ?case
    proof (cases ys)
      case Nil
      then have "r' = p @ (f x @ concat (map (\<lambda>x. p @ f x) xs) @ r)" using Cons.prems(3) by simp
      then have "HasPrefix r' p" by simp
      then show ?thesis using starts_not_prefix [OF Cons.prems(2) p(2,1)] by simp
    next
      case ys: (Cons y ys')
      have rest: "starts (p # toks) (concat (map (\<lambda>x. p @ f x) zs) @ q)" if "starts toks q" for zs q
        using that by (cases zs) (auto simp: starts_def)
      have "f x @ (concat (map (\<lambda>x. p @ f x) xs) @ r) = f y @ (concat (map (\<lambda>x. p @ f x) ys') @ r')"
        using Cons.prems(3) ys by simp
      then have "x = y \<and> concat (map (\<lambda>x. p @ f x) xs) @ r = concat (map (\<lambda>x. p @ f x) ys') @ r'"
        by (rule unambiguousD [OF f]) (simp_all add: rest Cons.prems)
      then show ?thesis using Cons.IH [OF Cons.prems(1,2)] ys by blast
    qed
  qed
qed

definition optional :: "string \<Rightarrow> ('a \<Rightarrow> string) \<Rightarrow> 'a option \<Rightarrow> string" where
  "optional t f x = (case x of None \<Rightarrow> [] | Some v \<Rightarrow> t @ f v)"

lemma optional_unambiguous:
  assumes "unambiguous toks f" and "t \<noteq> []" "list_all (\<lambda>u. \<not> comparable t u) toks"
  shows "unambiguous toks (optional t f)"
  unfolding unambiguous_def
proof (intro allI impI)
  fix x y :: "'a option" and r r' :: string
  assume r: "starts toks r" "starts toks r'" and eq: "optional t f x @ r = optional t f y @ r'"
  note no = starts_not_prefix [OF r(1) assms(3,2)] starts_not_prefix [OF r(2) assms(3,2)]
  show "x = y \<and> r = r'"
  proof (cases x)
    case None
    then show ?thesis using eq no by (cases y) (auto simp: optional_def)
  next
    case (Some v)
    show ?thesis
    proof (cases y)
      case None
      then have "r' = t @ (f v @ r)" using eq Some by (simp add: optional_def)
      then show ?thesis using no by simp
    next
      case (Some w)
      then have "f v @ r = f w @ r'" using eq \<open>x = Some v\<close> by (simp add: optional_def)
      then show ?thesis using unambiguousD [OF assms(1)] r Some \<open>x = Some v\<close> by blast
    qed
  qed
qed

lemma optional_starts: "starts toks r \<Longrightarrow> starts (t # toks) (optional t f x @ r)"
  by (auto simp: optional_def starts_def split: option.split)

lemma constant_unambiguous: "unambiguous toks (\<lambda>u :: unit. [])"
  by (simp add: unambiguous_def)

lemma quoted_line_unambiguous: "unambiguous toks (\<lambda>a. Quote a @ ''\<newline>'')"
  by (auto simp: unambiguous_def Quote_append_inject)

lemma unambiguous_inj: "unambiguous toks f \<Longrightarrow> (\<And>x y. g x = g y \<Longrightarrow> x = y) \<Longrightarrow> unambiguous toks (\<lambda>x. f (g x))"
  unfolding unambiguous_def by blast

text \<open>A chain of optional blocks, each beginning with its own token.\<close>

definition block :: "string list \<Rightarrow> string list \<Rightarrow> ('a \<Rightarrow> string) \<Rightarrow> bool" where
  "block toks toks' g = (unambiguous toks g \<and> (\<forall>y r. starts toks r \<longrightarrow> starts toks' (g y @ r)))"

lemma block_last:
  assumes "unambiguous toks f" "t \<noteq> []" "list_all (\<lambda>u. \<not> comparable t u) toks"
  shows "block toks (t # toks) (optional t f)"
  unfolding block_def using optional_unambiguous [OF assms] optional_starts by blast

lemma block_cons:
  assumes "block toks toks' g" and "unambiguous toks' f" "t \<noteq> []" "list_all (\<lambda>u. \<not> comparable t u) toks'"
  shows "block toks (t # toks') (\<lambda>(x, y). optional t f x @ g y)"
  unfolding block_def
proof (intro conjI allI impI)
  have g: "unambiguous toks g" and follow: "\<And>y r. starts toks r \<Longrightarrow> starts toks' (g y @ r)"
    using assms(1) unfolding block_def by auto
  show "unambiguous toks (\<lambda>(x, y). optional t f x @ g y)"
    unfolding unambiguous_def
  proof (intro allI impI)
    fix z z' r r'
    assume r: "starts toks r" "starts toks r'"
      and eq: "(case z of (x, y) \<Rightarrow> optional t f x @ g y) @ r = (case z' of (x, y) \<Rightarrow> optional t f x @ g y) @ r'"
    obtain x y x' y' where z: "z = (x, y)" "z' = (x', y')" by (cases z, cases z')
    have "x = x' \<and> g y @ r = g y' @ r'"
      using unambiguousD [OF optional_unambiguous [OF assms(2-4)], of x "g y @ r" x' "g y' @ r'"] eq z
        follow [OF r(1)] follow [OF r(2)] by simp
    then show "z = z' \<and> r = r'" using unambiguousD [OF g _ r] z by blast
  qed
  fix y r assume "starts toks r"
  then show "starts (t # toks') ((case y of (x, y) \<Rightarrow> optional t f x @ g y) @ r)"
    by (auto split: prod.split intro!: optional_starts follow)
qed

definition allow_token :: "string \<Rightarrow> string" where
  "allow_token field = ''    '' @ field @ '':\<newline>      allow:\<newline>''"

definition allow_body :: "PatternConf \<Rightarrow> string" where
  "allow_body q = concat (map (\<lambda>a. ''        - '' @ (Quote a @ ''\<newline>'')) (Allow q))"

lemma allow_yaml_optional: "allow_yaml field p = optional (allow_token field) allow_body p"
  by (cases p) (simp_all add: allow_yaml_def optional_def renderAllowList_def allow_token_def allow_body_def)

lemma allow_body_unambiguous:
  assumes "list_all (\<lambda>u. \<not> comparable ''        - '' u) toks"
  shows "unambiguous toks allow_body"
  unfolding allow_body_def
  by (rule unambiguous_inj [where g = Allow], rule items_unambiguous [OF quoted_line_unambiguous _ assms])
    simp_all

definition attr_body :: "CSRAttributeConf \<Rightarrow> string" where
  "attr_body a = Quote (attr_Name a) @ ''\<newline>        value: '' @ Quote (attr_Value a) @ ''\<newline>''"

definition attr_token :: string where "attr_token = ''    csrAttributes:\<newline>''"

definition attrs_body :: "CSRAttributeConf list \<Rightarrow> string" where
  "attrs_body as = concat (map (\<lambda>a. ''      - name: '' @ attr_body a) as)"

definition some_list :: "'a list \<Rightarrow> 'a list option" where
  "some_list xs = (if xs = [] then None else Some xs)"

lemma attributes_yaml_optional: "attributes_yaml as = optional attr_token attrs_body (some_list as)"
proof -
  have "attribute_yaml = (\<lambda>a. ''      - name: '' @ attr_body a)"
    by (rule ext) (simp add: attribute_yaml_def attr_body_def)
  then show ?thesis
    by (simp add: attributes_yaml_def optional_def some_list_def attr_token_def attrs_body_def)
qed

lemma attrs_body_unambiguous:
  assumes "list_all (\<lambda>u. \<not> comparable ''      - name: '' u) toks"
  shows "unambiguous toks attrs_body"
proof -
  have "unambiguous (''      - name: '' # toks) attr_body"
    unfolding unambiguous_def
  proof (intro allI impI)
    fix x y :: CSRAttributeConf and r r'
    assume "attr_body x @ r = attr_body y @ r'"
    then have "attr_Name x = attr_Name y \<and> Quote (attr_Value x) @ ''\<newline>'' @ r = Quote (attr_Value y) @ ''\<newline>'' @ r'"
      by (simp add: attr_body_def Quote_append_inject)
    then show "x = y \<and> r = r'" by (simp add: Quote_append_inject)
  qed
  then show ?thesis unfolding attrs_body_def
    by (rule items_unambiguous [OF _ _ assms]) simp
qed

definition any_token :: string where "any_token = ''    any: true\<newline>''"
definition policy_token :: string where "policy_token = ''  - name: ''"

text \<open>The tokens that may follow a block, in the order of the blocks.\<close>

definition all_tokens :: "string list" where
  "all_tokens = [any_token, allow_token ''certnames'', allow_token ''dnsAltNames'',
     allow_token ''ipAltNames'', allow_token ''uriAltNames'', allow_token ''emailAltNames'',
     allow_token ''extensions'', attr_token, policy_token]"

definition tokens :: "nat \<Rightarrow> string list" where
  "tokens n = drop n all_tokens"

lemma tokens_incomparable:
  "list_all (\<lambda>n. list_all (\<lambda>u. \<not> comparable (hd (tokens n)) u) (tokens (Suc n))) [0..<8]"
  "list_all (\<lambda>u. \<not> comparable ''        - '' u) (tokens 0)"
  "list_all (\<lambda>u. \<not> comparable ''      - name: '' u) (tokens 8)"
  by code_simp+

lemma fresh: "n < 8 \<Longrightarrow> list_all (\<lambda>u. \<not> comparable (hd (tokens n)) u) (tokens (Suc n))"
  using tokens_incomparable(1) by (simp add: list_all_iff)

lemma fresh_item: "list_all (\<lambda>u. \<not> comparable ''        - '' u) (tokens n)"
proof -
  have "set (tokens n) \<subseteq> set (tokens 0)" by (simp add: tokens_def set_drop_subset)
  then show ?thesis using tokens_incomparable(2) by (auto simp: list_all_iff)
qed

type_synonym policy_blocks = "unit option \<times> PatternConf option \<times> PatternConf option \<times>
  PatternConf option \<times> PatternConf option \<times> PatternConf option \<times> PatternConf option \<times>
  CSRAttributeConf list option"

definition policy_blocks :: "Policy \<Rightarrow> policy_blocks" where
  "policy_blocks p = (if pol_Any p then Some () else None, pol_Certnames p, pol_DNSAltNames p,
     pol_IPAltNames p, pol_URIAltNames p, pol_EmailAltNames p, pol_Extensions p,
     some_list (pol_CSRAttributes p))"

definition allow_block :: "string \<Rightarrow> ('a \<Rightarrow> string) \<Rightarrow> PatternConf option \<times> 'a \<Rightarrow> string" where
  "allow_block field g = (\<lambda>(x, y). optional (allow_token field) allow_body x @ g y)"

definition blocks_yaml :: "policy_blocks \<Rightarrow> string" where
  "blocks_yaml = (\<lambda>(x, y). optional any_token (\<lambda>_. []) x @
     allow_block ''certnames'' (allow_block ''dnsAltNames'' (allow_block ''ipAltNames''
       (allow_block ''uriAltNames'' (allow_block ''emailAltNames'' (allow_block ''extensions''
         (optional attr_token attrs_body)))))) y)"

lemma block_allow:
  assumes "block toks (tokens (Suc n)) g" and "n < 8" "hd (tokens n) = allow_token field"
    and "tokens n = hd (tokens n) # tokens (Suc n)"
  shows "block toks (tokens n) (allow_block field g)"
proof -
  have "block toks (allow_token field # tokens (Suc n)) (allow_block field g)"
    unfolding allow_block_def
    using fresh [OF assms(2)] assms(3)
    by (intro block_cons [OF assms(1)] allow_body_unambiguous fresh_item) (simp_all add: allow_token_def)
  then show ?thesis using assms(3,4) by simp
qed

lemma tokens_at:
  "tokens 0 = any_token # tokens 1" "tokens 1 = allow_token ''certnames'' # tokens 2"
  "tokens 2 = allow_token ''dnsAltNames'' # tokens 3" "tokens 3 = allow_token ''ipAltNames'' # tokens 4"
  "tokens 4 = allow_token ''uriAltNames'' # tokens 5" "tokens 5 = allow_token ''emailAltNames'' # tokens 6"
  "tokens 6 = allow_token ''extensions'' # tokens 7" "tokens 7 = attr_token # tokens 8"
  "tokens 8 = [policy_token]"
  by (simp_all add: tokens_def all_tokens_def)

lemma blocks_unambiguous: "unambiguous [policy_token] blocks_yaml"
proof -
  let ?t = "[policy_token]" and ?g7 = "optional attr_token attrs_body"
  have 7: "block ?t (tokens 7) ?g7"
    unfolding tokens_at(8,9) using fresh [of 7] tokens_incomparable(3)
    by (intro block_last attrs_body_unambiguous) (simp_all add: tokens_at(8,9), simp add: attr_token_def)
  have 6: "block ?t (tokens 6) (allow_block ''extensions'' ?g7)" (is "block _ _ ?g6")
    by (rule block_allow) (simp_all add: 7 tokens_at(7))
  have 5: "block ?t (tokens 5) (allow_block ''emailAltNames'' ?g6)" (is "block _ _ ?g5")
    by (rule block_allow) (simp_all add: 6 tokens_at(6))
  have 4: "block ?t (tokens 4) (allow_block ''uriAltNames'' ?g5)" (is "block _ _ ?g4")
    by (rule block_allow) (simp_all add: 5 tokens_at(5))
  have 3: "block ?t (tokens 3) (allow_block ''ipAltNames'' ?g4)" (is "block _ _ ?g3")
    by (rule block_allow) (simp_all add: 4 tokens_at(4))
  have 2: "block ?t (tokens 2) (allow_block ''dnsAltNames'' ?g3)" (is "block _ _ ?g2")
    by (rule block_allow) (simp_all add: 3 tokens_at(3))
  have 1: "block ?t (tokens 1) (allow_block ''certnames'' ?g2)"
    using 2 tokens_at(2) by - (rule block_allow, simp_all add: numeral_2_eq_2)
  have "block ?t (any_token # tokens 1) blocks_yaml"
    unfolding blocks_yaml_def
    using fresh [of 0] by (intro block_cons [OF 1] constant_unambiguous) (simp_all add: tokens_at(1), simp add: any_token_def)
  then show ?thesis by (simp add: block_def)
qed

lemma policy_entry_blocks:
  "policy_entry p = policy_token @ (Quote (pol_Name p) @ ''\<newline>'' @ blocks_yaml (policy_blocks p))"
  by (simp add: policy_entry_def policy_token_def blocks_yaml_def policy_blocks_def allow_block_def
      allow_yaml_optional attributes_yaml_optional optional_def any_token_def)

lemma some_list_inject: "some_list xs = some_list ys \<Longrightarrow> xs = ys"
  by (auto simp: some_list_def split: if_splits)

lemma policy_blocks_inject:
  "pol_Name p = pol_Name q \<Longrightarrow> policy_blocks p = policy_blocks q \<Longrightarrow> p = q"
  by (cases p; cases q) (auto simp: policy_blocks_def dest!: some_list_inject split: if_splits)

lemma policy_body_unambiguous:
  "unambiguous [policy_token] (\<lambda>p. Quote (pol_Name p) @ ''\<newline>'' @ blocks_yaml (policy_blocks p))"
  unfolding unambiguous_def
proof (intro allI impI)
  fix p q :: Policy and r r'
  assume r: "starts [policy_token] r" "starts [policy_token] r'"
    and "(Quote (pol_Name p) @ ''\<newline>'' @ blocks_yaml (policy_blocks p)) @ r =
         (Quote (pol_Name q) @ ''\<newline>'' @ blocks_yaml (policy_blocks q)) @ r'"
  then have "pol_Name p = pol_Name q" "blocks_yaml (policy_blocks p) @ r = blocks_yaml (policy_blocks q) @ r'"
    by (simp_all add: Quote_append_inject)
  then show "p = q \<and> r = r'"
    using unambiguousD [OF blocks_unambiguous _ r] policy_blocks_inject by blast
qed

lemma policy_yaml_inject: "policy_yaml c = policy_yaml c' \<longleftrightarrow> c = c'"
proof
  assume eq: "policy_yaml c = policy_yaml c'"
  let ?sep = "''policies:\<newline>''"
  let ?ps = "\<lambda>c. concat (map (\<lambda>p. policy_token @ (Quote (pol_Name p) @ ''\<newline>'' @ blocks_yaml (policy_blocks p))) (Policies c))"
  let ?rs = "\<lambda>rs. concat (map (\<lambda>r. ''  - '' @ (Quote r @ ''\<newline>'')) rs)"
  have yaml: "policy_yaml d = ''reservedCertnames:\<newline>'' @ ?rs (ReservedCertnames d) @ (?sep @ ?ps d)" for d
    unfolding policy_yaml_def policy_entry_blocks by simp
  have reserved: "unambiguous [?sep] ?rs"
    by (rule items_unambiguous [OF quoted_line_unambiguous]) (simp_all add: comparable_def)
  have "?rs (ReservedCertnames c) @ (?sep @ ?ps c) = ?rs (ReservedCertnames c') @ (?sep @ ?ps c')"
    using eq unfolding yaml by simp
  then have "ReservedCertnames c = ReservedCertnames c' \<and> ?sep @ ?ps c = ?sep @ ?ps c'"
    by (rule unambiguousD [OF reserved]) (simp_all add: starts_def)
  then have r: "ReservedCertnames c = ReservedCertnames c'" and p: "?ps c @ [] = ?ps c' @ []" by simp_all
  have "unambiguous [] (\<lambda>ps. concat (map (\<lambda>p. policy_token @ (Quote (pol_Name p) @ ''\<newline>'' @ blocks_yaml (policy_blocks p))) ps))"
    by (rule items_unambiguous [OF policy_body_unambiguous]) (simp_all add: policy_token_def)
  from unambiguousD [OF this p] r show "c = c'"
    by (cases c; cases c') (simp add: starts_def)
qed simp

text \<open>What a SigningPolicy says, apart from the values of its attributes, which may come from
  Secrets, and what an entry of a policy configuration says.\<close>

type_synonym policy_contents = "string \<times> bool \<times> PatternConf option list \<times> string list"

definition policy_says :: "SigningPolicy \<Rightarrow> policy_contents" where
  "policy_says p = (let spec = spo_Spec p in (m_Name (spo_Meta p), sp_Any spec,
     map pattern_conf [sp_Certnames spec, sp_DNSAltNames spec, sp_IPAltNames spec, sp_URIAltNames spec,
       sp_EmailAltNames spec, sp_Extensions spec],
     map cam_Name (sp_CSRAttributes spec)))"

definition entry_says :: "Policy \<Rightarrow> policy_contents" where
  "entry_says p = (pol_Name p, pol_Any p,
     [pol_Certnames p, pol_DNSAltNames p, pol_IPAltNames p, pol_URIAltNames p, pol_EmailAltNames p,
       pol_Extensions p],
     map attr_Name (pol_CSRAttributes p))"

lemma each_says:
  assumes "\<And>x s y t. f x s = (Inr y, t) \<Longrightarrow> g y = h x" and "each f xs s = (Inr ys, t)"
  shows "map g ys = map h xs"
  using assms(2)
proof (induction xs arbitrary: s ys)
  case (Cons x xs)
  obtain y s1 zs where "f x s = (Inr y, s1)" "each f xs s1 = (Inr zs, t)" "ys = y # zs"
    using Cons.prems by (auto elim!: bnd_InrE dest!: ret_InrE)
  then show ?case using assms(1) Cons.IH by simp
qed (auto dest!: ret_InrE)

lemma resolve_attribute_says: "resolve_attribute E ns n attr s = (Inr a, t) \<Longrightarrow> attr_Name a = cam_Name attr"
  unfolding resolve_attribute_def by (auto elim!: bnd_InrE dest!: ret_InrE)

lemma resolve_policy_says: "resolve_policy E ns p s = (Inr q, t) \<Longrightarrow> entry_says q = policy_says p"
  unfolding resolve_policy_def Let_def
  by (auto elim!: bnd_InrE dest!: ret_InrE simp: entry_says_def policy_says_def Let_def
      intro!: each_says [of "resolve_attribute E ns (m_Name (spo_Meta p))"] resolve_attribute_says)

lemma resolve_policies_says:
  assumes "resolve_policies E ns ca policies s = (Inr conf, t)"
  shows "map entry_says (Policies conf) = map policy_says (by_name policies)"
  using assms unfolding resolve_policies_def
  by (auto elim!: bnd_InrE dest!: ret_InrE intro!: each_says [of "resolve_policy E ns"] resolve_policy_says)

lemma rendered_conf:
  assumes "renderAutosignPolicyConfig E ns ca policies s = (Inr doc, s')"
  obtains conf where "resolve_policies E ns ca policies s = (Inr conf, s')" "doc = policy_yaml conf"
  using assms by (auto simp: render_mapped mapped_def bnd_def ret_def split: prod.splits sum.splits)

text \<open>C23: The rendered policy document is unambiguous. If two renderings, of whatever policies for
  whatever CertificateAuthorities and with whatever Secrets, give the same document, then the
  reserved certname, the policies in their order with their names, any, patterns and attribute
  names, and the values the attributes resolved to are all the same: no quote, line break or
  YAML syntax in a pattern or in the value of a Secret can pose as another policy or attribute.\<close>

theorem policy_document_unambiguous:
  assumes "renderAutosignPolicyConfig E ns ca policies s = (Inr doc, t)"
    and "renderAutosignPolicyConfig E' ns' ca' policies' s' = (Inr doc, t')"
  shows "operatorSigningCertname (m_Name (ca_Meta ca)) = operatorSigningCertname (m_Name (ca_Meta ca')) \<and>
    map policy_says (by_name policies) = map policy_says (by_name policies') \<and>
    (\<exists>conf. resolve_policies E ns ca policies s = (Inr conf, t) \<and>
       resolve_policies E' ns' ca' policies' s' = (Inr conf, t'))"
proof -
  obtain conf where conf: "resolve_policies E ns ca policies s = (Inr conf, t)" "doc = policy_yaml conf"
    using rendered_conf [OF assms(1)] .
  moreover obtain conf' where conf': "resolve_policies E' ns' ca' policies' s' = (Inr conf', t')" "doc = policy_yaml conf'"
    using rendered_conf [OF assms(2)] .
  moreover have "conf' = conf" using conf(2) conf'(2) policy_yaml_inject by simp
  ultimately show ?thesis
    using resolve_policies_says [OF conf(1)] resolve_policies_says [OF conf'(1)]
      resolve_reserved [OF conf(1)] resolve_reserved [OF conf'(1)] by auto
qed

section \<open>The operator's certname is out of reach of the policies\<close>

text \<open>The rules that guard the administration of the CA, by their path, and every other rule for
  administrators; and whom a rule lets through by name.\<close>

definition ca_admin_paths :: "string list" where
  "ca_admin_paths = [''/puppet-ca/v1/certificate_status'', ''^/puppet-ca/v1/certificate_revocation_list$'',
     ''/puppet-ca/v1/certificate_statuses'', ''/puppet-ca/v1/clean'', ''/puppet-ca/v1/sign'', ''/puppet-ca/v1/sign/all'']"

definition guards_admin :: "auth_rule \<Rightarrow> bool" where
  "guards_admin r = (rule_Path r \<in> set ca_admin_paths \<or> (case rule_Access r of AllowAdmin _ \<Rightarrow> True | _ \<Rightarrow> False))"

definition lets_through :: "access \<Rightarrow> string \<Rightarrow> bool" where
  "lets_through a n = (case a of
     AllowUnauthenticated \<Rightarrow> True | AllowName m \<Rightarrow> True | AllowAdmin op \<Rightarrow> op \<noteq> [] \<and> n = op
   | DenyName _ \<Rightarrow> False | NoAccess \<Rightarrow> False)"

lemma builtin_admin:
  "r \<in> set (builtinAuthRules op) \<Longrightarrow> guards_admin r \<Longrightarrow> rule_Access r = AllowAdmin op"
  by (auto simp: builtin_rules rule_def guards_admin_def ca_admin_paths_def)

lemma admin_rule_name:
  assumes "r \<in> set (auth_rules cfg ca)" "guards_admin r" "lets_through (rule_Access r) n"
  shows "r \<in> custom_rule ` set (pss_AuthorizationRules (cf_PuppetServer (cfg_Spec cfg))) \<or>
    (n = operator_certname ca \<and> n \<noteq> [])"
proof -
  have "\<not> lets_through (rule_Access deny_all_rule) n" by (simp add: deny_all_rule_def rule_def lets_through_def)
  moreover have "r \<in> set (builtinAuthRules (operator_certname ca)) \<Longrightarrow> n = operator_certname ca \<and> n \<noteq> []"
    using builtin_admin [of r "operator_certname ca"] assms(2,3) by (simp add: lets_through_def)
  ultimately show ?thesis using assms(1,3) by (auto simp: auth_rules_def)
qed

lemma reserved_refused:
  assumes "\<And>conf. loadPolicyConfig env AutosignPolicyPath = Some conf \<Longrightarrow> isReservedCertname conf certname"
  shows "autosign_main env None (certname # rest) = 1"
  using assms by (auto simp: autosign_main_def evaluatePolicies_def split: option.splits)

text \<open>C2: A certname that a rule of the rendered auth.conf lets into the administration of the CA
  (signing, cleaning, certificate status, replacing the revocation list) is never signed by the
  autosign program that reads the policy document rendered for the same CertificateAuthority,
  whatever the SigningPolicies (any: true included), the Secrets they refer to, the CSR and the
  case of the letters - unless the rule is one of spec.puppetServer.authorizationRules of the
  Config: those may let any certname in, and the operator reserves none of theirs. The YAML
  decoder is only assumed not to change the reserved certnames of a document it can read.\<close>

theorem admin_certname_never_autosigned:
  assumes "renderAutosignPolicyConfig E ns ca policies s = (Inr doc, s')"
    and "r \<in> set (auth_rules cfg (Some ca))" "guards_admin r" "lets_through (rule_Access r) admin"
    and "EqualFold admin certname"
    and "ReadFile env AutosignPolicyPath = Some doc"
    and "\<And>c conf. doc = policy_yaml c \<Longrightarrow> UnmarshalPolicy env doc = Some conf \<Longrightarrow>
           ReservedCertnames conf = ReservedCertnames c"
  shows "autosign_main env None (certname # rest) = 1 \<or>
    r \<in> custom_rule ` set (pss_AuthorizationRules (cf_PuppetServer (cfg_Spec cfg)))"
proof (cases "r \<in> custom_rule ` set (pss_AuthorizationRules (cf_PuppetServer (cfg_Spec cfg)))")
  case False
  have "autosign_main env None (certname # rest) = 1"
  proof (rule reserved_refused)
    fix conf assume "loadPolicyConfig env AutosignPolicyPath = Some conf"
    then have load: "UnmarshalPolicy env doc = Some conf" using assms(6) by (simp add: loadPolicyConfig_def)
    obtain c where c: "resolve_policies E ns ca policies s = (Inr c, s')" "doc = policy_yaml c"
      using rendered_conf [OF assms(1)] .
    have "admin = operatorSigningCertname (m_Name (ca_Meta ca))"
      using admin_rule_name [OF assms(2,3,4)] False by (auto simp: operator_certname_def split: if_splits)
    then show "isReservedCertname conf certname"
      using assms(7) [OF c(2) load] resolve_reserved [OF c(1)] assms(5) by (simp add: isReservedCertname_def)
  qed
  then show ?thesis by simp
qed simp

section \<open>A concrete run\<close>

definition demo_cfg_env :: cfg_env where
  "demo_cfg_env = \<lparr> ce_lib = reference_lib, ce_retries = 0,
     ce_get = (\<lambda>_ n. Inr (blank_config n ''ns'')), ce_updateStatus = (\<lambda>_ _. Inr ()),
     ce_getCA = (\<lambda>_ n. Inr (blank_ca n ''ns'')),
     ce_getDatabase = (\<lambda>_ _. Inl (Err NotFound ''no database'')),
     ce_getNodeClassifier = (\<lambda>_ _. Inl (Err NotFound ''no classifier'')),
     ce_listPolicies = (\<lambda>_ _. Inr [blank_policy ''all'' ''ns'' ''ca'']),
     ce_listReportProcessors = (\<lambda>_ _. Inr []),
     ce_getSecret = (\<lambda>_ _ _. Inl (Err NotFound ''no secret'')), ce_writeSecret = (\<lambda>_ _. Inr ()),
     ce_getConfigMap = (\<lambda>_ _. Inl (Err NotFound ''no configmap'')), ce_writeConfigMap = (\<lambda>_ _. Inr ()),
     ce_getServiceAccount = (\<lambda>_ _. Inl (Err NotFound ''no account'')),
     ce_writeServiceAccount = (\<lambda>_ _. Inr ()), ce_iterate = (\<lambda>_ m. m),
     ce_marshalENC = (\<lambda>_. Inr ''enc''), ce_marshalReports = (\<lambda>_. Inr ''reports'') \<rparr>"

definition any_policy :: SigningPolicy where
  "any_policy = (blank_policy ''all'' ''ns'' ''ca'') \<lparr> spo_Spec := spo_Spec (blank_policy ''all'' ''ns'' ''ca'') \<lparr> sp_Any := True \<rparr> \<rparr>"

definition any_conf :: PolicyConfig where
  "any_conf = \<lparr> ReservedCertnames = [''ca-operator''], Policies = [\<lparr> pol_Name = ''all'', pol_Any = True,
     pol_Certnames = None, pol_DNSAltNames = None, pol_IPAltNames = None, pol_URIAltNames = None,
     pol_EmailAltNames = None, pol_Extensions = None, pol_CSRAttributes = [] \<rparr>] \<rparr>"

definition any_env :: autosign_env where
  "any_env = \<lparr> lib = \<lparr> ParseCIDR = (\<lambda>_. None), UnmarshalString = (\<lambda>_. None) \<rparr>,
     ReadFile = (\<lambda>_. Some (policy_yaml any_conf)), Stdin = Some [],
     UnmarshalPolicy = (\<lambda>_. Some any_conf), PemDecode = Some,
     ParseCertificateRequest = (\<lambda>_. Some \<lparr> CommonName = ''CA-Operator'', csr_Extensions = [],
       DNSNames = [], IPAddresses = [], URIs = [], EmailAddresses = [] \<rparr>) \<rparr>"

lemma any_policy_resolved:
  "resolve_policies demo_cfg_env ''ns'' (blank_ca ''ca'' ''ns'') [any_policy] w = (Inr any_conf, w)"
  by (simp add: resolve_policies_def resolve_policy_def by_name_def any_policy_def any_conf_def
      blank_policy_def pattern_conf_def bnd_def ret_def new_meta_def blank_ca_def operatorSigningCertname_def)

theorem admin_certname_never_autosigned_witness:
  "autosign_main any_env None [''CA-Operator''] = 1 \<and>
   evaluatePolicies (lib any_env) (any_conf \<lparr> ReservedCertnames := [] \<rparr>) ''CA-Operator''
     \<lparr> CommonName = ''CA-Operator'', csr_Extensions = [],
       DNSNames = [], IPAddresses = [], URIs = [], EmailAddresses = [] \<rparr>"
proof
  let ?ca = "blank_ca ''ca'' ''ns''"
  let ?r = "rule ''/puppet-ca/v1/sign'' ''path'' [''post''] (AllowAdmin ''ca-operator'') ''puppetlabs cert sign''"
  have op: "operator_certname (Some ?ca) = ''ca-operator''"
    by (simp add: operator_certname_def blank_ca_def new_meta_def operatorSigningCertname_def)
  have "autosign_main any_env None [''CA-Operator''] = 1 \<or>
      ?r \<in> custom_rule ` set (pss_AuthorizationRules (cf_PuppetServer (cfg_Spec (blank_config ''c'' ''ns''))))"
  proof (rule admin_certname_never_autosigned [where E = demo_cfg_env and ns = "''ns''" and ca = ?ca
        and policies = "[any_policy]" and s = "\<lparr> hist = [], obj = blank_config ''c'' ''ns'' \<rparr> :: gst"
        and cfg = "blank_config ''c'' ''ns''" and r = ?r and admin = "''ca-operator''"])
    show "renderAutosignPolicyConfig demo_cfg_env ''ns'' ?ca [any_policy]
        (\<lparr> hist = [], obj = blank_config ''c'' ''ns'' \<rparr> :: gst) =
        (Inr (policy_yaml any_conf), \<lparr> hist = [], obj = blank_config ''c'' ''ns'' \<rparr>)"
      by (simp add: render_mapped mapped_def bnd_def ret_def any_policy_resolved)
    show "?r \<in> set (auth_rules (blank_config ''c'' ''ns'') (Some ?ca))"
      by (simp add: auth_rules_def op builtin_rules)
    show "EqualFold ''ca-operator'' ''CA-Operator''" by code_simp
    fix c conf
    assume "policy_yaml any_conf = policy_yaml c" "UnmarshalPolicy any_env (policy_yaml any_conf) = Some conf"
    then show "ReservedCertnames conf = ReservedCertnames c"
      using policy_yaml_inject by (auto simp: any_env_def)
  qed (simp_all add: rule_def any_env_def guards_admin_def lets_through_def)
  then show "autosign_main any_env None [''CA-Operator''] = 1" by (simp add: blank_config_def)
qed (simp add: any_env_def any_conf_def evaluatePolicies_def isReservedCertname_def
      subjectMatchesCertname_def evaluatePolicy_def guardExtensions_def guardSANs_def)

theorem policy_document_unambiguous_witness:
  "map policy_says (by_name [any_policy]) = [(''all'', True, replicate 6 None, [])] \<and>
   (\<exists>conf. resolve_policies demo_cfg_env ''ns'' (blank_ca ''ca'' ''ns'') [any_policy]
      (\<lparr> hist = [], obj = blank_config ''c'' ''ns'' \<rparr> :: gst) = (Inr conf, \<lparr> hist = [], obj = blank_config ''c'' ''ns'' \<rparr>))"
proof -
  let ?s = "\<lparr> hist = [], obj = blank_config ''c'' ''ns'' \<rparr> :: gst"
  have "renderAutosignPolicyConfig demo_cfg_env ''ns'' (blank_ca ''ca'' ''ns'') [any_policy] ?s = (Inr (policy_yaml any_conf), ?s)"
    by (simp add: render_mapped mapped_def bnd_def ret_def any_policy_resolved)
  from policy_document_unambiguous [OF this this] show ?thesis
    by (simp add: by_name_def policy_says_def any_policy_def blank_policy_def pattern_conf_def new_meta_def Let_def numeral_eq_Suc)
qed

end
