(* ===== verification/ConfigCtl.thy ===== *)
theory ConfigCtl
  imports AutosignRender
begin

text \<open>
  The Config controller (config_controller.go, config_enc.go, config_reports.go,
  config_serviceaccount.go): the ConfigMap with the rendered files, the Secrets of the autosign,
  classifier and report programs, the ServiceAccount, the status, and the watches.
\<close>

section \<open>The ConfigMap\<close>

definition renderPuppetConf :: "cfg_env \<Rightarrow> string gop" where
  "renderPuppetConf E =
     bnd (reads obj) (\<lambda>cfg.
     bnd (wrapping ''checking report processors'' (hasReportProcessors E)) (\<lambda>hasRP.
     bnd (findCertificateAuthority E) (\<lambda>ca.
     lift (puppet_conf cfg hasRP ca))))"

definition renderPuppetDBConf :: "cfg_env \<Rightarrow> string gop" where
  "renderPuppetDBConf E =
     bnd (reads obj) (\<lambda>cfg. let ref = cf_DatabaseRef (cfg_Spec cfg); urls = cf_PuppetDBServerURLs (cfg_Spec cfg) in
     if ref \<noteq> [] then
       bnd (wrapping (''looking up Database '' @ Quote ref)
             (call (CfgGetDatabase ref) (\<lambda>h. ce_getDatabase E h ref))) (\<lambda>db.
       ret (puppetdb_conf (if dt_URL (db_Status db) = [] then None else Some (dt_URL (db_Status db)))))
     else if urls \<noteq> [] then ret (puppetdb_conf (Some (Join urls '','')))
     else ret (puppetdb_conf None))"

definition config_loggers :: "Config \<Rightarrow> string smap" where
  "config_loggers cfg = (case cf_Logging (cfg_Spec cfg) of None \<Rightarrow> [] | Some l \<Rightarrow> lg_Loggers l)"

definition config_files :: "Config \<Rightarrow> string \<Rightarrow> string \<Rightarrow> CertificateAuthority option \<Rightarrow>
    (string \<times> string) list \<Rightarrow> string smap" where
  "config_files cfg puppetConf puppetDBConf ca loggers =
     [(''puppet.conf'', puppetConf), (''puppetdb.conf'', puppetDBConf),
      (''webserver.conf'', renderWebserverConf cfg), (''webserver-ca.conf'', renderWebserverConfCA cfg),
      (''puppetserver.conf'', renderPuppetserverConf cfg), (''auth.conf'', renderAuthConf cfg ca),
      (''ca.conf'', renderCAConf ca),
      (''product.conf'', ''product: {\<newline>    check-for-updates: false\<newline>}\<newline>''),
      (''logback.xml'', renderLogbackXML cfg loggers), (''metrics.conf'', renderMetricsConf cfg),
      (''ca-enabled.cfg'', ''puppetlabs.services.ca.certificate-authority-service/certificate-authority-service\<newline>'' @
         ''puppetlabs.trapperkeeper.services.watcher.filesystem-watch-service/filesystem-watch-service\<newline>''),
      (''ca-disabled.cfg'', ''puppetlabs.services.ca.certificate-authority-disabled-service/certificate-authority-disabled-service\<newline>'' @
         ''puppetlabs.trapperkeeper.services.watcher.filesystem-watch-service/filesystem-watch-service\<newline>'')] @
     (if renderRoutesYAML cfg \<noteq> [] then [(''routes.yaml'', renderRoutesYAML cfg)] else [])"

definition configmap_mutation :: "kube_lib \<Rightarrow> Config \<Rightarrow> string smap \<Rightarrow> ConfigMap \<Rightarrow> err + ConfigMap" where
  "configmap_mutation L cfg data cm =
     (case assertControlledBy L (cm_Meta cm) (cfg_Meta cfg) ''ConfigMap'' ''Config'' of
        Some e \<Rightarrow> Inl e
      | None \<Rightarrow>
         (case SetControllerReference L ''Config'' (cfg_Meta cfg)
                 (cm_Meta cm \<lparr> m_Labels := configLabels (cfg_name cfg) \<rparr>) of
            Inl e \<Rightarrow> Inl e
          | Inr meta \<Rightarrow> Inr \<lparr> cm_Meta = meta, cm_Data = data \<rparr>))"

definition config_map_name :: "Config \<Rightarrow> string" where
  "config_map_name cfg = cfg_name cfg @ ''-config''"

definition write_config_map :: "cfg_env \<Rightarrow> Config \<Rightarrow> string smap \<Rightarrow> unit gop" where
  "write_config_map E cfg data =
     (let name = config_map_name cfg in
      bnd (wrapping (''reconciling ConfigMap '' @ name)
            (create_or_update (call (CfgGetConfigMap name) (\<lambda>h. ce_getConfigMap E h name))
              \<lparr> cm_Meta = new_meta name (cfg_ns cfg), cm_Data = [] \<rparr>
              (configmap_mutation (ce_lib E) cfg data)
              (\<lambda>cm. call (CfgCreateConfigMap cm) (\<lambda>h. ce_writeConfigMap E h cm))
              (\<lambda>cm. call (CfgUpdateConfigMap cm) (\<lambda>h. ce_writeConfigMap E h cm)))) (\<lambda>_.
      ret ()))"

definition reconcileConfigMap :: "cfg_env \<Rightarrow> unit gop" where
  "reconcileConfigMap E =
     bnd (reads obj) (\<lambda>cfg.
     bnd (wrapping ''rendering puppet.conf'' (renderPuppetConf E)) (\<lambda>puppetConf.
     bnd (wrapping ''rendering puppetdb.conf'' (renderPuppetDBConf E)) (\<lambda>puppetDBConf.
     bnd (findCertificateAuthority E) (\<lambda>ca.
     bnd (reads (\<lambda>s. ce_iterate E (hist s) (config_loggers cfg))) (\<lambda>loggers.
     write_config_map E cfg (config_files cfg puppetConf puppetDBConf ca loggers))))))"

section \<open>The classifier Secret\<close>

definition ssl_files :: wireSSLConfig where
  "ssl_files = \<lparr> ws_CertFile = ''/etc/puppetlabs/puppet/ssl/certs/puppet.pem'',
     ws_KeyFile = ''/etc/puppetlabs/puppet/ssl/private_keys/puppet.pem'',
     ws_CAFile = ''/etc/puppetlabs/puppet/ssl/certs/ca.pem'' \<rparr>"

definition no_auth :: wireAuthConfig where
  "no_auth = \<lparr> wa_Type = [], wa_Header = [], wa_Token = [], wa_Username = [], wa_Password = [] \<rparr>"

definition secret_value :: "cfg_env \<Rightarrow> string \<Rightarrow> string \<Rightarrow> SecretKeyRef \<Rightarrow> string gop" where
  "secret_value E ns what ref = wrapping what (resolveSecretKey E ns (skr_Name ref) (skr_Key ref))"

text \<open>The authentication of an endpoint, the first method that is set; \<open>whose\<close> ends the error texts.\<close>

definition wire_auth :: "cfg_env \<Rightarrow> string \<Rightarrow> string \<Rightarrow> NodeClassifierAuth \<Rightarrow> wireAuthConfig gop" where
  "wire_auth E ns whose auth =
     (if na_MTLS auth then ret (no_auth \<lparr> wa_Type := ''mtls'' \<rparr>)
      else case na_Token auth of
        Some t \<Rightarrow>
          bnd (secret_value E ns (''resolving token secret'' @ whose) (ta_SecretKeyRef t)) (\<lambda>token.
          ret (no_auth \<lparr> wa_Type := ''token'', wa_Header := ta_Header t, wa_Token := token \<rparr>))
      | None \<Rightarrow>
      (case na_Bearer auth of
        Some b \<Rightarrow>
          bnd (secret_value E ns (''resolving bearer secret'' @ whose) (sks_SecretKeyRef b)) (\<lambda>token.
          ret (no_auth \<lparr> wa_Type := ''bearer'', wa_Token := token \<rparr>))
      | None \<Rightarrow>
      (case na_Basic auth of
        Some b \<Rightarrow>
          bnd (secret_value E ns (''resolving basic auth username'' @ whose)
                \<lparr> skr_Name = ba_Name b, skr_Key = ba_UsernameKey b \<rparr>) (\<lambda>username.
          bnd (secret_value E ns (''resolving basic auth password'' @ whose)
                \<lparr> skr_Name = ba_Name b, skr_Key = ba_PasswordKey b \<rparr>) (\<lambda>password.
          ret (no_auth \<lparr> wa_Type := ''basic'', wa_Username := username, wa_Password := password \<rparr>)))
      | None \<Rightarrow> ret no_auth)))"

definition optional_auth :: "cfg_env \<Rightarrow> string \<Rightarrow> string \<Rightarrow> NodeClassifierAuth option \<Rightarrow> wireAuthConfig option gop" where
  "optional_auth E ns whose auth =
     (case auth of None \<Rightarrow> ret None | Some a \<Rightarrow> bnd (wire_auth E ns whose a) (\<lambda>w. ret (Some w)))"

definition enc_cache :: "NodeClassifierSpec \<Rightarrow> encCache option" where
  "enc_cache spec =
     (case nc_Cache spec of
        None \<Rightarrow> None
      | Some c \<Rightarrow> if \<not> nca_Enabled c then None
          else Some \<lparr> wc_Enabled = True,
            wc_Directory = (if nca_Directory c \<noteq> [] then nca_Directory c else ''/var/cache/openvox-enc'') \<rparr>)"

definition renderENCConfig :: "cfg_env \<Rightarrow> NodeClassifier \<Rightarrow> string gop" where
  "renderENCConfig E nc =
     bnd (reads obj) (\<lambda>cfg. let spec = nco_Spec nc in
     bnd (optional_auth E (cfg_ns cfg) [] (nc_Auth spec)) (\<lambda>auth.
     wrapping ''marshaling ENC config'' (lift (ce_marshalENC E
       \<lparr> ey_URL = nc_URL spec, ey_Method = nc_RequestMethod spec, ey_Path = nc_RequestPath spec,
         ey_Body = nc_RequestBody spec, ey_ResponseFormat = nc_ResponseFormat spec,
         ey_TimeoutSeconds = (if nc_TimeoutSeconds spec \<noteq> 0 then nc_TimeoutSeconds spec else 10),
         ey_Auth = auth, ey_Cache = enc_cache spec, ey_SSL = ssl_files \<rparr>))))"

definition reconcileENCSecret :: "cfg_env \<Rightarrow> unit gop" where
  "reconcileENCSecret E =
     bnd (reads obj) (\<lambda>cfg. let ref = cf_NodeClassifierRef (cfg_Spec cfg) in
     if ref = [] then ret ()
     else if pu_ExternalNodesCommand (cf_Puppet (cfg_Spec cfg)) \<noteq> [] then ret ()
     else
       bnd (outcome (call (CfgGetNodeClassifier ref) (\<lambda>h. ce_getNodeClassifier E h ref))) (\<lambda>r. case r of
         Inl e \<Rightarrow> if IsNotFound e then ret () else throw (wrapf (''getting NodeClassifier '' @ ref) e)
       | Inr nc \<Rightarrow>
           bnd (outcome (renderENCConfig E nc)) (\<lambda>rendered. case rendered of
             Inl e \<Rightarrow>
               thn (cfg_event ''Warning'' ''ENCRenderFailed''
                     (''Rendering the ENC configuration from NodeClassifier '' @ m_Name (nco_Meta nc)
                      @ '' failed: '' @ err_text e))
               (throw (wrapf ''rendering ENC config'' e))
           | Inr encYAML \<Rightarrow>
               reconcileSecret E (cfg_name cfg @ ''-enc'') [(''enc.yaml'', encYAML)]
                 (renderedFromAnnotation [sourceOf (nco_Meta nc)]))))"

section \<open>The report Secret\<close>

definition header_value :: "cfg_env \<Rightarrow> string \<Rightarrow> string \<Rightarrow> HTTPHeader \<Rightarrow> string gop" where
  "header_value E ns rpName h =
     (case hh_ValueFrom h of
        None \<Rightarrow> ret (hh_Value h)
      | Some from \<Rightarrow>
         (case vf_SecretKeyRef from of
            Some ref \<Rightarrow> secret_value E ns (''resolving header secret for '' @ rpName) ref
          | None \<Rightarrow>
             (case vf_ConfigMapKeyRef from of
                Some ref \<Rightarrow> wrapping (''resolving header configmap for '' @ rpName)
                              (resolveConfigMapKey E (cmr_Name ref) (cmr_Key ref))
              | None \<Rightarrow> ret (hh_Value h))))"

definition render_endpoint :: "cfg_env \<Rightarrow> string \<Rightarrow> ReportProcessor \<Rightarrow> reportEndpointConfig gop" where
  "render_endpoint E ns rp =
     (let spec = rpo_Spec rp; name = m_Name (rpo_Meta rp) in
      bnd (optional_auth E ns ('' for '' @ name) (rp_Auth spec)) (\<lambda>auth.
      bnd (each (\<lambda>h. bnd (header_value E ns name h) (\<lambda>v. ret \<lparr> rh_Name = hh_Name h, rh_Value = v \<rparr>))
             (rp_Headers spec)) (\<lambda>headers.
      ret \<lparr> re_Name = name, re_Processor = rp_Processor spec, re_URL = rp_URL spec,
            re_TimeoutSeconds = (if rp_TimeoutSeconds spec \<noteq> 0 then rp_TimeoutSeconds spec else 30),
            re_Auth = auth, re_SSL = ssl_files, re_Headers = headers \<rparr>)))"

definition renderReportWebhookConfig :: "cfg_env \<Rightarrow> string \<Rightarrow> ReportProcessor list \<Rightarrow> string gop" where
  "renderReportWebhookConfig E ns processors =
     bnd (each (render_endpoint E ns) processors) (\<lambda>endpoints.
     wrapping ''marshaling report-webhook config'' (lift (ce_marshalReports E endpoints)))"

definition reconcileReportWebhookSecret :: "cfg_env \<Rightarrow> unit gop" where
  "reconcileReportWebhookSecret E =
     bnd (reads obj) (\<lambda>cfg.
     bnd (wrapping (''finding ReportProcessors for Config '' @ cfg_name cfg) (findReportProcessors E)) (\<lambda>processors.
     if processors = [] then ret ()
     else
       bnd (outcome (renderReportWebhookConfig E (cfg_ns cfg) processors)) (\<lambda>rendered. case rendered of
         Inl e \<Rightarrow>
           thn (cfg_event ''Warning'' ''ReportWebhookRenderFailed''
                 (''Rendering the report webhook configuration failed: '' @ err_text e))
           (throw e)
       | Inr webhookYAML \<Rightarrow>
           reconcileSecret E (cfg_name cfg @ ''-report-webhook'') [(''report-webhook.yaml'', webhookYAML)]
             (renderedFromAnnotation (map (\<lambda>rp. sourceOf (rpo_Meta rp)) processors)))))"

section \<open>The ServiceAccount\<close>

definition reconcileServerServiceAccount :: "cfg_env \<Rightarrow> unit gop" where
  "reconcileServerServiceAccount E =
     bnd (reads obj) (\<lambda>cfg. let name = cfg_name cfg @ ''-server'' in
     bnd (outcome (call (CfgGetServiceAccount name) (\<lambda>h. ce_getServiceAccount E h name))) (\<lambda>r. case r of
       Inl e \<Rightarrow>
         if IsNotFound e then
           bnd (wrapping (''setting owner reference on ServiceAccount '' @ name)
                 (lift (SetControllerReference (ce_lib E) ''Config'' (cfg_Meta cfg)
                    (new_meta name (cfg_ns cfg) \<lparr> m_Labels := configLabels (cfg_name cfg) \<rparr>)))) (\<lambda>meta.
           let sa = \<lparr> sa_Meta = meta, sa_Automount = Some False \<rparr> in
           call (CfgCreateServiceAccount sa) (\<lambda>h. ce_writeServiceAccount E h sa))
         else throw (wrapf (''getting ServiceAccount '' @ name) e)
     | Inr _ \<Rightarrow> ret ()))"

section \<open>Reconcile\<close>

definition config_ready :: "kube_lib \<Rightarrow> Config \<Rightarrow> Config" where
  "config_ready L cfg = cfg \<lparr> cfg_Status := cfg_Status cfg
     \<lparr> cft_ObservedGeneration := m_Generation (cfg_Meta cfg), cft_Phase := ConfigRunning,
       cft_Conditions := SetStatusCondition L (cft_Conditions (cfg_Status cfg))
         \<lparr> cond_Type = ConditionConfigReady, cond_Status = ''True'', cond_Reason = ''ConfigMapsCreated'',
           cond_Message = ''Configuration ConfigMaps are up to date'',
           cond_ObservedGeneration = m_Generation (cfg_Meta cfg) \<rparr> \<rparr> \<rparr>"

definition pause_config :: "cfg_env \<Rightarrow> bool gop" where
  "pause_config E =
     bnd (reads obj) (\<lambda>cfg.
     reconcilePauseState (ce_lib E) (cfg_Meta cfg) (cft_Conditions (cfg_Status cfg))
       (\<lambda>f. cfg_update_status E (\<lambda>c. c \<lparr> cfg_Status := (cfg_Status c)
              \<lparr> cft_Conditions := f (cft_Conditions (cfg_Status c)) \<rparr> \<rparr>)))"

definition pending_config :: "cfg_env \<Rightarrow> unit gop" where
  "pending_config E =
     bnd (reads obj) (\<lambda>cfg.
     if cft_Phase (cfg_Status cfg) = ConfigNoPhase
     then cfg_update_status E (\<lambda>c. c \<lparr> cfg_Status := (cfg_Status c) \<lparr> cft_Phase := ConfigPending \<rparr> \<rparr>)
     else ret ())"

definition config_steps :: "cfg_env \<Rightarrow> unit gop" where
  "config_steps E =
     thn (wrapping ''reconciling ConfigMaps'' (reconcileConfigMap E))
     (thn (wrapping ''reconciling autosign Secrets'' (reconcileAutosignSecrets E))
     (thn (wrapping ''reconciling ENC Secret'' (reconcileENCSecret E))
     (thn (wrapping ''reconciling report-webhook Secret'' (reconcileReportWebhookSecret E))
     (wrapping ''reconciling server ServiceAccount'' (reconcileServerServiceAccount E)))))"

definition Reconcile_config :: "cfg_env \<Rightarrow> result gop" where
  "Reconcile_config E =
     bnd (outcome (cfg_refetch E)) (\<lambda>r. case r of
       Inl e \<Rightarrow> if IsNotFound e then ret (Result 0) else throw e
     | Inr _ \<Rightarrow>
         bnd (pause_config E) (\<lambda>paused.
         if paused then ret (Result 0)
         else
           thn (pending_config E)
           (thn (config_steps E)
           (thn (cfg_update_status E (config_ready (ce_lib E))) (ret (Result 0))))))"

section \<open>Watches\<close>

definition enqueueConfigsForDatabase :: "Database \<Rightarrow> Config list option \<Rightarrow> (string \<times> string) list" where
  "enqueueConfigsForDatabase db configs =
     (case configs of
        None \<Rightarrow> []
      | Some cfgs \<Rightarrow>
          map config_request (filter (\<lambda>cfg. cf_DatabaseRef (cfg_Spec cfg) = m_Name (db_Meta db)) cfgs))"

definition enqueueConfigsForCertificateAuthority :: "CertificateAuthority \<Rightarrow> Config list option \<Rightarrow> (string \<times> string) list" where
  "enqueueConfigsForCertificateAuthority ca configs =
     (case configs of
        None \<Rightarrow> []
      | Some cfgs \<Rightarrow>
          map config_request (filter (\<lambda>cfg. m_Name (ca_Meta ca) \<in> set (index_config_authorityRef cfg)) cfgs))"

definition configsReferencingNodeClassifier :: "string \<Rightarrow> Config list \<Rightarrow> Config list" where
  "configsReferencingNodeClassifier ncName configs =
     filter (\<lambda>cfg. ncName \<in> set (index_config_nodeClassifierRef cfg)) configs"

definition enqueueConfigsForNodeClassifier :: "NodeClassifier \<Rightarrow> Config list option \<Rightarrow> (string \<times> string) list" where
  "enqueueConfigsForNodeClassifier nc configs =
     (case configs of
        None \<Rightarrow> []
      | Some cfgs \<Rightarrow> configRequests (configsReferencingNodeClassifier (m_Name (nco_Meta nc)) cfgs))"

definition enqueueConfigsForReportProcessor :: "ReportProcessor \<Rightarrow> (string \<times> string) list" where
  "enqueueConfigsForReportProcessor rp =
     (if rp_ConfigRef (rpo_Spec rp) \<noteq> [] then [(m_Namespace (rpo_Meta rp), rp_ConfigRef (rpo_Spec rp))] else [])"

section \<open>Runs under an invariant\<close>

text \<open>From a state with the invariant, the run makes only the permitted calls and keeps it; and it
  ends in an error.\<close>

definition confined :: "(gst \<Rightarrow> bool) \<Rightarrow> (cfg_call \<Rightarrow> bool) \<Rightarrow> (gst, 'e, 'a) op \<Rightarrow> bool" where
  "confined I P m = (\<forall>s. I s \<longrightarrow> I (snd (m s)) \<and> (\<exists>cs. hist (snd (m s)) = hist s @ cs \<and> list_all P cs))"

definition fails :: "(gst \<Rightarrow> bool) \<Rightarrow> (gst, 'e, 'a) op \<Rightarrow> bool" where
  "fails I m = (\<forall>s. I s \<longrightarrow> (\<exists>e s'. m s = (Inl e, s')))"

lemma confinedI: "only hist P m \<Longrightarrow> keeps I m \<Longrightarrow> confined I P m"
  by (auto simp: confined_def only_def keeps_def)

lemma confinedD:
  "confined I P m \<Longrightarrow> I s \<Longrightarrow> m s = (r, s') \<Longrightarrow> I s' \<and> (\<exists>cs. hist s' = hist s @ cs \<and> list_all P cs)"
  unfolding confined_def by (metis snd_conv)

lemma confined_bnd:
  assumes "confined I P m" "\<And>x. confined I P (f x)"
  shows "confined I P (bnd m f)"
  unfolding confined_def
proof (intro allI impI)
  fix s assume "I s"
  obtain r s1 where m: "m s = (r, s1)" by (cases "m s")
  obtain cs where cs: "I s1" "hist s1 = hist s @ cs" "list_all P cs"
    using confinedD [OF assms(1) \<open>I s\<close> m] by blast
  show "I (snd (bnd m f s)) \<and> (\<exists>cs. hist (snd (bnd m f s)) = hist s @ cs \<and> list_all P cs)"
  proof (cases r)
    case (Inl e)
    then show ?thesis using m cs by (simp add: bnd_def)
  next
    case (Inr x)
    obtain ds where "I (snd (f x s1))" "hist (snd (f x s1)) = hist s1 @ ds" "list_all P ds"
      using assms(2) [of x] cs(1) unfolding confined_def by blast
    then have "I (snd (bnd m f s)) \<and> hist (snd (bnd m f s)) = hist s @ (cs @ ds) \<and> list_all P (cs @ ds)"
      using m Inr cs by (simp add: bnd_def)
    then show ?thesis by blast
  qed
qed

lemma confined_bnd_fails:
  assumes "confined I P m" "fails I m"
  shows "confined I P (bnd m f)"
  using assms by (force simp: confined_def fails_def bnd_def)

lemma fails_bnd1: "fails I m \<Longrightarrow> fails I (bnd m f)"
  by (force simp: fails_def bnd_def)

lemma fails_bnd2:
  assumes "confined I P m" "\<And>x. fails I (f x)"
  shows "fails I (bnd m f)"
  unfolding fails_def
proof (intro allI impI)
  fix s assume "I s"
  obtain r s1 where m: "m s = (r, s1)" by (cases "m s")
  then have "I s1" using confinedD [OF assms(1) \<open>I s\<close>] by blast
  then show "\<exists>e s'. bnd m f s = (Inl e, s')"
    using assms(2) m by (cases r) (auto simp: bnd_def fails_def)
qed

lemma fails_wrapping: "fails I m \<Longrightarrow> fails I (wrapping msg m)"
  by (force simp: fails_def wrapping_def)

lemma confined_wrapping: "confined I P m \<Longrightarrow> confined I P (wrapping msg m)"
  by (auto simp: confined_def wrapping_def split: prod.splits sum.splits)

lemma confined_reads: "confined I P (reads f)"
  by (simp add: confined_def reads_def)

lemma confined_ret: "confined I P (ret x)"
  by (simp add: confined_def ret_def)

lemma confined_if: "(c \<Longrightarrow> confined I P m) \<Longrightarrow> (\<not> c \<Longrightarrow> confined I P n) \<Longrightarrow> confined I P (if c then m else n)"
  by simp

text \<open>The calls that write what servers mount.\<close>

fun config_write :: "cfg_call \<Rightarrow> bool" where
  "config_write (CfgCreateConfigMap _) = True"
| "config_write (CfgUpdateConfigMap _) = True"
| "config_write (CfgCreateSecret _) = True"
| "config_write (CfgUpdateSecret _) = True"
| "config_write (CfgCreateServiceAccount _) = True"
| "config_write _ = False"

definition refers_to :: "string \<Rightarrow> gst \<Rightarrow> bool" where
  "refers_to ref s = (cf_AuthorityRef (cfg_Spec (obj s)) = ref \<and> \<not> isPaused (cfg_Meta (obj s)))"

definition served :: "cfg_env \<Rightarrow> string \<Rightarrow> bool" where
  "served E ref = (\<forall>h n. \<exists>cfg. ce_get E h n = Inr cfg \<and> cf_AuthorityRef (cfg_Spec cfg) = ref \<and>
     \<not> isPaused (cfg_Meta cfg))"

abbreviation quiet :: "cfg_call \<Rightarrow> bool" where "quiet c \<equiv> \<not> config_write c"

lemma refers_call: "quiet c \<Longrightarrow> confined (refers_to ref) quiet (call c a)"
  by (simp add: confined_def call_def refers_to_def)

lemma refetch_served:
  assumes "served E ref"
  obtains s' n where "cfg_refetch E s = (Inr (), s')" "refers_to ref s'" "hist s' = hist s @ [CfgGet n]"
proof -
  obtain cfg where "ce_get E (hist s) (cfg_name (obj s)) = Inr cfg"
      "cf_AuthorityRef (cfg_Spec cfg) = ref" "\<not> isPaused (cfg_Meta cfg)"
    using assms unfolding served_def by blast
  then show ?thesis
    by (intro that [of "snd (cfg_refetch E s)" "cfg_name (obj s)"])
      (simp_all add: cfg_refetch_def call_def Let_def refers_to_def isPaused_def)
qed

lemma confined_refetch: "served E ref \<Longrightarrow> confined (refers_to ref) quiet (cfg_refetch E)"
proof -
  assume "served E ref"
  show ?thesis unfolding confined_def
  proof (intro allI impI)
    fix s
    obtain s' n where "cfg_refetch E s = (Inr (), s')" "refers_to ref s'" "hist s' = hist s @ [CfgGet n]"
      using refetch_served [OF \<open>served E ref\<close>] .
    then show "refers_to ref (snd (cfg_refetch E s)) \<and>
        (\<exists>cs. hist (snd (cfg_refetch E s)) = hist s @ cs \<and> list_all quiet cs)" by simp
  qed
qed

lemma confined_update_status:
  assumes "served E ref" and "\<And>c. cfg_Spec (f c) = cfg_Spec c \<and> cfg_Meta (f c) = cfg_Meta c"
  shows "confined (refers_to ref) quiet (cfg_update_status E f)"
proof (rule confinedI)
  have send: "only hist quiet (cfg_send_status E)" and fetch: "only hist quiet (cfg_refetch E)"
    by (auto simp: only_def cfg_send_status_def cfg_refetch_def call_def Let_def split: prod.split sum.split)
  then show "only hist quiet (cfg_update_status E f)"
    unfolding cfg_update_status_def by (intro only_status_with_retry)
  have "keeps (refers_to ref) (cfg_refetch E)"
    using confined_refetch [OF assms(1)] by (simp add: keeps_def confined_def)
  moreover have "keeps (refers_to ref) (cfg_send_status E)"
    by (simp add: keeps_def cfg_send_status_def call_def refers_to_def)
  moreover have "keeps (refers_to ref) (mutate_obj f)"
    using assms(2) by (simp add: keeps_def mutate_obj_def modify_def refers_to_def)
  ultimately show "keeps (refers_to ref) (cfg_update_status E f)"
    unfolding cfg_update_status_def status_with_retry_def by (intro keeps_rules)
qed

lemma confined_findRP: "confined (refers_to ref) quiet (hasReportProcessors E)"
  unfolding hasReportProcessors_def findReportProcessors_def
  by (intro confined_bnd confined_reads refers_call) (simp_all add: confined_def ret_def)

lemma findCA_fails:
  assumes "ref \<noteq> []" "\<And>h. ce_getCA E h ref = Inl e" "\<not> IsNotFound e"
  shows "fails (refers_to ref) (findCertificateAuthority E)"
  using assms unfolding fails_def findCertificateAuthority_def
  by (simp add: bnd_def reads_def outcome_def call_def throw_def refers_to_def Let_def)

lemma findCA_confined: "confined (refers_to ref) quiet (findCertificateAuthority E)"
proof (rule confinedI)
  show "only hist quiet (findCertificateAuthority E)" by (intro cfg_only) simp
  show "keeps (refers_to ref) (findCertificateAuthority E)"
    unfolding findCertificateAuthority_def
    by (intro keeps_rules) (simp add: keeps_def call_def refers_to_def)
qed

lemma config_steps_fail:
  assumes "ref \<noteq> []" "\<And>h. ce_getCA E h ref = Inl e" "\<not> IsNotFound e"
  shows "fails (refers_to ref) (config_steps E)" "confined (refers_to ref) quiet (config_steps E)"
proof -
  note ca = findCA_fails [OF assms] findCA_confined
  have rp: "confined (refers_to ref) quiet (wrapping ''checking report processors'' (hasReportProcessors E))"
    by (intro confined_wrapping confined_findRP)
  have "fails (refers_to ref) (renderPuppetConf E)"
    unfolding renderPuppetConf_def
    by (rule fails_bnd2 [OF confined_reads], rule fails_bnd2 [OF rp], rule fails_bnd1 [OF ca(1)])
  moreover have "confined (refers_to ref) quiet (renderPuppetConf E)"
    unfolding renderPuppetConf_def
    by (rule confined_bnd [OF confined_reads], rule confined_bnd [OF rp], rule confined_bnd_fails [OF ca(2,1)])
  ultimately have conf: "fails (refers_to ref) (wrapping ''rendering puppet.conf'' (renderPuppetConf E))"
      "confined (refers_to ref) quiet (wrapping ''rendering puppet.conf'' (renderPuppetConf E))"
    by (simp_all add: fails_wrapping confined_wrapping)
  have "fails (refers_to ref) (reconcileConfigMap E)"
    unfolding reconcileConfigMap_def by (rule fails_bnd2 [OF confined_reads], rule fails_bnd1 [OF conf(1)])
  moreover have "confined (refers_to ref) quiet (reconcileConfigMap E)"
    unfolding reconcileConfigMap_def
    by (rule confined_bnd [OF confined_reads], rule confined_bnd_fails [OF conf(2,1)])
  ultimately have maps: "fails (refers_to ref) (wrapping ''reconciling ConfigMaps'' (reconcileConfigMap E))"
    "confined (refers_to ref) quiet (wrapping ''reconciling ConfigMaps'' (reconcileConfigMap E))"
    by (simp_all add: fails_wrapping confined_wrapping)
  show "fails (refers_to ref) (config_steps E)" "confined (refers_to ref) quiet (config_steps E)"
    unfolding config_steps_def thn_def by (rule fails_bnd1 [OF maps(1)], rule confined_bnd_fails [OF maps(2,1)])
qed

lemma pause_served:
  assumes "served E ref"
  shows "confined (refers_to ref) quiet (pause_config E)"
    and "refers_to ref s \<Longrightarrow> pause_config E s = (Inr b, s') \<Longrightarrow> \<not> b"
proof -
  have state: "confined (refers_to ref) quiet (reconcilePauseState L m cs upd)"
    if "\<And>f. confined (refers_to ref) quiet (upd f)" for L m cs upd
  proof -
    have wrap: "confined (refers_to ref) quiet (\<lambda>s. case upd f s of (Inl e, s') \<Rightarrow> (Inl (g e), s') | (Inr _, s') \<Rightarrow> (Inr b, s'))"
      for f g b using that [of f] by (auto simp: confined_def split: prod.splits sum.splits)
    show ?thesis unfolding reconcilePauseState_def by (intro confined_if confined_ret wrap)
  qed
  show "confined (refers_to ref) quiet (pause_config E)"
    unfolding pause_config_def
    by (intro confined_bnd confined_reads state confined_update_status [OF assms]) simp
  show "refers_to ref s \<Longrightarrow> pause_config E s = (Inr b, s') \<Longrightarrow> \<not> b"
    by (auto simp: pause_config_def reconcilePauseState_def bnd_def reads_def ret_def refers_to_def
        split: if_splits prod.splits sum.splits)
qed

text \<open>C17: A Config whose CertificateAuthority cannot be read for any reason but its absence is never
  rendered without it: the run ends in an error and writes no ConfigMap, Secret or
  ServiceAccount, so the configuration the servers have stays as it is.\<close>

theorem lookup_failure_writes_nothing:
  assumes "\<And>h n. \<exists>cfg. ce_get E h n = Inr cfg \<and> cf_AuthorityRef (cfg_Spec cfg) = ref \<and>
      \<not> isPaused (cfg_Meta cfg)"
    and "ref \<noteq> []" "\<And>h. ce_getCA E h ref = Inl e" "\<not> IsNotFound e"
  shows "\<exists>err s' cs. Reconcile_config E s = (Inl err, s') \<and> hist s' = hist s @ cs \<and>
    list_all (\<lambda>c. \<not> config_write c) cs"
proof -
  have served: "served E ref" using assms(1) by (simp add: served_def)
  obtain s1 n where s1: "cfg_refetch E s = (Inr (), s1)" "refers_to ref s1" "hist s1 = hist s @ [CfgGet n]"
    using refetch_served [OF served] by metis
  have pending: "confined (refers_to ref) quiet (pending_config E)"
    unfolding pending_config_def
    by (intro confined_bnd confined_reads confined_if confined_ret confined_update_status [OF served]) simp
  define rest where "rest = (\<lambda>paused. if paused then ret (Result 0)
      else thn (pending_config E) (thn (config_steps E)
        (thn (cfg_update_status E (config_ready (ce_lib E))) (ret (Result 0)))) :: result gop)"
  note steps = config_steps_fail [OF assms(2-4)]
  have rest: "fails (refers_to ref) (rest False)" "confined (refers_to ref) quiet (rest False)"
    unfolding rest_def thn_def
    by (simp_all add: fails_bnd2 [OF pending] fails_bnd1 confined_bnd [OF pending] confined_bnd_fails steps)
  have run: "Reconcile_config E s = bnd (pause_config E) rest s1"
    using s1(1) by (simp add: Reconcile_config_def rest_def bnd_def outcome_def)
  obtain r s2 where p: "pause_config E s1 = (r, s2)" by (cases "pause_config E s1")
  obtain cs where cs: "refers_to ref s2" "hist s2 = hist s1 @ cs" "list_all quiet cs"
    using confinedD [OF pause_served(1) [OF served] s1(2) p] by blast
  show ?thesis
  proof (cases r)
    case (Inl err)
    then show ?thesis using run p s1 cs by (intro exI [of _ err] exI [of _ s2] exI [of _ "CfgGet n # cs"])
      (simp add: bnd_def)
  next
    case (Inr paused)
    then have "\<not> paused" using pause_served(2) [OF served s1(2)] p by simp
    moreover obtain err s3 where f: "rest False s2 = (Inl err, s3)" using rest(1) cs(1) by (auto simp: fails_def)
    moreover obtain ds where "hist s3 = hist s2 @ ds" "list_all quiet ds"
      using confinedD [OF rest(2) cs(1) f] by blast
    ultimately show ?thesis using run p s1 cs Inr
      by (intro exI [of _ err] exI [of _ s3] exI [of _ "CfgGet n # cs @ ds"]) (simp add: bnd_def)
  qed
qed

text \<open>An API server on which the CertificateAuthority cannot be read for now.\<close>

definition outage_env :: cfg_env where
  "outage_env = demo_cfg_env \<lparr>
     ce_get := (\<lambda>_ n. Inr ((blank_config n ''ns'') \<lparr> cfg_Spec := cfg_Spec (blank_config n ''ns'')
                             \<lparr> cf_AuthorityRef := ''ca'' \<rparr> \<rparr>)),
     ce_getCA := (\<lambda>_ _. Inl (Err Plain ''timeout'')) \<rparr>"

theorem lookup_failure_writes_nothing_witness:
  "\<exists>err s' cs. Reconcile_config outage_env \<lparr> hist = [], obj = blank_config ''c'' ''ns'' \<rparr> = (Inl err, s') \<and>
     hist s' = [] @ cs \<and> list_all (\<lambda>c. \<not> config_write c) cs"
proof -
  have "\<exists>cfg. ce_get outage_env h n = Inr cfg \<and> cf_AuthorityRef (cfg_Spec cfg) = ''ca'' \<and> \<not> isPaused (cfg_Meta cfg)"
    for h n
    by (simp add: outage_env_def blank_config_def isPaused_def new_meta_def sval_def)
  moreover have "ce_getCA outage_env h ''ca'' = Inl (Err Plain ''timeout'')" for h
    by (simp add: outage_env_def)
  ultimately show ?thesis
    using lookup_failure_writes_nothing [where E = outage_env and ref = "''ca''" and e = "Err Plain ''timeout''"
        and s = "\<lparr> hist = [], obj = blank_config ''c'' ''ns'' \<rparr>"]
    by (simp add: IsNotFound_def)
qed

section \<open>The order of the loggers\<close>

lemma logger_lines_unambiguous:
  "unambiguous [''\<newline>'', ''    <root''] (\<lambda>loggers. concat (map logger_line loggers))"
proof -
  have line: "logger_line = (\<lambda>l. ''    <logger name='' @ (Quote (fst l) @ '' level='' @ Quote (snd l) @ '' />\<newline>''))"
    by (rule ext) (simp add: logger_line_def)
  show ?thesis unfolding line
  proof (rule items_unambiguous)
    show "unambiguous (''    <logger name='' # [''\<newline>'', ''    <root''])
        (\<lambda>l :: string \<times> string. Quote (fst l) @ '' level='' @ Quote (snd l) @ '' />\<newline>'')"
      unfolding unambiguous_def by (auto simp: Quote_append_inject prod_eq_iff)
  qed (simp_all add: comparable_def)
qed

lemma logback_inject: "renderLogbackXML cfg xs = renderLogbackXML cfg ys \<longleftrightarrow> xs = ys"
proof
  assume eq: "renderLogbackXML cfg xs = renderLogbackXML cfg ys"
  have follow: "starts [''\<newline>'', ''    <root''] ((if zs \<noteq> [] then ''\<newline>'' else []) @ logback_root cfg)"
    for zs :: "(string \<times> string) list" by (simp add: starts_def logback_root_def)
  have "concat (map logger_line xs) @ ((if xs \<noteq> [] then ''\<newline>'' else []) @ logback_root cfg) =
      concat (map logger_line ys) @ ((if ys \<noteq> [] then ''\<newline>'' else []) @ logback_root cfg)"
    using eq by (simp add: renderLogbackXML_def)
  from unambiguousD [OF logger_lines_unambiguous this follow follow] show "xs = ys" by simp
qed simp

lemma config_files_inject: "config_files cfg a b ca xs = config_files cfg a b ca ys \<longleftrightarrow> xs = ys"
proof
  assume "config_files cfg a b ca xs = config_files cfg a b ca ys"
  moreover have "map_of (config_files cfg a b ca zs) ''logback.xml'' = Some (renderLogbackXML cfg zs)" for zs
    by (simp add: config_files_def)
  ultimately show "xs = ys" using logback_inject by (metis option.inject)
qed simp

text \<open>A ConfigMap that is up to date for one iteration order of the loggers is rewritten by a
  reconcile of the same Config exactly when Go iterates over the loggers in another order: every
  other file is a function of what was read, logback.xml is not.\<close>

theorem logger_order_rewrites_config:
  assumes "ce_getConfigMap E (hist s) (config_map_name cfg) = Inr cm"
    and "configmap_mutation (ce_lib E) cfg (config_files cfg pc pd ca xs) cm = Inr cm"
  shows "(\<exists>cm'. CfgUpdateConfigMap cm' \<in>
      set (drop (length (hist s)) (hist (snd (write_config_map E cfg (config_files cfg pc pd ca ys) s))))) \<longleftrightarrow>
    xs \<noteq> ys"
proof -
  have data: "cm_Data cm = config_files cfg pc pd ca xs"
    using assms(2) by (auto simp: configmap_mutation_def split: option.splits sum.splits)
  have new: "configmap_mutation (ce_lib E) cfg d cm = Inr (cm \<lparr> cm_Data := d \<rparr>)" for d
    using assms(2) by (cases cm) (auto simp: configmap_mutation_def split: option.splits sum.splits)
  have "cm \<lparr> cm_Data := config_files cfg pc pd ca ys \<rparr> = cm \<longleftrightarrow> xs = ys"
    using data config_files_inject [of cfg pc pd ca xs ys] by (cases cm) auto
  then show ?thesis
    using assms(1)
    by (auto simp: write_config_map_def create_or_update_def new bnd_def outcome_def call_def ret_def thn_def
        wrapping_def Let_def split: sum.splits)
qed

definition demo_config_map :: "(string \<times> string) list \<Rightarrow> ConfigMap" where
  "demo_config_map loggers = \<lparr> cm_Meta = new_meta ''c-config'' ''ns''
     \<lparr> m_ResourceVersion := ''1'', m_Labels := configLabels ''c'',
       m_OwnerReferences := [\<lparr> or_Kind = ''Config'', or_Name = ''c'', or_UID = [], or_Controller = True \<rparr>] \<rparr>,
     cm_Data = config_files (blank_config ''c'' ''ns'') [] [] None loggers \<rparr>"

definition logger_env :: cfg_env where
  "logger_env = demo_cfg_env \<lparr> ce_getConfigMap :=
     (\<lambda>_ _. Inr (demo_config_map [(''a'', ''INFO''), (''b'', ''DEBUG'')])) \<rparr>"

theorem logger_order_rewrites_config_witness:
  "\<exists>cm'. CfgUpdateConfigMap cm' \<in> set (hist (snd (write_config_map logger_env (blank_config ''c'' ''ns'')
     (config_files (blank_config ''c'' ''ns'') [] [] None [(''b'', ''DEBUG''), (''a'', ''INFO'')])
     \<lparr> hist = [], obj = blank_config ''c'' ''ns'' \<rparr>)))"
proof -
  let ?cfg = "blank_config ''c'' ''ns''" and ?ab = "[(''a'', ''INFO''), (''b'', ''DEBUG'')]"
  have "configmap_mutation (ce_lib logger_env) ?cfg (config_files ?cfg [] [] None ?ab) (demo_config_map ?ab) =
      Inr (demo_config_map ?ab)"
    by (simp add: configmap_mutation_def logger_env_def demo_cfg_env_def reference_lib_def demo_config_map_def
        assertControlledBy_def set_controller_reference_def blank_config_def new_meta_def)
  then show ?thesis
    using logger_order_rewrites_config [of logger_env "\<lparr> hist = [], obj = ?cfg \<rparr>" ?cfg "demo_config_map ?ab"
        "[]" "[]" None ?ab "[(''b'', ''DEBUG''), (''a'', ''INFO'')]"]
    by (simp add: logger_env_def)
qed

end
