(* ===== verification/RenderStatus.thy ===== *)
theory RenderStatus
  imports ConfigCtl
begin

text \<open>
  The controllers of the resources that only report whether they reached a rendered Secret
  (signingpolicy_controller.go, nodeclassifier_controller.go, reportprocessor_controller.go).
  Their Reconcile functions are the same but for the type of the resource and its \<open>observe\<close>;
  they are modelled once, over a record of the accessors, with the three observations apart.
\<close>

section \<open>Calls\<close>

datatype 'r st_call =
    StGet string | StStatusUpdate 'r
  | StGetCA string | StGetConfig string | StListConfigs string | StGetSecret string

record 'r resource_ops =
  ro_kind :: string
  ro_meta :: "'r \<Rightarrow> ObjectMeta"
  ro_set_meta :: "ObjectMeta \<Rightarrow> 'r \<Rightarrow> 'r"
  ro_status :: "'r \<Rightarrow> RenderStatus"
  ro_set_status :: "RenderStatus \<Rightarrow> 'r \<Rightarrow> 'r"

definition policy_ops :: "SigningPolicy resource_ops" where
  "policy_ops = \<lparr> ro_kind = ''SigningPolicy'', ro_meta = spo_Meta,
     ro_set_meta = (\<lambda>m r. r \<lparr> spo_Meta := m \<rparr>), ro_status = spo_Status,
     ro_set_status = (\<lambda>t r. r \<lparr> spo_Status := t \<rparr>) \<rparr>"

definition classifier_ops :: "NodeClassifier resource_ops" where
  "classifier_ops = \<lparr> ro_kind = ''NodeClassifier'', ro_meta = nco_Meta,
     ro_set_meta = (\<lambda>m r. r \<lparr> nco_Meta := m \<rparr>), ro_status = nco_Status,
     ro_set_status = (\<lambda>t r. r \<lparr> nco_Status := t \<rparr>) \<rparr>"

definition processor_ops :: "ReportProcessor resource_ops" where
  "processor_ops = \<lparr> ro_kind = ''ReportProcessor'', ro_meta = rpo_Meta,
     ro_set_meta = (\<lambda>m r. r \<lparr> rpo_Meta := m \<rparr>), ro_status = rpo_Status,
     ro_set_status = (\<lambda>t r. r \<lparr> rpo_Status := t \<rparr>) \<rparr>"

record 'r st_env =
  st_lib :: kube_lib
  st_retries :: nat
  st_get :: "'r st_call list \<Rightarrow> string \<Rightarrow> err + 'r"
  st_updateStatus :: "'r st_call list \<Rightarrow> 'r \<Rightarrow> err + unit"
  st_getCA :: "'r st_call list \<Rightarrow> string \<Rightarrow> err + CertificateAuthority"
  st_getConfig :: "'r st_call list \<Rightarrow> string \<Rightarrow> err + Config"
  st_listConfigs :: "'r st_call list \<Rightarrow> err + Config list"
  st_getSecret :: "'r st_call list \<Rightarrow> string \<Rightarrow> err + Secret"

type_synonym ('r, 'a) sop = "(('r st_call, 'r) world, err, 'a) op"

definition st_refetch :: "'r resource_ops \<Rightarrow> 'r st_env \<Rightarrow> ('r, unit) sop" where
  "st_refetch R E = (\<lambda>s. let name = m_Name (ro_meta R (obj s)); ns = m_Namespace (ro_meta R (obj s)) in
     case call (StGet name) (\<lambda>h. st_get E h name) s of
       (Inl e, s') \<Rightarrow> (Inl e, s')
     | (Inr r, s') \<Rightarrow>
         (Inr (), s' \<lparr> obj := ro_set_meta R (ro_meta R r \<lparr> m_Name := name, m_Namespace := ns \<rparr>) r \<rparr>))"

definition st_update_status :: "'r resource_ops \<Rightarrow> 'r st_env \<Rightarrow> (RenderStatus \<Rightarrow> RenderStatus) \<Rightarrow> ('r, unit) sop" where
  "st_update_status R E f =
     status_with_retry (st_retries E) (st_refetch R E) (\<lambda>r. ro_set_status R (f (ro_status R r)) r)
       (\<lambda>s. call (StStatusUpdate (obj s)) (\<lambda>h. st_updateStatus E h (obj s)) s)"

section \<open>Verdicts\<close>

text \<open>A phase with its reason and message; an observation that could not be made is an error.\<close>

record verdict =
  vd_Phase :: RenderPhase
  vd_Reason :: string
  vd_Message :: string

definition verdict :: "RenderPhase \<Rightarrow> string \<Rightarrow> string \<Rightarrow> verdict" where
  "verdict p r m = \<lparr> vd_Phase = p, vd_Reason = r, vd_Message = m \<rparr>"

definition lookup_failed :: "string \<Rightarrow> err \<Rightarrow> err" where
  "lookup_failed what e = Errorf (what @ '': '' @ err_text e)"

text \<open>What one rendered Secret says of a resource, as the SigningPolicy and the ReportProcessor
  controllers read it.\<close>

definition secret_verdict :: "string \<Rightarrow> string \<Rightarrow> string \<Rightarrow> string \<Rightarrow> string \<Rightarrow> string smap \<Rightarrow> ObjectMeta \<Rightarrow> verdict" where
  "secret_verdict kind what whom present secretName annotations m =
     (if \<not> renderedSourceRecorded annotations then
        verdict RenderError ''RenderedConfigSourceUnknown''
          (''Secret '' @ secretName @ '' does not record which resources it was rendered from, so the Config '' @
           ''controller has not re-rendered it yet; its contents are unchanged in the meantime'')
      else (case renderedGeneration annotations (m_Name m) of
        None \<Rightarrow> verdict RenderError ''NotRendered''
          (''Secret '' @ secretName @ '' does not contain '' @ what @ '' for this '' @ kind)
      | Some generation \<Rightarrow>
          if generation \<noteq> m_Generation m then
            verdict RenderError ''RenderedConfigStale''
              (''Secret '' @ secretName @ '' was rendered from an earlier generation of '' @ kind @ '' '' @
               m_Name m @ ''; the current spec has not reached '' @ whom)
          else verdict RenderActive ''Rendered'' (present @ '' is present in Secret '' @ secretName)))"

definition policy_verdict :: "string \<Rightarrow> string smap \<Rightarrow> ObjectMeta \<Rightarrow> verdict" where
  "policy_verdict = secret_verdict ''SigningPolicy'' ''a policy'' ''the CA'' ''Policy''"

definition processor_verdict :: "string \<Rightarrow> string smap \<Rightarrow> ObjectMeta \<Rightarrow> verdict" where
  "processor_verdict = secret_verdict ''ReportProcessor'' ''an endpoint'' ''a server'' ''Endpoint''"

section \<open>SigningPolicy\<close>

definition observe_policy :: "SigningPolicy st_env \<Rightarrow> (SigningPolicy, verdict) sop" where
  "observe_policy E =
     bnd (reads obj) (\<lambda>sp. let caName = sp_CertificateAuthorityRef (spo_Spec sp); ns = m_Namespace (spo_Meta sp);
                              secretName = autosign_secret_name caName in
     if caName = [] then
       ret (verdict RenderError ''CertificateAuthorityRefMissing'' ''spec.certificateAuthorityRef is empty'')
     else
       bnd (outcome (call (StGetCA caName) (\<lambda>h. st_getCA E h caName))) (\<lambda>r. case r of
         Inl e \<Rightarrow>
           if IsNotFound e then
             ret (verdict RenderError ''CertificateAuthorityNotFound''
                   (''CertificateAuthority '' @ caName @ '' does not exist''))
           else throw (lookup_failed (''getting CertificateAuthority '' @ caName) e)
       | Inr _ \<Rightarrow>
       bnd (outcome (call (StListConfigs ns) (st_listConfigs E))) (\<lambda>l. case l of
         Inl e \<Rightarrow> throw (lookup_failed (''listing Configs for CertificateAuthority '' @ caName) e)
       | Inr all \<Rightarrow>
         let configs = configsReferencingAuthority caName all in
         if configs = [] then
           ret (verdict RenderError ''NoConfig''
                 (''no Config references CertificateAuthority '' @ caName @ '', so no policy is rendered''))
         else if allOverride configs overrideAutosign then
           ret (verdict RenderDisabled ''OverriddenByAutosignCommand''
                 (''spec.puppet.autosignCommand is set on every Config referencing CertificateAuthority '' @
                  caName @ '', which bypasses SigningPolicy resources''))
         else
           bnd (outcome (call (StGetSecret secretName) (\<lambda>h. st_getSecret E h secretName))) (\<lambda>g. case g of
             Inl e \<Rightarrow>
               if IsNotFound e then
                 ret (verdict RenderError ''NotRendered'' (''Secret '' @ secretName @ '' has not been rendered yet''))
               else throw (lookup_failed (''getting Secret '' @ secretName) e)
           | Inr secret \<Rightarrow>
               ret (policy_verdict secretName (m_Annotations (s_Meta secret)) (spo_Meta sp))))))"

section \<open>ReportProcessor\<close>

definition observe_processor :: "ReportProcessor st_env \<Rightarrow> (ReportProcessor, verdict) sop" where
  "observe_processor E =
     bnd (reads obj) (\<lambda>rp. let ref = rp_ConfigRef (rpo_Spec rp) in
     if ref = [] then ret (verdict RenderError ''ConfigRefMissing'' ''spec.configRef is empty'')
     else
       bnd (outcome (call (StGetConfig ref) (\<lambda>h. st_getConfig E h ref))) (\<lambda>r. case r of
         Inl e \<Rightarrow>
           if IsNotFound e then
             ret (verdict RenderError ''ConfigNotFound'' (''Config '' @ ref @ '' does not exist''))
           else throw (lookup_failed (''getting Config '' @ ref) e)
       | Inr cfg \<Rightarrow>
           let secretName = cfg_name cfg @ ''-report-webhook'' in
           bnd (outcome (call (StGetSecret secretName) (\<lambda>h. st_getSecret E h secretName))) (\<lambda>g. case g of
             Inl e \<Rightarrow>
               if IsNotFound e then
                 ret (verdict RenderError ''NotRendered'' (''Secret '' @ secretName @ '' has not been rendered yet''))
               else throw (lookup_failed (''getting Secret '' @ secretName) e)
           | Inr secret \<Rightarrow>
               ret (processor_verdict secretName (m_Annotations (s_Meta secret)) (rpo_Meta rp)))))"

section \<open>NodeClassifier\<close>

datatype secret_state = Rendered | Stale | Unrecorded | Foreign

definition classifier_state :: "string smap \<Rightarrow> ObjectMeta \<Rightarrow> secret_state" where
  "classifier_state annotations m =
     (if \<not> renderedSourceRecorded annotations then Unrecorded
      else (case renderedGeneration annotations (m_Name m) of
              None \<Rightarrow> Foreign
            | Some g \<Rightarrow> if g \<noteq> m_Generation m then Stale else Rendered))"

text \<open>The loop over the Configs: the names of the Secrets found, with their states.\<close>

fun classify_secrets :: "NodeClassifier st_env \<Rightarrow> NodeClassifier \<Rightarrow> Config list \<Rightarrow>
    (NodeClassifier, (string \<times> secret_state) list) sop" where
  "classify_secrets E nc [] = ret []"
| "classify_secrets E nc (cfg # cfgs) =
     (if overrideExternalNodes cfg \<noteq> [] then classify_secrets E nc cfgs
      else
        (let secretName = cfg_name cfg @ ''-enc'' in
         bnd (outcome (call (StGetSecret secretName) (\<lambda>h. st_getSecret E h secretName))) (\<lambda>g. case g of
           Inl e \<Rightarrow>
             if IsNotFound e then classify_secrets E nc cfgs
             else throw (lookup_failed (''getting Secret '' @ secretName) e)
         | Inr secret \<Rightarrow>
             bnd (classify_secrets E nc cfgs) (\<lambda>rest.
             ret ((secretName, classifier_state (m_Annotations (s_Meta secret)) (nco_Meta nc)) # rest)))))"

definition in_state :: "secret_state \<Rightarrow> (string \<times> secret_state) list \<Rightarrow> string list" where
  "in_state st secrets = sort (map fst (filter (\<lambda>p. snd p = st) secrets))"

definition classifier_verdict :: "string \<Rightarrow> (string \<times> secret_state) list \<Rightarrow> verdict" where
  "classifier_verdict name secrets =
     (if in_state Stale secrets \<noteq> [] then
        verdict RenderError ''RenderedConfigStale''
          (''Secret '' @ Join (in_state Stale secrets) '', '' @ '' was rendered from an earlier generation of NodeClassifier '' @
           name @ ''; the current spec has not reached a server'')
      else if in_state Foreign secrets \<noteq> [] then
        verdict RenderError ''NotRendered''
          (''Secret '' @ Join (in_state Foreign secrets) '', '' @ '' was rendered from a different NodeClassifier, so NodeClassifier '' @
           name @ '' is not in effect for every Config referencing it'')
      else if in_state Unrecorded secrets \<noteq> [] then
        verdict RenderError ''RenderedConfigSourceUnknown''
          (''Secret '' @ Join (in_state Unrecorded secrets) '', '' @ '' does not record which resources it was rendered from, so the Config '' @
           ''controller has not re-rendered it yet; its contents are unchanged in the meantime'')
      else if in_state Rendered secrets \<noteq> [] then
        verdict RenderActive ''Rendered'' (''Endpoint is present in Secret '' @ Join (in_state Rendered secrets) '', '')
      else verdict RenderError ''NotRendered'' (''no Secret rendered from NodeClassifier '' @ name @ '' exists yet''))"

definition observe_classifier :: "NodeClassifier st_env \<Rightarrow> (NodeClassifier, verdict) sop" where
  "observe_classifier E =
     bnd (reads obj) (\<lambda>nc. let name = m_Name (nco_Meta nc) in
     bnd (outcome (call (StListConfigs (m_Namespace (nco_Meta nc))) (st_listConfigs E))) (\<lambda>l. case l of
       Inl e \<Rightarrow> throw (lookup_failed (''listing Configs for NodeClassifier '' @ name) e)
     | Inr all \<Rightarrow>
         let configs = configsReferencingNodeClassifier name all in
         if configs = [] then
           ret (verdict RenderError ''NoConfig''
                 (''no Config sets nodeClassifierRef to '' @ name @ '', so no ENC configuration is rendered''))
         else if allOverride configs overrideExternalNodes then
           ret (verdict RenderDisabled ''OverriddenByExternalNodesCommand''
                 (''spec.puppet.externalNodesCommand is set on every Config referencing NodeClassifier '' @
                  name @ '', which bypasses NodeClassifier resources''))
         else
           bnd (classify_secrets E nc configs) (\<lambda>secrets.
           ret (classifier_verdict name secrets))))"

section \<open>Reconcile\<close>

definition set_verdict :: "kube_lib \<Rightarrow> int \<Rightarrow> verdict \<Rightarrow> RenderStatus \<Rightarrow> RenderStatus" where
  "set_verdict L generation v st =
     st \<lparr> rst_ObservedGeneration := generation, rst_Phase := vd_Phase v,
          rst_Conditions := SetStatusCondition L (rst_Conditions st)
            \<lparr> cond_Type = ConditionRenderReady,
              cond_Status = (if vd_Phase v = RenderActive then ''True'' else ''False''),
              cond_Reason = vd_Reason v, cond_Message = vd_Message v,
              cond_ObservedGeneration = generation \<rparr> \<rparr>"

definition Reconcile_render :: "'r resource_ops \<Rightarrow> 'r st_env \<Rightarrow> ('r, verdict) sop \<Rightarrow> ('r, result) sop" where
  "Reconcile_render R E observe =
     bnd (outcome (st_refetch R E)) (\<lambda>r. case r of
       Inl e \<Rightarrow>
         if IsNotFound e then ret (Result 0)
         else bnd (reads obj) (\<lambda>x.
              throw (wrapf (''getting '' @ ro_kind R @ '' '' @ m_Namespace (ro_meta R x) @ ''/'' @ m_Name (ro_meta R x)) e))
     | Inr _ \<Rightarrow>
         bnd (bnd (reads obj) (\<lambda>x.
              reconcilePauseState (st_lib E) (ro_meta R x) (rst_Conditions (ro_status R x))
                (\<lambda>f. st_update_status R E (\<lambda>st. st \<lparr> rst_Conditions := f (rst_Conditions st) \<rparr>)))) (\<lambda>paused.
         if paused then ret (Result 0)
         else
           bnd (reads (\<lambda>s. ro_meta R (obj s))) (\<lambda>m.
           bnd observe (\<lambda>v.
           thn (wrapping (''updating '' @ ro_kind R @ '' status '' @ m_Name m)
                 (st_update_status R E (set_verdict (st_lib E) (m_Generation m) v)))
           (ret (Result 0))))))"

definition Reconcile_signing_policy :: "SigningPolicy st_env \<Rightarrow> (SigningPolicy, result) sop" where
  "Reconcile_signing_policy E = Reconcile_render policy_ops E (observe_policy E)"

definition Reconcile_node_classifier :: "NodeClassifier st_env \<Rightarrow> (NodeClassifier, result) sop" where
  "Reconcile_node_classifier E = Reconcile_render classifier_ops E (observe_classifier E)"

definition Reconcile_report_processor :: "ReportProcessor st_env \<Rightarrow> (ReportProcessor, result) sop" where
  "Reconcile_report_processor E = Reconcile_render processor_ops E (observe_processor E)"

section \<open>Watches\<close>

definition signingPoliciesForSecret :: "ObjectMeta \<Rightarrow> (string \<times> string) list" where
  "signingPoliciesForSecret m =
     (if \<not> HasSuffix (m_Name m) ''-autosign-policy'' then [] else renderedSourceRequests m)"

definition nodeClassifiersForSecret :: "ObjectMeta \<Rightarrow> (string \<times> string) list" where
  "nodeClassifiersForSecret m =
     (if \<not> HasSuffix (m_Name m) ''-enc'' then [] else renderedSourceRequests m)"

definition reportProcessorsForSecret :: "ObjectMeta \<Rightarrow> (string \<times> string) list" where
  "reportProcessorsForSecret m =
     (if \<not> HasSuffix (m_Name m) ''-report-webhook'' then [] else renderedSourceRequests m)"

definition signingPolicyRequests :: "string \<Rightarrow> SigningPolicy list option \<Rightarrow> (string \<times> string) list" where
  "signingPolicyRequests caName policies =
     (case policies of
        None \<Rightarrow> []
      | Some ps \<Rightarrow> map (\<lambda>p. (m_Namespace (spo_Meta p), m_Name (spo_Meta p)))
                    (filter (\<lambda>p. sp_CertificateAuthorityRef (spo_Spec p) = caName) ps))"

definition signingPoliciesForConfig :: "Config \<Rightarrow> SigningPolicy list option \<Rightarrow> (string \<times> string) list" where
  "signingPoliciesForConfig cfg policies =
     (if cf_AuthorityRef (cfg_Spec cfg) = [] then []
      else signingPolicyRequests (cf_AuthorityRef (cfg_Spec cfg)) policies)"

definition signingPoliciesForCA :: "ObjectMeta \<Rightarrow> SigningPolicy list option \<Rightarrow> (string \<times> string) list" where
  "signingPoliciesForCA m policies = signingPolicyRequests (m_Name m) policies"

definition nodeClassifiersForConfig :: "Config \<Rightarrow> (string \<times> string) list" where
  "nodeClassifiersForConfig cfg =
     (if cf_NodeClassifierRef (cfg_Spec cfg) = [] then []
      else [(cfg_ns cfg, cf_NodeClassifierRef (cfg_Spec cfg))])"

definition reportProcessorsForConfig :: "ObjectMeta \<Rightarrow> ReportProcessor list option \<Rightarrow> (string \<times> string) list" where
  "reportProcessorsForConfig m processors =
     (case processors of
        None \<Rightarrow> []
      | Some rps \<Rightarrow> map (\<lambda>rp. (m_Namespace (rpo_Meta rp), m_Name (rpo_Meta rp)))
                     (filter (\<lambda>rp. rp_ConfigRef (rpo_Spec rp) = m_Name m) rps))"

section \<open>What was rendered and what is reported\<close>

lemma generation_cong:
  "sget a AnnotationRenderedFrom = sget b AnnotationRenderedFrom \<Longrightarrow>
   renderedGeneration a = renderedGeneration b \<and> renderedSourceRecorded a = renderedSourceRecorded b"
  by (simp add: renderedGeneration_def renderedSourceRecorded_def fun_eq_iff)

lemma written_annotation:
  assumes "kube_laws L" and "config_secret_mutation L cfg data (renderedFromAnnotation sources) old = Inr secret"
  shows "sget (m_Annotations (s_Meta secret)) AnnotationRenderedFrom =
    sget (renderedFromAnnotation sources) AnnotationRenderedFrom"
proof -
  obtain meta where meta: "SetControllerReference L ''Config'' (cfg_Meta cfg)
      (s_Meta old \<lparr> m_Labels := configLabels (cfg_name cfg),
         m_Annotations := fold (\<lambda>(k, v). sput k v) (renderedFromAnnotation sources) (m_Annotations (s_Meta old)) \<rparr>) = Inr meta"
    and secret: "s_Meta secret = meta"
    using assms(2) by (auto simp: config_secret_mutation_def split: option.splits sum.splits)
  obtain refs where "meta = s_Meta old \<lparr> m_Labels := configLabels (cfg_name cfg),
         m_Annotations := fold (\<lambda>(k, v). sput k v) (renderedFromAnnotation sources) (m_Annotations (s_Meta old)) \<rparr>
       \<lparr> m_OwnerReferences := refs \<rparr>"
    using kube_laws.set_controller [OF assms(1) meta] by blast
  then show ?thesis using secret by (simp add: renderedFromAnnotation_def)
qed

lemma policy_verdict_active:
  assumes "kube_laws L"
    and "config_secret_mutation L cfg data (renderedFromAnnotation sources) old = Inr secret"
    and "well_recorded sources"
  shows "vd_Phase (policy_verdict name (m_Annotations (s_Meta secret)) m) = RenderActive \<longleftrightarrow>
    sourceOf m \<in> set sources"
proof -
  note ann = generation_cong [OF written_annotation [OF assms(1,2)]]
  have rec: "renderedSourceRecorded (m_Annotations (s_Meta secret))"
    using ann by (simp add: renderedSourceRecorded_def renderedFromAnnotation_def)
  have gen: "renderedGeneration (m_Annotations (s_Meta secret)) n =
      map_option rs_Generation (find (\<lambda>s. rs_Name s = n) sources)" for n
    using ann recorded_generation [OF assms(3)] by simp
  have "vd_Phase (policy_verdict name (m_Annotations (s_Meta secret)) m) = RenderActive \<longleftrightarrow>
      renderedGeneration (m_Annotations (s_Meta secret)) (m_Name m) = Some (m_Generation m)"
    using rec by (auto simp: policy_verdict_def secret_verdict_def verdict_def split: option.splits)
  also have "\<dots> \<longleftrightarrow> sourceOf m \<in> set sources"
  proof
    assume "renderedGeneration (m_Annotations (s_Meta secret)) (m_Name m) = Some (m_Generation m)"
    then obtain s where "find (\<lambda>s. rs_Name s = m_Name m) sources = Some s" "rs_Generation s = m_Generation m"
      using gen by auto
    then have "s \<in> set sources" "s = sourceOf m" by (auto simp: sourceOf_def dest: find_SomeD)
    then show "sourceOf m \<in> set sources" by simp
  next
    assume m: "sourceOf m \<in> set sources"
    obtain t where t: "find (\<lambda>s. rs_Name s = m_Name m) sources = Some t"
      using m by (cases "find (\<lambda>s. rs_Name s = m_Name m) sources") (auto simp: find_None_iff sourceOf_def)
    then have "t \<in> set sources" "rs_Name t = rs_Name (sourceOf m)"
      by (auto simp: sourceOf_def dest: find_SomeD)
    then have "t = sourceOf m"
      using m assms(3) by (auto simp: well_recorded_def distinct_map inj_on_def)
    then show "renderedGeneration (m_Annotations (s_Meta secret)) (m_Name m) = Some (m_Generation m)"
      using gen t by (simp add: sourceOf_def)
  qed
  finally show ?thesis .
qed

text \<open>C19: The status of a SigningPolicy tells the truth about the Secret the Config controller wrote
  last: with its CertificateAuthority present and referenced by a Config that keeps the built-in
  autosign program, the policy is reported Active exactly if it was among the policies that
  Secret was rendered from, in the generation it has now.\<close>

theorem policy_status_agrees_with_render:
  assumes "kube_laws L"
    and "config_secret_mutation L cfg data
           (renderedFromAnnotation (map (\<lambda>p. sourceOf (spo_Meta p)) (by_name policies))) old = Inr secret"
    and "distinct (map (\<lambda>p. m_Name (spo_Meta p)) policies)"
    and "\<And>p. p \<in> set policies \<Longrightarrow> source_name (m_Name (spo_Meta p)) \<and> in_int64 (m_Generation (spo_Meta p))"
    and "obj w = sp" "sp_CertificateAuthorityRef (spo_Spec sp) = ca" "ca \<noteq> []"
    and "\<And>h. \<exists>c. st_getCA E h ca = Inr c"
    and "\<And>h. \<exists>cfgs. st_listConfigs E h = Inr cfgs \<and> configsReferencingAuthority ca cfgs \<noteq> [] \<and>
           \<not> allOverride (configsReferencingAuthority ca cfgs) overrideAutosign"
    and "\<And>h. st_getSecret E h (autosign_secret_name ca) = Inr secret"
  shows "\<exists>v w'. observe_policy E w = (Inr v, w') \<and>
    (vd_Phase v = RenderActive \<longleftrightarrow>
     (\<exists>p. p \<in> set policies \<and> m_Name (spo_Meta p) = m_Name (spo_Meta sp) \<and>
        m_Generation (spo_Meta p) = m_Generation (spo_Meta sp)))"
proof -
  let ?sources = "map (\<lambda>p. sourceOf (spo_Meta p)) (by_name policies)"
  have "map rs_Name ?sources = map (\<lambda>p. m_Name (spo_Meta p)) (by_name policies)"
    by (simp add: sourceOf_def)
  then have "distinct (map rs_Name ?sources)"
    using assms(3) by (simp only: by_name_def distinct_map distinct_sort set_sort)
  then have well: "well_recorded ?sources"
    using assms(4) by (auto simp: well_recorded_def list_all_iff by_name_def sourceOf_def)
  have run: "\<exists>w'. observe_policy E w =
      (Inr (policy_verdict (autosign_secret_name ca) (m_Annotations (s_Meta secret)) (spo_Meta sp)), w')"
  proof -
    obtain c where c: "st_getCA E (hist w) ca = Inr c" using assms(8) by blast
    let ?h = "hist w @ [StGetCA ca]"
    obtain cfgs where cfgs: "st_listConfigs E ?h = Inr cfgs" "configsReferencingAuthority ca cfgs \<noteq> []"
      "\<not> allOverride (configsReferencingAuthority ca cfgs) overrideAutosign" using assms(9) by blast
    show ?thesis
      using assms(5-7,10) c cfgs
      by (simp add: observe_policy_def bnd_def reads_def outcome_def call_def ret_def Let_def)
  qed
  have "sourceOf (spo_Meta sp) \<in> set ?sources \<longleftrightarrow>
     (\<exists>p. p \<in> set policies \<and> m_Name (spo_Meta p) = m_Name (spo_Meta sp) \<and>
        m_Generation (spo_Meta p) = m_Generation (spo_Meta sp))"
    unfolding by_name_def sourceOf_def by (simp add: image_iff) metis
  then show ?thesis
    using run policy_verdict_active [OF assms(1,2) well] by metis
qed

definition demo_policy :: "int \<Rightarrow> SigningPolicy" where
  "demo_policy g = (blank_policy ''web'' ''ns'' ''ca'') \<lparr> spo_Meta := new_meta ''web'' ''ns'' \<lparr> m_Generation := g \<rparr> \<rparr>"

definition demo_secret :: Secret where
  "demo_secret = \<lparr> s_Meta = new_meta ''ca-autosign-policy'' ''ns''
     \<lparr> m_Labels := configLabels ''c'',
       m_Annotations := renderedFromAnnotation [sourceOf (spo_Meta (demo_policy 2))],
       m_OwnerReferences := [\<lparr> or_Kind = ''Config'', or_Name = ''c'', or_UID = [], or_Controller = True \<rparr>] \<rparr>,
     s_Data = [] \<rparr>"

definition demo_st_env :: "SigningPolicy st_env" where
  "demo_st_env = \<lparr> st_lib = reference_lib, st_retries = 0, st_get = (\<lambda>_ _. Inr (demo_policy 2)),
     st_updateStatus = (\<lambda>_ _. Inr ()), st_getCA = (\<lambda>_ n. Inr (blank_ca n ''ns'')),
     st_getConfig = (\<lambda>_ n. Inr (blank_config n ''ns'')),
     st_listConfigs = (\<lambda>_. Inr [(blank_config ''c'' ''ns'')
        \<lparr> cfg_Spec := cfg_Spec (blank_config ''c'' ''ns'') \<lparr> cf_AuthorityRef := ''ca'' \<rparr> \<rparr>]),
     st_getSecret = (\<lambda>_ _. Inr demo_secret) \<rparr>"

text \<open>The policy in the recorded generation is Active; the same policy after an edit is not.\<close>

theorem policy_status_agrees_with_render_witness:
  "(\<exists>v w'. observe_policy demo_st_env \<lparr> hist = [], obj = demo_policy 2 \<rparr> = (Inr v, w') \<and> vd_Phase v = RenderActive) \<and>
   (\<exists>v w'. observe_policy demo_st_env \<lparr> hist = [], obj = demo_policy 3 \<rparr> = (Inr v, w') \<and> vd_Phase v \<noteq> RenderActive)"
proof -
  let ?old = "\<lparr> s_Meta = new_meta ''ca-autosign-policy'' ''ns'', s_Data = [] \<rparr> :: Secret"
  have written: "config_secret_mutation reference_lib (blank_config ''c'' ''ns'') []
      (renderedFromAnnotation (map (\<lambda>p. sourceOf (spo_Meta p)) (by_name [demo_policy 2]))) ?old = Inr demo_secret"
    by (simp add: config_secret_mutation_def assertControlledBy_def reference_lib_def by_name_def
        set_controller_reference_def demo_secret_def blank_config_def new_meta_def
        renderedFromAnnotation_def sput_def)
  have configs: "configsReferencingAuthority ''ca'' [(blank_config ''c'' ''ns'')
        \<lparr> cfg_Spec := cfg_Spec (blank_config ''c'' ''ns'') \<lparr> cf_AuthorityRef := ''ca'' \<rparr> \<rparr>] \<noteq> []"
    "\<not> allOverride (configsReferencingAuthority ''ca'' [(blank_config ''c'' ''ns'')
        \<lparr> cfg_Spec := cfg_Spec (blank_config ''c'' ''ns'') \<lparr> cf_AuthorityRef := ''ca'' \<rparr> \<rparr>]) overrideAutosign"
    by (simp_all add: configsReferencingAuthority_def index_config_authorityRef_def allOverride_def
        overrideAutosign_def blank_config_def blank_puppet_def)
  have "\<exists>v w'. observe_policy demo_st_env \<lparr> hist = [], obj = demo_policy g \<rparr> = (Inr v, w') \<and>
      (vd_Phase v = RenderActive \<longleftrightarrow> (\<exists>p. p \<in> set [demo_policy 2] \<and>
         m_Name (spo_Meta p) = m_Name (spo_Meta (demo_policy g)) \<and>
         m_Generation (spo_Meta p) = m_Generation (spo_Meta (demo_policy g))))" for g
    by (rule policy_status_agrees_with_render [OF reference.kube_laws_axioms written, where ca = "''ca''"])
      (use configs in \<open>auto simp: demo_st_env_def demo_policy_def blank_policy_def new_meta_def
        source_name_def in_int64_def min_int64_def max_int64_def\<close>)
  from this [of 2] this [of 3] show ?thesis by (simp add: demo_policy_def blank_policy_def new_meta_def)
qed

end
