(* ===== verification/CAWorld.thy ===== *)
theory CAWorld
  imports ConfigApi CertSigning
begin

text \<open>
  The surroundings of the CertificateAuthority controller: its calls to the API server, to the CA
  and to the clock, whose answers are functions of the calls before, and the operations its
  steps share: reading and updating the resource, Secrets with carried-over entries
  (createOrUpdateSecret of helpers.go), and the lists it searches.
\<close>

section \<open>Calls\<close>

datatype ca_call =
    CaGet string | CaPatch CertificateAuthority | CaStatusUpdate CertificateAuthority
  | CaListConfigsOf string | CaListConfigs | CaListServers | CaListCertificates
  | CaCreateCertificate Certificate
  | CaGetSecret string | CaCreateSecret Secret | CaUpdateSecret Secret
  | CaGetPVC string | CaCreatePVC PersistentVolumeClaim
  | CaGetService string | CaCreateService Service | CaUpdateService Service
  | CaGetServiceAccount string | CaCreateServiceAccount ServiceAccount
  | CaGetRole string | CaCreateRole Role | CaUpdateRole Role
  | CaGetRoleBinding string | CaCreateRoleBinding RoleBinding | CaUpdateRoleBinding RoleBinding
  | CaGetJob string | CaCreateJob Job | CaDeleteJob string
  | CaNewRequest http_request | CaHttp http_client http_request
  | CaEvent string string string

type_synonym cahist = "ca_call list"

record ca_env =
  ae_lib :: kube_lib
  ae_crypto :: crypto
  ae_showDuration :: "int \<Rightarrow> string"
  ae_retries :: nat
  ae_now :: "cahist \<Rightarrow> int"
  ae_get :: "cahist \<Rightarrow> string \<Rightarrow> err + CertificateAuthority"
  ae_patch :: "cahist \<Rightarrow> CertificateAuthority \<Rightarrow> err + unit"
  ae_updateStatus :: "cahist \<Rightarrow> CertificateAuthority \<Rightarrow> err + unit"
  ae_listConfigsOf :: "cahist \<Rightarrow> string \<Rightarrow> err + Config list"
  ae_listConfigs :: "cahist \<Rightarrow> err + Config list"
  ae_listServers :: "cahist \<Rightarrow> err + Server list"
  ae_listCertificates :: "cahist \<Rightarrow> err + Certificate list"
  ae_createCertificate :: "cahist \<Rightarrow> Certificate \<Rightarrow> err + unit"
  ae_getSecret :: "cahist \<Rightarrow> string \<Rightarrow> err + Secret"
  ae_writeSecret :: "cahist \<Rightarrow> Secret \<Rightarrow> err + unit"
  ae_getPVC :: "cahist \<Rightarrow> string \<Rightarrow> err + PersistentVolumeClaim"
  ae_createPVC :: "cahist \<Rightarrow> PersistentVolumeClaim \<Rightarrow> err + unit"
  ae_getService :: "cahist \<Rightarrow> string \<Rightarrow> err + Service"
  ae_writeService :: "cahist \<Rightarrow> Service \<Rightarrow> err + unit"
  ae_getServiceAccount :: "cahist \<Rightarrow> string \<Rightarrow> err + ServiceAccount"
  ae_createServiceAccount :: "cahist \<Rightarrow> ServiceAccount \<Rightarrow> err + unit"
  ae_getRole :: "cahist \<Rightarrow> string \<Rightarrow> err + Role"
  ae_writeRole :: "cahist \<Rightarrow> Role \<Rightarrow> err + unit"
  ae_getRoleBinding :: "cahist \<Rightarrow> string \<Rightarrow> err + RoleBinding"
  ae_writeRoleBinding :: "cahist \<Rightarrow> RoleBinding \<Rightarrow> err + unit"
  ae_getJob :: "cahist \<Rightarrow> string \<Rightarrow> err + Job"
  ae_createJob :: "cahist \<Rightarrow> Job \<Rightarrow> err + unit"
  ae_deleteJob :: "cahist \<Rightarrow> string \<Rightarrow> err + unit"
  ae_newRequest :: "cahist \<Rightarrow> http_request \<Rightarrow> err + unit"
  ae_http :: "cahist \<Rightarrow> http_client \<Rightarrow> http_request \<Rightarrow> err + http_response"

type_synonym ast = "(ca_call, CertificateAuthority) world"
type_synonym 'a aop = "(ast, err, 'a) op"

abbreviation ca_name :: "CertificateAuthority \<Rightarrow> string" where "ca_name ca \<equiv> m_Name (ca_Meta ca)"
abbreviation ca_ns :: "CertificateAuthority \<Rightarrow> string" where "ca_ns ca \<equiv> m_Namespace (ca_Meta ca)"

definition ca_event :: "string \<Rightarrow> string \<Rightarrow> string \<Rightarrow> (ast, 'e, unit) op" where
  "ca_event kind reason note = call (CaEvent kind reason note) (\<lambda>_. Inr ())"

section \<open>The resource\<close>

definition ca_refetch :: "ca_env \<Rightarrow> unit aop" where
  "ca_refetch E = (\<lambda>s. let name = ca_name (obj s); ns = ca_ns (obj s) in
     case call (CaGet name) (\<lambda>h. ae_get E h name) s of
       (Inl e, s') \<Rightarrow> (Inl e, s')
     | (Inr ca, s') \<Rightarrow>
         (Inr (), s' \<lparr> obj := ca \<lparr> ca_Meta := ca_Meta ca \<lparr> m_Name := name, m_Namespace := ns \<rparr> \<rparr> \<rparr>))"

definition ca_send_status :: "ca_env \<Rightarrow> unit aop" where
  "ca_send_status E = (\<lambda>s. call (CaStatusUpdate (obj s)) (\<lambda>h. ae_updateStatus E h (obj s)) s)"

definition ca_update_status :: "ca_env \<Rightarrow> (CertificateAuthority \<Rightarrow> CertificateAuthority) \<Rightarrow> unit aop" where
  "ca_update_status E change = status_with_retry (ae_retries E) (ca_refetch E) change (ca_send_status E)"

text \<open>Patch of the object in memory after a change of it.\<close>

definition ca_patch :: "ca_env \<Rightarrow> (CertificateAuthority \<Rightarrow> CertificateAuthority) \<Rightarrow> unit aop" where
  "ca_patch E change =
     thn (mutate_obj change) (\<lambda>s. call (CaPatch (obj s)) (\<lambda>h. ae_patch E h (obj s)) s)"

definition with_ca_status :: "(CertificateAuthorityStatus \<Rightarrow> CertificateAuthorityStatus) \<Rightarrow>
    CertificateAuthority \<Rightarrow> CertificateAuthority" where
  "with_ca_status f ca = ca \<lparr> ca_Status := f (ca_Status ca) \<rparr>"

definition set_ca_phase :: "CertificateAuthorityPhase \<Rightarrow> CertificateAuthority \<Rightarrow> CertificateAuthority" where
  "set_ca_phase p = with_ca_status (\<lambda>st. st \<lparr> at_Phase := p \<rparr>)"

definition set_ca_cond :: "kube_lib \<Rightarrow> string \<Rightarrow> string \<Rightarrow> string \<Rightarrow> string \<Rightarrow>
    CertificateAuthority \<Rightarrow> CertificateAuthority" where
  "set_ca_cond L typ status reason msg ca =
     with_ca_status (\<lambda>st. st \<lparr> at_Conditions := SetStatusCondition L (at_Conditions st)
       \<lparr> cond_Type = typ, cond_Status = status, cond_Reason = reason, cond_Message = msg,
         cond_ObservedGeneration = m_Generation (ca_Meta ca) \<rparr> \<rparr>) ca"

section \<open>Names\<close>

definition ca_secret_name :: "CertificateAuthority \<Rightarrow> string" where
  "ca_secret_name ca = ca_name ca @ ''-ca''"

definition ca_key_secret_name :: "CertificateAuthority \<Rightarrow> string" where
  "ca_key_secret_name ca = ca_name ca @ ''-ca-key''"

definition ca_crl_secret_name :: "CertificateAuthority \<Rightarrow> string" where
  "ca_crl_secret_name ca = ca_name ca @ ''-ca-crl''"

definition setup_name :: "CertificateAuthority \<Rightarrow> string" where
  "setup_name ca = ca_name ca @ ''-ca-setup''"

section \<open>Secrets\<close>

definition ca_get_secret :: "ca_env \<Rightarrow> ast reader" where
  "ca_get_secret E name = call (CaGetSecret name) (\<lambda>h. case ae_getSecret E h name of Inl e \<Rightarrow> Inl e
     | Inr secret \<Rightarrow> Inr (secret \<lparr> s_Meta := (s_Meta secret) \<lparr> m_Name := name \<rparr> \<rparr>))"

definition write_owned_secret :: "ca_env \<Rightarrow> string \<Rightarrow> string smap \<Rightarrow> string list \<Rightarrow> unit aop" where
  "write_owned_secret E name data preserveKeys =
     bnd (reads obj) (\<lambda>ca.
     bnd (wrapping (''reconciling Secret '' @ name)
           (create_or_update (ca_get_secret E name)
             \<lparr> s_Meta = new_meta name (ca_ns ca), s_Data = [] \<rparr>
             (secret_mutation (ae_lib E) (ca_Meta ca) ''CertificateAuthority'' (caLabels (ca_name ca))
                data preserveKeys)
             (\<lambda>secret. call (CaCreateSecret secret) (\<lambda>h. ae_writeSecret E h secret))
             (\<lambda>secret. call (CaUpdateSecret secret) (\<lambda>h. ae_writeSecret E h secret)))) (\<lambda>_.
     ret ()))"

section \<open>Certificates, Configs and Servers of the CA\<close>

definition certificates_of :: "CertificateAuthority \<Rightarrow> Certificate list \<Rightarrow> Certificate list" where
  "certificates_of ca certs = filter (\<lambda>cert. cs_AuthorityRef (c_Spec cert) = ca_name ca) certs"

definition findCertificatesForCA :: "ca_env \<Rightarrow> Certificate list aop" where
  "findCertificatesForCA E =
     bnd (reads obj) (\<lambda>ca.
     bnd (call CaListCertificates (ae_listCertificates E)) (\<lambda>certs.
     ret (certificates_of ca certs)))"

text \<open>The Certificate of a Server with the CA role in a Config of this CA, the first of the list.\<close>

definition ca_server_cert :: "CertificateAuthority \<Rightarrow> Config list \<Rightarrow> Server list \<Rightarrow> Certificate list \<Rightarrow>
    Certificate option" where
  "ca_server_cert ca configs servers certs =
     (let configNames = map cfg_name (filter (\<lambda>cfg. cf_AuthorityRef (cfg_Spec cfg) = ca_name ca) configs);
          refs = map sv_CertificateRef (filter (\<lambda>sv. sv_ConfigRef sv \<in> set configNames \<and> sv_CA sv) servers)
      in find (\<lambda>cert. m_Name (c_Meta cert) \<in> set refs) certs)"

text \<open>A list that cannot be read is logged, and no Certificate is found.\<close>

definition findCAServerCert :: "ca_env \<Rightarrow> Certificate list \<Rightarrow> (ast, 'e, Certificate option) op" where
  "findCAServerCert E certs =
     bnd (reads obj) (\<lambda>ca.
     bnd (outcome (call CaListConfigs (ae_listConfigs E))) (\<lambda>cs. case cs of
       Inl _ \<Rightarrow> ret None
     | Inr configs \<Rightarrow>
         bnd (outcome (call CaListServers (ae_listServers E))) (\<lambda>svs. case svs of
           Inl _ \<Rightarrow> ret None
         | Inr servers \<Rightarrow> ret (ca_server_cert ca configs servers certs))))"

text \<open>The names of the Configs in a namespace are distinct, so that the order by name is the only one.\<close>

definition findConfigForCA :: "ca_env \<Rightarrow> Config option aop" where
  "findConfigForCA E =
     bnd (reads obj) (\<lambda>ca.
     bnd (wrapping (''listing Configs for CertificateAuthority '' @ ca_name ca)
           (call (CaListConfigsOf (ca_name ca)) (\<lambda>h. ae_listConfigsOf E h (ca_name ca)))) (\<lambda>items.
     case sort_key cfg_name items of
       [] \<Rightarrow> ret None
     | cfg # rest \<Rightarrow>
         thn (if rest = [] then ret ()
              else ca_event ''Warning'' ''MultipleConfigs''
                (Itoa (int (length (cfg # rest))) @ '' Configs reference this CA ('' @
                 Join (map cfg_name (cfg # rest)) '', '' @ ''); using '' @ cfg_name cfg))
             (ret (Some cfg))))"

section \<open>Watches\<close>

definition ca_of_certificate :: "Certificate \<Rightarrow> (string \<times> string) list" where
  "ca_of_certificate cert =
     (if cs_AuthorityRef (c_Spec cert) = [] then []
      else [(m_Namespace (c_Meta cert), cs_AuthorityRef (c_Spec cert))])"

definition ca_of_config :: "Config \<Rightarrow> (string \<times> string) list" where
  "ca_of_config cfg =
     (if cf_AuthorityRef (cfg_Spec cfg) = [] then [] else [(cfg_ns cfg, cf_AuthorityRef (cfg_Spec cfg))])"

text \<open>The lookup of the Config is a parameter; every failure maps to no request.\<close>

definition caForCAServer :: "(string \<Rightarrow> err + Config) \<Rightarrow> Server \<Rightarrow> (string \<times> string) list" where
  "caForCAServer getConfig server =
     (if \<not> sv_CA server \<or> sv_ConfigRef server = [] then []
      else case getConfig (sv_ConfigRef server) of
             Inl _ \<Rightarrow> []
           | Inr cfg \<Rightarrow>
               if cf_AuthorityRef (cfg_Spec cfg) = [] then []
               else [(m_Namespace (sv_Meta server), cf_AuthorityRef (cfg_Spec cfg))])"

section \<open>What the shared operations call and keep\<close>

named_theorems ca_only "what the operations of the CertificateAuthority controller call"

lemma only_ca_event [ca_only]: "P (CaEvent k r n) \<Longrightarrow> only hist P (ca_event k r n)"
  unfolding ca_event_def by (rule only_call)

lemma only_ca_refetch [ca_only]: "(\<And>n. P (CaGet n)) \<Longrightarrow> only hist P (ca_refetch E)"
  by (auto simp: only_def ca_refetch_def call_def Let_def split: prod.split sum.split)

lemma only_ca_send_status [ca_only]: "(\<And>c. P (CaStatusUpdate c)) \<Longrightarrow> only hist P (ca_send_status E)"
  by (auto simp: only_def ca_send_status_def call_def)

lemma only_ca_update_status [ca_only]:
  "(\<And>n. P (CaGet n)) \<Longrightarrow> (\<And>c. P (CaStatusUpdate c)) \<Longrightarrow> only hist P (ca_update_status E f)"
  unfolding ca_update_status_def by (intro only_status_with_retry ca_only)

lemma only_ca_patch [ca_only]: "(\<And>c. P (CaPatch c)) \<Longrightarrow> only hist P (ca_patch E f)"
  unfolding ca_patch_def by (intro only_rules only_mutate) (simp add: only_def call_def)

lemma only_ca_get_secret [ca_only]: "P (CaGetSecret n) \<Longrightarrow> only hist P (ca_get_secret E n)"
  unfolding ca_get_secret_def by (rule only_call)

lemma only_write_owned_secret [ca_only]:
  "(\<And>n. P (CaGetSecret n)) \<Longrightarrow> (\<And>s. P (CaCreateSecret s)) \<Longrightarrow> (\<And>s. P (CaUpdateSecret s)) \<Longrightarrow>
   only hist P (write_owned_secret E name data keys)"
  unfolding write_owned_secret_def by (intro only_rules ca_only only_call)

lemma only_findCertificatesForCA [ca_only]:
  "P CaListCertificates \<Longrightarrow> only hist P (findCertificatesForCA E)"
  unfolding findCertificatesForCA_def by (intro only_rules only_call)

lemma only_findCAServerCert [ca_only]:
  "P CaListConfigs \<Longrightarrow> P CaListServers \<Longrightarrow> only hist P (findCAServerCert E certs)"
  unfolding findCAServerCert_def by (intro only_rules only_call)

end
