(* ===== verification/CASetup.thy ===== *)
theory CASetup
  imports CAWorld
begin

text \<open>
  What the CertificateAuthority controller provides for a CA that runs in the cluster: the claim
  for the CA data (certificateauthority_pvc.go), the internal Service
  (certificateauthority_service.go), the permissions of the setup Job
  (certificateauthority_rbac.go), and the Job with its retries (certificateauthority_job.go).
\<close>

section \<open>The claim for the CA data\<close>

definition resolveCAStorage :: "CertificateAuthority \<Rightarrow> StorageSpec" where
  "resolveCAStorage ca =
     (case as_Storage (ca_Spec ca) of Some st \<Rightarrow> st | None \<Rightarrow> \<lparr> st_Size = None, st_StorageClass = [] \<rparr>)"

definition defaultCAStorageQuantity :: string where "defaultCAStorageQuantity = ''1Gi''"

definition data_claim :: "CertificateAuthority \<Rightarrow> PersistentVolumeClaim" where
  "data_claim ca =
     (let storage = resolveCAStorage ca in
      \<lparr> pvc_Meta = new_meta (ca_name ca @ ''-data'') (ca_ns ca) \<lparr> m_Labels := caLabels (ca_name ca) \<rparr>,
        pvc_AccessModes = [''ReadWriteOnce''],
        pvc_Requests = [(''storage'', case st_Size storage of Some q \<Rightarrow> q | None \<Rightarrow> defaultCAStorageQuantity)],
        pvc_StorageClassName = (if st_StorageClass storage \<noteq> [] then Some (st_StorageClass storage) else None) \<rparr>)"

text \<open>Setting the owner of a new object, and the error when that fails.\<close>

definition own :: "ca_env \<Rightarrow> string \<Rightarrow> ObjectMeta \<Rightarrow> ObjectMeta aop" where
  "own E what meta =
     bnd (reads obj) (\<lambda>ca.
     wrapping (''setting owner reference on '' @ what @ '' '' @ m_Name meta)
       (lift (SetControllerReference (ae_lib E) ''CertificateAuthority'' (ca_Meta ca) meta)))"

definition reconcileCAPVC :: "ca_env \<Rightarrow> unit aop" where
  "reconcileCAPVC E =
     bnd (reads obj) (\<lambda>ca. let pvcName = ca_name ca @ ''-data'' in
     bnd (outcome (call (CaGetPVC pvcName) (\<lambda>h. ae_getPVC E h pvcName))) (\<lambda>r. case r of
       Inl e \<Rightarrow>
         if IsNotFound e then
           bnd (own E ''PVC'' (pvc_Meta (data_claim ca))) (\<lambda>meta.
           let pvc = data_claim ca \<lparr> pvc_Meta := meta \<rparr> in
           call (CaCreatePVC pvc) (\<lambda>h. ae_createPVC E h pvc))
         else throw (wrapf (''getting PVC '' @ pvcName) e)
     | Inr _ \<Rightarrow> ret ()))"

section \<open>The internal Service\<close>

definition https_port :: "ServicePort \<Rightarrow> ServicePort" where
  "https_port p = p \<lparr> sp_Name := ''https'', sp_Port := 8140, sp_TargetPort := 8140, sp_Protocol := ''TCP'' \<rparr>"

definition ca_service :: "CertificateAuthority \<Rightarrow> Service \<Rightarrow> Service" where
  "ca_service ca svc = svc \<lparr> svc_Meta := svc_Meta svc \<lparr> m_Labels := caLabels (ca_name ca) \<rparr>,
     svc_Type := ''ClusterIP'', svc_Selector := [(LabelCA, ''true'')],
     svc_Ports := (case svc_Ports svc of [] \<Rightarrow> [https_port blank_port] | p # ps \<Rightarrow> https_port p # ps) \<rparr>"

definition reconcileCAService :: "ca_env \<Rightarrow> unit aop" where
  "reconcileCAService E =
     bnd (reads obj) (\<lambda>ca. let svcName = caInternalServiceName (ca_name ca) in
     bnd (outcome (call (CaGetService svcName) (\<lambda>h. ae_getService E h svcName))) (\<lambda>r. case r of
       Inl e \<Rightarrow>
         if IsNotFound e then
           (let new = ca_service ca (blank_service svcName (ca_ns ca)) in
            bnd (own E ''Service'' (svc_Meta new)) (\<lambda>meta.
            let svc = new \<lparr> svc_Meta := meta \<rparr> in
            call (CaCreateService svc) (\<lambda>h. ae_writeService E h svc)))
         else throw (wrapf (''getting Service '' @ svcName) e)
     | Inr found \<Rightarrow>
         (let svc = ca_service ca found in
          call (CaUpdateService svc) (\<lambda>h. ae_writeService E h svc))))"

section \<open>The permissions of the setup Job\<close>

definition setup_rules :: "string list \<Rightarrow> PolicyRule list" where
  "setup_rules resourceNames =
     [\<lparr> pr_APIGroups = [[]], pr_Resources = [''secrets''], pr_ResourceNames = resourceNames,
        pr_Verbs = [''get'', ''update'', ''patch''] \<rparr>,
      \<lparr> pr_APIGroups = [[]], pr_Resources = [''secrets''], pr_ResourceNames = [], pr_Verbs = [''create''] \<rparr>]"

definition setup_resource_names :: "CertificateAuthority \<Rightarrow> Certificate list \<Rightarrow> string list" where
  "setup_resource_names ca certs =
     [ca_secret_name ca, ca_key_secret_name ca, ca_crl_secret_name ca] @ map tls_name certs"

definition ensureCAServiceAccount :: "ca_env \<Rightarrow> string \<Rightarrow> unit aop" where
  "ensureCAServiceAccount E name =
     bnd (reads obj) (\<lambda>ca.
     bnd (outcome (call (CaGetServiceAccount name) (\<lambda>h. ae_getServiceAccount E h name))) (\<lambda>r. case r of
       Inl e \<Rightarrow>
         if IsNotFound e then
           bnd (own E ''ServiceAccount'' (new_meta name (ca_ns ca) \<lparr> m_Labels := caLabels (ca_name ca) \<rparr>)) (\<lambda>meta.
           let sa = \<lparr> sa_Meta = meta, sa_Automount = None \<rparr> in
           call (CaCreateServiceAccount sa) (\<lambda>h. ae_createServiceAccount E h sa))
         else throw (wrapf (''getting ServiceAccount '' @ name) e)
     | Inr _ \<Rightarrow> ret ()))"

definition ensureCARole :: "ca_env \<Rightarrow> string \<Rightarrow> string list \<Rightarrow> unit aop" where
  "ensureCARole E name resourceNames =
     bnd (reads obj) (\<lambda>ca.
     bnd (outcome (call (CaGetRole name) (\<lambda>h. ae_getRole E h name))) (\<lambda>r. case r of
       Inl e \<Rightarrow>
         if IsNotFound e then
           bnd (own E ''Role'' (new_meta name (ca_ns ca) \<lparr> m_Labels := caLabels (ca_name ca) \<rparr>)) (\<lambda>meta.
           let role = \<lparr> role_Meta = meta, role_Rules = setup_rules resourceNames \<rparr> in
           call (CaCreateRole role) (\<lambda>h. ae_writeRole E h role))
         else throw (wrapf (''getting Role '' @ name) e)
     | Inr found \<Rightarrow>
         (let role = found \<lparr> role_Rules := setup_rules resourceNames \<rparr> in
          call (CaUpdateRole role) (\<lambda>h. ae_writeRole E h role))))"

definition ensureCARoleBinding :: "ca_env \<Rightarrow> string \<Rightarrow> unit aop" where
  "ensureCARoleBinding E name =
     bnd (reads obj) (\<lambda>ca.
     let subjects = [\<lparr> sub_Kind = ''ServiceAccount'', sub_Name = name, sub_Namespace = ca_ns ca \<rparr>] in
     bnd (outcome (call (CaGetRoleBinding name) (\<lambda>h. ae_getRoleBinding E h name))) (\<lambda>r. case r of
       Inl e \<Rightarrow>
         if IsNotFound e then
           bnd (own E ''RoleBinding'' (new_meta name (ca_ns ca) \<lparr> m_Labels := caLabels (ca_name ca) \<rparr>)) (\<lambda>meta.
           let rb = \<lparr> rb_Meta = meta, rb_RoleKind = ''Role'', rb_RoleName = name, rb_Subjects = subjects \<rparr> in
           call (CaCreateRoleBinding rb) (\<lambda>h. ae_writeRoleBinding E h rb))
         else throw (wrapf (''getting RoleBinding '' @ name) e)
     | Inr found \<Rightarrow>
         (let rb = found \<lparr> rb_Subjects := subjects \<rparr> in
          call (CaUpdateRoleBinding rb) (\<lambda>h. ae_writeRoleBinding E h rb))))"

definition reconcileCASetupRBAC :: "ca_env \<Rightarrow> Certificate list \<Rightarrow> unit aop" where
  "reconcileCASetupRBAC E certs =
     bnd (reads obj) (\<lambda>ca.
     thn (wrapping ''ensuring ServiceAccount'' (ensureCAServiceAccount E (setup_name ca)))
     (thn (wrapping ''ensuring Role'' (ensureCARole E (setup_name ca) (setup_resource_names ca certs)))
     (wrapping ''ensuring RoleBinding'' (ensureCARoleBinding E (setup_name ca)))))"

section \<open>The setup Job\<close>

text \<open>The lines of a script; a circumflex stands for the backslash.\<close>

definition script_text :: "string list \<Rightarrow> string" where
  "script_text ls =
     concat (map (\<lambda>l. map (\<lambda>c. if c = CHR ''^'' then CHR 0x5C else c) l @ ''\<newline>'') ls)"

definition buildCAOnlySetupScript :: string where
  \<open>buildCAOnlySetupScript = script_text
     [''#!/bin/bash'',
      ''set -euo pipefail'',
      '''',
      ''# CA setup (idempotent -- skips if already initialized on the PVC)'',
      ''if [ -f /etc/puppetlabs/puppetserver/ca/ca_crt.pem ]; then'',
      ''  echo "CA already initialized, skipping setup."'',
      ''else'',
      ''  echo "Starting CA setup..."'',
      ''  ARGS="--config /etc/puppetlabs/puppet/puppet.conf --certname ${CERTNAME}"'',
      ''  if [ -n "${DNS_ALT_NAMES}" ]; then'',
      ''    ARGS="${ARGS} --subject-alt-names ${DNS_ALT_NAMES}"'',
      ''  fi'',
      ''  puppetserver ca setup ${ARGS}'',
      ''  echo "CA setup complete."'',
      ''fi'',
      '''',
      ''NAMESPACE=$(cat /var/run/secrets/kubernetes.io/serviceaccount/namespace)'',
      ''TOKEN=$(cat /var/run/secrets/kubernetes.io/serviceaccount/token)'',
      ''CACERT=/var/run/secrets/kubernetes.io/serviceaccount/ca.crt'',
      ''API="https://kubernetes.default.svc/api/v1/namespaces/${NAMESPACE}/secrets"'',
      '''',
      ''create_or_update_secret() {'',
      ''  local SECRET_NAME="$1"'',
      ''  local PAYLOAD="$2"'',
      ''  HTTP_CODE=$(curl -s --cacert "$CACERT" -o /tmp/api-response -w '%{http_code}' -X PUT ^'',
      ''    -H "Authorization: Bearer $TOKEN" ^'',
      ''    -H "Content-Type: application/json" ^'',
      ''    "${API}/${SECRET_NAME}" -d "$PAYLOAD")'',
      ''  if [ "$HTTP_CODE" = "404" ]; then'',
      ''    HTTP_CODE=$(curl -s --cacert "$CACERT" -o /tmp/api-response -w '%{http_code}' -X POST ^'',
      ''      -H "Authorization: Bearer $TOKEN" ^'',
      ''      -H "Content-Type: application/json" ^'',
      ''      "${API}" -d "$PAYLOAD")'',
      ''  fi'',
      ''  if [ "${HTTP_CODE:0:1}" != "2" ]; then'',
      ''    echo "Failed to create/update Secret '${SECRET_NAME}' (HTTP ${HTTP_CODE}):" >&2'',
      ''    cat /tmp/api-response >&2'',
      ''    exit 1'',
      ''  fi'',
      ''  echo "Secret '${SECRET_NAME}' created/updated successfully."'',
      ''}'',
      '''',
      ''# CA public cert secret (mounted in all pods)'',
      ''CA_CRT=$(base64 -w0 /etc/puppetlabs/puppetserver/ca/ca_crt.pem)'',
      ''create_or_update_secret "${CA_SECRET_NAME}" "{'',
      ''  ^"apiVersion^": ^"v1^",'',
      ''  ^"kind^": ^"Secret^",'',
      ''  ^"metadata^": {'',
      ''    ^"name^": ^"${CA_SECRET_NAME}^",'',
      ''    ^"namespace^": ^"${NAMESPACE}^",'',
      ''    ^"labels^": {'',
      ''      ^"app.kubernetes.io/managed-by^": ^"openvox-operator^",'',
      ''      ^"app.kubernetes.io/name^": ^"openvox^",'',
      ''      ^"openvox.voxpupuli.org/certificateauthority^": ^"${CA_NAME}^"'',
      ''    }'',
      ''  },'',
      ''  ^"data^": {'',
      ''    ^"ca_crt.pem^": ^"${CA_CRT}^"'',
      ''  }'',
      ''}"'',
      '''',
      ''# CA private key secret (never mounted -- only accessed by controller via K8s API)'',
      ''CA_KEY=$(base64 -w0 /etc/puppetlabs/puppetserver/ca/ca_key.pem)'',
      ''create_or_update_secret "${CA_KEY_SECRET_NAME}" "{'',
      ''  ^"apiVersion^": ^"v1^",'',
      ''  ^"kind^": ^"Secret^",'',
      ''  ^"metadata^": {'',
      ''    ^"name^": ^"${CA_KEY_SECRET_NAME}^",'',
      ''    ^"namespace^": ^"${NAMESPACE}^",'',
      ''    ^"labels^": {'',
      ''      ^"app.kubernetes.io/managed-by^": ^"openvox-operator^",'',
      ''      ^"app.kubernetes.io/name^": ^"openvox^",'',
      ''      ^"openvox.voxpupuli.org/certificateauthority^": ^"${CA_NAME}^"'',
      ''    }'',
      ''  },'',
      ''  ^"data^": {'',
      ''    ^"ca_key.pem^": ^"${CA_KEY}^"'',
      ''  }'',
      ''}"'',
      '''',
      ''# CA CRL secret (mounted in non-CA pods for kubelet auto-sync)'',
      ''CA_CRL=$(base64 -w0 /etc/puppetlabs/puppetserver/ca/ca_crl.pem)'',
      ''INFRA_CRL=$(base64 -w0 /etc/puppetlabs/puppetserver/ca/infra_crl.pem)'',
      ''create_or_update_secret "${CA_CRL_SECRET_NAME}" "{'',
      ''  ^"apiVersion^": ^"v1^",'',
      ''  ^"kind^": ^"Secret^",'',
      ''  ^"metadata^": {'',
      ''    ^"name^": ^"${CA_CRL_SECRET_NAME}^",'',
      ''    ^"namespace^": ^"${NAMESPACE}^",'',
      ''    ^"labels^": {'',
      ''      ^"app.kubernetes.io/managed-by^": ^"openvox-operator^",'',
      ''      ^"app.kubernetes.io/name^": ^"openvox^",'',
      ''      ^"openvox.voxpupuli.org/certificateauthority^": ^"${CA_NAME}^"'',
      ''    }'',
      ''  },'',
      ''  ^"data^": {'',
      ''    ^"ca_crl.pem^": ^"${CA_CRL}^",'',
      ''    ^"infra_crl.pem^": ^"${INFRA_CRL}^"'',
      ''  }'',
      ''}"'',
      '''',
      ''echo "CA secrets created successfully."'',
      '''',
      ''# TLS Secret for the initial server certificate (if a Certificate resource exists)'',
      ''if [ -n "${SSL_SECRET_NAME}" ] && [ -f "/etc/puppetlabs/puppet/ssl/certs/${CERTNAME}.pem" ]; then'',
      ''  echo "Exporting TLS Secret for certificate '${CERTNAME}'..."'',
      ''  CERT=$(base64 -w0 "/etc/puppetlabs/puppet/ssl/certs/${CERTNAME}.pem")'',
      ''  KEY=$(base64 -w0 "/etc/puppetlabs/puppet/ssl/private_keys/${CERTNAME}.pem")'',
      '''',
      ''  create_or_update_secret "${SSL_SECRET_NAME}" "{'',
      ''    ^"apiVersion^": ^"v1^",'',
      ''    ^"kind^": ^"Secret^",'',
      ''    ^"metadata^": {'',
      ''      ^"name^": ^"${SSL_SECRET_NAME}^",'',
      ''      ^"namespace^": ^"${NAMESPACE}^",'',
      ''      ^"labels^": {'',
      ''        ^"app.kubernetes.io/managed-by^": ^"openvox-operator^",'',
      ''        ^"app.kubernetes.io/name^": ^"openvox^",'',
      ''        ^"openvox.voxpupuli.org/certificateauthority^": ^"${CA_NAME}^",'',
      ''        ^"openvox.voxpupuli.org/certificate^": ^"${CERT_RESOURCE_NAME}^"'',
      ''      }'',
      ''    },'',
      ''    ^"data^": {'',
      ''      ^"cert.pem^": ^"${CERT}^",'',
      ''      ^"key.pem^": ^"${KEY}^"'',
      ''    }'',
      ''  }"'',
      ''  echo "TLS Secret '${SSL_SECRET_NAME}' created successfully."'',
      ''else'',
      ''  echo "No TLS Secret to export (SSL_SECRET_NAME='${SSL_SECRET_NAME}')."'',
      ''fi'']\<close>

definition resolveCAJobResources :: "CertificateAuthority \<Rightarrow> ResourceRequirements" where
  "resolveCAJobResources ca =
     (if rq_Requests (as_Resources (ca_Spec ca)) \<noteq> [] \<or> rq_Limits (as_Resources (ca_Spec ca)) \<noteq> []
      then as_Resources (ca_Spec ca)
      else \<lparr> rq_Requests = [(''cpu'', ''200m''), (''memory'', ''768Mi'')],
             rq_Limits = [(''cpu'', ''1''), (''memory'', ''1Gi'')], rq_Claims = [] \<rparr>)"

definition service_fqdn :: "CertificateAuthority \<Rightarrow> string" where
  "service_fqdn ca = caInternalServiceName (ca_name ca) @ ''.'' @ ca_ns ca @ ''.svc''"

text \<open>The alternative names of the certificate the setup signs, with the name of the Service.\<close>

definition setup_alt_names :: "CertificateAuthority \<Rightarrow> Certificate \<Rightarrow> string list" where
  "setup_alt_names ca cert =
     (let names = cs_DNSAltNames (c_Spec cert)
      in if service_fqdn ca \<in> set names then names else names @ [service_fqdn ca])"

definition setup_env :: "CertificateAuthority \<Rightarrow> Config \<Rightarrow> Certificate option \<Rightarrow> EnvVar list" where
  "setup_env ca cfg caCert =
     [env_var ''CERTNAME'' (case caCert of None \<Rightarrow> ''puppet'' | Some c \<Rightarrow> certnameOf c),
      env_var ''DNS_ALT_NAMES'' (case caCert of None \<Rightarrow> [] | Some c \<Rightarrow> Join (setup_alt_names ca c) '',''),
      env_var ''CA_SECRET_NAME'' (ca_secret_name ca),
      env_var ''CA_KEY_SECRET_NAME'' (ca_key_secret_name ca),
      env_var ''CA_CRL_SECRET_NAME'' (ca_crl_secret_name ca),
      env_var ''CA_NAME'' (ca_name ca),
      env_var ''CONFIG_NAME'' (cfg_name cfg),
      env_var ''SSL_SECRET_NAME'' (case caCert of None \<Rightarrow> [] | Some c \<Rightarrow> tls_name c),
      env_var ''CERT_RESOURCE_NAME'' (case caCert of None \<Rightarrow> [] | Some c \<Rightarrow> m_Name (c_Meta c))]"

definition setup_container :: "CertificateAuthority \<Rightarrow> Config \<Rightarrow> Certificate option \<Rightarrow> Container" where
  "setup_container ca cfg caCert =
     (blank_container ''ca-setup''
        (im_Repository (cf_Image (cfg_Spec cfg)) @ '':'' @ im_Tag (cf_Image (cfg_Spec cfg)))
        (configImagePullPolicy cfg))
     \<lparr> con_Command := [''/bin/bash'', ''-c'', buildCAOnlySetupScript],
       con_Env := setup_env ca cfg caCert,
       con_Resources := resolveCAJobResources ca,
       con_VolumeMounts :=
         [mount ''ca-data'' ''/etc/puppetlabs/puppetserver/ca'',
          mount ''ssl'' ''/etc/puppetlabs/puppet/ssl'',
          mount_file ''puppet-conf'' ''/etc/puppetlabs/puppet/puppet.conf'' ''puppet.conf'',
          mount_file ''puppetserver-conf'' ''/etc/puppetlabs/puppetserver/conf.d/puppetserver.conf''
            ''puppetserver.conf'',
          mount ''puppetserver-data'' ''/run/puppetserver'',
          mount ''tmp'' ''/tmp''],
       con_SecurityContext := Some (restricted_context True) \<rparr>"

definition setup_volumes :: "CertificateAuthority \<Rightarrow> Config \<Rightarrow> Volume list" where
  "setup_volumes ca cfg =
     [volume ''ca-data'' (ClaimSource (ca_name ca @ ''-data'') False),
      volume ''ssl'' EmptyDir, volume ''puppetserver-data'' EmptyDir, volume ''tmp'' EmptyDir,
      configMapVolume ''puppet-conf'' (cfg_name cfg @ ''-config'') ''puppet.conf'',
      configMapVolume ''puppetserver-conf'' (cfg_name cfg @ ''-config'') ''puppetserver.conf'']"

definition setup_job :: "CertificateAuthority \<Rightarrow> Config \<Rightarrow> string \<Rightarrow> Certificate option \<Rightarrow> Job" where
  "setup_job ca cfg jobName caCert =
     \<lparr> job_Meta = new_meta jobName (ca_ns ca) \<lparr> m_Labels := caLabels (ca_name ca) \<rparr>,
       job_BackoffLimit = Some 3,
       job_TemplateLabels = caLabels (ca_name ca),
       job_Pod = \<lparr> pod_ServiceAccountName = setup_name ca, pod_AutomountServiceAccountToken = None,
         pod_RestartPolicy = ''Never'',
         pod_SecurityContext = buildPodSecurityContext 1001 0 1001 (as_SecurityContext (ca_Spec ca)),
         pod_ImagePullSecrets = appendPullSecrets [] (im_PullSecrets (cf_Image (cfg_Spec cfg))),
         pod_InitContainers = [], pod_Containers = [setup_container ca cfg caCert],
         pod_Volumes = setup_volumes ca cfg, pod_TopologySpreadConstraints = [], pod_Affinity = None,
         pod_PriorityClassName = [] \<rparr>,
       job_Succeeded = 0, job_Conditions = [] \<rparr>"

definition buildCASetupJob :: "ca_env \<Rightarrow> Config \<Rightarrow> string \<Rightarrow> Certificate list \<Rightarrow> Job aop" where
  "buildCASetupJob E cfg jobName certs =
     bnd (reads obj) (\<lambda>ca.
     bnd (findCAServerCert E certs) (\<lambda>caCert.
     ret (setup_job ca cfg jobName caCert)))"

section \<open>Retries\<close>

definition maxSetupAttempts :: int where "maxSetupAttempts = 5"

definition AnnotationSetupAttempts :: string where
  "AnnotationSetupAttempts = ''openvox.voxpupuli.org/setup-attempts''"

definition setupAttempts :: "CertificateAuthority \<Rightarrow> int" where
  "setupAttempts ca =
     (case sget (m_Annotations (ca_Meta ca)) AnnotationSetupAttempts of
        None \<Rightarrow> 0
      | Some v \<Rightarrow> (case ParseInt64 v of None \<Rightarrow> 0 | Some n \<Rightarrow> if n < 0 then 0 else n))"

definition set_attempts :: "int \<Rightarrow> CertificateAuthority \<Rightarrow> CertificateAuthority" where
  "set_attempts attempts ca = ca \<lparr> ca_Meta := ca_Meta ca \<lparr> m_Annotations :=
     (if attempts = 0 then sdel AnnotationSetupAttempts (m_Annotations (ca_Meta ca))
      else sput AnnotationSetupAttempts (Itoa attempts) (m_Annotations (ca_Meta ca))) \<rparr> \<rparr>"

definition recordSetupAttempts :: "ca_env \<Rightarrow> int \<Rightarrow> unit aop" where
  "recordSetupAttempts E attempts =
     bnd (reads obj) (\<lambda>ca.
     if setupAttempts ca = attempts then ret ()
     else wrapping (''recording setup attempts on CertificateAuthority '' @ ca_name ca)
            (ca_patch E (set_attempts attempts)))"

definition jobFailureMessage :: "JobCondition \<Rightarrow> string" where
  "jobFailureMessage c =
     (if jc_Message c \<noteq> [] then jc_Message c
      else if jc_Reason c \<noteq> [] then jc_Reason c
      else ''the CA setup job failed without a reason'')"

definition give_up_message :: "string \<Rightarrow> string \<Rightarrow> int \<Rightarrow> string" where
  "give_up_message jobName failure attempts =
     ''CA setup job '' @ jobName @ '' failed '' @ Itoa attempts @ '' times, giving up: '' @ failure"

definition giveUpOnSetupJob :: "ca_env \<Rightarrow> string \<Rightarrow> string \<Rightarrow> int \<Rightarrow> result aop" where
  "giveUpOnSetupJob E jobName failure attempts =
     bnd (reads obj) (\<lambda>ca.
     let msg = give_up_message jobName failure attempts;
         alreadyReported = (case FindStatusCondition (ae_lib E) (at_Conditions (ca_Status ca)) ConditionCAReady of
            None \<Rightarrow> False
          | Some c \<Rightarrow> cond_Status c = ''False'' \<and> cond_Reason c = ''SetupFailed'' \<and> cond_Message c = msg)
     in
     thn (wrapping (''reporting the CA setup failure for '' @ ca_name ca)
           (ca_update_status E (\<lambda>c. set_ca_cond (ae_lib E) ConditionCAReady ''False'' ''SetupFailed'' msg
              (set_ca_phase CAError c))))
     (thn (if alreadyReported then ret () else ca_event ''Warning'' ''CASetupFailed'' msg)
     (ret (Result 0))))"

definition deleteAndRequeueJob :: "ca_env \<Rightarrow> Job \<Rightarrow> result aop" where
  "deleteAndRequeueJob E job =
     (let name = m_Name (job_Meta job) in
      thn (call (CaDeleteJob name) (\<lambda>h. ae_deleteJob E h name)) (ret (Result RequeueIntervalMedium)))"

definition retrySetupJob :: "ca_env \<Rightarrow> Job \<Rightarrow> string \<Rightarrow> result aop" where
  "retrySetupJob E job failure =
     bnd (reads obj) (\<lambda>ca. let attempts = setupAttempts ca; name = m_Name (job_Meta job) in
     if maxSetupAttempts \<le> attempts then giveUpOnSetupJob E name failure attempts
     else
       thn (recordSetupAttempts E (attempts + 1))
       (if maxSetupAttempts \<le> attempts + 1 then giveUpOnSetupJob E name failure (attempts + 1)
        else deleteAndRequeueJob E job))"

definition job_failed :: "JobCondition \<Rightarrow> bool" where
  "job_failed c = (jc_Type c = ''Failed'' \<and> jc_Status c = ''True'')"

definition first_image :: "Job \<Rightarrow> string" where
  "first_image job = (case pod_Containers (job_Pod job) of [] \<Rightarrow> [] | c # _ \<Rightarrow> con_Image c)"

definition reconcileJob :: "ca_env \<Rightarrow> string \<Rightarrow> Job \<Rightarrow> string \<Rightarrow> result aop" where
  "reconcileJob E jobName desiredJob expectedSecretName =
     bnd (reads obj) (\<lambda>ca.
     bnd (outcome (call (CaGetJob jobName) (\<lambda>h. ae_getJob E h jobName))) (\<lambda>r. case r of
       Inl e \<Rightarrow>
         if IsNotFound e then
           bnd (lift (SetControllerReference (ae_lib E) ''CertificateAuthority'' (ca_Meta ca)
                       (job_Meta desiredJob))) (\<lambda>meta.
           let job = desiredJob \<lparr> job_Meta := meta \<rparr> in
           thn (call (CaCreateJob job) (\<lambda>h. ae_createJob E h job)) (ret (Result RequeueIntervalMedium)))
         else throw e
     | Inr found \<Rightarrow>
         (let existingJob = found \<lparr> job_Meta := (job_Meta found) \<lparr> m_Name := jobName \<rparr> \<rparr> in
          if first_image existingJob \<noteq> first_image desiredJob then
            thn (recordSetupAttempts E 0) (deleteAndRequeueJob E existingJob)
          else if job_Succeeded existingJob > 0 then
            bnd (isSecretReady (ca_get_secret E) expectedSecretName ''ca_crt.pem'') (\<lambda>ready.
            if \<not> ready then
              retrySetupJob E existingJob
                (''the job succeeded but Secret '' @ expectedSecretName @ '' has no ca_crt.pem'')
            else thn (recordSetupAttempts E 0) (ret (Result 0)))
          else
            (case find job_failed (job_Conditions existingJob) of
               Some c \<Rightarrow> retrySetupJob E existingJob (jobFailureMessage c)
             | None \<Rightarrow> ret (Result RequeueIntervalLong)))))"

definition zero_time :: int where "zero_time = seconds (- 62135596800)"

definition ca_age :: "ca_env \<Rightarrow> int aop" where
  "ca_age E = reads (\<lambda>s. time_sub (ae_now E (hist s))
     (case m_CreationTimestamp (ca_Meta (obj s)) of Some t \<Rightarrow> t | None \<Rightarrow> zero_time))"

text \<open>Whether the Job has to wait for the CA Server: it does not exist, no Certificate of a CA Server
  does, and the CA is younger than the grace period.\<close>

definition awaits_ca_server :: "ca_env \<Rightarrow> err + Job \<Rightarrow> Certificate list \<Rightarrow> bool aop" where
  "awaits_ca_server E existing certs =
     (case existing of
        Inr _ \<Rightarrow> ret False
      | Inl _ \<Rightarrow>
          bnd (findCAServerCert E certs) (\<lambda>caCert.
          if caCert \<noteq> None then ret False
          else bnd (ca_age E) (\<lambda>waited. ret (waited < CAServerWaitGrace))))"

definition reconcileCASetupJob :: "ca_env \<Rightarrow> Config \<Rightarrow> Certificate list \<Rightarrow> result aop" where
  "reconcileCASetupJob E cfg certs =
     bnd (reads obj) (\<lambda>ca. let caSecretName = ca_secret_name ca; jobName = setup_name ca in
     bnd (isSecretReady (ca_get_secret E) caSecretName ''ca_crt.pem'') (\<lambda>ready.
     if ready then ret (Result 0)
     else
       thn (logged (ca_update_status E (set_ca_phase CAInitializing)))
       (bnd (outcome (call (CaGetJob jobName) (\<lambda>h. ae_getJob E h jobName))) (\<lambda>existing.
        case (case existing of Inl e \<Rightarrow> if IsNotFound e then None else Some e | Inr _ \<Rightarrow> None) of
          Some e \<Rightarrow> throw (wrapf (''getting CA setup Job '' @ jobName) e)
        | None \<Rightarrow>
            bnd (awaits_ca_server E existing certs) (\<lambda>awaits.
            if awaits then
              thn (ca_event ''Normal'' ''WaitingForCAServer''
                    ''Waiting for a Server with ca: true and its Certificate before running the CA setup Job'')
                  (ret (Result RequeueIntervalShort))
            else
              bnd (buildCASetupJob E cfg jobName certs) (\<lambda>job.
              reconcileJob E jobName job caSecretName))))))"

end
