(* ===== verification/CACtl.thy ===== *)
theory CACtl
  imports CASetup
begin

text \<open>
  The CertificateAuthority controller (certificateauthority_controller.go) with the operator's own
  signing certificate (certificateauthority_signing.go) and the refresh of the revocation list
  (certificateauthority_crl.go): deletion held back by Certificates, the phases of a CA in the
  cluster, and a CA outside of it.
\<close>

section \<open>The operator's signing certificate\<close>

definition signing_cert_name :: "CertificateAuthority \<Rightarrow> string" where
  "signing_cert_name ca = ca_name ca @ ''-operator-signing''"

definition new_signing_cert :: "CertificateAuthority \<Rightarrow> Certificate" where
  "new_signing_cert ca =
     (let cert = blank_cert (signing_cert_name ca) (ca_ns ca) in
      cert \<lparr> c_Spec := (c_Spec cert) \<lparr> cs_AuthorityRef := ca_name ca,
        cs_Certname := operatorSigningCertname (ca_name ca) \<rparr> \<rparr>)"

definition signing_active :: "kube_lib \<Rightarrow> string \<Rightarrow> string \<Rightarrow> CertificateAuthority \<Rightarrow> CertificateAuthority" where
  "signing_active L certName secretName ca =
     set_ca_cond L ConditionOperatorSigningReady ''True'' ''OperatorSigningReady''
       (''Operator signing certificate '' @ certName @ '' is active'')
       (with_ca_status (\<lambda>st. st \<lparr> at_SigningSecretName := secretName \<rparr>) ca)"

definition create_signing_cert :: "ca_env \<Rightarrow> result aop" where
  "create_signing_cert E =
     bnd (reads obj) (\<lambda>ca.
     bnd (wrapping ''setting owner reference on operator-signing cert''
           (lift (SetControllerReference (ae_lib E) ''CertificateAuthority'' (ca_Meta ca)
                    (c_Meta (new_signing_cert ca))))) (\<lambda>meta.
     let newCert = new_signing_cert ca \<lparr> c_Meta := meta \<rparr> in
     bnd (outcome (call (CaCreateCertificate newCert) (\<lambda>h. ae_createCertificate E h newCert))) (\<lambda>r. case r of
       Inl e \<Rightarrow> if IsAlreadyExists e then ret (Result RequeueIntervalShort)
                 else throw (wrapf ''creating operator-signing Certificate'' e)
     | Inr _ \<Rightarrow>
         thn (ca_event ''Normal'' ''OperatorSigningCreated''
               (''Created operator-signing Certificate '' @ signing_cert_name ca))
             (ret (Result RequeueIntervalShort)))))"

definition reconcileOperatorSigningCert :: "ca_env \<Rightarrow> Certificate list \<Rightarrow> result aop" where
  "reconcileOperatorSigningCert E certs =
     bnd (reads obj) (\<lambda>ca. let certName = signing_cert_name ca; secretName = certName @ ''-tls'' in
     if as_External (ca_Spec ca) \<noteq> None then ret (Result 0)
     else case find (\<lambda>cert. m_Name (c_Meta cert) = certName) certs of
       None \<Rightarrow> create_signing_cert E
     | Some signingCert \<Rightarrow>
         if \<not> certificateUsable (ae_lib E) signingCert then ret (Result RequeueIntervalShort)
         else if at_SigningSecretName (ca_Status ca) = secretName \<and>
                 IsStatusConditionTrue (ae_lib E) (at_Conditions (ca_Status ca)) ConditionOperatorSigningReady
           then ret (Result 0)
         else
           thn (wrapping ''updating signing secret status''
                 (ca_update_status E (signing_active (ae_lib E) certName secretName)))
           (thn (ca_event ''Normal'' ''OperatorSigningReady''
                  (''Operator signing certificate '' @ certName @ '' is active''))
           (ret (Result 0))))"

section \<open>The revocation list\<close>

text \<open>The interval, in nanoseconds; the product of the seconds wraps like an int64.\<close>

definition crl_interval :: "CertificateAuthority \<Rightarrow> duration_error + int" where
  "crl_interval ca =
     (if as_CRLRefreshInterval (ca_Spec ca) = [] then Inr DefaultCRLRefreshInterval
      else case ParseDurationToSeconds (as_CRLRefreshInterval (ca_Spec ca)) of
             Inl e \<Rightarrow> Inl e
           | Inr secs \<Rightarrow> Inr (wrap64 (seconds secs)))"

definition crl_request :: "string \<Rightarrow> http_request" where
  "crl_request caBaseURL = \<lparr> req_Method = ''GET'',
     req_URL = caBaseURL @ ''/puppet-ca/v1/certificate_revocation_list/ca?environment=production'',
     req_Header = [(''Accept'', ''text/plain'')], req_Body = [] \<rparr>"

definition fetchCRL :: "ca_env \<Rightarrow> string \<Rightarrow> string aop" where
  "fetchCRL E caBaseURL =
     bnd (reads obj) (\<lambda>ca. let req = crl_request caBaseURL in
     bnd (wrapping ''creating CA HTTP client'' (caHTTPClientForCA (ae_crypto E) (ca_get_secret E) ca)) (\<lambda>client.
     thn (wrapping ''building CRL request'' (call (CaNewRequest req) (\<lambda>h. ae_newRequest E h req)))
     (bnd (wrapping ''requesting CRL'' (call (CaHttp client req) (\<lambda>h. ae_http E h client req))) (\<lambda>resp.
     if resp_Status resp \<noteq> 200 then
       throw (Errorf (''CA returned HTTP '' @ Itoa (int (resp_Status resp)) @ '' for CRL: '' @ resp_Body resp))
     else ret (resp_Body resp)))))"

definition updateCRLSecret :: "ca_env \<Rightarrow> string \<Rightarrow> string \<Rightarrow> unit aop" where
  "updateCRLSecret E name crlPEM =
     write_owned_secret E name [(''ca_crl.pem'', crlPEM)] [''infra_crl.pem'']"

definition reconcileCRLRefresh :: "ca_env \<Rightarrow> result aop" where
  "reconcileCRLRefresh E =
     bnd (reads obj) (\<lambda>ca.
     case crl_interval ca of
       Inl e \<Rightarrow> throw (wrapf (''parsing crlRefreshInterval '' @ Quote (as_CRLRefreshInterval (ca_Spec ca)))
                         (duration_err e))
     | Inr interval \<Rightarrow>
         bnd (wrapping ''fetching CRL'' (fetchCRL E (ca_base_url ca (ca_ns ca)))) (\<lambda>crlPEM.
         thn (wrapping ''updating CRL secret'' (updateCRLSecret E (ca_crl_secret_name ca) crlPEM))
         (thn (ca_event ''Normal'' ''CRLRefreshed''
                (''CRL refreshed successfully, next refresh in '' @ ae_showDuration E interval))
         (ret (Result interval)))))"

text \<open>The end of both branches of Reconcile: a failed refresh is reported and retried.\<close>

definition crl_or_retry :: "ca_env \<Rightarrow> result aop" where
  "crl_or_retry E =
     bnd (outcome (reconcileCRLRefresh E)) (\<lambda>r. case r of
       Inl e \<Rightarrow>
         thn (ca_event ''Warning'' ''CRLRefreshFailed'' (''CRL refresh failed: '' @ err_text e))
             (ret (Result RequeueIntervalCRL))
     | Inr result \<Rightarrow> ret result)"

section \<open>Secrets of the CA\<close>

definition adoptSecret :: "ca_env \<Rightarrow> string \<Rightarrow> unit aop" where
  "adoptSecret E secretName =
     bnd (reads obj) (\<lambda>ca.
     bnd (outcome (ca_get_secret E secretName)) (\<lambda>r. case r of
       Inl e \<Rightarrow> if IsNotFound e then ret () else throw (wrapf (''getting Secret '' @ secretName) e)
     | Inr secret \<Rightarrow>
         if list_ex (\<lambda>ref. or_UID ref = m_UID (ca_Meta ca)) (m_OwnerReferences (s_Meta secret)) then ret ()
         else
           bnd (wrapping (''setting owner reference on Secret '' @ secretName)
                 (lift (SetControllerReference (ae_lib E) ''CertificateAuthority'' (ca_Meta ca)
                          (s_Meta secret)))) (\<lambda>meta.
           let adopted = secret \<lparr> s_Meta := meta \<rparr> in
           call (CaUpdateSecret adopted) (\<lambda>h. ae_writeSecret E h adopted))))"

definition extractCANotAfter :: "ca_env \<Rightarrow> string \<Rightarrow> (ast, 'e, int option) op" where
  "extractCANotAfter E secretName =
     bnd (outcome (ca_get_secret E secretName)) (\<lambda>r. case r of
       Inl _ \<Rightarrow> ret None
     | Inr secret \<Rightarrow> ret (parseCertNotAfter (ae_crypto E) (sval (s_Data secret) ''ca_crt.pem'')))"

section \<open>A CA outside the cluster\<close>

definition ca_is_external :: "kube_lib \<Rightarrow> string \<Rightarrow> string \<Rightarrow> int option \<Rightarrow> CertificateAuthority \<Rightarrow> CertificateAuthority" where
  "ca_is_external L url caSecretName notAfter ca =
     set_ca_cond L ConditionCAReady ''True'' ''ExternalCA'' (''External CA configured at '' @ url)
       (with_ca_status (\<lambda>st. st \<lparr> at_ObservedGeneration := m_Generation (ca_Meta ca),
          at_Phase := CAExternal, at_CASecretName := caSecretName, at_NotAfter := notAfter \<rparr>) ca)"

text \<open>The Secret with the certificate of the CA, when one is named: whether it is usable.\<close>

definition external_secret_ready :: "ca_env \<Rightarrow> ExternalCASpec \<Rightarrow> bool aop" where
  "external_secret_ready E ext =
     (if x_CASecretRef ext = [] then ret True
      else
        bnd (outcome (ca_get_secret E (x_CASecretRef ext))) (\<lambda>r. case r of
          Inl e \<Rightarrow> if IsNotFound e then ret False
                    else throw (wrapf (''getting CA Secret '' @ x_CASecretRef ext) e)
        | Inr secret \<Rightarrow> ret (sval (s_Data secret) ''ca_crt.pem'' \<noteq> [])))"

definition reconcileExternalCA :: "ca_env \<Rightarrow> ExternalCASpec \<Rightarrow> result aop" where
  "reconcileExternalCA E ext =
     bnd (reads obj) (\<lambda>ca.
     let caSecretName = (if x_CASecretRef ext \<noteq> [] then x_CASecretRef ext else ca_secret_name ca);
         wasExternal = (at_Phase (ca_Status ca) = CAExternal) in
     bnd (external_secret_ready E ext) (\<lambda>ready.
     if \<not> ready then ret (Result RequeueIntervalShort)
     else
       bnd (extractCANotAfter E caSecretName) (\<lambda>notAfter.
       thn (wrapping (''updating external CertificateAuthority status '' @ ca_name ca)
             (ca_update_status E (ca_is_external (ae_lib E) (x_URL ext) caSecretName notAfter)))
       (thn (if wasExternal then ret ()
             else ca_event ''Normal'' ''CAExternal'' (''External CA configured at '' @ x_URL ext))
       (crl_or_retry E)))))"

section \<open>Deletion\<close>

definition certificateAuthorityFinalizer :: string where
  "certificateAuthorityFinalizer = ''openvox.voxpupuli.org/ca-protection''"

definition blocks_deletion :: "kube_lib \<Rightarrow> CertificateAuthority \<Rightarrow> Certificate \<Rightarrow> bool" where
  "blocks_deletion L ca cert =
     (m_DeletionTimestamp (c_Meta cert) = None \<and> \<not> IsControlledBy L (c_Meta cert) (ca_Meta ca))"

definition blocking_names :: "kube_lib \<Rightarrow> CertificateAuthority \<Rightarrow> Certificate list \<Rightarrow> string list" where
  "blocking_names L ca certs = map (\<lambda>cert. m_Name (c_Meta cert)) (filter (blocks_deletion L ca) certs)"

definition blocked_message :: "string list \<Rightarrow> string" where
  "blocked_message names =
     Itoa (int (length names)) @ '' Certificate(s) still reference this CA: '' @ Join (sort names) '', ''"

definition edit_meta :: "(ObjectMeta \<Rightarrow> ObjectMeta) \<Rightarrow> CertificateAuthority \<Rightarrow> CertificateAuthority" where
  "edit_meta f ca = ca \<lparr> ca_Meta := f (ca_Meta ca) \<rparr>"

definition handleDeletion :: "ca_env \<Rightarrow> result aop" where
  "handleDeletion E =
     bnd (reads obj) (\<lambda>ca.
     if \<not> ContainsFinalizer (ae_lib E) (ca_Meta ca) certificateAuthorityFinalizer then ret (Result 0)
     else
       bnd (wrapping (''checking Certificates before deleting CertificateAuthority '' @ ca_name ca)
             (findCertificatesForCA E)) (\<lambda>certs.
       let blocking = blocking_names (ae_lib E) ca certs; msg = blocked_message blocking in
       if blocking \<noteq> [] then
         thn (logged (ca_update_status E
               (set_ca_cond (ae_lib E) ConditionCADeletionBlocked ''True'' ''CertificatesExist'' msg)))
         (thn (ca_event ''Warning'' ''CADeletionBlocked'' (''Deletion blocked: '' @ msg))
         (ret (Result RequeueIntervalLong)))
       else
         thn (wrapping (''removing finalizer from CertificateAuthority '' @ ca_name ca)
               (ca_patch E (edit_meta (\<lambda>m. RemoveFinalizer (ae_lib E) m certificateAuthorityFinalizer))))
             (ret (Result 0))))"

section \<open>Reconcile\<close>

definition ensure_ca_finalizer :: "ca_env \<Rightarrow> unit aop" where
  "ensure_ca_finalizer E =
     bnd (reads obj) (\<lambda>ca.
     if ContainsFinalizer (ae_lib E) (ca_Meta ca) certificateAuthorityFinalizer then ret ()
     else wrapping (''adding finalizer to CertificateAuthority '' @ ca_name ca)
            (ca_patch E (edit_meta (\<lambda>m. AddFinalizer (ae_lib E) m certificateAuthorityFinalizer))))"

definition pause_ca :: "ca_env \<Rightarrow> bool aop" where
  "pause_ca E =
     bnd (reads obj) (\<lambda>ca.
     reconcilePauseState (ae_lib E) (ca_Meta ca) (at_Conditions (ca_Status ca))
       (\<lambda>f. ca_update_status E (with_ca_status (\<lambda>st. st \<lparr> at_Conditions := f (at_Conditions st) \<rparr>))))"

definition pending_ca :: "ca_env \<Rightarrow> unit aop" where
  "pending_ca E =
     bnd (reads obj) (\<lambda>ca.
     if at_Phase (ca_Status ca) = CANoPhase
     then wrapping (''setting initial phase for CertificateAuthority '' @ ca_name ca)
            (ca_update_status E (set_ca_phase CAPending))
     else ret ())"

definition ca_is_ready :: "kube_lib \<Rightarrow> string \<Rightarrow> string \<Rightarrow> string \<Rightarrow> int option \<Rightarrow>
    CertificateAuthority \<Rightarrow> CertificateAuthority" where
  "ca_is_ready L caSecretName serviceName signingSecretName notAfter ca =
     set_ca_cond L ConditionCAReady ''True'' ''CAInitialized'' ''CA is initialized and ready''
       (with_ca_status (\<lambda>st. st \<lparr> at_ObservedGeneration := m_Generation (ca_Meta ca),
          at_Phase := CAReadyPhase, at_CASecretName := caSecretName, at_ServiceName := serviceName,
          at_NotAfter := notAfter,
          at_SigningSecretName :=
            (if signingSecretName \<noteq> [] then signingSecretName else at_SigningSecretName st) \<rparr>) ca)"

text \<open>The certificate of the setup Job signs until the operator has its own.\<close>

definition setup_signing_secret :: "ca_env \<Rightarrow> Certificate list \<Rightarrow> string aop" where
  "setup_signing_secret E certs =
     bnd (reads obj) (\<lambda>ca.
     if IsStatusConditionTrue (ae_lib E) (at_Conditions (ca_Status ca)) ConditionOperatorSigningReady
     then ret []
     else
       bnd (findCAServerCert E certs) (\<lambda>caCert.
       ret (case caCert of None \<Rightarrow> [] | Some c \<Rightarrow> tls_name c)))"

text \<open>After the setup Job: the CA is ready.\<close>

definition announce_ready :: "ca_env \<Rightarrow> Certificate list \<Rightarrow> int option \<Rightarrow> unit aop" where
  "announce_ready E certs notAfter =
     bnd (reads obj) (\<lambda>ca.
     bnd (setup_signing_secret E certs) (\<lambda>signingSecretName.
     thn (wrapping (''updating CertificateAuthority status '' @ ca_name ca)
           (ca_update_status E (ca_is_ready (ae_lib E) (ca_secret_name ca) (caInternalServiceName (ca_name ca))
              signingSecretName notAfter)))
     (if at_Phase (ca_Status ca) = CAReadyPhase then ret ()
      else ca_event ''Normal'' ''CAInitialized'' ''CA is initialized and ready'')))"

definition after_ready :: "ca_env \<Rightarrow> Certificate list \<Rightarrow> result aop" where
  "after_ready E certs =
     bnd (reads obj) (\<lambda>ca.
     if at_NotAfter (ca_Status ca) = None then ret (Result RequeueIntervalShort)
     else
       bnd (wrapping ''reconciling operator signing cert'' (reconcileOperatorSigningCert E certs)) (\<lambda>signing.
       if RequeueAfter signing > 0 then ret signing else crl_or_retry E))"

definition adopt_secrets :: "ca_env \<Rightarrow> unit list aop" where
  "adopt_secrets E =
     bnd (reads obj) (\<lambda>ca.
     each (\<lambda>n. wrapping (''adopting Secret '' @ n) (adoptSecret E n))
       [ca_secret_name ca, ca_key_secret_name ca, ca_crl_secret_name ca])"

definition report_ready :: "ca_env \<Rightarrow> Certificate list \<Rightarrow> result aop" where
  "report_ready E certs =
     thn (adopt_secrets E)
     (bnd (reads obj) (\<lambda>ca.
     bnd (extractCANotAfter E (ca_secret_name ca)) (\<lambda>notAfter.
     thn (announce_ready E certs notAfter) (after_ready E certs))))"

definition reconcile_internal :: "ca_env \<Rightarrow> result aop" where
  "reconcile_internal E =
     bnd (findConfigForCA E) (\<lambda>cfg.
     bnd (reads obj) (\<lambda>ca.
     case cfg of
       None \<Rightarrow>
         thn (ca_event ''Normal'' ''WaitingForConfig''
               (''Waiting for a Config with authorityRef: '' @ ca_name ca))
             (ret (Result RequeueIntervalShort))
     | Some cfg \<Rightarrow>
         thn (wrapping ''reconciling CA PVC'' (reconcileCAPVC E))
         (bnd (wrapping ''finding certificates for CA'' (findCertificatesForCA E)) (\<lambda>certs.
         thn (wrapping ''reconciling CA Service'' (reconcileCAService E))
         (thn (wrapping ''reconciling CA setup RBAC'' (reconcileCASetupRBAC E certs))
         (bnd (wrapping ''reconciling CA setup job'' (reconcileCASetupJob E cfg certs)) (\<lambda>result.
         if RequeueAfter result > 0 then ret result else report_ready E certs)))))))"

definition Reconcile_ca :: "ca_env \<Rightarrow> result aop" where
  "Reconcile_ca E =
     bnd (outcome (ca_refetch E)) (\<lambda>r.
     bnd (reads obj) (\<lambda>ca. case r of
       Inl e \<Rightarrow>
         if IsNotFound e then ret (Result 0)
         else throw (wrapf (''getting CertificateAuthority '' @ ca_ns ca @ ''/'' @ ca_name ca) e)
     | Inr _ \<Rightarrow>
         if m_DeletionTimestamp (ca_Meta ca) \<noteq> None then handleDeletion E
         else
           thn (ensure_ca_finalizer E)
           (bnd (pause_ca E) (\<lambda>paused.
            if paused then ret (Result 0)
            else
              thn (pending_ca E)
              (bnd (reads obj) (\<lambda>ca'.
               case as_External (ca_Spec ca') of
                 Some ext \<Rightarrow> reconcileExternalCA E ext
               | None \<Rightarrow> reconcile_internal E))))))"

end
