(* ===== verification/CAProps.thy ===== *)
theory CAProps
  imports CACtl
begin

text \<open>
  Reasoning about the CertificateAuthority controller: running its operations step by step, what
  they leave of the resource in memory, the end of a status update, and the first property: the
  budget of the setup Job.
\<close>

lemmas ca_ops = bnd_def thn_def ret_def throw_def outcome_def reads_def modify_def lift_def
  wrapping_def logged_def call_def mutate_obj_def

section \<open>Running an operation step by step\<close>

lemma bnd_at: "bnd m f s = (case m s of (Inl e, s') \<Rightarrow> (Inl e, s') | (Inr x, s') \<Rightarrow> f x s')"
  by (simp add: bnd_def)

lemma bnd_steps:
  "bnd (reads g) f s = f (g s) s" "bnd (ret x) k s = k x s" "bnd (throw e) q s = (Inl e, s)"
  by (simp_all add: bnd_def reads_def ret_def throw_def)

lemma bnd_outcome: "bnd (outcome m) f s = f (fst (m s)) (snd (m s))"
  by (simp add: bnd_def outcome_def split: prod.splits)

lemma thn_steps: "thn (logged m) n s = n (snd (m s))" "thn (ret x) k s = k s"
  by (simp_all add: bnd_def thn_def ret_def logged_def split: prod.splits)

lemma bnd_wrapping:
  "bnd (wrapping msg m) f s = (case m s of (Inl e, s') \<Rightarrow> (Inl (wrapf msg e), s') | (Inr x, s') \<Rightarrow> f x s')"
  by (simp add: bnd_def wrapping_def split: prod.splits sum.splits)

lemma bnd_call:
  "bnd (call c a) f s = (case a (hist s) of
     Inl e \<Rightarrow> (Inl e, s \<lparr> hist := hist s @ [c] \<rparr>) | Inr x \<Rightarrow> f x (s \<lparr> hist := hist s @ [c] \<rparr>))"
  by (simp add: bnd_def call_def split: sum.splits)

lemmas run_steps = bnd_steps bnd_outcome thn_steps

lemma call_steps:
  "fst (call c a s) = a (hist s)" "snd (call c a s) = s \<lparr> hist := hist s @ [c] \<rparr>"
  by (simp_all add: call_def)

section \<open>The budget of the setup Job\<close>

lemma setupAttempts_set: "0 \<le> n \<Longrightarrow> n \<le> max_int64 \<Longrightarrow> setupAttempts (set_attempts n ca) = n"
  by (simp add: setupAttempts_def set_attempts_def ParseInt64_Itoa min_int64_def)

lemma setupAttempts_nonneg: "0 \<le> setupAttempts ca"
  by (auto simp: setupAttempts_def split: option.splits)

text \<open>The calls of one attempt: what was sent between two histories.\<close>

definition sent :: "ast \<Rightarrow> ast \<Rightarrow> ca_call list" where
  "sent s s' = drop (length (hist s)) (hist s')"

fun deletes_job :: "ca_call \<Rightarrow> bool" where
  "deletes_job (CaDeleteJob _) = True"
| "deletes_job _ = False"

fun patched_attempts :: "ca_env \<Rightarrow> cahist \<Rightarrow> ca_call list \<Rightarrow> int \<Rightarrow> int" where
  "patched_attempts E h [] n = n"
| "patched_attempts E h (CaPatch ca # cs) n =
     patched_attempts E (h @ [CaPatch ca]) cs (case ae_patch E h ca of Inl _ \<Rightarrow> n | Inr _ \<Rightarrow> setupAttempts ca)"
| "patched_attempts E h (c # cs) n = patched_attempts E (h @ [c]) cs n"

text \<open>Failing Jobs in a row: the counter the API server has, and how often the Job was deleted. Each
  round starts from a resource with that counter; nobody else writes it, and nothing else is
  assumed of the environment.\<close>

inductive setup_rounds :: "ca_env \<Rightarrow> int \<Rightarrow> nat \<Rightarrow> bool" for E where
  first_round: "setup_rounds E 0 0"
| next_round: "setup_rounds E n d \<Longrightarrow> setupAttempts (obj s) = n \<Longrightarrow>
    retrySetupJob E job failure s = (r, s') \<Longrightarrow>
    setup_rounds E (patched_attempts E (hist s) (sent s s') n)
      (d + length (filter deletes_job (sent s s')))"

lemma patched_attempts_other:
  "list_all (\<lambda>c. \<forall>ca. c \<noteq> CaPatch ca) cs \<Longrightarrow> patched_attempts E h cs n = n"
proof (induction cs arbitrary: h)
  case (Cons c cs)
  then show ?case by (cases c) auto
qed simp

definition reports :: "ca_call \<Rightarrow> bool" where
  "reports c = (case c of CaGet _ \<Rightarrow> True | CaStatusUpdate _ \<Rightarrow> True | CaEvent _ _ _ \<Rightarrow> True | _ \<Rightarrow> False)"

lemma give_up_calls: "only hist reports (giveUpOnSetupJob E n f a)"
  unfolding giveUpOnSetupJob_def Let_def by (intro only_rules ca_only) (simp_all add: reports_def)

lemma reports_neither:
  "list_all reports cs \<Longrightarrow> list_all (\<lambda>c. \<forall>ca. c \<noteq> CaPatch ca) cs \<and> filter deletes_job cs = []"
proof (induction cs)
  case (Cons c cs)
  then show ?case by (cases c) (auto simp: reports_def)
qed simp

lemma give_up_sent:
  assumes "giveUpOnSetupJob E n f a s = (r, s')"
  shows "\<exists>cs. hist s' = hist s @ cs \<and> (\<forall>h m. patched_attempts E h cs m = m) \<and> filter deletes_job cs = []"
  using onlyD [OF give_up_calls assms] reports_neither patched_attempts_other by blast

lemma record_run:
  assumes "setupAttempts (obj s) \<noteq> n"
  shows "recordSetupAttempts E n s =
    (let ca = set_attempts n (obj s); s' = \<lparr> hist = hist s @ [CaPatch ca], obj = ca \<rparr> in
     case ae_patch E (hist s) ca of
       Inl e \<Rightarrow> (Inl (wrapf (''recording setup attempts on CertificateAuthority '' @ ca_name (obj s)) e), s')
     | Inr u \<Rightarrow> (Inr u, s'))"
  using assms by (simp add: recordSetupAttempts_def ca_patch_def ca_ops Let_def split: sum.split)

lemma retry_round:
  assumes run: "retrySetupJob E job failure s = (r, s')" and n: "setupAttempts (obj s) = n"
  defines "n' \<equiv> patched_attempts E (hist s) (sent s s') n"
    and "k \<equiv> length (filter deletes_job (sent s s'))"
  shows "n \<le> n' \<and> (k = 0 \<or> (k = 1 \<and> n' = n + 1 \<and> n + 1 < maxSetupAttempts))"
proof (cases "maxSetupAttempts \<le> n")
  case True
  then have "giveUpOnSetupJob E (m_Name (job_Meta job)) failure n s = (r, s')"
    using run n by (simp add: retrySetupJob_def ca_ops Let_def)
  from give_up_sent [OF this] show ?thesis unfolding n'_def k_def sent_def by auto
next
  case False
  let ?ca = "set_attempts (n + 1) (obj s)"
  let ?s1 = "\<lparr> hist = hist s @ [CaPatch ?ca], obj = ?ca \<rparr>"
  let ?rest = "if maxSetupAttempts \<le> n + 1
      then giveUpOnSetupJob E (m_Name (job_Meta job)) failure (n + 1) else deleteAndRequeueJob E job"
  have "0 \<le> n" using setupAttempts_nonneg n by metis
  then have att: "setupAttempts ?ca = n + 1"
    using False by (intro setupAttempts_set) (simp_all add: maxSetupAttempts_def max_int64_def)
  have rec: "recordSetupAttempts E (n + 1) s =
    (case ae_patch E (hist s) ?ca of
       Inl e \<Rightarrow> (Inl (wrapf (''recording setup attempts on CertificateAuthority '' @ ca_name (obj s)) e), ?s1)
     | Inr u \<Rightarrow> (Inr u, ?s1))"
    using n by (subst record_run) (auto simp: Let_def)
  show ?thesis
  proof (cases "ae_patch E (hist s) ?ca")
    case (Inl e)
    then have "s' = ?s1" using run n False rec
      by (auto simp: retrySetupJob_def Let_def thn_def bnd_def reads_def)
    then show ?thesis using Inl unfolding n'_def k_def sent_def by simp
  next
    case (Inr u)
    then have rest: "?rest ?s1 = (r, s')" using run n False rec
      by (simp add: retrySetupJob_def Let_def thn_def bnd_def reads_def split: if_splits)
    show ?thesis
    proof (cases "maxSetupAttempts \<le> n + 1")
      case True
      then have "giveUpOnSetupJob E (m_Name (job_Meta job)) failure (n + 1) ?s1 = (r, s')"
        using rest by simp
      from give_up_sent [OF this] obtain cs where "hist s' = hist ?s1 @ cs"
          "\<And>h m. patched_attempts E h cs m = m" "filter deletes_job cs = []" by blast
      then show ?thesis using Inr att unfolding n'_def k_def sent_def by simp
    next
      case False
      then have "hist s' = hist ?s1 @ [CaDeleteJob (m_Name (job_Meta job))]"
        using rest by (auto simp: deleteAndRequeueJob_def ca_ops Let_def split: sum.splits)
      then show ?thesis using Inr att False unfolding n'_def k_def sent_def by simp
    qed
  qed
qed

text \<open>C10: A setup Job that keeps failing is recreated at most four times (five attempts in all):
  whatever the API server answers, and however often the reconcile runs, the Job is deleted no
  more often than the recorded counter says, and never once the counter reaches five.\<close>

theorem setup_retries_bounded: "setup_rounds E n d \<Longrightarrow> int d \<le> n \<and> d \<le> 4"
proof -
  assume "setup_rounds E n d"
  then have "int d \<le> min n (maxSetupAttempts - 1)"
  proof (induction rule: setup_rounds.induct)
    case (next_round n d s job failure r s')
    show ?case using retry_round [OF next_round.hyps(3) next_round.hyps(2)] next_round.IH by auto
  qed (simp add: maxSetupAttempts_def)
  then show ?thesis by (simp add: maxSetupAttempts_def)
qed

section \<open>An API server for examples\<close>

definition demo_authority :: CertificateAuthority where
  "demo_authority = (blank_ca ''ca'' ''ns'') \<lparr> ca_Meta := new_meta ''ca'' ''ns''
     \<lparr> m_UID := ''u'', m_CreationTimestamp := Some 0, m_Finalizers := [certificateAuthorityFinalizer] \<rparr> \<rparr>"

text \<open>Nothing is found but the resource; every write succeeds.\<close>

definition demo_ca_env :: ca_env where
  "demo_ca_env = \<lparr> ae_lib = reference_lib,
     ae_crypto = \<lparr> PemDecode = (\<lambda>_. None), PemEncode = pem_Bytes, ParseCertificate = (\<lambda>_. Inl (Errorf ''bad'')),
       ParsePKCS1PrivateKey = Inr, ParsePKCS8PrivateKey = (\<lambda>k. Inr (RSAPrivate k)), PublicKeyOf = (\<lambda>k. k),
       X509KeyPair = (\<lambda>_ _. None), AppendCertsFromPEM = (\<lambda>_. True), MarshalString = Inr,
       CreateCertificateRequest = (\<lambda>_ k. Inr k) \<rparr>,
     ae_showDuration = (\<lambda>_. ''5m0s''), ae_retries = 4, ae_now = (\<lambda>_. hours 1),
     ae_get = (\<lambda>_ _. Inr demo_authority), ae_patch = (\<lambda>_ _. Inr ()), ae_updateStatus = (\<lambda>_ _. Inr ()),
     ae_listConfigsOf = (\<lambda>_ _. Inr [blank_config ''cfg'' ''ns'']), ae_listConfigs = (\<lambda>_. Inr []),
     ae_listServers = (\<lambda>_. Inr []), ae_listCertificates = (\<lambda>_. Inr []),
     ae_createCertificate = (\<lambda>_ _. Inr ()),
     ae_getSecret = (\<lambda>_ _. Inl (Err NotFound ''none'')), ae_writeSecret = (\<lambda>_ _. Inr ()),
     ae_getPVC = (\<lambda>_ _. Inl (Err NotFound ''none'')), ae_createPVC = (\<lambda>_ _. Inr ()),
     ae_getService = (\<lambda>_ _. Inl (Err NotFound ''none'')), ae_writeService = (\<lambda>_ _. Inr ()),
     ae_getServiceAccount = (\<lambda>_ _. Inl (Err NotFound ''none'')), ae_createServiceAccount = (\<lambda>_ _. Inr ()),
     ae_getRole = (\<lambda>_ _. Inl (Err NotFound ''none'')), ae_writeRole = (\<lambda>_ _. Inr ()),
     ae_getRoleBinding = (\<lambda>_ _. Inl (Err NotFound ''none'')), ae_writeRoleBinding = (\<lambda>_ _. Inr ()),
     ae_getJob = (\<lambda>_ _. Inl (Err NotFound ''none'')), ae_createJob = (\<lambda>_ _. Inr ()),
     ae_deleteJob = (\<lambda>_ _. Inr ()), ae_newRequest = (\<lambda>_ _. Inr ()),
     ae_http = (\<lambda>_ _ _. Inr \<lparr> resp_Status = 200, resp_Body = ''crl'' \<rparr>) \<rparr>"

definition demo_job :: Job where
  "demo_job = setup_job demo_authority (blank_config ''cfg'' ''ns'') ''ca-ca-setup'' None"

theorem setup_retries_bounded_witness:
  "setup_rounds demo_ca_env 1 1 \<and> int 1 \<le> 1 \<and> (1 :: nat) \<le> 4"
proof -
  let ?s = "\<lparr> hist = [], obj = demo_authority \<rparr>"
  have att: "setupAttempts demo_authority = 0"
    by (simp add: setupAttempts_def demo_authority_def blank_ca_def new_meta_def)
  have patch: "ae_patch demo_ca_env h ca = Inr ()" "ae_deleteJob demo_ca_env h n = Inr ()" for h ca n
    by (simp_all add: demo_ca_env_def)
  obtain r s' where run: "retrySetupJob demo_ca_env demo_job ''boom'' ?s = (r, s')"
    by (cases "retrySetupJob demo_ca_env demo_job ''boom'' ?s")
  have "hist s' = [CaPatch (set_attempts 1 demo_authority), CaDeleteJob (m_Name (job_Meta demo_job))]"
    using run att patch by (auto simp: retrySetupJob_def Let_def thn_def bnd_def reads_def record_run
        maxSetupAttempts_def deleteAndRequeueJob_def call_def ret_def)
  then have "setup_rounds demo_ca_env 1 1"
    using next_round [OF first_round [of demo_ca_env] _ run] att patch setupAttempts_set [of 1 demo_authority]
    by (simp add: sent_def max_int64_def)
  then show ?thesis using setup_retries_bounded [of demo_ca_env 1 1] by simp
qed

section \<open>What keeps the resource in memory\<close>

named_theorems ca_keeps "operations that leave the resource in memory as it is"

text \<open>The object that a read of the resource in memory gives.\<close>

definition fetched :: "CertificateAuthority \<Rightarrow> CertificateAuthority \<Rightarrow> CertificateAuthority" where
  "fetched old ca = ca \<lparr> ca_Meta := ca_Meta ca \<lparr> m_Name := ca_name old, m_Namespace := ca_ns old \<rparr> \<rparr>"

lemma refetch_run:
  "ca_refetch E s = (case ae_get E (hist s) (ca_name (obj s)) of
     Inl e \<Rightarrow> (Inl e, s \<lparr> hist := hist s @ [CaGet (ca_name (obj s))] \<rparr>)
   | Inr ca \<Rightarrow> (Inr (), \<lparr> hist = hist s @ [CaGet (ca_name (obj s))], obj = fetched (obj s) ca \<rparr>))"
  by (simp add: ca_refetch_def call_def Let_def fetched_def split: sum.split)

lemma keeps_ca_event [ca_keeps]: "keeps (\<lambda>s. Q (obj s)) (ca_event k r n)"
  unfolding ca_event_def by (rule keeps_obj_call)

lemma keeps_ca_get_secret [ca_keeps]: "keeps (\<lambda>s. Q (obj s)) (ca_get_secret E n)"
  unfolding ca_get_secret_def by (rule keeps_obj_call)

lemma keeps_own [ca_keeps]: "keeps (\<lambda>s. Q (obj s)) (own E w m)"
  unfolding own_def by (intro keeps_rules)

lemma keeps_findCAServerCert [ca_keeps]: "keeps (\<lambda>s. Q (obj s)) (findCAServerCert E certs)"
  unfolding findCAServerCert_def by (intro keeps_rules keeps_obj_call)

lemma keeps_findCertificatesForCA [ca_keeps]: "keeps (\<lambda>s. Q (obj s)) (findCertificatesForCA E)"
  unfolding findCertificatesForCA_def by (intro keeps_rules keeps_obj_call)

lemma keeps_findConfigForCA [ca_keeps]: "keeps (\<lambda>s. Q (obj s)) (findConfigForCA E)"
  unfolding findConfigForCA_def
  by (intro keeps_rules keeps_obj_call) (auto split: list.split intro!: keeps_rules ca_keeps)

lemma keeps_pvc [ca_keeps]: "keeps (\<lambda>s. Q (obj s)) (reconcileCAPVC E)"
  unfolding reconcileCAPVC_def by (intro keeps_rules ca_keeps keeps_obj_call)

lemma keeps_service [ca_keeps]: "keeps (\<lambda>s. Q (obj s)) (reconcileCAService E)"
  unfolding reconcileCAService_def by (intro keeps_rules ca_keeps keeps_obj_call)

lemma keeps_rbac [ca_keeps]: "keeps (\<lambda>s. Q (obj s)) (reconcileCASetupRBAC E certs)"
  unfolding reconcileCASetupRBAC_def ensureCAServiceAccount_def ensureCARole_def ensureCARoleBinding_def
  by (intro keeps_rules ca_keeps keeps_obj_call)

lemma keeps_ready [ca_keeps]: "keeps (\<lambda>s. Q (obj s)) (isSecretReady (ca_get_secret E) n k)"
  unfolding isSecretReady_def by (intro keeps_rules ca_keeps)

lemma keeps_adopt [ca_keeps]: "keeps (\<lambda>s. Q (obj s)) (adoptSecret E n)"
  unfolding adoptSecret_def by (intro keeps_rules ca_keeps keeps_obj_call)

lemma keeps_not_after [ca_keeps]: "keeps (\<lambda>s. Q (obj s)) (extractCANotAfter E n)"
  unfolding extractCANotAfter_def by (intro keeps_rules ca_keeps)

lemma keeps_signing_secret [ca_keeps]: "keeps (\<lambda>s. Q (obj s)) (setup_signing_secret E certs)"
  unfolding setup_signing_secret_def by (intro keeps_rules ca_keeps)

lemma keeps_build_job [ca_keeps]: "keeps (\<lambda>s. Q (obj s)) (buildCASetupJob E cfg n certs)"
  unfolding buildCASetupJob_def by (intro keeps_rules ca_keeps)

lemma keeps_awaits [ca_keeps]: "keeps (\<lambda>s. Q (obj s)) (awaits_ca_server E ex certs)"
  unfolding awaits_ca_server_def ca_age_def by (intro keeps_rules ca_keeps)

lemma keeps_logged [keeps_rules]: "keeps I m \<Longrightarrow> keeps I (logged m)"
  by (auto simp: keeps_def logged_def split: prod.splits)

text \<open>A status update keeps what every answer of the API server and the change have.\<close>

lemma keeps_ca_update_status:
  assumes "\<And>h old ca. Q old \<Longrightarrow> ae_get E h (ca_name old) = Inr ca \<Longrightarrow> Q (fetched old ca)"
    and "\<And>ca. Q ca \<Longrightarrow> Q (f ca)"
  shows "keeps (\<lambda>s. Q (obj s)) (ca_update_status E f)"
proof -
  have "keeps (\<lambda>s. Q (obj s)) (ca_refetch E)"
    using assms(1) by (auto simp: keeps_def refetch_run split: sum.split)
  moreover have "keeps (\<lambda>s. Q (obj s)) (ca_send_status E)"
    by (simp add: keeps_def ca_send_status_def call_def)
  moreover have "keeps (\<lambda>s. Q (obj s)) (mutate_obj f)"
    unfolding mutate_obj_def by (rule keeps_modify) (simp add: assms(2))
  ultimately show ?thesis
    unfolding ca_update_status_def status_with_retry_def by (intro keeps_rules)
qed

text \<open>A successful status update ends with the change of what was read, sent last.\<close>

lemma ca_update_status_ok:
  assumes "ca_update_status E f s = (Inr u, s')"
    and "Q (obj s)" "\<And>h old ca. Q old \<Longrightarrow> ae_get E h (ca_name old) = Inr ca \<Longrightarrow> Q (fetched old ca)"
    and "\<And>ca. Q ca \<Longrightarrow> Q (f ca)"
  shows "\<exists>ca cs. Q ca \<and> obj s' = f ca \<and> hist s' = hist s @ cs @ [CaStatusUpdate (f ca)] \<and> list_all reports cs"
proof -
  let ?m = "thn (ca_refetch E) (thn (mutate_obj f) (ca_send_status E))"
  let ?I = "\<lambda>t. Q (obj t) \<and> (\<exists>cs. hist t = hist s @ cs \<and> list_all reports cs)"
  have "only hist reports ?m"
    by (intro only_rules ca_only only_mutate) (simp_all add: reports_def)
  then have "keeps (\<lambda>t. \<exists>cs. hist t = hist s @ cs \<and> list_all reports cs) ?m" by (rule only_keeps)
  moreover have "keeps (\<lambda>s. Q (obj s)) ?m"
  proof -
    have "keeps (\<lambda>s. Q (obj s)) (mutate_obj f)"
      unfolding mutate_obj_def by (rule keeps_modify) (simp add: assms(4))
    moreover have "keeps (\<lambda>s. Q (obj s)) (ca_refetch E)"
      using assms(3) by (auto simp: keeps_def refetch_run split: sum.split)
    moreover have "keeps (\<lambda>s. Q (obj s)) (ca_send_status E)"
      by (simp add: keeps_def ca_send_status_def call_def)
    ultimately show ?thesis by (intro keeps_rules)
  qed
  ultimately have "keeps ?I ?m" by (intro keeps_conj)
  moreover have "?I s" using assms(2) by simp
  ultimately obtain s1 cs where s1: "Q (obj s1)" "hist s1 = hist s @ cs" "list_all reports cs"
      "?m s1 = (Inr u, s')"
    using retry_InrE [OF assms(1) [unfolded ca_update_status_def status_with_retry_def]] by blast
  obtain ca where ca: "ae_get E (hist s1) (ca_name (obj s1)) = Inr ca"
    using s1(4) by (auto simp: thn_def bnd_def refetch_run split: sum.splits)
  then have "Q (fetched (obj s1) ca)" using assms(3) s1(1) by blast
  moreover have "obj s' = f (fetched (obj s1) ca)"
    "hist s' = hist s1 @ [CaGet (ca_name (obj s1)), CaStatusUpdate (f (fetched (obj s1) ca))]"
    using s1(4) ca by (auto simp: thn_def bnd_def refetch_run mutate_obj_def modify_def ca_send_status_def
        call_def split: sum.splits)
  ultimately show ?thesis
    using s1(2,3) by (intro exI [of _ "fetched (obj s1) ca"] exI [of _ "cs @ [CaGet (ca_name (obj s1))]"])
      (simp add: reports_def)
qed

lemma ca_update_status_ends:
  assumes "\<And>h old ca. Q old \<Longrightarrow> ae_get E h (ca_name old) = Inr ca \<Longrightarrow> Q (fetched old ca)"
    and "\<And>ca. Q ca \<Longrightarrow> Q (f ca)"
  shows "ends (\<lambda>s. Q (obj s)) (ca_update_status E f) 
    (\<lambda>_ s. CaStatusUpdate (obj s) \<in> set (hist s) \<and> (\<exists>ca. Q ca \<and> obj s = f ca))"
proof (rule endsI)
  fix s x s' assume q: "Q (obj s)" and run: "ca_update_status E f s = (Inr x, s')"
  have "\<exists>ca cs. Q ca \<and> obj s' = f ca \<and> hist s' = hist s @ cs @ [CaStatusUpdate (f ca)] \<and> list_all reports cs"
    by (rule ca_update_status_ok [where Q = Q, OF run q]) (erule (1) assms(1), erule assms(2))
  then show "CaStatusUpdate (obj s') \<in> set (hist s') \<and> (\<exists>ca. Q ca \<and> obj s' = f ca)" by force
qed

end
