(* ===== verification/CAFailure.thy ===== *)
theory CAFailure
  imports CAProps
begin

text \<open>
  A setup Job that failed for good: what a reconcile of its CertificateAuthority reports, with an
  environment in which the whole reconcile is run.
\<close>

section \<open>A setup that failed for good\<close>

text \<open>A resource of the cluster that is neither being deleted nor paused and whose budget is spent.\<close>

definition spent :: "string \<Rightarrow> CertificateAuthority \<Rightarrow> bool" where
  "spent n ca = (ca_name ca = n \<and> m_DeletionTimestamp (ca_Meta ca) = None \<and> \<not> isPaused (ca_Meta ca) \<and>
     as_External (ca_Spec ca) = None \<and> maxSetupAttempts \<le> setupAttempts ca)"

lemma spent_fetched: "spent n ca \<Longrightarrow> ca_name old = n \<Longrightarrow> spent n (fetched old ca)"
  by (simp add: spent_def fetched_def isPaused_def setupAttempts_def)

lemma spent_status: "spent n (with_ca_status g ca) = spent n ca"
  by (simp add: spent_def with_ca_status_def setupAttempts_def)

lemma spent_changes:
  "spent n (set_ca_phase p ca) = spent n ca" "spent n (set_ca_cond L t v r m ca) = spent n ca"
  "spent n (ca_is_ready L a b c d ca) = spent n ca"
  by (simp_all add: set_ca_phase_def set_ca_cond_def ca_is_ready_def spent_status)

definition failed_setup :: "ca_env \<Rightarrow> string \<Rightarrow> Config \<Rightarrow> bool" where
  "failed_setup E n cfg \<longleftrightarrow> kube_laws (ae_lib E) \<and>
     (\<forall>h. \<exists>ca. ae_get E h n = Inr ca \<and> spent n (ca \<lparr> ca_Meta := (ca_Meta ca) \<lparr> m_Name := n \<rparr> \<rparr>)) \<and>
     (\<forall>h. ae_listConfigsOf E h n = Inr [cfg]) \<and>
     (\<forall>h. \<exists>e. ae_getSecret E h (n @ ''-ca'') = Inl e) \<and>
     (\<forall>h. \<exists>job. ae_getJob E h (n @ ''-ca-setup'') = Inr job \<and>
        first_image job = im_Repository (cf_Image (cfg_Spec cfg)) @ '':'' @ im_Tag (cf_Image (cfg_Spec cfg)) \<and>
        job_Succeeded job \<le> 0 \<and> find job_failed (job_Conditions job) \<noteq> None)"

lemma failed_read:
  "failed_setup E n cfg \<Longrightarrow> spent n old \<Longrightarrow> ae_get E h (ca_name old) = Inr ca \<Longrightarrow> spent n (fetched old ca)"
  unfolding failed_setup_def
  by (auto simp: spent_def fetched_def isPaused_def setupAttempts_def dest!: spec [of _ h])

lemma spent_update:
  "failed_setup E n cfg \<Longrightarrow> (\<And>ca. spent n ca \<Longrightarrow> spent n (f ca)) \<Longrightarrow>
   keeps (\<lambda>s. spent n (obj s)) (ca_update_status E f)"
  by (rule keeps_ca_update_status) (auto dest: failed_read)

lemma give_up_result: "giveUpOnSetupJob E jn fl k s = (Inr r, s') \<Longrightarrow> r = Result 0"
  unfolding giveUpOnSetupJob_def Let_def by (elim bnd_InrE thn_InrE) (auto dest: ret_InrE)

text \<open>The setup step gives up without an error and without a delay.\<close>

lemma setup_gives_up:
  assumes "failed_setup E n cfg" "spent n (obj s)" "reconcileCASetupJob E cfg certs s = (Inr r, s')"
  shows "r = Result 0 \<and> spent n (obj s')"
proof -
  let ?I = "\<lambda>s. spent n (obj s)"
  note upd = spent_update [OF assms(1)]
  have phase: "keeps ?I (ca_update_status E (set_ca_phase CAInitializing))"
    by (rule upd) (simp add: spent_changes)
  have giveup: "keeps ?I (giveUpOnSetupJob E jn fl k)" for jn fl k
    unfolding giveUpOnSetupJob_def Let_def by (intro keeps_rules ca_keeps upd) (simp add: spent_changes)
  have name: "ca_name (obj s) = n" using assms(2) by (simp add: spent_def)
  have unready: "isSecretReady (ca_get_secret E) (n @ ''-ca'') k t = (Inr False, t \<lparr> hist := hist t @ [CaGetSecret (n @ ''-ca'')] \<rparr>)"
    for t k
  proof -
    obtain e where "ae_getSecret E (hist t) (n @ ''-ca'') = Inl e"
      using assms(1) unfolding failed_setup_def by blast
    then show ?thesis
      by (simp add: isSecretReady_def ca_get_secret_def bnd_def outcome_def call_def ret_def)
  qed
  let ?s0 = "s \<lparr> hist := hist s @ [CaGetSecret (n @ ''-ca'')] \<rparr>"
  obtain u s1 where s1: "ca_update_status E (set_ca_phase CAInitializing) ?s0 = (u, s1)"
    by (cases "ca_update_status E (set_ca_phase CAInitializing) ?s0")
  then have s1': "snd (ca_update_status E (set_ca_phase CAInitializing) ?s0) = s1" by simp
  have "?I ?s0" using assms(2) by simp
  with s1 have "?I s1" using keepsD [OF phase] by blast
  let ?jn = "n @ ''-ca-setup''"
  let ?s2 = "s1 \<lparr> hist := hist s1 @ [CaGetJob ?jn] \<rparr>"
  obtain job1 where "ae_getJob E (hist s1) ?jn = Inr job1" using assms(1) unfolding failed_setup_def by blast
  then have "bnd (buildCASetupJob E cfg ?jn certs) (\<lambda>job. reconcileJob E ?jn job (n @ ''-ca'')) ?s2 = (Inr r, s')"
    using assms(3)
    by (simp add: reconcileCASetupJob_def run_steps call_steps name unready s1' bnd_at [of "isSecretReady G K L" for G K L]
        ca_secret_name_def setup_name_def awaits_ca_server_def Let_def)
  then obtain job s3 where job: "buildCASetupJob E cfg ?jn certs ?s2 = (Inr job, s3)"
    and run: "reconcileJob E ?jn job (n @ ''-ca'') s3 = (Inr r, s')"
    by (rule bnd_InrE)
  have "keeps ?I (buildCASetupJob E cfg ?jn certs)" by (rule keeps_build_job)
  moreover have "?I ?s2" using \<open>?I s1\<close> by simp
  ultimately have "?I s3" using job by (rule keepsD)
  then have att: "maxSetupAttempts \<le> setupAttempts (obj s3)" by (simp add: spent_def)
  have img: "first_image job = im_Repository (cf_Image (cfg_Spec cfg)) @ '':'' @ im_Tag (cf_Image (cfg_Spec cfg))"
    using job by (auto simp: buildCASetupJob_def bnd_def reads_def ret_def setup_job_def first_image_def
        setup_container_def blank_container_def split: prod.splits sum.splits)
  obtain job2 where job2: "ae_getJob E (hist s3) ?jn = Inr job2"
      "first_image job2 = first_image job" "job_Succeeded job2 \<le> 0" "find job_failed (job_Conditions job2) \<noteq> None"
    using assms(1) img unfolding failed_setup_def by metis
  obtain c where c: "find job_failed (job_Conditions job2) = Some c" using job2(4) by blast
  have "first_image (job2 \<lparr> job_Meta := m \<rparr>) = first_image job" for m
    using job2(2) by (simp add: first_image_def)
  then have "giveUpOnSetupJob E ?jn (jobFailureMessage c) (setupAttempts (obj s3))
      (s3 \<lparr> hist := hist s3 @ [CaGetJob ?jn] \<rparr>) = (Inr r, s')"
    using run job2 c att
    by (simp add: reconcileJob_def run_steps call_steps Let_def retrySetupJob_def)
  moreover have "?I (s3 \<lparr> hist := hist s3 @ [CaGetJob ?jn] \<rparr>)" using \<open>?I s3\<close> by simp
  ultimately show ?thesis using keepsD [OF giveup] give_up_result by blast
qed

lemma keeps_adopt_secrets [ca_keeps]: "keeps (\<lambda>s. Q (obj s)) (adopt_secrets E)"
  unfolding adopt_secrets_def by (intro keeps_rules ca_keeps)

text \<open>The status that is announced is the change of some state of the resource with the invariant.\<close>

lemma announced:
  assumes "\<And>h old ca. Q old \<Longrightarrow> ae_get E h (ca_name old) = Inr ca \<Longrightarrow> Q (fetched old ca)"
    and "\<And>ca a b c. Q ca \<Longrightarrow> Q (ca_is_ready (ae_lib E) a b c notAfter ca)"
  shows "ends (\<lambda>s. Q (obj s)) (announce_ready E certs notAfter)
    (\<lambda>_ s. CaStatusUpdate (obj s) \<in> set (hist s) \<and>
       (\<exists>a b c ca. Q ca \<and> obj s = ca_is_ready (ae_lib E) a b c notAfter ca))"
proof -
  let ?R = "\<lambda>s. CaStatusUpdate (obj s) \<in> set (hist s) \<and>
     (\<exists>a b c ca. Q ca \<and> obj s = ca_is_ready (ae_lib E) a b c notAfter ca)"
  have update: "ends (\<lambda>s. Q (obj s)) (ca_update_status E (ca_is_ready (ae_lib E) a b c notAfter)) (\<lambda>_. ?R)" for a b c
    by (rule ends_weaken [OF ca_update_status_ends [where Q = Q]]) (erule (1) assms(1), erule assms(2), auto)
  have event: "ends ?R (if p then ret () else ca_event k r m) (\<lambda>_. ?R)" for p k r m
    by (rule ends_keeps, intro keeps_rules) (auto simp: keeps_def ca_event_def call_def)
  show ?thesis
    unfolding announce_ready_def
    by (rule ends_bnd_keeps [OF keeps_reads], rule ends_bnd_keeps [OF keeps_signing_secret],
        rule ends_thn [OF ends_wrapping [OF update] event])
qed

lemma ready_after_failure:
  assumes "failed_setup E n cfg"
  shows "ends (\<lambda>s. spent n (obj s)) (report_ready E certs)
    (\<lambda>_ s. CaStatusUpdate (obj s) \<in> set (hist s) \<and> at_Phase (ca_Status (obj s)) = CAReadyPhase \<and>
       IsStatusConditionTrue (ae_lib E) (at_Conditions (ca_Status (obj s))) ConditionCAReady)"
    (is "ends ?I _ (\<lambda>_. ?Q)")
proof -
  have laws: "kube_laws (ae_lib E)" using assms by (simp add: failed_setup_def)
  have missing: "ends (\<lambda>s. ?I s \<and> obj s = ca) (extractCANotAfter E (ca_secret_name ca)) (\<lambda>x s. x = None \<and> ?I s)" for ca
  proof (rule endsI)
    fix s x s' assume "?I s \<and> obj s = ca" and run: "extractCANotAfter E (ca_secret_name ca) s = (Inr x, s')"
    then have name: "ca_secret_name ca = n @ ''-ca''" and "?I s" by (auto simp: spent_def ca_secret_name_def)
    obtain e where "ae_getSecret E (hist s) (n @ ''-ca'') = Inl e" using assms unfolding failed_setup_def by blast
    then show "x = None \<and> ?I s'" using run \<open>?I s\<close>
      by (auto simp: name extractCANotAfter_def ca_get_secret_def bnd_def outcome_def call_def ret_def)
  qed
  have last: "ends (\<lambda>s. CaStatusUpdate (obj s) \<in> set (hist s) \<and>
        (\<exists>a b c ca. spent n ca \<and> obj s = ca_is_ready (ae_lib E) a b c None ca))
      (after_ready E certs) (\<lambda>_. ?Q)"
    by (rule endsI) (auto simp: after_ready_def bnd_steps ret_def ca_is_ready_def set_ca_cond_def with_ca_status_def
        kube_laws.condition_set_true [OF laws])
  have announce: "ends ?I (announce_ready E certs None)
      (\<lambda>_ s. CaStatusUpdate (obj s) \<in> set (hist s) \<and>
        (\<exists>a b c ca. spent n ca \<and> obj s = ca_is_ready (ae_lib E) a b c None ca))"
    by (rule announced) (auto simp: spent_changes dest: failed_read [OF assms])
  show ?thesis
    unfolding report_ready_def
    by (rule ends_thn_keeps [OF keeps_adopt_secrets], rule ends_reads, rule ends_bnd [OF missing], rule ends_pure, hypsubst,
        rule ends_thn [OF announce last])
qed

lemma internal_after_failure:
  assumes "failed_setup E n cfg"
  shows "ends (\<lambda>s. spent n (obj s)) (reconcile_internal E)
    (\<lambda>_ s. CaStatusUpdate (obj s) \<in> set (hist s) \<and> at_Phase (ca_Status (obj s)) = CAReadyPhase \<and>
       IsStatusConditionTrue (ae_lib E) (at_Conditions (ca_Status (obj s))) ConditionCAReady)"
    (is "ends ?I _ (\<lambda>_. ?Q)")
proof -
  have list: "ae_listConfigsOf E h n = Inr [cfg]" for h using assms by (simp add: failed_setup_def)
  have found: "ends ?I (findConfigForCA E) (\<lambda>x s. x = Some cfg \<and> ?I s)"
  proof (rule endsI)
    fix s x s' assume "?I s" and run: "findConfigForCA E s = (Inr x, s')"
    then have "ca_name (obj s) = n" by (simp add: spent_def)
    then show "x = Some cfg \<and> ?I s'" using run \<open>?I s\<close>
      by (auto simp: list findConfigForCA_def bnd_def reads_def wrapping_def call_def thn_def ret_def)
  qed
  have job: "ends ?I (reconcileCASetupJob E cfg certs) (\<lambda>r s. r = Result 0 \<and> ?I s)" for certs
    by (rule endsI) (blast dest: setup_gives_up [OF assms])
  have rest: "ends ?I (bnd (wrapping ''reconciling CA setup job'' (reconcileCASetupJob E cfg certs)) (\<lambda>result.
      if RequeueAfter result > 0 then ret result else report_ready E certs)) (\<lambda>_. ?Q)" for certs
    by (rule ends_bnd [OF ends_wrapping [OF job]], rule ends_pure) (simp add: ready_after_failure [OF assms])
  have steps: "ends ?I (thn (wrapping ''reconciling CA PVC'' (reconcileCAPVC E))
         (bnd (wrapping ''finding certificates for CA'' (findCertificatesForCA E)) (\<lambda>certs.
         thn (wrapping ''reconciling CA Service'' (reconcileCAService E))
         (thn (wrapping ''reconciling CA setup RBAC'' (reconcileCASetupRBAC E certs))
         (bnd (wrapping ''reconciling CA setup job'' (reconcileCASetupJob E cfg certs)) (\<lambda>result.
         if RequeueAfter result > 0 then ret result else report_ready E certs)))))) (\<lambda>_. ?Q)"
    by (intro ends_thn_keeps ends_bnd_keeps rest keeps_wrapping ca_keeps)
  show ?thesis
    unfolding reconcile_internal_def
    by (rule ends_bnd [OF found], rule ends_pure, rule ends_bnd_keeps [OF keeps_reads]) (simp add: steps)
qed

lemma spent_finalizer: "spent n (edit_meta (\<lambda>m. m \<lparr> m_Finalizers := fs \<rparr>) ca) = spent n ca"
  by (simp add: spent_def edit_meta_def isPaused_def setupAttempts_def)

lemma spent_ensure_finalizer:
  assumes "kube_laws (ae_lib E)"
  shows "keeps (\<lambda>s. spent n (obj s)) (ensure_ca_finalizer E)"
proof -
  have "spent n (edit_meta (\<lambda>m. AddFinalizer (ae_lib E) m f) ca) = spent n ca" for ca f
  proof -
    obtain fs where "AddFinalizer (ae_lib E) (ca_Meta ca) f = (ca_Meta ca) \<lparr> m_Finalizers := fs \<rparr>"
      using kube_laws.finalizer_only [OF assms] by blast
    then show ?thesis using spent_finalizer [of n fs ca] by (simp add: edit_meta_def)
  qed
  then have "keeps (\<lambda>s. spent n (obj s)) (ca_patch E (edit_meta (\<lambda>m. AddFinalizer (ae_lib E) m f)))" for f
    unfolding ca_patch_def mutate_obj_def
    by (intro keeps_rules) (simp_all add: keeps_def call_def modify_def)
  then show ?thesis unfolding ensure_ca_finalizer_def by (intro keeps_rules)
qed

lemma spent_not_paused:
  assumes "failed_setup E n cfg"
  shows "ends (\<lambda>s. spent n (obj s)) (pause_ca E) (\<lambda>p s. \<not> p \<and> spent n (obj s))"
proof -
  let ?I = "\<lambda>s. spent n (obj s)"
  have upd: "keeps ?I (ca_update_status E (with_ca_status g))" for g
    by (rule spent_update [OF assms]) (simp add: spent_status)
  show ?thesis
  proof (rule endsI)
    fix s p s' assume i: "?I s" and run: "pause_ca E s = (Inr p, s')"
    then have "\<not> isPaused (ca_Meta (obj s))" by (simp add: spent_def)
    then show "\<not> p \<and> ?I s'" using run i
      by (auto simp: pause_ca_def run_steps reconcilePauseState_def ret_def split: if_splits prod.splits sum.splits
          dest: keepsD [OF upd])
  qed
qed

text \<open>C12: A CertificateAuthority whose setup Job failed for good, with all attempts used up, is
  reported Ready by a reconcile that ends without an error: the condition SetupFailed and the phase
  Error that the setup step wrote are overwritten, on the API server, by the phase Ready and the
  condition CAReady True, while the Secret of the CA does not exist.\<close>

theorem failed_setup_reported_ready:
  assumes "failed_setup E n cfg" "ca_name (obj s) = n" "Reconcile_ca E s = (Inr r, s')"
  shows "CaStatusUpdate (obj s') \<in> set (hist s') \<and> at_Phase (ca_Status (obj s')) = CAReadyPhase \<and>
    IsStatusConditionTrue (ae_lib E) (at_Conditions (ca_Status (obj s'))) ConditionCAReady"
    (is "?Q s'")
proof -
  let ?I = "\<lambda>s. spent n (obj s)"
  have laws: "kube_laws (ae_lib E)" using assms(1) by (simp add: failed_setup_def)
  have pending: "keeps ?I (pending_ca E)" unfolding pending_ca_def
    by (intro keeps_rules spent_update [OF assms(1)]) (simp add: spent_changes)
  have inner: "ends ?I (bnd (reads obj) (\<lambda>ca'. case as_External (ca_Spec ca') of
      Some ext \<Rightarrow> reconcileExternalCA E ext | None \<Rightarrow> reconcile_internal E)) (\<lambda>_. ?Q)"
    using internal_after_failure [OF assms(1)] by (auto simp: ends_def bnd_steps spent_def)
  have after: "ends ?I (bnd (pause_ca E) (\<lambda>paused. if paused then ret (Result 0) else
      thn (pending_ca E) (bnd (reads obj) (\<lambda>ca'. case as_External (ca_Spec ca') of
        Some ext \<Rightarrow> reconcileExternalCA E ext | None \<Rightarrow> reconcile_internal E)))) (\<lambda>_. ?Q)"
    by (rule ends_bnd [OF spent_not_paused [OF assms(1)]], rule ends_pure)
      (simp add: ends_thn_keeps [OF pending inner])
  have steps: "ends ?I (thn (ensure_ca_finalizer E) (bnd (pause_ca E) (\<lambda>paused. if paused then ret (Result 0) else
      thn (pending_ca E) (bnd (reads obj) (\<lambda>ca'. case as_External (ca_Spec ca') of
        Some ext \<Rightarrow> reconcileExternalCA E ext | None \<Rightarrow> reconcile_internal E))))) (\<lambda>_. ?Q)"
    by (rule ends_thn_keeps [OF spent_ensure_finalizer [OF laws] after])
  obtain ca where ca: "ae_get E (hist s) n = Inr ca" "spent n (ca \<lparr> ca_Meta := (ca_Meta ca) \<lparr> m_Name := n \<rparr> \<rparr>)"
    using assms(1) unfolding failed_setup_def by blast
  then have i: "?I \<lparr> hist = hist s @ [CaGet n], obj = fetched (obj s) ca \<rparr>"
    using assms(2) by (simp add: spent_def fetched_def isPaused_def setupAttempts_def)
  then have "m_DeletionTimestamp (ca_Meta (fetched (obj s) ca)) = None" by (simp add: spent_def)
  then show ?thesis
    using assms(3) ca(1) by (intro endsD [OF steps i]) (simp add: Reconcile_ca_def run_steps refetch_run assms(2))
qed

section \<open>An environment with such a Job\<close>

text \<open>A Job that failed, found on every read, for a CertificateAuthority whose attempts are used up.\<close>

definition failed_demo_job :: Job where
  "failed_demo_job = demo_job \<lparr> job_Conditions := [\<lparr> jc_Type = ''Failed'', jc_Status = ''True'',
     jc_Reason = ''BackoffLimitExceeded'', jc_Message = [] \<rparr>] \<rparr>"

definition failed_demo_env :: ca_env where
  "failed_demo_env = demo_ca_env \<lparr> ae_get := (\<lambda>_ _. Inr (set_attempts 5 demo_authority)),
     ae_getJob := (\<lambda>_ _. Inr failed_demo_job) \<rparr>"

lemma failed_demo_answers:
  "ae_lib failed_demo_env = reference_lib" "ae_retries failed_demo_env = 4"
  "ae_get failed_demo_env h n = Inr (set_attempts 5 demo_authority)"
  "ae_patch failed_demo_env h ca = Inr ()" "ae_updateStatus failed_demo_env h ca = Inr ()"
  "ae_listConfigsOf failed_demo_env h n = Inr [blank_config ''cfg'' ''ns'']"
  "ae_listConfigs failed_demo_env h = Inr []" "ae_listServers failed_demo_env h = Inr []"
  "ae_listCertificates failed_demo_env h = Inr []"
  "ae_getSecret failed_demo_env h n = Inl (Err NotFound ''none'')"
  "ae_getPVC failed_demo_env h n = Inl (Err NotFound ''none'')" "ae_createPVC failed_demo_env h pvc = Inr ()"
  "ae_getService failed_demo_env h n = Inl (Err NotFound ''none'')" "ae_writeService failed_demo_env h svc = Inr ()"
  "ae_getServiceAccount failed_demo_env h n = Inl (Err NotFound ''none'')"
  "ae_createServiceAccount failed_demo_env h sa = Inr ()"
  "ae_getRole failed_demo_env h n = Inl (Err NotFound ''none'')" "ae_writeRole failed_demo_env h role = Inr ()"
  "ae_getRoleBinding failed_demo_env h n = Inl (Err NotFound ''none'')" "ae_writeRoleBinding failed_demo_env h rb = Inr ()"
  "ae_getJob failed_demo_env h n = Inr failed_demo_job" "IsNotFound (Err NotFound ''none'')"
  by (simp_all add: failed_demo_env_def demo_ca_env_def IsNotFound_def)

lemmas demo_simps = yields_def ca_ops failed_demo_answers Let_def own_def reference_lib_def
  set_controller_reference_def new_meta_def

lemma failed_demo: "failed_setup failed_demo_env ''ca'' (blank_config ''cfg'' ''ns'')"
proof -
  have "setupAttempts ((set_attempts 5 demo_authority) \<lparr> ca_Meta := (ca_Meta (set_attempts 5 demo_authority)) \<lparr> m_Name := ''ca'' \<rparr> \<rparr>) = 5"
    using setupAttempts_set [of 5 demo_authority] by (simp add: max_int64_def setupAttempts_def)
  then have "spent ''ca'' ((set_attempts 5 demo_authority) \<lparr> ca_Meta := (ca_Meta (set_attempts 5 demo_authority)) \<lparr> m_Name := ''ca'' \<rparr> \<rparr>)"
    by (simp add: spent_def maxSetupAttempts_def isPaused_def set_attempts_def demo_authority_def blank_ca_def new_meta_def AnnotationSetupAttempts_def AnnotationPaused_def sval_def)
  then show ?thesis
    using reference.kube_laws_axioms by (simp add: failed_setup_def failed_demo_answers failed_demo_job_def demo_job_def setup_job_def first_image_def
        setup_container_def blank_container_def job_failed_def)
qed

text \<open>What every read of that environment leaves in memory.\<close>

definition demo_inv :: "CertificateAuthority \<Rightarrow> bool" where
  "demo_inv ca = (spent ''ca'' ca \<and> at_NotAfter (ca_Status ca) = None)"

lemma demo_changes:
  "demo_inv ca \<Longrightarrow> demo_inv (set_ca_phase p ca)" "demo_inv ca \<Longrightarrow> demo_inv (set_ca_cond L t v r m ca)"
  "demo_inv ca \<Longrightarrow> demo_inv (ca_is_ready L a b c None ca)"
  by (simp_all add: demo_inv_def spent_changes)
    (simp_all add: set_ca_phase_def set_ca_cond_def ca_is_ready_def with_ca_status_def)

lemma demo_fetched: "demo_inv old \<Longrightarrow> demo_inv (fetched old (set_attempts 5 demo_authority))"
  using failed_read [OF failed_demo, of old "[]" "set_attempts 5 demo_authority"]
  by (simp add: demo_inv_def failed_demo_answers)
    (simp add: fetched_def set_attempts_def demo_authority_def blank_ca_def)

lemma quiet_demo:
  "yields (\<lambda>s. Q (obj s)) (reconcileCAPVC failed_demo_env) (\<lambda>_ s. Q (obj s))"
  "yields (\<lambda>s. Q (obj s)) (reconcileCAService failed_demo_env) (\<lambda>_ s. Q (obj s))"
  "yields (\<lambda>s. Q (obj s)) (reconcileCASetupRBAC failed_demo_env certs) (\<lambda>_ s. Q (obj s))"
  "yields (\<lambda>s. Q (obj s)) (adoptSecret failed_demo_env n) (\<lambda>_ s. Q (obj s))"
  "yields (\<lambda>s. Q (obj s)) (findConfigForCA failed_demo_env) (\<lambda>x s. x = Some (blank_config ''cfg'' ''ns'') \<and> Q (obj s))"
  "yields (\<lambda>s. Q (obj s)) (findCertificatesForCA failed_demo_env) (\<lambda>x s. x = [] \<and> Q (obj s))"
  "yields (\<lambda>s. Q (obj s)) (extractCANotAfter failed_demo_env n) (\<lambda>x s. x = None \<and> Q (obj s))"
  by (simp_all add: demo_simps reconcileCAPVC_def data_claim_def reconcileCAService_def ca_service_def blank_service_def
      reconcileCASetupRBAC_def ensureCAServiceAccount_def ensureCARole_def ensureCARoleBinding_def adoptSecret_def
      ca_get_secret_def findConfigForCA_def findCertificatesForCA_def certificates_of_def extractCANotAfter_def)

lemma quiet_signing:
  "yields (\<lambda>s. Q (obj s)) (setup_signing_secret failed_demo_env []) (\<lambda>_ s. Q (obj s))"
  by (simp add: yields_def ca_ops failed_demo_answers Let_def setup_signing_secret_def findCAServerCert_def split: option.splits prod.splits)

lemma demo_status:
  "(\<And>ca. demo_inv ca \<Longrightarrow> demo_inv (f ca)) \<Longrightarrow>
   yields (\<lambda>s. demo_inv (obj s)) (ca_update_status failed_demo_env f) (\<lambda>_ s. demo_inv (obj s))"
  using demo_fetched
  by (auto simp: yields_def ca_update_status_def status_with_retry_def failed_demo_answers numeral_eq_Suc ca_ops refetch_run ca_send_status_def)

lemma demo_gives_up:
  assumes "find job_failed (job_Conditions failed_demo_job) = Some c" "first_image job = first_image failed_demo_job"
    "maxSetupAttempts \<le> setupAttempts (obj s)"
    "giveUpOnSetupJob failed_demo_env jn (jobFailureMessage c) (setupAttempts (obj s))
      (s \<lparr> hist := hist s @ [CaGetJob jn] \<rparr>) = X"
  shows "reconcileJob failed_demo_env jn job sn s = X"
proof -
  have j: "\<not> 0 < job_Succeeded failed_demo_job" by (simp add: failed_demo_job_def demo_job_def setup_job_def)
  have i: "first_image (failed_demo_job \<lparr> job_Meta := m \<rparr>) = first_image failed_demo_job" for m
    by (simp add: first_image_def)
  show ?thesis using assms i j
    by (simp add: reconcileJob_def run_steps call_steps Let_def retrySetupJob_def failed_demo_answers)
qed

lemma demo_setup: "yields (\<lambda>s. demo_inv (obj s)) (reconcileCASetupJob failed_demo_env (blank_config ''cfg'' ''ns'') [])
  (\<lambda>r s. r = Result 0 \<and> demo_inv (obj s))"
proof -
  let ?I = "\<lambda>s. demo_inv (obj s)" and ?cfg = "blank_config ''cfg'' ''ns''"
  have unready: "isSecretReady (ca_get_secret failed_demo_env) n k s = (Inr False, s \<lparr> hist := hist s @ [CaGetSecret n] \<rparr>)" for n k s
    by (simp add: isSecretReady_def ca_get_secret_def bnd_def outcome_def call_def ret_def failed_demo_answers)
  have giveup: "yields ?I (giveUpOnSetupJob failed_demo_env j fl n) (\<lambda>_. ?I)" for j fl n
  proof -
    have "yields ?I (wrapping m (ca_update_status failed_demo_env (\<lambda>c. set_ca_cond L t v r n (set_ca_phase p c)))) (\<lambda>_. ?I)"
      for m L t v r n p by (rule yields_wrapping, rule demo_status) (simp add: demo_changes)
    moreover have "yields ?I (thn (if q then ret () else ca_event k m n) (ret (Result 0))) (\<lambda>_. ?I)" for q k m n
      by (simp add: yields_def ca_event_def ca_ops)
    ultimately have steps: "yields ?I (thn (wrapping m (ca_update_status failed_demo_env (\<lambda>c. set_ca_cond L t v r n (set_ca_phase p c))))
      (thn (if q then ret () else ca_event k m' n') (ret (Result 0)))) (\<lambda>_. ?I)" for m L t v r n p q k m' n' by (rule yields_thn)
    show ?thesis unfolding giveUpOnSetupJob_def Let_def
      by (rule yields_reads, rule yields_weaken [OF steps]) simp_all
  qed
  have build: "\<exists>job s'. buildCASetupJob failed_demo_env ?cfg n [] s = (Inr job, s') \<and> obj s' = obj s \<and>
      first_image job = first_image failed_demo_job" for n s
    by (simp add: buildCASetupJob_def ca_ops failed_demo_answers findCAServerCert_def failed_demo_job_def demo_job_def setup_job_def first_image_def
        setup_container_def blank_container_def split: option.splits prod.splits)
  have run: "\<exists>r. reconcileCASetupJob failed_demo_env ?cfg [] s = (Inr (fst r), snd r) \<and> ?I (snd r)" if i: "?I s" for s
  proof -
    let ?s0 = "s \<lparr> hist := hist s @ [CaGetSecret ''ca-ca''] \<rparr>"
    have "?I ?s0" using i by simp
    then obtain u s1 where s1: "ca_update_status failed_demo_env (set_ca_phase CAInitializing) ?s0 = (Inr u, s1)" "?I s1"
      using yieldsD [OF demo_status [of "set_ca_phase CAInitializing"], of ?s0] demo_changes(1) by blast
    let ?jn = "''ca-ca-setup''"
    obtain job s3 where s3: "buildCASetupJob failed_demo_env ?cfg ?jn [] (s1 \<lparr> hist := hist s1 @ [CaGetJob ?jn] \<rparr>) = (Inr job, s3)"
      "?I s3" "first_image job = first_image failed_demo_job" using build [of ?jn "s1 \<lparr> hist := hist s1 @ [CaGetJob ?jn] \<rparr>"] s1(2) by auto
    let ?s4 = "s3 \<lparr> hist := hist s3 @ [CaGetJob ?jn] \<rparr>"
    have i4: "?I ?s4" and att: "maxSetupAttempts \<le> setupAttempts (obj s3)" using s3(2) by (simp_all add: demo_inv_def spent_def)
    obtain c where c: "find job_failed (job_Conditions failed_demo_job) = Some c"
      by (simp add: failed_demo_job_def job_failed_def)
    let ?G = "giveUpOnSetupJob failed_demo_env ?jn (jobFailureMessage c) (setupAttempts (obj s3)) ?s4"
    have "\<exists>r. ?G = (Inr (fst r), snd r) \<and> ?I (snd r)"
      by (rule yields_run [OF giveup [of ?jn "jobFailureMessage c" "setupAttempts (obj s3)"], of ?s4, OF i4])
    then obtain r where r: "?G = (Inr (fst r), snd r)" and last: "?I (snd r)" by (elim exE conjE)
    have "reconcileJob failed_demo_env ?jn job ''ca-ca'' s3 = (Inr (fst r), snd r)"
      by (rule demo_gives_up [OF c s3(3) att r])
    then have built: "bnd (buildCASetupJob failed_demo_env ?cfg ?jn []) (\<lambda>job. reconcileJob failed_demo_env ?jn job ''ca-ca'')
        (s1 \<lparr> hist := hist s1 @ [CaGetJob ?jn] \<rparr>) = (Inr (fst r), snd r)"
      using s3(1) by (simp add: bnd_def)
    have name: "ca_name (obj s) = ''ca''" using i by (simp add: demo_inv_def spent_def)
    have "snd (ca_update_status failed_demo_env (set_ca_phase CAInitializing) ?s0) = s1" using s1(1) by simp
    then show ?thesis using built last
      by (simp add: reconcileCASetupJob_def run_steps call_steps name unready ca_secret_name_def setup_name_def Let_def
         bnd_at [of "isSecretReady G K L" for G K L] failed_demo_answers awaits_ca_server_def)
  qed
  show ?thesis
    unfolding yields_def
  proof (intro allI impI)
    fix s :: ast assume i: "?I s"
    from run [OF i] obtain r where r: "reconcileCASetupJob failed_demo_env ?cfg [] s = (Inr (fst r), snd r) \<and> ?I (snd r)" ..
    have "spent ''ca'' (obj s)" using i by (simp add: demo_inv_def)
    from setup_gives_up [OF failed_demo this conjunct1 [OF r]] have "fst r = Result 0" by simp
    then show "\<exists>x s'. reconcileCASetupJob failed_demo_env ?cfg [] s = (Inr x, s') \<and> x = Result 0 \<and> ?I s'"
      using r by (intro exI [of _ "fst r"] exI [of _ "snd r"]) simp
  qed
qed

lemma demo_announce: "yields (\<lambda>s. demo_inv (obj s)) (announce_ready failed_demo_env [] None) (\<lambda>_ s. demo_inv (obj s))"
proof -
  let ?I = "\<lambda>s. demo_inv (obj s)"
  have update: "yields ?I (wrapping m (ca_update_status failed_demo_env (ca_is_ready L a b c None))) (\<lambda>_. ?I)" for m L a b c
    by (rule yields_wrapping, rule demo_status) (simp add: demo_changes)
  have event: "yields ?I (if q then ret () else ca_event k m n) (\<lambda>_. ?I)" for q k m n
    by (simp add: yields_def ca_event_def ca_ops)
  have rest: "yields ?I (bnd (setup_signing_secret failed_demo_env []) (\<lambda>n.
      thn (wrapping m (ca_update_status failed_demo_env (ca_is_ready L a b n None)))
        (if q then ret () else ca_event k r t))) (\<lambda>_. ?I)" for m L a b q k r t
    by (rule yields_bnd [OF quiet_signing], rule yields_thn [OF update event])
  show ?thesis unfolding announce_ready_def by (rule yields_reads, rule yields_weaken [OF rest]) simp_all
qed

lemma demo_report: "yields (\<lambda>s. demo_inv (obj s)) (report_ready failed_demo_env []) (\<lambda>_ s. True)"
proof -
  let ?I = "\<lambda>s. demo_inv (obj s)" and ?E = failed_demo_env
  have adopt: "yields ?I (adopt_secrets ?E) (\<lambda>_. ?I)"
    by (simp add: yields_def adopt_secrets_def adoptSecret_def ca_get_secret_def ca_ops failed_demo_answers)
  have after: "yields ?I (after_ready ?E []) (\<lambda>_ _. True)"
    by (simp add: yields_def after_ready_def ca_ops demo_inv_def)
  have rest: "yields ?I (bnd (extractCANotAfter ?E n) (\<lambda>notAfter. thn (announce_ready ?E [] notAfter) (after_ready ?E [])))
     (\<lambda>_ _. True)" for n
    by (rule yields_bnd [OF quiet_demo(7)], rule yields_pure) (simp add: yields_thn [OF demo_announce after])
  show ?thesis unfolding report_ready_def
    by (rule yields_thn [OF adopt], rule yields_reads, rule yields_weaken [OF rest]) simp_all
qed


lemma demo_internal: "yields (\<lambda>s. demo_inv (obj s)) (reconcile_internal failed_demo_env) (\<lambda>_ s. True)"
proof -
  let ?I = "\<lambda>s. demo_inv (obj s)" and ?E = failed_demo_env and ?cfg = "blank_config ''cfg'' ''ns''"
  note quiet = quiet_demo [THEN yields_wrapping]
  have job: "yields ?I (bnd (wrapping m (reconcileCASetupJob ?E ?cfg [])) (\<lambda>result.
      if RequeueAfter result > 0 then ret result else report_ready ?E [])) (\<lambda>_ _. True)" for m
    by (rule yields_bnd [OF yields_wrapping [OF demo_setup]], rule yields_pure) (simp add: demo_report)
  have certs: "yields ?I (bnd (wrapping n (findCertificatesForCA ?E)) (\<lambda>certs.
      thn (wrapping q (reconcileCAService ?E)) (thn (wrapping p (reconcileCASetupRBAC ?E certs))
      (bnd (wrapping m (reconcileCASetupJob ?E ?cfg certs)) (\<lambda>result.
      if RequeueAfter result > 0 then ret result else report_ready ?E certs))))) (\<lambda>_ _. True)" for m n q p
    by (rule yields_bnd [OF quiet(6)], rule yields_pure) (simp add: yields_thn [OF quiet(2)] yields_thn [OF quiet(3)] job)
  have steps: "yields ?I (thn (wrapping r (reconcileCAPVC ?E)) (bnd (wrapping n (findCertificatesForCA ?E)) (\<lambda>certs.
      thn (wrapping q (reconcileCAService ?E)) (thn (wrapping p (reconcileCASetupRBAC ?E certs))
      (bnd (wrapping m (reconcileCASetupJob ?E ?cfg certs)) (\<lambda>result.
      if RequeueAfter result > 0 then ret result else report_ready ?E certs)))))) (\<lambda>_ _. True)" for m n q p r
    by (rule yields_thn [OF quiet(1) certs])
  show ?thesis unfolding reconcile_internal_def
    by (rule yields_bnd [OF quiet_demo(5)], rule yields_pure, rule yields_reads, simp, rule yields_weaken [OF steps]) simp_all
qed

lemma demo_reconcile:
  "\<exists>r. Reconcile_ca failed_demo_env \<lparr> hist = [], obj = demo_authority \<rparr> = (Inr (fst r), snd r)"
proof -
  let ?E = failed_demo_env and ?ca = "fetched demo_authority (set_attempts 5 demo_authority)"
  let ?t = "\<lparr> hist = [CaGet ''ca''], obj = ?ca \<rparr>"
  have name: "ca_name demo_authority = ''ca''" by (simp add: demo_authority_def new_meta_def blank_ca_def)
  have fields: "m_DeletionTimestamp (ca_Meta ?ca) = None" "certificateAuthorityFinalizer \<in> set (m_Finalizers (ca_Meta ?ca))"
      "at_Conditions (ca_Status ?ca) = []" "as_External (ca_Spec ?ca) = None" "\<not> isPaused (ca_Meta ?ca)"
      "at_NotAfter (ca_Status ?ca) = None" "ca_name ?ca = ''ca''" "maxSetupAttempts \<le> setupAttempts ?ca"
    using setupAttempts_set [of 5 demo_authority]
    by (simp_all add: fetched_def set_attempts_def demo_authority_def blank_ca_def new_meta_def isPaused_def
        AnnotationPaused_def AnnotationSetupAttempts_def sval_def setupAttempts_def maxSetupAttempts_def max_int64_def)
  then have inv: "demo_inv ?ca" by (simp add: demo_inv_def spent_def)
  have before: "ensure_ca_finalizer ?E ?t = (Inr (), ?t)" "pause_ca ?E ?t = (Inr False, ?t)"
    using fields by (simp_all add: ensure_ca_finalizer_def pause_ca_def reconcilePauseState_def run_steps ret_def
        failed_demo_answers reference_lib_def)
  have external: "yields (\<lambda>s. demo_inv (obj s)) (bnd (reads obj) (\<lambda>ca'. case as_External (ca_Spec ca') of
      Some ext \<Rightarrow> reconcileExternalCA ?E ext | None \<Rightarrow> reconcile_internal ?E)) (\<lambda>_ _. True)"
    using demo_internal by (simp add: yields_def run_steps demo_inv_def spent_def)
  have pending: "yields (\<lambda>s. demo_inv (obj s)) (pending_ca ?E) (\<lambda>_ s. demo_inv (obj s))"
    unfolding pending_ca_def using yields_wrapping [OF demo_status [of "set_ca_phase CAPending"]] demo_changes(1)
    by (simp add: yields_def run_steps ret_def)
  have "\<exists>r. thn (pending_ca ?E) (bnd (reads obj) (\<lambda>ca'. case as_External (ca_Spec ca') of
      Some ext \<Rightarrow> reconcileExternalCA ?E ext | None \<Rightarrow> reconcile_internal ?E)) ?t = (Inr (fst r), snd r) \<and> True"
    by (rule yields_run [OF yields_thn [OF pending external], of ?t]) (simp add: inv)
  then show ?thesis using fields
    by (simp add: Reconcile_ca_def run_steps refetch_run name failed_demo_answers thn_def [of "ensure_ca_finalizer E" for E]
        bnd_at [of "ensure_ca_finalizer E" for E] bnd_at [of "pause_ca E" for E] before)
qed

theorem failed_setup_reported_ready_witness:
  "\<exists>r. Reconcile_ca failed_demo_env \<lparr> hist = [], obj = demo_authority \<rparr> = (Inr (fst r), snd r) \<and>
     at_Phase (ca_Status (obj (snd r))) = CAReadyPhase"
proof -
  obtain r where r: "Reconcile_ca failed_demo_env \<lparr> hist = [], obj = demo_authority \<rparr> = (Inr (fst r), snd r)"
    using demo_reconcile ..
  have "ca_name (obj \<lparr> hist = [], obj = demo_authority \<rparr>) = ''ca''"
    by (simp add: demo_authority_def new_meta_def blank_ca_def)
  from failed_setup_reported_ready [OF failed_demo this r] r show ?thesis by (intro exI [of _ r]) simp
qed

end
