(* ===== verification/CAGuard.thy ===== *)
theory CAGuard
  imports CAProps
begin

text \<open>
  What the CertificateAuthority controller may not do: let a CA go that Certificates still need,
  build anything for a CA that is deleted or paused, lose an entry of the Secret with the
  revocation lists, or start a Job on Secrets its Role does not cover.
\<close>

section \<open>The guard of a deletion\<close>

definition needs_ca :: "kube_lib \<Rightarrow> CertificateAuthority \<Rightarrow> Certificate \<Rightarrow> bool" where
  "needs_ca L ca cert = (cs_AuthorityRef (c_Spec cert) = ca_name ca \<and>
     m_DeletionTimestamp (c_Meta cert) = None \<and> \<not> IsControlledBy L (c_Meta cert) (ca_Meta ca))"

lemma blocking_none:
  "blocking_names L ca (certificates_of ca certs) = [] \<longleftrightarrow> (\<forall>cert\<in>set certs. \<not> needs_ca L ca cert)"
  by (auto simp: blocking_names_def blocks_deletion_def certificates_of_def needs_ca_def filter_empty_conv)

definition is_patch :: "ca_call \<Rightarrow> bool" where
  "is_patch c = (case c of CaPatch _ \<Rightarrow> True | _ \<Rightarrow> False)"

lemma reports_no_patch: "list_all reports cs \<Longrightarrow> \<not> list_ex is_patch cs"
  by (induction cs) (auto simp: reports_def is_patch_def split: ca_call.splits)

lemma blocked_run:
  "only hist reports (thn (logged (ca_update_status E f)) (thn (ca_event k r m) (ret x)))"
  by (intro only_rules ca_only) (simp_all add: reports_def)

lemma sent_append: "hist s' = hist s @ cs \<Longrightarrow> sent s s' = cs"
  by (simp add: sent_def)

lemma ca_deletion_run:
  assumes "ae_get E (hist s) (ca_name (obj s)) = Inr ca" "m_DeletionTimestamp (ca_Meta ca) = Some t"
    and "Reconcile_ca E s = (r, s')"
  shows "handleDeletion E \<lparr> hist = hist s @ [CaGet (ca_name (obj s))], obj = fetched (obj s) ca \<rparr> = (r, s')"
  using assms by (simp add: Reconcile_ca_def run_steps refetch_run fetched_def)

text \<open>C5: A reconcile of a CertificateAuthority that is being deleted and still has the operator's
  finalizer sends a patch exactly when the Certificates could be listed and none of them needs it:
  each one that names it is being deleted itself or is the CA's own. That patch is the removal of
  the finalizer, so the CA goes; otherwise the finalizer stays, whatever the API server answers to
  the report, and whether or not reconciliation is paused. When the list fails, the reconcile sends
  nothing more and ends with the error.\<close>

theorem ca_deletion_guarded:
  assumes "kube_laws (ae_lib E)"
    and "ae_get E (hist s) (ca_name (obj s)) = Inr ca" "m_DeletionTimestamp (ca_Meta ca) = Some t"
    and "ContainsFinalizer (ae_lib E) (ca_Meta (fetched (obj s) ca)) certificateAuthorityFinalizer"
    and "Reconcile_ca E s = (r, s')"
  shows "(case ae_listCertificates E (hist s @ [CaGet (ca_name (obj s))]) of
      Inl e \<Rightarrow> isl r \<and> sent s s' = [CaGet (ca_name (obj s)), CaListCertificates]
    | Inr certs \<Rightarrow>
        if list_ex (needs_ca (ae_lib E) (fetched (obj s) ca)) certs then \<not> list_ex is_patch (sent s s')
        else \<exists>gone. sent s s' = [CaGet (ca_name (obj s)), CaListCertificates, CaPatch gone] \<and>
          \<not> ContainsFinalizer (ae_lib E) (ca_Meta gone) certificateAuthorityFinalizer)"
proof -
  let ?ca = "fetched (obj s) ca" and ?n = "ca_name (obj s)"
  let ?s1 = "\<lparr> hist = hist s @ [CaGet ?n], obj = ?ca \<rparr>"
  let ?s2 = "\<lparr> hist = hist s @ [CaGet ?n, CaListCertificates], obj = ?ca \<rparr>"
  note deletion = ca_deletion_run [OF assms(2,3,5)]
  show ?thesis
  proof (cases "ae_listCertificates E (hist s @ [CaGet ?n])")
    case (Inl e)
    then have "isl r" "s' = ?s2"
      using deletion assms(4)
      by (auto simp: handleDeletion_def findCertificatesForCA_def run_steps bnd_wrapping bnd_call ret_def)
    then show ?thesis using Inl by (simp add: sent_append)
  next
    case list: (Inr certs)
    let ?names = "blocking_names (ae_lib E) ?ca (certificates_of ?ca certs)"
    have found: "findCertificatesForCA E ?s1 = (Inr (certificates_of ?ca certs), ?s2)"
      using list by (simp add: findCertificatesForCA_def run_steps bnd_call ret_def)
    then have run:  "(if ?names \<noteq> [] then
        thn (logged (ca_update_status E (set_ca_cond (ae_lib E) ConditionCADeletionBlocked ''True''
            ''CertificatesExist'' (blocked_message ?names))))
          (thn (ca_event ''Warning'' ''CADeletionBlocked'' (''Deletion blocked: '' @ blocked_message ?names))
            (ret (Result RequeueIntervalLong)))
      else thn (wrapping (''removing finalizer from CertificateAuthority '' @ ca_name ?ca)
          (ca_patch E (edit_meta (\<lambda>m. RemoveFinalizer (ae_lib E) m certificateAuthorityFinalizer))))
          (ret (Result 0))) ?s2 = (r, s')"
      using deletion
      by (simp only: handleDeletion_def bnd_steps bnd_wrapping found assms(4) world.select_convs Let_def
          not_True_eq_False if_False prod.case sum.case)
    show ?thesis
    proof (cases "?names = []")
      case True
      then have "\<not> list_ex (needs_ca (ae_lib E) ?ca) certs" by (simp add: blocking_none list_ex_iff)
      moreover have "hist s' = hist s @ [CaGet ?n, CaListCertificates,
          CaPatch (edit_meta (\<lambda>m. RemoveFinalizer (ae_lib E) m certificateAuthorityFinalizer) ?ca)]"
        using run True by (auto simp: ca_patch_def ca_ops split: sum.splits)
      ultimately show ?thesis using list kube_laws.finalizer_removed [OF assms(1)]
        by (simp add: sent_append edit_meta_def)
    next
      case False
      then have "list_ex (needs_ca (ae_lib E) ?ca) certs" by (auto simp: blocking_none list_ex_iff)
      moreover obtain cs where "hist s' = hist ?s2 @ cs" "list_all reports cs"
        using onlyD [OF blocked_run run [unfolded if_P [OF False]]] by (elim exE conjE)
      ultimately show ?thesis using list reports_no_patch by (simp add: sent_def is_patch_def)
    qed
  qed
qed

definition deleted_authority :: CertificateAuthority where
  "deleted_authority = demo_authority \<lparr> ca_Meta := (ca_Meta demo_authority) \<lparr> m_DeletionTimestamp := Some 1 \<rparr> \<rparr>"

definition guarded_env :: "Certificate list \<Rightarrow> ca_env" where
  "guarded_env certs = demo_ca_env \<lparr> ae_get := (\<lambda>_ _. Inr deleted_authority),
     ae_listCertificates := (\<lambda>_. Inr certs) \<rparr>"

definition needing_cert :: Certificate where
  "needing_cert = (blank_cert ''web'' ''ns'')
     \<lparr> c_Spec := (c_Spec (blank_cert ''web'' ''ns'')) \<lparr> cs_AuthorityRef := ''ca'' \<rparr> \<rparr>"

theorem ca_deletion_guarded_witness:
  "\<not> list_ex is_patch (sent \<lparr> hist = [], obj = deleted_authority \<rparr>
     (snd (Reconcile_ca (guarded_env [needing_cert]) \<lparr> hist = [], obj = deleted_authority \<rparr>)))"
proof -
  let ?s = "\<lparr> hist = [], obj = deleted_authority \<rparr>" and ?E = "guarded_env [needing_cert]"
  have laws: "kube_laws (ae_lib ?E)" using reference.kube_laws_axioms by (simp add: guarded_env_def demo_ca_env_def)
  have get: "ae_get ?E (hist ?s) (ca_name (obj ?s)) = Inr deleted_authority"
    and list: "ae_listCertificates ?E (hist ?s @ [CaGet (ca_name (obj ?s))]) = Inr [needing_cert]"
    by (simp_all add: guarded_env_def)
  have del: "m_DeletionTimestamp (ca_Meta deleted_authority) = Some 1" by (simp add: deleted_authority_def)
  have fin: "ContainsFinalizer (ae_lib ?E) (ca_Meta (fetched (obj ?s) deleted_authority)) certificateAuthorityFinalizer"
    by (simp add: guarded_env_def demo_ca_env_def reference_lib_def fetched_def deleted_authority_def
        demo_authority_def blank_ca_def new_meta_def)
  have needs: "list_ex (needs_ca (ae_lib ?E) (fetched (obj ?s) deleted_authority)) [needing_cert]"
    by (simp add: guarded_env_def demo_ca_env_def reference_lib_def fetched_def deleted_authority_def demo_authority_def
        needs_ca_def needing_cert_def blank_cert_def blank_ca_def new_meta_def)
  obtain r s' where run: "Reconcile_ca ?E ?s = (r, s')" by (cases "Reconcile_ca ?E ?s")
  from ca_deletion_guarded [OF laws get del fin run] list needs run show ?thesis by simp
qed

section \<open>The Secret with the revocation lists\<close>

text \<open>A call that writes no Secret but with the given list and the old entry of the infrastructure;
  and one that writes no Secret at all.\<close>

definition keeps_infra :: "Secret \<Rightarrow> string \<Rightarrow> ca_call \<Rightarrow> bool" where
  "keeps_infra old crl c = (case c of
     CaUpdateSecret w \<Rightarrow> sget (s_Data w) ''ca_crl.pem'' = Some crl \<and>
       sget (s_Data w) ''infra_crl.pem'' = sget (s_Data old) ''infra_crl.pem''
   | CaCreateSecret w \<Rightarrow> False
   | _ \<Rightarrow> True)"

definition no_secret_written :: "ca_call \<Rightarrow> bool" where
  "no_secret_written c = (case c of CaUpdateSecret _ \<Rightarrow> False | CaCreateSecret _ \<Rightarrow> False | _ \<Rightarrow> True)"

lemma infra_update:
  assumes "\<And>h. ae_getSecret E h n = Inr old"
  shows "only hist (keeps_infra old crl) (updateCRLSecret E n crl)"
proof -
  have get: "ca_get_secret E n s = (Inr (old \<lparr> s_Meta := (s_Meta old) \<lparr> m_Name := n \<rparr> \<rparr>),
      s \<lparr> hist := hist s @ [CaGetSecret n] \<rparr>)" for s
    using assms by (simp add: ca_get_secret_def call_def)
  have written: "keeps_infra old crl (CaUpdateSecret w)"
    if "secret_mutation L owner kind labels [(''ca_crl.pem'', crl)] [''infra_crl.pem'']
      (old \<lparr> s_Meta := m \<rparr>) = Inr w" for w L owner kind labels m
    using secret_mutation_data [OF that, of "''ca_crl.pem''"] secret_mutation_data [OF that, of "''infra_crl.pem''"]
    by (simp add: keeps_infra_def)
  show ?thesis
    unfolding updateCRLSecret_def write_owned_secret_def
    by (intro only_rules onlyI)
      (auto simp: create_or_update_def run_steps get thn_def bnd_call ret_def throw_def keeps_infra_def
        split: sum.splits if_splits dest!: written)
qed

lemma fetch_writes_nothing: "only hist no_secret_written (fetchCRL E url)"
proof -
  have reading: "only hist no_secret_written (ca_get_secret E n)" for n
    by (intro ca_only) (simp add: no_secret_written_def)
  show ?thesis
    unfolding fetchCRL_def caHTTPClientForCA_def buildExternalCAHTTPClient_def getCAPublicCert_def Let_def
    by (intro only_rules reading only_call) (simp_all add: no_secret_written_def)
qed

lemma call_InrE: "call c a s = (Inr x, s') \<Longrightarrow> a (hist s) = Inr x \<and> s' = s \<lparr> hist := hist s @ [c] \<rparr>"
  by (auto simp: call_def)

lemma fetched_answer:
  assumes "fetchCRL E url s = (Inr body, s')"
  shows "\<exists>before client. hist s' = hist s @ before @ [CaHttp client (crl_request url)] \<and>
    list_all no_secret_written before \<and>
    ae_http E (hist s @ before) client (crl_request url) = Inr \<lparr> resp_Status = 200, resp_Body = body \<rparr>"
proof -
  let ?req = "crl_request url"
  define ask where "ask client = (wrapping ''requesting CRL'' (call (CaHttp client ?req) (\<lambda>h. ae_http E h client ?req)) :: http_response aop)" for client
  define build where "build = (wrapping ''building CRL request'' (call (CaNewRequest ?req) (\<lambda>h. ae_newRequest E h ?req)) :: unit aop)"
  define judge where "judge resp = (if resp_Status resp \<noteq> 200 then
       throw (Errorf (''CA returned HTTP '' @ Itoa (int (resp_Status resp)) @ '' for CRL: '' @ resp_Body resp))
     else ret (resp_Body resp) :: string aop)" for resp :: http_response
  have "bnd (wrapping ''creating CA HTTP client'' (caHTTPClientForCA (ae_crypto E) (ca_get_secret E) (obj s)))
      (\<lambda>client. thn build (bnd (ask client) judge)) s = (Inr body, s')"
    using assms unfolding fetchCRL_def Let_def bnd_steps ask_def build_def judge_def .
  then obtain client s1 u s2 resp s3 where
      client: "wrapping ''creating CA HTTP client'' (caHTTPClientForCA (ae_crypto E) (ca_get_secret E) (obj s)) s = (Inr client, s1)"
    and pre: "build s1 = (Inr u, s2)" and asked: "ask client s2 = (Inr resp, s3)" and j: "judge resp s3 = (Inr body, s')"
    by (elim bnd_InrE thn_InrE)
  have ok: "resp_Status resp = 200" "resp_Body resp = body" and s3: "s3 = s'"
    using j by (auto simp: judge_def throw_def ret_def split: if_splits)
  have http: "call (CaHttp client ?req) (\<lambda>h. ae_http E h client ?req) s2 = (Inr resp, s')"
    using asked s3 unfolding ask_def by (auto dest: wrapping_InrE)
  note pre = pre [unfolded build_def]
  have "only hist no_secret_written (wrapping ''creating CA HTTP client'' (caHTTPClientForCA (ae_crypto E) (ca_get_secret E) (obj s)))"
    unfolding caHTTPClientForCA_def buildExternalCAHTTPClient_def getCAPublicCert_def Let_def
    by (intro only_rules only_ca_get_secret) (simp_all add: no_secret_written_def)
  from onlyD [OF this client] obtain cs where cs: "hist s1 = hist s @ cs" "list_all no_secret_written cs" by blast
  have "hist s2 = hist s1 @ [CaNewRequest (crl_request url)]" using call_InrE [OF wrapping_InrE [OF pre]] by simp
  moreover have "hist s' = hist s2 @ [CaHttp client (crl_request url)]" "ae_http E (hist s2) client (crl_request url) = Inr resp"
    using call_InrE [OF http] by simp_all
  ultimately show ?thesis
    using cs ok by (intro exI [of _ "cs @ [CaNewRequest (crl_request url)]"] exI [of _ client])
      (simp add: no_secret_written_def http_response.equality)
qed

text \<open>The calls of a refresh: either no Secret is written, or the list was fetched before.\<close>

definition crl_calls :: "ca_env \<Rightarrow> Secret \<Rightarrow> string \<Rightarrow> ca_call list \<Rightarrow> ca_call list \<Rightarrow> bool" where
  "crl_calls E old url h calls = (list_all no_secret_written calls \<or>
     (\<exists>before client after body. calls = before @ CaHttp client (crl_request url) # after \<and>
        list_all no_secret_written before \<and>
        ae_http E (h @ before) client (crl_request url) = Inr \<lparr> resp_Status = 200, resp_Body = body \<rparr> \<and>
        list_all (keeps_infra old body) after))"

lemma crl_calls_append:
  "crl_calls E old url h calls \<Longrightarrow> list_all no_secret_written cs \<Longrightarrow> crl_calls E old url h (calls @ cs)"
proof -
  have "list_all no_secret_written cs \<Longrightarrow> list_all (keeps_infra old body) cs" for body
    by (auto simp: list_all_iff no_secret_written_def keeps_infra_def split: ca_call.splits)
  then show "crl_calls E old url h calls \<Longrightarrow> list_all no_secret_written cs \<Longrightarrow> crl_calls E old url h (calls @ cs)"
    unfolding crl_calls_def by fastforce
qed

lemma refresh_calls:
  assumes "\<And>h. ae_getSecret E h (ca_crl_secret_name (obj s)) = Inr old" and "reconcileCRLRefresh E s = (r, s')"
  shows "\<exists>calls. hist s' = hist s @ calls \<and> crl_calls E old (ca_base_url (obj s) (ca_ns (obj s))) (hist s) calls"
proof (cases "crl_interval (obj s)")
  case (Inl e)
  then have "s' = s" using assms(2) by (simp add: reconcileCRLRefresh_def bnd_def reads_def throw_def)
  then show ?thesis by (simp add: crl_calls_def)
next
  case (Inr interval)
  let ?ca = "obj s" let ?url = "ca_base_url ?ca (ca_ns ?ca)"
  define store where "store crl = thn (wrapping ''updating CRL secret'' (updateCRLSecret E (ca_crl_secret_name ?ca) crl))
         (thn (ca_event ''Normal'' ''CRLRefreshed''
                (''CRL refreshed successfully, next refresh in '' @ ae_showDuration E interval))
         (ret (Result interval)))" for crl
  have run: "bnd (wrapping ''fetching CRL'' (fetchCRL E ?url)) store s = (r, s')"
    using assms(2) Inr unfolding store_def by (simp add: reconcileCRLRefresh_def bnd_steps)
  obtain f s1 where f: "fetchCRL E ?url s = (f, s1)" by (cases "fetchCRL E ?url s")
  show ?thesis
  proof (cases f)
    case (Inl e)
    then have "s' = s1" using run f by (auto simp: bnd_def wrapping_def)
    then show ?thesis using onlyD [OF fetch_writes_nothing f] by (auto simp: crl_calls_def)
  next
    case body: (Inr body)
    then have st: "store body s1 = (r, s')" using run f by (auto simp: bnd_def wrapping_def)
    have "only hist (keeps_infra old body) (store body)"
      unfolding store_def by (intro only_rules infra_update assms(1) ca_only) (simp add: keeps_infra_def)
    from onlyD [OF this st] obtain cs where cs: "hist s' = hist s1 @ cs" "list_all (keeps_infra old body) cs" by blast
    obtain before client where bc: "hist s1 = hist s @ before @ [CaHttp client (crl_request ?url)]"
      "list_all no_secret_written before"
      "ae_http E (hist s @ before) client (crl_request ?url) = Inr \<lparr> resp_Status = 200, resp_Body = body \<rparr>"
      using fetched_answer [OF f [unfolded body]] by blast
    then show ?thesis using cs
      unfolding crl_calls_def by (intro exI [of _ "before @ CaHttp client (crl_request ?url) # cs"]) auto
  qed
qed

text \<open>C13: Refreshing the revocation list of a CA, also when the refresh fails and is only reported,
  never creates the Secret of the lists anew once it exists, and when it writes it, it writes as
  ca_crl.pem exactly the body that the CA answered with status 200 to the request for the list
  earlier in this refresh, and as infra_crl.pem what the Secret has already.\<close>

theorem crl_refresh_keeps_infra:
  assumes "\<And>h. ae_getSecret E h (ca_crl_secret_name (obj s)) = Inr old"
    and "crl_or_retry E s = (r, s')"
  shows "CaCreateSecret w \<notin> set (sent s s') \<and>
    (CaUpdateSecret w \<in> set (sent s s') \<longrightarrow>
      (\<exists>before client after body.
         sent s s' = before @ CaHttp client (crl_request (ca_base_url (obj s) (ca_ns (obj s)))) # after \<and>
         CaUpdateSecret w \<in> set after \<and>
         ae_http E (hist s @ before) client (crl_request (ca_base_url (obj s) (ca_ns (obj s)))) =
           Inr \<lparr> resp_Status = 200, resp_Body = body \<rparr> \<and>
         sget (s_Data w) ''ca_crl.pem'' = Some body \<and>
         sget (s_Data w) ''infra_crl.pem'' = sget (s_Data old) ''infra_crl.pem''))"
proof -
  let ?url = "ca_base_url (obj s) (ca_ns (obj s))"
  obtain f s1 where f: "reconcileCRLRefresh E s = (f, s1)" by (cases "reconcileCRLRefresh E s")
  let ?rest = "case f of Inl e \<Rightarrow>
        thn (ca_event ''Warning'' ''CRLRefreshFailed'' (''CRL refresh failed: '' @ err_text e)) (ret (Result RequeueIntervalCRL))
      | Inr result \<Rightarrow> ret result"
  have rest: "?rest s1 = (r, s')" using assms(2) f by (simp add: crl_or_retry_def bnd_def outcome_def)
  have "only hist no_secret_written ?rest"
    by (intro only_rules ca_only) (simp add: no_secret_written_def)
  from onlyD [OF this rest] obtain ds where ds: "hist s' = hist s1 @ ds" "list_all no_secret_written ds" by blast
  obtain calls where "hist s1 = hist s @ calls" "crl_calls E old ?url (hist s) calls"
    using refresh_calls [OF assms(1) f] by blast
  then have "crl_calls E old ?url (hist s) (sent s s')" using ds crl_calls_append by (simp add: sent_def)
  then show ?thesis
    unfolding crl_calls_def
  proof (elim disjE exE conjE)
    assume "list_all no_secret_written (sent s s')"
    then show ?thesis by (auto simp: list_all_iff no_secret_written_def)
  next
    fix before client after body
    assume *: "sent s s' = before @ CaHttp client (crl_request ?url) # after" "list_all no_secret_written before"
      "ae_http E (hist s @ before) client (crl_request ?url) = Inr \<lparr> resp_Status = 200, resp_Body = body \<rparr>"
      "list_all (keeps_infra old body) after"
    then have "CaCreateSecret w \<notin> set before" "CaUpdateSecret w \<notin> set before" "CaCreateSecret w \<notin> set after"
      and "CaUpdateSecret w \<in> set after \<Longrightarrow> keeps_infra old body (CaUpdateSecret w)"
      by (auto simp: list_all_iff no_secret_written_def keeps_infra_def)
    then show ?thesis using *(1,3) by (auto simp: keeps_infra_def)
  qed
qed

text \<open>A CA whose Secret has lists already, so that a refresh rewrites it.\<close>

definition revoking_env :: ca_env where
  "revoking_env = demo_ca_env \<lparr> ae_getSecret := (\<lambda>_ _. Inr \<lparr> s_Meta = new_meta ''ca-ca-crl'' ''ns'',
     s_Data = [(''ca_crt.pem'', ''crt''), (''infra_crl.pem'', ''infra'')] \<rparr>) \<rparr>"

lemma fetched_list:
  "ca_name (obj s) = ''ca'' \<Longrightarrow> as_External (ca_Spec (obj s)) = None \<Longrightarrow> fetchCRL revoking_env u s =
    (Inr ''crl'', s \<lparr> hist := hist s @ [CaGetSecret ''ca-ca'', CaNewRequest (crl_request u),
       CaHttp \<lparr> hc_RootCAs = Some ''crt'', hc_Certificate = None, hc_InsecureSkipVerify = False \<rparr> (crl_request u)] \<rparr>)"
  by (simp add: fetchCRL_def caHTTPClientForCA_def getCAPublicCert_def ca_get_secret_def caHTTPClient_def sval_def Let_def
      revoking_env_def demo_ca_env_def ca_ops)

lemma updated_list:
  assumes "ca_Meta (obj s) = ca_Meta demo_authority"
  shows "updateCRLSecret revoking_env ''ca-ca-crl'' ''crl'' s =
    (Inr (), s \<lparr> hist := hist s @ [CaGetSecret ''ca-ca-crl'', CaUpdateSecret
      \<lparr> s_Meta = (new_meta ''ca-ca-crl'' ''ns'')
          \<lparr> m_Labels := caLabels ''ca'', m_OwnerReferences :=
               [\<lparr> or_Kind = ''CertificateAuthority'', or_Name = ''ca'', or_UID = ''u'', or_Controller = True \<rparr>] \<rparr>,
        s_Data = [(''ca_crl.pem'', ''crl''), (''infra_crl.pem'', ''infra'')] \<rparr>] \<rparr>)"
  using assms
  by (simp add: updateCRLSecret_def write_owned_secret_def create_or_update_def secret_mutation_def revoking_env_def demo_ca_env_def
      ca_get_secret_def run_steps bnd_wrapping bnd_call thn_def ret_def call_steps assertControlledBy_def reference_lib_def
      set_controller_reference_def new_meta_def demo_authority_def blank_ca_def carry_over_def sput_def)

theorem crl_refresh_keeps_infra_witness:
  "\<exists>w. CaUpdateSecret w \<in> set (sent \<lparr> hist = [], obj = demo_authority \<rparr>
       (snd (crl_or_retry revoking_env \<lparr> hist = [], obj = demo_authority \<rparr>))) \<and>
     (\<exists>body. sget (s_Data w) ''ca_crl.pem'' = Some body) \<and> sget (s_Data w) ''infra_crl.pem'' = Some ''infra''"
proof -
  let ?s = "\<lparr> hist = [], obj = demo_authority \<rparr>"
  obtain r s' where run: "crl_or_retry revoking_env ?s = (r, s')" by (cases "crl_or_retry revoking_env ?s")
  have get: "ae_getSecret revoking_env h n = Inr \<lparr> s_Meta = new_meta ''ca-ca-crl'' ''ns'',
     s_Data = [(''ca_crt.pem'', ''crt''), (''infra_crl.pem'', ''infra'')] \<rparr>" for h n
    by (simp add: revoking_env_def)
  have name: "ca_name demo_authority = ''ca''" "ca_crl_secret_name demo_authority = ''ca-ca-crl''"
      "as_External (ca_Spec demo_authority) = None" "as_CRLRefreshInterval (ca_Spec demo_authority) = []"
    by (simp_all add: demo_authority_def blank_ca_def new_meta_def ca_crl_secret_name_def)
  have "\<exists>w. CaUpdateSecret w \<in> set (sent ?s s')"
    using run
    by (auto simp: crl_or_retry_def reconcileCRLRefresh_def crl_interval_def run_steps bnd_wrapping fetched_list
        thn_def updated_list name sent_def ca_event_def bnd_call ret_def)
  then obtain w where w: "CaUpdateSecret w \<in> set (sent ?s s')" ..
  from crl_refresh_keeps_infra [OF get run, of w] w run
  have "\<exists>body. sget (s_Data w) ''ca_crl.pem'' = Some body \<and> sget (s_Data w) ''infra_crl.pem'' = Some ''infra''" by auto
  then show ?thesis using w run by (intro exI [of _ w]) simp
qed

section \<open>Nothing is built for a CA that is deleted or paused\<close>

text \<open>The calls that create or change what runs the CA: its volume, its Service, the identity and
  the permissions of the setup Job, the Job, and the operator's own Certificate.\<close>

definition builds :: "ca_call \<Rightarrow> bool" where
  "builds c = (case c of CaCreatePVC _ \<Rightarrow> True | CaCreateService _ \<Rightarrow> True | CaUpdateService _ \<Rightarrow> True
     | CaCreateServiceAccount _ \<Rightarrow> True | CaCreateRole _ \<Rightarrow> True | CaUpdateRole _ \<Rightarrow> True
     | CaCreateRoleBinding _ \<Rightarrow> True | CaUpdateRoleBinding _ \<Rightarrow> True | CaCreateJob _ \<Rightarrow> True
     | CaDeleteJob _ \<Rightarrow> True | CaCreateCertificate _ \<Rightarrow> True | CaCreateSecret _ \<Rightarrow> True
     | CaUpdateSecret _ \<Rightarrow> True | CaHttp _ _ \<Rightarrow> True | _ \<Rightarrow> False)"

lemma idle_deletion: "only hist (\<lambda>c. \<not> builds c) (handleDeletion E)"
  unfolding handleDeletion_def Let_def by (intro only_rules ca_only) (simp_all add: builds_def)

lemma idle_finalizer: "only hist (\<lambda>c. \<not> builds c) (ensure_ca_finalizer E)"
  unfolding ensure_ca_finalizer_def by (intro only_rules ca_only) (simp_all add: builds_def)

lemma only_pause: "(\<And>f. only hs P (update f)) \<Longrightarrow> only hs P (reconcilePauseState L m cs update)"
  by (rule onlyI) (auto simp: reconcilePauseState_def ret_def split: if_splits prod.splits sum.splits dest: onlyD)

lemma idle_pause: "only hist (\<lambda>c. \<not> builds c) (pause_ca E)"
  unfolding pause_ca_def by (intro only_rules only_pause ca_only) (simp_all add: builds_def)

lemma finalizer_keeps_meta:
  assumes "kube_laws (ae_lib E)"
  shows "keeps (\<lambda>s. isPaused (ca_Meta (obj s))) (ensure_ca_finalizer E)"
proof -
  have "isPaused (AddFinalizer (ae_lib E) m f) = isPaused m" for m f
    using kube_laws.finalizer_only(1) [OF assms, of m f] by (auto simp: isPaused_def)
  then have "keeps (\<lambda>s. isPaused (ca_Meta (obj s))) (ca_patch E (edit_meta (\<lambda>m. AddFinalizer (ae_lib E) m f)))" for f
    unfolding ca_patch_def mutate_obj_def
    by (intro keeps_rules) (simp_all add: keeps_def call_def modify_def edit_meta_def)
  then show ?thesis unfolding ensure_ca_finalizer_def by (intro keeps_rules)
qed

lemma paused_stops: "ends (\<lambda>s. isPaused (ca_Meta (obj s))) (pause_ca E) (\<lambda>p _. p)"
  by (rule endsI) (auto simp: pause_ca_def run_steps reconcilePauseState_def ret_def split: if_splits prod.splits sum.splits)

text \<open>C21: A reconcile writes no Secret, Service, volume, role, Job or Certificate and asks the CA for
  nothing while the CertificateAuthority is being deleted or while its reconciliation is paused;
  deletion is handled in both cases.\<close>

theorem ca_builds_only_when_active:
  assumes "kube_laws (ae_lib E)" "ae_get E (hist s) (ca_name (obj s)) = Inr ca"
    and "Reconcile_ca E s = (r, s')" "list_ex builds (sent s s')"
  shows "m_DeletionTimestamp (ca_Meta ca) = None \<and> \<not> isPaused (ca_Meta ca)"
proof (rule ccontr)
  let ?ca = "fetched (obj s) ca"
  let ?s1 = "\<lparr> hist = hist s @ [CaGet (ca_name (obj s))], obj = ?ca \<rparr>"
  assume inactive: "\<not> (m_DeletionTimestamp (ca_Meta ca) = None \<and> \<not> isPaused (ca_Meta ca))"
  have idle: "\<not> list_ex builds (sent s t)" if "hist t = hist ?s1 @ cs" "list_all (\<lambda>c. \<not> builds c) cs" for t cs
    using that by (simp add: sent_def builds_def [of "CaGet n" for n] list_ex_iff list_all_iff)
  have paused: "isPaused (ca_Meta ?ca) = isPaused (ca_Meta ca)" by (simp add: fetched_def isPaused_def)
  show False
  proof (cases "m_DeletionTimestamp (ca_Meta ca) = None")
    case False
    then have "handleDeletion E ?s1 = (r, s')"
      using assms(2,3) by (simp add: Reconcile_ca_def run_steps refetch_run fetched_def)
    from onlyD [OF idle_deletion this] idle assms(4) show False by auto
  next
    case True
    define rest where "rest = thn (pending_ca E) (bnd (reads obj) (\<lambda>ca'. case as_External (ca_Spec ca') of
        Some ext \<Rightarrow> reconcileExternalCA E ext | None \<Rightarrow> reconcile_internal E))"
    have run: "thn (ensure_ca_finalizer E) (bnd (pause_ca E) (\<lambda>p. if p then ret (Result 0) else rest)) ?s1 = (r, s')"
      using True assms(2,3) unfolding rest_def by (simp add: Reconcile_ca_def run_steps refetch_run fetched_def)
    obtain r2 s2 where s2: "ensure_ca_finalizer E ?s1 = (r2, s2)" by (cases "ensure_ca_finalizer E ?s1")
    obtain r3 s3 where s3: "pause_ca E s2 = (r3, s3)" by (cases "pause_ca E s2")
    have "isPaused (ca_Meta (obj s2))"
      using keepsD [OF finalizer_keeps_meta [OF assms(1)], of ?s1] s2 True inactive paused by simp
    then have stop: "r3 = Inr True \<or> (\<exists>e. r3 = Inl e)"
      using endsD [OF paused_stops, of s2] s3 by (cases r3) auto
    obtain cs ds where "hist s2 = hist ?s1 @ cs" "list_all (\<lambda>c. \<not> builds c) cs"
        "hist s3 = hist s2 @ ds" "list_all (\<lambda>c. \<not> builds c) ds"
      using onlyD [OF idle_finalizer s2] onlyD [OF idle_pause s3] by blast
    then have "\<not> list_ex builds (sent s s2)" "\<not> list_ex builds (sent s s3)"
      using idle [of s2 cs] idle [of s3 "cs @ ds"] by simp_all
    moreover have "s' = s2 \<or> s' = s3"
      using run s2 s3 stop by (auto simp: thn_def bnd_def ret_def split: sum.splits)
    ultimately show False using assms(4) by auto
  qed
qed

definition pending_authority :: CertificateAuthority where
  "pending_authority = set_ca_phase CAPending demo_authority"

text \<open>An API server that refuses the volume, the first thing that is built.\<close>

definition full_env :: ca_env where
  "full_env = demo_ca_env \<lparr> ae_get := (\<lambda>_ _. Inr pending_authority),
     ae_createPVC := (\<lambda>_ _. Inl (Errorf ''quota'')) \<rparr>"

theorem ca_builds_only_when_active_witness:
  "list_ex builds (sent \<lparr> hist = [], obj = pending_authority \<rparr>
     (snd (Reconcile_ca full_env \<lparr> hist = [], obj = pending_authority \<rparr>))) \<and> \<not> isPaused (ca_Meta pending_authority)"
proof -
  let ?s = "\<lparr> hist = [], obj = pending_authority \<rparr>"
  have laws: "kube_laws (ae_lib full_env)" using reference.kube_laws_axioms by (simp add: full_env_def demo_ca_env_def)
  have get: "ae_get full_env (hist ?s) (ca_name (obj ?s)) = Inr pending_authority" by (simp add: full_env_def)
  obtain r s' where run: "Reconcile_ca full_env ?s = (r, s')" by (cases "Reconcile_ca full_env ?s")
  have fields: "fetched pending_authority pending_authority = pending_authority"
      "m_DeletionTimestamp (ca_Meta pending_authority) = None" "isPaused (ca_Meta pending_authority) = False"
      "m_Finalizers (ca_Meta pending_authority) = [certificateAuthorityFinalizer]"
      "at_Phase (ca_Status pending_authority) = CAPending" "at_Conditions (ca_Status pending_authority) = []"
      "as_External (ca_Spec pending_authority) = None"
    by (simp_all add: pending_authority_def set_ca_phase_def with_ca_status_def demo_authority_def blank_ca_def new_meta_def
        isPaused_def sval_def fetched_def)
  define n where "n = ca_name pending_authority"
  have pvc: "(\<exists>e. fst (reconcileCAPVC full_env t) = Inl e) \<and>
      (\<exists>p. hist (snd (reconcileCAPVC full_env t)) = hist t @ [CaGetPVC m, CaCreatePVC p])"
    if "m = ca_name (obj t) @ ''-data''" for t m
    using that by (simp add: reconcileCAPVC_def own_def full_env_def demo_ca_env_def IsNotFound_def Let_def ca_ops
        data_claim_def reference_lib_def set_controller_reference_def new_meta_def)
  have "findConfigForCA full_env t = (Inr (Some (blank_config ''cfg'' ''ns'')),
      t \<lparr> hist := hist t @ [CaListConfigsOf (ca_name (obj t))] \<rparr>)" for t
    by (simp add: findConfigForCA_def full_env_def demo_ca_env_def ca_ops)
  then have internal: "\<exists>p. hist (snd (reconcile_internal full_env t)) =
      hist t @ [CaListConfigsOf n, CaGetPVC (n @ ''-data''), CaCreatePVC p]"
    if "ca_name (obj t) = n" for t
    using that pvc [of "n @ ''-data''" "t \<lparr> hist := hist t @ [CaListConfigsOf n] \<rparr>"]
    by (auto simp: reconcile_internal_def run_steps bnd_at [of "findConfigForCA E" for E] thn_def bnd_wrapping
        split: prod.splits)
  let ?t = "\<lparr> hist = [CaGet n], obj = pending_authority \<rparr>"
  have "ae_lib full_env = reference_lib" by (simp add: full_env_def demo_ca_env_def)
  then have "ensure_ca_finalizer full_env ?t = (Inr (), ?t)" "pause_ca full_env ?t = (Inr False, ?t)"
      "pending_ca full_env ?t = (Inr (), ?t)"
    using fields by (simp_all add: ensure_ca_finalizer_def pause_ca_def pending_ca_def run_steps ret_def
        reconcilePauseState_def reference_lib_def)
  moreover from internal [of ?t]
  obtain p where "hist (snd (reconcile_internal full_env ?t)) =
      [CaGet n, CaListConfigsOf n, CaGetPVC (n @ ''-data''), CaCreatePVC p]" by (auto simp: n_def)
  ultimately have "sent ?s s' = [CaGet n, CaListConfigsOf n, CaGetPVC (n @ ''-data''), CaCreatePVC p]"
    using run get fields by (simp add: Reconcile_ca_def run_steps refetch_run thn_def sent_def n_def
        bnd_at [of "ensure_ca_finalizer E" for E] bnd_at [of "pause_ca E" for E] bnd_at [of "pending_ca E" for E])
  then have "list_ex builds (sent ?s s')" by (auto simp: builds_def)
  with ca_builds_only_when_active [OF laws get run] run show ?thesis by simp
qed

end
