(* ===== verification/Workload.thy ===== *)
theory Workload
  imports ConfigApi CertSigning
begin

text \<open>
  What the controllers of Server and Database share: the objects they run a workload with
  (Deployment, PodDisruptionBudget, NetworkPolicy, HorizontalPodAutoscaler), their calls to the
  API server, a child that is created, updated or deleted under the ownership check, the budget
  and the digests of mounted data. The resource itself is reached through an access record, as
  Go's controllers reach it through client.Object.
\<close>

section \<open>Objects of a workload\<close>

record Deployment =
  dep_Meta :: ObjectMeta
  dep_Replicas :: "int option"
  dep_Strategy :: string
  dep_Selector :: "string smap"
  dep_TemplateLabels :: "string smap"
  dep_TemplateAnnotations :: "string smap"
  dep_Pod :: PodSpec
  dep_ReadyReplicas :: int

record PodDisruptionBudgetSpec =
  pds_MinAvailable :: "IntOrString option"
  pds_MaxUnavailable :: "IntOrString option"
  pds_Selector :: "string smap"

record PodDisruptionBudget =
  pd_Meta :: ObjectMeta
  pd_Spec :: PodDisruptionBudgetSpec

text \<open>A rule the operator writes has ports and the labels of the peers (none: everyone); a rule
  of the user is its text.\<close>

datatype IngressRule = PortRule "(string \<times> int) list" "string smap list" | GivenRule string

record NetworkPolicyObjectSpec =
  nps_PodSelector :: "string smap"
  nps_Ingress :: "IngressRule list"
  nps_PolicyTypes :: "string list"

record NetworkPolicy =
  np_Meta :: ObjectMeta
  np_Spec :: NetworkPolicyObjectSpec

record HorizontalPodAutoscalerSpec =
  hs_TargetAPIVersion :: string
  hs_TargetKind :: string
  hs_TargetName :: string
  hs_MinReplicas :: "int option"
  hs_MaxReplicas :: int
  hs_AverageCPU :: int

record HorizontalPodAutoscaler =
  hpa_Meta :: ObjectMeta
  hpa_Spec :: HorizontalPodAutoscalerSpec

section \<open>Calls\<close>

datatype 'o wl_call =
    WGet string | WStatusUpdate 'o
  | WGetConfig string | WGetCertificate string | WGetCA string
  | WGetSecret string | WCreateSecret Secret | WUpdateSecret Secret
  | WGetConfigMap string | WCreateConfigMap ConfigMap | WUpdateConfigMap ConfigMap
  | WGetService string | WCreateService Service | WUpdateService Service
  | WGetDeployment string | WCreateDeployment Deployment | WUpdateDeployment Deployment
  | WGetPDB string | WCreatePDB PodDisruptionBudget | WUpdatePDB PodDisruptionBudget | WDeletePDB string
  | WGetNetworkPolicy string | WCreateNetworkPolicy NetworkPolicy | WUpdateNetworkPolicy NetworkPolicy
  | WDeleteNetworkPolicy string
  | WGetHPA string | WCreateHPA HorizontalPodAutoscaler | WUpdateHPA HorizontalPodAutoscaler | WDeleteHPA string
  | WEvent string string string

record 'o wl_env =
  we_lib :: kube_lib
  we_retries :: nat
  we_quantityValue :: "string \<Rightarrow> int"
  we_get :: "'o wl_call list \<Rightarrow> string \<Rightarrow> err + 'o"
  we_updateStatus :: "'o wl_call list \<Rightarrow> 'o \<Rightarrow> err + unit"
  we_getConfig :: "'o wl_call list \<Rightarrow> string \<Rightarrow> err + Config"
  we_getCertificate :: "'o wl_call list \<Rightarrow> string \<Rightarrow> err + Certificate"
  we_getCA :: "'o wl_call list \<Rightarrow> string \<Rightarrow> err + CertificateAuthority"
  we_getSecret :: "'o wl_call list \<Rightarrow> string \<Rightarrow> err + Secret"
  we_writeSecret :: "'o wl_call list \<Rightarrow> Secret \<Rightarrow> err + unit"
  we_getConfigMap :: "'o wl_call list \<Rightarrow> string \<Rightarrow> err + ConfigMap"
  we_writeConfigMap :: "'o wl_call list \<Rightarrow> ConfigMap \<Rightarrow> err + unit"
  we_getService :: "'o wl_call list \<Rightarrow> string \<Rightarrow> err + Service"
  we_writeService :: "'o wl_call list \<Rightarrow> Service \<Rightarrow> err + unit"
  we_getDeployment :: "'o wl_call list \<Rightarrow> string \<Rightarrow> err + Deployment"
  we_writeDeployment :: "'o wl_call list \<Rightarrow> Deployment \<Rightarrow> err + unit"
  we_getPDB :: "'o wl_call list \<Rightarrow> string \<Rightarrow> err + PodDisruptionBudget"
  we_writePDB :: "'o wl_call list \<Rightarrow> PodDisruptionBudget \<Rightarrow> err + unit"
  we_deletePDB :: "'o wl_call list \<Rightarrow> string \<Rightarrow> err + unit"
  we_getNetworkPolicy :: "'o wl_call list \<Rightarrow> string \<Rightarrow> err + NetworkPolicy"
  we_writeNetworkPolicy :: "'o wl_call list \<Rightarrow> NetworkPolicy \<Rightarrow> err + unit"
  we_deleteNetworkPolicy :: "'o wl_call list \<Rightarrow> string \<Rightarrow> err + unit"
  we_getHPA :: "'o wl_call list \<Rightarrow> string \<Rightarrow> err + HorizontalPodAutoscaler"
  we_writeHPA :: "'o wl_call list \<Rightarrow> HorizontalPodAutoscaler \<Rightarrow> err + unit"
  we_deleteHPA :: "'o wl_call list \<Rightarrow> string \<Rightarrow> err + unit"

type_synonym 'o wst = "('o wl_call, 'o) world"
type_synonym ('o, 'a) wop = "('o wst, err, 'a) op"

text \<open>The parts of client.Object: the kind, the metadata and the conditions of a resource.\<close>

record 'o accessor =
  ac_Kind :: string
  ac_Meta :: "'o \<Rightarrow> ObjectMeta"
  ac_SetMeta :: "ObjectMeta \<Rightarrow> 'o \<Rightarrow> 'o"
  ac_Conditions :: "'o \<Rightarrow> Condition list"
  ac_SetConditions :: "(Condition list \<Rightarrow> Condition list) \<Rightarrow> 'o \<Rightarrow> 'o"

definition wl_event :: "string \<Rightarrow> string \<Rightarrow> string \<Rightarrow> ('o wst, 'e, unit) op" where
  "wl_event kind reason note = call (WEvent kind reason note) (\<lambda>_. Inr ())"

definition wl_refetch :: "'o accessor \<Rightarrow> 'o wl_env \<Rightarrow> ('o, unit) wop" where
  "wl_refetch A E = (\<lambda>s. let m = ac_Meta A (obj s) in
     case call (WGet (m_Name m)) (\<lambda>h. we_get E h (m_Name m)) s of
       (Inl e, s') \<Rightarrow> (Inl e, s')
     | (Inr x, s') \<Rightarrow> (Inr (), s' \<lparr> obj := ac_SetMeta A
         (ac_Meta A x \<lparr> m_Name := m_Name m, m_Namespace := m_Namespace m \<rparr>) x \<rparr>))"

definition wl_send_status :: "'o wl_env \<Rightarrow> ('o, unit) wop" where
  "wl_send_status E = (\<lambda>s. call (WStatusUpdate (obj s)) (\<lambda>h. we_updateStatus E h (obj s)) s)"

definition wl_update_status :: "'o accessor \<Rightarrow> 'o wl_env \<Rightarrow> ('o \<Rightarrow> 'o) \<Rightarrow> ('o, unit) wop" where
  "wl_update_status A E change = status_with_retry (we_retries E) (wl_refetch A E) change (wl_send_status E)"

definition wl_pause :: "'o accessor \<Rightarrow> 'o wl_env \<Rightarrow> ('o, bool) wop" where
  "wl_pause A E = bnd (reads obj) (\<lambda>x.
     reconcilePauseState (we_lib E) (ac_Meta A x) (ac_Conditions A x)
       (\<lambda>f. wl_update_status A E (ac_SetConditions A f)))"

definition wl_cond :: "'o accessor \<Rightarrow> 'o wl_env \<Rightarrow> string \<Rightarrow> string \<Rightarrow> string \<Rightarrow> string \<Rightarrow> 'o \<Rightarrow> 'o" where
  "wl_cond A E typ status reason msg x =
     ac_SetConditions A (\<lambda>cs. SetStatusCondition (we_lib E) cs
       \<lparr> cond_Type = typ, cond_Status = status, cond_Reason = reason, cond_Message = msg,
         cond_ObservedGeneration = m_Generation (ac_Meta A x) \<rparr>) x"

section \<open>A child of the resource\<close>

text \<open>An object of the API server by its kind: how its metadata is reached and how it is read,
  written and deleted.\<close>

record ('s, 'c) child =
  ch_Kind :: string
  ch_Meta :: "'c \<Rightarrow> ObjectMeta"
  ch_SetMeta :: "ObjectMeta \<Rightarrow> 'c \<Rightarrow> 'c"
  ch_Get :: "string \<Rightarrow> ('s, err, 'c) op"
  ch_Create :: "'c \<Rightarrow> ('s, err, unit) op"
  ch_Update :: "'c \<Rightarrow> ('s, err, unit) op"
  ch_Delete :: "string \<Rightarrow> ('s, err, unit) op"

text \<open>A child that is not wanted: deleted if it exists, is controlled by the owner and is still
  there when the delete arrives.\<close>

definition disable_child :: "kube_lib \<Rightarrow> string \<Rightarrow> ObjectMeta \<Rightarrow> ('s, 'c) child \<Rightarrow> string \<Rightarrow>
    ('s, err, unit) op \<Rightarrow> ('s, err, unit) op" where
  "disable_child L ownerKind owner C name deleted =
     bnd (outcome (ch_Get C name)) (\<lambda>r. case r of
       Inl e \<Rightarrow> if IsNotFound e then ret () else throw (wrapf (''getting '' @ ch_Kind C @ '' '' @ name) e)
     | Inr existing \<Rightarrow>
         (case assertControlledBy L (ch_Meta C existing) owner (ch_Kind C) ownerKind of
            Some e \<Rightarrow> throw e
          | None \<Rightarrow>
              bnd (outcome (ch_Delete C name)) (\<lambda>d. case d of
                Inl e \<Rightarrow> if IsNotFound e then deleted
                          else throw (wrapf (''deleting '' @ ch_Kind C @ '' '' @ name) e)
              | Inr _ \<Rightarrow> deleted)))"

text \<open>The callback of CreateOrUpdate: the ownership check, the change, the owner reference.\<close>

definition child_mutation :: "kube_lib \<Rightarrow> string \<Rightarrow> ObjectMeta \<Rightarrow> ('s, 'c) child \<Rightarrow> ('c \<Rightarrow> 'c) \<Rightarrow> 'c \<Rightarrow> err + 'c" where
  "child_mutation L ownerKind owner C edit x =
     (case assertControlledBy L (ch_Meta C x) owner (ch_Kind C) ownerKind of
        Some e \<Rightarrow> Inl e
      | None \<Rightarrow>
          (case SetControllerReference L ownerKind owner (ch_Meta C (edit x)) of
             Inl e \<Rightarrow> Inl e
           | Inr meta \<Rightarrow> Inr (ch_SetMeta C meta (edit x))))"

definition ensure_child :: "kube_lib \<Rightarrow> string \<Rightarrow> ObjectMeta \<Rightarrow> ('s, 'c) child \<Rightarrow> string \<Rightarrow> 'c \<Rightarrow> ('c \<Rightarrow> 'c) \<Rightarrow>
    (operation_result \<Rightarrow> ('s, err, unit) op) \<Rightarrow> ('s, err, unit) op" where
  "ensure_child L ownerKind owner C name blank edit report =
     bnd (wrapping (''reconciling '' @ ch_Kind C @ '' '' @ name)
           (create_or_update (ch_Get C name) blank (child_mutation L ownerKind owner C edit)
              (ch_Create C) (ch_Update C))) report"

section \<open>The children of a workload\<close>

definition config_map_child :: "'o wl_env \<Rightarrow> ('o wst, ConfigMap) child" where
  "config_map_child E = \<lparr> ch_Kind = ''ConfigMap'', ch_Meta = cm_Meta,
     ch_SetMeta = (\<lambda>m x. x \<lparr> cm_Meta := m \<rparr>),
     ch_Get = (\<lambda>n. call (WGetConfigMap n) (\<lambda>h. we_getConfigMap E h n)),
     ch_Create = (\<lambda>x. call (WCreateConfigMap x) (\<lambda>h. we_writeConfigMap E h x)),
     ch_Update = (\<lambda>x. call (WUpdateConfigMap x) (\<lambda>h. we_writeConfigMap E h x)),
     ch_Delete = (\<lambda>_. ret ()) \<rparr>"

definition service_child :: "'o wl_env \<Rightarrow> ('o wst, Service) child" where
  "service_child E = \<lparr> ch_Kind = ''Service'', ch_Meta = svc_Meta,
     ch_SetMeta = (\<lambda>m x. x \<lparr> svc_Meta := m \<rparr>),
     ch_Get = (\<lambda>n. call (WGetService n) (\<lambda>h. we_getService E h n)),
     ch_Create = (\<lambda>x. call (WCreateService x) (\<lambda>h. we_writeService E h x)),
     ch_Update = (\<lambda>x. call (WUpdateService x) (\<lambda>h. we_writeService E h x)),
     ch_Delete = (\<lambda>_. ret ()) \<rparr>"

definition pdb_child :: "'o wl_env \<Rightarrow> ('o wst, PodDisruptionBudget) child" where
  "pdb_child E = \<lparr> ch_Kind = ''PodDisruptionBudget'', ch_Meta = pd_Meta,
     ch_SetMeta = (\<lambda>m x. x \<lparr> pd_Meta := m \<rparr>),
     ch_Get = (\<lambda>n. call (WGetPDB n) (\<lambda>h. we_getPDB E h n)),
     ch_Create = (\<lambda>x. call (WCreatePDB x) (\<lambda>h. we_writePDB E h x)),
     ch_Update = (\<lambda>x. call (WUpdatePDB x) (\<lambda>h. we_writePDB E h x)),
     ch_Delete = (\<lambda>n. call (WDeletePDB n) (\<lambda>h. we_deletePDB E h n)) \<rparr>"

definition network_policy_child :: "'o wl_env \<Rightarrow> ('o wst, NetworkPolicy) child" where
  "network_policy_child E = \<lparr> ch_Kind = ''NetworkPolicy'', ch_Meta = np_Meta,
     ch_SetMeta = (\<lambda>m x. x \<lparr> np_Meta := m \<rparr>),
     ch_Get = (\<lambda>n. call (WGetNetworkPolicy n) (\<lambda>h. we_getNetworkPolicy E h n)),
     ch_Create = (\<lambda>x. call (WCreateNetworkPolicy x) (\<lambda>h. we_writeNetworkPolicy E h x)),
     ch_Update = (\<lambda>x. call (WUpdateNetworkPolicy x) (\<lambda>h. we_writeNetworkPolicy E h x)),
     ch_Delete = (\<lambda>n. call (WDeleteNetworkPolicy n) (\<lambda>h. we_deleteNetworkPolicy E h n)) \<rparr>"

definition hpa_child :: "'o wl_env \<Rightarrow> ('o wst, HorizontalPodAutoscaler) child" where
  "hpa_child E = \<lparr> ch_Kind = ''HorizontalPodAutoscaler'', ch_Meta = hpa_Meta,
     ch_SetMeta = (\<lambda>m x. x \<lparr> hpa_Meta := m \<rparr>),
     ch_Get = (\<lambda>n. call (WGetHPA n) (\<lambda>h. we_getHPA E h n)),
     ch_Create = (\<lambda>x. call (WCreateHPA x) (\<lambda>h. we_writeHPA E h x)),
     ch_Update = (\<lambda>x. call (WUpdateHPA x) (\<lambda>h. we_writeHPA E h x)),
     ch_Delete = (\<lambda>n. call (WDeleteHPA n) (\<lambda>h. we_deleteHPA E h n)) \<rparr>"

text \<open>Deployments and Secrets are written by their own steps; the record names the same calls.\<close>

definition deployment_child :: "'o wl_env \<Rightarrow> ('o wst, Deployment) child" where
  "deployment_child E = \<lparr> ch_Kind = ''Deployment'', ch_Meta = dep_Meta,
     ch_SetMeta = (\<lambda>m x. x \<lparr> dep_Meta := m \<rparr>),
     ch_Get = (\<lambda>n. call (WGetDeployment n) (\<lambda>h. we_getDeployment E h n)),
     ch_Create = (\<lambda>x. call (WCreateDeployment x) (\<lambda>h. we_writeDeployment E h x)),
     ch_Update = (\<lambda>x. call (WUpdateDeployment x) (\<lambda>h. we_writeDeployment E h x)),
     ch_Delete = (\<lambda>_. ret ()) \<rparr>"

definition secret_child :: "'o wl_env \<Rightarrow> ('o wst, Secret) child" where
  "secret_child E = \<lparr> ch_Kind = ''Secret'', ch_Meta = s_Meta,
     ch_SetMeta = (\<lambda>m x. x \<lparr> s_Meta := m \<rparr>),
     ch_Get = (\<lambda>n. call (WGetSecret n) (\<lambda>h. we_getSecret E h n)),
     ch_Create = (\<lambda>x. call (WCreateSecret x) (\<lambda>h. we_writeSecret E h x)),
     ch_Update = (\<lambda>x. call (WUpdateSecret x) (\<lambda>h. we_writeSecret E h x)),
     ch_Delete = (\<lambda>_. ret ()) \<rparr>"

text \<open>The events of a child that has been written or deleted; \<open>what\<close> is the prefix of the reasons.\<close>

definition report_child :: "string \<Rightarrow> string \<Rightarrow> string \<Rightarrow> operation_result \<Rightarrow> ('o, unit) wop" where
  "report_child what kind name result = (case result of
     Created \<Rightarrow> wl_event ''Normal'' (what @ ''Created'') (kind @ '' '' @ name @ '' created'')
   | Updated \<Rightarrow> wl_event ''Normal'' (what @ ''Updated'') (kind @ '' '' @ name @ '' updated'')
   | NoChange \<Rightarrow> ret ())"

definition report_deleted :: "string \<Rightarrow> string \<Rightarrow> string \<Rightarrow> ('o, unit) wop" where
  "report_deleted what kind name =
     wl_event ''Normal'' (what @ ''Deleted'') (kind @ '' '' @ name @ '' deleted'')"

text \<open>The desired object is built first, with an owner reference of its own, whose failure ends
  the step; only its labels and its spec are used.\<close>

definition built :: "'o wl_env \<Rightarrow> string \<Rightarrow> ObjectMeta \<Rightarrow> string \<Rightarrow> ObjectMeta \<Rightarrow> ('o, unit) wop" where
  "built E ownerKind owner what meta =
     thn (wrapping (''setting controller reference on '' @ what)
           (lift (SetControllerReference (we_lib E) ownerKind owner meta))) (ret ())"

section \<open>The disruption budget and the network policy\<close>

definition DefaultPDBMinAvailable :: int where "DefaultPDBMinAvailable = 1"

text \<open>intstr.FromInt32 of the value clamped to 32 bits.\<close>

definition intstrInt :: "int \<Rightarrow> IntOrString" where
  "intstrInt val = IntVal (if val > 2147483647 then 2147483647 else if val < -2147483648 then -2147483648 else val)"

definition pdb_spec :: "string \<Rightarrow> string \<Rightarrow> PDBSpec \<Rightarrow> PodDisruptionBudgetSpec" where
  "pdb_spec label name p =
     (let spec = \<lparr> pds_MinAvailable = None, pds_MaxUnavailable = None, pds_Selector = [(label, name)] \<rparr>
      in case pdb_MinAvailable p of
           Some v \<Rightarrow> spec \<lparr> pds_MinAvailable := Some v \<rparr>
         | None \<Rightarrow>
             (case pdb_MaxUnavailable p of
                Some v \<Rightarrow> spec \<lparr> pds_MaxUnavailable := Some v \<rparr>
              | None \<Rightarrow> spec \<lparr> pds_MinAvailable := Some (intstrInt DefaultPDBMinAvailable) \<rparr>))"

text \<open>reconcilePDB of both controllers; \<open>what\<close> is the prefix of the event reasons.\<close>

definition reconcile_pdb :: "'o wl_env \<Rightarrow> string \<Rightarrow> ObjectMeta \<Rightarrow> string \<Rightarrow> string \<Rightarrow> string smap \<Rightarrow>
    PDBSpec option \<Rightarrow> ('o, unit) wop" where
  "reconcile_pdb E kind owner what label labels spec =
     (let name = m_Name owner; C = pdb_child E in
      case (case spec of Some p \<Rightarrow> if pdb_Enabled p then Some p else None | None \<Rightarrow> None) of
        None \<Rightarrow> disable_child (we_lib E) kind owner C name (report_deleted what (ch_Kind C) name)
      | Some p \<Rightarrow>
          thn (built E kind owner ''PDB'' (new_meta name (m_Namespace owner) \<lparr> m_Labels := labels \<rparr>))
          (ensure_child (we_lib E) kind owner C name
             \<lparr> pd_Meta = new_meta name (m_Namespace owner),
               pd_Spec = \<lparr> pds_MinAvailable = None, pds_MaxUnavailable = None, pds_Selector = [] \<rparr> \<rparr>
             (\<lambda>x. x \<lparr> pd_Meta := (pd_Meta x) \<lparr> m_Labels := labels \<rparr>, pd_Spec := pdb_spec label name p \<rparr>)
             (report_child what (ch_Kind C) name)))"

definition policy_spec :: "string \<Rightarrow> string \<Rightarrow> IngressRule \<Rightarrow> NetworkPolicySpec \<Rightarrow> NetworkPolicyObjectSpec" where
  "policy_spec label name rule n =
     \<lparr> nps_PodSelector = [(label, name)],
       nps_Ingress = rule # map GivenRule (np_AdditionalIngress n),
       nps_PolicyTypes = [''Ingress''] \<rparr>"

definition reconcile_network_policy :: "'o wl_env \<Rightarrow> string \<Rightarrow> ObjectMeta \<Rightarrow> string \<Rightarrow> string \<Rightarrow> string smap \<Rightarrow>
    IngressRule \<Rightarrow> NetworkPolicySpec option \<Rightarrow> ('o, unit) wop" where
  "reconcile_network_policy E kind owner what label labels rule spec =
     (let name = m_Name owner @ ''-netpol''; C = network_policy_child E in
      case (case spec of Some n \<Rightarrow> if np_Enabled n then Some n else None | None \<Rightarrow> None) of
        None \<Rightarrow> disable_child (we_lib E) kind owner C name (report_deleted what (ch_Kind C) name)
      | Some n \<Rightarrow>
          thn (built E kind owner ''NetworkPolicy''
                 (new_meta name (m_Namespace owner) \<lparr> m_Labels := labels \<rparr>))
          (ensure_child (we_lib E) kind owner C name
             \<lparr> np_Meta = new_meta name (m_Namespace owner),
               np_Spec = \<lparr> nps_PodSelector = [], nps_Ingress = [], nps_PolicyTypes = [] \<rparr> \<rparr>
             (\<lambda>x. x \<lparr> np_Meta := (np_Meta x) \<lparr> m_Labels := labels \<rparr>,
                np_Spec := policy_spec label (m_Name owner) rule n \<rparr>)
             (report_child what (ch_Kind C) name)))"

section \<open>Texts of several lines\<close>

definition text_lines :: "string list \<Rightarrow> string" where
  "text_lines ls = concat (map (\<lambda>l. l @ ''\<newline>'') ls)"

section \<open>The init container that copies the certificate\<close>

definition read_only_mount :: "string \<Rightarrow> string \<Rightarrow> VolumeMount" where
  "read_only_mount name path = (mount name path) \<lparr> vm_ReadOnly := True \<rparr>"

definition tls_init_container :: "string \<Rightarrow> string \<Rightarrow> string \<Rightarrow> bool \<Rightarrow> Container" where
  "tls_init_container img policy script readOnly =
     (blank_container ''tls-init'' img policy)
     \<lparr> con_Command := [''sh'', ''-c'', script],
       con_VolumeMounts := [mount ''ssl'' ''/ssl'', read_only_mount ''ssl-cert'' ''/ssl-cert'',
         read_only_mount ''ssl-ca'' ''/ssl-ca''],
       con_SecurityContext := Some (restricted_context readOnly) \<rparr>"

section \<open>Digests of mounted data\<close>

definition config_map_hash :: "'o wl_env \<Rightarrow> string \<Rightarrow> ('o, string) wop" where
  "config_map_hash E name =
     bnd (call (WGetConfigMap name) (\<lambda>h. we_getConfigMap E h name)) (\<lambda>cm.
     ret (hashStringMap (we_lib E) (cm_Data cm)))"

definition secret_hash :: "'o wl_env \<Rightarrow> string \<Rightarrow> ('o, string) wop" where
  "secret_hash E name =
     bnd (call (WGetSecret name) (\<lambda>h. we_getSecret E h name)) (\<lambda>secret.
     ret (hashStringMap (we_lib E) (s_Data secret)))"

definition ready_replicas :: "'o wl_env \<Rightarrow> string \<Rightarrow> ('o, int) wop" where
  "ready_replicas E name =
     bnd (outcome (call (WGetDeployment name) (\<lambda>h. we_getDeployment E h name))) (\<lambda>r. case r of
       Inl e \<Rightarrow> if IsNotFound e then ret 0 else throw (wrapf (''getting Deployment '' @ name) e)
     | Inr d \<Rightarrow> ret (dep_ReadyReplicas d))"

section \<open>References and watches\<close>

text \<open>A reference that is looked up: waiting while it is missing.\<close>

definition referenced :: "string \<Rightarrow> string \<Rightarrow> ('o wl_call) \<Rightarrow> ('o wl_call list \<Rightarrow> err + 'c) \<Rightarrow> ('o, result) wop \<Rightarrow>
    ('c \<Rightarrow> ('o, result) wop) \<Rightarrow> ('o, result) wop" where
  "referenced kind name c answer missing k =
     bnd (outcome (call c answer)) (\<lambda>r. case r of
       Inl e \<Rightarrow> if IsNotFound e then missing else throw (wrapf (''getting '' @ kind @ '' '' @ name) e)
     | Inr x \<Rightarrow> k x)"

text \<open>The requests for the resources that a listing by an index gives; a failed listing is logged.\<close>

definition matching_requests :: "('c \<Rightarrow> ObjectMeta) \<Rightarrow> (string \<Rightarrow> err + 'c list) \<Rightarrow> string \<Rightarrow> (string \<times> string) list" where
  "matching_requests meta listed val =
     (if val = [] then []
      else case listed val of
             Inl _ \<Rightarrow> []
           | Inr xs \<Rightarrow> map (\<lambda>x. (m_Namespace (meta x), m_Name (meta x))) xs)"

text \<open>From a CA over its Certificates to the resources that mount them, each once.\<close>

definition requests_for_ca :: "('c \<Rightarrow> ObjectMeta) \<Rightarrow> (string \<Rightarrow> err + 'c list) \<Rightarrow> (string \<Rightarrow> err + Certificate list) \<Rightarrow>
    string \<Rightarrow> (string \<times> string) list" where
  "requests_for_ca meta listed listCerts caName =
     (case listCerts caName of
        Inl _ \<Rightarrow> []
      | Inr certs \<Rightarrow>
          keep_first [] (concat (map (\<lambda>cert. matching_requests meta listed (m_Name (c_Meta cert))) certs)))"

section \<open>Children under the control of their owner\<close>

text \<open>Calls of a run one by one, each with the calls before it.\<close>

fun guarded :: "('c list \<Rightarrow> 'c \<Rightarrow> bool) \<Rightarrow> 'c list \<Rightarrow> 'c list \<Rightarrow> bool" where
  "guarded P h [] = True"
| "guarded P h (c # cs) = (P h c \<and> guarded P (h @ [c]) cs)"

lemma guarded_append: "guarded P h (cs @ ds) = (guarded P h cs \<and> guarded P (h @ cs) ds)"
  by (induction cs arbitrary: h) auto

definition grown :: "('s \<Rightarrow> 'c list) \<Rightarrow> ('c list \<Rightarrow> 'c \<Rightarrow> bool) \<Rightarrow> 'c list \<Rightarrow> 's \<Rightarrow> bool" where
  "grown hs P h s = (\<exists>cs. hs s = h @ cs \<and> guarded P h cs)"

lemma grown_refl: "grown hs P (hs s) s"
  by (simp add: grown_def)

lemma grown_step: "grown hs P h s \<Longrightarrow> hs s' = hs s @ [c] \<Longrightarrow> P (hs s) c \<Longrightarrow> grown hs P h s'"
  by (auto simp: grown_def guarded_append)

lemma grown_only:
  assumes "only hs Q m" "\<And>h c. Q c \<Longrightarrow> P h c"
  shows "keeps (grown hs P h0) m"
  unfolding keeps_def
proof (intro allI impI)
  fix s assume "grown hs P h0 s"
  then obtain cs where cs: "hs s = h0 @ cs" "guarded P h0 cs" by (auto simp: grown_def)
  obtain ds where ds: "hs (snd (m s)) = hs s @ ds" "list_all Q ds" using assms(1) by (auto simp: only_def)
  have "guarded P h ds" for h using ds(2) assms(2) by (induction ds arbitrary: h) auto
  then show "grown hs P h0 (snd (m s))" using cs ds by (auto simp: grown_def guarded_append)
qed

text \<open>The owner may change what the API server answers for a child.\<close>

definition controls :: "kube_lib \<Rightarrow> string \<Rightarrow> ObjectMeta \<Rightarrow> string \<Rightarrow> ObjectMeta \<Rightarrow> bool" where
  "controls L ownerKind owner kind meta = (assertControlledBy L meta owner kind ownerKind = None)"

text \<open>An interface to children of one kind: reads and creations are allowed calls, and so are an
  update and a deletion right after a read that answered a child of the owner.\<close>

locale owned_child =
  fixes C :: "('s, 'c) child" and hs :: "'s \<Rightarrow> 'call list" and P :: "'call list \<Rightarrow> 'call \<Rightarrow> bool"
    and L :: kube_lib and ownerKind :: string and owner :: ObjectMeta
  assumes get_grown: "keeps (grown hs P h) (ch_Get C n)"
    and create_grown: "keeps (grown hs P h) (ch_Create C x)"
    and update_grown: "ch_Get C n s = (Inr x, s') \<Longrightarrow> controls L ownerKind owner (ch_Kind C) (ch_Meta C x) \<Longrightarrow>
          grown hs P h s' \<Longrightarrow> grown hs P h (snd (ch_Update C y s'))"
    and delete_grown: "ch_Get C n s = (Inr x, s') \<Longrightarrow> controls L ownerKind owner (ch_Kind C) (ch_Meta C x) \<Longrightarrow>
          grown hs P h s' \<Longrightarrow> grown hs P h (snd (ch_Delete C n s'))"
begin

lemma after_get:
  assumes "\<And>e. keeps (grown hs P h) (f (Inl e))"
    and "\<And>s x s'. ch_Get C n s = (Inr x, s') \<Longrightarrow> grown hs P h s' \<Longrightarrow> grown hs P h (snd (f (Inr x) s'))"
  shows "keeps (grown hs P h) (bnd (outcome (ch_Get C n)) f)"
  unfolding keeps_def
proof (intro allI impI)
  fix s assume I: "grown hs P h s"
  obtain a s1 where a: "ch_Get C n s = (a, s1)" by (cases "ch_Get C n s")
  have I1: "grown hs P h s1" by (rule keepsD [OF get_grown I a])
  have "grown hs P h (snd (f a s1))"
  proof (cases a)
    case (Inl e)
    then show ?thesis using assms(1) [of e] I1 by (simp add: keeps_def)
  next
    case (Inr x)
    then show ?thesis using assms(2) [of s x s1] a I1 by simp
  qed
  then show "grown hs P h (snd (bnd (outcome (ch_Get C n)) f s))" using a by (simp add: bnd_def outcome_def)
qed

text \<open>A read, the ownership check and what is done with a child of the owner.\<close>

lemma checked_get:
  assumes "\<And>e. keeps (grown hs P h) (m e)"
    and "\<And>s x s'. ch_Get C n s = (Inr x, s') \<Longrightarrow> controls L ownerKind owner (ch_Kind C) (ch_Meta C x) \<Longrightarrow>
          grown hs P h s' \<Longrightarrow> grown hs P h (snd (k x s'))"
  shows "keeps (grown hs P h) (bnd (outcome (ch_Get C n)) (\<lambda>r. case r of
           Inl e \<Rightarrow> m e
         | Inr x \<Rightarrow> (case assertControlledBy L (ch_Meta C x) owner (ch_Kind C) ownerKind of
             Some e \<Rightarrow> throw e | None \<Rightarrow> k x)))"
  by (rule after_get) (use assms in \<open>auto simp: throw_def controls_def split: option.splits\<close>)

lemma checked_get_wrapped:
  assumes "\<And>s x s'. ch_Get C n s = (Inr x, s') \<Longrightarrow> controls L ownerKind owner (ch_Kind C) (ch_Meta C x) \<Longrightarrow>
          grown hs P h s' \<Longrightarrow> grown hs P h (snd (k x s'))"
  shows "keeps (grown hs P h) (bnd (wrapping msg (ch_Get C n)) (\<lambda>x.
           case assertControlledBy L (ch_Meta C x) owner (ch_Kind C) ownerKind of
             Some e \<Rightarrow> throw e | None \<Rightarrow> k x))"
  unfolding keeps_def
proof (intro allI impI)
  fix s assume "grown hs P h s"
  moreover obtain a s1 where a: "ch_Get C n s = (a, s1)" by (cases "ch_Get C n s")
  ultimately have I1: "grown hs P h s1" by (rule keepsD [OF get_grown])
  with a assms [of s _ s1] show "grown hs P h (snd (bnd (wrapping msg (ch_Get C n)) (\<lambda>x.
           case assertControlledBy L (ch_Meta C x) owner (ch_Kind C) ownerKind of
             Some e \<Rightarrow> throw e | None \<Rightarrow> k x) s))"
    by (cases a) (auto simp: bnd_def wrapping_def throw_def controls_def split: option.splits)
qed

lemma disable_grown:
  assumes "keeps (grown hs P h) deleted"
  shows "keeps (grown hs P h) (disable_child L ownerKind owner C name deleted)"
  unfolding disable_child_def
proof (rule checked_get)
  show "keeps (grown hs P h) (if IsNotFound e then ret () else throw (wrapf (''getting '' @ ch_Kind C @ '' '' @ name) e))" for e
    by (intro keeps_rules)
  fix s x s'
  assume "ch_Get C name s = (Inr x, s')" "controls L ownerKind owner (ch_Kind C) (ch_Meta C x)" "grown hs P h s'"
  then have "grown hs P h (snd (ch_Delete C name s'))" by (rule delete_grown)
  then show "grown hs P h (snd (bnd (outcome (ch_Delete C name)) (\<lambda>d. case d of
       Inl e \<Rightarrow> if IsNotFound e then deleted else throw (wrapf (''deleting '' @ ch_Kind C @ '' '' @ name) e)
     | Inr _ \<Rightarrow> deleted) s'))"
    using assms by (auto simp: bnd_def outcome_def throw_def keeps_def split: prod.splits sum.splits)
qed

text \<open>CreateOrUpdate whose callback refuses what the owner does not control.\<close>

lemma create_or_update_grown:
  assumes refused: "\<And>x. \<not> controls L ownerKind owner (ch_Kind C) (ch_Meta C x) \<Longrightarrow> \<exists>e. m x = Inl e"
  shows "keeps (grown hs P h) (create_or_update (ch_Get C name) blank m (ch_Create C) (ch_Update C))"
  unfolding create_or_update_def
proof (rule after_get)
  show "keeps (grown hs P h) (case Inl e of
     Inl e \<Rightarrow>
       if IsNotFound e then
         (case m blank of Inl e' \<Rightarrow> throw e' | Inr new \<Rightarrow> thn (ch_Create C new) (ret Created))
       else throw e
   | Inr found \<Rightarrow>
       (case m found of
          Inl e' \<Rightarrow> throw e'
        | Inr new \<Rightarrow> if new = found then ret NoChange else thn (ch_Update C new) (ret Updated)))" for e
    unfolding sum.case by (intro keeps_rules create_grown)
next
  fix s x s' assume get: "ch_Get C name s = (Inr x, s')" and I: "grown hs P h s'"
  show "grown hs P h (snd ((case Inr x of
     Inl e \<Rightarrow>
       if IsNotFound e then
         (case m blank of Inl e' \<Rightarrow> throw e' | Inr new \<Rightarrow> thn (ch_Create C new) (ret Created))
       else throw e
   | Inr found \<Rightarrow>
       (case m found of
          Inl e' \<Rightarrow> throw e'
        | Inr new \<Rightarrow> if new = found then ret NoChange else thn (ch_Update C new) (ret Updated))) s'))"
  proof (cases "m x")
    case (Inl e)
    then show ?thesis by (simp add: throw_def I)
  next
    case (Inr new)
    then have "controls L ownerKind owner (ch_Kind C) (ch_Meta C x)" using refused [of x] by auto
    from update_grown [OF get this I, of new] show ?thesis
      using Inr I by (auto simp: thn_def bnd_def ret_def split: prod.splits sum.splits)
  qed
qed

lemma ensure_grown:
  assumes "\<And>r. keeps (grown hs P h) (report r)"
  shows "keeps (grown hs P h) (ensure_child L ownerKind owner C name blank edit report)"
  unfolding ensure_child_def
proof (rule keeps_bnd [OF keeps_wrapping assms], rule create_or_update_grown)
  fix x assume "\<not> controls L ownerKind owner (ch_Kind C) (ch_Meta C x)"
  then show "\<exists>e. child_mutation L ownerKind owner C edit x = Inl e"
    by (auto simp: child_mutation_def controls_def)
qed

end

text \<open>The last call was a read that answered an object with \<open>ok\<close>.\<close>

definition just_read :: "(string \<Rightarrow> 'o wl_call) \<Rightarrow> ('o wl_call list \<Rightarrow> string \<Rightarrow> err + 'c) \<Rightarrow> ('c \<Rightarrow> bool) \<Rightarrow>
    'o wl_call list \<Rightarrow> bool" where
  "just_read read answer ok h = (\<exists>h' n x. h = h' @ [read n] \<and> answer h' n = Inr x \<and> ok x)"

definition owned :: "'o wl_env \<Rightarrow> string \<Rightarrow> ObjectMeta \<Rightarrow> string \<Rightarrow> ('c \<Rightarrow> ObjectMeta) \<Rightarrow> 'c \<Rightarrow> bool" where
  "owned E k owner kind meta x = controls (we_lib E) k owner kind (meta x)"

definition checked_change :: "'o wl_env \<Rightarrow> string \<Rightarrow> ObjectMeta \<Rightarrow> 'o wl_call list \<Rightarrow> 'o wl_call \<Rightarrow> bool" where
  "checked_change E k owner h c =
     (case c of
        WUpdateConfigMap _ \<Rightarrow> just_read WGetConfigMap (we_getConfigMap E) (owned E k owner ''ConfigMap'' cm_Meta) h
      | WUpdateSecret _ \<Rightarrow> just_read WGetSecret (we_getSecret E) (owned E k owner ''Secret'' s_Meta) h
      | WUpdateService _ \<Rightarrow> just_read WGetService (we_getService E) (owned E k owner ''Service'' svc_Meta) h
      | WUpdateDeployment _ \<Rightarrow> just_read WGetDeployment (we_getDeployment E) (owned E k owner ''Deployment'' dep_Meta) h
      | WUpdatePDB _ \<Rightarrow> just_read WGetPDB (we_getPDB E) (owned E k owner ''PodDisruptionBudget'' pd_Meta) h
      | WDeletePDB _ \<Rightarrow> just_read WGetPDB (we_getPDB E) (owned E k owner ''PodDisruptionBudget'' pd_Meta) h
      | WUpdateNetworkPolicy _ \<Rightarrow> just_read WGetNetworkPolicy (we_getNetworkPolicy E) (owned E k owner ''NetworkPolicy'' np_Meta) h
      | WDeleteNetworkPolicy _ \<Rightarrow> just_read WGetNetworkPolicy (we_getNetworkPolicy E) (owned E k owner ''NetworkPolicy'' np_Meta) h
      | WUpdateHPA _ \<Rightarrow> just_read WGetHPA (we_getHPA E) (owned E k owner ''HorizontalPodAutoscaler'' hpa_Meta) h
      | WDeleteHPA _ \<Rightarrow> just_read WGetHPA (we_getHPA E) (owned E k owner ''HorizontalPodAutoscaler'' hpa_Meta) h
      | _ \<Rightarrow> True)"

definition changes_existing :: "'o wl_call \<Rightarrow> bool" where
  "changes_existing c = (case c of
     WUpdateConfigMap _ \<Rightarrow> True | WUpdateSecret _ \<Rightarrow> True | WUpdateService _ \<Rightarrow> True
   | WUpdateDeployment _ \<Rightarrow> True | WUpdatePDB _ \<Rightarrow> True | WDeletePDB _ \<Rightarrow> True
   | WUpdateNetworkPolicy _ \<Rightarrow> True | WDeleteNetworkPolicy _ \<Rightarrow> True
   | WUpdateHPA _ \<Rightarrow> True | WDeleteHPA _ \<Rightarrow> True | _ \<Rightarrow> False)"

lemma checked_other: "\<not> changes_existing c \<Longrightarrow> checked_change E k owner h c"
  by (cases c) (simp_all add: changes_existing_def checked_change_def)

lemma grown_quiet:
  "only hist (\<lambda>c. \<not> changes_existing c) m \<Longrightarrow> keeps (grown hist (checked_change E k owner) h) m"
  by (rule grown_only, assumption, erule checked_other)

lemma grown_call:
  "grown hist P h s \<Longrightarrow> P (hist s) c \<Longrightarrow> grown hist P h (snd (call c a s))"
  by (erule grown_step [where c = c]) (simp_all add: call_def)

lemma just_read_call:
  "call (read n) (\<lambda>h. answer h n) s = (Inr x, s') \<Longrightarrow> ok x \<Longrightarrow> just_read read answer ok (hist s')"
  by (auto simp: call_def just_read_def) blast

lemma quiet_calls:
  "\<not> changes_existing c \<Longrightarrow> keeps (grown hist (checked_change E k owner) h) (call c a)"
  by (rule grown_quiet) (rule only_call)

interpretation pdb: owned_child "pdb_child E" hist "checked_change E k owner" "we_lib E" k owner
  for E :: "'o wl_env" and k owner
  by unfold_locales (auto simp: pdb_child_def checked_change_def changes_existing_def owned_def
      intro!: quiet_calls grown_call elim!: just_read_call)

interpretation netpol: owned_child "network_policy_child E" hist "checked_change E k owner" "we_lib E" k owner
  for E :: "'o wl_env" and k owner
  by unfold_locales (auto simp: network_policy_child_def checked_change_def changes_existing_def owned_def
      intro!: quiet_calls grown_call elim!: just_read_call)

interpretation hpa: owned_child "hpa_child E" hist "checked_change E k owner" "we_lib E" k owner
  for E :: "'o wl_env" and k owner
  by unfold_locales (auto simp: hpa_child_def checked_change_def changes_existing_def owned_def
      intro!: quiet_calls grown_call elim!: just_read_call)

interpretation svc: owned_child "service_child E" hist "checked_change E k owner" "we_lib E" k owner
  for E :: "'o wl_env" and k owner
  by unfold_locales (auto simp: service_child_def checked_change_def changes_existing_def owned_def ret_def
      intro!: quiet_calls grown_call elim!: just_read_call)

interpretation cm: owned_child "config_map_child E" hist "checked_change E k owner" "we_lib E" k owner
  for E :: "'o wl_env" and k owner
  by unfold_locales (auto simp: config_map_child_def checked_change_def changes_existing_def owned_def ret_def
      intro!: quiet_calls grown_call elim!: just_read_call)

interpretation dep: owned_child "deployment_child E" hist "checked_change E k owner" "we_lib E" k owner
  for E :: "'o wl_env" and k owner
  by unfold_locales (auto simp: deployment_child_def checked_change_def changes_existing_def owned_def ret_def
      intro!: quiet_calls grown_call elim!: just_read_call)

interpretation sec: owned_child "secret_child E" hist "checked_change E k owner" "we_lib E" k owner
  for E :: "'o wl_env" and k owner
  by unfold_locales (auto simp: secret_child_def checked_change_def changes_existing_def owned_def ret_def
      intro!: quiet_calls grown_call elim!: just_read_call)

section \<open>Calls that leave existing children alone\<close>

lemma wl_only:
  "P (WEvent k r n) \<Longrightarrow> only hist P (wl_event k r n)"
  "(\<And>n. P (WGet n)) \<Longrightarrow> only hist P (wl_refetch A E)"
  "(\<And>x. P (WStatusUpdate x)) \<Longrightarrow> only hist P (wl_send_status E)"
  "P (WGetConfigMap n) \<Longrightarrow> only hist P (config_map_hash E n)"
  "P (WGetSecret n) \<Longrightarrow> only hist P (secret_hash E n)"
  "P (WGetDeployment n) \<Longrightarrow> only hist P (ready_replicas E n)"
proof -
  show "only hist P (wl_event k r n)" if "P (WEvent k r n)"
    unfolding wl_event_def using that by (rule only_call)
  show "only hist P (wl_refetch A E)" if "\<And>n. P (WGet n)"
    using that by (auto simp: only_def wl_refetch_def call_def Let_def split: sum.splits)
  show "only hist P (wl_send_status E)" if "\<And>x. P (WStatusUpdate x)"
    using that by (auto simp: only_def wl_send_status_def call_def)
  show "only hist P (config_map_hash E n)" if "P (WGetConfigMap n)"
    unfolding config_map_hash_def using that by (intro only_rules only_call)
  show "only hist P (secret_hash E n)" if "P (WGetSecret n)"
    unfolding secret_hash_def using that by (intro only_rules only_call)
  show "only hist P (ready_replicas E n)" if "P (WGetDeployment n)"
    unfolding ready_replicas_def using that by (intro only_rules only_call)
qed

lemma wl_only_update_status:
  "(\<And>n. P (WGet n)) \<Longrightarrow> (\<And>x. P (WStatusUpdate x)) \<Longrightarrow> only hist P (wl_update_status A E f)"
  unfolding wl_update_status_def by (intro only_rules wl_only)

lemma wl_only_pause:
  "(\<And>n. P (WGet n)) \<Longrightarrow> (\<And>x. P (WStatusUpdate x)) \<Longrightarrow> only hist P (wl_pause A E)"
  unfolding wl_pause_def by (intro only_rules wl_only_update_status)

lemma wl_only_report:
  "(\<And>k r n. P (WEvent k r n)) \<Longrightarrow> only hist P (report_child what kind name res)"
  "(\<And>k r n. P (WEvent k r n)) \<Longrightarrow> only hist P (report_deleted what kind name)"
  "only hist P (built E k owner what meta)"
  unfolding report_child_def report_deleted_def built_def
  by (cases res; auto intro!: only_rules wl_only)+

lemma wl_only_referenced:
  "P c \<Longrightarrow> only hist P missing \<Longrightarrow> (\<And>x. only hist P (k x)) \<Longrightarrow> only hist P (referenced kind name c a missing k)"
  unfolding referenced_def by (intro only_rules only_call)

end
