(* ===== verification/ServerPod.thy ===== *)
theory ServerPod
  imports Workload ConfigRender "HOL-Library.Signed_Division"
begin

text \<open>
  The pod of a Server: what helpers.go resolves from the Server and its Config (image, pull
  policy and secrets, code, root filesystem) and buildPodSpec of server_deployment.go with the
  arguments of the JVM, the labels and the mounts.
\<close>

section \<open>Server over Config\<close>

definition resolveCode :: "Server \<Rightarrow> Config \<Rightarrow> CodeSpec list" where
  "resolveCode server cfg = (if sv_Code server \<noteq> [] then sv_Code server else cf_Code (cfg_Spec cfg))"

record codeMount =
  cmt_VolumeName :: string
  cmt_MountPath :: string
  cmt_Spec :: CodeSpec

definition code_mount :: "string \<Rightarrow> nat \<Rightarrow> CodeSpec \<Rightarrow> codeMount" where
  "code_mount envPath i e =
     (if co_Environment e \<noteq> [] then
        \<lparr> cmt_VolumeName = ''code-'' @ Itoa (int i), cmt_MountPath = envPath @ ''/'' @ co_Environment e, cmt_Spec = e \<rparr>
      else if co_MountPath e \<noteq> [] then
        \<lparr> cmt_VolumeName = ''code-'' @ Itoa (int i), cmt_MountPath = co_MountPath e, cmt_Spec = e \<rparr>
      else \<lparr> cmt_VolumeName = ''code'', cmt_MountPath = envPath, cmt_Spec = e \<rparr>)"

definition resolveCodeMounts :: "Server \<Rightarrow> Config \<Rightarrow> codeMount list" where
  "resolveCodeMounts server cfg =
     map (\<lambda>(i, e). code_mount (resolveEnvironmentPath cfg) i e)
       (List.enumerate 0 (resolveCode server cfg))"

definition resolveImage :: "Server \<Rightarrow> Config \<Rightarrow> string" where
  "resolveImage server cfg =
     (let own_img = sv_Image server; img = cf_Image (cfg_Spec cfg) in
      if im_Tag own_img \<noteq> [] \<or> im_Repository own_img \<noteq> [] then
        (if im_Repository own_img \<noteq> [] then im_Repository own_img else im_Repository img) @ '':'' @
        (if im_Tag own_img \<noteq> [] then im_Tag own_img else im_Tag img)
      else im_Repository img @ '':'' @ im_Tag img)"

definition resolveImagePullPolicy :: "Server \<Rightarrow> Config \<Rightarrow> string" where
  "resolveImagePullPolicy server cfg =
     (if im_PullPolicy (sv_Image server) \<noteq> [] then im_PullPolicy (sv_Image server) else configImagePullPolicy cfg)"

definition resolveImagePullSecrets :: "Server \<Rightarrow> Config \<Rightarrow> string list" where
  "resolveImagePullSecrets server cfg =
     (if im_PullSecrets (sv_Image server) \<noteq> [] then im_PullSecrets (sv_Image server)
      else im_PullSecrets (cf_Image (cfg_Spec cfg)))"

definition resolveReadOnlyRootFilesystem :: "Server \<Rightarrow> Config \<Rightarrow> bool" where
  "resolveReadOnlyRootFilesystem server cfg =
     (case sv_ReadOnlyRootFilesystem server of
        Some b \<Rightarrow> b
      | None \<Rightarrow> BoolValue (cf_ReadOnlyRootFilesystem (cfg_Spec cfg)) True)"

section \<open>The JVM and the labels\<close>

text \<open>Nine tenths of the memory limit in MiB; the product wraps like an int64, the divisions truncate.\<close>

definition heap_mb :: "int \<Rightarrow> int" where
  "heap_mb limit = (wrap64 (limit * 9) sdiv 10) sdiv (1024 * 1024)"

definition resolveJavaArgs :: "(string \<Rightarrow> int) \<Rightarrow> Server \<Rightarrow> string" where
  "resolveJavaArgs quantityValue server =
     (if sv_JavaArgs server \<noteq> [] then sv_JavaArgs server
      else case sget (rq_Limits (sv_Resources server)) ''memory'' of
             Some q \<Rightarrow> (let heapMB = Itoa (heap_mb (quantityValue q)) in ''-Xms'' @ heapMB @ ''m -Xmx'' @ heapMB @ ''m'')
           | None \<Rightarrow> ''-Xms512m -Xmx1024m'')"

definition server_java_args :: "(string \<Rightarrow> int) \<Rightarrow> Server \<Rightarrow> string" where
  "server_java_args quantityValue server =
     resolveJavaArgs quantityValue server @ '' -Djruby-puppet.max-active-instances='' @
     Itoa (if sv_MaxActiveInstances server \<le> 0 then 1 else sv_MaxActiveInstances server)"

definition server_role :: "Server \<Rightarrow> string" where
  "server_role server = (if sv_CA server \<and> \<not> serverRoleEnabled server then RoleCA else RoleServer)"

definition server_labels :: "Server \<Rightarrow> string smap" where
  "server_labels server =
     (let labels = serverLabels (sv_ConfigRef server) (m_Name (sv_Meta server)) (server_role server);
          labels' = (if sv_CA server then sput LabelCA ''true'' labels else labels)
      in fold (\<lambda>p m. sput (poolLabel p) ''true'' m) (sv_PoolRefs server) labels')"

definition deployment_strategy :: "Server \<Rightarrow> string" where
  "deployment_strategy server = (if sv_CA server then ''Recreate'' else ''RollingUpdate'')"

section \<open>Mounts and volumes\<close>

definition autosignPolicyDir :: string where
  "autosignPolicyDir = ''/etc/puppetlabs/puppet/autosign-policy''"

definition server_mounts :: "VolumeMount list" where
  "server_mounts =
     [mount ''ssl'' ''/etc/puppetlabs/puppet/ssl'',
      mount_file ''puppet-conf'' ''/etc/puppetlabs/puppet/puppet.conf'' ''puppet.conf'',
      mount_file ''puppetdb-conf'' ''/etc/puppetlabs/puppet/puppetdb.conf'' ''puppetdb.conf'',
      mount_file ''puppetserver-conf'' ''/etc/puppetlabs/puppetserver/conf.d/puppetserver.conf'' ''puppetserver.conf'',
      mount_file ''webserver-conf'' ''/etc/puppetlabs/puppetserver/conf.d/webserver.conf'' ''webserver.conf'',
      mount_file ''product-conf'' ''/etc/puppetlabs/puppetserver/conf.d/product.conf'' ''product.conf'',
      mount_file ''auth-conf'' ''/etc/puppetlabs/puppetserver/conf.d/auth.conf'' ''auth.conf'',
      mount_file ''ca-conf'' ''/etc/puppetlabs/puppetserver/conf.d/ca.conf'' ''ca.conf'',
      mount_file ''ca-cfg'' ''/etc/puppetlabs/puppetserver/services.d/ca.cfg'' ''ca.cfg'',
      mount_file ''logback-xml'' ''/etc/puppetlabs/puppetserver/logback.xml'' ''logback.xml'',
      mount_file ''metrics-conf'' ''/etc/puppetlabs/puppetserver/conf.d/metrics.conf'' ''metrics.conf'',
      mount ''puppetserver-data'' ''/run/puppetserver'',
      mount ''puppet-cache'' ''/opt/puppetlabs/puppet/cache'',
      mount ''puppet-run'' ''/var/run/puppetlabs'',
      mount ''tmp'' ''/tmp'',
      mount ''var-log'' ''/var/log/puppetlabs'']"

definition pod_secret_mode :: int where "pod_secret_mode = 416"

definition server_volumes :: "Certificate \<Rightarrow> CertificateAuthority \<Rightarrow> string \<Rightarrow> Volume list" where
  "server_volumes cert ca configMapName =
     [volume ''ssl'' EmptyDir, volume ''puppetserver-data'' EmptyDir, volume ''puppet-cache'' EmptyDir,
      volume ''puppet-run'' EmptyDir, volume ''tmp'' EmptyDir, volume ''var-log'' EmptyDir,
      volume ''ssl-cert'' (SecretSource (ct_SecretName (c_Status cert)) (Some pod_secret_mode) None),
      volume ''ssl-ca'' (SecretSource (at_CASecretName (ca_Status ca)) (Some pod_secret_mode) None)] @
     map (\<lambda>(name, key). configMapVolume name configMapName key)
       [(''puppet-conf'', ''puppet.conf''), (''puppetdb-conf'', ''puppetdb.conf''),
        (''puppetserver-conf'', ''puppetserver.conf''), (''auth-conf'', ''auth.conf''), (''ca-conf'', ''ca.conf''),
        (''product-conf'', ''product.conf''), (''logback-xml'', ''logback.xml''), (''metrics-conf'', ''metrics.conf'')]"

text \<open>Each of the following parts gives the mounts and the volumes that it adds.\<close>

type_synonym pod_part = "VolumeMount list \<times> Volume list"

definition routes_part :: "Config \<Rightarrow> string \<Rightarrow> pod_part" where
  "routes_part cfg configMapName =
     (if puppetDBActiveForFacts cfg
      then ([mount_file ''routes-yaml'' ''/etc/puppetlabs/puppet/routes.yaml'' ''routes.yaml''],
            [configMapVolume ''routes-yaml'' configMapName ''routes.yaml''])
      else ([], []))"

text \<open>The revocation list is a directory of a Secret for all but the CA, so that the kubelet refreshes it.\<close>

definition webserver_part :: "Server \<Rightarrow> CertificateAuthority \<Rightarrow> string \<Rightarrow> pod_part" where
  "webserver_part server ca configMapName =
     (if sv_CA server
      then ([], [configMapVolumeWithKey ''webserver-conf'' configMapName ''webserver-ca.conf'' ''webserver.conf''])
      else ([(mount ''ssl-ca-crl'' ''/etc/puppetlabs/puppet/crl'') \<lparr> vm_ReadOnly := True \<rparr>],
            [configMapVolume ''webserver-conf'' configMapName ''webserver.conf'',
             volume ''ssl-ca-crl'' (SecretSource (m_Name (ca_Meta ca) @ ''-ca-crl'') (Some pod_secret_mode) None)]))"

definition ca_part :: "Server \<Rightarrow> Config \<Rightarrow> CertificateAuthority \<Rightarrow> string \<Rightarrow> pod_part" where
  "ca_part server cfg ca configMapName =
     (if sv_CA server
      then ([mount ''ca-data'' ''/etc/puppetlabs/puppetserver/ca''] @
              (if pu_AutosignCommand (cf_Puppet (cfg_Spec cfg)) = []
               then [(mount ''autosign-policy'' autosignPolicyDir) \<lparr> vm_ReadOnly := True \<rparr>] else []),
            [volume ''ca-data'' (ClaimSource (m_Name (ca_Meta ca) @ ''-data'') False),
             configMapVolumeWithKey ''ca-cfg'' configMapName ''ca-enabled.cfg'' ''ca.cfg''] @
              (if pu_AutosignCommand (cf_Puppet (cfg_Spec cfg)) = []
               then [volume ''autosign-policy'' (SecretSource (m_Name (ca_Meta ca) @ ''-autosign-policy'') None None)]
               else []))
      else ([], [configMapVolumeWithKey ''ca-cfg'' configMapName ''ca-disabled.cfg'' ''ca.cfg'']))"

definition code_volume :: "codeMount \<Rightarrow> Volume list" where
  "code_volume m =
     (let e = cmt_Spec m in
      if co_Image e \<noteq> [] then
        [volume (cmt_VolumeName m) (ImageSource (co_Image e)
           (if co_ImagePullPolicy e = [] then ''IfNotPresent'' else co_ImagePullPolicy e))]
      else if co_ClaimName e \<noteq> [] then [volume (cmt_VolumeName m) (ClaimSource (co_ClaimName e) True)]
      else [])"

definition code_part :: "Server \<Rightarrow> Config \<Rightarrow> pod_part" where
  "code_part server cfg =
     (if \<not> serverRoleEnabled server then ([], [])
      else
        (let mounts = resolveCodeMounts server cfg in
         if mounts \<noteq> [] then
           (map (\<lambda>m. (mount (cmt_VolumeName m) (cmt_MountPath m)) \<lparr> vm_ReadOnly := True \<rparr>) mounts,
            concat (map code_volume mounts))
         else ([mount ''code'' (resolveEnvironmentPath cfg)], [volume ''code'' EmptyDir])))"

definition enc_enabled :: "Server \<Rightarrow> Config \<Rightarrow> bool" where
  "enc_enabled server cfg = (serverRoleEnabled server \<and> cf_NodeClassifierRef (cfg_Spec cfg) \<noteq> [] \<and>
     pu_ExternalNodesCommand (cf_Puppet (cfg_Spec cfg)) = [])"

definition enc_part :: "Server \<Rightarrow> Config \<Rightarrow> pod_part" where
  "enc_part server cfg =
     (if enc_enabled server cfg
      then ([mount_file ''enc-config'' ''/etc/puppetlabs/puppet/enc.yaml'' ''enc.yaml'',
             mount ''enc-cache'' ''/var/cache/openvox-enc''],
            [volume ''enc-config'' (SecretSource (sv_ConfigRef server @ ''-enc'') None None),
             volume ''enc-cache'' EmptyDir])
      else ([], []))"

definition report_part :: "Server \<Rightarrow> pod_part" where
  "report_part server =
     (if serverRoleEnabled server
      then ([mount_file ''report-webhook-config'' ''/etc/puppetlabs/puppet/report-webhook.yaml'' ''report-webhook.yaml''],
            [volume ''report-webhook-config''
               (SecretSource (sv_ConfigRef server @ ''-report-webhook'') None (Some True))])
      else ([], []))"

definition managed_parts :: "Server \<Rightarrow> Config \<Rightarrow> Certificate \<Rightarrow> CertificateAuthority \<Rightarrow> string \<Rightarrow> pod_part list" where
  "managed_parts server cfg cert ca configMapName =
     [(server_mounts, server_volumes cert ca configMapName), routes_part cfg configMapName,
      webserver_part server ca configMapName, ca_part server cfg ca configMapName,
      code_part server cfg, enc_part server cfg, report_part server]"

text \<open>What the user adds comes last.\<close>

definition pod_parts :: "Server \<Rightarrow> Config \<Rightarrow> Certificate \<Rightarrow> CertificateAuthority \<Rightarrow> string \<Rightarrow> pod_part" where
  "pod_parts server cfg cert ca configMapName =
     (let parts = managed_parts server cfg cert ca configMapName @
                    [(sv_ExtraVolumeMounts server, sv_ExtraVolumes server)]
      in (concat (map fst parts), concat (map snd parts)))"

section \<open>The containers\<close>

definition server_probe :: "int \<Rightarrow> int \<Rightarrow> Probe" where
  "server_probe period threshold = \<lparr> pr_Handler = HTTPGet ''/status/v1/simple'' 8140 ''HTTPS'',
     pr_PeriodSeconds = period, pr_FailureThreshold = threshold \<rparr>"

definition server_env :: "Server \<Rightarrow> string \<Rightarrow> EnvVar list" where
  "server_env server javaArgs = env_var ''JAVA_ARGS'' javaArgs # sv_ExtraEnv server"

definition server_container :: "Server \<Rightarrow> Config \<Rightarrow> string \<Rightarrow> string \<Rightarrow> VolumeMount list \<Rightarrow> Container" where
  "server_container server cfg img javaArgs mounts =
     (blank_container ''openvox-server'' img (resolveImagePullPolicy server cfg))
     \<lparr> con_Env := server_env server javaArgs,
       con_EnvFrom := sv_EnvFrom server,
       con_Ports := [\<lparr> cp_Name = ''https'', cp_Port = 8140, cp_Protocol = ''TCP'' \<rparr>],
       con_Resources := sv_Resources server,
       con_VolumeMounts := mounts,
       con_StartupProbe := Some (server_probe 5 60), con_ReadinessProbe := Some (server_probe 10 0),
       con_LivenessProbe := Some (server_probe 30 0),
       con_SecurityContext := Some (restricted_context (resolveReadOnlyRootFilesystem server cfg)) \<rparr>"

definition server_init_script :: string where
  "server_init_script = Join
     [''mkdir -p /ssl/certs /ssl/private_keys /ssl/public_keys /ssl/certificate_requests /ssl/private'',
      ''cp /ssl-cert/cert.pem /ssl/certs/puppet.pem'',
      ''cp /ssl-cert/key.pem /ssl/private_keys/puppet.pem'',
      ''cp /ssl-ca/ca_crt.pem /ssl/certs/ca.pem'',
      ''chmod 640 /ssl/private_keys/puppet.pem''] ''\<newline>''"

definition server_pull_secrets :: "Server \<Rightarrow> Config \<Rightarrow> string list" where
  "server_pull_secrets server cfg =
     (let own = appendPullSecrets [] (resolveImagePullSecrets server cfg) in
      if serverRoleEnabled server
      then fold (\<lambda>e secrets. appendPullSecrets secrets [co_ImagePullSecret e]) (resolveCode server cfg) own
      else own)"

definition buildPodSpec :: "Server \<Rightarrow> Config \<Rightarrow> Certificate \<Rightarrow> CertificateAuthority \<Rightarrow>
    string \<Rightarrow> string \<Rightarrow> string \<Rightarrow> PodSpec" where
  "buildPodSpec server cfg cert ca img javaArgs configMapName =
     (let parts = pod_parts server cfg cert ca configMapName in
      \<lparr> pod_ServiceAccountName = sv_ConfigRef server @ ''-server'',
        pod_AutomountServiceAccountToken = Some False, pod_RestartPolicy = [],
        pod_SecurityContext = buildPodSecurityContext 1001 0 1001 (sv_SecurityContext server),
        pod_ImagePullSecrets = server_pull_secrets server cfg,
        pod_InitContainers = [tls_init_container img (resolveImagePullPolicy server cfg) server_init_script
          (resolveReadOnlyRootFilesystem server cfg)],
        pod_Containers = [server_container server cfg img javaArgs (fst parts)],
        pod_Volumes = snd parts,
        pod_TopologySpreadConstraints = sv_TopologySpreadConstraints server,
        pod_Affinity = sv_Affinity server,
        pod_PriorityClassName = sv_PriorityClassName server \<rparr>)"

end
