(* ===== verification/ServerCtl.thy ===== *)
theory ServerCtl
  imports ServerPod
begin

text \<open>
  The Server controller: the Deployment of server_deployment.go with the digests that roll its
  pods, server_controller.go (the reconcile with the disruption budget, the autoscaler, the
  network policy and the status) and server_watchers.go.
\<close>

type_synonym 'a sop = "(Server, 'a) wop"

abbreviation sv_name :: "Server \<Rightarrow> string" where "sv_name sv \<equiv> m_Name (sv_Meta sv)"
abbreviation sv_ns :: "Server \<Rightarrow> string" where "sv_ns sv \<equiv> m_Namespace (sv_Meta sv)"

definition with_sv_status :: "(ServerStatus \<Rightarrow> ServerStatus) \<Rightarrow> Server \<Rightarrow> Server" where
  "with_sv_status f sv = sv \<lparr> sv_Status := f (sv_Status sv) \<rparr>"

definition sv_access :: "Server accessor" where
  "sv_access = \<lparr> ac_Kind = ''Server'', ac_Meta = sv_Meta, ac_SetMeta = (\<lambda>m sv. sv \<lparr> sv_Meta := m \<rparr>),
     ac_Conditions = (\<lambda>sv. vt_Conditions (sv_Status sv)),
     ac_SetConditions = (\<lambda>f. with_sv_status (\<lambda>st. st \<lparr> vt_Conditions := f (vt_Conditions st) \<rparr>)) \<rparr>"

definition DefaultHPAMaxReplicas :: int where "DefaultHPAMaxReplicas = 5"
definition DefaultHPATargetCPU :: int where "DefaultHPATargetCPU = 75"

definition sv_replicas :: "Server \<Rightarrow> int" where
  "sv_replicas server = (case sv_Replicas server of None \<Rightarrow> 1 | Some n \<Rightarrow> n)"

section \<open>The annotations of the pod template\<close>

definition code_images :: "Server \<Rightarrow> Config \<Rightarrow> string list" where
  "code_images server cfg = filter (\<lambda>i. i \<noteq> []) (map co_Image (resolveCode server cfg))"

definition code_annotation :: "Server \<Rightarrow> Config \<Rightarrow> string smap" where
  "code_annotation server cfg =
     (if serverRoleEnabled server \<and> code_images server cfg \<noteq> []
      then [(''openvox.voxpupuli.org/code-image'', Join (code_images server cfg) '','')] else [])"

text \<open>A digest that is left out when its Secret cannot be read.\<close>

definition optional_hash :: "Server wl_env \<Rightarrow> bool \<Rightarrow> string \<Rightarrow> string \<Rightarrow> string smap sop" where
  "optional_hash E wanted secretName key =
     (if wanted then
        bnd (outcome (secret_hash E secretName)) (\<lambda>r. case r of
          Inl _ \<Rightarrow> ret []
        | Inr h \<Rightarrow> ret [(key, h)])
      else ret [])"

definition server_annotations :: "Server wl_env \<Rightarrow> Server \<Rightarrow> Config \<Rightarrow> Certificate \<Rightarrow> CertificateAuthority \<Rightarrow>
    string smap sop" where
  "server_annotations E server cfg cert ca =
     (let configMapName = sv_ConfigRef server @ ''-config'';
          sslSecretName = ct_SecretName (c_Status cert); caSecretName = at_CASecretName (ca_Status ca) in
      bnd (wrapping ''computing ConfigMap hash'' (wrapping (''getting ConfigMap '' @ configMapName)
            (config_map_hash E configMapName))) (\<lambda>config.
      bnd (wrapping ''computing SSL Secret hash'' (wrapping (''getting Secret '' @ sslSecretName)
            (secret_hash E sslSecretName))) (\<lambda>ssl.
      bnd (wrapping ''computing CA Secret hash'' (wrapping (''getting Secret '' @ caSecretName)
            (secret_hash E caSecretName))) (\<lambda>ca_hash.
      bnd (optional_hash E (enc_enabled server cfg) (sv_ConfigRef server @ ''-enc'')
            ''openvox.voxpupuli.org/enc-secret-hash'') (\<lambda>enc.
      bnd (optional_hash E (serverRoleEnabled server) (sv_ConfigRef server @ ''-report-webhook'')
            ''openvox.voxpupuli.org/report-webhook-secret-hash'') (\<lambda>report.
      ret ([(''openvox.voxpupuli.org/config-hash'', config), (''openvox.voxpupuli.org/ssl-secret-hash'', ssl),
            (''openvox.voxpupuli.org/ca-secret-hash'', ca_hash)] @
           code_annotation server cfg @ enc @ report)))))))"

section \<open>The Deployment\<close>

definition scaled :: "Server \<Rightarrow> Deployment \<Rightarrow> Deployment" where
  "scaled server d =
     (if au_Enabled (sv_Autoscaling server) then d else d \<lparr> dep_Replicas := Some (sv_replicas server) \<rparr>)"

definition new_server_deployment :: "Server \<Rightarrow> PodSpec \<Rightarrow> string smap \<Rightarrow> Deployment" where
  "new_server_deployment server pod annotations = scaled server
     \<lparr> dep_Meta = new_meta (sv_name server) (sv_ns server) \<lparr> m_Labels := server_labels server \<rparr>,
       dep_Replicas = None, dep_Strategy = deployment_strategy server,
       dep_Selector = [(LabelServer, sv_name server)], dep_TemplateLabels = server_labels server,
       dep_TemplateAnnotations = annotations, dep_Pod = pod, dep_ReadyReplicas = 0 \<rparr>"

definition rolled :: "Server \<Rightarrow> PodSpec \<Rightarrow> string smap \<Rightarrow> Deployment \<Rightarrow> Deployment" where
  "rolled server pod annotations d = (scaled server d)
     \<lparr> dep_Strategy := deployment_strategy server, dep_TemplateLabels := server_labels server,
       dep_TemplateAnnotations := annotations, dep_Pod := pod \<rparr>"

definition server_pod :: "Server wl_env \<Rightarrow> Server \<Rightarrow> Config \<Rightarrow> Certificate \<Rightarrow> CertificateAuthority \<Rightarrow> PodSpec" where
  "server_pod E server cfg cert ca =
     buildPodSpec server cfg cert ca (resolveImage server cfg) (server_java_args (we_quantityValue E) server)
       (sv_ConfigRef server @ ''-config'')"

text \<open>The update reads the Deployment again and repeats the ownership check on what it finds.\<close>

definition update_server_deployment :: "Server wl_env \<Rightarrow> Server \<Rightarrow> PodSpec \<Rightarrow> string smap \<Rightarrow> unit sop" where
  "update_server_deployment E server pod annotations =
     (let name = sv_name server in
      bnd (wrapping (''getting Deployment '' @ name) (call (WGetDeployment name) (\<lambda>h. we_getDeployment E h name))) (\<lambda>d.
      case assertControlledBy (we_lib E) (dep_Meta d) (sv_Meta server) ''Deployment'' ''Server'' of
        Some e \<Rightarrow> throw e
      | None \<Rightarrow>
          (let d' = rolled server pod annotations d in
           call (WUpdateDeployment d') (\<lambda>h. we_writeDeployment E h d'))))"

definition write_server_deployment :: "Server wl_env \<Rightarrow> Server \<Rightarrow> PodSpec \<Rightarrow> string smap \<Rightarrow> unit sop" where
  "write_server_deployment E server pod annotations =
     (let name = sv_name server in
      bnd (outcome (call (WGetDeployment name) (\<lambda>h. we_getDeployment E h name))) (\<lambda>r. case r of
        Inl e \<Rightarrow>
          if IsNotFound e then
            (let new = new_server_deployment server pod annotations in
             bnd (wrapping (''setting owner reference on Deployment '' @ name)
                   (lift (SetControllerReference (we_lib E) ''Server'' (sv_Meta server) (dep_Meta new)))) (\<lambda>meta.
             let d = new \<lparr> dep_Meta := meta \<rparr> in
             call (WCreateDeployment d) (\<lambda>h. we_writeDeployment E h d)))
          else throw (wrapf (''getting Deployment '' @ name) e)
      | Inr d \<Rightarrow>
          (case assertControlledBy (we_lib E) (dep_Meta d) (sv_Meta server) ''Deployment'' ''Server'' of
             Some e \<Rightarrow> throw e
           | None \<Rightarrow> retry_on_conflict (we_retries E) (update_server_deployment E server pod annotations))))"

definition reconcile_server_deployment :: "Server wl_env \<Rightarrow> Server \<Rightarrow> Config \<Rightarrow> Certificate \<Rightarrow> CertificateAuthority \<Rightarrow>
    unit sop" where
  "reconcile_server_deployment E server cfg cert ca =
     bnd (server_annotations E server cfg cert ca) (\<lambda>annotations.
     write_server_deployment E server (server_pod E server cfg cert ca) annotations)"

section \<open>The other children\<close>

definition server_child_labels :: "Server \<Rightarrow> string smap" where
  "server_child_labels server =
     [(''app.kubernetes.io/managed-by'', ''openvox-operator''), (LabelServer, sv_name server)]"

definition reconcile_server_pdb :: "Server wl_env \<Rightarrow> Server \<Rightarrow> unit sop" where
  "reconcile_server_pdb E server =
     reconcile_pdb E ''Server'' (sv_Meta server) ''PDB'' LabelServer (server_child_labels server) (sv_PDB server)"

definition buildHPA :: "Server \<Rightarrow> HorizontalPodAutoscalerSpec" where
  "buildHPA server =
     (let au = sv_Autoscaling server in
      \<lparr> hs_TargetAPIVersion = ''apps/v1'', hs_TargetKind = ''Deployment'', hs_TargetName = sv_name server,
        hs_MinReplicas = au_MinReplicas au,
        hs_MaxReplicas = (if au_MaxReplicas au = 0 then DefaultHPAMaxReplicas else au_MaxReplicas au),
        hs_AverageCPU = (if au_TargetCPU au = 0 then DefaultHPATargetCPU else au_TargetCPU au) \<rparr>)"

definition blank_hpa :: "string \<Rightarrow> string \<Rightarrow> HorizontalPodAutoscaler" where
  "blank_hpa name ns = \<lparr> hpa_Meta = new_meta name ns, hpa_Spec = \<lparr> hs_TargetAPIVersion = [], hs_TargetKind = [],
     hs_TargetName = [], hs_MinReplicas = None, hs_MaxReplicas = 0, hs_AverageCPU = 0 \<rparr> \<rparr>"

definition reconcileHPA :: "Server wl_env \<Rightarrow> Server \<Rightarrow> unit sop" where
  "reconcileHPA E server =
     (let name = sv_name server; C = hpa_child E in
      if \<not> au_Enabled (sv_Autoscaling server) then
        disable_child (we_lib E) ''Server'' (sv_Meta server) C name (report_deleted ''HPA'' (ch_Kind C) name)
      else
        thn (built E ''Server'' (sv_Meta server) ''HPA''
               (new_meta name (sv_ns server) \<lparr> m_Labels := server_child_labels server \<rparr>))
        (ensure_child (we_lib E) ''Server'' (sv_Meta server) C name (blank_hpa name (sv_ns server))
           (\<lambda>x. x \<lparr> hpa_Meta := (hpa_Meta x) \<lparr> m_Labels := server_child_labels server \<rparr>, hpa_Spec := buildHPA server \<rparr>)
           (report_child ''HPA'' (ch_Kind C) name)))"

definition server_ingress :: IngressRule where
  "server_ingress = PortRule [(''TCP'', 8140)] []"

definition reconcile_server_network_policy :: "Server wl_env \<Rightarrow> Server \<Rightarrow> unit sop" where
  "reconcile_server_network_policy E server =
     reconcile_network_policy E ''Server'' (sv_Meta server) ''NetworkPolicy'' LabelServer
       (server_child_labels server) server_ingress (sv_NetworkPolicy server)"

section \<open>Reconcile\<close>

definition phase_text :: "CertificatePhase \<Rightarrow> string" where
  "phase_text p = (case p of
     CertNoPhase \<Rightarrow> [] | CertPending \<Rightarrow> ''Pending'' | CertRequesting \<Rightarrow> ''Requesting''
   | CertWaitingForSigning \<Rightarrow> ''WaitingForSigning'' | CertSignedPhase \<Rightarrow> ''Signed''
   | CertRenewing \<Rightarrow> ''Renewing'' | CertError \<Rightarrow> ''Error'')"

definition reportSSLBootstrapped :: "Server wl_env \<Rightarrow> string \<Rightarrow> string \<Rightarrow> string \<Rightarrow> unit sop" where
  "reportSSLBootstrapped E status reason msg =
     logged (wl_update_status sv_access E (wl_cond sv_access E ConditionSSLBootstrapped status reason msg))"

definition server_waiting :: "Server wl_env \<Rightarrow> Certificate \<Rightarrow> Server \<Rightarrow> Server" where
  "server_waiting E cert server =
     wl_cond sv_access E ConditionSSLBootstrapped ''False'' ''CertificateNotSigned''
       (''Certificate '' @ m_Name (c_Meta cert) @ '' is in phase '' @ Quote (phase_text (ct_Phase (c_Status cert))))
       (with_sv_status (\<lambda>st. st \<lparr> vt_Phase := ServerWaitingForCert \<rparr>) server)"

definition server_report :: "Server wl_env \<Rightarrow> Certificate \<Rightarrow> int \<Rightarrow> Server \<Rightarrow> Server" where
  "server_report E cert ready server =
     (let replicas = sv_replicas server;
          counted = with_sv_status (\<lambda>st. st \<lparr> vt_ObservedGeneration := m_Generation (sv_Meta server),
             vt_Desired := replicas, vt_Ready := ready \<rparr>) server;
          signed = wl_cond sv_access E ConditionSSLBootstrapped ''True'' ''CertificateSigned''
             (''Certificate '' @ m_Name (c_Meta cert) @ '' is signed and mounted'') counted
      in if ready > 0
         then wl_cond sv_access E ConditionServerReady ''True'' ''ReplicasReady''
                (Itoa ready @ ''/'' @ Itoa replicas @ '' replicas ready'')
                (with_sv_status (\<lambda>st. st \<lparr> vt_Phase := ServerRunning \<rparr>) signed)
         else wl_cond sv_access E ConditionServerReady ''False'' ''ReplicasNotReady''
                (''0/'' @ Itoa replicas @ '' replicas ready'')
                (with_sv_status (\<lambda>st. st \<lparr> vt_Phase := ServerPending \<rparr>) signed))"

definition server_deployment_step :: "Server wl_env \<Rightarrow> Server \<Rightarrow> Config \<Rightarrow> Certificate \<Rightarrow> CertificateAuthority \<Rightarrow> unit sop" where
  "server_deployment_step E server cfg cert ca =
     bnd (outcome (reconcile_server_deployment E server cfg cert ca)) (\<lambda>r. case r of
       Inl e \<Rightarrow>
         thn (wl_event ''Warning'' ''ServerError'' (''Failed to reconcile Deployment: '' @ err_text e))
             (throw (wrapf ''reconciling Deployment'' e))
     | Inr _ \<Rightarrow> ret ())"

definition server_children :: "Server wl_env \<Rightarrow> Server \<Rightarrow> Config \<Rightarrow> Certificate \<Rightarrow> CertificateAuthority \<Rightarrow> unit sop" where
  "server_children E server cfg cert ca =
     thn (server_deployment_step E server cfg cert ca)
     (thn (wrapping ''reconciling PDB'' (reconcile_server_pdb E server))
     (thn (wrapping ''reconciling HPA'' (reconcileHPA E server))
          (wrapping ''reconciling NetworkPolicy'' (reconcile_server_network_policy E server))))"

definition server_ready :: "Server wl_env \<Rightarrow> Server \<Rightarrow> Config \<Rightarrow> Certificate \<Rightarrow> CertificateAuthority \<Rightarrow> result sop" where
  "server_ready E server cfg cert ca =
     thn (server_children E server cfg cert ca)
     (bnd (wrapping (''reading ready replicas for Server '' @ sv_name server) (ready_replicas E (sv_name server))) (\<lambda>ready.
      thn (wrapping (''updating status for Server '' @ sv_name server)
            (wl_update_status sv_access E (server_report E cert ready)))
      (thn (if ready > 0 then wl_event ''Normal'' ''ServerRunning'' ''Server reconciled successfully'' else ret ())
      (ret (Result 0)))))"

definition server_with_cert :: "Server wl_env \<Rightarrow> Config \<Rightarrow> Certificate \<Rightarrow> result sop" where
  "server_with_cert E cfg cert =
     (let caRef = cs_AuthorityRef (c_Spec cert) in
      if \<not> certificateUsable (we_lib E) cert then
        thn (logged (wl_update_status sv_access E (server_waiting E cert)))
            (ret (Result RequeueIntervalMedium))
      else
        referenced ''CertificateAuthority'' caRef (WGetCA caRef) (\<lambda>h. we_getCA E h caRef)
          (ret (Result RequeueIntervalShort)) (\<lambda>ca.
        bnd (reads obj) (\<lambda>server. server_ready E server cfg cert ca)))"

definition pending_server :: "Server wl_env \<Rightarrow> unit sop" where
  "pending_server E =
     bnd (reads obj) (\<lambda>server.
       if vt_Phase (sv_Status server) = ServerNoPhase
       then wrapping (''updating initial status for Server '' @ sv_name server)
              (wl_update_status sv_access E (with_sv_status (\<lambda>st. st \<lparr> vt_Phase := ServerPending \<rparr>)))
       else ret ())"

definition server_with_config :: "Server wl_env \<Rightarrow> Config \<Rightarrow> result sop" where
  "server_with_config E cfg =
     bnd (reads obj) (\<lambda>server. let ref = sv_CertificateRef server in
       referenced ''Certificate'' ref (WGetCertificate ref) (\<lambda>h. we_getCertificate E h ref)
         (thn (reportSSLBootstrapped E ''False'' ''CertificateNotFound'' (''Certificate '' @ ref @ '' does not exist''))
              (ret (Result RequeueIntervalShort)))
         (server_with_cert E cfg))"

definition Reconcile_server :: "Server wl_env \<Rightarrow> result sop" where
  "Reconcile_server E =
     bnd (outcome (wl_refetch sv_access E)) (\<lambda>r.
     bnd (reads obj) (\<lambda>server. case r of
       Inl e \<Rightarrow>
         if IsNotFound e then ret (Result 0)
         else throw (wrapf (''getting Server '' @ sv_ns server @ ''/'' @ sv_name server) e)
     | Inr _ \<Rightarrow>
         bnd (wl_pause sv_access E) (\<lambda>paused.
         if paused then ret (Result 0)
         else
           thn (pending_server E)
           (bnd (reads obj) (\<lambda>server. let ref = sv_ConfigRef server in
            referenced ''Config'' ref (WGetConfig ref) (\<lambda>h. we_getConfig E h ref)
              (ret (Result RequeueIntervalShort)) (server_with_config E))))))"

section \<open>Watches\<close>

definition serversMatching :: "(string \<Rightarrow> err + Server list) \<Rightarrow> string \<Rightarrow> (string \<times> string) list" where
  "serversMatching = matching_requests sv_Meta"

definition enqueueServersForConfig :: "(string \<Rightarrow> err + Server list) \<Rightarrow> string \<Rightarrow> (string \<times> string) list" where
  "enqueueServersForConfig byConfig cfgName = serversMatching byConfig cfgName"

definition serversForCA :: "(string \<Rightarrow> err + Server list) \<Rightarrow> (string \<Rightarrow> err + Certificate list) \<Rightarrow> string \<Rightarrow>
    (string \<times> string) list" where
  "serversForCA = requests_for_ca sv_Meta"

definition serversForSecret :: "(string \<Rightarrow> err + Server list) \<Rightarrow> (string \<Rightarrow> err + Server list) \<Rightarrow>
    (string \<Rightarrow> err + Certificate list) \<Rightarrow> ObjectMeta \<Rightarrow> (string \<times> string) list" where
  "serversForSecret byConfig byCertificate listCerts secret =
     (let cfgName = sval (m_Labels secret) LabelConfig;
          caName = sval (m_Labels secret) LabelCertificateAuthority in
      if sval (m_Labels secret) ''app.kubernetes.io/managed-by'' \<noteq> ''openvox-operator'' then []
      else if cfgName \<noteq> [] then enqueueServersForConfig byConfig cfgName
      else if caName \<noteq> [] then serversForCA byCertificate listCerts caName
      else [])"

definition serversForConfigMap :: "(string \<Rightarrow> err + Server list) \<Rightarrow> ObjectMeta \<Rightarrow> (string \<times> string) list" where
  "serversForConfigMap byConfig cm =
     (let cfgName = sval (m_Labels cm) LabelConfig in
      if sval (m_Labels cm) ''app.kubernetes.io/managed-by'' \<noteq> ''openvox-operator'' then []
      else if cfgName = [] then []
      else enqueueServersForConfig byConfig cfgName)"

definition enqueueServersForConfigObject :: "(string \<Rightarrow> err + Server list) \<Rightarrow> ObjectMeta \<Rightarrow> (string \<times> string) list" where
  "enqueueServersForConfigObject byConfig cfg = enqueueServersForConfig byConfig (m_Name cfg)"

definition enqueueServersForCertificate :: "(string \<Rightarrow> err + Server list) \<Rightarrow> ObjectMeta \<Rightarrow> (string \<times> string) list" where
  "enqueueServersForCertificate byCertificate cert = serversMatching byCertificate (m_Name cert)"

definition enqueueServersForCertificateAuthority :: "(string \<Rightarrow> err + Server list) \<Rightarrow> (string \<Rightarrow> err + Certificate list) \<Rightarrow>
    ObjectMeta \<Rightarrow> (string \<times> string) list" where
  "enqueueServersForCertificateAuthority byCertificate listCerts ca = serversForCA byCertificate listCerts (m_Name ca)"

end
