(* ===== verification/PodFiles.thy ===== *)
theory PodFiles
  imports ServerCtl ConfigCtl
begin

text \<open>
  The pod of a Server against its surroundings: the files it mounts are the ones the Config
  controller renders, and its volumes and mounts are what the API server accepts.
\<close>

section \<open>Files of the pod\<close>

text \<open>A mount of one file of a volume finds it: the volume is mounted by name, and if it is taken
  from a ConfigMap, its item names a key of the data and the path that is mounted.\<close>

definition resolves :: "string smap \<Rightarrow> Volume list \<Rightarrow> VolumeMount \<Rightarrow> bool" where
  "resolves data volumes m = (\<exists>v\<in>set volumes. vol_Name v = vm_Name m \<and>
     (case vol_Source v of
        ConfigMapSource _ items \<Rightarrow>
          list_ex (\<lambda>(key, path). path = vm_SubPath m \<and> sget data key \<noteq> None) items
      | _ \<Rightarrow> True))"

lemma resolves_mono: "resolves data vs m \<Longrightarrow> set vs \<subseteq> set ws \<Longrightarrow> resolves data ws m"
  by (auto simp: resolves_def)

lemma config_keys:
  "k \<in> {''puppet.conf'', ''puppetdb.conf'', ''webserver.conf'', ''webserver-ca.conf'', ''puppetserver.conf'',
        ''auth.conf'', ''ca.conf'', ''product.conf'', ''logback.xml'', ''metrics.conf'', ''ca-enabled.cfg'',
        ''ca-disabled.cfg''} \<Longrightarrow> sget (config_files cfg pc pd ca loggers) k \<noteq> None"
  unfolding config_files_def by (elim insertE emptyE; hypsubst; simp)

lemma routes_key:
  "sget (config_files cfg pc pd ca loggers) ''routes.yaml'' \<noteq> None \<longleftrightarrow> renderRoutesYAML cfg \<noteq> []"
  unfolding config_files_def by simp

lemma routes_active: "renderRoutesYAML cfg \<noteq> [] \<longleftrightarrow> puppetDBActiveForFacts cfg"
  by (simp add: renderRoutesYAML_def)

definition managed_mounts :: "Server \<Rightarrow> Config \<Rightarrow> Certificate \<Rightarrow> CertificateAuthority \<Rightarrow> string \<Rightarrow> VolumeMount list" where
  "managed_mounts server cfg cert ca name = concat (map fst (managed_parts server cfg cert ca name))"

definition managed_volumes :: "Server \<Rightarrow> Config \<Rightarrow> Certificate \<Rightarrow> CertificateAuthority \<Rightarrow> string \<Rightarrow> Volume list" where
  "managed_volumes server cfg cert ca name = concat (map snd (managed_parts server cfg cert ca name))"

definition served :: "string \<Rightarrow> string smap \<Rightarrow> Volume \<Rightarrow> bool" where
  "served name data v = (case vol_Source v of
     ConfigMapSource n items \<Rightarrow> n = name \<and> list_all (\<lambda>(key, _). sget data key \<noteq> None) items
   | _ \<Rightarrow> True)"

lemma served_file: "served name data (configMapVolume v name k) = (sget data k \<noteq> None)"
  by (simp add: served_def configMapVolume_def volume_def)

lemma served_file_as: "served name data (configMapVolumeWithKey v name k p) = (sget data k \<noteq> None)"
  by (simp add: served_def configMapVolumeWithKey_def volume_def)

lemma served_other:
  "served name data (volume v EmptyDir)" "served name data (volume v (SecretSource s md opt))"
  "served name data (volume v (ClaimSource c r))" "served name data (volume v (ImageSource i p))"
  by (simp_all add: served_def volume_def)

lemmas served_rules = served_file served_file_as served_other

lemma managed_volumes_served:
  "list_all (served name (config_files cfg pc pd ca' loggers)) (managed_volumes server cfg cert ca name)"
proof -
  let ?d = "config_files cfg pc pd ca' loggers"
  note keys = config_keys [of _ cfg pc pd ca' loggers]
  have "list_all (served name ?d) (server_volumes cert ca name)"
    unfolding server_volumes_def by (simp add: served_rules keys del: not_None_eq)
  moreover have "list_all (served name ?d) (snd (routes_part cfg name))"
    using routes_key [of cfg pc pd ca' loggers] routes_active [of cfg]
    by (simp add: routes_part_def served_rules del: not_None_eq)
  moreover have "list_all (served name ?d) (snd (webserver_part server ca name))"
    by (simp add: webserver_part_def served_rules keys del: not_None_eq)
  moreover have "list_all (served name ?d) (snd (ca_part server cfg ca name))"
    by (simp add: ca_part_def served_rules keys del: not_None_eq)
  moreover have "list_all (served name ?d) (snd (code_part server cfg))"
    by (auto simp: code_part_def code_volume_def Let_def served_rules list_all_iff)
  moreover have "list_all (served name ?d) (snd (enc_part server cfg))" "list_all (served name ?d) (snd (report_part server))"
    by (simp_all add: enc_part_def report_part_def served_rules)
  ultimately show ?thesis by (simp add: managed_volumes_def managed_parts_def)
qed

lemma vol_names:
  "vol_Name (volume n src) = n" "vol_Name (configMapVolume n c k) = n" "vol_Name (configMapVolumeWithKey n c k p) = n"
  by (simp_all add: volume_def configMapVolume_def configMapVolumeWithKey_def)

definition fixed_names :: "Server \<Rightarrow> Config \<Rightarrow> Certificate \<Rightarrow> CertificateAuthority \<Rightarrow> string \<Rightarrow> string list" where
  "fixed_names server cfg cert ca name = map vol_Name
     (server_volumes cert ca name @ snd (routes_part cfg name) @ snd (webserver_part server ca name) @
      snd (ca_part server cfg ca name) @ snd (enc_part server cfg) @ snd (report_part server))"

definition flagged_names :: "Server \<Rightarrow> Config \<Rightarrow> (string \<times> bool) list" where
  "flagged_names server cfg = map (\<lambda>n. (n, True))
     [''ssl'', ''puppetserver-data'', ''puppet-cache'', ''puppet-run'', ''tmp'', ''var-log'', ''ssl-cert'', ''ssl-ca'',
      ''puppet-conf'', ''puppetdb-conf'', ''puppetserver-conf'', ''auth-conf'', ''ca-conf'', ''product-conf'',
      ''logback-xml'', ''metrics-conf''] @
     [(''routes-yaml'', puppetDBActiveForFacts cfg), (''webserver-conf'', True), (''ssl-ca-crl'', \<not> sv_CA server),
      (''ca-data'', sv_CA server), (''ca-cfg'', True),
      (''autosign-policy'', sv_CA server \<and> pu_AutosignCommand (cf_Puppet (cfg_Spec cfg)) = []),
      (''enc-config'', enc_enabled server cfg), (''enc-cache'', enc_enabled server cfg),
      (''report-webhook-config'', serverRoleEnabled server)]"

lemma fixed_flagged: "fixed_names server cfg cert ca name = map fst (filter snd (flagged_names server cfg))"
  unfolding fixed_names_def server_volumes_def routes_part_def webserver_part_def ca_part_def enc_part_def
    report_part_def flagged_names_def
  by (cases "sv_CA server"; cases "enc_enabled server cfg") (simp_all add: vol_names)

lemma flagged_first: "map fst (flagged_names server cfg) =
    [''ssl'', ''puppetserver-data'', ''puppet-cache'', ''puppet-run'', ''tmp'', ''var-log'', ''ssl-cert'', ''ssl-ca'',
     ''puppet-conf'', ''puppetdb-conf'', ''puppetserver-conf'', ''auth-conf'', ''ca-conf'', ''product-conf'',
     ''logback-xml'', ''metrics-conf'', ''routes-yaml'', ''webserver-conf'', ''ssl-ca-crl'', ''ca-data'', ''ca-cfg'',
     ''autosign-policy'', ''enc-config'', ''enc-cache'', ''report-webhook-config'']"
  by (simp only: flagged_names_def map_append list.map prod.sel append.simps)

lemma fixed_distinct: "distinct (fixed_names server cfg cert ca name)"
proof -
  have "distinct (map fst (flagged_names server cfg))" unfolding flagged_first by code_simp
  then show ?thesis unfolding fixed_flagged by (rule distinct_map_filter)
qed

lemma fixed_not_code:
  assumes "n \<in> set (fixed_names server cfg cert ca name)" shows "take 4 n \<noteq> ''code''"
proof -
  have "list_all (\<lambda>n. take 4 n \<noteq> ''code'') (map fst (flagged_names server cfg))" unfolding flagged_first by code_simp
  moreover have "n \<in> set (map fst (flagged_names server cfg))" using assms unfolding fixed_flagged by auto
  ultimately show ?thesis by (auto simp: list_all_iff)
qed

section \<open>Volumes and mounts of the pod\<close>

text \<open>What the schema of the resources demands of a list of code sources (the validation rules of
  CodeSpec and of the code fields of Config and Server).\<close>

definition code_entry_valid :: "CodeSpec \<Rightarrow> bool" where
  "code_entry_valid e =
     (\<not> (co_Image e \<noteq> [] \<and> co_ClaimName e \<noteq> []) \<and> (co_Image e \<noteq> [] \<or> co_ClaimName e \<noteq> []) \<and>
      \<not> (co_Environment e \<noteq> [] \<and> co_MountPath e \<noteq> []) \<and>
      (co_MountPath e = [] \<or> HasPrefix (co_MountPath e) ''/etc/puppetlabs/code''))"

definition code_list_valid :: "CodeSpec list \<Rightarrow> bool" where
  "code_list_valid es =
     (length es \<le> 64 \<and> list_all code_entry_valid es \<and>
      (length es \<le> 1 \<or> list_all (\<lambda>e. co_Environment e \<noteq> [] \<or> co_MountPath e \<noteq> []) es))"

lemma nat_digits_inj: "nat_digits m = nat_digits n \<Longrightarrow> m = n"
  by (metis digits_val_nat_digits option.inject)

lemma code_volume_names:
  "code_entry_valid (cmt_Spec m) \<Longrightarrow> map vol_Name (code_volume m) = [cmt_VolumeName m]"
  by (auto simp: code_volume_def code_entry_valid_def volume_def Let_def)

lemma code_mount_spec: "cmt_Spec (code_mount p i e) = e"
  by (simp add: code_mount_def)

lemma code_names_concat:
  "list_all (\<lambda>m. code_entry_valid (cmt_Spec m)) ms \<Longrightarrow>
   map vol_Name (concat (map code_volume ms)) = map cmt_VolumeName ms"
  by (induction ms) (auto simp: code_volume_names)

lemma code_mount_name:
  "cmt_VolumeName (code_mount p i e) =
     (if co_Environment e \<noteq> [] \<or> co_MountPath e \<noteq> [] then ''code-'' @ nat_digits i else ''code'')"
  by (simp add: code_mount_def Itoa_def)

lemma code_mount_names:
  "list_all (\<lambda>e. co_Environment e \<noteq> [] \<or> co_MountPath e \<noteq> []) es \<Longrightarrow>
   map cmt_VolumeName (map (\<lambda>(i, e). code_mount p i e) (List.enumerate n es)) =
   map (\<lambda>i. ''code-'' @ nat_digits i) [n..<n + length es]"
  by (induction es arbitrary: n) (simp_all add: code_mount_name upt_conv_Cons del: upt_Suc)

lemma code_mounts_distinct:
  assumes "code_list_valid es"
  shows "distinct (map cmt_VolumeName (map (\<lambda>(i, e). code_mount p i e) (List.enumerate n es)))"
proof (cases "length es \<le> 1")
  case True
  then show ?thesis by (cases es) auto
next
  case False
  then have all: "list_all (\<lambda>e. co_Environment e \<noteq> [] \<or> co_MountPath e \<noteq> []) es"
    using assms by (simp add: code_list_valid_def)
  have "inj (\<lambda>i. ''code-'' @ nat_digits i)" by (auto intro: injI nat_digits_inj)
  then show ?thesis unfolding code_mount_names [OF all]
    by (simp only: distinct_map distinct_upt inj_on_subset [OF _ subset_UNIV] simp_thms)
qed

lemma code_mount_take: "take 4 (cmt_VolumeName (code_mount p i e)) = ''code''"
  by (simp add: code_mount_name)

lemma resolve_code_valid:
  "code_list_valid (sv_Code server) \<Longrightarrow> code_list_valid (cf_Code (cfg_Spec cfg)) \<Longrightarrow>
   code_list_valid (resolveCode server cfg)"
  by (simp add: resolveCode_def)

lemma code_part_names:
  assumes "code_list_valid (resolveCode server cfg)"
  shows "distinct (map vol_Name (snd (code_part server cfg)))"
    "\<forall>n\<in>set (map vol_Name (snd (code_part server cfg))). take 4 n = ''code''"
    "set (map vm_Name (fst (code_part server cfg))) = set (map vol_Name (snd (code_part server cfg)))"
proof -
  let ?ms = "resolveCodeMounts server cfg"
  have "list_all (\<lambda>m. code_entry_valid (cmt_Spec m)) ?ms"
    using assms by (auto simp: resolveCodeMounts_def list_all_iff code_list_valid_def code_mount_spec in_set_enumerate_eq)
  note names = code_names_concat [OF this]
  have d: "distinct (map cmt_VolumeName ?ms)"
    unfolding resolveCodeMounts_def by (rule code_mounts_distinct [OF assms])
  have t: "\<forall>n\<in>set (map cmt_VolumeName ?ms). take 4 n = ''code''"
    by (auto simp: resolveCodeMounts_def code_mount_take)
  have e: "map vol_Name [volume ''code'' EmptyDir] = [''code'']" by (simp add: volume_def)
  have f: "map vm_Name (map (\<lambda>m. (mount (cmt_VolumeName m) q) \<lparr> vm_ReadOnly := True \<rparr>) xs) = map cmt_VolumeName xs" for q xs
    by (simp add: mount_def)
  have code_part: "map vol_Name (snd (code_part server cfg)) =
      (if \<not> serverRoleEnabled server then [] else if ?ms \<noteq> [] then map cmt_VolumeName ?ms else [''code''])"
    "map vm_Name (fst (code_part server cfg)) =
      (if \<not> serverRoleEnabled server then [] else if ?ms \<noteq> [] then map cmt_VolumeName ?ms else [''code''])"
    unfolding code_part_def Let_def by (auto simp: names volume_def mount_def simp del: map_concat)
  show "distinct (map vol_Name (snd (code_part server cfg)))"
    unfolding code_part using d by simp
  show "\<forall>n\<in>set (map vol_Name (snd (code_part server cfg))). take 4 n = ''code''"
    unfolding code_part using t by auto
  show "set (map vm_Name (fst (code_part server cfg))) = set (map vol_Name (snd (code_part server cfg)))"
    unfolding code_part by simp
qed

lemma fixed_member: "(n, True) \<in> set (flagged_names server cfg) \<Longrightarrow> n \<in> set (fixed_names server cfg cert ca name)"
  unfolding fixed_flagged by force

text \<open>Every mount names one of the volumes.\<close>

definition mounts_known :: "string list \<Rightarrow> VolumeMount list \<Rightarrow> bool" where
  "mounts_known ns ms = list_all (\<lambda>m. vm_Name m \<in> set ns) ms"

lemma mounts_known_mono: "mounts_known ns ms \<Longrightarrow> set ns \<subseteq> set ks \<Longrightarrow> mounts_known ks ms"
  by (auto simp: mounts_known_def list_all_iff)

lemma mounts_known_append: "mounts_known ns (ms @ ks) = (mounts_known ns ms \<and> mounts_known ns ks)"
  by (simp add: mounts_known_def)

lemma mounts_known_set: "set (map vm_Name ms) \<subseteq> set ns \<Longrightarrow> mounts_known ns ms"
  by (auto simp: mounts_known_def list_all_iff)

lemma server_mounts_known: "mounts_known (fixed_names server cfg cert ca name) server_mounts"
proof -
  have eq: "map vm_Name server_mounts =
     [''ssl'', ''puppet-conf'', ''puppetdb-conf'', ''puppetserver-conf'', ''webserver-conf'', ''product-conf'',
      ''auth-conf'', ''ca-conf'', ''ca-cfg'', ''logback-xml'', ''metrics-conf'', ''puppetserver-data'',
      ''puppet-cache'', ''puppet-run'', ''tmp'', ''var-log'']"
    by (simp add: server_mounts_def mount_def mount_file_def)
  have "list_all (\<lambda>n. (n, True) \<in> set (flagged_names server cfg)) (map vm_Name server_mounts)"
    unfolding eq flagged_names_def by simp
  then show ?thesis unfolding mounts_known_def list_all_iff using fixed_member by auto
qed

lemma added_mounts_known:
  "mounts_known (map vol_Name (snd (routes_part cfg name))) (fst (routes_part cfg name))"
  "mounts_known (map vol_Name (snd (webserver_part server ca name))) (fst (webserver_part server ca name))"
  "mounts_known (map vol_Name (snd (ca_part server cfg ca name))) (fst (ca_part server cfg ca name))"
  "mounts_known (map vol_Name (snd (enc_part server cfg))) (fst (enc_part server cfg))"
  "mounts_known (map vol_Name (snd (report_part server))) (fst (report_part server))"
  by (simp_all add: mounts_known_def routes_part_def webserver_part_def ca_part_def enc_part_def report_part_def vol_names mount_def
      mount_file_def)

lemma fixed_subset:
  "set (map vol_Name (snd (routes_part cfg name))) \<subseteq> set (fixed_names server cfg cert ca name)"
  "set (map vol_Name (snd (webserver_part server ca name))) \<subseteq> set (fixed_names server cfg cert ca name)"
  "set (map vol_Name (snd (ca_part server cfg ca name))) \<subseteq> set (fixed_names server cfg cert ca name)"
  "set (map vol_Name (snd (enc_part server cfg))) \<subseteq> set (fixed_names server cfg cert ca name)"
  "set (map vol_Name (snd (report_part server))) \<subseteq> set (fixed_names server cfg cert ca name)"
  by (auto simp: fixed_names_def)

lemmas added_mounts_fixed =
  mounts_known_mono [OF added_mounts_known(1) fixed_subset(1)]
  mounts_known_mono [OF added_mounts_known(2) fixed_subset(2)]
  mounts_known_mono [OF added_mounts_known(3) fixed_subset(3)]
  mounts_known_mono [OF added_mounts_known(4) fixed_subset(4)]
  mounts_known_mono [OF added_mounts_known(5) fixed_subset(5)]

lemma managed_names:
  "set (map vol_Name (managed_volumes server cfg cert ca name)) =
   set (fixed_names server cfg cert ca name) \<union> set (map vol_Name (snd (code_part server cfg)))"
  unfolding managed_volumes_def managed_parts_def fixed_names_def by auto

lemma managed_distinct:
  assumes "code_list_valid (resolveCode server cfg)"
  shows "distinct (map vol_Name (managed_volumes server cfg cert ca name))"
proof -
  let ?A = "map vol_Name (server_volumes cert ca name @ snd (routes_part cfg name) @ snd (webserver_part server ca name) @
      snd (ca_part server cfg ca name))"
  let ?B = "map vol_Name (snd (enc_part server cfg) @ snd (report_part server))"
  let ?C = "map vol_Name (snd (code_part server cfg))"
  have "distinct (?A @ ?B)" using fixed_distinct [of server cfg cert ca name] by (simp only: fixed_names_def map_append append_assoc)
  moreover have "set (?A @ ?B) \<inter> set ?C = {}"
    using fixed_not_code [of _ server cfg cert ca name] code_part_names(2) [OF assms] by (force simp: fixed_names_def)
  moreover have "map vol_Name (managed_volumes server cfg cert ca name) = ?A @ ?C @ ?B"
    by (simp add: managed_volumes_def managed_parts_def)
  ultimately show ?thesis using code_part_names(1) [OF assms]
    by (simp only: distinct_append set_append) blast
qed

lemma managed_known:
  assumes "code_list_valid (resolveCode server cfg)"
  shows "mounts_known (map vol_Name (managed_volumes server cfg cert ca name)) (managed_mounts server cfg cert ca name)"
proof -
  let ?ns = "map vol_Name (managed_volumes server cfg cert ca name)"
  have sub: "set (fixed_names server cfg cert ca name) \<subseteq> set ?ns" unfolding managed_names by blast
  have "mounts_known ?ns (fst (code_part server cfg))"
    by (rule mounts_known_set) (simp only: code_part_names(3) [OF assms] managed_names Un_upper2)
  then show ?thesis
    using mounts_known_mono [OF server_mounts_known sub] added_mounts_fixed [THEN mounts_known_mono, OF sub]
    by (simp add: managed_mounts_def managed_parts_def mounts_known_append)
qed

section \<open>Mounted files\<close>

lemma resolves_file:
  "configMapVolume v name k \<in> set vs \<Longrightarrow> sget data k \<noteq> None \<Longrightarrow> resolves data vs (mount_file v p k)"
  unfolding resolves_def by (rule bexI [of _ "configMapVolume v name k"])
    (simp_all add: configMapVolume_def volume_def mount_file_def)

lemma resolves_file_as:
  "configMapVolumeWithKey v name k f \<in> set vs \<Longrightarrow> sget data k \<noteq> None \<Longrightarrow> resolves data vs (mount_file v p f)"
  unfolding resolves_def by (rule bexI [of _ "configMapVolumeWithKey v name k f"])
    (simp_all add: configMapVolumeWithKey_def volume_def mount_file_def)

lemma resolves_secret:
  "volume v (SecretSource n md opt) \<in> set vs \<Longrightarrow> resolves data vs (mount_file v p f)"
  unfolding resolves_def by (rule bexI [of _ "volume v (SecretSource n md opt)"])
    (simp_all add: volume_def mount_file_def)

definition is_file :: "VolumeMount \<Rightarrow> bool" where "is_file m = (vm_SubPath m \<noteq> [])"

lemma is_file: "is_file (mount_file v p f) = (f \<noteq> [])" "\<not> is_file (mount v p)"
    "\<not> is_file ((mount v p) \<lparr> vm_ReadOnly := r \<rparr>)"
  by (simp_all add: is_file_def mount_file_def mount_def)

lemma server_files:
  "list_all (resolves (config_files cfg pc pd ca' loggers)
     (server_volumes cert ca name @ snd (webserver_part server ca name) @ snd (ca_part server cfg ca name)))
   (filter is_file server_mounts)"
proof -
  let ?d = "config_files cfg pc pd ca' loggers"
  let ?vs = "server_volumes cert ca name @ snd (webserver_part server ca name) @ snd (ca_part server cfg ca name)"
  note keys = config_keys [of _ cfg pc pd ca' loggers]
  let ?L = "[(''puppet-conf'', ''puppet.conf''), (''puppetdb-conf'', ''puppetdb.conf''),
      (''puppetserver-conf'', ''puppetserver.conf''), (''auth-conf'', ''auth.conf''), (''ca-conf'', ''ca.conf''),
      (''product-conf'', ''product.conf''), (''logback-xml'', ''logback.xml''), (''metrics-conf'', ''metrics.conf'')]"
  have rendered: "list_all (\<lambda>(v, k). sget ?d k \<noteq> None) ?L" by (simp add: keys del: not_None_eq)
  have named: "resolves ?d ?vs (mount_file v p k)" if "(v, k) \<in> set ?L" for v k p
  proof (rule resolves_file [of _ name])
    have "configMapVolume v name k \<in> set (map (\<lambda>(v, k). configMapVolume v name k) ?L)"
      unfolding set_map by (rule image_eqI [OF _ that]) (simp only: prod.case)
    then show "configMapVolume v name k \<in> set ?vs" unfolding server_volumes_def set_append by blast
    show "sget ?d k \<noteq> None" using bspec [OF rendered [unfolded list_all_iff] that] by (simp only: prod.case simp_thms)
  qed
  have all: "list_all (\<lambda>(v, k). \<forall>p. resolves ?d ?vs (mount_file v p k)) ?L"
    unfolding list_all_iff using named by blast
  have web: "resolves ?d ?vs (mount_file ''webserver-conf'' p ''webserver.conf'')" for p
  proof (cases "sv_CA server")
    case True
    then show ?thesis
      by (intro resolves_file_as [of _ name "''webserver-ca.conf''"]) (simp add: webserver_part_def, rule keys, simp)
  next
    case False
    then show ?thesis by (intro resolves_file [of _ name]) (simp add: webserver_part_def, rule keys, simp)
  qed
  have cfg: "resolves ?d ?vs (mount_file ''ca-cfg'' p ''ca.cfg'')" for p
  proof (cases "sv_CA server")
    case True
    then show ?thesis
      by (intro resolves_file_as [of _ name "''ca-enabled.cfg''"]) (simp add: ca_part_def, rule keys, simp)
  next
    case False
    then show ?thesis
      by (intro resolves_file_as [of _ name "''ca-disabled.cfg''"]) (simp add: ca_part_def, rule keys, simp)
  qed
  show ?thesis using all by (simp add: server_mounts_def is_file web cfg del: append_assoc)
qed

lemma file_mounts_resolve:
  "list_all (resolves (config_files cfg pc pd ca' loggers) (managed_volumes server cfg cert ca name))
   (filter is_file (managed_mounts server cfg cert ca name))"
proof -
  let ?r = "resolves (config_files cfg pc pd ca' loggers) (managed_volumes server cfg cert ca name)"
  have fixed: "list_all ?r (filter is_file server_mounts)"
    by (rule list.pred_mono_strong [OF server_files]) (erule resolves_mono, auto simp: managed_volumes_def managed_parts_def)
  have routes: "list_all ?r (filter is_file (fst (routes_part cfg name)))"
    using routes_key [of cfg pc pd ca' loggers] routes_active [of cfg]
    by (auto simp: routes_part_def is_file managed_volumes_def managed_parts_def simp del: not_None_eq
        intro: resolves_file [of _ name])
  have web: "filter is_file (fst (webserver_part server ca name)) = []"
    "filter is_file (fst (ca_part server cfg ca name)) = []" "filter is_file (fst (code_part server cfg)) = []"
    by (auto simp: webserver_part_def ca_part_def code_part_def is_file Let_def filter_empty_conv)
  have enc: "list_all ?r (filter is_file (fst (enc_part server cfg)))"
    by (auto simp: enc_part_def is_file managed_volumes_def managed_parts_def
        intro!: resolves_secret [of _ "sv_ConfigRef server @ ''-enc''" None None])
  have report: "list_all ?r (filter is_file (fst (report_part server)))"
    by (auto simp: report_part_def is_file managed_volumes_def managed_parts_def
        intro!: resolves_secret [of _ "sv_ConfigRef server @ ''-report-webhook''" None "Some True"])
  show ?thesis using fixed routes enc report by (simp add: managed_mounts_def managed_parts_def web)
qed

section \<open>Well-formed pods\<close>

lemma pod_volumes: "pod_Volumes (buildPodSpec server cfg cert ca img args name) =
    managed_volumes server cfg cert ca name @ sv_ExtraVolumes server"
  by (simp add: buildPodSpec_def Let_def pod_parts_def managed_volumes_def)

lemma pod_containers:
  "map con_VolumeMounts (pod_Containers (buildPodSpec server cfg cert ca img args name)) =
     [managed_mounts server cfg cert ca name @ sv_ExtraVolumeMounts server]"
  by (simp add: buildPodSpec_def Let_def pod_parts_def managed_mounts_def server_container_def)

lemma pod_init_mounts:
  "map con_VolumeMounts (pod_InitContainers (buildPodSpec server cfg cert ca img args name)) =
     [[mount ''ssl'' ''/ssl'', read_only_mount ''ssl-cert'' ''/ssl-cert'', read_only_mount ''ssl-ca'' ''/ssl-ca'']]"
  by (simp add: buildPodSpec_def Let_def tls_init_container_def)

lemma init_known: "mounts_known (map vol_Name (managed_volumes server cfg cert ca name @ vs))
    [mount ''ssl'' ''/ssl'', read_only_mount ''ssl-cert'' ''/ssl-cert'', read_only_mount ''ssl-ca'' ''/ssl-ca'']"
  by (simp add: mounts_known_def managed_volumes_def managed_parts_def server_volumes_def vol_names mount_def
      read_only_mount_def)

text \<open>What the API server demands of the volumes of a pod and of the mounts of its containers.\<close>

definition pod_well_formed :: "PodSpec \<Rightarrow> bool" where
  "pod_well_formed pod =
     (distinct (map vol_Name (pod_Volumes pod)) \<and>
      list_all (mounts_known (map vol_Name (pod_Volumes pod)))
        (map con_VolumeMounts (pod_InitContainers pod @ pod_Containers pod)))"

text \<open>The volumes of the user have names of their own and their mounts name a volume.\<close>

definition extras_fit :: "string list \<Rightarrow> Server \<Rightarrow> bool" where
  "extras_fit managed server =
     (distinct (map vol_Name (sv_ExtraVolumes server)) \<and>
      list_all (\<lambda>v. vol_Name v \<notin> set managed) (sv_ExtraVolumes server) \<and>
      mounts_known (managed @ map vol_Name (sv_ExtraVolumes server)) (sv_ExtraVolumeMounts server))"

lemma distinct_extended:
  "distinct ns \<Longrightarrow> distinct (map f vs) \<Longrightarrow> list_all (\<lambda>v. f v \<notin> set ns) vs \<Longrightarrow> distinct (ns @ map f vs)"
  by (auto simp: list_all_iff)

lemma routes_mounted:
  "configMapVolume ''routes-yaml'' name ''routes.yaml'' \<in> set (managed_volumes server cfg cert ca name) =
   puppetDBActiveForFacts cfg"
proof
  let ?v = "configMapVolume ''routes-yaml'' name ''routes.yaml''"
  assume "?v \<in> set (managed_volumes server cfg cert ca name)"
  moreover have "?v \<notin> set (snd (code_part server cfg))"
    by (auto simp: code_part_def code_volume_def Let_def volume_def configMapVolume_def)
  ultimately have "vol_Name ?v \<in> set (fixed_names server cfg cert ca name)"
    unfolding managed_volumes_def managed_parts_def fixed_names_def by auto
  then show "puppetDBActiveForFacts cfg" unfolding vol_names fixed_flagged flagged_names_def by (simp split: if_splits)
qed (simp add: managed_volumes_def managed_parts_def routes_part_def)

text \<open>C11: The pod of a Server is well-formed: its volume names are distinct and every mount of its
  containers names a volume. This holds for all roles and options, under the validation rules of
  the code lists in the schema and for user volumes that keep apart from the ones of the operator.\<close>

theorem server_pod_well_formed:
  assumes "code_list_valid (sv_Code server)" "code_list_valid (cf_Code (cfg_Spec cfg))"
    and "extras_fit (map vol_Name (managed_volumes server cfg cert ca (sv_ConfigRef server @ ''-config''))) server"
  shows "pod_well_formed (server_pod E server cfg cert ca)"
proof -
  let ?name = "sv_ConfigRef server @ ''-config''"
  have code: "code_list_valid (resolveCode server cfg)" using assms(1,2) by (rule resolve_code_valid)
  let ?V = "managed_volumes server cfg cert ca ?name @ sv_ExtraVolumes server"
  let ?P = "server_pod E server cfg cert ca"
  have V: "pod_Volumes ?P = ?V" unfolding server_pod_def by (rule pod_volumes)
  have M: "map con_VolumeMounts (pod_InitContainers ?P @ pod_Containers ?P) =
     [[mount ''ssl'' ''/ssl'', read_only_mount ''ssl-cert'' ''/ssl-cert'', read_only_mount ''ssl-ca'' ''/ssl-ca''],
      managed_mounts server cfg cert ca ?name @ sv_ExtraVolumeMounts server]"
    unfolding map_append server_pod_def pod_containers pod_init_mounts by (simp only: append_Cons append_Nil)
  have a: "mounts_known (map vol_Name ?V) (managed_mounts server cfg cert ca ?name)"
    by (rule mounts_known_mono [OF managed_known [OF code]]) simp
  have b: "distinct (map vol_Name ?V)"
    using distinct_extended [OF managed_distinct [OF code, of cert ca ?name]] assms(3)
    unfolding extras_fit_def map_append by blast
  have c: "mounts_known (map vol_Name ?V) (sv_ExtraVolumeMounts server)"
    using assms(3) by (simp only: extras_fit_def map_append)
  show ?thesis unfolding pod_well_formed_def V M
    by (simp only: list.pred_inject mounts_known_append b init_known a c simp_thms)
qed

definition demo_code :: "string \<Rightarrow> CodeSpec" where
  "demo_code env = \<lparr> co_ClaimName = [], co_Image = ''code:1'', co_ImagePullPolicy = [], co_ImagePullSecret = [],
     co_Environment = env, co_MountPath = [] \<rparr>"

theorem server_pod_well_formed_witness:
  "\<forall>E. pod_well_formed (server_pod E (blank_server ''s'' ''ns'' \<lparr> sv_Code := [demo_code ''production'', demo_code ''dev''],
       sv_ExtraVolumes := [volume ''mine'' EmptyDir], sv_ExtraVolumeMounts := [mount ''mine'' ''/mine'', mount ''tmp'' ''/t''] \<rparr>)
     (blank_config ''c'' ''ns'') (blank_cert ''x'' ''ns'') (blank_ca ''ca'' ''ns''))"
proof (rule allI, rule server_pod_well_formed)
  let ?s = "blank_server ''s'' ''ns'' \<lparr> sv_Code := [demo_code ''production'', demo_code ''dev''],
       sv_ExtraVolumes := [volume ''mine'' EmptyDir], sv_ExtraVolumeMounts := [mount ''mine'' ''/mine'', mount ''tmp'' ''/t''] \<rparr>"
  let ?n = "sv_ConfigRef ?s @ ''-config''"
  show code: "code_list_valid (sv_Code ?s)" by code_simp
  show none: "code_list_valid (cf_Code (cfg_Spec (blank_config ''c'' ''ns'')))" by code_simp
  show "extras_fit (map vol_Name (managed_volumes ?s (blank_config ''c'' ''ns'') (blank_cert ''x'' ''ns'')
      (blank_ca ''ca'' ''ns'') ?n)) ?s" by code_simp
qed

text \<open>C16: What the Server controller mounts from the ConfigMap is what the Config controller renders:
  every key a volume asks for is in the data, every mounted file is one of those keys, and
  routes.yaml is mounted exactly when PuppetDB takes the facts, which is when it is rendered.\<close>

theorem mounted_files_rendered:
  "let name = sv_ConfigRef server @ ''-config''; volumes = managed_volumes server cfg cert ca name;
       data = config_files cfg puppetConf puppetDBConf auth loggers
   in pod_Volumes (server_pod E server cfg cert ca) = volumes @ sv_ExtraVolumes server \<and>
      list_all (served name data) volumes \<and>
      list_all (resolves data volumes) (filter is_file (managed_mounts server cfg cert ca name)) \<and>
      (configMapVolume ''routes-yaml'' name ''routes.yaml'' \<in> set volumes) = puppetDBActiveForFacts cfg \<and>
      (sget data ''routes.yaml'' \<noteq> None) = puppetDBActiveForFacts cfg"
  unfolding Let_def routes_mounted routes_key routes_active
  by (intro conjI managed_volumes_served file_mounts_resolve refl) (simp only: server_pod_def pod_volumes)

end
