(* ===== verification/DatabaseCtl.thy ===== *)
theory DatabaseCtl
  imports Workload ConfigWorld
begin

text \<open>
  The Database controller: database_rendering.go (the files of PuppetDB), database_deployment.go
  (the pod and the digests it carries), database_controller.go (the reconcile with the children
  of a Database) and database_watchers.go.
\<close>

type_synonym 'a dop = "(Database, 'a) wop"

abbreviation db_name :: "Database \<Rightarrow> string" where "db_name db \<equiv> m_Name (db_Meta db)"
abbreviation db_ns :: "Database \<Rightarrow> string" where "db_ns db \<equiv> m_Namespace (db_Meta db)"

definition with_db_status :: "(DatabaseStatus \<Rightarrow> DatabaseStatus) \<Rightarrow> Database \<Rightarrow> Database" where
  "with_db_status f db = db \<lparr> db_Status := f (db_Status db) \<rparr>"

definition db_access :: "Database accessor" where
  "db_access = \<lparr> ac_Kind = ''Database'', ac_Meta = db_Meta, ac_SetMeta = (\<lambda>m db. db \<lparr> db_Meta := m \<rparr>),
     ac_Conditions = (\<lambda>db. dt_Conditions (db_Status db)),
     ac_SetConditions = (\<lambda>f. with_db_status (\<lambda>st. st \<lparr> dt_Conditions := f (dt_Conditions st) \<rparr>)) \<rparr>"

definition ConditionDatabaseReady :: string where "ConditionDatabaseReady = ''Ready''"
definition DatabaseHTTPSPort :: int where "DatabaseHTTPSPort = 8081"
definition DatabaseHTTPPort :: int where "DatabaseHTTPPort = 8080"

section \<open>Files of PuppetDB\<close>

definition database_secret_key :: "Database wl_env \<Rightarrow> string \<Rightarrow> string \<Rightarrow> string dop" where
  "database_secret_key E name key =
     bnd (wrapping (''getting Secret '' @ name) (call (WGetSecret name) (\<lambda>h. we_getSecret E h name))) (\<lambda>secret.
     lift (data_key ''Secret'' name key (s_Data secret)))"

definition database_ini :: "PostgresSpec \<Rightarrow> string \<Rightarrow> string \<Rightarrow> string" where
  "database_ini pg username password =
     (let port = (if pg_Port pg = 0 then 5432 else pg_Port pg);
          database = (if pg_Database pg = [] then ''openvoxdb'' else pg_Database pg);
          sslMode = (if pg_SSLMode pg = [] then ''require'' else pg_SSLMode pg)
      in text_lines
        [''[database]'',
         ''subname = //'' @ pg_Host pg @ '':'' @ Itoa port @ ''/'' @ database @ ''?sslmode='' @ sslMode,
         ''username = '' @ username,
         ''password = '' @ password])"

definition renderDatabaseIni :: "Database wl_env \<Rightarrow> Database \<Rightarrow> string dop" where
  "renderDatabaseIni E db =
     (let pg = ds_Postgres (db_Spec db); ref = pg_CredentialsSecretRef pg in
      bnd (wrapping ''resolving PostgreSQL username'' (database_secret_key E ref ''username'')) (\<lambda>username.
      bnd (wrapping ''resolving PostgreSQL password'' (database_secret_key E ref ''password'')) (\<lambda>password.
      ret (database_ini pg username password))))"

definition renderJettyIni :: "string \<Rightarrow> string" where
  "renderJettyIni certname = text_lines
     [''[jetty]'',
      ''host = 127.0.0.1'',
      ''port = '' @ Itoa DatabaseHTTPPort,
      ''ssl-host = 0.0.0.0'',
      ''ssl-port = '' @ Itoa DatabaseHTTPSPort,
      ''ssl-key = /etc/puppetlabs/puppetdb/ssl/private_keys/'' @ certname @ ''.pem'',
      ''ssl-cert = /etc/puppetlabs/puppetdb/ssl/certs/'' @ certname @ ''.pem'',
      ''ssl-ca-cert = /etc/puppetlabs/puppetdb/ssl/certs/ca.pem'',
      ''client-auth = need'']"

definition renderConfigIni :: string where
  "renderConfigIni = text_lines
     [''[global]'',
      ''vardir = /opt/puppetlabs/server/data/puppetdb'',
      ''logging-config = /etc/puppetlabs/puppetdb/logback.xml'']"

text \<open>One rule of auth.conf: the lines of its match, then who is let in, its order, its name and its
  last line.\<close>

definition database_rule :: "string list \<Rightarrow> string \<Rightarrow> string \<Rightarrow> string \<Rightarrow> string \<Rightarrow> string list" where
  \<open>database_rule match_lines permission order name closing =
     [''        {'', ''            match-request: {''] @
     map (\<lambda>l. ''                '' @ l) match_lines @
     [''            }'', ''            '' @ permission, ''            sort-order: '' @ order,
      ''            name: "'' @ name @ ''"'', closing]\<close>

definition database_auth_conf :: string where
  \<open>database_auth_conf = text_lines
     ([''authorization: {'', ''    version: 1'', ''    rules: ['']
      @ database_rule [''path: "/status/v1/services"'', ''type: path'', ''method: get'']
          ''allow-unauthenticated: true'' ''500'' ''puppetlabs status service - full'' ''        },''
      @ database_rule [''path: "/status/v1/simple"'', ''type: path'', ''method: get'']
          ''allow-unauthenticated: true'' ''500'' ''puppetlabs status service - simple'' ''        },''
      @ database_rule [''path: "/metrics"'', ''type: path'', ''method: [get, post]'']
          ''allow: "*"'' ''500'' ''puppetlabs puppetdb metrics'' ''        },''
      @ database_rule [''path: "/"'', ''type: path''] ''deny: "*"'' ''999'' ''puppetlabs deny all'' ''        }''
      @ [''    ]'', ''}''])\<close>

section \<open>The pod\<close>

definition secret_mode :: int where "secret_mode = 416"

definition db_volume_mounts :: "VolumeMount list" where
  "db_volume_mounts =
     [mount ''ssl'' ''/etc/puppetlabs/puppetdb/ssl'',
      mount_file ''config'' ''/etc/puppetlabs/puppetdb/conf.d/config.ini'' ''config.ini'',
      mount_file ''config'' ''/etc/puppetlabs/puppetdb/conf.d/jetty.ini'' ''jetty.ini'',
      mount_file ''config'' ''/etc/puppetlabs/puppetdb/conf.d/auth.conf'' ''auth.conf'',
      mount_file ''db-config'' ''/etc/puppetlabs/puppetdb/conf.d/database.ini'' ''database.ini'',
      mount ''tmp'' ''/tmp'', mount ''var-log'' ''/var/log/puppetlabs'',
      mount ''var-data'' ''/opt/puppetlabs/server/data/puppetdb'']"

definition db_volumes :: "Database \<Rightarrow> Certificate \<Rightarrow> CertificateAuthority \<Rightarrow> Volume list" where
  "db_volumes db cert ca =
     [volume ''ssl'' EmptyDir, volume ''tmp'' EmptyDir, volume ''var-log'' EmptyDir, volume ''var-data'' EmptyDir,
      volume ''ssl-cert'' (SecretSource (ct_SecretName (c_Status cert)) (Some secret_mode) None),
      volume ''ssl-ca'' (SecretSource (at_CASecretName (ca_Status ca)) (Some secret_mode) None),
      volume ''config'' (ConfigMapSource (db_name db @ ''-config'') []),
      volume ''db-config'' (SecretSource (db_name db @ ''-db'') (Some secret_mode) None)]"

definition db_probe :: "int \<Rightarrow> int \<Rightarrow> Probe" where
  "db_probe period threshold = \<lparr> pr_Handler = ExecCommand
       [''curl'', ''-sf'', ''http://127.0.0.1:'' @ Itoa DatabaseHTTPPort @ ''/status/v1/simple''],
     pr_PeriodSeconds = period, pr_FailureThreshold = threshold \<rparr>"

definition db_container :: "Database \<Rightarrow> string \<Rightarrow> Container" where
  "db_container db img =
     (blank_container ''openvox-db'' img (pullPolicyOrDefault (im_PullPolicy (ds_Image (db_Spec db)))))
     \<lparr> con_Env := (if ds_JavaArgs (db_Spec db) \<noteq> [] then [env_var ''JAVA_ARGS'' (ds_JavaArgs (db_Spec db))] else []),
       con_Ports := [\<lparr> cp_Name = ''https'', cp_Port = DatabaseHTTPSPort, cp_Protocol = ''TCP'' \<rparr>],
       con_Resources := ds_Resources (db_Spec db),
       con_VolumeMounts := db_volume_mounts,
       con_StartupProbe := Some (db_probe 5 60), con_ReadinessProbe := Some (db_probe 10 0),
       con_LivenessProbe := Some (db_probe 30 0),
       con_SecurityContext := Some (restricted_context True) \<rparr>"

text \<open>The certname is the field of the spec as it is, not certnameOf.\<close>

definition db_init_script :: "string \<Rightarrow> string" where
  "db_init_script certname = Join
     [''mkdir -p /ssl/certs /ssl/private_keys'',
      ''cp /ssl-cert/cert.pem /ssl/certs/'' @ certname @ ''.pem'',
      ''cp /ssl-cert/key.pem /ssl/private_keys/'' @ certname @ ''.pem'',
      ''cp /ssl-ca/ca_crt.pem /ssl/certs/ca.pem'',
      ''chmod 640 /ssl/private_keys/'' @ certname @ ''.pem''] ''\<newline>''"

definition db_pod_spec :: "Database \<Rightarrow> Certificate \<Rightarrow> CertificateAuthority \<Rightarrow> string \<Rightarrow> PodSpec" where
  "db_pod_spec db cert ca img =
     \<lparr> pod_ServiceAccountName = [], pod_AutomountServiceAccountToken = Some False, pod_RestartPolicy = [],
       pod_SecurityContext = buildPodSecurityContext 1001 0 1001 (ds_SecurityContext (db_Spec db)),
       pod_ImagePullSecrets = appendPullSecrets [] (im_PullSecrets (ds_Image (db_Spec db))),
       pod_InitContainers = [tls_init_container img (pullPolicyOrDefault (im_PullPolicy (ds_Image (db_Spec db))))
         (db_init_script (cs_Certname (c_Spec cert))) True],
       pod_Containers = [db_container db img],
       pod_Volumes = db_volumes db cert ca,
       pod_TopologySpreadConstraints = [], pod_Affinity = None,
       pod_PriorityClassName = ds_PriorityClassName (db_Spec db) \<rparr>"

section \<open>The Deployment\<close>

definition db_replicas :: "Database \<Rightarrow> int" where
  "db_replicas db = (case ds_Replicas (db_Spec db) of None \<Rightarrow> 1 | Some n \<Rightarrow> n)"

text \<open>The digests of everything that is mounted, in the annotations of the pod template.\<close>

definition db_annotations :: "Database wl_env \<Rightarrow> Database \<Rightarrow> Certificate \<Rightarrow> CertificateAuthority \<Rightarrow> string smap dop" where
  "db_annotations E db cert ca =
     bnd (wrapping ''computing ConfigMap hash'' (config_map_hash E (db_name db @ ''-config''))) (\<lambda>config.
     bnd (wrapping ''computing database Secret hash'' (secret_hash E (db_name db @ ''-db''))) (\<lambda>dbSecret.
     bnd (wrapping ''computing SSL Secret hash'' (secret_hash E (ct_SecretName (c_Status cert)))) (\<lambda>ssl.
     bnd (wrapping ''computing CA Secret hash'' (secret_hash E (at_CASecretName (ca_Status ca)))) (\<lambda>ca_hash.
     bnd (wrapping ''computing PG credentials hash''
            (secret_hash E (pg_CredentialsSecretRef (ds_Postgres (db_Spec db))))) (\<lambda>pg.
     ret [(''openvox.voxpupuli.org/config-hash'', config), (''openvox.voxpupuli.org/db-secret-hash'', dbSecret),
          (''openvox.voxpupuli.org/ssl-secret-hash'', ssl), (''openvox.voxpupuli.org/ca-secret-hash'', ca_hash),
          (''openvox.voxpupuli.org/pg-credentials-hash'', pg)])))))"

definition new_db_deployment :: "Database \<Rightarrow> PodSpec \<Rightarrow> string smap \<Rightarrow> Deployment" where
  "new_db_deployment db pod annotations =
     \<lparr> dep_Meta = new_meta (db_name db) (db_ns db) \<lparr> m_Labels := databaseLabels (db_name db) \<rparr>,
       dep_Replicas = Some (db_replicas db), dep_Strategy = ''RollingUpdate'',
       dep_Selector = [(LabelDatabase, db_name db)], dep_TemplateLabels = databaseLabels (db_name db),
       dep_TemplateAnnotations = annotations, dep_Pod = pod, dep_ReadyReplicas = 0 \<rparr>"

definition rolled_db :: "Database \<Rightarrow> PodSpec \<Rightarrow> string smap \<Rightarrow> Deployment \<Rightarrow> Deployment" where
  "rolled_db db pod annotations d = d \<lparr> dep_Replicas := Some (db_replicas db),
     dep_TemplateLabels := databaseLabels (db_name db), dep_TemplateAnnotations := annotations, dep_Pod := pod \<rparr>"

definition write_db_deployment :: "Database wl_env \<Rightarrow> Database \<Rightarrow> PodSpec \<Rightarrow> string smap \<Rightarrow> unit dop" where
  "write_db_deployment E db pod annotations =
     (let name = db_name db in
      bnd (outcome (call (WGetDeployment name) (\<lambda>h. we_getDeployment E h name))) (\<lambda>r. case r of
        Inl e \<Rightarrow>
          if IsNotFound e then
            (let new = new_db_deployment db pod annotations in
             bnd (wrapping (''setting owner reference on Deployment '' @ name)
                   (lift (SetControllerReference (we_lib E) ''Database'' (db_Meta db) (dep_Meta new)))) (\<lambda>meta.
             let d = new \<lparr> dep_Meta := meta \<rparr> in
             call (WCreateDeployment d) (\<lambda>h. we_writeDeployment E h d)))
          else throw (wrapf (''getting Deployment '' @ name) e)
      | Inr d \<Rightarrow>
          (case assertControlledBy (we_lib E) (dep_Meta d) (db_Meta db) ''Deployment'' ''Database'' of
             Some e \<Rightarrow> throw e
           | None \<Rightarrow>
               (let d' = rolled_db db pod annotations d in
                call (WUpdateDeployment d') (\<lambda>h. we_writeDeployment E h d')))))"

definition reconcile_db_deployment :: "Database wl_env \<Rightarrow> Database \<Rightarrow> Certificate \<Rightarrow> CertificateAuthority \<Rightarrow> unit dop" where
  "reconcile_db_deployment E db cert ca =
     (let spec = db_Spec db;
          pod = db_pod_spec db cert ca (im_Repository (ds_Image spec) @ '':'' @ im_Tag (ds_Image spec)) in
      bnd (db_annotations E db cert ca) (write_db_deployment E db pod))"

section \<open>The other children\<close>

definition db_files :: "Certificate \<Rightarrow> string smap" where
  "db_files cert = [(''jetty.ini'', renderJettyIni (cs_Certname (c_Spec cert))),
     (''config.ini'', renderConfigIni), (''auth.conf'', database_auth_conf)]"

definition reconcile_db_config_map :: "Database wl_env \<Rightarrow> Database \<Rightarrow> Certificate \<Rightarrow> unit dop" where
  "reconcile_db_config_map E db cert =
     (let name = db_name db @ ''-config'' in
      ensure_child (we_lib E) ''Database'' (db_Meta db) (config_map_child E) name
        \<lparr> cm_Meta = new_meta name (db_ns db), cm_Data = [] \<rparr>
        (\<lambda>cm. cm \<lparr> cm_Meta := (cm_Meta cm) \<lparr> m_Labels := databaseLabels (db_name db) \<rparr>, cm_Data := db_files cert \<rparr>)
        (\<lambda>_. ret ()))"

definition reconcileDatabaseSecret :: "Database wl_env \<Rightarrow> Database \<Rightarrow> unit dop" where
  "reconcileDatabaseSecret E db =
     bnd (wrapping (''rendering database.ini for Database '' @ db_name db) (renderDatabaseIni E db)) (\<lambda>ini.
     let name = db_name db @ ''-db'' in
     bnd (wrapping (''reconciling Secret '' @ name)
           (create_or_update (call (WGetSecret name) (\<lambda>h. we_getSecret E h name))
             \<lparr> s_Meta = new_meta name (db_ns db), s_Data = [] \<rparr>
             (secret_mutation (we_lib E) (db_Meta db) ''Database'' (databaseLabels (db_name db))
                [(''database.ini'', ini)] [])
             (\<lambda>secret. call (WCreateSecret secret) (\<lambda>h. we_writeSecret E h secret))
             (\<lambda>secret. call (WUpdateSecret secret) (\<lambda>h. we_writeSecret E h secret)))) (\<lambda>_.
     ret ()))"

definition db_port :: "Database \<Rightarrow> int" where
  "db_port db = (if ds_ServicePort (db_Spec db) = 0 then DatabaseHTTPSPort else ds_ServicePort (db_Spec db))"

definition db_service :: "Database \<Rightarrow> Service \<Rightarrow> Service" where
  "db_service db svc =
     (let first = \<lambda>p. p \<lparr> sp_Name := ''https'', sp_Port := db_port db, sp_TargetPort := DatabaseHTTPSPort,
                          sp_Protocol := ''TCP'' \<rparr> in
      svc \<lparr> svc_Meta := (svc_Meta svc) \<lparr> m_Labels := databaseLabels (db_name db),
              m_Annotations := ds_ServiceAnnotations (db_Spec db) \<rparr>,
            svc_Type := (if ds_ServiceType (db_Spec db) = [] then ''ClusterIP'' else ds_ServiceType (db_Spec db)),
            svc_Selector := [(LabelDatabase, db_name db)],
            svc_Ports := (case svc_Ports svc of [] \<Rightarrow> [first blank_port] | p # ps \<Rightarrow> first p # ps) \<rparr>)"

definition reconcile_db_service :: "Database wl_env \<Rightarrow> Database \<Rightarrow> unit dop" where
  "reconcile_db_service E db =
     (let name = db_name db in
      ensure_child (we_lib E) ''Database'' (db_Meta db) (service_child E) name (blank_service name (db_ns db))
        (db_service db)
        (\<lambda>r. case r of
           Created \<Rightarrow> wl_event ''Normal'' ''DatabaseServiceSynced'' (''Service '' @ name @ '' created'')
         | Updated \<Rightarrow> wl_event ''Normal'' ''DatabaseServiceSynced'' (''Service '' @ name @ '' updated'')
         | NoChange \<Rightarrow> ret ()))"

definition reconcile_db_pdb :: "Database wl_env \<Rightarrow> Database \<Rightarrow> unit dop" where
  "reconcile_db_pdb E db =
     reconcile_pdb E ''Database'' (db_Meta db) ''DatabasePDB'' LabelDatabase (databaseLabels (db_name db))
       (ds_PDB (db_Spec db))"

text \<open>The pods of the operator may reach the port of PuppetDB.\<close>

definition db_ingress :: IngressRule where
  "db_ingress = PortRule [(''TCP'', DatabaseHTTPSPort)] [[(''app.kubernetes.io/name'', ''openvox'')]]"

definition reconcile_db_network_policy :: "Database wl_env \<Rightarrow> Database \<Rightarrow> unit dop" where
  "reconcile_db_network_policy E db =
     reconcile_network_policy E ''Database'' (db_Meta db) ''DatabaseNetworkPolicy'' LabelDatabase
       (databaseLabels (db_name db)) db_ingress (ds_NetworkPolicy (db_Spec db))"

section \<open>Reconcile\<close>

definition db_step :: "string \<Rightarrow> unit dop \<Rightarrow> unit dop" where
  "db_step what m =
     bnd (outcome m) (\<lambda>r. case r of
       Inl e \<Rightarrow>
         thn (wl_event ''Warning'' ''DatabaseError'' (''Failed to reconcile '' @ what @ '': '' @ err_text e))
             (throw (wrapf (''reconciling '' @ what) e))
     | Inr _ \<Rightarrow> ret ())"

definition db_children :: "Database wl_env \<Rightarrow> Database \<Rightarrow> Certificate \<Rightarrow> CertificateAuthority \<Rightarrow> unit dop" where
  "db_children E db cert ca =
     thn (db_step ''ConfigMap'' (reconcile_db_config_map E db cert))
     (thn (db_step ''database Secret'' (reconcileDatabaseSecret E db))
     (thn (db_step ''Deployment'' (reconcile_db_deployment E db cert ca))
     (thn (db_step ''Service'' (reconcile_db_service E db))
     (thn (db_step ''PDB'' (reconcile_db_pdb E db))
          (db_step ''NetworkPolicy'' (reconcile_db_network_policy E db))))))"

definition db_report :: "Database wl_env \<Rightarrow> int \<Rightarrow> Database \<Rightarrow> Database" where
  "db_report E ready db =
     (let replicas = db_replicas db;
          db' = with_db_status (\<lambda>st. st \<lparr> dt_ObservedGeneration := m_Generation (db_Meta db),
             dt_Desired := replicas, dt_Ready := ready,
             dt_URL := ''https://'' @ db_name db @ ''.'' @ db_ns db @ ''.svc.cluster.local:'' @ Itoa (db_port db),
             dt_Phase := (if ready > 0 then DatabaseRunning else DatabasePending) \<rparr>) db
      in if ready > 0
         then wl_cond db_access E ConditionDatabaseReady ''True'' ''ReplicasReady''
                (Itoa ready @ ''/'' @ Itoa replicas @ '' replicas ready'') db'
         else wl_cond db_access E ConditionDatabaseReady ''False'' ''ReplicasNotReady''
                (''0/'' @ Itoa replicas @ '' replicas ready'') db')"

definition db_ready :: "Database wl_env \<Rightarrow> Database \<Rightarrow> Certificate \<Rightarrow> CertificateAuthority \<Rightarrow> result dop" where
  "db_ready E db cert ca =
     thn (db_children E db cert ca)
     (bnd (wrapping (''reading ready replicas for Database '' @ db_name db) (ready_replicas E (db_name db))) (\<lambda>ready.
      thn (wrapping (''updating status for Database '' @ db_name db)
            (wl_update_status db_access E (db_report E ready)))
      (thn (if ready > 0 then wl_event ''Normal'' ''DatabaseRunning'' ''Database reconciled successfully'' else ret ())
      (ret (Result 0)))))"

definition db_with_cert :: "Database wl_env \<Rightarrow> Database \<Rightarrow> Certificate \<Rightarrow> result dop" where
  "db_with_cert E db cert =
     (let caRef = cs_AuthorityRef (c_Spec cert); ref = pg_CredentialsSecretRef (ds_Postgres (db_Spec db)) in
      if \<not> certificateUsable (we_lib E) cert then
        thn (logged (wl_update_status db_access E (with_db_status (\<lambda>st. st \<lparr> dt_Phase := DatabaseWaitingForCert \<rparr>))))
            (ret (Result RequeueIntervalMedium))
      else
        referenced ''CertificateAuthority'' caRef (WGetCA caRef) (\<lambda>h. we_getCA E h caRef)
          (ret (Result RequeueIntervalShort)) (\<lambda>ca.
        referenced ''Secret'' ref (WGetSecret ref) (\<lambda>h. we_getSecret E h ref)
          (ret (Result RequeueIntervalShort)) (\<lambda>_.
        bnd (reads obj) (\<lambda>db. db_ready E db cert ca))))"

definition Reconcile_database :: "Database wl_env \<Rightarrow> result dop" where
  "Reconcile_database E =
     bnd (outcome (wl_refetch db_access E)) (\<lambda>r.
     bnd (reads obj) (\<lambda>db. case r of
       Inl e \<Rightarrow>
         if IsNotFound e then ret (Result 0)
         else throw (wrapf (''getting Database '' @ db_ns db @ ''/'' @ db_name db) e)
     | Inr _ \<Rightarrow>
         bnd (wl_pause db_access E) (\<lambda>paused.
         if paused then ret (Result 0)
         else
           thn (bnd (reads obj) (\<lambda>db.
             if dt_Phase (db_Status db) = DatabaseNoPhase
             then wrapping (''updating initial status for Database '' @ db_name db)
                    (wl_update_status db_access E (with_db_status (\<lambda>st. st \<lparr> dt_Phase := DatabasePending \<rparr>)))
             else ret ()))
           (bnd (reads obj) (\<lambda>db. let ref = ds_CertificateRef (db_Spec db) in
            referenced ''Certificate'' ref (WGetCertificate ref) (\<lambda>h. we_getCertificate E h ref)
              (ret (Result RequeueIntervalShort)) (db_with_cert E db))))))"

section \<open>Watches\<close>

definition databasesReferencingSecret :: "err + Database list \<Rightarrow> string \<Rightarrow> (string \<times> string) list" where
  "databasesReferencingSecret listed secretName =
     (case listed of
        Inl _ \<Rightarrow> []
      | Inr dbs \<Rightarrow> map (\<lambda>db. (db_ns db, db_name db))
          (filter (\<lambda>db. pg_CredentialsSecretRef (ds_Postgres (db_Spec db)) = secretName) dbs))"

definition databasesMatching :: "(string \<Rightarrow> err + Database list) \<Rightarrow> string \<Rightarrow> (string \<times> string) list" where
  "databasesMatching = matching_requests db_Meta"

definition databasesForCA :: "(string \<Rightarrow> err + Database list) \<Rightarrow> (string \<Rightarrow> err + Certificate list) \<Rightarrow> string \<Rightarrow>
    (string \<times> string) list" where
  "databasesForCA = requests_for_ca db_Meta"

definition databasesForSecret :: "err + Database list \<Rightarrow> (string \<Rightarrow> err + Database list) \<Rightarrow>
    (string \<Rightarrow> err + Certificate list) \<Rightarrow> ObjectMeta \<Rightarrow> (string \<times> string) list" where
  "databasesForSecret listed byCertificate listCerts secret =
     (let requests = databasesReferencingSecret listed (m_Name secret);
          certName = sval (m_Labels secret) ''openvox.voxpupuli.org/certificate'';
          caName = sval (m_Labels secret) LabelCertificateAuthority in
      if requests \<noteq> [] then requests
      else if sval (m_Labels secret) ''app.kubernetes.io/managed-by'' \<noteq> ''openvox-operator'' then []
      else if certName \<noteq> [] then databasesMatching byCertificate certName
      else if caName \<noteq> [] then databasesForCA byCertificate listCerts caName
      else [])"

definition enqueueDatabasesForCertificate :: "(string \<Rightarrow> err + Database list) \<Rightarrow> ObjectMeta \<Rightarrow> (string \<times> string) list" where
  "enqueueDatabasesForCertificate byCertificate cert = databasesMatching byCertificate (m_Name cert)"

end
