(* ===== verification/WorkloadProps.thy ===== *)
theory WorkloadProps
  imports ServerCtl DatabaseCtl PoolCtl CASetup
begin

text \<open>
  Properties of the controllers of Server and Database: which pods their selectors reach, that
  they change no child of another owner, and what they wait for before they build anything.
\<close>

section \<open>Selectors\<close>

definition selects :: "string smap \<Rightarrow> string smap \<Rightarrow> bool" where
  "selects selector labels = list_all (\<lambda>(k, v). sget labels k = Some v) selector"

lemma sget_pool_labels:
  "sget (fold (\<lambda>p m. sput (poolLabel p) ''true'' m) ps m) k =
   (if k \<in> set (map poolLabel ps) then Some ''true'' else sget m k)"
  by (induction ps arbitrary: m) auto

lemmas label_defs = LabelConfig_def LabelCertificateAuthority_def LabelPoolPrefix_def LabelServer_def
  LabelDatabase_def LabelRole_def LabelCA_def

lemma pool_label_other:
  "poolLabel p \<noteq> LabelServer" "poolLabel p \<noteq> LabelCA" "poolLabel p \<noteq> LabelDatabase"
  "poolLabel p \<noteq> LabelConfig" "poolLabel p \<noteq> LabelRole" "poolLabel p \<noteq> ''app.kubernetes.io/name''"
  "poolLabel p \<noteq> ''app.kubernetes.io/managed-by''"
  by (simp_all add: poolLabel_def label_defs)

lemma pool_label_inj: "poolLabel p = poolLabel q \<longleftrightarrow> p = q"
  by (simp add: poolLabel_def)

lemma label_distinct:
  "LabelServer \<noteq> LabelCA" "LabelServer \<noteq> LabelDatabase" "LabelCA \<noteq> LabelDatabase" "LabelConfig \<noteq> LabelServer"
  "LabelConfig \<noteq> LabelCA" "LabelConfig \<noteq> LabelDatabase" "LabelRole \<noteq> LabelServer" "LabelRole \<noteq> LabelCA"
  "LabelRole \<noteq> LabelDatabase"
  "''app.kubernetes.io/name'' \<noteq> LabelServer" "''app.kubernetes.io/name'' \<noteq> LabelCA" "''app.kubernetes.io/name'' \<noteq> LabelDatabase"
  "''app.kubernetes.io/managed-by'' \<noteq> LabelServer" "''app.kubernetes.io/managed-by'' \<noteq> LabelCA"
  "''app.kubernetes.io/managed-by'' \<noteq> LabelDatabase"
  by (simp_all add: label_defs)

lemma pool_label_image:
  "LabelServer \<notin> poolLabel ` A" "LabelCA \<notin> poolLabel ` A" "LabelDatabase \<notin> poolLabel ` A"
  "poolLabel p \<in> poolLabel ` A \<longleftrightarrow> p \<in> A"
  using pool_label_other(1-3) [symmetric] by (auto simp: pool_label_inj)

lemma server_label:
  "sget (server_labels server) LabelServer = Some (sv_name server)"
  "sget (server_labels server) LabelCA = (if sv_CA server then Some ''true'' else None)"
  "sget (server_labels server) LabelDatabase = None"
  "sget (server_labels server) (poolLabel p) = (if p \<in> set (sv_PoolRefs server) then Some ''true'' else None)"
  unfolding server_labels_def Let_def sget_pool_labels set_map
  by (simp_all add: pool_label_image pool_label_other pool_label_other [symmetric] label_distinct label_distinct [symmetric]
      serverLabels_def managed_labels_def)

text \<open>C20: Traffic and budgets reach the pods they are meant for: the labels of a Server's pods match the
  Service of a Pool exactly if the Server lists the Pool, the Service of a CertificateAuthority
  exactly if the Server has the CA role (of whichever CA), the selectors of Deployment, disruption
  budget and network policy exactly if they are those of a Server of that name, and never the
  Service of a Database.\<close>

theorem pods_selected:
  "selects (poolServiceSelector pool) (dep_TemplateLabels (rolled server pod annotations d)) =
     (m_Name (p_Meta pool) \<in> set (sv_PoolRefs server)) \<and>
   selects (svc_Selector (ca_service ca svc)) (dep_TemplateLabels (rolled server pod annotations d)) = sv_CA server \<and>
   selects (dep_Selector (new_server_deployment other pod' annotations'))
     (dep_TemplateLabels (rolled server pod annotations d)) = (sv_name other = sv_name server) \<and>
   selects (pds_Selector (pdb_spec LabelServer (sv_name other) budget))
     (dep_TemplateLabels (rolled server pod annotations d)) = (sv_name other = sv_name server) \<and>
   selects (nps_PodSelector (policy_spec LabelServer (sv_name other) ingress policy))
     (dep_TemplateLabels (rolled server pod annotations d)) = (sv_name other = sv_name server) \<and>
   \<not> selects (svc_Selector (db_service db svc')) (dep_TemplateLabels (rolled server pod annotations d))"
  by (auto simp: selects_def rolled_def poolServiceSelector_def ca_service_def new_server_deployment_def scaled_def
      pdb_spec_def policy_spec_def db_service_def server_label Let_def split: option.splits)

section \<open>Only children of the owner are changed\<close>

lemma child_gets:
  "call (WGetDeployment n) (\<lambda>h. we_getDeployment E h n) = ch_Get (deployment_child E) n"
  "call (WGetSecret n) (\<lambda>h. we_getSecret E h n) = ch_Get (secret_child E) n"
  by (simp_all add: deployment_child_def secret_child_def)

lemma child_kinds:
  "ch_Kind (deployment_child E) = ''Deployment''" "ch_Meta (deployment_child E) = dep_Meta"
  "ch_Kind (secret_child E) = ''Secret''" "ch_Meta (secret_child E) = s_Meta"
  "ch_Update (deployment_child E) x = call (WUpdateDeployment x) (\<lambda>h. we_writeDeployment E h x)"
  by (simp_all add: deployment_child_def secret_child_def)

lemma quiet_steps:
  "only hist (\<lambda>c. \<not> changes_existing c) (wl_event k r n)"
  "only hist (\<lambda>c. \<not> changes_existing c) (report_child what kind name res)"
  "only hist (\<lambda>c. \<not> changes_existing c) (report_deleted what kind name)"
  "only hist (\<lambda>c. \<not> changes_existing c) (built E k' owner what meta)"
  "only hist (\<lambda>c. \<not> changes_existing c) (config_map_hash E n)"
  "only hist (\<lambda>c. \<not> changes_existing c) (secret_hash E n)"
  by (intro wl_only wl_only_report; simp add: changes_existing_def)+

lemmas grown_steps = quiet_steps [THEN grown_quiet]

lemma pdb_grown: "keeps (grown hist (checked_change E k owner) h) (reconcile_pdb E k owner what label labels spec)"
  unfolding reconcile_pdb_def Let_def
  by (intro keeps_rules grown_steps pdb.disable_grown pdb.ensure_grown)

lemma netpol_grown:
  "keeps (grown hist (checked_change E k owner) h) (reconcile_network_policy E k owner what label labels ingress spec)"
  unfolding reconcile_network_policy_def Let_def
  by (intro keeps_rules grown_steps netpol.disable_grown netpol.ensure_grown)

lemma hpa_grown: "keeps (grown hist (checked_change E ''Server'' (sv_Meta server)) h) (reconcileHPA E server)"
  unfolding reconcileHPA_def Let_def
  by (intro keeps_rules grown_steps hpa.disable_grown hpa.ensure_grown)

lemma annotations_grown:
  "keeps (grown hist (checked_change E k owner) h) (server_annotations E server cfg cert ca)"
  "keeps (grown hist (checked_change E' k owner) h') (db_annotations E' db cert ca)"
  unfolding server_annotations_def optional_hash_def db_annotations_def Let_def
  by (intro keeps_rules grown_steps)+

lemmas dep_checked = dep.checked_get [unfolded child_kinds, folded child_gets]
lemmas dep_checked_wrapped = dep.checked_get_wrapped [unfolded child_kinds, folded child_gets]
lemmas dep_update = dep.update_grown [unfolded child_kinds, folded child_gets]

lemma server_deployment_grown:
  "keeps (grown hist (checked_change E ''Server'' (sv_Meta server)) h) (reconcile_server_deployment E server cfg cert ca)"
proof -
  have update: "keeps (grown hist (checked_change E ''Server'' (sv_Meta server)) h) (update_server_deployment E server pod ann)"
    for pod ann unfolding update_server_deployment_def Let_def by (intro dep_checked_wrapped) (rule dep_update)
  have "keeps (grown hist (checked_change E ''Server'' (sv_Meta server)) h) (write_server_deployment E server pod ann)"
    for pod ann unfolding write_server_deployment_def Let_def
  proof (rule dep_checked, goal_cases)
    case (1 e)
    show ?case by (intro keeps_rules quiet_calls) (simp add: changes_existing_def)
  next
    case (2 s x s')
    then show ?case using keeps_retry [OF update] by (simp add: keeps_def)
  qed
  then show ?thesis unfolding reconcile_server_deployment_def by (intro keeps_rules annotations_grown)
qed

lemma db_deployment_grown:
  "keeps (grown hist (checked_change E ''Database'' (db_Meta db)) h) (reconcile_db_deployment E db cert ca)"
proof -
  have "keeps (grown hist (checked_change E ''Database'' (db_Meta db)) h) (write_db_deployment E db pod ann)"
    for pod ann unfolding write_db_deployment_def Let_def
  proof (rule dep_checked, goal_cases)
    case (1 e)
    show ?case by (intro keeps_rules quiet_calls) (simp add: changes_existing_def)
  next
    case (2 s x s')
    then show ?case by (rule dep_update)
  qed
  then show ?thesis unfolding reconcile_db_deployment_def Let_def by (intro keeps_rules annotations_grown)
qed

lemma db_secret_grown:
  "keeps (grown hist (checked_change E ''Database'' (db_Meta db)) h) (reconcileDatabaseSecret E db)"
proof -
  have update: "(\<lambda>secret. call (WUpdateSecret secret) (\<lambda>h. we_writeSecret E h secret)) = ch_Update (secret_child E)"
    "(\<lambda>secret. call (WCreateSecret secret) (\<lambda>h. we_writeSecret E h secret)) = ch_Create (secret_child E)"
    by (simp_all add: secret_child_def)
  show ?thesis
    unfolding reconcileDatabaseSecret_def renderDatabaseIni_def database_secret_key_def Let_def update
  proof (intro keeps_rules quiet_calls)
    show "keeps (grown hist (checked_change E ''Database'' (db_Meta db)) h)
        (create_or_update (call (WGetSecret n) (\<lambda>h. we_getSecret E h n)) blank
           (secret_mutation (we_lib E) (db_Meta db) ''Database'' labels data keys)
           (ch_Create (secret_child E)) (ch_Update (secret_child E)))" for n blank labels data keys
      unfolding child_gets
      by (rule sec.create_or_update_grown)
        (auto simp: child_kinds controls_def secret_mutation_def)
  qed (simp_all add: changes_existing_def)
qed

lemma db_config_map_grown:
  "keeps (grown hist (checked_change E ''Database'' (db_Meta db)) h) (reconcile_db_config_map E db cert)"
  unfolding reconcile_db_config_map_def Let_def by (intro cm.ensure_grown keeps_rules)

lemma db_service_grown:
  "keeps (grown hist (checked_change E ''Database'' (db_Meta db)) h) (reconcile_db_service E db)"
  unfolding reconcile_db_service_def Let_def
proof (rule svc.ensure_grown)
  show "keeps (grown hist (checked_change E ''Database'' (db_Meta db)) h)
     (case r of Created \<Rightarrow> wl_event ''Normal'' ''DatabaseServiceSynced'' (''Service '' @ db_name db @ '' created'')
      | Updated \<Rightarrow> wl_event ''Normal'' ''DatabaseServiceSynced'' (''Service '' @ db_name db @ '' updated'')
      | NoChange \<Rightarrow> ret ())" for r
    by (cases r) (auto intro: grown_steps)
qed

lemma server_children_grown:
  "keeps (grown hist (checked_change E ''Server'' (sv_Meta server)) h) (server_children E server cfg cert ca)"
  unfolding server_children_def server_deployment_step_def reconcile_server_pdb_def reconcile_server_network_policy_def
  by (intro keeps_rules grown_steps server_deployment_grown pdb_grown hpa_grown netpol_grown)

lemma db_children_grown:
  "keeps (grown hist (checked_change E ''Database'' (db_Meta db)) h) (db_children E db cert ca)"
  unfolding db_children_def db_step_def reconcile_db_pdb_def reconcile_db_network_policy_def
  by (intro keeps_rules grown_steps db_config_map_grown db_secret_grown db_deployment_grown db_service_grown
      pdb_grown netpol_grown)

text \<open>C3: Neither controller ever changes a child that is not its own: whatever the API server
  answers, every update and every deletion a Server or a Database makes comes right after a read
  of that kind of object whose answer this Server or Database controls (or that is no object of
  the API server yet).\<close>

theorem only_own_children_changed:
  "grown hist (checked_change E ''Server'' (sv_Meta server)) (hist s) (snd (server_children E server cfg cert ca s)) \<and>
   grown hist (checked_change D ''Database'' (db_Meta db)) (hist t) (snd (db_children D db cert' ca' t))"
  using server_children_grown [of E server "hist s" cfg cert ca] db_children_grown [of D db "hist t" cert' ca']
  by (simp add: keeps_def grown_refl)

section \<open>Nothing is built too early\<close>

definition builds :: "'o wl_call \<Rightarrow> bool" where
  "builds c = (changes_existing c \<or> (case c of
     WCreateSecret _ \<Rightarrow> True | WCreateConfigMap _ \<Rightarrow> True | WCreateService _ \<Rightarrow> True | WCreateDeployment _ \<Rightarrow> True
   | WCreatePDB _ \<Rightarrow> True | WCreateNetworkPolicy _ \<Rightarrow> True | WCreateHPA _ \<Rightarrow> True | _ \<Rightarrow> False))"

text \<open>A call since \<open>h0\<close> read the object of the given name, and this was the answer.\<close>

definition answered :: "(string \<Rightarrow> 'o wl_call) \<Rightarrow> ('o wl_call list \<Rightarrow> string \<Rightarrow> err + 'c) \<Rightarrow> string \<Rightarrow> 'c \<Rightarrow>
    'o wl_call list \<Rightarrow> 'o wl_call list \<Rightarrow> bool" where
  "answered read answer n x h0 h = (\<exists>h1 rest. h = h0 @ h1 @ read n # rest \<and> answer (h0 @ h1) n = Inr x)"

lemma answered_append: "answered read answer n x h0 h \<Longrightarrow> answered read answer n x h0 (h @ cs)"
  unfolding answered_def by (elim exE conjE) (intro exI conjI, simp, assumption+)

lemma answered_now:
  "hist s = h0 @ h1 \<Longrightarrow> answer (hist s) n = Inr x \<Longrightarrow> answered read answer n x h0 (hist s @ [read n])"
  unfolding answered_def by (intro exI [of _ h1] exI [of _ "[]"]) simp

text \<open>What is built is built after reads of the Server by its name, of the Config and of a usable
  Certificate under the names it gives, and of the CA that this Certificate names; for a
  Database, of the Database, the Certificate and the credentials it names, and the CA.\<close>

definition server_prerequisites :: "Server wl_env \<Rightarrow> string \<Rightarrow> Server wl_call list \<Rightarrow> Server wl_call list \<Rightarrow>
    Server wl_call \<Rightarrow> bool" where
  "server_prerequisites E name h0 h c = (\<not> builds c \<or> (\<exists>server cfg cert ca.
     answered WGet (we_get E) name server h0 h \<and>
     answered WGetConfig (we_getConfig E) (sv_ConfigRef server) cfg h0 h \<and>
     answered WGetCertificate (we_getCertificate E) (sv_CertificateRef server) cert h0 h \<and>
     certificateUsable (we_lib E) cert \<and>
     answered WGetCA (we_getCA E) (cs_AuthorityRef (c_Spec cert)) ca h0 h))"

definition database_prerequisites :: "Database wl_env \<Rightarrow> string \<Rightarrow> Database wl_call list \<Rightarrow> Database wl_call list \<Rightarrow>
    Database wl_call \<Rightarrow> bool" where
  "database_prerequisites E name h0 h c = (\<not> builds c \<or> (\<exists>db cert ca credentials.
     answered WGet (we_get E) name db h0 h \<and>
     answered WGetCertificate (we_getCertificate E) (ds_CertificateRef (db_Spec db)) cert h0 h \<and>
     certificateUsable (we_lib E) cert \<and>
     answered WGetCA (we_getCA E) (cs_AuthorityRef (c_Spec cert)) ca h0 h \<and>
     answered WGetSecret (we_getSecret E) (pg_CredentialsSecretRef (ds_Postgres (db_Spec db))) credentials h0 h))"

text \<open>The object in memory is, as far as its references go, one that was read since \<open>h0\<close>.\<close>

definition known :: "'o accessor \<Rightarrow> ('o \<Rightarrow> 'r) \<Rightarrow> 'o wl_env \<Rightarrow> string \<Rightarrow> 'o wl_call list \<Rightarrow> 'o wst \<Rightarrow> bool" where
  "known A refs E name h0 s = (m_Name (ac_Meta A (obj s)) = name \<and>
     (\<exists>h1. hist s = h0 @ h1) \<and> (\<exists>x. answered WGet (we_get E) name x h0 (hist s) \<and> refs (obj s) = refs x))"

definition keeps_refs :: "'o accessor \<Rightarrow> ('o \<Rightarrow> 'r) \<Rightarrow> ('o \<Rightarrow> 'o) \<Rightarrow> bool" where
  "keeps_refs A refs f = (\<forall>x. refs (f x) = refs x \<and> ac_Meta A (f x) = ac_Meta A x)"

definition stores_meta :: "'o accessor \<Rightarrow> ('o \<Rightarrow> 'r) \<Rightarrow> bool" where
  "stores_meta A refs = ((\<forall>m x. refs (ac_SetMeta A m x) = refs x \<and> ac_Meta A (ac_SetMeta A m x) = m) \<and>
     (\<forall>f. keeps_refs A refs (ac_SetConditions A f)))"

lemma outcome_run: "m s = (r, t) \<Longrightarrow> bnd (outcome m) f s = f r t"
  by (simp add: bnd_def outcome_def)

lemma reads_run: "bnd (reads g) f s = f (g s) s"
  by (simp add: bnd_def reads_def)

lemma known_refetch:
  assumes "stores_meta A refs" "m_Name (ac_Meta A (obj s)) = name" "hist s = h0 @ h1" "wl_refetch A E s = (Inr u, s')"
  shows "known A refs E name h0 s'"
proof -
  obtain x where x: "we_get E (hist s) name = Inr x"
      "s' = s \<lparr> hist := hist s @ [WGet name], obj := ac_SetMeta A
         (ac_Meta A x \<lparr> m_Name := name, m_Namespace := m_Namespace (ac_Meta A (obj s)) \<rparr>) x \<rparr>"
    using assms(2,4) by (auto simp: wl_refetch_def call_def Let_def split: sum.splits)
  have "answered WGet (we_get E) name x h0 (hist s')" using answered_now [OF assms(3), of "we_get E" name x WGet] x by simp
  then show ?thesis using assms(1,3) x(2) by (auto simp: known_def stores_meta_def)
qed

lemma known_keeps_refetch: "stores_meta A refs \<Longrightarrow> keeps (known A refs E name h0) (wl_refetch A E)"
  unfolding keeps_def
proof (intro allI impI)
  fix s assume st: "stores_meta A refs" and k: "known A refs E name h0 s"
  obtain r s' where r: "wl_refetch A E s = (r, s')" by (cases "wl_refetch A E s")
  show "known A refs E name h0 (snd (wl_refetch A E s))"
  proof (cases r)
    case (Inl e)
    then have "s' = s \<lparr> hist := hist s @ [WGet name] \<rparr>"
      using r k by (auto simp: wl_refetch_def call_def known_def Let_def split: sum.splits)
    then show ?thesis using k r answered_append by (fastforce simp: known_def)
  next
    case (Inr u)
    then show ?thesis using known_refetch [OF st] r k by (fastforce simp: known_def)
  qed
qed

lemma known_keeps_call: "keeps (known A refs E name h0) (\<lambda>s. call (c s) (a s) s)"
  unfolding keeps_def known_def call_def using answered_append by fastforce

lemma known_keeps_update:
  assumes "stores_meta A refs" "keeps_refs A refs f"
  shows "keeps (known A refs E name h0) (wl_update_status A E f)"
proof -
  have "keeps (known A refs E name h0) (mutate_obj f)"
    using assms(2) by (auto simp: keeps_def known_def keeps_refs_def mutate_obj_def modify_def)
  moreover have "keeps (known A refs E name h0) (wl_send_status E)"
    unfolding wl_send_status_def by (rule known_keeps_call)
  ultimately show ?thesis unfolding wl_update_status_def status_with_retry_def
    by (intro keeps_rules known_keeps_refetch assms(1))
qed

lemma keeps_pause_state: "(\<And>f. keeps I (update f)) \<Longrightarrow> keeps I (reconcilePauseState L m cs update)"
  unfolding keeps_def reconcilePauseState_def ret_def
  by (auto split: prod.splits sum.splits) (metis snd_conv)+

lemma known_keeps_pause: "stores_meta A refs \<Longrightarrow> keeps (known A refs E name h0) (wl_pause A E)"
  unfolding wl_pause_def
  by (intro keeps_rules keeps_pause_state known_keeps_update) (simp_all add: stores_meta_def)

definition server_refs :: "Server \<Rightarrow> string \<times> string" where
  "server_refs sv = (sv_ConfigRef sv, sv_CertificateRef sv)"

lemma stored_server: "stores_meta sv_access server_refs" "keeps_refs sv_access server_refs (with_sv_status f)"
  by (simp_all add: stores_meta_def keeps_refs_def sv_access_def server_refs_def with_sv_status_def)

lemma stored_database: "stores_meta db_access db_Spec" "keeps_refs db_access db_Spec (with_db_status f)"
  by (simp_all add: stores_meta_def keeps_refs_def db_access_def with_db_status_def)

text \<open>After a step that keeps the object known and builds nothing, what a known object is enough for.\<close>

lemma known_then:
  assumes "keeps (grown hist P h0) m" "keeps (known A refs E name h0) m"
    and "\<And>x s. grown hist P h0 s \<Longrightarrow> known A refs E name h0 s \<Longrightarrow> grown hist P h0 (snd (k x s))"
    and "grown hist P h0 s" "known A refs E name h0 s"
  shows "grown hist P h0 (snd (bnd m k s))"
proof -
  obtain r t where t: "m s = (r, t)" by (cases "m s")
  have "grown hist P h0 t" "known A refs E name h0 t"
    using keepsD [OF assms(1,4) t] keepsD [OF assms(2,5) t] by simp_all
  then show ?thesis using assms(3) t by (cases r) (simp_all add: bnd_def)
qed

lemma referenced_grown:
  assumes "grown hist P h0 s" "P (hist s) c" "keeps (grown hist P h0) missing"
    and "\<And>x. a (hist s) = Inr x \<Longrightarrow> grown hist P h0 (snd (k x (s \<lparr> hist := hist s @ [c] \<rparr>)))"
  shows "grown hist P h0 (snd (referenced kind name c a missing k s))"
proof -
  have I: "grown hist P h0 (s \<lparr> hist := hist s @ [c] \<rparr>)"
    using grown_call [of P h0 s c a, OF assms(1,2)] by (simp add: call_def)
  show ?thesis
  proof (cases "a (hist s)")
    case (Inl e)
    then show ?thesis using assms(3) I
      by (simp add: referenced_def bnd_def outcome_def call_def keeps_def throw_def)
  next
    case (Inr x)
    then show ?thesis using assms(4) by (simp add: referenced_def bnd_def outcome_def call_def)
  qed
qed

lemma grown_whatever:
  assumes "keeps (grown hist Q (hist s)) m" "grown hist P h0 s" "\<And>cs c. P (hist s @ cs) c"
  shows "grown hist P h0 (snd (m s))"
proof -
  have "grown hist Q (hist s) (snd (m s))" using assms(1) grown_refl [of hist Q s] by (simp add: keeps_def)
  then obtain ds where ds: "hist (snd (m s)) = hist s @ ds" by (auto simp: grown_def)
  have "guarded P (hist s @ cs) ds" for cs
  proof (induction ds arbitrary: cs)
    case (Cons d ds)
    then show ?case using assms(3) [of cs d] Cons [of "cs @ [d]"] by simp
  qed simp
  from this [of "[]"] show ?thesis using assms(2) ds by (auto simp: grown_def guarded_append)
qed

lemma quiet_reads:
  "only hist (\<lambda>c. \<not> changes_existing c) (ready_replicas E n)"
  "only hist (\<lambda>c. \<not> changes_existing c) (wl_update_status A E f)"
  by (intro wl_only wl_only_update_status; simp add: changes_existing_def)+

lemmas grown_reads = quiet_reads [THEN grown_quiet]

lemma server_ready_grown:
  "keeps (grown hist (checked_change E ''Server'' (sv_Meta server)) h) (server_ready E server cfg cert ca)"
  unfolding server_ready_def by (intro keeps_rules server_children_grown grown_steps grown_reads)

lemma db_ready_grown:
  "keeps (grown hist (checked_change E ''Database'' (db_Meta db)) h) (db_ready E db cert ca)"
  unfolding db_ready_def by (intro keeps_rules db_children_grown grown_steps grown_reads)

text \<open>Reading and reporting builds nothing.\<close>

lemma idle_steps:
  "only hist (\<lambda>c. \<not> builds c) (wl_event k r n)"
  "only hist (\<lambda>c. \<not> builds c) (wl_refetch A E)"
  "only hist (\<lambda>c. \<not> builds c) (wl_update_status A E f)"
  "only hist (\<lambda>c. \<not> builds c) (wl_pause A E)"
  by (intro wl_only wl_only_update_status wl_only_pause; simp add: builds_def changes_existing_def)+

lemma grown_idle:
  "only hist (\<lambda>c. \<not> builds c) m \<Longrightarrow> keeps (grown hist (server_prerequisites E nm h0) h0) m"
  "only hist (\<lambda>c. \<not> builds c) m' \<Longrightarrow> keeps (grown hist (database_prerequisites D nm' h1) h1) m'"
  by (rule grown_only, assumption, simp add: server_prerequisites_def database_prerequisites_def)+

lemma referenced_idle: "\<not> builds (WGetConfig n)" "\<not> builds (WGetCertificate n)" "\<not> builds (WGetCA n)" "\<not> builds (WGetSecret n)"
  by (simp_all add: builds_def changes_existing_def)

lemma idle_reads:
  "server_prerequisites E nm h0 h (WGetConfig n)" "server_prerequisites E nm h0 h (WGetCertificate n)"
  "server_prerequisites E nm h0 h (WGetCA n)"
  "database_prerequisites D nm' h1 h' (WGetCertificate n)" "database_prerequisites D nm' h1 h' (WGetCA n)"
  "database_prerequisites D nm' h1 h' (WGetSecret n)"
  by (simp_all add: server_prerequisites_def database_prerequisites_def referenced_idle)

lemma read_grown: "grown hist P h0 s \<Longrightarrow> P (hist s) c \<Longrightarrow> grown hist P h0 (s \<lparr> hist := hist s @ [c] \<rparr>)"
  by (erule grown_step) simp_all

lemma grown_extends: "grown hist P h0 s \<Longrightarrow> \<exists>cs. hist s = h0 @ cs"
  by (auto simp: grown_def)

lemma server_cert_built:
  fixes s :: "Server wst"
  assumes G: "grown hist (server_prerequisites E nm h0) h0 s"
    and server: "answered WGet (we_get E) nm server h0 (hist s)"
    and cfg: "answered WGetConfig (we_getConfig E) (sv_ConfigRef server) cfg' h0 (hist s)"
    and cert: "answered WGetCertificate (we_getCertificate E) (sv_CertificateRef server) cert h0 (hist s)"
  shows "grown hist (server_prerequisites E nm h0) h0 (snd (server_with_cert E cfg cert s))"
proof (cases "certificateUsable (we_lib E) cert")
  case False
  have "keeps (grown hist (server_prerequisites E nm h0) h0) (thn (logged (wl_update_status sv_access E (server_waiting E cert)))
          (ret (Result RequeueIntervalMedium)) :: result sop)"
    by (intro grown_idle only_rules idle_steps)
  then show ?thesis using False G by (simp add: server_with_cert_def keeps_def Let_def)
next
  case True
  obtain cs where cs: "hist s = h0 @ cs" using grown_extends [OF G] by blast
  show ?thesis unfolding server_with_cert_def Let_def
  proof (simp only: True not_True_eq_False if_False, rule referenced_grown [OF G])
    let ?n = "cs_AuthorityRef (c_Spec cert)"
    let ?t = "s \<lparr> hist := hist s @ [WGetCA ?n] \<rparr>"
    show "server_prerequisites E nm h0 (hist s) (WGetCA ?n)" by (rule idle_reads)
    show "keeps (grown hist (server_prerequisites E nm h0) h0) (ret (Result RequeueIntervalShort) :: result sop)" by (rule keeps_ret)
    fix x assume x: "we_getCA E (hist s) ?n = Inr x"
    have ca: "answered WGetCA (we_getCA E) ?n x h0 (hist ?t)"
      using answered_now [OF cs, of "we_getCA E" ?n x WGetCA] x by simp
    have "answered WGet (we_get E) nm server h0 (hist ?t @ ds) \<and>
        answered WGetConfig (we_getConfig E) (sv_ConfigRef server) cfg' h0 (hist ?t @ ds) \<and>
        answered WGetCertificate (we_getCertificate E) (sv_CertificateRef server) cert h0 (hist ?t @ ds) \<and>
        certificateUsable (we_lib E) cert \<and> answered WGetCA (we_getCA E) ?n x h0 (hist ?t @ ds)" for ds
      using answered_append [OF server] answered_append [OF cfg] answered_append [OF cert] answered_append [OF ca, of ds] True
      by simp
    then have all: "server_prerequisites E nm h0 (hist ?t @ ds) c" for ds c
      unfolding server_prerequisites_def by blast
    have Gt: "grown hist (server_prerequisites E nm h0) h0 ?t"
      by (rule read_grown [OF G]) (rule idle_reads)
    have "grown hist (server_prerequisites E nm h0) h0 (snd (server_ready E (obj ?t) cfg cert x ?t))"
      by (rule grown_whatever [OF server_ready_grown Gt all])
    then show "grown hist (server_prerequisites E nm h0) h0 (snd (bnd (reads obj) (\<lambda>server. server_ready E server cfg cert x) ?t))"
      by (simp add: bnd_def reads_def)
  qed
qed

lemma server_config_built:
  fixes s :: "Server wst"
  assumes G: "grown hist (server_prerequisites E nm h0) h0 s"
    and server: "answered WGet (we_get E) nm server h0 (hist s)" "sv_CertificateRef (obj s) = sv_CertificateRef server"
    and cfg: "answered WGetConfig (we_getConfig E) (sv_ConfigRef server) cfg h0 (hist s)"
  shows "grown hist (server_prerequisites E nm h0) h0 (snd (server_with_config E cfg s))"
proof -
  obtain cs where cs: "hist s = h0 @ cs" using grown_extends [OF G] by blast
  let ?n = "sv_CertificateRef (obj s)"
  let ?t = "s \<lparr> hist := hist s @ [WGetCertificate ?n] \<rparr>"
  have "grown hist (server_prerequisites E nm h0) h0 (snd (server_with_cert E cfg x ?t))"
    if x: "we_getCertificate E (hist s) ?n = Inr x" for x
  proof (rule server_cert_built)
    show "grown hist (server_prerequisites E nm h0) h0 ?t"
      by (rule read_grown [OF G]) (rule idle_reads)
    show "answered WGet (we_get E) nm server h0 (hist ?t)" using answered_append [OF server(1)] by simp
    show "answered WGetConfig (we_getConfig E) (sv_ConfigRef server) cfg h0 (hist ?t)" using answered_append [OF cfg] by simp
    show "answered WGetCertificate (we_getCertificate E) (sv_CertificateRef server) x h0 (hist ?t)"
      using answered_now [OF cs, of "we_getCertificate E" ?n x WGetCertificate] x server(2) by simp
  qed
  moreover have "keeps (grown hist (server_prerequisites E nm h0) h0) (thn (reportSSLBootstrapped E a b c) (ret r) :: result sop)"
    for a b c r unfolding reportSSLBootstrapped_def by (intro grown_idle only_rules idle_steps)
  ultimately show ?thesis unfolding server_with_config_def Let_def
    by (simp add: bnd_def reads_def) (intro referenced_grown G idle_reads)
qed

lemma server_reads_config:
  fixes s :: "Server wst"
  assumes G: "grown hist (server_prerequisites E nm h0) h0 s" and known: "known sv_access server_refs E nm h0 s"
  shows "grown hist (server_prerequisites E nm h0) h0 (snd (bnd (reads obj) (\<lambda>server.
    referenced ''Config'' (sv_ConfigRef server) (WGetConfig (sv_ConfigRef server)) (\<lambda>h. we_getConfig E h (sv_ConfigRef server))
      (ret (Result RequeueIntervalShort)) (server_with_config E)) s))"
proof -
  obtain cs server where cs: "hist s = h0 @ cs" and server: "answered WGet (we_get E) nm server h0 (hist s)"
      "sv_ConfigRef (obj s) = sv_ConfigRef server" "sv_CertificateRef (obj s) = sv_CertificateRef server"
    using known by (auto simp: known_def server_refs_def)
  let ?n = "sv_ConfigRef (obj s)"
  let ?t = "s \<lparr> hist := hist s @ [WGetConfig ?n] \<rparr>"
  have "grown hist (server_prerequisites E nm h0) h0 (snd (server_with_config E x ?t))"
    if x: "we_getConfig E (hist s) ?n = Inr x" for x
  proof (rule server_config_built)
    show "grown hist (server_prerequisites E nm h0) h0 ?t" by (rule read_grown [OF G]) (rule idle_reads)
    show "answered WGet (we_get E) nm server h0 (hist ?t)" using answered_append [OF server(1)] by simp
    show "answered WGetConfig (we_getConfig E) (sv_ConfigRef server) x h0 (hist ?t)"
      using answered_now [OF cs, of "we_getConfig E" ?n x WGetConfig] x server(2) by simp
  qed (simp add: server(3))
  then show ?thesis by (simp add: bnd_def reads_def) (intro referenced_grown G keeps_ret idle_reads)
qed

lemma server_reconcile_built:
  "grown hist (server_prerequisites E (sv_name (obj s)) (hist s)) (hist s) (snd (Reconcile_server E s))"
proof -
  let ?h = "hist s" and ?nm = "sv_name (obj s)"
  let ?G = "grown hist (server_prerequisites E ?nm ?h) ?h :: Server wst \<Rightarrow> bool"
  note idle = idle_steps [THEN grown_idle(1)]
  have nm: "m_Name (ac_Meta sv_access (obj s)) = ?nm" by (simp add: sv_access_def)
  obtain r t where t: "wl_refetch sv_access E s = (r, t)" by (cases "wl_refetch sv_access E s")
  have G: "?G t" using keepsD [OF idle(2) grown_refl t] .
  show ?thesis
  proof (cases r)
    case (Inl e)
    then have "snd (Reconcile_server E s) = t" using t
      by (simp add: Reconcile_server_def bnd_def outcome_def reads_def ret_def throw_def)
    then show ?thesis using G by simp
  next
    case (Inr u)
    have known: "known sv_access server_refs E ?nm ?h t"
      using known_refetch [OF stored_server(1) nm, of "hist s" "[]" E u t] t Inr by simp
    have pending: "keeps ?G (pending_server E)" unfolding pending_server_def by (intro grown_idle only_rules idle_steps)
    have pending': "keeps (known sv_access server_refs E ?nm ?h) (pending_server E)"
      unfolding pending_server_def by (intro keeps_rules known_keeps_update stored_server)
    define look where "look = bnd (reads obj) (\<lambda>server.
      referenced ''Config'' (sv_ConfigRef server) (WGetConfig (sv_ConfigRef server))
        (\<lambda>h. we_getConfig E h (sv_ConfigRef server)) (ret (Result RequeueIntervalShort)) (server_with_config E))"
    have "?G (snd (bnd (wl_pause sv_access E) (\<lambda>paused. if paused then ret (Result 0) else thn (pending_server E) look) t))"
    proof (rule known_then [OF idle(4) known_keeps_pause [OF stored_server(1)] _ G known])
      fix paused and v :: "Server wst" assume v: "?G v" "known sv_access server_refs E ?nm ?h v"
      have "?G (snd (bnd (pending_server E) (\<lambda>_. look) v))"
        by (rule known_then [OF pending pending' _ v]) (unfold look_def, rule server_reads_config)
      then show "?G (snd ((if paused then ret (Result 0) else thn (pending_server E) look) v))"
        using v(1) by (simp add: ret_def thn_def)
    qed
    then show ?thesis using Inr unfolding look_def
      by (simp only: Reconcile_server_def Let_def outcome_run [of "wl_refetch sv_access E", OF t] reads_run sum.case)
  qed
qed

lemma db_cert_built:
  fixes s :: "Database wst"
  assumes G: "grown hist (database_prerequisites E nm h0) h0 s"
    and read: "answered WGet (we_get E) nm db0 h0 (hist s)" "db_Spec db = db_Spec db0"
    and cert: "answered WGetCertificate (we_getCertificate E) (ds_CertificateRef (db_Spec db0)) cert h0 (hist s)"
  shows "grown hist (database_prerequisites E nm h0) h0 (snd (db_with_cert E db cert s))"
proof (cases "certificateUsable (we_lib E) cert")
  case False
  have "keeps (grown hist (database_prerequisites E nm h0) h0) (thn (logged (wl_update_status db_access E f))
          (ret (Result RequeueIntervalMedium)) :: result dop)" for f
    by (intro grown_idle only_rules idle_steps)
  then show ?thesis using False G by (simp add: db_with_cert_def keeps_def Let_def)
next
  case True
  let ?G = "grown hist (database_prerequisites E nm h0) h0 :: Database wst \<Rightarrow> bool"
  let ?n = "cs_AuthorityRef (c_Spec cert)" and ?m = "pg_CredentialsSecretRef (ds_Postgres (db_Spec db))"
  let ?t = "s \<lparr> hist := hist s @ [WGetCA ?n] \<rparr>" let ?u = "?t \<lparr> hist := hist ?t @ [WGetSecret ?m] \<rparr>"
  obtain cs where cs: "hist s = h0 @ cs" using grown_extends [OF G] by blast
  have Gt: "?G ?t" by (rule read_grown [OF G]) (rule idle_reads)
  have Gu: "?G ?u" by (rule read_grown [OF Gt]) (rule idle_reads)
  have ready: "?G (snd (bnd (reads obj) (\<lambda>db. db_ready E db cert x) ?u))"
    if x: "we_getCA E (hist s) ?n = Inr x" and y: "we_getSecret E (hist ?t) ?m = Inr y" for x y
  proof -
    have ca: "answered WGetCA (we_getCA E) ?n x h0 (hist ?t)"
      using answered_now [OF cs, of "we_getCA E" ?n x WGetCA] x by simp
    have t: "hist ?t = h0 @ cs @ [WGetCA ?n]" using cs by simp
    have sec: "answered WGetSecret (we_getSecret E) ?m y h0 (hist ?u)"
      using answered_now [OF t, of "we_getSecret E" ?m y WGetSecret] y by simp
    have "answered WGet (we_get E) nm db0 h0 (hist ?u @ ds) \<and>
        answered WGetCertificate (we_getCertificate E) (ds_CertificateRef (db_Spec db0)) cert h0 (hist ?u @ ds) \<and>
        certificateUsable (we_lib E) cert \<and> answered WGetCA (we_getCA E) ?n x h0 (hist ?u @ ds) \<and>
        answered WGetSecret (we_getSecret E) (pg_CredentialsSecretRef (ds_Postgres (db_Spec db0))) y h0 (hist ?u @ ds)" for ds
      using answered_append [OF read(1)] answered_append [OF cert] answered_append [OF ca, of "WGetSecret ?m # ds"]
        answered_append [OF sec, of ds] True read(2) by simp
    then have "database_prerequisites E nm h0 (hist ?u @ ds) c" for ds c
      unfolding database_prerequisites_def by blast
    then have "?G (snd (db_ready E (obj ?u) cert x ?u))" by (rule grown_whatever [OF db_ready_grown Gu])
    then show ?thesis by (simp add: bnd_def reads_def)
  qed
  show ?thesis unfolding db_with_cert_def Let_def
    by (simp only: True not_True_eq_False if_False)
      (rule referenced_grown [OF G idle_reads(5) keeps_ret], rule referenced_grown [OF Gt idle_reads(6) keeps_ret], rule ready)
qed

lemma db_reads_cert:
  fixes s :: "Database wst"
  assumes G: "grown hist (database_prerequisites E nm h0) h0 s" and known: "known db_access db_Spec E nm h0 s"
  shows "grown hist (database_prerequisites E nm h0) h0 (snd (bnd (reads obj) (\<lambda>db.
    referenced ''Certificate'' (ds_CertificateRef (db_Spec db)) (WGetCertificate (ds_CertificateRef (db_Spec db)))
      (\<lambda>h. we_getCertificate E h (ds_CertificateRef (db_Spec db))) (ret (Result RequeueIntervalShort)) (db_with_cert E db)) s))"
proof -
  obtain cs db0 where cs: "hist s = h0 @ cs" and read: "answered WGet (we_get E) nm db0 h0 (hist s)" "db_Spec (obj s) = db_Spec db0"
    using known by (auto simp: known_def)
  let ?n = "ds_CertificateRef (db_Spec (obj s))"
  let ?t = "s \<lparr> hist := hist s @ [WGetCertificate ?n] \<rparr>"
  have "grown hist (database_prerequisites E nm h0) h0 (snd (db_with_cert E (obj s) x ?t))"
    if x: "we_getCertificate E (hist s) ?n = Inr x" for x
  proof (rule db_cert_built [OF _ _ read(2)])
    show "grown hist (database_prerequisites E nm h0) h0 ?t" by (rule read_grown [OF G]) (rule idle_reads)
    show "answered WGet (we_get E) nm db0 h0 (hist ?t)" using answered_append [OF read(1)] by simp
    show "answered WGetCertificate (we_getCertificate E) (ds_CertificateRef (db_Spec db0)) x h0 (hist ?t)"
      using answered_now [OF cs, of "we_getCertificate E" ?n x WGetCertificate] x read(2) by simp
  qed
  then show ?thesis by (simp add: bnd_def reads_def) (intro referenced_grown G keeps_ret idle_reads)
qed

lemma db_reconcile_built:
  "grown hist (database_prerequisites E (db_name (obj s)) (hist s)) (hist s) (snd (Reconcile_database E s))"
proof -
  let ?h = "hist s" and ?nm = "db_name (obj s)"
  let ?G = "grown hist (database_prerequisites E ?nm ?h) ?h :: Database wst \<Rightarrow> bool"
  let ?K = "known db_access db_Spec E ?nm ?h"
  note idle = idle_steps [THEN grown_idle(2)]
  have nm: "m_Name (ac_Meta db_access (obj s)) = ?nm" by (simp add: db_access_def)
  obtain r t where t: "wl_refetch db_access E s = (r, t)" by (cases "wl_refetch db_access E s")
  have G: "?G t" using keepsD [OF idle(2) grown_refl t] .
  show ?thesis
  proof (cases r)
    case (Inl e)
    then have "snd (Reconcile_database E s) = t" using t
      by (simp add: Reconcile_database_def bnd_def outcome_def reads_def ret_def throw_def)
    then show ?thesis using G by simp
  next
    case (Inr u)
    have known: "?K t"
      using known_refetch [OF stored_database(1) nm, of "hist s" "[]" E u t] t Inr by simp
    define pend :: "unit dop" where "pend = bnd (reads obj) (\<lambda>db.
             if dt_Phase (db_Status db) = DatabaseNoPhase
             then wrapping (''updating initial status for Database '' @ db_name db)
                    (wl_update_status db_access E (with_db_status (\<lambda>st. st \<lparr> dt_Phase := DatabasePending \<rparr>)))
             else ret ())"
    define look where "look = bnd (reads obj) (\<lambda>db.
      referenced ''Certificate'' (ds_CertificateRef (db_Spec db)) (WGetCertificate (ds_CertificateRef (db_Spec db)))
        (\<lambda>h. we_getCertificate E h (ds_CertificateRef (db_Spec db))) (ret (Result RequeueIntervalShort)) (db_with_cert E db))"
    have pending: "keeps ?G pend" unfolding pend_def by (intro keeps_rules idle)
    have pending': "keeps ?K pend" unfolding pend_def by (intro keeps_rules known_keeps_update stored_database)
    have "?G (snd (bnd (wl_pause db_access E) (\<lambda>paused. if paused then ret (Result 0) else thn pend look) t))"
    proof (rule known_then [OF idle(4) known_keeps_pause [OF stored_database(1)] _ G known])
      fix paused v assume v: "?G v" "?K v"
      have "?G (snd (bnd pend (\<lambda>_. look) v))"
        by (rule known_then [OF pending pending' _ v]) (unfold look_def, rule db_reads_cert)
      then show "?G (snd ((if paused then ret (Result 0) else thn pend look) v))"
        using v(1) by (simp add: ret_def thn_def)
    qed
    then show ?thesis using Inr unfolding pend_def look_def
      by (simp only: Reconcile_database_def Let_def outcome_run [of "wl_refetch db_access E", OF t] reads_run sum.case)
  qed
qed

text \<open>C6: Whatever the API server answers, a reconcile of a Server creates or changes a child only
  after it has read the Server by its name, then the Config and a usable Certificate under the
  very names this Server gives, and the CertificateAuthority that Certificate names; and a
  reconcile of a Database only after reads of the Database, of a usable Certificate and of the
  credentials Secret under the names the Database gives, and of the CertificateAuthority the
  Certificate names. Until then it only reads and reports; what runs already is left alone.\<close>

theorem prerequisites_before_children:
  "grown hist (server_prerequisites E (sv_name (obj s)) (hist s)) (hist s) (snd (Reconcile_server E s)) \<and>
   grown hist (database_prerequisites D (db_name (obj t)) (hist t)) (hist t) (snd (Reconcile_database D t))"
  using server_reconcile_built [of E s] db_reconcile_built [of D t] by simp

end
