(* ===== verification/Admission.thy ===== *)
theory Admission
  imports CertReconcile ConfigApi PuppetOIDs
begin

text \<open>
  The validating webhooks of internal/webhook: one validator per kind of resource, each a
  function of the object and of what the reader (the cached client of the manager) answers.
  A path into the object is the list of its steps; a rejection carries the field errors in the
  order the code appends them (ErrorList.ToAggregate, which joins their texts, is not part of
  the model).  The lookups of one admission are answered from one snapshot.
\<close>

section \<open>Field errors and verdicts\<close>

datatype path_step = Child string | At nat | Key string

type_synonym field_path = "path_step list"

datatype field_value = TextValue string | IntValue int

datatype field_error =
    FieldInvalid field_path field_value string
  | FieldRequired field_path string
  | FieldDuplicate field_path string
  | FieldNotSupported field_path string "string list"
  | FieldInternal field_path err

text \<open>A refusal is a list of field errors, one field error, or the error of a lookup.\<close>

datatype judgement = Accepted | Rejected "field_error list" | Failed err

type_synonym admission = "string list \<times> judgement"

definition spec_path :: "string list \<Rightarrow> field_path" where
  "spec_path names = map Child (''spec'' # names)"

definition invalid :: "field_path \<Rightarrow> string \<Rightarrow> string \<Rightarrow> field_error" where
  "invalid path v detail = FieldInvalid path (TextValue v) detail"

definition judgement_of :: "field_error list \<Rightarrow> judgement" where
  "judgement_of errs = (if errs = [] then Accepted else Rejected errs)"

lemma judgement_of_accepted: "judgement_of errs = Accepted \<longleftrightarrow> errs = []"
  by (simp add: judgement_of_def)

section \<open>What the validators read and call\<close>

datatype ref_kind = RefConfig | RefCertificate | RefCertificateAuthority | RefPool
  | RefNodeClassifier | RefDatabase

text \<open>How Go prints the type of the object that a lookup fills (the verb T of fmt).\<close>

definition go_type :: "ref_kind \<Rightarrow> string" where
  "go_type k = ''*v1alpha1.'' @
     (case k of RefConfig \<Rightarrow> ''Config'' | RefCertificate \<Rightarrow> ''Certificate''
      | RefCertificateAuthority \<Rightarrow> ''CertificateAuthority'' | RefPool \<Rightarrow> ''Pool''
      | RefNodeClassifier \<Rightarrow> ''NodeClassifier'' | RefDatabase \<Rightarrow> ''Database'')"

text \<open>The reader: the error of a Get by kind, namespace and name (None when the object is there),
  and the two listings of a namespace.\<close>

record reader =
  rd_Get :: "ref_kind \<Rightarrow> string \<Rightarrow> string \<Rightarrow> err option"
  rd_listCertificates :: "string \<Rightarrow> err + Certificate list"
  rd_listConfigs :: "string \<Rightarrow> err + Config list"

text \<open>
  The library: the messages of validation.IsDNS1123Subdomain (none for a valid name), whether
  net.ParseIP and net.ParseCIDR accept a text, the scheme and the host of url.Parse, and the
  comparison of two quantities.
\<close>

record admission_lib =
  al_IsDNS1123Subdomain :: "string \<Rightarrow> string list"
  al_ParseIP :: "string \<Rightarrow> bool"
  al_ParseCIDR :: "string \<Rightarrow> bool"
  al_ParseURL :: "string \<Rightarrow> err + string \<times> string"
  al_Cmp :: "string \<Rightarrow> string \<Rightarrow> int"

section \<open>helpers.go\<close>

fun code_duplicates :: "field_path \<Rightarrow> string set \<Rightarrow> nat \<Rightarrow> CodeSpec list \<Rightarrow> field_error list" where
  "code_duplicates path seen i [] = []"
| "code_duplicates path seen i (e # es) =
     (if co_Environment e = [] then code_duplicates path seen (Suc i) es
      else if co_Environment e \<in> seen then
        FieldDuplicate (path @ [At i, Child ''environment'']) (co_Environment e)
          # code_duplicates path seen (Suc i) es
      else code_duplicates path (insert (co_Environment e) seen) (Suc i) es)"

definition validateCodeList :: "CodeSpec list \<Rightarrow> field_path \<Rightarrow> field_error list" where
  "validateCodeList code path = code_duplicates path {} 0 code"

definition refExists :: "reader \<Rightarrow> string \<Rightarrow> string \<Rightarrow> ref_kind \<Rightarrow> err option" where
  "refExists R ns name kind =
     (case rd_Get R kind ns name of
        None \<Rightarrow> None
      | Some e \<Rightarrow>
          Some (if IsNotFound e
                then Errorf (''referenced '' @ go_type kind @ '' '' @ Quote name @ '' not found'')
                else wrapf (''looking up '' @ go_type kind @ '' '' @ Quote name) e))"

definition validateURL :: "admission_lib \<Rightarrow> string \<Rightarrow> string \<Rightarrow> err option" where
  "validateURL L s fieldName =
     (case al_ParseURL L s of
        Inl e \<Rightarrow> Some (wrapf (fieldName @ '': invalid URL '' @ Quote s) e)
      | Inr (scheme, host) \<Rightarrow>
          if scheme \<noteq> ''http'' \<and> scheme \<noteq> ''https''
          then Some (Errorf (fieldName @ '': URL '' @ Quote s @ '' must use http or https scheme''))
          else if host = [] then Some (Errorf (fieldName @ '': URL '' @ Quote s @ '' must include a host''))
          else None)"

definition validateDuration :: "string \<Rightarrow> string \<Rightarrow> err option" where
  "validateDuration s fieldName =
     (if s = [] then None
      else case ParseDurationToSeconds s of
             Inl e \<Rightarrow> Some (wrapf fieldName (duration_err e))
           | Inr _ \<Rightarrow> None)"

text \<open>The steps that every validator repeats: a check of one field whose error is attached to
  it, and a check of every entry of a list under its index.\<close>

definition attach :: "field_path \<Rightarrow> string \<Rightarrow> err option \<Rightarrow> field_error list" where
  "attach path v r = (case r of None \<Rightarrow> [] | Some e \<Rightarrow> [invalid path v (err_text e)])"

definition each_entry :: "field_path \<Rightarrow> (field_path \<Rightarrow> 'a \<Rightarrow> field_error list) \<Rightarrow> 'a list \<Rightarrow> field_error list" where
  "each_entry path check xs =
     concat (map (\<lambda>(i, x). check (path @ [At i]) x) (List.enumerate 0 xs))"

lemma each_entry_accepts: "each_entry path check xs = [] \<longleftrightarrow> (\<forall>i < length xs. check (path @ [At i]) (xs ! i) = [])"
  unfolding each_entry_def concat_eq_Nil_conv
  by (auto simp: all_set_conv_all_nth nth_enumerate_eq)

lemma attach_accepts [simp]: "attach path v r = [] \<longleftrightarrow> r = None"
  by (simp add: attach_def split: option.split)

section \<open>certificate_webhook.go\<close>

text \<open>certnameOrDefault is certnameOf of the controller (helpers.go), and is taken as such after
  the lemma below.\<close>

definition certnameOrDefault :: "Certificate \<Rightarrow> string" where
  "certnameOrDefault c = (if cs_Certname (c_Spec c) \<noteq> [] then cs_Certname (c_Spec c) else ''puppet'')"

lemma certnameOrDefault_is: "certnameOrDefault = certnameOf"
  by (simp add: certnameOrDefault_def certnameOf_def fun_eq_iff)

definition same_claim :: "Certificate \<Rightarrow> Certificate \<Rightarrow> bool" where
  "same_claim c other =
     (m_Name (c_Meta other) \<noteq> m_Name (c_Meta c) \<and> m_DeletionTimestamp (c_Meta other) = None \<and>
      cs_AuthorityRef (c_Spec other) = cs_AuthorityRef (c_Spec c) \<and>
      certnameOrDefault other = certnameOrDefault c)"

definition other_certificate :: "Certificate \<Rightarrow> Certificate list \<Rightarrow> string" where
  "other_certificate c certs =
     (case find (same_claim c) certs of None \<Rightarrow> [] | Some other \<Rightarrow> m_Name (c_Meta other))"

definition webhook_otherCertificateUsingCertname :: "reader \<Rightarrow> Certificate \<Rightarrow> err + string" where
  "webhook_otherCertificateUsingCertname R c =
     (case rd_listCertificates R (m_Namespace (c_Meta c)) of
        Inl e \<Rightarrow> Inl (wrapf (''listing Certificates in namespace '' @ m_Namespace (c_Meta c)) e)
      | Inr certs \<Rightarrow> Inr (other_certificate c certs))"

definition certname_claim :: "reader \<Rightarrow> Certificate \<Rightarrow> field_error list" where
  "certname_claim R c =
     (let path = spec_path [''certname''] in
      case webhook_otherCertificateUsingCertname R c of
        Inl e \<Rightarrow> [FieldInternal path e]
      | Inr other \<Rightarrow>
          if other = [] then []
          else [FieldDuplicate path (certnameOrDefault c @ '' (already claimed by Certificate '' @ other @
                  '' against the same CertificateAuthority)'')])"

definition hostname_error :: "admission_lib \<Rightarrow> field_path \<Rightarrow> string \<Rightarrow> string \<Rightarrow> field_error list" where
  "hostname_error L path v detail =
     (let msgs = al_IsDNS1123Subdomain L (ToLower v) in
      if msgs = [] then [] else [invalid path v (detail @ '': '' @ Join msgs ''; '')])"

definition alt_name_error :: "admission_lib \<Rightarrow> field_path \<Rightarrow> string \<Rightarrow> field_error list" where
  "alt_name_error L path san =
     (if al_ParseIP L san then [] else hostname_error L path san ''must be a valid DNS name or IP'')"

text \<open>The loop over the custom extensions visits the keys of a Go map, in an order the language
  leaves open; the model takes the order of the map's list.\<close>

definition dedicated_extensions :: "string list" where
  "dedicated_extensions = [''pp_cli_auth'', ''pp_role'', ''pp_environment'']"

definition extension_error :: "string \<Rightarrow> field_error list" where
  "extension_error key =
     (let path = spec_path [''csrExtensions'', ''customExtensions''] @ [Key key] in
      if key \<in> set dedicated_extensions
      then [invalid path key ''use the dedicated field instead of customExtensions'']
      else if \<not> IsKnownOID key then [invalid path key ''unknown Puppet extension name'']
      else [])"

definition validate_certificate :: "admission_lib \<Rightarrow> reader \<Rightarrow> Certificate \<Rightarrow> admission" where
  "validate_certificate L R c =
     (let spec = c_Spec c in
      ([], judgement_of (
        attach (spec_path [''authorityRef'']) (cs_AuthorityRef spec)
          (refExists R (m_Namespace (c_Meta c)) (cs_AuthorityRef spec) RefCertificateAuthority)
        @ (if cs_Certname spec \<noteq> []
           then hostname_error L (spec_path [''certname'']) (cs_Certname spec) ''must be a valid hostname''
           else [])
        @ each_entry (spec_path [''dnsAltNames'']) (alt_name_error L) (cs_DNSAltNames spec)
        @ certname_claim R c
        @ attach (spec_path [''renewBefore'']) (cs_RenewBefore spec)
            (validateDuration (cs_RenewBefore spec) ''renewBefore'')
        @ (case cs_CSRExtensions spec of
             None \<Rightarrow> []
           | Some ext \<Rightarrow> concat (map (\<lambda>(key, _). extension_error key) (CustomExtensions ext))))))"

section \<open>certificateauthority_webhook.go\<close>

text \<open>The object before the update, with the nil that the check allows for.\<close>

definition validateStorageTransition :: "admission_lib \<Rightarrow> CertificateAuthority option \<Rightarrow>
    CertificateAuthority option \<Rightarrow> field_error option" where
  "validateStorageTransition L old updated =
     (case (old, updated) of
        (Some p, Some q) \<Rightarrow>
          (case (as_Storage (ca_Spec p), as_Storage (ca_Spec q)) of
             (Some before, Some after) \<Rightarrow>
               let classes = (if st_StorageClass before = st_StorageClass after then None
                     else Some (invalid (spec_path [''storage'', ''storageClass'']) (st_StorageClass after)
                                  ''storageClass is immutable on an existing PersistentVolumeClaim'')) in
               (case (st_Size before, st_Size after) of
                  (Some m, Some n) \<Rightarrow>
                    if al_Cmp L n m < 0
                    then Some (invalid (spec_path [''storage'', ''size'']) n
                           ''storage size cannot be decreased, the PersistentVolumeClaim would reject it'')
                    else classes
                | _ \<Rightarrow> classes)
           | _ \<Rightarrow> None)
      | _ \<Rightarrow> None)"

definition validate_ca :: "CertificateAuthority \<Rightarrow> admission" where
  "validate_ca ca =
     (let spec = ca_Spec ca; check = (\<lambda>name v. attach (spec_path [name]) v (validateDuration v name)) in
      ([], judgement_of (check ''ttl'' (as_TTL spec)
             @ check ''autoRenewalCertTTL'' (as_AutoRenewalCertTTL spec)
             @ check ''crlRefreshInterval'' (as_CRLRefreshInterval spec))))"

definition validate_ca_update :: "admission_lib \<Rightarrow> CertificateAuthority \<Rightarrow> CertificateAuthority \<Rightarrow> admission" where
  "validate_ca_update L old ca =
     (case validateStorageTransition L (Some old) (Some ca) of
        Some e \<Rightarrow> ([], Rejected [e])
      | None \<Rightarrow> validate_ca ca)"

text \<open>ValidateDelete; the reader is absent when the validator was built without a client.\<close>

definition referencing :: "CertificateAuthority \<Rightarrow> Certificate list \<Rightarrow> string list" where
  "referencing ca certs =
     map (\<lambda>c. m_Name (c_Meta c)) (filter (\<lambda>c. cs_AuthorityRef (c_Spec c) = m_Name (ca_Meta ca)) certs)"

definition validate_ca_delete :: "reader option \<Rightarrow> CertificateAuthority \<Rightarrow> admission" where
  "validate_ca_delete client ca =
     (case client of
        None \<Rightarrow> ([], Accepted)
      | Some R \<Rightarrow>
          (case rd_listCertificates R (m_Namespace (ca_Meta ca)) of
             Inl e \<Rightarrow>
               ([], Failed (wrapf (''listing Certificates for CertificateAuthority '' @ m_Name (ca_Meta ca)) e))
           | Inr certs \<Rightarrow>
               let blocking = referencing ca certs in
               if blocking \<noteq> [] then
                 ([], Failed (Errorf (''cannot delete CertificateAuthority '' @ m_Name (ca_Meta ca) @ '': '' @
                    Itoa (int (length blocking)) @ '' Certificate(s) still reference it ('' @
                    Join (sort blocking) '', '' @ ''); delete those first'')))
               else ([''deleting this CertificateAuthority destroys the CA private key and the CA data PVC; this cannot be undone''],
                     Accepted)))"

section \<open>config_webhook.go\<close>

definition other_config :: "Config \<Rightarrow> Config list \<Rightarrow> string" where
  "other_config c configs =
     (case find (\<lambda>other. cfg_name other \<noteq> cfg_name c \<and>
                    cf_AuthorityRef (cfg_Spec other) = cf_AuthorityRef (cfg_Spec c)) configs of
        None \<Rightarrow> [] | Some other \<Rightarrow> cfg_name other)"

definition otherConfigUsingAuthority :: "reader \<Rightarrow> Config \<Rightarrow> err + string" where
  "otherConfigUsingAuthority R c =
     (case rd_listConfigs R (cfg_ns c) of
        Inl e \<Rightarrow> Inl (wrapf (''listing Configs in namespace '' @ cfg_ns c) e)
      | Inr configs \<Rightarrow> Inr (other_config c configs))"

text \<open>The check of authorityRef is the one that can end the admission with the error of a lookup.\<close>

definition authority_claim :: "reader \<Rightarrow> Config \<Rightarrow> err + field_error list" where
  "authority_claim R c =
     (let ref = cf_AuthorityRef (cfg_Spec c); path = spec_path [''authorityRef''] in
      if ref = [] then Inr []
      else case refExists R (cfg_ns c) ref RefCertificateAuthority of
             Some e \<Rightarrow> Inr [invalid path ref (err_text e)]
           | None \<Rightarrow>
               (case otherConfigUsingAuthority R c of
                  Inl e \<Rightarrow> Inl e
                | Inr other \<Rightarrow>
                    Inr (if other = [] then []
                         else [invalid path ref (''already referenced by Config '' @ other @
                                 ''; a CertificateAuthority belongs to exactly one Config'')])))"

definition optional_ref :: "reader \<Rightarrow> string \<Rightarrow> string \<Rightarrow> string \<Rightarrow> ref_kind \<Rightarrow> field_error list" where
  "optional_ref R ns name ref kind =
     (if ref = [] then [] else attach (spec_path [name]) ref (refExists R ns ref kind))"

definition validate_config :: "reader \<Rightarrow> Config \<Rightarrow> admission" where
  "validate_config R c =
     (let spec = cfg_Spec c in
      case authority_claim R c of
        Inl e \<Rightarrow> ([], Failed e)
      | Inr errs \<Rightarrow>
          ([], judgement_of (errs
            @ optional_ref R (cfg_ns c) ''nodeClassifierRef'' (cf_NodeClassifierRef spec) RefNodeClassifier
            @ (if cf_DatabaseRef spec \<noteq> [] \<and> cf_PuppetDBServerURLs spec \<noteq> []
               then [invalid (spec_path [''databaseRef'']) (cf_DatabaseRef spec)
                       ''databaseRef and puppetdb.serverUrls are mutually exclusive'']
               else [])
            @ optional_ref R (cfg_ns c) ''databaseRef'' (cf_DatabaseRef spec) RefDatabase
            @ validateCodeList (cf_Code spec) (spec_path [''code'']))))"

section \<open>database_webhook.go\<close>

definition sslModeKeys :: "string list" where
  "sslModeKeys = [''disable'', ''allow'', ''prefer'', ''require'', ''verify-ca'', ''verify-full'']"

definition validSSLModes :: "string \<Rightarrow> bool" where
  "validSSLModes mode \<longleftrightarrow>
     mode \<in> set [''disable'', ''allow'', ''prefer'', ''require'', ''verify-ca'', ''verify-full'']"

definition required :: "string list \<Rightarrow> string \<Rightarrow> field_error list" where
  "required names v = (if v = [] then [FieldRequired (spec_path names) ''must not be empty''] else [])"

definition validate_database :: "reader \<Rightarrow> Database \<Rightarrow> admission" where
  "validate_database R d =
     (let spec = db_Spec d; pg = ds_Postgres spec; ref = ds_CertificateRef spec in
      ([], judgement_of (
        (if ref = [] then [FieldRequired (spec_path [''certificateRef'']) ''must not be empty'']
         else attach (spec_path [''certificateRef'']) ref
                (refExists R (m_Namespace (db_Meta d)) ref RefCertificate))
        @ required [''postgres'', ''host''] (pg_Host pg)
        @ required [''postgres'', ''credentialsSecretRef''] (pg_CredentialsSecretRef pg)
        @ (if pg_SSLMode pg \<noteq> [] \<and> \<not> validSSLModes (pg_SSLMode pg)
           then [FieldNotSupported (spec_path [''postgres'', ''sslMode'']) (pg_SSLMode pg) sslModeKeys]
           else []))))"

section \<open>The validators of Servers, Pools and rendered resources\<close>

definition validate_server :: "reader \<Rightarrow> Server \<Rightarrow> admission" where
  "validate_server R s =
     (let ns = m_Namespace (sv_Meta s) in
      ((case sv_Replicas s of
          Some n \<Rightarrow>
            if sv_CA s \<and> n > 1
            then [''running CA role with '' @ Itoa n @
                  '' replicas; CA data is stored on a PVC and concurrent writes may cause issues'']
            else []
        | None \<Rightarrow> []),
       judgement_of (
         attach (spec_path [''configRef'']) (sv_ConfigRef s) (refExists R ns (sv_ConfigRef s) RefConfig)
         @ attach (spec_path [''certificateRef'']) (sv_CertificateRef s)
             (refExists R ns (sv_CertificateRef s) RefCertificate)
         @ each_entry (spec_path [''poolRefs'']) (\<lambda>path ref. attach path ref (refExists R ns ref RefPool))
             (sv_PoolRefs s)
         @ validateCodeList (sv_Code s) (spec_path [''code'']))))"

definition validate_pool :: "Pool \<Rightarrow> admission" where
  "validate_pool p =
     (let port = ps_Port (p_Service p) in
      ([], judgement_of
         (if port \<noteq> 0 \<and> (port < 1 \<or> port > 65535)
          then [FieldInvalid (spec_path [''service'', ''port'']) (IntValue port) ''must be between 1 and 65535'']
          else [])))"

definition validate_node_classifier :: "admission_lib \<Rightarrow> NodeClassifier \<Rightarrow> admission" where
  "validate_node_classifier L nc =
     (let url = nc_URL (nco_Spec nc) in
      ([], judgement_of (attach (spec_path [''url'']) url (validateURL L url ''url''))))"

definition validate_report_processor :: "admission_lib \<Rightarrow> reader \<Rightarrow> ReportProcessor \<Rightarrow> admission" where
  "validate_report_processor L R rp =
     (let spec = rpo_Spec rp; url = rp_URL spec in
      ([], judgement_of (
        attach (spec_path [''configRef'']) (rp_ConfigRef spec)
          (refExists R (m_Namespace (rpo_Meta rp)) (rp_ConfigRef spec) RefConfig)
        @ attach (spec_path [''url'']) url (validateURL L url ''url''))))"

section \<open>signingpolicy_webhook.go\<close>

definition allow_entries :: "string \<Rightarrow> (string \<Rightarrow> string option) \<Rightarrow> PatternSpec option \<Rightarrow> field_error list" where
  "allow_entries name check p =
     (case p of
        None \<Rightarrow> []
      | Some patterns \<Rightarrow>
          each_entry (spec_path [name, ''allow''])
            (\<lambda>path v. case check v of None \<Rightarrow> [] | Some detail \<Rightarrow> [invalid path v detail])
            (psp_Allow patterns))"

definition not_empty :: "string \<Rightarrow> string \<Rightarrow> string option" where
  "not_empty detail v = (if v = [] then Some detail else None)"

definition known_name :: "string \<Rightarrow> string \<Rightarrow> string option" where
  "known_name detail v =
     (if v = [] then Some detail
      else if \<not> IsKnownOID v then Some ''unknown Puppet extension name'' else None)"

definition validate_signing_policy :: "admission_lib \<Rightarrow> reader \<Rightarrow> SigningPolicy \<Rightarrow> admission" where
  "validate_signing_policy L R sp =
     (let spec = spo_Spec sp; pattern = not_empty ''pattern must not be empty'' in
      ([], judgement_of (
        attach (spec_path [''certificateAuthorityRef'']) (sp_CertificateAuthorityRef spec)
          (refExists R (m_Namespace (spo_Meta sp)) (sp_CertificateAuthorityRef spec) RefCertificateAuthority)
        @ allow_entries ''certnames'' (not_empty ''certname pattern must not be empty'') (sp_Certnames spec)
        @ allow_entries ''dnsAltNames'' pattern (sp_DNSAltNames spec)
        @ allow_entries ''uriAltNames'' pattern (sp_URIAltNames spec)
        @ allow_entries ''emailAltNames'' pattern (sp_EmailAltNames spec)
        @ allow_entries ''ipAltNames''
            (\<lambda>cidr. if al_ParseCIDR L cidr then None else Some ''must be a valid CIDR, e.g. 10.0.0.0/16'')
            (sp_IPAltNames spec)
        @ allow_entries ''extensions'' (known_name ''extension name must not be empty'') (sp_Extensions spec)
        @ each_entry (spec_path [''csrAttributes''])
            (\<lambda>path attr. case known_name ''name must not be empty'' (cam_Name attr) of
                None \<Rightarrow> [] | Some detail \<Rightarrow> [invalid (path @ [Child ''name'']) (cam_Name attr) detail])
            (sp_CSRAttributes spec))))"

section \<open>The registered validators\<close>

text \<open>SetupWithManager registers one validator for each kind; the methods ValidateCreate and
  ValidateUpdate of all of them but the CertificateAuthority run the same function on the new
  object, and only the CertificateAuthority looks at a deletion.\<close>

datatype admitted = AdmitServer Server | AdmitCertificate Certificate | AdmitConfig Config
  | AdmitSigningPolicy SigningPolicy | AdmitReportProcessor ReportProcessor
  | AdmitNodeClassifier NodeClassifier | AdmitCertificateAuthority CertificateAuthority
  | AdmitPool Pool | AdmitDatabase Database

fun validate_create :: "admission_lib \<Rightarrow> reader \<Rightarrow> admitted \<Rightarrow> admission" where
  "validate_create L R (AdmitServer s) = validate_server R s"
| "validate_create L R (AdmitCertificate c) = validate_certificate L R c"
| "validate_create L R (AdmitConfig c) = validate_config R c"
| "validate_create L R (AdmitSigningPolicy sp) = validate_signing_policy L R sp"
| "validate_create L R (AdmitReportProcessor rp) = validate_report_processor L R rp"
| "validate_create L R (AdmitNodeClassifier nc) = validate_node_classifier L nc"
| "validate_create L R (AdmitCertificateAuthority ca) = validate_ca ca"
| "validate_create L R (AdmitPool p) = validate_pool p"
| "validate_create L R (AdmitDatabase d) = validate_database R d"

fun validate_update :: "admission_lib \<Rightarrow> reader \<Rightarrow> admitted \<Rightarrow> admitted \<Rightarrow> admission" where
  "validate_update L R (AdmitCertificateAuthority old) (AdmitCertificateAuthority ca) = validate_ca_update L old ca"
| "validate_update L R _ new = validate_create L R new"

fun validate_delete :: "reader \<Rightarrow> admitted \<Rightarrow> admission" where
  "validate_delete R (AdmitCertificateAuthority ca) = validate_ca_delete (Some R) ca"
| "validate_delete R _ = ([], Accepted)"

end
