(* ===== verification/AdmissionProps.thy ===== *)
theory AdmissionProps
  imports Admission CertLifecycle CAGuard
begin

text \<open>
  What the webhooks guarantee and where they disagree with the controllers: the claims on a
  CertificateAuthority and on a certname stay unique in every namespace that admissions built one
  after the other; the webhook and the controller find the same conflicts; a Certificate with a
  live duplicate can never finish its deletion behind the webhook; and the check of a deleted
  CertificateAuthority refuses more than the guard of the controller.
\<close>

section \<open>Claims\<close>

lemma find_hd_filter: "find P xs = (case filter P xs of [] \<Rightarrow> None | x # _ \<Rightarrow> Some x)"
  by (induction xs) auto

lemma certnameOf_indexed: "n \<in> set (index_certname c) \<longleftrightarrow> n = certnameOf c"
  by (auto simp: index_certname_def nonEmpty_def certnameOf_def)

lemma claimants_filter:
  "claimants c certs = map (\<lambda>x. m_Name (c_Meta x)) (filter (same_claim c) certs)"
  by (auto simp: claimants_def same_claim_def certnameOf_indexed certnameOrDefault_is
      intro!: arg_cong [of _ _ "map _"] filter_cong)

lemma other_certificate_hd:
  "other_certificate c certs = (case claimants c certs of [] \<Rightarrow> [] | n # _ \<Rightarrow> n)"
  by (simp add: other_certificate_def claimants_filter find_hd_filter split: list.split)

definition named :: "Certificate list \<Rightarrow> bool" where
  "named certs = list_all (\<lambda>c. m_Name (c_Meta c) \<noteq> []) certs"

lemma other_certificate_none:
  assumes "named certs"
  shows "other_certificate c certs = [] \<longleftrightarrow> claimants c certs = []"
proof -
  have "n \<noteq> []" if "n \<in> set (claimants c certs)" for n
    using that assms by (auto simp: claimants_filter named_def list_all_iff)
  then show ?thesis by (auto simp: other_certificate_hd split: list.split)
qed

lemma first_claimant_none:
  assumes "named certs"
  shows "first_claimant c certs = [] \<longleftrightarrow> claimants c certs = []"
proof -
  have "n \<noteq> []" if "n \<in> set (claimants c certs)" for n
    using that assms by (auto simp: claimants_filter named_def list_all_iff)
  then show ?thesis
    using first_claimant_least [of c certs] by (auto simp: first_claimant_def)
qed

lemma certname_claim_accepts:
  assumes "rd_listCertificates R (m_Namespace (c_Meta c)) = Inr certs"
  shows "certname_claim R c = [] \<longleftrightarrow> other_certificate c certs = []"
  using assms by (simp add: certname_claim_def webhook_otherCertificateUsingCertname_def)

lemma certificate_accepted:
  "snd (validate_certificate L R c) = Accepted \<Longrightarrow> certname_claim R c = []"
  by (simp add: validate_certificate_def Let_def judgement_of_accepted)

lemma config_accepted:
  assumes "snd (validate_config R c) = Accepted"
  shows "authority_claim R c = Inr [] \<and> validateCodeList (cf_Code (cfg_Spec c)) (spec_path [''code'']) = []"
  using assms by (cases "authority_claim R c") (simp_all add: validate_config_def Let_def judgement_of_accepted)

section \<open>Code lists\<close>

definition environments :: "CodeSpec list \<Rightarrow> string list" where
  "environments es = filter (\<lambda>v. v \<noteq> []) (map co_Environment es)"

lemma code_duplicates_none:
  "code_duplicates path seen i es = [] \<longleftrightarrow> distinct (environments es) \<and> set (environments es) \<inter> seen = {}"
  by (induction path seen i es rule: code_duplicates.induct) (auto simp: environments_def)

lemma code_list_accepts: "validateCodeList es path = [] \<longleftrightarrow> distinct (environments es)"
  by (simp add: validateCodeList_def code_duplicates_none)

section \<open>A namespace under serialized admissions\<close>

text \<open>The Configs and Certificates of one namespace, in the order a listing returns them, and the
  reader of an admission that sees all of them.\<close>

record ns_objects =
  no_Configs :: "Config list"
  no_Certificates :: "Certificate list"

definition reader_at :: "(ref_kind \<Rightarrow> string \<Rightarrow> string \<Rightarrow> err option) \<Rightarrow> ns_objects \<Rightarrow> reader" where
  "reader_at get st = \<lparr> rd_Get = get, rd_listCertificates = (\<lambda>_. Inr (no_Certificates st)),
     rd_listConfigs = (\<lambda>_. Inr (no_Configs st)) \<rparr>"

text \<open>Storing an object under its name, and the deletion timestamp the API server keeps for it.\<close>

definition put_named :: "('a \<Rightarrow> string) \<Rightarrow> 'a \<Rightarrow> 'a list \<Rightarrow> 'a list" where
  "put_named name x xs =
     (if name x \<in> name ` set xs then map (\<lambda>y. if name y = name x then x else y) xs else xs @ [x])"

abbreviation cert_name :: "Certificate \<Rightarrow> string" where "cert_name c \<equiv> m_Name (c_Meta c)"

definition stored_deletion :: "string \<Rightarrow> Certificate list \<Rightarrow> int option" where
  "stored_deletion name certs =
     (case find (\<lambda>c. cert_name c = name) certs of
        None \<Rightarrow> None | Some c \<Rightarrow> m_DeletionTimestamp (c_Meta c))"

definition mark_deleted :: "string \<Rightarrow> int \<Rightarrow> Certificate list \<Rightarrow> Certificate list" where
  "mark_deleted name t certs =
     map (\<lambda>c. if cert_name c = name \<and> m_DeletionTimestamp (c_Meta c) = None
              then c \<lparr> c_Meta := (c_Meta c) \<lparr> m_DeletionTimestamp := Some t \<rparr> \<rparr> else c) certs"

text \<open>
  The writes of users and controllers, one after the other: an object is created or updated only
  if its validator accepts it against the objects present; the validators of Configs and
  Certificates accept every deletion; a Certificate with a finalizer is first marked.  References to
  other objects are found or not found as they please.
\<close>

inductive admission_step :: "admission_lib \<Rightarrow> string \<Rightarrow> ns_objects \<Rightarrow> ns_objects \<Rightarrow> bool" for L ns where
  write_config: "cfg_name c \<noteq> [] \<Longrightarrow> cfg_ns c = ns \<Longrightarrow>
    snd (validate_create L (reader_at get st) (AdmitConfig c)) = Accepted \<Longrightarrow>
    admission_step L ns st (st \<lparr> no_Configs := put_named cfg_name c (no_Configs st) \<rparr>)"
| delete_config:
    "admission_step L ns st (st \<lparr> no_Configs := filter (\<lambda>c. cfg_name c \<noteq> name) (no_Configs st) \<rparr>)"
| write_certificate: "cert_name c \<noteq> [] \<Longrightarrow> m_Namespace (c_Meta c) = ns \<Longrightarrow>
    m_DeletionTimestamp (c_Meta c) = stored_deletion (cert_name c) (no_Certificates st) \<Longrightarrow>
    snd (validate_create L (reader_at get st) (AdmitCertificate c)) = Accepted \<Longrightarrow>
    admission_step L ns st (st \<lparr> no_Certificates := put_named cert_name c (no_Certificates st) \<rparr>)"
| mark_certificate:
    "admission_step L ns st (st \<lparr> no_Certificates := mark_deleted name t (no_Certificates st) \<rparr>)"
| remove_certificate:
    "admission_step L ns st (st \<lparr> no_Certificates := filter (\<lambda>c. cert_name c \<noteq> name) (no_Certificates st) \<rparr>)"

inductive admissions :: "admission_lib \<Rightarrow> string \<Rightarrow> ns_objects \<Rightarrow> bool" for L ns where
  empty: "admissions L ns \<lparr> no_Configs = [], no_Certificates = [] \<rparr>"
| step: "admissions L ns st \<Longrightarrow> admission_step L ns st st' \<Longrightarrow> admissions L ns st'"

text \<open>The claims: which CertificateAuthority a Config names, and which certname a live
  Certificate wants of which CertificateAuthority.\<close>

definition authorities :: "Config list \<Rightarrow> string list" where
  "authorities configs = filter (\<lambda>a. a \<noteq> []) (map (\<lambda>c. cf_AuthorityRef (cfg_Spec c)) configs)"

definition cert_claim :: "Certificate \<Rightarrow> string \<times> string" where
  "cert_claim c = (cs_AuthorityRef (c_Spec c), certnameOf c)"

definition live_claims :: "Certificate list \<Rightarrow> (string \<times> string) list" where
  "live_claims certs = map cert_claim (filter (\<lambda>c. m_DeletionTimestamp (c_Meta c) = None) certs)"

definition claims_unique :: "ns_objects \<Rightarrow> bool" where
  "claims_unique st \<longleftrightarrow>
     distinct (map cfg_name (no_Configs st)) \<and> list_all (\<lambda>c. cfg_name c \<noteq> []) (no_Configs st) \<and>
     distinct (authorities (no_Configs st)) \<and>
     distinct (map cert_name (no_Certificates st)) \<and> named (no_Certificates st) \<and>
     distinct (live_claims (no_Certificates st))"

section \<open>Unique claims, pairwise\<close>

text \<open>A claim is a partial key: two objects of a list with distinct names may not have the same.\<close>

definition sole :: "('a \<Rightarrow> 'k option) \<Rightarrow> 'a set \<Rightarrow> bool" where
  "sole claim X \<longleftrightarrow> (\<forall>x\<in>X. \<forall>y\<in>X. claim x \<noteq> None \<longrightarrow> claim x = claim y \<longrightarrow> x = y)"

lemma soleD: "sole claim X \<Longrightarrow> x \<in> X \<Longrightarrow> y \<in> X \<Longrightarrow> claim x = Some k \<Longrightarrow> claim y = Some k \<Longrightarrow> x = y"
  by (auto simp: sole_def)

lemma sole_subset: "sole claim X \<Longrightarrow> Y \<subseteq> X \<Longrightarrow> sole claim Y"
  by (auto simp: sole_def)

lemma map_filter_Cons:
  "List.map_filter f (x # xs) = (case f x of None \<Rightarrow> List.map_filter f xs | Some y \<Rightarrow> y # List.map_filter f xs)"
  by (simp add: List.map_filter_def split: option.split)

lemma in_map_filter: "k \<in> set (List.map_filter f xs) \<longleftrightarrow> Some k \<in> f ` set xs"
  by (induction xs) (auto simp: map_filter_Cons List.map_filter_def split: option.splits)

lemma sole_insert:
  assumes "x \<notin> X"
  shows "sole claim (insert x X) \<longleftrightarrow> sole claim X \<and> (claim x \<noteq> None \<longrightarrow> claim x \<notin> claim ` X)"
proof
  assume "sole claim (insert x X)"
  then show "sole claim X \<and> (claim x \<noteq> None \<longrightarrow> claim x \<notin> claim ` X)"
    using assms unfolding sole_def image_iff by blast
next
  assume "sole claim X \<and> (claim x \<noteq> None \<longrightarrow> claim x \<notin> claim ` X)"
  then show "sole claim (insert x X)"
    unfolding sole_def image_iff by (metis insert_iff)
qed

lemma distinct_claims:
  "distinct xs \<Longrightarrow> distinct (List.map_filter claim xs) \<longleftrightarrow> sole claim (set xs)"
proof (induction xs)
  case Nil
  then show ?case by (simp add: sole_def List.map_filter_def)
next
  case (Cons x xs)
  have set: "set (x # xs) = insert x (set xs)" by simp
  have "distinct (List.map_filter claim (x # xs)) \<longleftrightarrow>
      distinct (List.map_filter claim xs) \<and> (claim x \<noteq> None \<longrightarrow> claim x \<notin> claim ` set xs)"
    by (cases "claim x") (simp_all add: map_filter_Cons in_map_filter, blast)
  also have "\<dots> \<longleftrightarrow> sole claim (set (x # xs))"
    unfolding set using Cons by (subst sole_insert) auto
  finally show ?case .
qed

lemma distinct_named: "distinct (map name xs) \<Longrightarrow> distinct xs"
  by (simp add: distinct_map)

lemma put_present:
  "name x \<in> name ` set xs \<Longrightarrow> put_named name x xs = map (\<lambda>y. if name y = name x then x else y) xs"
  by (simp add: put_named_def)

lemma put_absent: "name x \<notin> name ` set xs \<Longrightarrow> put_named name x xs = xs @ [x]"
  by (simp add: put_named_def)

lemma set_put_named: "set (put_named name x xs) = insert x {y \<in> set xs. name y \<noteq> name x}"
proof (cases "name x \<in> name ` set xs")
  case True
  then show ?thesis by (auto simp: put_present)
next
  case False
  then have "{y \<in> set xs. name y \<noteq> name x} = set xs" by (auto simp: image_iff)
  then show ?thesis using False by (simp add: put_absent)
qed

lemma put_named_distinct:
  assumes "distinct (map name xs)"
  shows "distinct (map name (put_named name x xs))"
proof (cases "name x \<in> name ` set xs")
  case True
  have "map name (map (\<lambda>y. if name y = name x then x else y) xs) = map name xs" by (induction xs) auto
  then show ?thesis using True assms by (simp only: put_present)
next
  case False
  then show ?thesis using assms by (simp add: put_absent)
qed

lemma sole_put:
  assumes "sole claim (set xs)"
    and "\<And>y k. y \<in> set xs \<Longrightarrow> name y \<noteq> name x \<Longrightarrow> claim x = Some k \<Longrightarrow> claim y \<noteq> Some k"
  shows "sole claim (set (put_named name x xs))"
proof (cases "x \<in> {y \<in> set xs. name y \<noteq> name x}")
  case False
  have "sole claim {y \<in> set xs. name y \<noteq> name x}" using assms(1) by (rule sole_subset) blast
  moreover have "claim x \<noteq> None \<Longrightarrow> claim x \<notin> claim ` {y \<in> set xs. name y \<noteq> name x}"
    by (auto dest: assms(2) sym)
  ultimately show ?thesis unfolding set_put_named sole_insert [OF False] by blast
qed simp

text \<open>A list of objects with one holder for each name and each claim.\<close>

definition claims_held :: "('a \<Rightarrow> string) \<Rightarrow> ('a \<Rightarrow> 'k option) \<Rightarrow> 'a list \<Rightarrow> bool" where
  "claims_held name claim xs \<longleftrightarrow>
     distinct (map name xs) \<and> (\<forall>x \<in> set xs. name x \<noteq> []) \<and> sole claim (set xs)"

text \<open>What a namespace needs of a validator: an object is admitted beside others only if none of
  another name has its claim.  Then writing and removing objects keeps the claims held.\<close>

locale claim_guard =
  fixes name :: "'a \<Rightarrow> string"
    and claim :: "'a \<Rightarrow> 'k option"
    and admits :: "'a \<Rightarrow> 'a list \<Rightarrow> bool"
  assumes guarded: "admits x xs \<Longrightarrow> \<forall>y \<in> set xs. name y \<noteq> [] \<Longrightarrow> y \<in> set xs \<Longrightarrow> name y \<noteq> name x \<Longrightarrow>
    claim x = Some k \<Longrightarrow> claim y \<noteq> Some k"
begin

lemma put_held:
  assumes "claims_held name claim xs" and "admits x xs" and "name x \<noteq> []"
  shows "claims_held name claim (put_named name x xs)"
proof -
  have "sole claim (set (put_named name x xs))"
    by (rule sole_put) (use assms guarded [OF assms(2)] in \<open>auto simp: claims_held_def\<close>)
  then show ?thesis using assms by (auto simp: claims_held_def put_named_distinct set_put_named)
qed

lemma remove_held: "claims_held name claim xs \<Longrightarrow> claims_held name claim (filter P xs)"
  by (auto simp: claims_held_def distinct_map intro: inj_on_subset elim!: sole_subset)

end

definition config_claim :: "Config \<Rightarrow> string option" where
  "config_claim c = (if cf_AuthorityRef (cfg_Spec c) = [] then None else Some (cf_AuthorityRef (cfg_Spec c)))"

definition live_claim :: "Certificate \<Rightarrow> (string \<times> string) option" where
  "live_claim c = (if m_DeletionTimestamp (c_Meta c) = None then Some (cert_claim c) else None)"

lemma authorities_claims: "authorities configs = List.map_filter config_claim configs"
  by (induction configs) (simp_all add: authorities_def config_claim_def List.map_filter_def)

lemma live_claims_claims: "live_claims certs = List.map_filter live_claim certs"
  by (induction certs) (simp_all add: live_claims_def live_claim_def List.map_filter_def)

lemma claims_unique_held:
  "claims_unique st \<longleftrightarrow>
     claims_held cfg_name config_claim (no_Configs st) \<and> claims_held cert_name live_claim (no_Certificates st)"
  unfolding claims_unique_def claims_held_def authorities_claims live_claims_claims list_all_iff named_def
  using distinct_claims [OF distinct_named [of cfg_name "no_Configs st"], of config_claim]
    distinct_claims [OF distinct_named [of cert_name "no_Certificates st"], of live_claim] by blast

section \<open>Every step keeps the claims unique\<close>

lemma config_admitted:
  assumes "snd (validate_config (reader_at get st) c) = Accepted" and "\<forall>c \<in> set (no_Configs st). cfg_name c \<noteq> []"
    and "other \<in> set (no_Configs st)" "cfg_name other \<noteq> cfg_name c" "config_claim c = Some k"
  shows "config_claim other \<noteq> Some k"
proof
  assume same: "config_claim other = Some k"
  have ref: "cf_AuthorityRef (cfg_Spec other) = cf_AuthorityRef (cfg_Spec c)" "cf_AuthorityRef (cfg_Spec c) \<noteq> []"
    using same assms(5) by (auto simp: config_claim_def split: if_splits)
  have "authority_claim (reader_at get st) c = Inr []" using config_accepted [OF assms(1)] by blast
  then have none: "other_config c (no_Configs st) = []"
    using ref(2) by (simp add: authority_claim_def otherConfigUsingAuthority_def reader_at_def Let_def
        split: option.splits if_splits)
  let ?P = "\<lambda>other. cfg_name other \<noteq> cfg_name c \<and>
    cf_AuthorityRef (cfg_Spec other) = cf_AuthorityRef (cfg_Spec c)"
  show False
  proof (cases "find ?P (no_Configs st)")
    case None
    then show ?thesis using assms(3,4) ref(1) by (auto simp: find_None_iff)
  next
    case (Some x)
    then have "x \<in> set (no_Configs st)" by (auto simp: find_Some_iff)
    then show ?thesis using none Some assms(2) by (simp add: other_config_def)
  qed
qed

lemma no_claimants:
  assumes "claimants c certs = []" "other \<in> set certs" "cert_name other \<noteq> cert_name c"
    and "m_DeletionTimestamp (c_Meta other) = None"
  shows "cert_claim other \<noteq> cert_claim c"
  using assms by (auto simp: claimants_filter same_claim_def cert_claim_def certnameOrDefault_is filter_empty_conv)

lemma certificate_admitted:
  assumes "snd (validate_certificate L (reader_at get st) c) = Accepted"
    and "\<forall>c \<in> set (no_Certificates st). cert_name c \<noteq> []"
  shows "claimants c (no_Certificates st) = []"
proof -
  have "named (no_Certificates st)" using assms(2) by (simp add: named_def list_all_iff)
  moreover have "rd_listCertificates (reader_at get st) (m_Namespace (c_Meta c)) = Inr (no_Certificates st)"
    by (simp add: reader_at_def)
  ultimately show ?thesis
    using certificate_accepted [OF assms(1)] certname_claim_accepts other_certificate_none by blast
qed

definition admits_config :: "Config \<Rightarrow> Config list \<Rightarrow> bool" where
  "admits_config c configs \<longleftrightarrow>
     (\<exists>get st. no_Configs st = configs \<and> snd (validate_config (reader_at get st) c) = Accepted)"

interpretation config_guard: claim_guard cfg_name config_claim admits_config
  by unfold_locales (auto simp: admits_config_def dest: config_admitted)

definition admits_certificate :: "admission_lib \<Rightarrow> Certificate \<Rightarrow> Certificate list \<Rightarrow> bool" where
  "admits_certificate L c certs \<longleftrightarrow>
     (\<exists>get st. no_Certificates st = certs \<and> snd (validate_certificate L (reader_at get st) c) = Accepted)"

interpretation certificate_guard: claim_guard cert_name live_claim "admits_certificate L"
  by unfold_locales
    (auto simp: admits_certificate_def live_claim_def dest: no_claimants [OF certificate_admitted] split: if_splits)

lemma mark_deleted_held:
  assumes "claims_held cert_name live_claim certs"
  shows "claims_held cert_name live_claim (mark_deleted name t certs)"
proof -
  have names: "map cert_name (mark_deleted name t certs) = map cert_name certs" by (simp add: mark_deleted_def)
  then have "cert_name ` set (mark_deleted name t certs) = cert_name ` set certs" by (metis list.set_map)
  moreover have "x \<in> set (mark_deleted name t certs) \<Longrightarrow> live_claim x \<noteq> None \<Longrightarrow> x \<in> set certs" for x
    by (auto simp: mark_deleted_def live_claim_def split: if_splits)
  then have "sole live_claim (set (mark_deleted name t certs))"
    using assms unfolding claims_held_def sole_def by (metis (no_types, lifting))
  ultimately show ?thesis using assms names unfolding claims_held_def by (metis imageE imageI)
qed

lemma step_keeps_claims: "admission_step L ns st st' \<Longrightarrow> claims_unique st \<Longrightarrow> claims_unique st'"
proof (induction rule: admission_step.induct)
  case (write_config c get st)
  then have "admits_config c (no_Configs st)" by (auto simp: admits_config_def)
  then show ?case using write_config config_guard.put_held by (simp add: claims_unique_held)
next
  case (write_certificate c st get)
  then have "admits_certificate L c (no_Certificates st)" by (auto simp: admits_certificate_def)
  then show ?case using write_certificate certificate_guard.put_held by (simp add: claims_unique_held)
qed (simp_all add: claims_unique_held config_guard.remove_held certificate_guard.remove_held mark_deleted_held)

lemma admissions_claims: "admissions L ns st \<Longrightarrow> claims_unique st"
proof (induction rule: admissions.induct)
  case empty
  then show ?case by (simp add: claims_unique_held claims_held_def sole_def)
next
  case (step st st')
  then show ?case using step_keeps_claims by blast
qed

section \<open>What the controllers see\<close>

text \<open>C4: In a namespace built by admissions one after the other, at most one Config names a
  CertificateAuthority, so the CertificateAuthority controller never has to choose one, and
  no live Certificate has a rival for its certname, so the Certificate controller never reports
  a conflict: neither webhook lets a second claimant in, on creation or by an edit, and
  a claim is free again once its holder is being deleted.\<close>

theorem admitted_claims_unique:
  assumes "admissions L ns st"
  shows "(\<forall>ca. length (filter (\<lambda>cfg. ca \<in> set (index_config_authorityRef cfg)) (no_Configs st)) \<le> 1) \<and>
    (\<forall>cert \<in> set (no_Certificates st). m_DeletionTimestamp (c_Meta cert) = None \<longrightarrow>
       first_claimant cert (no_Certificates st) = [])"
proof (intro conjI allI ballI impI)
  note inv = admissions_claims [OF assms, unfolded claims_unique_held claims_held_def]
  fix ca
  let ?F = "filter (\<lambda>cfg. ca \<in> set (index_config_authorityRef cfg)) (no_Configs st)"
  have "distinct (no_Configs st)" using inv by (intro distinct_named [of cfg_name]) blast
  then have "distinct ?F" by simp
  moreover have "x = y" if "x \<in> set ?F" "y \<in> set ?F" for x y
    using that by (intro soleD [of config_claim "set (no_Configs st)" x y ca])
      (use inv in \<open>auto simp: index_config_authorityRef_def config_claim_def split: if_splits\<close>)
  ultimately show "length ?F \<le> 1"
    by (metis card_le_Suc0_iff_eq distinct_card finite_set One_nat_def)
next
  note inv = admissions_claims [OF assms, unfolded claims_unique_held claims_held_def]
  fix cert assume cert: "cert \<in> set (no_Certificates st)" "m_DeletionTimestamp (c_Meta cert) = None"
  have "claimants cert (no_Certificates st) = []"
  proof (rule ccontr)
    assume "claimants cert (no_Certificates st) \<noteq> []"
    then obtain x where x: "x \<in> set (no_Certificates st)" "same_claim cert x"
      by (auto simp: claimants_filter filter_empty_conv)
    then have "x = cert"
      by (intro soleD [of live_claim "set (no_Certificates st)" x cert "cert_claim cert"])
        (use inv cert in \<open>auto simp: live_claim_def same_claim_def cert_claim_def
           certnameOrDefault_is\<close>)
    then show False using x(2) by (simp add: same_claim_def)
  qed
  then show "first_claimant cert (no_Certificates st) = []" by (simp add: first_claimant_def)
qed

definition lenient_lib :: admission_lib where
  "lenient_lib = \<lparr> al_IsDNS1123Subdomain = (\<lambda>_. []), al_ParseIP = (\<lambda>_. False), al_ParseCIDR = (\<lambda>_. True),
     al_ParseURL = (\<lambda>_. Inr (''https'', ''h'')), al_Cmp = (\<lambda>_ _. 0) \<rparr>"

definition claiming_config :: Config where
  "claiming_config = (blank_config ''c'' ''ns'') \<lparr> cfg_Spec :=
     (cfg_Spec (blank_config ''c'' ''ns'')) \<lparr> cf_AuthorityRef := ''ca'' \<rparr> \<rparr>"

definition claiming_cert :: "string \<Rightarrow> Certificate" where
  "claiming_cert name = (blank_cert name ''ns'') \<lparr> c_Spec :=
     (c_Spec (blank_cert name ''ns'')) \<lparr> cs_AuthorityRef := ''ca'', cs_Certname := ''web'' \<rparr> \<rparr>"

lemmas claiming_defs = claiming_config_def claiming_cert_def blank_config_def blank_cert_def new_meta_def
  lenient_lib_def reader_at_def blank_puppet_def

lemma demo_namespace:
  "admissions lenient_lib ''ns'' \<lparr> no_Configs = [claiming_config], no_Certificates = [claiming_cert ''w''] \<rparr>"
proof -
  let ?A = "admissions lenient_lib ''ns''" and ?get = "\<lambda>_ _ _. None"
  have "?A \<lparr> no_Configs = put_named cfg_name claiming_config [], no_Certificates = [] \<rparr>"
    using admissions.step [OF admissions.empty write_config [where c = claiming_config and get = ?get]]
    by (simp add: claiming_defs validate_config_def authority_claim_def refExists_def
        otherConfigUsingAuthority_def other_config_def optional_ref_def code_list_accepts environments_def judgement_of_def)
  then have "?A \<lparr> no_Configs = [claiming_config], no_Certificates = [] \<rparr>" by (simp add: put_named_def)
  from admissions.step [OF this write_certificate [where c = "claiming_cert ''w''" and get = ?get]]
  show ?thesis
    by (simp add: claiming_defs put_named_def stored_deletion_def validate_certificate_def refExists_def
        hostname_error_def each_entry_def certname_claim_def webhook_otherCertificateUsingCertname_def
        other_certificate_def validateDuration_def judgement_of_def)
qed

theorem admitted_claims_unique_witness:
  "length (filter (\<lambda>cfg. ''ca'' \<in> set (index_config_authorityRef cfg)) [claiming_config]) \<le> 1 \<and>
   first_claimant (claiming_cert ''w'') [claiming_cert ''w''] = []"
  using admitted_claims_unique [OF demo_namespace]
  by (simp add: claiming_cert_def blank_cert_def new_meta_def)

section \<open>Where webhook and controller meet\<close>

text \<open>The webhook and the Certificate controller find the same conflicts: the certname is refused
  exactly when the controller would refuse to sign, and the rival the webhook names (the first
  one listed) is one of those the controller chooses the least from.\<close>

theorem conflict_checks_agree:
  assumes "rd_listCertificates R (m_Namespace (c_Meta c)) = Inr certs" and "named certs"
  shows "(certname_claim R c = [] \<longleftrightarrow> first_claimant c certs = []) \<and>
    (certname_claim R c \<noteq> [] \<longrightarrow> other_certificate c certs \<in> set (claimants c certs) \<and>
       first_claimant c certs \<le> other_certificate c certs)"
proof (intro conjI impI)
  show iff: "certname_claim R c = [] \<longleftrightarrow> first_claimant c certs = []"
    using certname_claim_accepts [OF assms(1)] other_certificate_none [OF assms(2)] first_claimant_none [OF assms(2)]
    by blast
  assume "certname_claim R c \<noteq> []"
  then have ne: "claimants c certs \<noteq> []"
    using certname_claim_accepts [OF assms(1)] other_certificate_none [OF assms(2)] by blast
  then show "other_certificate c certs \<in> set (claimants c certs)"
    by (simp add: other_certificate_hd split: list.split)
  then show "first_claimant c certs \<le> other_certificate c certs"
    using first_claimant_least [OF ne] by blast
qed

definition listing :: "Certificate list \<Rightarrow> reader" where
  "listing certs = reader_at (\<lambda>_ _ _. None) \<lparr> no_Configs = [], no_Certificates = certs \<rparr>"

theorem conflict_checks_agree_witness:
  "certname_claim (listing [claiming_cert ''a'']) (claiming_cert ''b'') \<noteq> [] \<and>
   first_claimant (claiming_cert ''b'') [claiming_cert ''a''] \<noteq> []"
proof -
  let ?R = "listing [claiming_cert ''a'']" and ?c = "claiming_cert ''b''"
  have "certname_claim ?R ?c \<noteq> []"
    by (simp add: certname_claim_def webhook_otherCertificateUsingCertname_def other_certificate_def same_claim_def
        listing_def reader_at_def claiming_cert_def blank_cert_def new_meta_def certnameOrDefault_def)
  moreover have "rd_listCertificates ?R (m_Namespace (c_Meta ?c)) = Inr [claiming_cert ''a'']"
    by (simp add: listing_def reader_at_def)
  moreover have "named [claiming_cert ''a'']" by (simp add: named_def claiming_cert_def blank_cert_def new_meta_def)
  ultimately show ?thesis using conflict_checks_agree by blast
qed

section \<open>Deleting a CertificateAuthority\<close>

lemma delete_accepted:
  assumes "rd_listCertificates R (m_Namespace (ca_Meta ca)) = Inr certs"
  shows "snd (validate_ca_delete (Some R) ca) = Accepted \<longleftrightarrow>
    \<not> list_ex (\<lambda>c. cs_AuthorityRef (c_Spec c) = ca_name ca) certs"
  using assms by (simp add: validate_ca_delete_def referencing_def Let_def list_ex_iff filter_empty_conv)

text \<open>C14: The webhook never lets a deletion pass that the controller's guard would hold back, but
  it also refuses deletions the guard lets through: as long as the Certificate that the
  controller itself creates for signing is there, which is until the CertificateAuthority is
  gone, no deletion is accepted.\<close>

theorem delete_webhook_and_guard:
  assumes "kube_laws L" and "rd_listCertificates R (m_Namespace (ca_Meta ca)) = Inr certs"
    and "SetControllerReference L ''CertificateAuthority'' (ca_Meta ca) (c_Meta (new_signing_cert ca)) = Inr meta"
  shows "(list_ex (needs_ca L ca) certs \<longrightarrow> snd (validate_ca_delete (Some R) ca) \<noteq> Accepted) \<and>
    \<not> needs_ca L ca (new_signing_cert ca \<lparr> c_Meta := meta \<rparr>) \<and>
    (new_signing_cert ca \<lparr> c_Meta := meta \<rparr> \<in> set certs \<longrightarrow> snd (validate_ca_delete (Some R) ca) \<noteq> Accepted)"
proof (intro conjI impI)
  show "list_ex (needs_ca L ca) certs \<Longrightarrow> snd (validate_ca_delete (Some R) ca) \<noteq> Accepted"
    unfolding delete_accepted [OF assms(2)] by (auto simp: list_ex_iff needs_ca_def)
  have "IsControlledBy L meta (ca_Meta ca)" using kube_laws.set_controller [OF assms(1,3)] by blast
  then show "\<not> needs_ca L ca (new_signing_cert ca \<lparr> c_Meta := meta \<rparr>)" by (simp add: needs_ca_def)
  have spec: "cs_AuthorityRef (c_Spec (new_signing_cert ca)) = ca_name ca" by (simp add: new_signing_cert_def Let_def)
  show "new_signing_cert ca \<lparr> c_Meta := meta \<rparr> \<in> set certs \<Longrightarrow> snd (validate_ca_delete (Some R) ca) \<noteq> Accepted"
    unfolding delete_accepted [OF assms(2)] list_ex_iff not_not
    by (erule bexI [rotated]) (simp add: spec)
qed

definition own_meta :: ObjectMeta where
  "own_meta = (c_Meta (new_signing_cert demo_authority)) \<lparr> m_OwnerReferences :=
     [\<lparr> or_Kind = ''CertificateAuthority'', or_Name = ''ca'', or_UID = ''u'', or_Controller = True \<rparr>] \<rparr>"

theorem delete_webhook_and_guard_witness:
  "\<not> needs_ca reference_lib demo_authority (new_signing_cert demo_authority \<lparr> c_Meta := own_meta \<rparr>) \<and>
   snd (validate_ca_delete (Some (listing [new_signing_cert demo_authority \<lparr> c_Meta := own_meta \<rparr>])) demo_authority)
     \<noteq> Accepted"
proof -
  let ?own = "new_signing_cert demo_authority \<lparr> c_Meta := own_meta \<rparr>"
  have list: "rd_listCertificates (listing [?own]) (m_Namespace (ca_Meta demo_authority)) = Inr [?own]"
    by (simp add: listing_def reader_at_def)
  have ref: "SetControllerReference reference_lib ''CertificateAuthority'' (ca_Meta demo_authority)
      (c_Meta (new_signing_cert demo_authority)) = Inr own_meta"
    by (simp add: reference_lib_def set_controller_reference_def own_meta_def demo_authority_def blank_ca_def
        new_signing_cert_def blank_cert_def new_meta_def Let_def)
  show ?thesis using delete_webhook_and_guard [OF reference.kube_laws_axioms list ref] by simp
qed

section \<open>Deleting one of two rivals\<close>

text \<open>The API server with the webhook in front of it: a patch of a Certificate reaches it only if
  the validator accepts the patched object.\<close>

definition behind_webhook :: "admission_lib \<Rightarrow> reader \<Rightarrow> cert_env \<Rightarrow> cert_env" where
  "behind_webhook A R E = E \<lparr> e_patchCertificate := (\<lambda>h c.
     if snd (validate_update A R (AdmitCertificate c) (AdmitCertificate c)) = Accepted
     then e_patchCertificate E h c
     else Inl (Err Plain ''admission webhook denied the request'')) \<rparr>"

lemma rival_refused:
  assumes "rd_listCertificates R (m_Namespace (c_Meta c)) = Inr certs" and "named certs"
    and "other \<in> set certs" and "same_claim c other"
  shows "snd (validate_certificate A R c) \<noteq> Accepted"
proof
  assume "snd (validate_certificate A R c) = Accepted"
  then have "claimants c certs = []"
    using certificate_accepted certname_claim_accepts [OF assms(1)] other_certificate_none [OF assms(2)] by blast
  then show False using assms(3,4) by (auto simp: claimants_filter filter_empty_conv)
qed

lemma deletion_patch_same:
  assumes "kube_laws (e_lib E)" and "ContainsFinalizer (e_lib E) (c_Meta cert) certificateFinalizer"
  obtains h c where "hist (snd (reconcile_deletion E \<lparr> hist = [], obj = cert \<rparr>)) = h @ [PatchCertificate c]"
    and "c_Spec c = c_Spec cert" "cert_name c = cert_name cert" "m_Namespace (c_Meta c) = m_Namespace (c_Meta cert)"
proof -
  obtain r s1 where c: "handleCertificateCleanup E \<lparr> hist = [], obj = cert \<rparr> = (r, s1)"
    by (cases "handleCertificateCleanup E \<lparr> hist = [], obj = cert \<rparr>")
  obtain fs where "RemoveFinalizer (e_lib E) (c_Meta cert) certificateFinalizer = c_Meta cert \<lparr> m_Finalizers := fs \<rparr>"
    using kube_laws.finalizer_only(2) [OF assms(1)] by blast
  then show thesis using that [OF deletion_run [OF assms(2) c]]
    by (simp add: with_attempts_def split: if_splits)
qed

lemma refused_round:
  assumes "kube_laws (e_lib E)" and "rd_listCertificates R (m_Namespace (c_Meta cert)) = Inr certs" and "named certs"
    and "other \<in> set certs" and "same_claim cert other"
  shows "persisted (behind_webhook A R E) cert
     (hist (snd (reconcile_deletion (behind_webhook A R E) \<lparr> hist = [], obj = cert \<rparr>))) = cert"
proof (cases "ContainsFinalizer (e_lib E) (c_Meta cert) certificateFinalizer")
  case False
  then show ?thesis by (simp add: reconcile_deletion_def bnd_def reads_def ret_def persisted_def behind_webhook_def)
next
  case True
  let ?E = "behind_webhook A R E"
  have lib: "e_lib ?E = e_lib E" by (simp add: behind_webhook_def)
  obtain h c where h: "hist (snd (reconcile_deletion ?E \<lparr> hist = [], obj = cert \<rparr>)) = h @ [PatchCertificate c]"
    and c: "c_Spec c = c_Spec cert" "cert_name c = cert_name cert" "m_Namespace (c_Meta c) = m_Namespace (c_Meta cert)"
    using deletion_patch_same [of ?E cert] assms(1) True lib by metis
  have "same_claim c other" using assms(5) c by (simp add: same_claim_def certnameOrDefault_def)
  then have "snd (validate_certificate A R c) \<noteq> Accepted"
    using rival_refused [of R c certs other A] assms(2-4) c(3) by simp
  then have "\<exists>e. e_patchCertificate ?E h c = Inl e" by (simp add: behind_webhook_def)
  then show ?thesis by (auto simp: h persisted_def)
qed

text \<open>C9: A Certificate whose certname another live Certificate claims too cannot be got rid of
  behind the webhook: the patch that records a failed cleanup and the patch that removes the
  finalizer carry the same claim as the object itself and are refused, so after any number of
  reconciles, under whatever the CA and the rest of the API server answer, the
  Certificate is as it was, although without the webhook five reconciles end its deletion.\<close>

theorem rival_deletion_stuck:
  assumes "list_all (\<lambda>E. kube_laws (e_lib E)) Es" and "rd_listCertificates R (m_Namespace (c_Meta cert)) = Inr certs"
    and "list_all (\<lambda>c. m_Name (c_Meta c) \<noteq> []) certs" and "other \<in> set certs" and "same_claim cert other"
  shows "deletion_rounds (map (behind_webhook A R) Es) cert = cert"
  using assms(1)
proof (induction Es)
  case (Cons E Es)
  then show ?case using refused_round [of E R cert certs other A] assms(2-) by (simp add: named_def)
qed simp

definition deleted_meta :: ObjectMeta where
  "deleted_meta = (new_meta ''b'' ''ns'') \<lparr> m_DeletionTimestamp := Some 0, m_Finalizers := [certificateFinalizer] \<rparr>"

theorem rival_deletion_stuck_witness:
  "deletion_rounds (map (behind_webhook lenient_lib (listing [claiming_cert ''a''])) (replicate 9 failing_env))
     (claiming_cert ''b'' \<lparr> c_Meta := deleted_meta \<rparr>) = claiming_cert ''b'' \<lparr> c_Meta := deleted_meta \<rparr>"
proof (rule rival_deletion_stuck)
  let ?R = "listing [claiming_cert ''a'']" and ?c = "claiming_cert ''b'' \<lparr> c_Meta := deleted_meta \<rparr>"
  show "list_all (\<lambda>E. kube_laws (e_lib E)) (replicate 9 failing_env)"
    using reference.kube_laws_axioms by (simp add: list_all_iff failing_env_def demo_cert_env_def)
  show "rd_listCertificates ?R (m_Namespace (c_Meta ?c)) = Inr [claiming_cert ''a'']"
    by (simp add: listing_def reader_at_def)
  show "list_all (\<lambda>c. m_Name (c_Meta c) \<noteq> []) [claiming_cert ''a'']"
    by (simp add: claiming_cert_def blank_cert_def new_meta_def)
  show "claiming_cert ''a'' \<in> set [claiming_cert ''a'']" by simp
  show "same_claim ?c (claiming_cert ''a'')"
    by (simp add: same_claim_def claiming_cert_def blank_cert_def new_meta_def deleted_meta_def certnameOrDefault_def)
qed

end
