(* ===== verification/CertWatch.thy ===== *)
theory CertWatch
  imports CertDerived
begin

text \<open>
  What wakes the Certificate controller (certificate_watchers.go, the mappers at the end of
  certificate_derived.go and SetupWithManager): the requests each event of a watched resource
  gives, and the theorem that no change of a Server or a Pool that changes the names a
  certificate is issued for goes unnoticed.
\<close>

section \<open>The mappers\<close>

text \<open>A listing that fails is logged and gives no request.\<close>

definition listed :: "err + 'a list \<Rightarrow> 'a list" where
  "listed r = (case r of Inl _ \<Rightarrow> [] | Inr xs \<Rightarrow> xs)"

definition enqueueCertificatesForSecret :: "(string \<Rightarrow> err + Certificate list) \<Rightarrow> ObjectMeta \<Rightarrow> (string \<times> string) list" where
  "enqueueCertificatesForSecret listCerts secret =
     (let labels = m_Labels secret; ns = m_Namespace secret;
          certName = sval labels ''openvox.voxpupuli.org/certificate'';
          caName = sval labels LabelCertificateAuthority in
      if sval labels ''app.kubernetes.io/managed-by'' \<noteq> ''openvox-operator'' then []
      else if certName \<noteq> [] then [(ns, certName)]
      else if caName = [] then []
      else map (\<lambda>c. (m_Namespace (c_Meta c), m_Name (c_Meta c)))
             (filter (\<lambda>c. cs_AuthorityRef (c_Spec c) = caName) (listed (listCerts ns))))"

fun pool_certificates :: "string \<Rightarrow> string set \<Rightarrow> Server list \<Rightarrow> (string \<times> string) list" where
  "pool_certificates pool seen [] = []"
| "pool_certificates pool seen (s # ss) =
     (if sv_CertificateRef s = [] \<or> sv_CertificateRef s \<in> seen then pool_certificates pool seen ss
      else if pool \<notin> set (sv_PoolRefs s) then pool_certificates pool seen ss
      else (m_Namespace (sv_Meta s), sv_CertificateRef s)
             # pool_certificates pool (insert (sv_CertificateRef s) seen) ss)"

definition certificatesForPool :: "(string \<Rightarrow> err + Server list) \<Rightarrow> Pool \<Rightarrow> (string \<times> string) list" where
  "certificatesForPool listServers pool =
     pool_certificates (m_Name (p_Meta pool)) {} (listed (listServers (m_Namespace (p_Meta pool))))"

definition certificatesForServerPools :: "Server \<Rightarrow> (string \<times> string) list" where
  "certificatesForServerPools server =
     (if sv_CertificateRef server = [] then []
      else [(m_Namespace (sv_Meta server), sv_CertificateRef server)])"

text \<open>The watches: the Certificate itself, the Secrets it owns, every Secret, Pool and Server.  An
  update is an event of the old and of the new object.\<close>

datatype cert_event = CertificateEvent Certificate | SecretEvent ObjectMeta | PoolEvent Pool | ServerEvent Server

definition owner_requests :: "ObjectMeta \<Rightarrow> (string \<times> string) list" where
  "owner_requests m =
     (case find or_Controller (m_OwnerReferences m) of
        None \<Rightarrow> []
      | Some r \<Rightarrow> if or_Kind r = ''Certificate'' then [(m_Namespace m, or_Name r)] else [])"

fun certificate_requests :: "(string \<Rightarrow> err + Certificate list) \<Rightarrow> (string \<Rightarrow> err + Server list) \<Rightarrow>
    cert_event \<Rightarrow> (string \<times> string) list" where
  "certificate_requests listCerts listServers (CertificateEvent c) = [(m_Namespace (c_Meta c), m_Name (c_Meta c))]"
| "certificate_requests listCerts listServers (SecretEvent m) =
     owner_requests m @ enqueueCertificatesForSecret listCerts m"
| "certificate_requests listCerts listServers (PoolEvent p) = certificatesForPool listServers p"
| "certificate_requests listCerts listServers (ServerEvent s) = certificatesForServerPools s"

section \<open>No change of the effective names is missed\<close>

lemma pool_certificates_reach:
  assumes "s \<in> set ss" "sv_CertificateRef s \<noteq> []" "pool \<in> set (sv_PoolRefs s)" "sv_CertificateRef s \<notin> seen"
    and "\<forall>s \<in> set ss. m_Namespace (sv_Meta s) = ns"
  shows "(ns, sv_CertificateRef s) \<in> set (pool_certificates pool seen ss)"
  using assms
proof (induction pool seen ss rule: pool_certificates.induct)
  case (2 pool seen x ss)
  show ?case
  proof (cases "x = s")
    case True
    then show ?thesis using 2 by simp
  next
    case False
    then have s: "s \<in> set ss" using 2(4) by simp
    show ?thesis
    proof (cases "sv_CertificateRef s = sv_CertificateRef x \<and> pool \<in> set (sv_PoolRefs x)")
      case True
      then show ?thesis using 2 by simp
    next
      case same: False
      then show ?thesis using 2 s by auto
    qed
  qed
qed simp

text \<open>What a certificate of that name is issued for, given the Servers and Pools of its namespace.\<close>

definition issued_names :: "string \<Rightarrow> string list \<Rightarrow> Server list \<Rightarrow> Pool list \<Rightarrow> string list" where
  "issued_names cert names servers pools =
     effective_names names (wanted_pools (filter (\<lambda>s. cert \<in> set (index_certificateRef s)) servers)) pools"

text \<open>The lists before and after one object, present before, after or both, has changed.\<close>

definition others :: "('a \<Rightarrow> string) \<Rightarrow> string \<Rightarrow> 'a list \<Rightarrow> 'a list" where
  "others name x xs = filter (\<lambda>y. name y \<noteq> x) xs"

abbreviation pool_name :: "Pool \<Rightarrow> string" where "pool_name p \<equiv> m_Name (p_Meta p)"
abbreviation server_name :: "Server \<Rightarrow> string" where "server_name s \<equiv> m_Name (sv_Meta s)"

lemma issued_names_cong:
  assumes "set (wanted_pools (filter (\<lambda>s. cert \<in> set (index_certificateRef s)) servers)) =
      set (wanted_pools (filter (\<lambda>s. cert \<in> set (index_certificateRef s)) servers'))"
    and "\<forall>p. pool_name p \<in> set (wanted_pools (filter (\<lambda>s. cert \<in> set (index_certificateRef s)) servers))
      \<longrightarrow> (p \<in> set pools) = (p \<in> set pools')"
  shows "issued_names cert names servers pools = issued_names cert names servers' pools'"
proof (rule sorted_distinct_set_unique)
  let ?w = "wanted_pools (filter (\<lambda>s. cert \<in> set (index_certificateRef s)) servers)"
    and ?w' = "wanted_pools (filter (\<lambda>s. cert \<in> set (index_certificateRef s)) servers')"
  show "sorted (issued_names cert names servers pools)" "distinct (issued_names cert names servers pools)"
    "sorted (issued_names cert names servers' pools')" "distinct (issued_names cert names servers' pools')"
    unfolding issued_names_def effective_names_def by (simp_all add: dedupeSorted_props)
  have "{p \<in> set pools. pool_contributes ?w p} = {p \<in> set pools'. pool_contributes ?w' p}"
    using assms by (auto simp: pool_contributes_iff)
  then show "set (issued_names cert names servers pools) = set (issued_names cert names servers' pools')"
    unfolding issued_names_def effective_names_def by (simp add: dedupeSorted_props)
qed

lemma same_others: "others name n xs = others name n ys \<Longrightarrow> name x \<noteq> n \<Longrightarrow> x \<in> set xs \<longleftrightarrow> x \<in> set ys"
proof -
  assume same: "others name n xs = others name n ys" and x: "name x \<noteq> n"
  have "x \<in> set zs \<longleftrightarrow> x \<in> set (others name n zs)" for zs using x by (simp add: others_def)
  from this [of xs] this [of ys] show ?thesis using same by simp
qed

lemma wanted_pools_iff:
  "p \<in> set (wanted_pools (filter (\<lambda>s. cert \<in> set (index_certificateRef s)) servers)) \<longleftrightarrow>
   (\<exists>s \<in> set servers. sv_CertificateRef s = cert \<and> cert \<noteq> [] \<and> p \<in> set (sv_PoolRefs s))"
  by (auto simp: wanted_pools_def index_certificateRef_def nonEmpty_def split: if_splits)

lemma pool_change_enqueued:
  assumes "others pool_name p pools = others pool_name p pools'"
    and "issued_names cert names servers pools \<noteq> issued_names cert names servers pools'"
    and "listServers ns = Inr servers" "\<forall>s \<in> set servers. m_Namespace (sv_Meta s) = ns"
    and "pool_name x = p" "m_Namespace (p_Meta x) = ns"
  shows "(ns, cert) \<in> set (certificatesForPool listServers x)"
proof -
  have "p \<in> set (wanted_pools (filter (\<lambda>s. cert \<in> set (index_certificateRef s)) servers))"
    using assms(1,2) issued_names_cong [of cert servers servers pools pools' names] same_others by metis
  then obtain s where s: "s \<in> set servers" "sv_CertificateRef s = cert" "cert \<noteq> []" "p \<in> set (sv_PoolRefs s)"
    by (auto simp: wanted_pools_iff)
  then show ?thesis
    using pool_certificates_reach [of s servers p "{}" ns] assms(3-) by (simp add: certificatesForPool_def listed_def)
qed

lemma server_change_enqueued:
  assumes "others server_name n servers = others server_name n servers'"
    and "issued_names cert names servers pools \<noteq> issued_names cert names servers' pools"
    and "\<forall>s \<in> set (servers @ servers'). m_Namespace (sv_Meta s) = ns"
  shows "\<exists>x \<in> set (servers @ servers'). server_name x = n \<and> (ns, cert) \<in> set (certificatesForServerPools x)"
proof -
  let ?w = "\<lambda>ss. set (wanted_pools (filter (\<lambda>s. cert \<in> set (index_certificateRef s)) ss))"
  have "?w servers \<noteq> ?w servers'"
    using assms(2) issued_names_cong [of cert servers servers' pools pools names] by blast
  then obtain p where "p \<in> ?w servers \<longleftrightarrow> p \<notin> ?w servers'" by blast
  then obtain x where x: "x \<in> set (servers @ servers')" "x \<in> set servers \<longleftrightarrow> x \<notin> set servers'"
      "sv_CertificateRef x = cert" "cert \<noteq> []"
    unfolding wanted_pools_iff by auto
  then have "server_name x = n" using same_others [OF assms(1), of x] by blast
  then show ?thesis using x(1,3,4) assms(3) by (intro bexI [of _ x]) (simp_all add: certificatesForServerPools_def)
qed

text \<open>C15: Whenever the creation, change or deletion of one Pool or of one Server changes the names a
  Certificate is to be issued for, its events make the controller reconcile that Certificate:
  for a Pool the event of either version does, for a Server that of one of them (a Server that
  moves away is found through the old object).\<close>

theorem name_changes_enqueued:
  assumes "listServers ns = Inr servers" and "list_all (\<lambda>s. m_Namespace (sv_Meta s) = ns) (servers @ servers')"
  shows "(others pool_name p pools = others pool_name p pools' \<and>
      issued_names cert names servers pools \<noteq> issued_names cert names servers pools' \<longrightarrow>
      (\<forall>x. pool_name x = p \<and> m_Namespace (p_Meta x) = ns \<longrightarrow>
         (ns, cert) \<in> set (certificate_requests listCerts listServers (PoolEvent x)))) \<and>
    (others server_name n servers = others server_name n servers' \<and>
      issued_names cert names servers pools \<noteq> issued_names cert names servers' pools \<longrightarrow>
      list_ex (\<lambda>x. server_name x = n \<and> (ns, cert) \<in> set (certificate_requests listCerts listServers (ServerEvent x)))
        (servers @ servers'))"
proof -
  have ns: "\<forall>s \<in> set (servers @ servers'). m_Namespace (sv_Meta s) = ns" using assms(2) by (simp add: list_all_iff)
  have s: "\<forall>s \<in> set servers. m_Namespace (sv_Meta s) = ns" using ns by simp
  show ?thesis unfolding certificate_requests.simps list_ex_iff
    using pool_change_enqueued [where listServers = listServers, OF _ _ assms(1) s]
      server_change_enqueued [where ns = ns, OF _ _ ns] by blast
qed

definition demo_server :: Server where
  "demo_server = (blank_server ''s'' ''ns'') \<lparr> sv_CertificateRef := ''web'', sv_PoolRefs := [''p''] \<rparr>"

definition watched_pool :: Pool where
  "watched_pool = \<lparr> p_Meta = new_meta ''p'' ''ns'',
     p_Service = \<lparr> ps_Type = [], ps_Port = 0, ps_NodePort = 0, ps_Annotations = [], ps_Labels = [], ps_ExternalIPs = [] \<rparr>,
     p_Route = Some \<lparr> r_Enabled = True, r_Hostname = ''h'', r_GatewayName = [], r_GatewaySection = [],
       r_InjectDNSAltName = True \<rparr>,
     p_Status = \<lparr> pt_ObservedGeneration = 0, pt_ServiceName = [], pt_Endpoints = 0, pt_Conditions = [] \<rparr> \<rparr>"

theorem name_changes_enqueued_witness:
  "issued_names ''web'' [] [demo_server] [watched_pool] = [''h''] \<and>
   (''ns'', ''web'') \<in> set (certificate_requests (\<lambda>_. Inr []) (\<lambda>_. Inr [demo_server]) (PoolEvent watched_pool))"
proof -
  have names: "issued_names ''web'' [] [demo_server] [watched_pool] = [''h'']"
      "issued_names ''web'' [] [demo_server] [] = []"
    by code_simp+
  have "others pool_name ''p'' [watched_pool] = others pool_name ''p'' []"
      "list_all (\<lambda>s. m_Namespace (sv_Meta s) = ''ns'') ([demo_server] @ [])"
      "pool_name watched_pool = ''p''" "m_Namespace (p_Meta watched_pool) = ''ns''"
    by code_simp+
  then show ?thesis
    using name_changes_enqueued [of "\<lambda>_. Inr [demo_server]" "''ns''" "[demo_server]" "[]" "''p''" "[watched_pool]" "[]"
        "''web''" "[]" "\<lambda>_. Inr []" "[]"] names by simp
qed

end
