(* ===== verification/MockServer.thy ===== *)
theory MockServer
  imports EncClassifier ReportForward
begin

text \<open>
  The receiver of the end-to-end tests (cmd/mock): an HTTP server that classifies nodes, takes
  reports, PuppetDB commands and events, and lists what it took.  Its state is the record of
  the code; every handler is one step of it, since the mutex is held around each access.  A
  request is given by its method, the segments of its path as net/http decodes them, its header
  and its body; the JSON and YAML libraries, the clock and the files are parameters.
\<close>

section \<open>State\<close>

record storedReport =
  sr_ReceivedAt :: int
  sr_Body :: string

record storedPDBCommand =
  sc_ReceivedAt :: int
  sc_Command :: string
  sc_Version :: int
  sc_Certname :: string
  sc_Body :: string

record storedClassification =
  scl_Certname :: string
  scl_ServedAt :: int

record storedHECEvent =
  sh_ReceivedAt :: int
  sh_Body :: string

text \<open>A list of classes that is missing in the file is nil.\<close>

record classificationEntry =
  ce_Classes :: "string list option"
  ce_Environment :: string

record mock_auth =
  ma_Type :: string
  ma_Token :: string
  ma_Header :: string
  ma_Username :: string
  ma_Password :: string

text \<open>The time of the file before it was read is the zero time, before every other.\<close>

record mock =
  mk_reports :: "storedReport list"
  mk_pdbCommands :: "storedPDBCommand list"
  mk_classifications :: "storedClassification list"
  mk_hecEvents :: "storedHECEvent list"
  mk_encClasses :: "string list"
  mk_encEnvironment :: string
  mk_classificationsFile :: string
  mk_classificationsData :: "classificationEntry smap option"
  mk_classificationsModTime :: "int option"
  mk_auth :: mock_auth

text \<open>The envelope of a PuppetDB command, as the decoder fills it.\<close>

record envelope =
  ev_Command :: string
  ev_Version :: int
  ev_Payload :: any

datatype api_list = Reports "storedReport list" | PDBCommands "storedPDBCommand list"
  | Classifications "storedClassification list" | HECEvents "storedHECEvent list"

text \<open>json.Unmarshal of an envelope, json.Valid, json.Encoder (None for an error) and yaml.Unmarshal
  of the classifications.\<close>

record mock_lib =
  ml_Envelope :: "string \<Rightarrow> string + envelope"
  ml_Valid :: "string \<Rightarrow> bool"
  ml_Encode :: "api_list \<Rightarrow> string option"
  ml_UnmarshalClassifications :: "string \<Rightarrow> string + classificationEntry smap option"

record served_request =
  hq_Method :: string
  hq_Path :: "string list"
  hq_Header :: "string smap"
  hq_Body :: "string option"

record response =
  rs_Status :: nat
  rs_ContentType :: string
  rs_Body :: string

definition text_response :: "nat \<Rightarrow> string \<Rightarrow> response" where
  "text_response status body = \<lparr> rs_Status = status, rs_ContentType = ''text/plain; charset=utf-8'', rs_Body = body \<rparr>"

text \<open>http.Error ends the text with a line break.\<close>

definition http_error :: "nat \<Rightarrow> string \<Rightarrow> response" where
  "http_error status msg = text_response status (msg @ ''\<newline>'')"

definition json_response :: "string \<Rightarrow> response" where
  "json_response body = \<lparr> rs_Status = 200, rs_ContentType = ''application/json'', rs_Body = body \<rparr>"

section \<open>Authentication\<close>

definition get_header :: "string smap \<Rightarrow> string \<Rightarrow> string" where
  "get_header h name = sval h (CanonicalKey name)"

text \<open>base64.StdEncoding.DecodeString, which skips line breaks and wants the padding.\<close>

definition base64_alphabet :: string where
  "base64_alphabet = ''ABCDEFGHIJKLMNOPQRSTUVWXYZabcdefghijklmnopqrstuvwxyz0123456789+/''"

definition base64_value :: "char \<Rightarrow> nat option" where
  "base64_value c = map_of (zip base64_alphabet [0..<64]) c"

definition byte :: "nat \<Rightarrow> char" where
  "byte n = char_of (n mod 256)"

fun decode_groups :: "string \<Rightarrow> string option" where
  "decode_groups [] = Some []"
| "decode_groups (a # b # c # d # rest) =
     (case (base64_value a, base64_value b, base64_value c, base64_value d) of
        (Some x, Some y, Some z, Some w) \<Rightarrow>
          (let n = ((x * 64 + y) * 64 + z) * 64 + w in
           map_option (\<lambda>s. byte (n div 65536) # byte (n div 256) # byte n # s) (decode_groups rest))
      | (Some x, Some y, Some z, None) \<Rightarrow>
          (let n = (x * 64 + y) * 64 + z in
           if d = CHR ''='' \<and> rest = [] then Some [byte (n div 1024), byte (n div 4)] else None)
      | (Some x, Some y, None, None) \<Rightarrow>
          (let n = x * 64 + y in
           if c = CHR ''='' \<and> d = CHR ''='' \<and> rest = [] then Some [byte (n div 16)] else None)
      | _ \<Rightarrow> None)"
| "decode_groups _ = None"

definition base64_decode :: "string \<Rightarrow> string option" where
  "base64_decode s = decode_groups (filter (\<lambda>c. c \<noteq> CHR 0x0A \<and> c \<noteq> CHR 0x0D) s)"

text \<open>Request.BasicAuth: user and password, if the header has them.\<close>

definition BasicAuth :: "string smap \<Rightarrow> (string \<times> string) option" where
  "BasicAuth h =
     (let auth = get_header h ''Authorization'' in
      if length auth < 6 \<or> \<not> EqualFold (take 6 auth) ''Basic '' then None
      else case base64_decode (drop 6 auth) of
             None \<Rightarrow> None
           | Some cs \<Rightarrow> (case Cut cs CHR '':'' of (user, pass, found) \<Rightarrow> if found then Some (user, pass) else None))"

definition checkAuth :: "mock_auth \<Rightarrow> string smap \<Rightarrow> response option" where
  "checkAuth a h =
     (if ma_Type a = ''bearer'' then
        (if get_header h ''Authorization'' \<noteq> ''Bearer '' @ ma_Token a
         then Some (http_error 401 ''unauthorized: invalid bearer token'') else None)
      else if ma_Type a = ''basic'' then
        (if BasicAuth h \<noteq> Some (ma_Username a, ma_Password a)
         then Some (http_error 401 ''unauthorized: invalid basic auth'') else None)
      else if ma_Type a = ''token'' then
        (if get_header h (ma_Header a) \<noteq> ma_Token a
         then Some (http_error 401 ''unauthorized: invalid token'') else None)
      else None)"

section \<open>Classifications\<close>

text \<open>The files: the time of the last change, if there is one, and the contents.\<close>

definition loadClassificationsFile :: "mock_lib \<Rightarrow> (string \<Rightarrow> int option) \<Rightarrow> (string \<Rightarrow> string option) \<Rightarrow> mock \<Rightarrow>
    string option \<times> mock" where
  "loadClassificationsFile L stat readf m =
     (case stat (mk_classificationsFile m) of
        None \<Rightarrow> (Some ''stat'', m)
      | Some modTime \<Rightarrow>
          (case readf (Clean (mk_classificationsFile m)) of
             None \<Rightarrow> (Some ''open'', m)
           | Some data \<Rightarrow>
               (case ml_UnmarshalClassifications L data of
                  Inl e \<Rightarrow> (Some e, m)
                | Inr classifications \<Rightarrow>
                    (None, m \<lparr> mk_classificationsData := classifications,
                               mk_classificationsModTime := Some modTime \<rparr>))))"

text \<open>The watcher looks twice at the file: for its time, and again when it loads it.\<close>

definition reloadClassificationsIfChanged :: "mock_lib \<Rightarrow> (string \<Rightarrow> int option) \<Rightarrow> (string \<Rightarrow> int option) \<Rightarrow>
    (string \<Rightarrow> string option) \<Rightarrow> mock \<Rightarrow> mock" where
  "reloadClassificationsIfChanged L stat stat' readf m =
     (case stat (mk_classificationsFile m) of
        None \<Rightarrow> m
      | Some modTime \<Rightarrow>
          if (case mk_classificationsModTime m of None \<Rightarrow> True | Some t \<Rightarrow> t < modTime)
          then snd (loadClassificationsFile L stat' readf m) else m)"

definition classification_of :: "mock \<Rightarrow> string \<Rightarrow> string list option \<times> string" where
  "classification_of m certname =
     (case mk_classificationsData m of
        None \<Rightarrow> (None, [])
      | Some entries \<Rightarrow>
          (case sget entries certname of
             Some e \<Rightarrow> (ce_Classes e, ce_Environment e)
           | None \<Rightarrow>
               (case sget entries ''_default'' of
                  Some e \<Rightarrow> (ce_Classes e, ce_Environment e)
                | None \<Rightarrow> (None, []))))"

definition classification_text :: "string list \<Rightarrow> string \<Rightarrow> string" where
  "classification_text classes environment =
     ''---\<newline>'' @ (if environment \<noteq> [] then ''environment: '' @ environment @ ''\<newline>'' else []) @
     (if classes \<noteq> [] then ''classes:\<newline>'' @ concat (map (\<lambda>c. ''  '' @ c @ '':\<newline>'') classes) else [])"

section \<open>Handlers\<close>

definition authenticated :: "mock \<Rightarrow> served_request \<Rightarrow> response \<times> mock \<Rightarrow> response \<times> mock" where
  "authenticated m q served = (case checkAuth (mk_auth m) (hq_Header q) of Some r \<Rightarrow> (r, m) | None \<Rightarrow> served)"

definition handleENC :: "int \<Rightarrow> string \<Rightarrow> served_request \<Rightarrow> mock \<Rightarrow> response \<times> mock" where
  "handleENC now certname q m =
     authenticated m q
       (let (classes, environment) = classification_of m certname;
            classes' = (case classes of None \<Rightarrow> mk_encClasses m | Some cs \<Rightarrow> cs);
            environment' = (if environment = [] then mk_encEnvironment m else environment) in
        (\<lparr> rs_Status = 200, rs_ContentType = ''application/x-yaml'',
           rs_Body = classification_text classes' environment' \<rparr>,
         m \<lparr> mk_classifications := mk_classifications m @ [\<lparr> scl_Certname = certname, scl_ServedAt = now \<rparr>] \<rparr>))"

definition maxBodySize :: nat where "maxBodySize = 10 * 1024 * 1024"

text \<open>The first maxBodySize bytes of the body; None for a read error.\<close>

definition limited_body :: "served_request \<Rightarrow> string option" where
  "limited_body q = map_option (take maxBodySize) (hq_Body q)"

definition with_body :: "served_request \<Rightarrow> mock \<Rightarrow> (string \<Rightarrow> response \<times> mock) \<Rightarrow> response \<times> mock" where
  "with_body q m k =
     authenticated m q
       (case limited_body q of None \<Rightarrow> (http_error 400 ''failed to read body'', m) | Some body \<Rightarrow> k body)"

definition handleReport :: "int \<Rightarrow> served_request \<Rightarrow> mock \<Rightarrow> response \<times> mock" where
  "handleReport now q m =
     with_body q m (\<lambda>body.
       (text_response 200 ''ok'', m \<lparr> mk_reports := mk_reports m @ [\<lparr> sr_ReceivedAt = now, sr_Body = body \<rparr>] \<rparr>))"

definition single_quoted :: "string \<Rightarrow> string" where
  "single_quoted s = [CHR 0x27] @ s @ [CHR 0x27]"

definition pdb_answer :: string where
  \<open>pdb_answer = ''{"uuid":"mock-uuid"}''\<close>

definition hec_answer :: string where
  \<open>hec_answer = ''{"text":"Success","code":0}''\<close>

definition payload_certname :: "any \<Rightarrow> string" where
  "payload_certname payload = (case payload of AnyMap p \<Rightarrow> as_string (field p ''certname'') | _ \<Rightarrow> [])"

definition handlePDBCommand :: "mock_lib \<Rightarrow> int \<Rightarrow> served_request \<Rightarrow> mock \<Rightarrow> response \<times> mock" where
  "handlePDBCommand L now q m =
     with_body q m (\<lambda>body.
       case ml_Envelope L body of
         Inl e \<Rightarrow> (http_error 400 (''invalid JSON: '' @ e), m)
       | Inr env \<Rightarrow>
           if ev_Command env = [] then (http_error 400 (''missing '' @ single_quoted ''command'' @ '' field''), m)
           else if ev_Version env = 0 then (http_error 400 (''missing or zero '' @ single_quoted ''version'' @ '' field''), m)
           else if ev_Command env = ''store report'' \<and> ev_Version env \<noteq> 8
           then (http_error 400 ''store report command requires version 8'', m)
           else (json_response pdb_answer,
                 m \<lparr> mk_pdbCommands := mk_pdbCommands m @
                   [\<lparr> sc_ReceivedAt = now, sc_Command = ev_Command env, sc_Version = ev_Version env,
                      sc_Certname = payload_certname (ev_Payload env), sc_Body = body \<rparr>] \<rparr>))"

definition handleHECEvent :: "mock_lib \<Rightarrow> int \<Rightarrow> served_request \<Rightarrow> mock \<Rightarrow> response \<times> mock" where
  "handleHECEvent L now q m =
     with_body q m (\<lambda>body.
       if \<not> ml_Valid L body then (http_error 400 ''invalid JSON'', m)
       else (json_response hec_answer,
             m \<lparr> mk_hecEvents := mk_hecEvents m @ [\<lparr> sh_ReceivedAt = now, sh_Body = body \<rparr>] \<rparr>))"

definition writeJSON :: "mock_lib \<Rightarrow> api_list \<Rightarrow> response" where
  "writeJSON L v =
     (case ml_Encode L v of
        None \<Rightarrow> http_error 500 ''failed to encode response''
      | Some text \<Rightarrow> json_response text)"

definition handleAPIReports :: "mock_lib \<Rightarrow> served_request \<Rightarrow> mock \<Rightarrow> response \<times> mock" where
  "handleAPIReports L q m = (writeJSON L (Reports (mk_reports m)), m)"

definition handleAPIPDBCommands :: "mock_lib \<Rightarrow> served_request \<Rightarrow> mock \<Rightarrow> response \<times> mock" where
  "handleAPIPDBCommands L q m = (writeJSON L (PDBCommands (mk_pdbCommands m)), m)"

definition handleAPIClassifications :: "mock_lib \<Rightarrow> served_request \<Rightarrow> mock \<Rightarrow> response \<times> mock" where
  "handleAPIClassifications L q m = (writeJSON L (Classifications (mk_classifications m)), m)"

definition handleAPIHECEvents :: "mock_lib \<Rightarrow> served_request \<Rightarrow> mock \<Rightarrow> response \<times> mock" where
  "handleAPIHECEvents L q m = (writeJSON L (HECEvents (mk_hecEvents m)), m)"

definition handleAPIReset :: "served_request \<Rightarrow> mock \<Rightarrow> response \<times> mock" where
  "handleAPIReset q m =
     (text_response 200 ''ok'',
      m \<lparr> mk_reports := [], mk_pdbCommands := [], mk_classifications := [], mk_hecEvents := [] \<rparr>)"

definition handleHealthz :: "served_request \<Rightarrow> mock \<Rightarrow> response \<times> mock" where
  "handleHealthz q m = (text_response 200 ''ok'', m)"

section \<open>The server\<close>

text \<open>
  newServeMux: the method and the handler of a path, by its segments.  http.ServeMux answers 404
  for a path without a handler and 405 for another method, lets HEAD pass for GET, and does not
  match an empty segment with a wildcard.
\<close>

definition registered :: "mock_lib \<Rightarrow> int \<Rightarrow> string list \<Rightarrow>
    (string \<times> (served_request \<Rightarrow> mock \<Rightarrow> response \<times> mock)) option" where
  "registered L now path =
     (if length path = 2 \<and> path ! 0 = ''node'' \<and> path ! 1 \<noteq> [] then Some (''GET'', handleENC now (path ! 1))
      else map_of
        [([''reports''], (''POST'', handleReport now)),
         ([''pdb'', ''cmd'', ''v1''], (''POST'', handlePDBCommand L now)),
         ([''api'', ''reports''], (''GET'', handleAPIReports L)),
         ([''api'', ''pdb-commands''], (''GET'', handleAPIPDBCommands L)),
         ([''api'', ''classifications''], (''GET'', handleAPIClassifications L)),
         ([''services'', ''collector'', ''event''], (''POST'', handleHECEvent L now)),
         ([''api'', ''hec-events''], (''GET'', handleAPIHECEvents L)),
         ([''api'', ''reset''], (''DELETE'', handleAPIReset)),
         ([''healthz''], (''GET'', handleHealthz))] path)"

definition newServeMux :: "mock_lib \<Rightarrow> int \<Rightarrow> served_request \<Rightarrow> mock \<Rightarrow> response \<times> mock" where
  "newServeMux L now q m =
     (case registered L now (hq_Path q) of
        None \<Rightarrow> (http_error 404 ''404 page not found'', m)
      | Some (meth, handler) \<Rightarrow>
          if hq_Method q = meth \<or> (meth = ''GET'' \<and> hq_Method q = ''HEAD'') then handler q m
          else (http_error 405 ''Method Not Allowed'', m))"

text \<open>main: the state from the environment variables, before the file of classifications is read.\<close>

definition encClasses_of :: "string \<Rightarrow> string list" where
  "encClasses_of v =
     (if v = [] then []
      else filter (\<lambda>c. c \<noteq> []) (map TrimSpace (SplitOn CHR '','' v)))"

definition initial_mock :: "(string \<Rightarrow> string) \<Rightarrow> mock" where
  "initial_mock getenv =
     \<lparr> mk_reports = [], mk_pdbCommands = [], mk_classifications = [], mk_hecEvents = [],
       mk_encClasses = encClasses_of (getenv ''ENC_CLASSES''), mk_encEnvironment = getenv ''ENC_ENVIRONMENT'',
       mk_classificationsFile = getenv ''CLASSIFICATIONS_FILE'', mk_classificationsData = None,
       mk_classificationsModTime = None,
       mk_auth = \<lparr> ma_Type = getenv ''AUTH_TYPE'', ma_Token = getenv ''AUTH_TOKEN'',
         ma_Header = (if getenv ''AUTH_HEADER'' = [] then ''X-Auth-Token'' else getenv ''AUTH_HEADER''),
         ma_Username = getenv ''AUTH_USERNAME'', ma_Password = getenv ''AUTH_PASSWORD'' \<rparr> \<rparr>"

definition start_mock :: "mock_lib \<Rightarrow> (string \<Rightarrow> int option) \<Rightarrow> (string \<Rightarrow> string option) \<Rightarrow> (string \<Rightarrow> string) \<Rightarrow> mock" where
  "start_mock L stat readf getenv =
     (let m = initial_mock getenv in
      if mk_classificationsFile m = [] then m else snd (loadClassificationsFile L stat readf m))"

end
