(* ===== verification/MockProps.thy ===== *)
theory MockProps
  imports MockServer
begin

text \<open>
  The programs of cmd/enc and cmd/report against the server of cmd/mock: the credentials the
  clients send are read back exactly, and a report that is forwarded to the server arrives once
  per endpoint.
\<close>

section \<open>Base64\<close>

lemma base64_alphabet_read: "list_all (\<lambda>n. base64_value (base64_alphabet ! n) = Some n) [0..<64]"
  by code_simp

lemma base64_alphabet_plain: "list_all (\<lambda>c. c \<noteq> CHR ''='' \<and> c \<noteq> CHR 0x0A \<and> c \<noteq> CHR 0x0D) base64_alphabet"
  by code_simp

lemma base64_char_in: "base64_char n \<in> set base64_alphabet"
proof -
  have "length base64_alphabet = 64" by (simp add: base64_alphabet_def)
  then show ?thesis by (simp add: base64_char_def base64_alphabet_def [symmetric])
qed

lemma base64_value_char [simp]: "base64_value (base64_char n) = Some (n mod 64)"
  using base64_alphabet_read by (simp add: list_all_iff base64_char_def base64_alphabet_def [symmetric])

lemma base64_value_pad [simp]: "base64_value CHR ''='' = None"
  by code_simp

lemma base64_char_plain [simp]: "base64_char n \<noteq> CHR 0x0A" "base64_char n \<noteq> CHR 0x0D"
  using base64_alphabet_plain base64_char_in by (auto simp: list_all_iff)

lemma byte_of_char [simp]: "byte (of_char c) = c"
  by (simp add: byte_def)

lemma of_char_bound: "(of_char c :: nat) < 256"
  by (rule nat_of_char_less_256)

lemma shifted_bound:
  fixes a b k :: nat
  assumes "a < k" "b < 256"
  shows "a * 256 + b < k * 256"
proof -
  have "a * 256 + 256 \<le> k * 256" using mult_le_mono1 [of "Suc a" k 256] assms(1) by simp
  then show ?thesis using assms(2) by simp
qed

lemma groups_bound:
  fixes a b c :: nat
  assumes "a < 256" "b < 256"
  shows "(a * 256 + b) * 4 < 262144 \<and> (c < 256 \<longrightarrow> (a * 256 + b) * 256 + c < 16777216)"
proof -
  have "a * 256 + b < 65536" using shifted_bound [OF assms] by simp
  then show ?thesis using shifted_bound [of "a * 256 + b" 65536 c] by simp
qed

text \<open>The digits of three bytes in base 64, and back.\<close>

lemma digits64:
  fixes n :: nat
  shows "n < 4096 \<Longrightarrow> n div 64 mod 64 * 64 + n mod 64 = n"
    and "n < 262144 \<Longrightarrow> (n div 4096 mod 64 * 64 + n div 64 mod 64) * 64 + n mod 64 = n"
    and "n < 16777216 \<Longrightarrow>
      ((n div 262144 mod 64 * 64 + n div 4096 mod 64) * 64 + n div 64 mod 64) * 64 + n mod 64 = n"
proof -
  have two: "m < 4096 \<Longrightarrow> m div 64 mod 64 * 64 + m mod 64 = m" for m :: nat
  proof -
    assume "m < 4096"
    then have "m div 64 < 64" by (simp add: less_mult_imp_div_less)
    then show "m div 64 mod 64 * 64 + m mod 64 = m" by (simp add: div_mult_mod_eq)
  qed
  have three: "m < 262144 \<Longrightarrow> (m div 4096 mod 64 * 64 + m div 64 mod 64) * 64 + m mod 64 = m" for m :: nat
  proof -
    assume "m < 262144"
    then have "m div 64 < 4096" by (simp add: less_mult_imp_div_less)
    moreover have "m div 4096 = m div 64 div 64" by (simp add: div_mult2_eq [symmetric])
    ultimately show ?thesis by (simp only: two div_mult_mod_eq)
  qed
  show "n < 4096 \<Longrightarrow> n div 64 mod 64 * 64 + n mod 64 = n" by (rule two)
  show "n < 262144 \<Longrightarrow> (n div 4096 mod 64 * 64 + n div 64 mod 64) * 64 + n mod 64 = n" by (rule three)
  assume "n < 16777216"
  then have "n div 64 < 262144" by (simp add: less_mult_imp_div_less)
  moreover have "n div 262144 = n div 64 div 4096" "n div 4096 = n div 64 div 64"
    by (simp_all add: div_mult2_eq [symmetric])
  ultimately show "((n div 262144 mod 64 * 64 + n div 4096 mod 64) * 64 + n div 64 mod 64) * 64 + n mod 64 = n"
    by (simp only: three div_mult_mod_eq)
qed

lemma bytes_of:
  fixes a b c :: nat
  assumes "a < 256" "b < 256" "c < 256"
  shows "((a * 256 + b) * 256 + c) div 65536 = a" "((a * 256 + b) * 256 + c) div 256 = a * 256 + b"
proof -
  show two: "((a * 256 + b) * 256 + c) div 256 = a * 256 + b" using assms by simp
  have "((a * 256 + b) * 256 + c) div 65536 = ((a * 256 + b) * 256 + c) div 256 div 256"
    by (simp add: div_mult2_eq [symmetric])
  then show "((a * 256 + b) * 256 + c) div 65536 = a" using two assms by simp
qed

lemma decode_groups_base64: "decode_groups (base64 s) = Some s"
proof (induction s rule: base64.induct)
  case (2 x)
  define n where "n = (of_char x :: nat) * 16"
  have "n < 4096" using of_char_bound [of x] by (simp add: n_def)
  note d = digits64(1) [OF this]
  have "byte (n div 16) = x" by (simp add: n_def)
  moreover have "base64 [x] = [base64_char (n div 64), base64_char n, CHR ''='', CHR ''='']"
    unfolding n_def by (simp only: base64.simps Let_def append_Cons append_Nil)
  ultimately show ?case
    by (simp only: decode_groups.simps base64_value_char base64_value_pad prod.case option.case Let_def d simp_thms if_True)
next
  case (3 x y)
  let ?a = "of_char x :: nat" and ?b = "of_char y :: nat"
  define n where "n = (?a * 256 + ?b) * 4"
  have b: "?a < 256" "?b < 256" by (rule of_char_bound)+
  have "n < 262144" unfolding n_def using groups_bound [OF b] by blast
  note d = digits64(2) [OF this]
  have "n div 4 = ?a * 256 + ?b" by (simp add: n_def)
  moreover have "n div 1024 = n div 4 div 256" by (simp add: div_mult2_eq [symmetric])
  ultimately have "byte (n div 1024) = x" "byte (n div 4) = y" using b by (simp_all add: byte_def)
  moreover have "base64 [x, y] = [base64_char (n div 4096), base64_char (n div 64), base64_char n, CHR ''='']"
    unfolding n_def by (simp only: base64.simps Let_def append_Cons append_Nil)
  ultimately show ?case
    by (simp only: decode_groups.simps base64_value_char base64_value_pad prod.case option.case Let_def d simp_thms if_True)
next
  case (4 x y z s)
  define n where "n = ((of_char x :: nat) * 256 + of_char y) * 256 + of_char z"
  have b: "(of_char x :: nat) < 256" "(of_char y :: nat) < 256" "(of_char z :: nat) < 256" by (rule of_char_bound)+
  have "n < 16777216" unfolding n_def using groups_bound [OF b(1,2)] b(3) by blast
  note d = digits64(3) [OF this]
  have "n mod 256 = of_char z" unfolding n_def using b(3) by (simp only: mod_mult_self3 mod_less)
  moreover have "n div 65536 = of_char x" "n div 256 = of_char x * 256 + of_char y"
    unfolding n_def using bytes_of [OF b] by simp_all
  ultimately have "byte (n div 65536) = x" "byte (n div 256) = y" "byte n = z" using b by (simp_all add: byte_def)
  moreover have "base64 (x # y # z # s) = [base64_char (n div 262144), base64_char (n div 4096),
      base64_char (n div 64), base64_char n] @ base64 s"
    unfolding n_def by (simp only: base64.simps Let_def)
  ultimately show ?case
    by (simp only: append_Cons append_Nil decode_groups.simps base64_value_char prod.case option.case Let_def d 4 option.map)
qed simp

lemma base64_no_breaks: "c \<in> set (base64 s) \<Longrightarrow> c \<noteq> CHR 0x0A \<and> c \<noteq> CHR 0x0D"
  by (induction s rule: base64.induct) (auto simp: Let_def)

lemma base64_roundtrip [simp]: "base64_decode (base64 s) = Some s"
proof -
  have "filter (\<lambda>c. c \<noteq> CHR 0x0A \<and> c \<noteq> CHR 0x0D) (base64 s) = base64 s"
    using base64_no_breaks by (auto simp: filter_id_conv)
  then show ?thesis by (simp add: base64_decode_def decode_groups_base64)
qed

section \<open>Credentials\<close>

lemma header_set [simp]: "get_header (set_header name v h) name = v"
  by (simp add: get_header_def set_header_def sval_def)

lemma header_same: "CanonicalKey a = CanonicalKey b \<Longrightarrow> get_header h a = get_header h b"
  by (simp add: get_header_def)

lemma Cut_first: "c \<notin> set u \<Longrightarrow> Cut (u @ c # p) c = (u, p, True)"
  by (induction u) auto

lemma BasicAuth_sent:
  assumes "CHR '':'' \<notin> set user"
  shows "BasicAuth (set_header ''Authorization'' (''Basic '' @ base64 (user @ '':'' @ pass)) h) = Some (user, pass)"
proof -
  have "EqualFold ''Basic '' ''Basic ''" by (simp add: EqualFold_def)
  then show ?thesis using Cut_first [OF assms, of pass] by (simp add: BasicAuth_def Let_def)
qed

text \<open>C24: The server lets the header that the classifier or the report processor builds from its
  credentials through exactly when both sides are configured with the same ones: the token of a
  header, the bearer token, or user and password, which survive base64; a user name with a colon
  is the one case left out, since basic authentication cannot carry it. (The report processor
  sets its custom headers afterwards, and may thereby replace this one.)\<close>

theorem credentials_agree:
  assumes "ma_Type S = au_Type C" and "CHR '':'' \<notin> set (au_Username C)"
    and "CanonicalKey (ma_Header S) = CanonicalKey (au_Header C)"
  shows "checkAuth S (auth_header C h) = None \<longleftrightarrow>
    (if au_Type C = ''bearer'' \<or> au_Type C = ''token'' then ma_Token S = au_Token C
     else if au_Type C = ''basic'' then ma_Username S = au_Username C \<and> ma_Password S = au_Password C
     else True)"
proof -
  consider "au_Type C = ''bearer''" | "au_Type C = ''token''" | "au_Type C = ''basic''"
    | "au_Type C \<noteq> ''bearer'' \<and> au_Type C \<noteq> ''token'' \<and> au_Type C \<noteq> ''basic''" by blast
  then show ?thesis
  proof cases
    case 1
    then show ?thesis using assms(1) by (auto simp: checkAuth_def auth_header_def)
  next
    case 2
    then show ?thesis using assms(1) header_same [OF assms(3)] by (auto simp: checkAuth_def auth_header_def)
  next
    case 3
    then show ?thesis using assms(1) BasicAuth_sent [OF assms(2)] by (auto simp: checkAuth_def auth_header_def)
  next
    case 4
    then show ?thesis using assms(1) by (simp add: checkAuth_def)
  qed
qed

theorem credentials_agree_witness:
  "checkAuth \<lparr> ma_Type = ''basic'', ma_Token = [], ma_Header = ''X-Auth-Token'', ma_Username = ''u'', ma_Password = ''p:q'' \<rparr>
     (auth_header \<lparr> au_Type = ''basic'', au_Header = ''x-auth-token'', au_Token = [], au_Username = ''u'',
        au_Password = ''p:q'' \<rparr> []) = None"
proof -
  have "CanonicalKey ''X-Auth-Token'' = CanonicalKey ''x-auth-token''" by code_simp
  then show ?thesis
    by (subst credentials_agree) simp_all
qed

section \<open>The server behind the network\<close>

text \<open>What the server makes of a request of a client: the URL ends in segments that are a parameter.\<close>

definition to_http :: "(string \<Rightarrow> string list) \<Rightarrow> request \<Rightarrow> served_request" where
  "to_http segments r =
     \<lparr> hq_Method = rq_Method r, hq_Path = segments (rq_URL r), hq_Header = rq_Header r,
       hq_Body = Some (case rq_Body r of None \<Rightarrow> [] | Some b \<Rightarrow> b) \<rparr>"

fun mock_run :: "mock_lib \<Rightarrow> (string \<Rightarrow> string list) \<Rightarrow> (nat \<Rightarrow> int) \<Rightarrow> nat \<Rightarrow> mock \<Rightarrow>
    (tls_client \<times> request) list \<Rightarrow> mock" where
  "mock_run L segments clock k m [] = m"
| "mock_run L segments clock k m (call # calls) =
     mock_run L segments clock (Suc k) (snd (newServeMux L (clock k) (to_http segments (snd call)) m)) calls"

text \<open>A network whose only host is the server, started in the given state; no handler sets Location.\<close>

definition mock_net :: "mock_lib \<Rightarrow> (string \<Rightarrow> string list) \<Rightarrow> (nat \<Rightarrow> int) \<Rightarrow> mock \<Rightarrow>
    (tls_client \<times> request) list \<Rightarrow> tls_client \<Rightarrow> request \<Rightarrow> string + http_answer" where
  "mock_net L segments clock m before client req =
     (let r = fst (newServeMux L (clock (length before)) (to_http segments req) (mock_run L segments clock 0 m before))
      in Inr \<lparr> an_Status = rs_Status r, an_Location = [], an_Body = Some (rs_Body r) \<rparr>)"

lemma mock_run_append:
  "mock_run L segments clock k m (xs @ ys) =
   mock_run L segments clock (k + length xs) (mock_run L segments clock k m xs) ys"
  by (induction xs arbitrary: k m) simp_all

section \<open>A report on its way\<close>

definition pdb_path :: "string list" where
  "pdb_path = [''pdb'', ''cmd'', ''v1'']"

definition store_report :: "report_env \<Rightarrow> (string \<times> any) list \<Rightarrow> PuppetDBCommand" where
  "store_report E report = \<lparr> Command = ''store report'', Version = 8, Payload = wire_report E report \<rparr>"

text \<open>An endpoint that leads to the server: PuppetDB's path, the server's credentials, a client that
  can be built.\<close>

definition leads_to :: "(string \<Rightarrow> string list) \<Rightarrow> mock_auth \<Rightarrow> report_env \<Rightarrow> process \<Rightarrow> EndpointConfig \<Rightarrow> bool" where
  "leads_to segments auth E p ep \<longleftrightarrow>
     ep_Processor ep = ''puppetdb'' \<and> segments (endpoint_url ep) = pdb_path \<and>
     n_NewRequest (re_net E) ''POST'' (endpoint_url ep) = None \<and>
     \<not> isl (fst (report_buildHTTPClient E ep p)) \<and>
     checkAuth auth (rq_Header (endpoint_request ep [])) = None"

text \<open>The body is a command the server reads as it was written.\<close>

definition readable :: "mock_lib \<Rightarrow> report_env \<Rightarrow> string \<Rightarrow> (string \<times> any) list \<Rightarrow> string \<Rightarrow> bool" where
  "readable L E json report body \<longleftrightarrow>
     re_UnmarshalReport E json = Inr report \<and> re_MarshalCommand E (store_report E report) = Inr body \<and>
     ml_Envelope L body = Inr \<lparr> ev_Command = ''store report'', ev_Version = 8,
       ev_Payload = AnyMap (wire_report E report) \<rparr> \<and> length body \<le> maxBodySize"

lemma registered_pdb: "registered L now pdb_path = Some (''POST'', handlePDBCommand L now)"
  by (simp add: registered_def pdb_path_def)

lemma wire_host: "sget (wire_report E report) ''certname'' = Some (field report ''host'')"
  by (simp add: wire_report_fields passed_fields_def)

lemma report_stored:
  assumes "readable L E json report body" and "leads_to segments (mk_auth m) E p ep"
  shows "newServeMux L now (to_http segments (endpoint_request ep body)) m =
    (json_response pdb_answer, m \<lparr> mk_pdbCommands := mk_pdbCommands m @
       [\<lparr> sc_ReceivedAt = now, sc_Command = ''store report'', sc_Version = 8,
          sc_Certname = as_string (field report ''host''), sc_Body = body \<rparr>] \<rparr>)"
proof -
  have auth: "checkAuth (mk_auth m) (rq_Header (endpoint_request ep body)) = None"
    using assms(2) by (simp add: leads_to_def endpoint_request_def)
  have path: "segments (rq_URL (endpoint_request ep body)) = pdb_path"
    using assms(2) by (simp add: leads_to_def endpoint_request_def)
  have host: "payload_certname (AnyMap (wire_report E report)) = as_string (field report ''host'')"
    by (simp add: payload_certname_def field_def wire_host)
  show ?thesis
    using assms(1) auth host unfolding readable_def
    by (simp add: newServeMux_def to_http_def path registered_pdb handlePDBCommand_def with_body_def
        authenticated_def limited_body_def) (simp add: endpoint_request_def)
qed

lemma endpoint_attempt:
  assumes "readable L E json report body" and "leads_to segments a E p ep"
  obtains client where "attempt E json p ep = Some (client, endpoint_request ep body)"
proof -
  obtain client where "fst (report_buildHTTPClient E ep p) = Inr client"
    using assms(2) by (cases "fst (report_buildHTTPClient E ep p)") (auto simp: leads_to_def)
  then show thesis
    using that assms by (simp add: attempt_def endpoint_body_def transformToPuppetDB_def readable_def
        store_report_def leads_to_def)
qed

lemma reports_arrive:
  assumes "readable L E json report body" and "\<forall>ep \<in> set eps. leads_to segments a E p ep" and "mk_auth m = a"
  shows "\<exists>m'. mock_run L segments clock k m (List.map_filter (attempt E json p) eps) = m' \<and> mk_auth m' = a \<and>
    map (\<lambda>c. (sc_Command c, sc_Version c, sc_Certname c, sc_Body c)) (mk_pdbCommands m') =
      map (\<lambda>c. (sc_Command c, sc_Version c, sc_Certname c, sc_Body c)) (mk_pdbCommands m) @
      replicate (length eps) (''store report'', 8, as_string (field report ''host''), body)"
  using assms(2,3)
proof (induction eps arbitrary: k m)
  case Nil
  then show ?case by (simp add: List.map_filter_def)
next
  case (Cons ep eps)
  have lead: "leads_to segments (mk_auth m) E p ep" using Cons.prems by simp
  obtain client where at: "attempt E json p ep = Some (client, endpoint_request ep body)"
    using endpoint_attempt [OF assms(1) lead] .
  let ?m = "snd (newServeMux L (clock k) (to_http segments (endpoint_request ep body)) m)"
  have m: "mk_auth ?m = a" using report_stored [OF assms(1) lead] Cons.prems(2) by simp
  have rest: "\<forall>ep \<in> set eps. leads_to segments a E p ep" using Cons.prems(1) by simp
  show ?case
    using Cons.IH [OF rest m, of "Suc k"] at report_stored [OF assms(1) lead, of "clock k"]
    by (simp add: List.map_filter_def)
qed

lemma reports_accepted:
  assumes "readable L E json report body" and "\<forall>ep \<in> set eps. leads_to segments a E p ep"
    and "n_RoundTrip (re_net E) = mock_net L segments clock m" and "mk_auth (mock_run L segments clock 0 m before) = a"
  shows "all_accepted E before (map (attempt E json p) eps) \<and>
    concat (conversations E before (List.map_filter (attempt E json p) eps)) = List.map_filter (attempt E json p) eps"
  using assms(2,4)
proof (induction eps arbitrary: before)
  case (Cons ep eps)
  let ?m = "mock_run L segments clock 0 m before"
  have lead: "leads_to segments (mk_auth ?m) E p ep" using Cons.prems by simp
  obtain client where at: "attempt E json p ep = Some (client, endpoint_request ep body)"
    using endpoint_attempt [OF assms(1) lead] .
  let ?call = "(client, endpoint_request ep body)"
  note stored = report_stored [OF assms(1) lead]
  have answer: "n_RoundTrip (re_net E) before client (endpoint_request ep body) =
      Inr \<lparr> an_Status = 200, an_Location = [], an_Body = Some (rs_Body (json_response pdb_answer)) \<rparr>"
    by (simp add: assms(3) mock_net_def stored json_response_def Let_def)
  have talk: "conversation E before ?call = [?call]" and "accepted E before ?call"
    using converse_plain [OF answer] by (simp_all add: conversation_def accepted_def is_redirect_def)
  moreover have "mk_auth (mock_run L segments clock 0 m (before @ [?call])) = a"
    using Cons.prems(2) by (simp add: mock_run_append stored)
  ultimately show ?case using Cons at talk by (simp add: List.map_filter_def)
qed (simp add: List.map_filter_def)

text \<open>C25: A report that the report processor forwards to endpoints of the test server arrives: with
  credentials the server accepts and a JSON library that reads what it wrote, the program exits
  with 0 and the server has recorded, for every endpoint and in their order, one command store
  report of version 8 under the certname of the report's host, and no other command.\<close>

theorem forwarded_report_recorded:
  assumes "usable_input E f p = Some (cfg, json)" and "sent p = []"
    and "n_RoundTrip (re_net E) = mock_net L segments clock m"
    and "readable L E json report body" and "list_all (leads_to segments (mk_auth m) E p) (Endpoints cfg)"
  shows "fst (report_main E f p) = 0 \<and>
    map (\<lambda>c. (sc_Command c, sc_Version c, sc_Certname c, sc_Body c))
        (mk_pdbCommands (mock_run L segments clock 0 m (sent (snd (report_main E f p))))) =
      map (\<lambda>c. (sc_Command c, sc_Version c, sc_Certname c, sc_Body c)) (mk_pdbCommands m) @
      replicate (length (Endpoints cfg)) (''store report'', 8, as_string (field report ''host''), body)"
proof -
  have eps: "\<forall>ep \<in> set (Endpoints cfg). leads_to segments (mk_auth m) E p ep" using assms(5) by (simp add: list_all_iff)
  have arrived: "all_accepted E (sent p) (map (attempt E json p) (Endpoints cfg)) \<and>
      concat (conversations E (sent p) (List.map_filter (attempt E json p) (Endpoints cfg))) =
        List.map_filter (attempt E json p) (Endpoints cfg)"
    by (rule reports_accepted [OF assms(4) eps assms(3)]) (simp add: assms(2))
  moreover have "sent (snd (report_main E f p)) = List.map_filter (attempt E json p) (Endpoints cfg)"
    using assms(1,2) arrived by (simp add: report_main_cases forward_all_state)
  ultimately show ?thesis
    using reports_arrive [OF assms(4) eps refl] assms(1,2) by (simp add: report_main_cases forward_all_errors)
qed

definition demo_endpoint :: EndpointConfig where
  "demo_endpoint = \<lparr> ep_Name = ''db'', ep_Processor = ''puppetdb'', ep_URL = ''http://mock'', ep_TimeoutSeconds = 30,
     ep_Auth = \<lparr> au_Type = ''bearer'', au_Header = [], au_Token = ''t'', au_Username = [], au_Password = [] \<rparr>,
     ep_SSL = \<lparr> ssl_CertFile = [], ssl_KeyFile = [], ssl_CAFile = [] \<rparr>, ep_Headers = [] \<rparr>"

definition host_report :: "(string \<times> any) list" where
  "host_report = [(''host'', AnyString ''web'')]"

definition demo_report_env :: "net_env \<Rightarrow> report_env" where
  "demo_report_env N = \<lparr> re_net = N, re_Stdin = Some ''{}'',
     re_UnmarshalConfig = (\<lambda>_. Inr \<lparr> Endpoints = [demo_endpoint, demo_endpoint] \<rparr>),
     re_UnmarshalReport = (\<lambda>_. Inr host_report), re_MarshalCommand = (\<lambda>_. Inr ''cmd''), re_ParseTime = (\<lambda>_. None),
     re_FormatTime = (\<lambda>_. ''now''), re_SecondsToDuration = (\<lambda>_. 0), re_ShowValue = (\<lambda>_. []), re_Now = 0 \<rparr>"

definition quiet_net :: net_env where
  "quiet_net = \<lparr> n_AppendCertsFromPEM = (\<lambda>_. True), n_X509KeyPair = (\<lambda>_ _. None), n_NewRequest = (\<lambda>_ _. None),
     n_RoundTrip = (\<lambda>_ _ _. Inl ''none''), n_Resolve = (\<lambda>_ _. None), n_SameDomain = (=), n_Referer = (\<lambda>_ _ _. []), n_Marshal = (\<lambda>_. Inr []) \<rparr>"

definition demo_mock_lib :: mock_lib where
  "demo_mock_lib = \<lparr> ml_Envelope = (\<lambda>_. Inr \<lparr> ev_Command = ''store report'', ev_Version = 8,
       ev_Payload = AnyMap (wire_report (demo_report_env quiet_net) host_report) \<rparr>),
     ml_Valid = (\<lambda>_. True), ml_Encode = (\<lambda>_. Some []), ml_UnmarshalClassifications = (\<lambda>_. Inr None) \<rparr>"

definition demo_mock :: mock where
  "demo_mock = initial_mock (\<lambda>v. if v = ''AUTH_TYPE'' then ''bearer'' else if v = ''AUTH_TOKEN'' then ''t'' else [])"

definition mock_env :: report_env where
  "mock_env = demo_report_env (quiet_net
     \<lparr> n_RoundTrip := mock_net demo_mock_lib (\<lambda>_. pdb_path) (\<lambda>_. 0) demo_mock \<rparr>)"

lemma wire_report_net: "wire_report (demo_report_env N) host_report = wire_report (demo_report_env N') host_report"
  by (simp add: wire_report_def calculateEndTime_def demo_report_env_def host_report_def field_def transformResources_def
      Let_def)

theorem forwarded_report_recorded_witness:
  "let p = \<lparr> files = (\<lambda>_. Some []), sent = [] \<rparr> in
   fst (report_main mock_env None p) = 0 \<and>
   map sc_Certname (mk_pdbCommands (mock_run demo_mock_lib (\<lambda>_. pdb_path) (\<lambda>_. 0) 0 demo_mock
     (sent (snd (report_main mock_env None p))))) = [''web'', ''web'']"
proof -
  let ?p = "\<lparr> files = (\<lambda>_. Some []), sent = [] \<rparr>" and ?cfg = "\<lparr> Endpoints = [demo_endpoint, demo_endpoint] \<rparr>"
  have input: "usable_input mock_env None ?p = Some (?cfg, ''{}'')"
    by (simp add: usable_input_def report_config_def loadReportConfig_def mock_env_def demo_report_env_def demo_endpoint_def)
  have net: "n_RoundTrip (re_net mock_env) = mock_net demo_mock_lib (\<lambda>_. pdb_path) (\<lambda>_. 0) demo_mock"
    by (simp add: mock_env_def demo_report_env_def)
  have "wire_report mock_env host_report = wire_report (demo_report_env quiet_net) host_report"
    unfolding mock_env_def by (rule wire_report_net)
  then have read: "readable demo_mock_lib mock_env ''{}'' host_report ''cmd''"
    by (simp add: readable_def demo_mock_lib_def maxBodySize_def) (simp add: mock_env_def demo_report_env_def)
  have "leads_to (\<lambda>_. pdb_path) (mk_auth demo_mock) mock_env ?p demo_endpoint"
    by (simp add: leads_to_def mock_env_def demo_report_env_def quiet_net_def demo_endpoint_def demo_mock_def initial_mock_def
        report_buildHTTPClient_def build_client_def bnd_def ret_def endpoint_request_def auth_header_def checkAuth_def)
  then have lead: "list_all (leads_to (\<lambda>_. pdb_path) (mk_auth demo_mock) mock_env ?p) (Endpoints ?cfg)" by simp
  show ?thesis
    using forwarded_report_recorded [OF input _ net read lead]
    by (auto simp: Let_def demo_mock_def initial_mock_def host_report_def field_def as_string_def numeral_2_eq_2
        map_eq_Cons_conv)
qed

end
