(* ===== verification/Startup.thy ===== *)
theory Startup
  imports ConfigApi CertDerived
begin

text \<open>
  What surrounds the controllers: the start of the operator (cmd/main.go) as a sequence of steps
  each of which may fail, the field indexes (indexers.go) and the gauges (metrics.go).  The
  manager of controller-runtime is a parameter: it decides which steps succeed.
\<close>

section \<open>The start of the operator\<close>

record flags =
  fl_metricsAddr :: string
  fl_secureMetrics :: bool
  fl_metricsCertDir :: string
  fl_probeAddr :: string
  fl_enableLeaderElection :: bool
  fl_enableWebhooks :: bool
  fl_enableGatewayAPI :: bool
  fl_watchNamespace :: string

definition default_flags :: flags where
  "default_flags = \<lparr> fl_metricsAddr = '':8080'', fl_secureMetrics = False, fl_metricsCertDir = [],
     fl_probeAddr = '':8081'', fl_enableLeaderElection = False, fl_enableWebhooks = False,
     fl_enableGatewayAPI = True, fl_watchNamespace = [] \<rparr>"

record metrics_options =
  mo_BindAddress :: string
  mo_SecureServing :: bool
  mo_Authenticated :: bool
  mo_CertDir :: string
  mo_CertName :: string
  mo_KeyName :: string

definition metricsOptions :: "string \<Rightarrow> bool \<Rightarrow> string \<Rightarrow> metrics_options" where
  "metricsOptions addr secure certDir =
     (if \<not> secure then
        \<lparr> mo_BindAddress = addr, mo_SecureServing = False, mo_Authenticated = False,
          mo_CertDir = [], mo_CertName = [], mo_KeyName = [] \<rparr>
      else
        \<lparr> mo_BindAddress = addr, mo_SecureServing = True, mo_Authenticated = True,
          mo_CertDir = certDir, mo_CertName = (if certDir \<noteq> [] then ''tls.crt'' else []),
          mo_KeyName = (if certDir \<noteq> [] then ''tls.key'' else []) \<rparr>)"

text \<open>ctrl.Options; an empty list of namespaces is the whole cluster, an empty election namespace
  the one of the operator, and the webhook server exists only with its port.\<close>

record manager_options =
  go_Metrics :: metrics_options
  go_HealthProbeBindAddress :: string
  go_LeaderElection :: bool
  go_LeaderElectionID :: string
  go_LeaderElectionNamespace :: string
  go_DefaultNamespaces :: "string list"
  go_WebhookPort :: "int option"

definition manager_options_of :: "flags \<Rightarrow> manager_options" where
  "manager_options_of f =
     \<lparr> go_Metrics = metricsOptions (fl_metricsAddr f) (fl_secureMetrics f) (fl_metricsCertDir f),
       go_HealthProbeBindAddress = fl_probeAddr f, go_LeaderElection = fl_enableLeaderElection f,
       go_LeaderElectionID = ''openvox-operator.voxpupuli.org'',
       go_LeaderElectionNamespace = fl_watchNamespace f,
       go_DefaultNamespaces = (if fl_watchNamespace f \<noteq> [] then [fl_watchNamespace f] else []),
       go_WebhookPort = (if fl_enableWebhooks f then Some 9443 else None) \<rparr>"

text \<open>The controllers in the order they are set up; the one for Pools knows whether there are TLSRoutes.\<close>

datatype controller_setup = SetupConfig | SetupCertificateAuthority | SetupCertificate | SetupPool bool
  | SetupServer | SetupDatabase | SetupReportProcessor | SetupSigningPolicy | SetupNodeClassifier

datatype startup_step = NewManager manager_options | SetupFieldIndexers | FindTLSRoute
  | SetupController controller_setup | SetupWebhooks | AddHealthzCheck | AddReadyzCheck | StartManager

text \<open>The environment says which step succeeds after which others.\<close>

type_synonym startup_env = "startup_step list \<Rightarrow> startup_step \<Rightarrow> bool"

text \<open>Steps one after the other; the first that fails is logged and ends the program with 1.\<close>

fun run_startup :: "startup_env \<Rightarrow> startup_step list \<Rightarrow> startup_step list \<Rightarrow> nat option \<times> startup_step list" where
  "run_startup E done [] = (None, done)"
| "run_startup E done (s # ss) =
     (if E done s then run_startup E (done @ [s]) ss else (Some 1, done @ [s]))"

definition first_steps :: "flags \<Rightarrow> startup_step list" where
  "first_steps f = [NewManager (manager_options_of f), SetupFieldIndexers, SetupController SetupConfig,
     SetupController SetupCertificateAuthority, SetupController SetupCertificate]"

definition last_steps :: "flags \<Rightarrow> bool \<Rightarrow> startup_step list" where
  "last_steps f gatewayAPIAvailable =
     [SetupController (SetupPool gatewayAPIAvailable), SetupController SetupServer, SetupController SetupDatabase,
      SetupController SetupReportProcessor, SetupController SetupSigningPolicy, SetupController SetupNodeClassifier] @
     (if fl_enableWebhooks f then [SetupWebhooks] else []) @ [AddHealthzCheck, AddReadyzCheck, StartManager]"

text \<open>main: a TLSRoute resource is looked for only if the flag asks for it, and its absence is no
  error.  The exit code 0 stands for a manager that was stopped by a signal.\<close>

definition operator_main :: "startup_env \<Rightarrow> flags \<Rightarrow> nat \<times> startup_step list" where
  "operator_main E f =
     (case run_startup E [] (first_steps f) of
        (Some code, done) \<Rightarrow> (code, done)
      | (None, done) \<Rightarrow>
          (let available = (fl_enableGatewayAPI f \<and> E done FindTLSRoute);
               done' = (if fl_enableGatewayAPI f then done @ [FindTLSRoute] else done) in
           case run_startup E done' (last_steps f available) of
             (Some code, all) \<Rightarrow> (code, all)
           | (None, all) \<Rightarrow> (0, all)))"

text \<open>The whole start, of which a run does a part from the beginning.\<close>

definition startup_plan :: "flags \<Rightarrow> bool \<Rightarrow> startup_step list" where
  "startup_plan f available = first_steps f @ (if fl_enableGatewayAPI f then [FindTLSRoute] else []) @
     last_steps f available"

lemma run_startup_prefix:
  "run_startup E before steps = (r, all) \<Longrightarrow>
   \<exists>n. all = before @ take n steps \<and> (r = None \<longrightarrow> length steps \<le> n) \<and> (r \<noteq> None \<longrightarrow> r = Some 1 \<and> \<not> E (butlast all) (last all))"
proof (induction E before steps rule: run_startup.induct)
  case (1 E before)
  then show ?case by auto
next
  case (2 E before s ss)
  show ?case
  proof (cases "E before s")
    case True
    have run: "run_startup E (before @ [s]) ss = (r, all)" using 2(2) True by simp
    obtain n where n: "all = (before @ [s]) @ take n ss" "r = None \<longrightarrow> length ss \<le> n"
        "r \<noteq> None \<longrightarrow> r = Some 1 \<and> \<not> E (butlast all) (last all)"
      using 2(1) [OF True run] by blast
    have "all = before @ take (Suc n) (s # ss)" "r = None \<longrightarrow> length (s # ss) \<le> Suc n" using n(1,2) by simp_all
    then show ?thesis using n(3) by blast
  next
    case False
    then show ?thesis using 2 by (intro exI [of _ "Suc 0"]) auto
  qed
qed

text \<open>A start ends with 0 only after every step of the plan, and otherwise with 1 right after the
  step that failed.\<close>

theorem startup_is_prefix:
  "\<exists>available n. (available \<longrightarrow> fl_enableGatewayAPI f) \<and>
     snd (operator_main E f) = take n (startup_plan f available) \<and>
     (fst (operator_main E f) = 0 \<and> length (startup_plan f available) \<le> n \<or>
      fst (operator_main E f) = 1 \<and> \<not> E (butlast (snd (operator_main E f))) (last (snd (operator_main E f))))"
proof -
  obtain r before where run: "run_startup E [] (first_steps f) = (r, before)" by (cases "run_startup E [] (first_steps f)")
  obtain n where n: "before = take n (first_steps f)" "r = None \<longrightarrow> length (first_steps f) \<le> n"
      "r \<noteq> None \<longrightarrow> r = Some 1 \<and> \<not> E (butlast before) (last before)"
    using run_startup_prefix [OF run] by auto
  show ?thesis
  proof (cases r)
    case (Some code)
    then have "operator_main E f = (1, before)" using run n(3) by (simp add: operator_main_def)
    moreover have "before = take (min n (length (first_steps f))) (startup_plan f False)"
      using n(1) by (simp add: startup_plan_def min_def)
    ultimately show ?thesis using n(3) Some
      by (intro exI [of _ False] exI [of _ "min n (length (first_steps f))"]) simp
  next
    case None
    let ?mid = "if fl_enableGatewayAPI f then [FindTLSRoute] else []"
    let ?avail = "fl_enableGatewayAPI f \<and> E before FindTLSRoute"
    have before: "before = first_steps f" using n None by simp
    obtain q all where run': "run_startup E (before @ ?mid) (last_steps f ?avail) = (q, all)"
      by (cases "run_startup E (before @ ?mid) (last_steps f ?avail)")
    obtain k where k: "all = (before @ ?mid) @ take k (last_steps f ?avail)"
        "q = None \<longrightarrow> length (last_steps f ?avail) \<le> k"
        "q \<noteq> None \<longrightarrow> q = Some 1 \<and> \<not> E (butlast all) (last all)"
      using run_startup_prefix [OF run'] by auto
    have "(if fl_enableGatewayAPI f then before @ [FindTLSRoute] else before) = before @ ?mid" by simp
    then have main: "operator_main E f = ((case q of Some code \<Rightarrow> code | None \<Rightarrow> 0), all)"
      using run run' None by (simp only: operator_main_def Let_def prod.case option.case) (simp split: option.split)
    have "all = take (length (before @ ?mid) + k) (startup_plan f ?avail)"
      unfolding k(1) startup_plan_def before by simp
    then show ?thesis
      using main k(2,3) by (intro exI [of _ ?avail] exI [of _ "length (before @ ?mid) + k"])
        (cases q; simp add: startup_plan_def before)
  qed
qed

section \<open>Field indexes\<close>

datatype indexed = IndexedServer Server | IndexedConfig Config | IndexedCertificate Certificate
  | IndexedDatabase Database

text \<open>The names of the indexes of a kind, with the values under which the cache files an object.\<close>

fun fieldIndexes :: "indexed \<Rightarrow> (string \<times> string list) list" where
  "fieldIndexes (IndexedServer s) =
     [(''spec.configRef'', nonEmpty (sv_ConfigRef s)), (''spec.certificateRef'', nonEmpty (sv_CertificateRef s))]"
| "fieldIndexes (IndexedConfig c) =
     [(''spec.authorityRef'', nonEmpty (cf_AuthorityRef (cfg_Spec c))),
      (''spec.nodeClassifierRef'', nonEmpty (cf_NodeClassifierRef (cfg_Spec c)))]"
| "fieldIndexes (IndexedCertificate c) =
     [(''spec.authorityRef'', nonEmpty (cs_AuthorityRef (c_Spec c))), (''spec.certname'', nonEmpty (certnameOf c))]"
| "fieldIndexes (IndexedDatabase d) = [(''spec.certificateRef'', nonEmpty (ds_CertificateRef (db_Spec d)))]"

text \<open>A listing with MatchingFields.\<close>

definition matching_fields :: "('a \<Rightarrow> indexed) \<Rightarrow> string \<Rightarrow> string \<Rightarrow> 'a list \<Rightarrow> 'a list" where
  "matching_fields as index v xs =
     filter (\<lambda>x. case map_of (fieldIndexes (as x)) index of None \<Rightarrow> False | Some vs \<Rightarrow> v \<in> set vs) xs"

section \<open>Gauges\<close>

text \<open>A gauge has one series for each pair of labels, the name and the namespace.\<close>

type_synonym gauge = "string \<times> string \<Rightarrow> int option"

record gauges =
  serverReplicasDesired :: gauge
  serverReplicasReady :: gauge
  certificateExpiryTimestamp :: gauge
  crlLastRefreshTimestamp :: gauge

definition WithLabelValues_Set :: "string \<Rightarrow> string \<Rightarrow> int \<Rightarrow> gauge \<Rightarrow> gauge" where
  "WithLabelValues_Set name ns v g = g ((name, ns) \<mapsto> v)"

definition DeleteLabelValues :: "string \<Rightarrow> string \<Rightarrow> gauge \<Rightarrow> gauge" where
  "DeleteLabelValues name ns g = g ((name, ns) := None)"

definition forgetServerMetrics :: "string \<Rightarrow> string \<Rightarrow> gauges \<Rightarrow> gauges" where
  "forgetServerMetrics name ns g =
     g \<lparr> serverReplicasDesired := DeleteLabelValues name ns (serverReplicasDesired g),
         serverReplicasReady := DeleteLabelValues name ns (serverReplicasReady g) \<rparr>"

definition forgetCertificateMetrics :: "string \<Rightarrow> string \<Rightarrow> gauges \<Rightarrow> gauges" where
  "forgetCertificateMetrics name ns g =
     g \<lparr> certificateExpiryTimestamp := DeleteLabelValues name ns (certificateExpiryTimestamp g) \<rparr>"

definition forgetCertificateAuthorityMetrics :: "string \<Rightarrow> string \<Rightarrow> gauges \<Rightarrow> gauges" where
  "forgetCertificateAuthorityMetrics name ns g =
     g \<lparr> certificateExpiryTimestamp := DeleteLabelValues name ns (certificateExpiryTimestamp g),
         crlLastRefreshTimestamp := DeleteLabelValues name ns (crlLastRefreshTimestamp g) \<rparr>"

text \<open>What the controllers record: a Certificate and a CertificateAuthority their expiry, in one gauge.\<close>

definition record_replicas :: "Server \<Rightarrow> int \<Rightarrow> int \<Rightarrow> gauges \<Rightarrow> gauges" where
  "record_replicas s replicas ready g =
     (let name = m_Name (sv_Meta s); ns = m_Namespace (sv_Meta s) in
      g \<lparr> serverReplicasDesired := WithLabelValues_Set name ns replicas (serverReplicasDesired g),
          serverReplicasReady := WithLabelValues_Set name ns ready (serverReplicasReady g) \<rparr>)"

definition record_certificate_expiry :: "Certificate \<Rightarrow> int \<Rightarrow> gauges \<Rightarrow> gauges" where
  "record_certificate_expiry c notAfter g =
     g \<lparr> certificateExpiryTimestamp :=
           WithLabelValues_Set (m_Name (c_Meta c)) (m_Namespace (c_Meta c)) notAfter (certificateExpiryTimestamp g) \<rparr>"

definition record_ca_expiry :: "CertificateAuthority \<Rightarrow> int \<Rightarrow> gauges \<Rightarrow> gauges" where
  "record_ca_expiry ca notAfter g =
     g \<lparr> certificateExpiryTimestamp :=
           WithLabelValues_Set (m_Name (ca_Meta ca)) (m_Namespace (ca_Meta ca)) notAfter (certificateExpiryTimestamp g) \<rparr>"

definition record_crl_refresh :: "CertificateAuthority \<Rightarrow> int \<Rightarrow> gauges \<Rightarrow> gauges" where
  "record_crl_refresh ca now g =
     g \<lparr> crlLastRefreshTimestamp :=
           WithLabelValues_Set (m_Name (ca_Meta ca)) (m_Namespace (ca_Meta ca)) now (crlLastRefreshTimestamp g) \<rparr>"

text \<open>A series of a gauge outlives no object that was forgotten, and touches only its labels.\<close>

lemma forgotten:
  "serverReplicasDesired (forgetServerMetrics n ns g) (n, ns) = None"
  "serverReplicasReady (forgetServerMetrics n ns g) (n, ns) = None"
  "certificateExpiryTimestamp (forgetCertificateMetrics n ns g) (n, ns) = None"
  "crlLastRefreshTimestamp (forgetCertificateAuthorityMetrics n ns g) (n, ns) = None"
  "(m, ms) \<noteq> (n, ns) \<Longrightarrow>
     certificateExpiryTimestamp (forgetCertificateMetrics n ns g) (m, ms) = certificateExpiryTimestamp g (m, ms)"
  by (auto simp: forgetServerMetrics_def forgetCertificateMetrics_def forgetCertificateAuthorityMetrics_def
      DeleteLabelValues_def)

text \<open>Certificates and CertificateAuthorities have separate names but share their series: with the
  same name in one namespace, the end of the Certificate drops the expiry of the
  CertificateAuthority.\<close>

theorem expiry_series_shared:
  assumes "m_Name (c_Meta c) = m_Name (ca_Meta ca)" and "m_Namespace (c_Meta c) = m_Namespace (ca_Meta ca)"
  shows "certificateExpiryTimestamp (forgetCertificateMetrics (m_Name (c_Meta c)) (m_Namespace (c_Meta c))
      (record_ca_expiry ca t g)) (m_Name (ca_Meta ca), m_Namespace (ca_Meta ca)) = None \<and>
    certificateExpiryTimestamp (record_certificate_expiry c t' (record_ca_expiry ca t g))
      (m_Name (ca_Meta ca), m_Namespace (ca_Meta ca)) = Some t'"
  using assms by (simp add: forgotten(3) record_certificate_expiry_def WithLabelValues_Set_def)

end
