(* ===== verification/Spec2Isabelle.thy ===== *)
theory Spec2Isabelle
  imports Autosign CertLifecycle EncClassifier ReportForward PoolCtl RenderStatus CAFailure CAGuard
    PodFiles WorkloadProps AdmissionProps CertWatch MockProps Startup
begin

text \<open>
  Verification development for the OpenVox operator.

  The operator runs OpenVox (Puppet) servers on Kubernetes. Its controllers under
  internal/controller reconcile the custom resources of api/v1alpha1, and small programs under
  cmd run inside the server pods. The parts meet through the API server: a controller reads its
  object and the objects that object refers to, changes Secrets, Services and status, and asks
  to be called again. The theories follow that structure.

  Prelude: the Go string and integer operations the code uses, string maps, and operations on a
  state that end in a value or an error, with the rules that lift a property of the single
  calls to a composed operation (keeps for state predicates, only for the calls made, succeeds
  for operations that cannot fail).

  PuppetOIDs, Glob, Autosign: internal/puppet and cmd/autosign, the policy program puppetserver
  runs to decide on a certificate request. Glob is filepath.Match of the Go library, which
  certname patterns are matched with. The theorems give the exit code a declarative reading,
  exclude privilege escalation, and show both greedy matchers exact for their pattern language.

  Duration, Kube, Api: duration parsing; object metadata, conditions, Secrets, errors and the
  locale of the laws the code expects of the Kubernetes libraries; the fields of the custom
  resources and the helpers of internal/controller/helpers.go that work on them.

  CertDerived, CertSigning, CertReconcile: the Certificate controller. CertDerived has its pure
  parts (the names a certificate is issued for, the digest that decides on re-signing, the
  renewal schedule), CertSigning its calls to the API and to the CA, CertReconcile the reconcile
  loop with signing, renewal, deletion and adoption. CertProps and CertLifecycle hold the
  theorems: what may be written and in which order, that a conflict is never signed,
  what a signing comes to, that deletion ends, that the steady state is quiet, and behaviours of
  the code that its comments do not intend. CertWatch has the watches of that controller and the theorem that no
  change of a Pool or a Server that changes the names of a certificate is missed.

  GoNet, EncClassifier, ReportForward: the parts of net/http, path and encoding the two programs
  under cmd/enc and cmd/report use, and the programs: one classification per run with a file
  cache behind it, and the forwarding of a report to the configured endpoints, with the
  transformation into PuppetDB's wire format. GoNet has http.Client.Do with the redirects it
  follows, at most nine after the first request; an answer of the network is one round trip.

  PoolCtl: the Pool controller, its Service and TLSRoute, and the rule by which Pools agree on
  the owner of a hostname (a locale over the order of their claims).

  ConfigApi, ConfigRender, ConfigWorld, RenderedSource, AutosignRender, ConfigCtl, RenderStatus:
  the configuration side. ConfigApi has its custom resources, ConfigRender the text of every
  file of the ConfigMap (config_rendering.go; auth.conf as a list of rules and its printer),
  ConfigWorld the calls of the Config controller, RenderedSource the annotation that records
  what a Secret was rendered from, AutosignRender the policy document for cmd/autosign,
  ConfigCtl the controller, RenderStatus the controllers that report whether a SigningPolicy,
  NodeClassifier or ReportProcessor reached its Secret. The theorems compose them: the document
  is a refinement of a configuration of the autosign program and unambiguous, the certname that
  auth.conf makes an administrator without a rule of the user's own is refused by that program,
  the reported status agrees with what was rendered, and a failed look-up never degrades the
  configuration.

  CAWorld, CASetup, CACtl, CAProps, CAFailure, CAGuard: the CertificateAuthority controller.
  CAWorld has its calls, its environment and what its parts share (status, events, watches),
  CASetup the volume, the Service, the RBAC, the setup Job with its script and its retry budget,
  CACtl the signing certificate of the operator, the refresh of the revocation list, external
  CAs, the deletion guard and Reconcile. CAProps bounds the retries of a failing setup, CAFailure
  shows that a setup that was given up is reported ready all the same, CAGuard that the CA goes
  exactly when no Certificate needs it, that a refresh keeps the list of the infrastructure,
  and what may be written before the CA is active.

  Workload, DatabaseCtl, ServerPod, ServerCtl, PodFiles, WorkloadProps: the controllers of
  Server and Database. Workload has what both share, over a locale owned_child: the contract of
  a child object (read it, check who controls it, then create, change or delete it), proved
  once and interpreted on the disruption budget, the network policy, the autoscaler, the Service,
  the ConfigMap, the Deployment and the Secret. ServerPod builds the pod of a Server out of one
  part per feature, ServerCtl and DatabaseCtl have Reconcile and the watches. WorkloadProps
  shows that only children under control of the owner are touched, and only after their
  prerequisites were read, and which selectors match the pods; PodFiles that the pod template
  is well-formed and that the files it mounts are files the Config controller renders.

  Admission, AdmissionProps: the validating webhooks of internal/webhook, and how they fit the
  controllers: an inductive step relation over the Configs and Certificates of a namespace,
  whose invariant is that every claim has one holder, by a locale (claim_guard) that both
  validators interpret; and two theorems on where they do not fit, a Certificate that can no
  longer be deleted and a refusal the guard does not make.

  MockServer, MockProps: the HTTP server of cmd/mock that the end-to-end tests run the two
  programs against, and the two programs run against it: the credentials they send are read
  back, and a forwarded report is recorded once for every endpoint.

  Startup: the start of the operator (cmd/main.go), the field indexes and the gauges.

  Environment. Every call of the API server, the CA and the clock is answered by a function of
  the calls made before, so that any interleaving with other clients and any failure is one
  environment, and a theorem over all environments holds under all of them. The calls are
  recorded in the state in their order. Library functions outside the repository are fields of
  a record (kube_lib, crypto, parsers); theorems that need their documented behaviour assume the
  locale kube_laws, which is interpreted on a reference implementation. Retries on conflict are
  bounded by the number of attempts of the environment, as in the Go library; no theorem depends
  on its value. Times are nanoseconds; where Go's 64-bit integers can overflow the wrap-around is
  written out. The clock is a function of the history too; where the code reads it twice in a row
  there are two readings. An HTTP call of a controller is one Client.Do, with the redirects it
  may follow inside the answer; only in GoNet are they requests of their own.

  Bounds. The recursions over lists are structural; the retry of a status update is bounded by
  the attempts of the environment; the deletion theorem takes five reconciles because the code
  gives up after five (maxCleanupAttempts), the retries of the setup Job end with
  maxSetupAttempts. In AdmissionProps admissions come one after the other, each with the
  objects the ones before it left; two admissions at the same time, each with a listing that
  lacks the other object, are what the check in the controller is for.

  Not modelled: logging, contexts and cancellation, the flags and the internals of the manager of
  controller-runtime (its queues, its cache, its election of a leader), the refresh of an object
  in memory from the answer to a patch or a status update, the moments at which a
  controller sets a gauge (Startup has what it sets), the joining of field errors into the text
  of a refusal, and the generated deep copies of zz_generated.deepcopy.go, whose effect holds
  by construction for values.
\<close>

end
